(* ===== verification/Prelude.thy ===== *)
theory Prelude
  imports Complex_Main "HOL-Library.AList"
begin

text \<open>
  Shared vocabulary of the development.

  Python dictionaries keep insertion order and the code iterates over them, so a
  dictionary is an association list (\<open>dict\<close>): \<open>dget\<close> is \<open>d.get(k)\<close>, \<open>dset\<close> is
  \<open>d[k] = v\<close> (in place when the key exists, appended otherwise), \<open>dpop\<close> is
  \<open>d.pop(k, None)\<close>.  \<open>dict_wf\<close> says that no key occurs twice, which every operation
  preserves.  \<open>clock\<close> is the type of the readings of \<open>time.time()\<close> (seconds).
\<close>

named_theorems dict_simps \<open>how dictionary operations act on lookups and keys\<close>

type_synonym ('k, 'v) dict = "('k \<times> 'v) list"

type_synonym clock = rat

abbreviation dget :: "('k, 'v) dict \<Rightarrow> 'k \<Rightarrow> 'v option" where
  "dget d k \<equiv> map_of d k"

abbreviation dset :: "'k \<Rightarrow> 'v \<Rightarrow> ('k, 'v) dict \<Rightarrow> ('k, 'v) dict" where
  "dset \<equiv> AList.update"

abbreviation dpop :: "'k \<Rightarrow> ('k, 'v) dict \<Rightarrow> ('k, 'v) dict" where
  "dpop \<equiv> AList.delete"

definition dget_default :: "('k, 'v) dict \<Rightarrow> 'k \<Rightarrow> 'v \<Rightarrow> 'v" where
  "dget_default d k v = (case dget d k of None \<Rightarrow> v | Some w \<Rightarrow> w)"

definition dict_wf :: "('k, 'v) dict \<Rightarrow> bool" where
  "dict_wf d \<longleftrightarrow> distinct (map fst d)"

definition dkeys_where :: "('k \<Rightarrow> 'v \<Rightarrow> bool) \<Rightarrow> ('k, 'v) dict \<Rightarrow> 'k list" where
  "dkeys_where P d = map fst (filter (\<lambda>(k, v). P k v) d)"

definition dpop_all :: "'k list \<Rightarrow> ('k, 'v) dict \<Rightarrow> ('k, 'v) dict" where
  "dpop_all ks d = fold dpop ks d"

section \<open>Dictionaries\<close>

lemma dget_dset [simp, dict_simps]:
  "dget (dset k v d) k' = (if k' = k then Some v else dget d k')"
  by (simp add: update_conv)

lemma dget_dpop [simp, dict_simps]:
  "dget (dpop k d) k' = (if k' = k then None else dget d k')"
  by (simp add: delete_conv)

lemma dict_wf_Nil [simp, intro]: "dict_wf []"
  by (simp add: dict_wf_def)

lemma dict_wf_dset [simp, intro]: "dict_wf d \<Longrightarrow> dict_wf (dset k v d)"
  unfolding dict_wf_def by (rule distinct_update)

lemma dict_wf_dpop [simp, intro]: "dict_wf d \<Longrightarrow> dict_wf (dpop k d)"
  unfolding dict_wf_def by (rule distinct_delete)

lemma dpop_all_eq_filter: "dpop_all ks d = filter (\<lambda>(k, v). k \<notin> set ks) d"
proof (induction ks arbitrary: d)
  case Nil
  then show ?case by (simp add: dpop_all_def case_prod_unfold)
next
  case (Cons a ks)
  have "dpop_all (a # ks) d = dpop_all ks (dpop a d)" by (simp add: dpop_all_def)
  also have "\<dots> = filter (\<lambda>(k, v). k \<notin> set ks) (dpop a d)" by (rule Cons.IH)
  also have "\<dots> = filter (\<lambda>(k, v). k \<notin> set (a # ks)) d"
    by (auto simp: AList.delete_eq case_prod_unfold intro!: filter_cong)
  finally show ?case .
qed

lemma dget_dpop_all [simp, dict_simps]:
  "dget (dpop_all ks d) k = (if k \<in> set ks then None else dget d k)"
  unfolding dpop_all_eq_filter by (induction d) auto

lemma dict_wf_dpop_all [simp, intro]: "dict_wf d \<Longrightarrow> dict_wf (dpop_all ks d)"
  unfolding dpop_all_eq_filter dict_wf_def by (simp add: distinct_map_filter)

lemma in_dkeys_where:
  "k \<in> set (dkeys_where P d) \<longleftrightarrow> (\<exists>v. (k, v) \<in> set d \<and> P k v)"
  by (force simp: dkeys_where_def)

lemma in_dkeys_where_wf [dict_simps]:
  assumes "dict_wf d"
  shows "k \<in> set (dkeys_where P d) \<longleftrightarrow> (\<exists>v. dget d k = Some v \<and> P k v)"
  using assms by (auto simp: in_dkeys_where dict_wf_def)

text \<open>Popping the keys whose entry satisfies \<open>P\<close> keeps exactly the other entries.\<close>

lemma dget_prune [dict_simps]:
  assumes "dict_wf d"
  shows "dget (dpop_all (dkeys_where P d) d) k =
    (case dget d k of None \<Rightarrow> None | Some v \<Rightarrow> if P k v then None else Some v)"
  using assms by (auto simp: in_dkeys_where_wf split: option.splits)

lemma length_dset: "length (dset k v d) = (if dget d k = None then Suc (length d) else length d)"
  by (induction d) auto

lemma length_dpop_all_le: "length (dpop_all ks d) \<le> length d"
  unfolding dpop_all_eq_filter by simp

lemma set_dset_subset: "set (dset k v d) \<subseteq> insert (k, v) (set d)"
  by (induction d) auto

lemma dget_in_set: "dget d k = Some v \<Longrightarrow> (k, v) \<in> set d"
  by (rule map_of_SomeD)

lemma in_set_dget: "dict_wf d \<Longrightarrow> (k, v) \<in> set d \<Longrightarrow> dget d k = Some v"
  by (simp add: dict_wf_def)

lemma length_dpop:
  assumes "dict_wf d" and "dget d k = Some v"
  shows "Suc (length (dpop k d)) = length d"
  using assms
proof (induction d)
  case Nil
  then show ?case by simp
next
  case (Cons p d)
  obtain a b where p: "p = (a, b)" by force
  show ?case
  proof (cases "a = k")
    case True
    with Cons.prems p have "k \<notin> fst ` set d" by (simp add: dict_wf_def)
    then have "dpop k d = d" by (simp add: delete_id)
    with True p show ?thesis by simp
  next
    case False
    with Cons p show ?thesis by (simp add: dict_wf_def)
  qed
qed

section \<open>Lists and options\<close>

lemma takeWhile_dropWhile_split:
  assumes "\<forall>x \<in> set xs. P x" and "\<not> P y"
  shows "takeWhile P (xs @ y # ys) = xs" and "dropWhile P (xs @ y # ys) = y # ys"
  using assms by (induction xs) auto

lemma option_bind_Some: "Option.bind x f = Some y \<longleftrightarrow> (\<exists>z. x = Some z \<and> f z = Some y)"
  by (cases x) auto

end
