(* ===== verification/Bytes.thy ===== *)
theory Bytes
  imports Prelude "HOL-Library.Word"
begin

text \<open>
  Python \<open>bytes\<close> as lists of 8-bit words, and the \<open>struct\<close> formats the bridge uses:
  \<open>"<h"\<close> (signed 16 bit, little endian) for PCM16 samples, \<open>"!H"\<close> and \<open>"!I"\<close>
  (unsigned, network order) for the RTP header.  A value out of the format's range is
  \<open>struct.error\<close>, here \<open>None\<close>.
\<close>

unbundle bit_operations_syntax

type_synonym byte = "8 word"

type_synonym bytes = "byte list"

definition byte_of :: "int \<Rightarrow> byte" where
  "byte_of i = word_of_int i"

section \<open>Signed 16-bit little endian\<close>

definition int16 :: "int \<Rightarrow> bool" where
  "int16 v \<longleftrightarrow> - 32768 \<le> v \<and> v \<le> 32767"

definition unpack_h :: "byte \<Rightarrow> byte \<Rightarrow> int" where
  "unpack_h b0 b1 = (let n = uint b0 + 256 * uint b1 in if n < 32768 then n else n - 65536)"

definition pack_h :: "int \<Rightarrow> bytes option" where
  "pack_h v = (if int16 v then Some [byte_of v, byte_of (v div 256)] else None)"

text \<open>\<open>struct.unpack(f"<{n}h", bs)\<close> with \<open>n = len(bs) // 2\<close>: \<open>None\<close> when a byte is left.\<close>

fun unpack_samples :: "bytes \<Rightarrow> int list option" where
  "unpack_samples [] = Some []"
| "unpack_samples [b] = None"
| "unpack_samples (b0 # b1 # bs) =
     map_option (\<lambda>vs. unpack_h b0 b1 # vs) (unpack_samples bs)"

fun pack_samples :: "int list \<Rightarrow> bytes option" where
  "pack_samples [] = Some []"
| "pack_samples (v # vs) =
     (case pack_h v of None \<Rightarrow> None
      | Some b \<Rightarrow> map_option (\<lambda>bs. b @ bs) (pack_samples vs))"

section \<open>Unsigned network order\<close>

definition pack_be16 :: "int \<Rightarrow> bytes option" where
  "pack_be16 v = (if 0 \<le> v \<and> v < 2 ^ 16 then Some [byte_of (v div 256), byte_of v] else None)"

definition pack_be32 :: "int \<Rightarrow> bytes option" where
  "pack_be32 v = (if 0 \<le> v \<and> v < 2 ^ 32
     then Some [byte_of (v div 2 ^ 24), byte_of (v div 2 ^ 16), byte_of (v div 2 ^ 8), byte_of v]
     else None)"

definition unpack_be16 :: "byte \<Rightarrow> byte \<Rightarrow> int" where
  "unpack_be16 a b = uint a * 256 + uint b"

definition unpack_be32 :: "byte \<Rightarrow> byte \<Rightarrow> byte \<Rightarrow> byte \<Rightarrow> int" where
  "unpack_be32 a b c d = uint a * 2 ^ 24 + uint b * 2 ^ 16 + uint c * 2 ^ 8 + uint d"

section \<open>Round trips\<close>

lemma uint_byte_of: "uint (byte_of v) = v mod 256"
  by (simp add: byte_of_def uint_word_of_int)

lemma byte_of_uint [simp]: "byte_of (uint b) = b"
  by (simp add: byte_of_def)

lemma uint_byte_bounds: "0 \<le> uint (b :: byte)" "uint (b :: byte) < 256"
  using uint_bounded [of b] by simp_all

lemma unat_byte_less: "unat (b :: byte) < 256"
  by (rule order_less_le_trans [OF unsigned_less]) simp

lemma div_between:
  fixes x d :: int
  assumes "0 < d" and "a * d \<le> x" and "x < b * d"
  shows "a \<le> x div d" and "x div d < b"
proof -
  show "a \<le> x div d" using zdiv_mono1 [OF assms(2,1)] assms(1) by simp
  show "x div d < b"
  proof (rule ccontr)
    assume "\<not> x div d < b"
    then have "b * d \<le> x div d * d" using assms(1) by (simp add: mult_right_mono)
    also have "\<dots> \<le> x" using div_mult_mod_eq [of x d] pos_mod_sign [OF assms(1), of x] by linarith
    finally show False using assms(3) by simp
  qed
qed

lemma int16_unpack_h: "int16 (unpack_h a b)"
proof -
  define n where "n = uint a + 256 * uint b"
  have "0 \<le> n" by (simp add: n_def)
  moreover have "n < 65536"
    using uint_byte_bounds(2) [of a] uint_byte_bounds(2) [of b] by (simp add: n_def)
  ultimately show ?thesis by (simp add: int16_def unpack_h_def n_def [symmetric])
qed

lemma unpack_pack_h:
  assumes "int16 v"
  shows "unpack_h (byte_of v) (byte_of (v div 256)) = v"
proof -
  have "v mod 256 + 256 * (v div 256 mod 256) = v mod 65536"
    using mod_mult2_eq' [of v 256 256] by (simp add: ac_simps)
  moreover have "v mod 65536 = (if 0 \<le> v then v else v + 65536)"
  proof (cases "0 \<le> v")
    case True
    with assms show ?thesis by (simp add: int16_def)
  next
    case False
    have "v mod 65536 = (v + 65536) mod 65536" by simp
    also have "\<dots> = v + 65536" using False assms by (intro mod_pos_pos_trivial) (auto simp: int16_def)
    finally show ?thesis using False by simp
  qed
  ultimately show ?thesis using assms by (auto simp: unpack_h_def uint_byte_of int16_def)
qed

lemma pack_samples_Some_iff: "(\<exists>bs. pack_samples vs = Some bs) \<longleftrightarrow> list_all int16 vs"
  by (induction vs) (auto simp: pack_h_def split: option.splits)

lemma unpack_pack_samples: "pack_samples vs = Some bs \<Longrightarrow> unpack_samples bs = Some vs"
proof (induction vs arbitrary: bs)
  case Nil
  then show ?case by simp
next
  case (Cons v vs)
  from Cons.prems obtain rest where v: "int16 v" and r: "pack_samples vs = Some rest"
      and bs: "bs = byte_of v # byte_of (v div 256) # rest"
    by (auto simp: pack_h_def split: option.splits if_splits)
  from Cons.IH [OF r] v show ?case by (simp add: bs unpack_pack_h)
qed

lemma length_pack_samples: "pack_samples vs = Some bs \<Longrightarrow> length bs = 2 * length vs"
  by (induction vs arbitrary: bs) (auto simp: pack_h_def split: option.splits if_splits)

lemma unpack_samples_int16: "unpack_samples bs = Some vs \<Longrightarrow> list_all int16 vs"
  by (induction bs arbitrary: vs rule: unpack_samples.induct) (auto simp: int16_unpack_h)

lemma length_unpack_samples: "unpack_samples bs = Some vs \<Longrightarrow> length vs = length bs div 2"
  by (induction bs arbitrary: vs rule: unpack_samples.induct) auto

lemma unpack_samples_even: "(\<exists>vs. unpack_samples bs = Some vs) \<longleftrightarrow> even (length bs)"
  by (induction bs rule: unpack_samples.induct) auto

lemma unpack_pack_be16:
  "0 \<le> v \<Longrightarrow> v < 2 ^ 16 \<Longrightarrow> unpack_be16 (byte_of (v div 256)) (byte_of v) = v"
  by (simp add: unpack_be16_def uint_byte_of)

lemma unpack_pack_be32:
  assumes "0 \<le> v" and "v < 2 ^ 32"
  shows "unpack_be32 (byte_of (v div 2 ^ 24)) (byte_of (v div 2 ^ 16)) (byte_of (v div 2 ^ 8))
    (byte_of v) = v"
proof -
  define w where "w = v div 2 ^ 16"
  define a where "a = v div 2 ^ 8"
  have a: "a = w * 256 + a mod 256"
    using div_mult_mod_eq [of a 256] by (simp add: a_def w_def zdiv_zmult2_eq [symmetric])
  have va: "v = a * 256 + v mod 256"
    using div_mult_mod_eq [of v 256] by (simp add: a_def)
  have v: "v = w * 65536 + a mod 256 * 256 + v mod 256"
    using a va by linarith
  have w: "w = w div 256 mod 256 * 256 + w mod 256"
  proof -
    have "w div 256 < 256" and "0 \<le> w div 256" using assms by (simp_all add: w_def zdiv_zmult2_eq [symmetric])
    then show ?thesis using div_mult_mod_eq [of w 256] by (simp add: mod_pos_pos_trivial)
  qed
  have "v div 2 ^ 24 = w div 256" by (simp add: w_def zdiv_zmult2_eq [symmetric])
  then have "unpack_be32 (byte_of (v div 2 ^ 24)) (byte_of (v div 2 ^ 16)) (byte_of (v div 2 ^ 8))
      (byte_of v) = (w div 256 mod 256 * 256 + w mod 256) * 65536 + a mod 256 * 256 + v mod 256"
    by (simp add: unpack_be32_def uint_byte_of a_def w_def)
  also have "\<dots> = v" unfolding w [symmetric] v [symmetric] ..
  finally show ?thesis .
qed

end
