(* ===== verification/Audio_Codec.thy ===== *)
theory Audio_Codec
  imports Bytes
begin

text \<open>
  \<open>sip_bridge/audio_codec.py\<close>: the G.711 tables, the conversions between G.711 bytes and
  little-endian PCM16, and the two resamplers of the telephone path.  Python integers
  are unbounded, so a sample is an \<open>int\<close> and the bit operations are those of \<open>int\<close>; an
  encoded byte is an 8-bit word.  \<open>None\<close> is \<open>struct.error\<close>.
\<close>

section \<open>Tables\<close>

definition ulaw_entry :: "int \<Rightarrow> int" where
  "ulaw_entry i = (let
     val = NOT i;
     sign = val AND 0x80;
     exponent = drop_bit 4 val AND 0x07;
     mantissa = val AND 0x0F;
     sample = push_bit (nat exponent) (push_bit 3 mantissa + 0x84) - 0x84
   in if sign \<noteq> 0 then - sample else sample)"

definition ulaw_decode_table :: "int list" where
  "ulaw_decode_table = map (\<lambda>i. ulaw_entry (int i)) [0..<256]"

definition alaw_to_linear :: "int \<Rightarrow> int" where
  "alaw_to_linear byte_val = (let
     val = byte_val XOR 0x55;
     t = push_bit 4 (val AND 0x0F);
     seg = drop_bit 4 (val AND 0x70);
     t = (if seg = 0 then t + 8
          else if seg = 1 then t + 0x108
          else push_bit (nat (seg - 1)) (t + 0x108))
   in if val AND 0x80 \<noteq> 0 then t else - t)"

definition alaw_decode_table :: "int list" where
  "alaw_decode_table = map (\<lambda>i. alaw_to_linear (int i)) [0..<256]"

section \<open>Conversions\<close>

definition ulaw_to_pcm16 :: "bytes \<Rightarrow> bytes option" where
  "ulaw_to_pcm16 ulaw_bytes = pack_samples (map (\<lambda>b. ulaw_decode_table ! unat b) ulaw_bytes)"

definition alaw_to_pcm16 :: "bytes \<Rightarrow> bytes option" where
  "alaw_to_pcm16 alaw_bytes = pack_samples (map (\<lambda>b. alaw_decode_table ! unat b) alaw_bytes)"

text \<open>The search loop of \<open>_linear_to_ulaw\<close>: \<open>exponent\<close> counts down, \<open>exp_mask\<close> moves right.\<close>

fun find_exponent :: "int \<Rightarrow> nat \<Rightarrow> int \<Rightarrow> nat" where
  "find_exponent sample 0 exp_mask = 0"
| "find_exponent sample (Suc e) exp_mask =
     (if sample AND exp_mask = 0 then find_exponent sample e (drop_bit 1 exp_mask) else Suc e)"

definition linear_to_ulaw :: "int \<Rightarrow> int" where
  "linear_to_ulaw sample = (let
     sign = (if sample < 0 then 0x80 else 0);
     sample = (if sample < 0 then - sample else sample);
     sample = (if sample > 32635 then 32635 else sample);
     sample = sample + 0x84;
     exponent = find_exponent sample 7 0x4000;
     mantissa = drop_bit (exponent + 3) sample AND 0x0F
   in NOT (sign OR push_bit 4 (int exponent) OR mantissa) AND 0xFF)"

definition pcm16_to_ulaw :: "bytes \<Rightarrow> bytes option" where
  "pcm16_to_ulaw pcm16_bytes =
     map_option (map (\<lambda>s. byte_of (linear_to_ulaw s))) (unpack_samples pcm16_bytes)"

section \<open>Resampling\<close>

fun interpolate :: "int list \<Rightarrow> int list" where
  "interpolate [] = []"
| "interpolate [s] = [s, s]"
| "interpolate (s # t # ss) = s # ((s + t) div 2) # interpolate (t # ss)"

definition resample_8k_to_16k :: "bytes \<Rightarrow> bytes option" where
  "resample_8k_to_16k pcm16_8k =
     (if length pcm16_8k div 2 = 0 then Some []
      else Option.bind (unpack_samples pcm16_8k) (\<lambda>samples. pack_samples (interpolate samples)))"

fun every_third :: "int list \<Rightarrow> int list" where
  "every_third [] = []"
| "every_third (s # ss) = s # every_third (drop 2 ss)"

definition resample_24k_to_8k :: "bytes \<Rightarrow> bytes option" where
  "resample_24k_to_8k pcm16_24k =
     (if length pcm16_24k div 2 = 0 then Some []
      else Option.bind (unpack_samples pcm16_24k) (\<lambda>samples. pack_samples (every_third samples)))"

section \<open>The tables\<close>

lemma ulaw_table_facts:
  "list_all (\<lambda>i. int16 (ulaw_entry (int i)) \<and>
     linear_to_ulaw (ulaw_entry (int i)) = (if i = 127 then 255 else int i)) [0..<256]"
  by code_simp

lemma alaw_table_facts: "list_all (\<lambda>i. int16 (alaw_to_linear (int i))) [0..<256]"
  by code_simp

lemma ulaw_table_nth: "ulaw_decode_table ! unat (b :: byte) = ulaw_entry (uint b)"
  using unat_byte_less [of b] by (simp add: ulaw_decode_table_def)

lemma alaw_table_nth: "alaw_decode_table ! unat (b :: byte) = alaw_to_linear (uint b)"
  using unat_byte_less [of b] by (simp add: alaw_decode_table_def)

lemma ulaw_entry_facts:
  "int16 (ulaw_entry (uint (b :: byte)))"
  "linear_to_ulaw (ulaw_entry (uint b)) = (if unat b = 127 then 255 else uint b)"
proof -
  have "unat b \<in> set [0..<256]" using unat_byte_less [of b] by simp
  note bspec [OF ulaw_table_facts [unfolded list_all_iff] this]
  then show "int16 (ulaw_entry (uint b))"
    and "linear_to_ulaw (ulaw_entry (uint b)) = (if unat b = 127 then 255 else uint b)"
    by simp_all
qed

lemma alaw_int16: "int16 (alaw_to_linear (uint (b :: byte)))"
proof -
  have "unat b \<in> set [0..<256]" using unat_byte_less [of b] by simp
  from bspec [OF alaw_table_facts [unfolded list_all_iff] this] show ?thesis by simp
qed

lemma encode_ulaw_entry:
  "linear_to_ulaw (ulaw_entry (uint (b :: byte))) = (if b = 127 then 255 else uint b)"
  by (simp add: ulaw_entry_facts word_unat_eq_iff)

section \<open>Every byte string decodes; encoding undoes decoding\<close>

lemma ulaw_decodes: "\<exists>out. ulaw_to_pcm16 bs = Some out"
  unfolding ulaw_to_pcm16_def pack_samples_Some_iff
  by (simp add: list_all_iff ulaw_table_nth ulaw_entry_facts)

lemma alaw_decodes: "\<exists>out. alaw_to_pcm16 bs = Some out"
  unfolding alaw_to_pcm16_def pack_samples_Some_iff
  by (simp add: list_all_iff alaw_table_nth alaw_int16)

lemma length_ulaw_to_pcm16: "ulaw_to_pcm16 bs = Some out \<Longrightarrow> length out = 2 * length bs"
  by (auto simp: ulaw_to_pcm16_def dest: length_pack_samples)

lemma pcm16_to_ulaw_decode:
  assumes "ulaw_to_pcm16 bs = Some out"
  shows "pcm16_to_ulaw out = Some (map (\<lambda>b. if b = 127 then 255 else b) bs)"
proof -
  have "unpack_samples out = Some (map (\<lambda>b. ulaw_entry (uint b)) bs)"
    using assms unpack_pack_samples by (auto simp: ulaw_to_pcm16_def ulaw_table_nth)
  then show ?thesis
    by (simp add: pcm16_to_ulaw_def encode_ulaw_entry byte_of_def)
qed

section \<open>The quantisation error of the encoder\<close>

lemma odd_below_2: "0 \<le> (y :: int) \<Longrightarrow> y < 2 \<Longrightarrow> odd y \<longleftrightarrow> y \<noteq> 0"
  by presburger

lemma mod_16_upper: "16 \<le> (y :: int) \<Longrightarrow> y < 32 \<Longrightarrow> y mod 16 = y - 16"
  by presburger

lemma and_pow2_zero_iff:
  fixes x :: int
  assumes "0 \<le> x" and "x < 2 ^ Suc k"
  shows "x AND 2 ^ k = 0 \<longleftrightarrow> x < 2 ^ k"
proof -
  have "0 \<le> x div 2 ^ k" and "x div 2 ^ k < 2"
    using div_between [of "2 ^ k" 0 x 2] assms by simp_all
  then have "odd (x div 2 ^ k) \<longleftrightarrow> x div 2 ^ k \<noteq> 0" by (rule odd_below_2)
  moreover have "x div 2 ^ k = 0 \<longleftrightarrow> x < 2 ^ k"
    using assms by (auto simp: zdiv_eq_0_iff dest: order_less_le_trans [of _ 0])
  ultimately show ?thesis by (simp add: and_exp_eq_0_iff_not_bit bit_iff_odd)
qed

lemma find_exponent_spec:
  assumes "128 \<le> x" and "x < 2 ^ (e + 8)"
  shows "find_exponent x e (2 ^ (e + 7)) \<le> e \<and>
    2 ^ (find_exponent x e (2 ^ (e + 7)) + 7) \<le> x \<and>
    x < 2 ^ (find_exponent x e (2 ^ (e + 7)) + 8)"
  using assms
proof (induction e)
  case 0
  then show ?case by simp
next
  case (Suc e)
  have shift: "drop_bit 1 (2 ^ (Suc e + 7) :: int) = 2 ^ (e + 7)"
  proof -
    have "(2 :: int) ^ (Suc e + 7) = 2 * 2 ^ (e + 7)" by (simp only: add_Suc power_Suc)
    then show ?thesis by (simp only: drop_bit_eq_div) simp
  qed
  have z: "x AND 2 ^ (Suc e + 7) = 0 \<longleftrightarrow> x < 2 ^ (Suc e + 7)"
    using Suc.prems by (intro and_pow2_zero_iff) simp_all
  show ?case
  proof (cases "x < 2 ^ (Suc e + 7)")
    case True
    with Suc.prems have "x < 2 ^ (e + 8)" by (simp add: add.commute)
    from Suc.IH [OF Suc.prems(1) this] have IH:
      "find_exponent x e (2 ^ (e + 7)) \<le> e \<and> 2 ^ (find_exponent x e (2 ^ (e + 7)) + 7) \<le> x \<and>
       x < 2 ^ (find_exponent x e (2 ^ (e + 7)) + 8)" .
    have "find_exponent x (Suc e) (2 ^ (Suc e + 7)) = find_exponent x e (2 ^ (e + 7))"
      using True z shift by simp
    with IH show ?thesis by simp
  next
    case False
    then have "find_exponent x (Suc e) (2 ^ (Suc e + 7)) = Suc e" using z by simp
    with False Suc.prems show ?thesis by simp
  qed
qed

lemma decode_code_word:
  "list_all (\<lambda>s. list_all (\<lambda>e. list_all (\<lambda>m.
     ulaw_entry (NOT (s OR push_bit 4 (int e) OR int m) AND 0xFF) =
       (if s = 0 then (int m * 8 + 132) * 2 ^ e - 132
        else - ((int m * 8 + 132) * 2 ^ e - 132))) [0..<16]) [0..<8]) [0, 0x80]"
  by code_simp

lemma mantissa_value:
  fixes x :: int
  assumes "2 ^ (e + 7) \<le> x" and "x < 2 ^ (e + 8)"
  shows "drop_bit (e + 3) x AND 0x0F = x div 2 ^ (e + 3) - 16"
    and "0 \<le> x div 2 ^ (e + 3) - 16" and "x div 2 ^ (e + 3) - 16 < 16"
proof -
  have "16 * 2 ^ (e + 3) \<le> x" and "x < 32 * 2 ^ (e + 3)"
    using assms by (simp_all add: power_add)
  then have lo: "16 \<le> x div 2 ^ (e + 3)" and hi: "x div 2 ^ (e + 3) < 32"
    by (rule div_between [where d = "2 ^ (e + 3)", rotated]; simp)+
  have "drop_bit (e + 3) x AND 0x0F = (x div 2 ^ (e + 3)) mod 16"
    using take_bit_eq_mask [of 4 "drop_bit (e + 3) x"]
    by (simp add: drop_bit_eq_div mask_eq_exp_minus_1 take_bit_eq_mod and.commute)
  also have "\<dots> = x div 2 ^ (e + 3) - 16"
    using lo hi by (rule mod_16_upper)
  finally show "drop_bit (e + 3) x AND 0x0F = x div 2 ^ (e + 3) - 16" .
  show "0 \<le> x div 2 ^ (e + 3) - 16" and "x div 2 ^ (e + 3) - 16 < 16" using lo hi by simp_all
qed

lemma quantised_close:
  fixes x :: int
  assumes "2 ^ (e + 7) \<le> x"
  shows "32 * \<bar>((x div 2 ^ (e + 3) - 16) * 8 + 132) * 2 ^ e - x\<bar> \<le> x"
proof -
  define q where "q = x div 2 ^ (e + 3)"
  define r where "r = x mod 2 ^ (e + 3)"
  have x: "x = q * 8 * 2 ^ e + r"
    using div_mult_mod_eq [of x "2 ^ (e + 3)"] by (simp add: q_def r_def power_add ac_simps)
  have r: "0 \<le> r" "r < 8 * 2 ^ e" by (simp_all add: r_def power_add pos_mod_bound ac_simps)
  have d: "((q - 16) * 8 + 132) * 2 ^ e - x = 4 * 2 ^ e - r"
    by (simp add: x algebra_simps)
  have "\<bar>4 * 2 ^ e - r\<bar> \<le> 4 * 2 ^ e" using r by linarith
  moreover have "32 * (4 * 2 ^ e) \<le> x" using assms by (simp add: power_add)
  ultimately have "32 * \<bar>4 * 2 ^ e - r\<bar> \<le> x"
    by (intro order_trans [of "32 * \<bar>4 * 2 ^ e - r\<bar>" "32 * (4 * 2 ^ e)" x]) simp_all
  then show ?thesis unfolding q_def [symmetric] d .
qed

lemma encode_decode_close:
  assumes "\<bar>s\<bar> \<le> 32635"
  shows "32 * \<bar>ulaw_entry (linear_to_ulaw s) - s\<bar> \<le> \<bar>s\<bar> + 132"
proof -
  define x where "x = \<bar>s\<bar> + 0x84"
  define e where "e = find_exponent x 7 0x4000"
  define sg where "sg = (if s < 0 then 0x80 else 0 :: int)"
  have e: "e \<le> 7" "2 ^ (e + 7) \<le> x" "x < 2 ^ (e + 8)"
    using find_exponent_spec [of x 7] assms by (simp_all add: e_def x_def)
  note m = mantissa_value [OF e(2,3)]
  define m' where "m' = nat (x div 2 ^ (e + 3) - 16)"
  have m': "int m' = drop_bit (e + 3) x AND 0x0F" "int m' = x div 2 ^ (e + 3) - 16" "m' < 16"
    using m by (simp_all add: m'_def)
  have "linear_to_ulaw s = NOT (sg OR push_bit 4 (int e) OR int m') AND 0xFF"
    using assms by (simp add: linear_to_ulaw_def Let_def sg_def m'(1) e_def x_def abs_if)
  then have "ulaw_entry (linear_to_ulaw s) = (if sg = 0 then (int m' * 8 + 132) * 2 ^ e - 132
      else - ((int m' * 8 + 132) * 2 ^ e - 132))"
    using decode_code_word e(1) m'(3) by (auto simp: list_all_iff sg_def)
  then have "\<bar>ulaw_entry (linear_to_ulaw s) - s\<bar> = \<bar>(int m' * 8 + 132) * 2 ^ e - x\<bar>"
  proof (cases "s < 0")
    case True
    with \<open>ulaw_entry (linear_to_ulaw s) = _\<close>
    have "ulaw_entry (linear_to_ulaw s) - s = - ((int m' * 8 + 132) * 2 ^ e - x)"
      by (simp add: sg_def x_def)
    then show ?thesis by (simp only: abs_minus_cancel)
  next
    case False
    with \<open>ulaw_entry (linear_to_ulaw s) = _\<close> show ?thesis by (simp add: sg_def x_def)
  qed
  then show ?thesis using quantised_close [OF e(2)] by (simp add: m'(2) x_def)
qed

section \<open>Resampling keeps the 16-bit range and changes the length as documented\<close>

lemma interpolate_int16: "list_all int16 ss \<Longrightarrow> list_all int16 (interpolate ss)"
  by (induction ss rule: interpolate.induct) (auto simp: int16_def)

lemma length_interpolate: "length (interpolate ss) = 2 * length ss"
  by (induction ss rule: interpolate.induct) auto

lemma interpolate_even_samples: "i < length ss \<Longrightarrow> interpolate ss ! (2 * i) = ss ! i"
proof (induction ss arbitrary: i rule: interpolate.induct)
  case (3 s t ss)
  then show ?case by (cases i) auto
qed auto

lemma every_third_subset: "set (every_third ss) \<subseteq> set ss"
  by (induction ss rule: every_third.induct) (auto dest: in_set_dropD)

lemma length_every_third: "length (every_third ss) = (length ss + 2) div 3"
  by (induction ss rule: every_third.induct) auto

lemma every_third_nth: "3 * i < length ss \<Longrightarrow> every_third ss ! i = ss ! (3 * i)"
proof (induction ss arbitrary: i rule: every_third.induct)
  case (2 s ss)
  then show ?case by (cases i) (auto simp: nth_append)
qed auto

lemma resample_8k_to_16k_total:
  assumes "even (length bs)"
  shows "\<exists>out. resample_8k_to_16k bs = Some out \<and> length out = 2 * length bs"
proof -
  obtain ss where ss: "unpack_samples bs = Some ss" using assms unpack_samples_even by blast
  have "list_all int16 (interpolate ss)"
    using unpack_samples_int16 [OF ss] by (rule interpolate_int16)
  then obtain out where out: "pack_samples (interpolate ss) = Some out"
    using pack_samples_Some_iff by blast
  have "length out = 2 * length bs"
    using length_pack_samples [OF out] length_unpack_samples [OF ss] assms
    by (simp add: length_interpolate)
  moreover have "resample_8k_to_16k bs = Some out" if "bs \<noteq> []"
    using ss out that assms by (cases bs rule: unpack_samples.cases) (auto simp: resample_8k_to_16k_def)
  ultimately show ?thesis by (cases "bs = []") (auto simp: resample_8k_to_16k_def)
qed

section \<open>Properties\<close>

text \<open>
  Every mu-law stream decodes to twice as many bytes, and encoding the result gives
  the stream back, except that the two codes of zero, 0x7F and 0xFF, both become 0xFF.
\<close>

theorem ulaw_roundtrip:
  "\<exists>pcm. ulaw_to_pcm16 bs = Some pcm \<and> length pcm = 2 * length bs \<and>
    pcm16_to_ulaw pcm = Some (map (\<lambda>b. if b = 127 then 255 else b) bs)"
proof -
  have "list_all int16 (map (\<lambda>b. ulaw_decode_table ! unat b) bs)"
    by (simp add: list_all_iff ulaw_table_nth ulaw_entry_facts)
  then obtain pcm where "ulaw_to_pcm16 bs = Some pcm"
    using pack_samples_Some_iff by (force simp: ulaw_to_pcm16_def)
  moreover from this have "length pcm = 2 * length bs"
    by (auto simp: ulaw_to_pcm16_def dest: length_pack_samples)
  ultimately show ?thesis using pcm16_to_ulaw_decode by blast
qed

lemma linear_to_ulaw_byte: "uint (byte_of (linear_to_ulaw s)) = linear_to_ulaw s"
proof -
  have "linear_to_ulaw s = linear_to_ulaw s mod 256"
    using take_bit_eq_mask [of 8 "linear_to_ulaw s"]
    by (simp add: linear_to_ulaw_def Let_def mask_eq_exp_minus_1 take_bit_eq_mod flip: take_bit_eq_mod)
  then show ?thesis by (simp add: uint_byte_of)
qed

text \<open>
  Encoding PCM16 samples to mu-law and decoding them again keeps every sample that is
  not clipped within a thirty-second of its magnitude (plus the bias): the companding
  error of the telephone leg.
\<close>

theorem ulaw_quantisation_error:
  assumes "unpack_samples pcm = Some ss" and "i < length ss" and "\<bar>ss ! i\<bar> \<le> 32635"
  shows "\<exists>codes out ds. pcm16_to_ulaw pcm = Some codes \<and> ulaw_to_pcm16 codes = Some out \<and>
    unpack_samples out = Some ds \<and> length ds = length ss \<and>
    32 * \<bar>ds ! i - ss ! i\<bar> \<le> \<bar>ss ! i\<bar> + 132"
proof -
  let ?codes = "map (\<lambda>s. byte_of (linear_to_ulaw s)) ss"
  let ?ds = "map (\<lambda>s. ulaw_entry (linear_to_ulaw s)) ss"
  have ds: "map (\<lambda>b. ulaw_decode_table ! unat b) ?codes = ?ds"
    by (simp add: ulaw_table_nth linear_to_ulaw_byte)
  have "list_all int16 ?ds"
    using ulaw_entry_facts(1) linear_to_ulaw_byte by (auto simp: list_all_iff) metis
  then obtain out where out: "pack_samples ?ds = Some out"
    using pack_samples_Some_iff by blast
  show ?thesis
    using assms out unpack_pack_samples [OF out] encode_decode_close [OF assms(3)]
    by (simp add: pcm16_to_ulaw_def ulaw_to_pcm16_def ds del: map_map)
qed

theorem ulaw_quantisation_error_witness:
  "\<exists>codes out ds. pcm16_to_ulaw [232, 3] = Some codes \<and> ulaw_to_pcm16 codes = Some out \<and>
    unpack_samples out = Some ds \<and> 32 * \<bar>ds ! 0 - 1000\<bar> \<le> 1132"
proof -
  have "unpack_samples [232, 3] = Some [1000]" by (simp add: unpack_h_def)
  from ulaw_quantisation_error [OF this, of 0] show ?thesis by auto
qed

end
