(* ===== verification/Rtp.thy ===== *)
theory Rtp
  imports Bytes
begin

text \<open>
  \<open>sip_bridge/rtp.py\<close>: the RTP packet, its parser and serializer, and the 20 ms frame
  timer.  The integer fields are Python integers; \<open>serialize\<close> masks all of them but
  \<open>ssrc\<close>, so an \<open>ssrc\<close> outside 32 bits is \<open>struct.error\<close> (\<open>None\<close>).  The timer works
  on exact clock readings.
\<close>

section \<open>Packets\<close>

record rtp_packet =
  version :: int
  payload_type :: int
  sequence_no :: int
  timestamp :: int
  ssrc :: int
  payload :: bytes
  marker :: bool

definition RTP_HEADER_SIZE :: nat where "RTP_HEADER_SIZE = 12"

definition rtp_parse :: "bytes \<Rightarrow> rtp_packet option" where
  "rtp_parse data =
     (case data of
        b0 # b1 # s0 # s1 # t0 # t1 # t2 # t3 # r0 # r1 # r2 # r3 # rest \<Rightarrow>
          (let ver = drop_bit 6 (uint b0) AND 0x03 in
           if ver \<noteq> 2 then None
           else Some \<lparr>version = ver, payload_type = uint b1 AND 0x7F,
                  sequence_no = unpack_be16 s0 s1, timestamp = unpack_be32 t0 t1 t2 t3,
                  ssrc = unpack_be32 r0 r1 r2 r3, payload = rest,
                  marker = (uint b1 AND 0x80 \<noteq> 0)\<rparr>)
      | _ \<Rightarrow> None)"

definition rtp_serialize :: "rtp_packet \<Rightarrow> bytes option" where
  "rtp_serialize p =
     (let byte0 = 0x80;
          byte1 = payload_type p AND 0x7F;
          byte1 = (if marker p then byte1 OR 0x80 else byte1)
      in case (pack_be16 (sequence_no p AND 0xFFFF), pack_be32 (timestamp p AND 0xFFFFFFFF),
               pack_be32 (ssrc p)) of
           (Some s, Some t, Some r) \<Rightarrow>
             Some ([byte_of byte0, byte_of byte1] @ s @ t @ r @ payload p)
         | _ \<Rightarrow> None)"

section \<open>The frame timer\<close>

record rtp_timer =
  timer_start :: clock
  frame_count :: nat

definition FRAME_SECONDS :: clock where "FRAME_SECONDS = 20 / 1000"

definition next_deadline :: "rtp_timer \<Rightarrow> rtp_timer \<times> clock" where
  "next_deadline t = (let t = t\<lparr>frame_count := frame_count t + 1\<rparr>
     in (t, timer_start t + of_nat (frame_count t) * FRAME_SECONDS))"

text \<open>
  \<open>wait_next_frame\<close> at time \<open>now\<close>: the new timer and how long the coroutine sleeps.
\<close>

definition wait_next_frame :: "clock \<Rightarrow> rtp_timer \<Rightarrow> rtp_timer \<times> clock" where
  "wait_next_frame now t =
     (let (t, deadline) = next_deadline t;
          (t, deadline) =
            (if now - deadline > 1 / 10
             then next_deadline (t\<lparr>timer_start := now, frame_count := 0\<rparr>)
             else (t, deadline))
      in (t, if deadline > now then deadline - now else 0))"

section \<open>Lemmas\<close>

lemma and_7F: "(x :: int) AND 0x7F = x mod 128"
  using take_bit_eq_mask [of 7 x] by (simp add: mask_eq_exp_minus_1 take_bit_eq_mod)

lemma and_FFFF: "(x :: int) AND 0xFFFF = x mod 2 ^ 16"
  using take_bit_eq_mask [of 16 x] by (simp add: mask_eq_exp_minus_1 take_bit_eq_mod)

lemma and_FFFFFFFF: "(x :: int) AND 0xFFFFFFFF = x mod 2 ^ 32"
  using take_bit_eq_mask [of 32 x] by (simp add: mask_eq_exp_minus_1 take_bit_eq_mod)

lemma header_byte_facts:
  "list_all (\<lambda>i. int i AND 0x7F = int i \<and> int i AND 0x80 = 0 \<and>
     (int i OR 0x80) AND 0x7F = int i \<and> (int i OR 0x80) AND 0x80 \<noteq> 0 \<and>
     0 \<le> int i OR 0x80 \<and> int i OR 0x80 < 256) [0..<128]"
  by code_simp

lemma header_byte:
  fixes x :: int
  assumes "0 \<le> x" and "x < 128"
  shows "x AND 0x7F = x" and "x AND 0x80 = 0" and "(x OR 0x80) AND 0x7F = x"
    and "(x OR 0x80) AND 0x80 \<noteq> 0" and "(x OR 0x80) mod 256 = x OR 0x80"
proof -
  have "nat x \<in> set [0..<128]" using assms by auto
  note * = bspec [OF header_byte_facts [unfolded list_all_iff] this]
  from * assms show "x AND 0x7F = x" and "x AND 0x80 = 0" and "(x OR 0x80) AND 0x7F = x"
    and "(x OR 0x80) AND 0x80 \<noteq> 0" by simp_all
  from * assms have "0 \<le> x OR 0x80" and "x OR 0x80 < 256" by simp_all
  then show "(x OR 0x80) mod 256 = x OR 0x80" by (rule mod_pos_pos_trivial)
qed

lemma rtp_parse_serialize_gen:
  assumes "rtp_serialize p = Some data"
  shows "rtp_parse data = Some \<lparr>version = 2, payload_type = payload_type p mod 128,
    sequence_no = sequence_no p mod 2 ^ 16, timestamp = timestamp p mod 2 ^ 32,
    ssrc = ssrc p, payload = payload p, marker = marker p\<rparr>"
proof -
  define pt where "pt = payload_type p mod 128"
  define b1 where "b1 = (if marker p then pt OR 0x80 else pt)"
  have pt: "0 \<le> pt" "pt < 128" by (simp_all add: pt_def)
  have b1: "b1 mod 256 = b1" "b1 AND 0x7F = pt" "(b1 AND 0x80 \<noteq> 0) = marker p"
    using header_byte [OF pt] pt by (auto simp: b1_def mod_pos_pos_trivial)
  have ssrc: "0 \<le> ssrc p" "ssrc p < 2 ^ 32"
    using assms by (auto simp: rtp_serialize_def Let_def pack_be32_def split: option.splits if_splits)
  note u16 = unpack_pack_be16 [of "sequence_no p mod 2 ^ 16"]
  note u32 = unpack_pack_be32 [of "timestamp p mod 2 ^ 32"] unpack_pack_be32 [OF ssrc]
  have "data = [byte_of 0x80, byte_of b1] @
      [byte_of (sequence_no p mod 2 ^ 16 div 256), byte_of (sequence_no p mod 2 ^ 16)] @
      [byte_of (timestamp p mod 2 ^ 32 div 2 ^ 24), byte_of (timestamp p mod 2 ^ 32 div 2 ^ 16),
       byte_of (timestamp p mod 2 ^ 32 div 2 ^ 8), byte_of (timestamp p mod 2 ^ 32)] @
      [byte_of (ssrc p div 2 ^ 24), byte_of (ssrc p div 2 ^ 16), byte_of (ssrc p div 2 ^ 8),
       byte_of (ssrc p)] @ payload p"
    using assms ssrc
    by (simp add: rtp_serialize_def Let_def and_7F and_FFFF and_FFFFFFFF pack_be16_def
        pack_be32_def pt_def [symmetric] b1_def del: power_numeral)
  moreover have "drop_bit 6 (uint (byte_of 0x80)) AND 0x03 = (2 :: int)"
    by (simp add: uint_byte_of)
  ultimately show ?thesis
    using u16 u32 by (simp add: rtp_parse_def Let_def uint_byte_of b1 pt_def del: power_numeral)
qed

lemma rtp_serialize_total:
  "0 \<le> ssrc p \<Longrightarrow> ssrc p < 2 ^ 32 \<Longrightarrow> \<exists>data. rtp_serialize p = Some data"
  by (simp add: rtp_serialize_def Let_def pack_be16_def pack_be32_def and_FFFF and_FFFFFFFF)

lemma rtp_parse_short: "length data < RTP_HEADER_SIZE \<Longrightarrow> rtp_parse data = None"
  by (auto simp: rtp_parse_def RTP_HEADER_SIZE_def split: list.splits)

lemma rtp_parse_fields:
  assumes "rtp_parse data = Some p"
  shows "version p = 2" and "0 \<le> payload_type p \<and> payload_type p < 128"
    and "0 \<le> sequence_no p \<and> sequence_no p < 2 ^ 16"
    and "0 \<le> timestamp p \<and> timestamp p < 2 ^ 32" and "0 \<le> ssrc p \<and> ssrc p < 2 ^ 32"
    and "length (payload p) + RTP_HEADER_SIZE = length data"
proof -
  have b16: "0 \<le> unpack_be16 a b \<and> unpack_be16 a b < 2 ^ 16" for a b
    using uint_byte_bounds [of a] uint_byte_bounds [of b] by (simp add: unpack_be16_def del: uint_ge_0)
  have b32: "0 \<le> unpack_be32 a b c d \<and> unpack_be32 a b c d < 2 ^ 32" for a b c d
    using uint_byte_bounds [of a] uint_byte_bounds [of b] uint_byte_bounds [of c]
      uint_byte_bounds [of d] by (simp add: unpack_be32_def del: uint_ge_0)
  show "version p = 2" and "0 \<le> payload_type p \<and> payload_type p < 128"
    and "0 \<le> sequence_no p \<and> sequence_no p < 2 ^ 16"
    and "0 \<le> timestamp p \<and> timestamp p < 2 ^ 32" and "0 \<le> ssrc p \<and> ssrc p < 2 ^ 32"
    and "length (payload p) + RTP_HEADER_SIZE = length data"
    using assms b16 b32
    by (auto simp: rtp_parse_def Let_def and_7F RTP_HEADER_SIZE_def split: list.splits if_splits)
qed

text \<open>
  After a wait the schedule is at most 100 ms behind the clock and at most one frame
  ahead of it when the timer was reset: no burst of catch-up frames.
\<close>

lemma wait_next_frame_lag:
  assumes "wait_next_frame now t = (t', d)"
  shows "now - (timer_start t' + of_nat (frame_count t') * FRAME_SECONDS) \<le> 1 / 10"
    and "0 \<le> d"
    and "d > 0 \<Longrightarrow> timer_start t' + of_nat (frame_count t') * FRAME_SECONDS = now + d"
  using assms
  by (auto simp: wait_next_frame_def next_deadline_def Let_def FRAME_SECONDS_def field_simps
      split: if_splits)

section \<open>Properties\<close>

text \<open>
  Serializing a packet whose SSRC fits 32 bits always succeeds, and parsing the bytes
  gives the packet back, with its payload and marker, the payload type reduced to 7 bits,
  the sequence number to 16 and the timestamp to 32: counters wrap as the protocol wants.
\<close>

theorem rtp_roundtrip:
  assumes "0 \<le> ssrc p" and "ssrc p < 2 ^ 32"
  shows "\<exists>data. rtp_serialize p = Some data \<and>
    rtp_parse data = Some \<lparr>version = 2, payload_type = payload_type p mod 128,
      sequence_no = sequence_no p mod 2 ^ 16, timestamp = timestamp p mod 2 ^ 32,
      ssrc = ssrc p, payload = payload p, marker = marker p\<rparr>"
  using rtp_serialize_total [OF assms] rtp_parse_serialize_gen by blast

theorem rtp_roundtrip_witness:
  "\<exists>data. rtp_serialize \<lparr>version = 2, payload_type = 200, sequence_no = 65536, timestamp = 5, ssrc = 9,
      payload = [1, 2], marker = True\<rparr> = Some data \<and>
    rtp_parse data = Some \<lparr>version = 2, payload_type = 72, sequence_no = 0, timestamp = 5, ssrc = 9,
      payload = [1, 2], marker = True\<rparr>"
  using rtp_roundtrip [of "\<lparr>version = 2, payload_type = 200, sequence_no = 65536, timestamp = 5, ssrc = 9,
      payload = [1, 2], marker = True\<rparr>"] by simp

text \<open>
  The frame timer never bursts: after any wait the schedule is at most 100 ms behind the
  clock, a wait never asks for a negative sleep, and it sleeps exactly until the next
  deadline.
\<close>

theorem frame_timer_no_burst:
  assumes "wait_next_frame now t = (t', d)"
  shows "now - (timer_start t' + of_nat (frame_count t') * FRAME_SECONDS) \<le> 1 / 10 \<and> 0 \<le> d \<and>
    (d > 0 \<longrightarrow> timer_start t' + of_nat (frame_count t') * FRAME_SECONDS = now + d)"
  using wait_next_frame_lag [OF assms] by blast

theorem frame_timer_no_burst_witness:
  "\<exists>t' d. wait_next_frame 1 \<lparr>timer_start = 0, frame_count = 3\<rparr> = (t', d) \<and> 0 \<le> d \<and>
    1 - (timer_start t' + of_nat (frame_count t') * FRAME_SECONDS) \<le> 1 / 10"
proof -
  obtain t' d where w: "wait_next_frame 1 \<lparr>timer_start = 0, frame_count = 3\<rparr> = (t', d)" by force
  from frame_timer_no_burst [OF w] w show ?thesis by blast
qed

end
