(* ===== verification/Py_Strings.thy ===== *)
theory Py_Strings
  imports Prelude
begin

text \<open>
  The operations of Python's \<open>str\<close> that the modelled code uses.

  A Python string is a \<open>string\<close> (a list of \<open>char\<close>), each \<open>char\<close> a code point below 256;
  the predicates below are the exact Latin-1 restriction of the Unicode ones
  (\<open>str.isspace\<close>, \<open>\s\<close>, \<open>\w\<close>, \<open>str.isalpha\<close>, \<open>str.lower\<close>).  Code points above 255 are
  outside the model; the few literals of the code that contain one (the naira sign, an
  arrow) are spelled by their UTF-8 bytes.  \<open>upper\<close> leaves the three Latin-1 letters
  alone whose upper case is not one Latin-1 letter.  CPython's limit of 4300 digits on
  \<open>int(s)\<close> is not modelled.
\<close>

section \<open>Character classes\<close>

definition code :: "char \<Rightarrow> nat" where
  "code c = of_char c"

definition is_space :: "char \<Rightarrow> bool" where
  "is_space c \<longleftrightarrow> (let n = code c in 9 \<le> n \<and> n \<le> 13 \<or> 28 \<le> n \<and> n \<le> 32 \<or> n = 133 \<or> n = 160)"

definition is_digit :: "char \<Rightarrow> bool" where
  "is_digit c \<longleftrightarrow> (let n = code c in 48 \<le> n \<and> n \<le> 57)"

definition is_alpha :: "char \<Rightarrow> bool" where
  "is_alpha c \<longleftrightarrow> (let n = code c in 65 \<le> n \<and> n \<le> 90 \<or> 97 \<le> n \<and> n \<le> 122 \<or>
     n = 170 \<or> n = 181 \<or> n = 186 \<or> 192 \<le> n \<and> n \<noteq> 215 \<and> n \<noteq> 247)"

definition is_alnum :: "char \<Rightarrow> bool" where
  "is_alnum c \<longleftrightarrow> is_alpha c \<or> is_digit c \<or>
     (let n = code c in n = 178 \<or> n = 179 \<or> n = 185 \<or> 188 \<le> n \<and> n \<le> 190)"

text \<open>A letter of \<open>[A-Za-z]\<close>; a character for which \<open>str.isdigit\<close> holds, superscripts included.\<close>

definition ascii_letter :: "char \<Rightarrow> bool" where
  "ascii_letter c \<longleftrightarrow> is_alpha c \<and> code c < 128"

definition is_digit_char :: "char \<Rightarrow> bool" where
  "is_digit_char c \<longleftrightarrow> is_digit c \<or> code c \<in> {178, 179, 185}"

definition is_word :: "char \<Rightarrow> bool" where
  "is_word c \<longleftrightarrow> is_alnum c \<or> c = CHR ''_''"

definition lower_char :: "char \<Rightarrow> char" where
  "lower_char c = (let n = code c in
     if 65 \<le> n \<and> n \<le> 90 \<or> 192 \<le> n \<and> n \<le> 222 \<and> n \<noteq> 215 then char_of (n + 32) else c)"

definition upper_char :: "char \<Rightarrow> char" where
  "upper_char c = (let n = code c in
     if 97 \<le> n \<and> n \<le> 122 \<or> 224 \<le> n \<and> n \<le> 254 \<and> n \<noteq> 247 then char_of (n - 32) else c)"

definition is_ascii :: "string \<Rightarrow> bool" where
  "is_ascii s \<longleftrightarrow> list_all (\<lambda>c. code c < 128) s"

section \<open>Strings\<close>

definition lower :: "string \<Rightarrow> string" where
  "lower s = map lower_char s"

definition upper :: "string \<Rightarrow> string" where
  "upper s = map upper_char s"

definition lstrip :: "string \<Rightarrow> string" where
  "lstrip s = dropWhile is_space s"

definition rstrip_where :: "(char \<Rightarrow> bool) \<Rightarrow> string \<Rightarrow> string" where
  "rstrip_where P s = rev (dropWhile P (rev s))"

definition strip :: "string \<Rightarrow> string" where
  "strip s = rstrip_where is_space (lstrip s)"

definition startswith :: "string \<Rightarrow> string \<Rightarrow> bool" where
  "startswith p s \<longleftrightarrow> take (length p) s = p"

definition endswith :: "string \<Rightarrow> string \<Rightarrow> bool" where
  "endswith p s \<longleftrightarrow> length p \<le> length s \<and> drop (length s - length p) s = p"

definition removeprefix :: "string \<Rightarrow> string \<Rightarrow> string" where
  "removeprefix p s = (if startswith p s then drop (length p) s else s)"

fun contains :: "string \<Rightarrow> string \<Rightarrow> bool" where
  "contains p [] \<longleftrightarrow> p = []"
| "contains p (c # s) \<longleftrightarrow> startswith p (c # s) \<or> contains p s"

text \<open>\<open>s.split(c)\<close>, \<open>s.split(c, 1)\<close> (a pair; the second part absent when \<open>c\<close> is).\<close>

fun split_on :: "char \<Rightarrow> string \<Rightarrow> string list" where
  "split_on c [] = [[]]"
| "split_on c (x # s) =
     (if x = c then [] # split_on c s
      else case split_on c s of [] \<Rightarrow> [[x]] | w # ws \<Rightarrow> (x # w) # ws)"

definition before :: "char \<Rightarrow> string \<Rightarrow> string" where
  "before c s = takeWhile (\<lambda>x. x \<noteq> c) s"

definition after :: "char \<Rightarrow> string \<Rightarrow> string" where
  "after c s = drop 1 (dropWhile (\<lambda>x. x \<noteq> c) s)"

definition cr :: char where "cr = CHR 0x0D"
definition lf :: char where "lf = CHR 0x0A"
definition dquote :: char where "dquote = CHR 0x22"
definition crlf :: string where "crlf = [cr, lf]"

fun split_crlf :: "string \<Rightarrow> string list" where
  "split_crlf [] = [[]]"
| "split_crlf [x] = [[x]]"
| "split_crlf (x # y # s) =
     (if x = cr \<and> y = lf then [] # split_crlf s
      else case split_crlf (y # s) of [] \<Rightarrow> [[x]] | w # ws \<Rightarrow> (x # w) # ws)"

fun join :: "string \<Rightarrow> string list \<Rightarrow> string" where
  "join sep [] = []"
| "join sep [w] = w"
| "join sep (w # v # ws) = w @ sep @ join sep (v # ws)"

text \<open>\<open>s.split(sub, 1)\<close> for a blank line: header block and body.\<close>

fun split_blank_line :: "string \<Rightarrow> string \<times> string option" where
  "split_blank_line [] = ([], None)"
| "split_blank_line (c # s) =
     (if startswith (crlf @ crlf) (c # s) then ([], Some (drop 4 (c # s)))
      else let (h, b) = split_blank_line s in (c # h, b))"

text \<open>
  \<open>hmac.compare_digest\<close> on two strings: \<open>TypeError\<close> (\<open>None\<close>) unless both are ASCII.
\<close>

definition compare_digest :: "string \<Rightarrow> string \<Rightarrow> bool option" where
  "compare_digest a b = (if is_ascii a \<and> is_ascii b then Some (a = b) else None)"

section \<open>Decimal numbers\<close>

definition digit_char :: "nat \<Rightarrow> char" where
  "digit_char d = char_of (48 + d)"

definition digit_value :: "char \<Rightarrow> nat" where
  "digit_value c = code c - 48"

fun nat_str :: "nat \<Rightarrow> string" where
  "nat_str n = (if n < 10 then [digit_char n] else nat_str (n div 10) @ [digit_char (n mod 10)])"

declare nat_str.simps [simp del]

definition int_str :: "int \<Rightarrow> string" where
  "int_str i = (if i < 0 then CHR ''-'' # nat_str (nat (- i)) else nat_str (nat i))"

definition digits_value :: "string \<Rightarrow> nat" where
  "digits_value s = foldl (\<lambda>a c. 10 * a + digit_value c) 0 s"

text \<open>
  \<open>int(s)\<close>: surrounding whitespace, an optional sign, decimal digits, single underscores
  between digits; \<open>None\<close> is \<open>ValueError\<close>.
\<close>

definition parse_digits :: "string \<Rightarrow> nat option" where
  "parse_digits s =
     (if list_all (\<lambda>w. w \<noteq> [] \<and> list_all is_digit w) (split_on CHR ''_'' s)
      then Some (digits_value (filter is_digit s)) else None)"

definition py_int :: "string \<Rightarrow> int option" where
  "py_int s = (case strip s of
       [] \<Rightarrow> None
     | c # r \<Rightarrow>
         if c = CHR ''-'' then map_option (\<lambda>n. - int n) (parse_digits r)
         else if c = CHR ''+'' then map_option int (parse_digits r)
         else map_option int (parse_digits (c # r)))"

text \<open>
  \<open>int(s)\<close> where \<open>s.isdigit()\<close> was tested; \<open>None\<close> is the \<open>ValueError\<close> for a superscript digit or
  for more than 4300 digits.
\<close>

definition str_isdigit :: "string \<Rightarrow> bool" where
  "str_isdigit s \<longleftrightarrow> s \<noteq> [] \<and> list_all is_digit_char s"

definition int_of_digits :: "string \<Rightarrow> int option" where
  "int_of_digits s = (if length s \<le> 4300 \<and> list_all is_digit s then Some (int (digits_value s)) else None)"

section \<open>Lemmas: stripping and splitting\<close>

lemma rstrip_where_append_end:
  "\<not> P c \<Longrightarrow> rstrip_where P (s @ [c]) = s @ [c]"
  by (simp add: rstrip_where_def)

lemma rstrip_where_last: "rstrip_where P s \<noteq> [] \<Longrightarrow> \<not> P (last (rstrip_where P s))"
  using hd_dropWhile [of P "rev s"] by (simp add: rstrip_where_def last_rev)

lemma rstrip_where_id: "s = [] \<or> \<not> P (last s) \<Longrightarrow> rstrip_where P s = s"
  by (cases s rule: rev_cases) (auto simp: rstrip_where_def)

lemma lstrip_id: "s = [] \<or> \<not> is_space (hd s) \<Longrightarrow> lstrip s = s"
  by (cases s) (auto simp: lstrip_def)

lemma strip_Nil [simp]: "strip [] = []"
  by (simp add: strip_def lstrip_def rstrip_where_def)

lemma strip_id:
  assumes "s = [] \<or> \<not> is_space (hd s) \<and> \<not> is_space (last s)"
  shows "strip s = s"
proof -
  have "lstrip s = s" by (rule lstrip_id) (use assms in auto)
  moreover have "rstrip_where is_space s = s" by (rule rstrip_where_id) (use assms in auto)
  ultimately show ?thesis by (simp add: strip_def)
qed

lemma strip_no_space: "list_all (\<lambda>c. \<not> is_space c) s \<Longrightarrow> strip s = s"
  by (rule strip_id) (cases s; auto simp: list_all_iff)

lemma strip_space_Cons: "is_space c \<Longrightarrow> strip (c # s) = strip s"
  by (simp add: strip_def lstrip_def)

lemma strip_last: "strip s \<noteq> [] \<Longrightarrow> \<not> is_space (last (strip s))"
proof -
  have *: "t \<noteq> [] \<Longrightarrow> \<not> P (last t)" if "t = rstrip_where P u" for t u P
    using that hd_dropWhile [of P "rev u"] by (auto simp: rstrip_where_def last_rev)
  show "strip s \<noteq> [] \<Longrightarrow> \<not> is_space (last (strip s))"
    by (rule *) (simp_all add: strip_def)
qed

lemma strip_hd: "strip s \<noteq> [] \<Longrightarrow> \<not> is_space (hd (strip s))"
proof -
  assume ne: "strip s \<noteq> []"
  obtain t where t: "lstrip s = strip s @ t"
  proof -
    have "lstrip s = rev (dropWhile is_space (rev (lstrip s))) @
        rev (takeWhile is_space (rev (lstrip s)))"
      by (metis rev_append rev_rev_ident takeWhile_dropWhile_id)
    then show ?thesis using that by (simp add: strip_def rstrip_where_def)
  qed
  with ne have "hd (lstrip s) = hd (strip s)" and "lstrip s \<noteq> []" by auto
  then show ?thesis using hd_dropWhile [of is_space s] by (auto simp: lstrip_def)
qed

lemma strip_idem [simp]: "strip (strip s) = strip s"
  by (rule strip_id) (use strip_hd [of s] strip_last [of s] in blast)

lemma set_strip: "set (strip s) \<subseteq> set s"
proof
  fix x assume "x \<in> set (strip s)"
  then have "x \<in> set (lstrip s)"
    by (auto simp: strip_def rstrip_where_def dest: set_dropWhileD)
  then show "x \<in> set s" by (auto simp: lstrip_def dest: set_dropWhileD)
qed

lemma split_on_not_Nil [simp]: "split_on c s \<noteq> []"
  by (induction s) (auto split: list.splits)

lemma split_on_none: "c \<notin> set s \<Longrightarrow> split_on c s = [s]"
  by (induction s) auto

lemma split_on_append:
  "c \<notin> set w \<Longrightarrow> split_on c (w @ c # s) = w # split_on c s"
  by (induction w) auto

lemma split_on_join:
  assumes "ws \<noteq> []" and "\<forall>w \<in> set ws. c \<notin> set w"
  shows "split_on c (join [c] ws) = ws"
  using assms
proof (induction "[c]" ws rule: join.induct)
  case (3 w v ws)
  then show ?case by (simp add: split_on_append)
qed (simp_all add: split_on_none)

lemma join_split_on: "join [c] (split_on c s) = s"
proof (induction s)
  case (Cons x s)
  then show ?case
    by (cases "split_on c s"; cases "tl (split_on c s)") auto
qed simp

lemma before_after:
  assumes "c \<notin> set k"
  shows "before c (k @ c # v) = k" and "after c (k @ c # v) = v"
proof -
  have *: "\<forall>x \<in> set k. x \<noteq> c" using assms by auto
  show "before c (k @ c # v) = k"
    using takeWhile_dropWhile_split(1) [OF *, of c v] by (simp add: before_def)
  show "after c (k @ c # v) = v"
    using takeWhile_dropWhile_split(2) [OF *, of c v] by (simp add: after_def)
qed

lemma split_crlf_not_Nil [simp]: "split_crlf s \<noteq> []"
  by (induction s rule: split_crlf.induct) (auto split: list.splits)

lemma split_crlf_none: "cr \<notin> set s \<Longrightarrow> split_crlf s = [s]"
  by (induction s rule: split_crlf.induct) auto

lemma split_crlf_append:
  "cr \<notin> set w \<Longrightarrow> split_crlf (w @ cr # lf # s) = w # split_crlf s"
proof (induction w)
  case Nil
  then show ?case by (simp add: cr_def lf_def)
next
  case (Cons a w)
  then obtain b r where br: "w @ cr # lf # s = b # r" by (cases w) auto
  from Cons.prems have "a \<noteq> cr" by auto
  with Cons show ?case by (simp add: br)
qed

lemma split_crlf_join:
  assumes "ws \<noteq> []" and "\<forall>w \<in> set ws. cr \<notin> set w"
  shows "split_crlf (join crlf ws) = ws"
  using assms
proof (induction crlf ws rule: join.induct)
  case (3 w v ws)
  then show ?case by (simp add: crlf_def split_crlf_append)
qed (simp_all add: split_crlf_none)

lemma split_crlf_join_last:
  assumes "\<forall>w \<in> set ws. cr \<notin> set w"
  shows "split_crlf (join crlf (ws @ [b])) = ws @ split_crlf b"
  using assms
proof (induction ws)
  case (Cons w ws)
  then have "join crlf ((w # ws) @ [b]) = w @ cr # lf # join crlf (ws @ [b])"
    by (cases "ws @ [b]") (auto simp: crlf_def)
  with Cons show ?case by (simp add: split_crlf_append)
qed simp

lemma length_crlf [simp]: "length crlf = 2"
  by (simp add: crlf_def)

section \<open>Lemmas: decimal numbers\<close>

lemma code_char_of: "n < 256 \<Longrightarrow> code (char_of n) = n"
  by (simp add: code_def of_char_of)

lemma digit_char_value: "d < 10 \<Longrightarrow> digit_value (digit_char d) = d"
  by (simp add: digit_value_def digit_char_def code_char_of)

lemma digit_char_digit: "d < 10 \<Longrightarrow> is_digit (digit_char d)"
  by (simp add: is_digit_def digit_char_def code_char_of)

lemma is_digit_not_space: "is_digit c \<Longrightarrow> \<not> is_space c"
  by (auto simp: is_digit_def is_space_def Let_def)

lemma is_digit_not_sign:
  assumes "is_digit c"
  shows "c \<noteq> CHR ''-''" and "c \<noteq> CHR ''+''" and "c \<noteq> CHR ''_''" and "c \<noteq> CHR '':''"
  using assms by (auto simp: is_digit_def code_def)

lemma nat_str_not_Nil [simp]: "nat_str n \<noteq> []"
  by (subst nat_str.simps) simp

lemma nat_str_digits: "list_all is_digit (nat_str n)"
proof (induction n rule: nat_str.induct)
  case (1 n)
  show ?case
  proof (cases "n < 10")
    case True
    then show ?thesis by (subst nat_str.simps) (simp add: digit_char_digit)
  next
    case False
    with 1 show ?thesis by (subst nat_str.simps) (simp add: digit_char_digit)
  qed
qed

lemma digits_value_snoc: "digits_value (s @ [c]) = 10 * digits_value s + digit_value c"
  by (simp add: digits_value_def)

lemma digits_value_nat_str [simp]: "digits_value (nat_str n) = n"
proof (induction n rule: nat_str.induct)
  case (1 n)
  show ?case
  proof (cases "n < 10")
    case True
    then show ?thesis
      by (subst nat_str.simps) (simp add: digits_value_def digit_char_value)
  next
    case False
    with 1 show ?thesis
      by (subst nat_str.simps) (simp add: digits_value_snoc digit_char_value)
  qed
qed

lemma filter_list_all: "list_all P xs \<Longrightarrow> filter P xs = xs"
  by (induction xs) auto

lemma parse_digits_nat_str [simp]: "parse_digits (nat_str n) = Some n"
proof -
  have "CHR ''_'' \<notin> set (nat_str n)"
    using nat_str_digits [of n] is_digit_not_sign(3) by (force simp: list_all_iff)
  then show ?thesis
    by (simp add: parse_digits_def split_on_none nat_str_digits filter_list_all)
qed

lemma strip_nat_str [simp]: "strip (nat_str n) = nat_str n"
  by (rule strip_no_space) (use nat_str_digits [of n] in \<open>auto simp: list_all_iff is_digit_not_space\<close>)

text \<open>\<open>int(str(i)) == i\<close>.\<close>

lemma py_int_int_str [simp]: "py_int (int_str i) = Some i"
proof (cases "i < 0")
  case True
  have "strip (CHR ''-'' # nat_str (nat (- i))) = CHR ''-'' # nat_str (nat (- i))"
    using nat_str_digits [of "nat (- i)"]
    by (intro strip_no_space) (auto simp: list_all_iff dest: is_digit_not_space, simp add: is_space_def code_def)
  with True show ?thesis by (simp add: py_int_def int_str_def)
next
  case False
  obtain c r where cr: "nat_str (nat i) = c # r" by (cases "nat_str (nat i)") auto
  with nat_str_digits [of "nat i"] have "is_digit c" by simp
  then have "c \<noteq> CHR ''-''" and "c \<noteq> CHR ''+''" using is_digit_not_sign by blast+
  moreover have "parse_digits (c # r) = Some (nat i)" and "strip (c # r) = c # r"
    using parse_digits_nat_str [of "nat i"] strip_nat_str [of "nat i"] cr by simp_all
  ultimately show ?thesis using False by (simp add: py_int_def int_str_def cr)
qed

lemma length_lower [simp]: "length (lower s) = length s"
  by (simp add: lower_def)

section \<open>Regular-expression search\<close>

text \<open>
  A pattern is modelled by its matcher at the start of a string.  \<open>search\<close> is
  \<open>re.search\<close>; \<open>find_all\<close> is \<open>re.finditer\<close>, its matcher also returning the rest of the
  string.
\<close>

fun search :: "(string \<Rightarrow> 'a option) \<Rightarrow> string \<Rightarrow> 'a option" where
  "search m [] = m []"
| "search m (c # s) = (case m (c # s) of Some r \<Rightarrow> Some r | None \<Rightarrow> search m s)"

function find_all :: "(string \<Rightarrow> ('a \<times> string) option) \<Rightarrow> string \<Rightarrow> 'a list" where
  "find_all m [] = []"
| "find_all m (c # s) =
     (case m (c # s) of
        None \<Rightarrow> find_all m s
      | Some (r, rest) \<Rightarrow> if length rest < length (c # s) then r # find_all m rest else [r])"
  by pat_completeness auto
termination
  by (relation "measure (\<lambda>(m, s). length s)") auto

lemma takeWhile_prefix:
  assumes "list_all P xs" and "ys = [] \<or> \<not> P (hd ys)"
  shows "takeWhile P (xs @ ys) = xs" and "dropWhile P (xs @ ys) = ys"
proof -
  have "takeWhile P ys = []" and "dropWhile P ys = ys" using assms(2) by (cases ys; simp)+
  with assms(1) show "takeWhile P (xs @ ys) = xs" and "dropWhile P (xs @ ys) = ys"
    by (simp_all add: list_all_iff takeWhile_append2 dropWhile_append2)
qed

lemma startswith_append [simp]: "startswith p (p @ s)"
  by (simp add: startswith_def)

lemma search_append:
  assumes "\<And>u v. pre = u @ v \<Longrightarrow> v \<noteq> [] \<Longrightarrow> m (v @ s) = None"
  shows "search m (pre @ s) = search m s"
  using assms
proof (induction pre)
  case Nil
  then show ?case by simp
next
  case (Cons c pre)
  have "m ((c # pre) @ s) = None" using Cons.prems [of "[]" "c # pre"] by simp
  moreover have "search m (pre @ s) = search m s"
    by (rule Cons.IH) (use Cons.prems [of "c # u" for u] in auto)
  ultimately show ?case by simp
qed

lemma search_here: "m s = Some r \<Longrightarrow> search m s = Some r"
  by (cases s) simp_all

lemma span_append:
  assumes "list_all P xs" and "\<not> P y"
  shows "takeWhile P (xs @ y # ys) = xs" and "dropWhile P (xs @ y # ys) = y # ys"
  using takeWhile_dropWhile_split [of xs P y ys] assms by (simp_all add: list_all_iff)

lemma takeWhile_all: "list_all P xs \<Longrightarrow> takeWhile P xs = xs"
  by (induction xs) auto

end
