(* ===== verification/Base64.thy ===== *)
theory Base64
  imports Bytes Py_Strings
begin

text \<open>
  The base64 functions of Python's standard library as the code uses them:
  \<open>b64encode\<close>, the lenient \<open>b64decode\<close> (characters outside the alphabet are skipped,
  a pad sequence ends the input, an incomplete quantum is \<open>binascii.Error\<close>, here
  \<open>None\<close>), and the unpadded URL-safe pair \<open>_b64url_encode\<close>/\<open>_b64url_decode\<close> of
  \<open>app/api/v1/public/ws_auth.py\<close>.
\<close>

definition b64_alphabet :: string where
  "b64_alphabet = ''ABCDEFGHIJKLMNOPQRSTUVWXYZabcdefghijklmnopqrstuvwxyz0123456789+/''"

definition b64_char :: "nat \<Rightarrow> char" where
  "b64_char n = b64_alphabet ! n"

definition b64_value :: "char \<Rightarrow> nat option" where
  "b64_value c = (let n = code c in
     if 65 \<le> n \<and> n \<le> 90 then Some (n - 65)
     else if 97 \<le> n \<and> n \<le> 122 then Some (n - 71)
     else if 48 \<le> n \<and> n \<le> 57 then Some (n + 4)
     else if n = 43 then Some 62 else if n = 47 then Some 63 else None)"

definition nbyte :: "nat \<Rightarrow> byte" where
  "nbyte n = word_of_nat n"

text \<open>The characters of a group of one, two or three bytes, without padding.\<close>

fun b64_group :: "bytes \<Rightarrow> string" where
  "b64_group [] = []"
| "b64_group [a] = [b64_char (unat a div 4), b64_char (unat a mod 4 * 16)]"
| "b64_group [a, b] =
     [b64_char (unat a div 4), b64_char (unat a mod 4 * 16 + unat b div 16),
      b64_char (unat b mod 16 * 4)]"
| "b64_group (a # b # c # bs) =
     b64_char (unat a div 4) # b64_char (unat a mod 4 * 16 + unat b div 16) #
     b64_char (unat b mod 16 * 4 + unat c div 64) # b64_char (unat c mod 64) # b64_group bs"

definition b64_pad :: "nat \<Rightarrow> string" where
  "b64_pad n = replicate ((4 - n mod 4) mod 4) (CHR ''='')"

definition b64encode :: "bytes \<Rightarrow> string" where
  "b64encode bs = (let s = b64_group bs in s @ b64_pad (length s))"

text \<open>
  The decoder loop: position in the quantum, bits left over, pads seen.
\<close>

fun b64_loop :: "nat \<Rightarrow> nat \<Rightarrow> nat \<Rightarrow> string \<Rightarrow> bytes option" where
  "b64_loop quad left pads [] = (if quad = 0 then Some [] else None)"
| "b64_loop quad left pads (c # s) =
     (if c = CHR ''='' then
        (if 2 \<le> quad \<and> 4 \<le> quad + Suc pads then Some []
         else b64_loop quad left (if 2 \<le> quad then Suc pads else pads) s)
      else case b64_value c of
        None \<Rightarrow> b64_loop quad left pads s
      | Some v \<Rightarrow>
          (if quad = 0 then b64_loop 1 v 0 s
           else if quad = 1 then
             map_option (\<lambda>bs. nbyte (left * 4 + v div 16) # bs) (b64_loop 2 (v mod 16) 0 s)
           else if quad = 2 then
             map_option (\<lambda>bs. nbyte (left * 16 + v div 4) # bs) (b64_loop 3 (v mod 4) 0 s)
           else map_option (\<lambda>bs. nbyte (left * 64 + v) # bs) (b64_loop 0 0 0 s)))"

definition b64decode :: "string \<Rightarrow> bytes option" where
  "b64decode s = b64_loop 0 0 0 s"

text \<open>
  \<open>urlsafe_b64encode(data).rstrip(b"=")\<close> and the decoder that restores the padding and
  refuses (\<open>ValueError\<close>) text that is not ASCII.
\<close>

definition to_urlsafe :: "char \<Rightarrow> char" where
  "to_urlsafe c = (if c = CHR ''+'' then CHR ''-'' else if c = CHR ''/'' then CHR ''_'' else c)"

definition from_urlsafe :: "char \<Rightarrow> char" where
  "from_urlsafe c = (if c = CHR ''-'' then CHR ''+'' else if c = CHR ''_'' then CHR ''/'' else c)"

definition b64url_encode :: "bytes \<Rightarrow> string" where
  "b64url_encode bs = rstrip_where (\<lambda>c. c = CHR ''='') (map to_urlsafe (b64encode bs))"

definition b64url_decode :: "string \<Rightarrow> bytes option" where
  "b64url_decode s =
     (let padding = 4 - length s mod 4;
          s = (if padding \<noteq> 4 then s @ replicate padding (CHR ''='') else s)
      in if is_ascii s then b64decode (map from_urlsafe s) else None)"

section \<open>The alphabet\<close>

lemma b64_alphabet_values: "map b64_value b64_alphabet = map Some [0..<64]"
  by (simp add: b64_alphabet_def b64_value_def code_def upt_rec)

lemma b64_alphabet_urlsafe:
  "list_all (\<lambda>c. c \<noteq> CHR ''='' \<and> from_urlsafe (to_urlsafe c) = c \<and> to_urlsafe c \<noteq> CHR ''='' \<and>
     to_urlsafe c \<noteq> CHR ''.'') b64_alphabet"
  by (simp add: b64_alphabet_def to_urlsafe_def from_urlsafe_def)

lemma length_b64_alphabet: "length b64_alphabet = 64"
  by (simp add: b64_alphabet_def)

lemma b64_value_char [simp]:
  assumes "n < 64"
  shows "b64_value (b64_char n) = Some n"
proof -
  from b64_alphabet_values have "map b64_value b64_alphabet ! n = map Some [0..<64] ! n" by simp
  then show ?thesis using assms by (simp add: length_b64_alphabet b64_char_def)
qed

lemma b64_char_urlsafe:
  assumes "n < 64"
  shows "b64_char n \<noteq> CHR ''=''" and "from_urlsafe (to_urlsafe (b64_char n)) = b64_char n"
    and "to_urlsafe (b64_char n) \<noteq> CHR ''=''" and "to_urlsafe (b64_char n) \<noteq> CHR ''.''"
proof -
  have "b64_char n \<in> set b64_alphabet" using assms by (simp add: b64_char_def length_b64_alphabet)
  from bspec [OF b64_alphabet_urlsafe [unfolded list_all_iff] this]
  show "b64_char n \<noteq> CHR ''=''" and "from_urlsafe (to_urlsafe (b64_char n)) = b64_char n"
    and "to_urlsafe (b64_char n) \<noteq> CHR ''=''" and "to_urlsafe (b64_char n) \<noteq> CHR ''.''" by simp_all
qed

lemma nbyte_eq [simp]: "nbyte (unat b) = b"
  by (simp add: nbyte_def)

lemma byte_parts [simp]:
  fixes a :: byte
  shows "unat a div 4 < 64" and "unat a div 16 < 16" and "unat a div 64 < 4"
  using unat_byte_less [of a] by (auto intro!: less_mult_imp_div_less)

lemma six_bits:
  fixes a b :: byte
  shows "unat a div 4 < 64" and "unat a mod 4 * 16 + unat b div 16 < 64"
    and "unat a mod 16 * 4 + unat b div 64 < 64" and "unat a mod 4 * 16 < 64"
    and "unat a mod 16 * 4 < 64" and "unat a mod 64 < 64"
proof -
  have m: "unat a mod 4 < 4" "unat a mod 16 < 16" "unat a mod 64 < 64" by simp_all
  show "unat a div 4 < 64" and "unat a mod 64 < 64" by simp_all
  show "unat a mod 4 * 16 < 64" and "unat a mod 16 * 4 < 64" using m by linarith+
  show "unat a mod 4 * 16 + unat b div 16 < 64" using m byte_parts(2) [of b] by linarith
  show "unat a mod 16 * 4 + unat b div 64 < 64" using m byte_parts(3) [of b] by linarith
qed

lemma regroup_first:
  fixes a b :: byte
  shows "nbyte (unat a div 4 * 4 + (unat a mod 4 * 16 + unat b div 16) div 16) = a"
proof -
  have "(unat a mod 4 * 16 + unat b div 16) div 16 = unat a mod 4"
    by (simp add: div_add1_eq)
  then show ?thesis by simp
qed

lemma regroup_second:
  fixes b :: byte
  assumes "k < 256"
  shows "nbyte ((i * 16 + unat b div 16) mod 16 * 16 + (unat b mod 16 * 4 + k div 64) div 4) = b"
proof -
  have "(i * 16 + unat b div 16) mod 16 = unat b div 16" by simp
  moreover have "k div 64 < 4" using assms by (auto intro!: less_mult_imp_div_less)
  then have "(unat b mod 16 * 4 + k div 64) div 4 = unat b mod 16" by simp
  ultimately show ?thesis by simp
qed

lemma regroup_third:
  fixes c :: byte
  shows "nbyte ((i * 4 + unat c div 64) mod 4 * 64 + unat c mod 64) = c"
proof -
  have "(i * 4 + unat c div 64) mod 4 = unat c div 64" by simp
  then show ?thesis by simp
qed

lemmas regroup = regroup_first regroup_second regroup_third

lemma b64_pad_add4: "b64_pad (Suc (Suc (Suc (Suc n)))) = b64_pad n"
proof -
  have "Suc (Suc (Suc (Suc n))) = n + 4" by simp
  then show ?thesis by (simp only: b64_pad_def) simp
qed

section \<open>Round trips\<close>

lemma b64_loop_char:
  assumes "n < 64"
  shows "b64_loop quad left pads (b64_char n # s) =
    (if quad = 0 then b64_loop 1 n 0 s
     else if quad = 1 then
       map_option (\<lambda>bs. nbyte (left * 4 + n div 16) # bs) (b64_loop 2 (n mod 16) 0 s)
     else if quad = 2 then
       map_option (\<lambda>bs. nbyte (left * 16 + n div 4) # bs) (b64_loop 3 (n mod 4) 0 s)
     else map_option (\<lambda>bs. nbyte (left * 64 + n) # bs) (b64_loop 0 0 0 s))"
  using b64_value_char [OF assms] b64_char_urlsafe(1) [OF assms] by simp

lemma b64_loop_pads:
  "b64_loop 2 left 0 ''=='' = Some []" "b64_loop 3 left 0 ''='' = Some []"
  "b64_loop 0 left pads [] = Some []"
  by (simp_all add: eval_nat_numeral)

lemma b64_loop_group:
  "b64_loop 0 left pads (b64_group bs @ b64_pad (length (b64_group bs))) = Some bs"
proof (induction bs arbitrary: left pads rule: b64_group.induct)
  case 1
  then show ?case by (simp add: b64_pad_def)
next
  case (2 a)
  have n: "nbyte (unat a div 4 * 4 + unat a mod 4 * 16 div 16) = a"
    using regroup_first [of a 0] by simp
  have p: "b64_pad (length (b64_group [a])) = ''==''" by (simp add: b64_pad_def numeral_2_eq_2)
  show ?case
    unfolding p unfolding b64_group.simps append.simps
    by (simp only: b64_loop_char six_bits n b64_loop_pads if_True if_False simp_thms
        one_neq_zero zero_neq_one option.map)
next
  case (3 a b)
  have n: "nbyte ((unat a mod 4 * 16 + unat b div 16) mod 16 * 16 + unat b mod 16 * 4 div 4) = b"
    using regroup_second [of 0 "unat a mod 4" b] by simp
  have p: "b64_pad (length (b64_group [a, b])) = ''=''" by (simp add: b64_pad_def)
  show ?case
    unfolding p unfolding b64_group.simps append.simps
    by (simp only: b64_loop_char six_bits n regroup_first b64_loop_pads if_True if_False simp_thms
        one_neq_zero option.map) simp
next
  case (4 a b c bs)
  have p: "b64_pad (length (b64_group (a # b # c # bs))) = b64_pad (length (b64_group bs))"
    by (simp add: b64_pad_add4)
  show ?case
    unfolding p unfolding b64_group.simps append.simps
    using 4 unat_byte_less [of c]
    by (simp only: b64_loop_char six_bits regroup if_True if_False simp_thms
        one_neq_zero option.map) simp
qed

lemma b64decode_encode: "b64decode (b64encode bs) = Some bs"
  by (simp add: b64decode_def b64encode_def Let_def b64_loop_group)

lemma b64_group_no_pad: "CHR ''='' \<notin> set (map to_urlsafe (b64_group bs))"
  by (induction bs rule: b64_group.induct)
     (simp_all add: b64_char_urlsafe(3)[THEN not_sym] b64_char_urlsafe(3) six_bits)

lemma b64_group_no_dot: "CHR ''.'' \<notin> set (map to_urlsafe (b64_group bs))"
  by (induction bs rule: b64_group.induct)
     (simp_all add: b64_char_urlsafe(4)[THEN not_sym] b64_char_urlsafe(4) six_bits)

lemma b64_group_restore: "map from_urlsafe (map to_urlsafe (b64_group bs)) = b64_group bs"
  by (induction bs rule: b64_group.induct) (simp_all add: b64_char_urlsafe(2) six_bits)

lemma rstrip_where_replicate:
  assumes "list_all (\<lambda>c. \<not> P c) s" and "P d"
  shows "rstrip_where P (s @ replicate n d) = s"
  using assms
proof (induction n)
  case 0
  then show ?case by (cases s rule: rev_cases) (auto simp: rstrip_where_def)
next
  case (Suc n)
  have "s @ replicate (Suc n) d = (s @ replicate n d) @ [d]"
    by (simp add: replicate_append_same)
  moreover have "rstrip_where P ((s @ replicate n d) @ [d]) = rstrip_where P (s @ replicate n d)"
    using Suc.prems(2) by (simp add: rstrip_where_def)
  ultimately have "rstrip_where P (s @ replicate (Suc n) d) = rstrip_where P (s @ replicate n d)"
    by (simp only:)
  with Suc show ?case by simp
qed

lemma b64url_encode_eq: "b64url_encode bs = map to_urlsafe (b64_group bs)"
proof -
  have "map to_urlsafe (b64_pad n) = replicate ((4 - n mod 4) mod 4) (CHR ''='')" for n
    by (simp add: b64_pad_def to_urlsafe_def)
  moreover have "list_all (\<lambda>c. c \<noteq> CHR ''='') (map to_urlsafe (b64_group bs))"
    using b64_group_no_pad [of bs] unfolding list_all_iff by metis
  ultimately show ?thesis
    by (simp add: b64url_encode_def b64encode_def Let_def rstrip_where_replicate)
qed

lemma b64url_no_dot: "CHR ''.'' \<notin> set (b64url_encode bs)"
  unfolding b64url_encode_eq by (rule b64_group_no_dot)

lemma b64_urlsafe_ascii: "list_all (\<lambda>c. code (to_urlsafe c) < 128) b64_alphabet"
  by (simp add: b64_alphabet_def to_urlsafe_def code_def)

lemma b64_char_ascii:
  assumes "n < 64"
  shows "code (to_urlsafe (b64_char n)) < 128"
proof -
  have "b64_char n \<in> set b64_alphabet" using assms by (simp add: b64_char_def length_b64_alphabet)
  with b64_urlsafe_ascii show ?thesis by (simp add: list_all_iff)
qed

lemma b64url_encode_ascii: "is_ascii (b64url_encode bs)"
  unfolding b64url_encode_eq is_ascii_def
  by (induction bs rule: b64_group.induct) (simp_all add: six_bits b64_char_ascii)

lemma b64url_decode_encode: "b64url_decode (b64url_encode bs) = Some bs"
proof -
  let ?g = "b64_group bs" and ?n = "length (b64_group bs)"
  note restore = b64_group_restore [of bs]
  have eq: "from_urlsafe (CHR ''='') = CHR ''=''" by (simp add: from_urlsafe_def)
  have "map from_urlsafe (if 4 - ?n mod 4 \<noteq> 4
      then b64url_encode bs @ replicate (4 - ?n mod 4) (CHR ''='') else b64url_encode bs) =
    ?g @ b64_pad ?n"
  proof (cases "?n mod 4 = 0")
    case True
    then show ?thesis using restore by (simp add: b64url_encode_eq b64_pad_def)
  next
    case False
    then have "4 - ?n mod 4 \<noteq> 4" and "(4 - ?n mod 4) mod 4 = 4 - ?n mod 4"
      by (auto intro: mod_less)
    then show ?thesis using restore by (simp add: b64url_encode_eq b64_pad_def eq)
  qed
  moreover have "length (b64url_encode bs) = ?n" by (simp add: b64url_encode_eq)
  moreover have "is_ascii (if 4 - ?n mod 4 \<noteq> 4
      then b64url_encode bs @ replicate (4 - ?n mod 4) (CHR ''='') else b64url_encode bs)"
    using b64url_encode_ascii [of bs] by (simp add: is_ascii_def list_all_iff code_def)
  ultimately show ?thesis
    by (simp add: b64url_decode_def Let_def b64decode_def b64_loop_group)
qed

end
