(* ===== verification/Srtp_Context.thy ===== *)
theory Srtp_Context
  imports Base64
begin

text \<open>
  \<open>sip_bridge/srtp_context.py\<close>: the SDES crypto line (parser and formatter), the key
  length checks and the wrapper around the SRTP session.  The session object of
  \<open>pylibsrtp\<close> is not under src/: its \<open>protect\<close>/\<open>unprotect\<close> are arguments
  (\<open>None\<close> when the library raises).
\<close>

datatype srtp_error = UnsupportedSuite string | KeyLength nat | Base64Error | ProtectFailed | UnprotectFailed

record sdes_crypto =
  sdes_tag :: nat
  sdes_suite :: string
  sdes_key :: bytes

definition SUPPORTED_SUITES :: "string list" where
  "SUPPORTED_SUITES = [''AES_CM_128_HMAC_SHA1_80'', ''AES_CM_128_HMAC_SHA1_32'']"

definition expected_key_length :: "string \<Rightarrow> nat" where
  "expected_key_length suite = 30"

definition is_b64_char :: "char \<Rightarrow> bool" where
  "is_b64_char c \<longleftrightarrow> b64_value c \<noteq> None \<or> c = CHR ''=''"

text \<open>
  \<open>_CRYPTO_RE\<close> at the start of a string.  Neighbouring classes of the pattern are
  disjoint, so greedy matching never has to give a character back.
\<close>

definition match_crypto :: "string \<Rightarrow> (string \<times> string \<times> string) option" where
  "match_crypto s =
     (if \<not> startswith ''a=crypto:'' s then None else
      let r = drop 9 s; tag = takeWhile is_digit r; r = dropWhile is_digit r;
          sp = takeWhile is_space r; r = dropWhile is_space r;
          suite = takeWhile is_word r; r = dropWhile is_word r;
          sp2 = takeWhile is_space r; r = dropWhile is_space r
      in if tag = [] \<or> sp = [] \<or> suite = [] \<or> sp2 = [] \<or> \<not> startswith ''inline:'' r then None
         else let key = takeWhile is_b64_char (drop 7 r)
              in if key = [] then None else Some (tag, suite, key))"

definition parse_sdes_crypto :: "string \<Rightarrow> srtp_error + sdes_crypto option" where
  "parse_sdes_crypto sdp =
     (case search match_crypto sdp of
        None \<Rightarrow> Inr None
      | Some (tag, suite, key64) \<Rightarrow>
          if suite \<notin> set SUPPORTED_SUITES then Inl (UnsupportedSuite suite)
          else (case b64decode key64 of
             None \<Rightarrow> Inl Base64Error
           | Some key \<Rightarrow>
               if length key \<noteq> expected_key_length suite then Inl (KeyLength (length key))
               else Inr (Some \<lparr>sdes_tag = digits_value tag, sdes_suite = suite, sdes_key = key\<rparr>)))"

definition format_crypto_line :: "nat \<Rightarrow> bytes \<Rightarrow> string \<Rightarrow> string" where
  "format_crypto_line tag key_material suite =
     ''a=crypto:'' @ nat_str tag @ '' '' @ suite @ '' inline:'' @ b64encode key_material"

section \<open>The context\<close>

record srtp_session =
  srtp_key :: bytes
  srtp_is_sender :: bool

definition srtp_context_init :: "bytes \<Rightarrow> bool \<Rightarrow> srtp_error + srtp_session" where
  "srtp_context_init key_material is_sender =
     (if length key_material \<noteq> 30 then Inl (KeyLength (length key_material))
      else Inr \<lparr>srtp_key = key_material, srtp_is_sender = is_sender\<rparr>)"

definition srtp_protect ::
  "(srtp_session \<Rightarrow> bytes \<Rightarrow> bytes option) \<Rightarrow> srtp_session \<Rightarrow> bytes \<Rightarrow> srtp_error + bytes" where
  "srtp_protect lib_protect s rtp =
     (case lib_protect s rtp of Some b \<Rightarrow> Inr b | None \<Rightarrow> Inl ProtectFailed)"

definition srtp_unprotect ::
  "(srtp_session \<Rightarrow> bytes \<Rightarrow> bytes option) \<Rightarrow> srtp_session \<Rightarrow> bytes \<Rightarrow> srtp_error + bytes" where
  "srtp_unprotect lib_unprotect s srtp =
     (case lib_unprotect s srtp of Some b \<Rightarrow> Inr b | None \<Rightarrow> Inl UnprotectFailed)"

section \<open>Matching a formatted line\<close>

lemma b64_group_alphabet: "list_all is_b64_char (b64_group bs)"
  by (induction bs rule: b64_group.induct) (simp_all add: six_bits is_b64_char_def)

lemma b64encode_alphabet: "list_all is_b64_char (b64encode bs)"
  using b64_group_alphabet [of bs]
  by (auto simp: b64encode_def Let_def b64_pad_def list_all_iff is_b64_char_def)

lemma match_crypto_format:
  assumes tail: "post = [] \<or> \<not> is_b64_char (hd post)"
    and suite: "suite \<noteq> []" "list_all is_word suite" and key: "key \<noteq> []"
  shows "match_crypto (format_crypto_line tag key suite @ post) =
    Some (nat_str tag, suite, b64encode key)"
proof -
  let ?k = "b64encode key"
  have facts: "\<not> is_digit (CHR '' '')" "is_space (CHR '' '')" "\<not> is_word (CHR '' '')"
      "\<not> is_space (CHR ''i'')"
    by (simp_all add: is_digit_def is_space_def is_word_def is_alnum_def is_alpha_def code_def)
  have suite_ns: "\<not> is_space (hd suite)"
    using suite by (cases suite)
      (auto simp: is_word_def is_alnum_def is_alpha_def is_digit_def is_space_def code_def Let_def)
  have t: "takeWhile is_digit (nat_str tag @ '' '' @ suite @ '' inline:'' @ ?k @ post) = nat_str tag"
      "dropWhile is_digit (nat_str tag @ '' '' @ suite @ '' inline:'' @ ?k @ post) =
        '' '' @ suite @ '' inline:'' @ ?k @ post"
    by (rule takeWhile_prefix [OF nat_str_digits]; simp add: facts)+
  have s1: "takeWhile is_space ('' '' @ suite @ '' inline:'' @ ?k @ post) = '' ''"
      "dropWhile is_space ('' '' @ suite @ '' inline:'' @ ?k @ post) = suite @ '' inline:'' @ ?k @ post"
    by (rule takeWhile_prefix; use facts suite suite_ns in auto)+
  have s2: "takeWhile is_word (suite @ '' inline:'' @ ?k @ post) = suite"
      "dropWhile is_word (suite @ '' inline:'' @ ?k @ post) = '' inline:'' @ ?k @ post"
    by (rule takeWhile_prefix [OF suite(2)]; simp add: facts)+
  have s3: "takeWhile is_space ('' '' @ ''inline:'' @ ?k @ post) = '' ''"
      "dropWhile is_space ('' '' @ ''inline:'' @ ?k @ post) = ''inline:'' @ ?k @ post"
    by (rule takeWhile_prefix; simp add: facts)+
  have k: "takeWhile is_b64_char (?k @ post) = ?k"
    by (rule takeWhile_prefix(1) [OF b64encode_alphabet tail])
  have kne: "?k \<noteq> []" using key by (cases key rule: b64_group.cases) (auto simp: b64encode_def Let_def)
  have d: "drop 9 (format_crypto_line tag key suite @ post) =
      nat_str tag @ '' '' @ suite @ '' inline:'' @ ?k @ post"
    by (simp add: format_crypto_line_def)
  have st: "startswith ''a=crypto:'' (format_crypto_line tag key suite @ post)"
    by (simp add: format_crypto_line_def startswith_def)
  have sti: "startswith ''inline:'' (''inline:'' @ ?k @ post)" by (rule startswith_append)
  have dk: "drop 7 (''inline:'' @ ?k @ post) = ?k @ post" by simp
  show ?thesis
    unfolding match_crypto_def Let_def d t s1 s2
    using s3 st sti dk k kne suite(1) by simp
qed

lemma supported_suite_word:
  "suite \<in> set SUPPORTED_SUITES \<Longrightarrow> suite \<noteq> [] \<and> list_all is_word suite"
  by (auto simp: SUPPORTED_SUITES_def is_word_def is_alnum_def is_alpha_def is_digit_def code_def Let_def)

lemma parse_format_crypto:
  assumes pre: "\<And>u v. pre = u @ v \<Longrightarrow> v \<noteq> [] \<Longrightarrow> match_crypto (v @ format_crypto_line tag key suite @ post) = None"
    and tail: "post = [] \<or> \<not> is_b64_char (hd post)"
    and suite: "suite \<in> set SUPPORTED_SUITES" and key: "length key = 30"
  shows "parse_sdes_crypto (pre @ format_crypto_line tag key suite @ post) =
    Inr (Some \<lparr>sdes_tag = tag, sdes_suite = suite, sdes_key = key\<rparr>)"
proof -
  have "key \<noteq> []" using key by auto
  then have "match_crypto (format_crypto_line tag key suite @ post) = Some (nat_str tag, suite, b64encode key)"
    using match_crypto_format tail supported_suite_word [OF suite] by blast
  moreover have "search match_crypto (pre @ format_crypto_line tag key suite @ post) =
      search match_crypto (format_crypto_line tag key suite @ post)"
    by (rule search_append) (use pre in blast)
  ultimately have "search match_crypto (pre @ format_crypto_line tag key suite @ post) =
      Some (nat_str tag, suite, b64encode key)"
    by (simp add: search_here)
  then show ?thesis
    using suite key by (simp add: parse_sdes_crypto_def b64decode_encode expected_key_length_def)
qed

lemma parse_sdes_crypto_key_length:
  "parse_sdes_crypto sdp = Inr (Some c) \<Longrightarrow> length (sdes_key c) = 30 \<and> sdes_suite c \<in> set SUPPORTED_SUITES"
  by (auto simp: parse_sdes_crypto_def expected_key_length_def split: option.splits prod.splits if_splits)

end
