(* ===== verification/Sip_Auth.thy ===== *)
theory Sip_Auth
  imports Py_Strings
begin

text \<open>
  \<open>sip_bridge/sip_auth.py\<close>: SIP digest authentication.  The challenge parser follows
  \<open>_PARAM_RE\<close> character by character.  \<open>hashlib\<close>'s digests are the arguments \<open>md5\<close> and
  \<open>sha256\<close> (text to hex digest); random bytes and the clock reach the model as the
  arguments \<open>cnonce\<close> and \<open>nonce\<close>.  A \<open>ValueError\<close> is \<open>Inl\<close> of the reason.
\<close>

datatype auth_error = NotDigest | MissingFields

datatype digest_error = UnsupportedAlgorithm string | SessNeedsCnonce | QopNeedsCnonce

type_synonym params = "(string, string) dict"

section \<open>Parsing a challenge\<close>

text \<open>\<open>^[\w-]+\s*:\s*\<close>: an optional header name in front of the value.\<close>

definition skip_header_name :: "string \<Rightarrow> string" where
  "skip_header_name value =
     (let name = takeWhile (\<lambda>c. is_word c \<or> c = CHR ''-'') value;
          r = dropWhile is_space (dropWhile (\<lambda>c. is_word c \<or> c = CHR ''-'') value)
      in if name \<noteq> [] \<and> r \<noteq> [] \<and> hd r = CHR '':'' then dropWhile is_space (tl r) else value)"

text \<open>\<open>(\w+)=(?:"([^"]+)"|([^,\s]+))\<close> at the start of a string: key, value, rest.\<close>

definition match_value :: "string \<Rightarrow> (string \<times> string) option" where
  "match_value r =
     (let q = takeWhile (\<lambda>c. c \<noteq> dquote) (tl r); after_q = dropWhile (\<lambda>c. c \<noteq> dquote) (tl r);
          v = takeWhile (\<lambda>c. c \<noteq> CHR '','' \<and> \<not> is_space c) r
      in if r \<noteq> [] \<and> hd r = dquote \<and> q \<noteq> [] \<and> after_q \<noteq> [] then Some (q, tl after_q)
         else if v \<noteq> [] then Some (v, dropWhile (\<lambda>c. c \<noteq> CHR '','' \<and> \<not> is_space c) r)
         else None)"

definition match_param :: "string \<Rightarrow> (string \<times> string \<times> string) option" where
  "match_param s =
     (let key = takeWhile is_word s; r = dropWhile is_word s
      in if key \<noteq> [] \<and> r \<noteq> [] \<and> hd r = CHR ''=''
         then map_option (\<lambda>(v, rest). (key, v, rest)) (match_value (tl r)) else None)"

lemma length_dropWhile_le_tl: "xs \<noteq> [] \<Longrightarrow> length (dropWhile P (tl xs)) < length xs"
  by (cases xs) (simp_all add: length_dropWhile_le less_Suc_eq_le)

lemma match_value_shrinks: "match_value r = Some (v, rest) \<Longrightarrow> length rest \<le> length r"
  by (auto simp: match_value_def Let_def length_dropWhile_le split: if_splits)
     (use length_dropWhile_le_tl [of r "\<lambda>c. c \<noteq> dquote"] in linarith)

lemma match_param_shrinks:
  assumes "match_param s = Some (k, v, rest)"
  shows "length rest < length s"
proof -
  from assms have r: "dropWhile is_word s \<noteq> []"
      and m: "match_value (tl (dropWhile is_word s)) = Some (v, rest)"
    by (auto simp: match_param_def Let_def split: if_splits)
  have "length rest < length (dropWhile is_word s)"
    using match_value_shrinks [OF m] r by (cases "dropWhile is_word s") auto
  also have "\<dots> \<le> length s" by (rule length_dropWhile_le)
  finally show ?thesis .
qed

function find_params :: "string \<Rightarrow> (string \<times> string) list" where
  "find_params [] = []"
| "find_params (c # s) =
     (case match_param (c # s) of
        None \<Rightarrow> find_params s
      | Some (k, v, rest) \<Rightarrow> (k, v) # find_params rest)"
  by pat_completeness auto
termination
  by (relation "measure length") (auto dest: match_param_shrinks)

definition parse_challenge :: "string \<Rightarrow> auth_error + params" where
  "parse_challenge header =
     (let value = skip_header_name (strip header) in
      if \<not> startswith ''digest'' (lower value) then Inl NotDigest
      else let value = strip (drop 6 value);
               params = fold (\<lambda>(k, v) d. dset (lower k) v d) (find_params value) []
           in if dget params ''realm'' = None \<or> dget params ''nonce'' = None then Inl MissingFields
              else Inr (case dget params ''algorithm'' of
                     None \<Rightarrow> dset ''algorithm'' ''MD5'' params | Some _ \<Rightarrow> params))"

section \<open>The digest\<close>

definition digest_hash ::
  "(string \<Rightarrow> string) \<Rightarrow> (string \<Rightarrow> string) \<Rightarrow> string \<Rightarrow> string \<Rightarrow> digest_error + string" where
  "digest_hash md5 sha256 data algorithm =
     (if upper algorithm \<in> {''MD5'', ''MD5-SESS''} then Inr (md5 data)
      else if upper algorithm \<in> {''SHA-256'', ''SHA-256-SESS''} then Inr (sha256 data)
      else Inl (UnsupportedAlgorithm algorithm))"

definition select_qop :: "string option \<Rightarrow> string option" where
  "select_qop qop =
     (case qop of None \<Rightarrow> None
      | Some q \<Rightarrow>
          (let tokens = map strip (split_on (CHR '','') q) in
           if ''auth'' \<in> set tokens then Some ''auth''
           else if ''auth-int'' \<in> set tokens then Some ''auth-int''
           else (case tokens of [] \<Rightarrow> None | t # _ \<Rightarrow> Some t)))"

definition colon_join :: "string list \<Rightarrow> string" where
  "colon_join ws = join '':'' ws"

definition compute_digest_response ::
  "(string \<Rightarrow> string) \<Rightarrow> (string \<Rightarrow> string) \<Rightarrow> string \<Rightarrow> string \<Rightarrow> string \<Rightarrow> string \<Rightarrow> string \<Rightarrow>
   string \<Rightarrow> string \<Rightarrow> string option \<Rightarrow> string option \<Rightarrow> string option \<Rightarrow> digest_error + string" where
  "compute_digest_response md5 sha256 username realm password nonce meth uri algorithm qop nc cnonce =
     (case digest_hash md5 sha256 (colon_join [username, realm, password]) algorithm of
        Inl e \<Rightarrow> Inl e
      | Inr ha1 \<Rightarrow>
          (let is_sess = endswith ''-SESS'' (upper algorithm) in
           if is_sess \<and> (nc = None \<or> cnonce = None) then Inl SessNeedsCnonce
           else case (if is_sess
                      then digest_hash md5 sha256 (colon_join [ha1, nonce, the cnonce]) algorithm
                      else Inr ha1) of
             Inl e \<Rightarrow> Inl e
           | Inr ha1 \<Rightarrow>
               (case digest_hash md5 sha256 (colon_join [meth, uri]) algorithm of
                  Inl e \<Rightarrow> Inl e
                | Inr ha2 \<Rightarrow>
                    (case select_qop qop of
                       Some sq \<Rightarrow>
                         (if sq = ''auth'' \<or> sq = ''auth-int'' then
                            (if nc = None \<or> cnonce = None then Inl QopNeedsCnonce
                             else digest_hash md5 sha256
                               (colon_join [ha1, nonce, the nc, the cnonce, sq, ha2]) algorithm)
                          else digest_hash md5 sha256 (colon_join [ha1, nonce, ha2]) algorithm)
                     | None \<Rightarrow> digest_hash md5 sha256 (colon_join [ha1, nonce, ha2]) algorithm))))"

section \<open>Verifying and building headers\<close>

text \<open>\<open>None\<close>: the \<open>TypeError\<close> that \<open>compare_digest\<close> raises, outside the \<open>try\<close> block.\<close>

definition verify_digest ::
  "(string \<Rightarrow> string) \<Rightarrow> (string \<Rightarrow> string) \<Rightarrow> string \<Rightarrow> string \<Rightarrow> string \<Rightarrow> string \<Rightarrow> bool option" where
  "verify_digest md5 sha256 auth_value expected_username expected_password meth =
     (case parse_challenge auth_value of
        Inl _ \<Rightarrow> Some False
      | Inr params \<Rightarrow>
          (case dget params ''username'' of
             None \<Rightarrow> Some False
           | Some provided_username \<Rightarrow>
               (case compare_digest provided_username expected_username of
                  None \<Rightarrow> None
                | Some False \<Rightarrow> Some False
                | Some True \<Rightarrow>
                    (case compute_digest_response md5 sha256 expected_username
                            (dget_default params ''realm'' []) expected_password
                            (dget_default params ''nonce'' []) meth (dget_default params ''uri'' [])
                            (dget_default params ''algorithm'' ''MD5'')
                            (select_qop (dget params ''qop'')) (dget params ''nc'')
                            (dget params ''cnonce'') of
                       Inl _ \<Rightarrow> Some False
                     | Inr expected_response \<Rightarrow>
                         (case dget params ''response'' of
                            None \<Rightarrow> Some False
                          | Some provided_response \<Rightarrow>
                              compare_digest expected_response provided_response)))))"

definition quoted :: "string \<Rightarrow> string \<Rightarrow> string" where
  "quoted key v = key @ ''='' @ [dquote] @ v @ [dquote]"

definition plain :: "string \<Rightarrow> string \<Rightarrow> string" where
  "plain key v = key @ ''='' @ v"

definition build_auth_header ::
  "(string \<Rightarrow> string) \<Rightarrow> (string \<Rightarrow> string) \<Rightarrow> string \<Rightarrow> nat \<Rightarrow> string \<Rightarrow> string \<Rightarrow> string \<Rightarrow>
   string \<Rightarrow> string \<Rightarrow> string \<Rightarrow> string \<Rightarrow> string option \<Rightarrow> string option \<Rightarrow> digest_error + string" where
  "build_auth_header md5 sha256 cnonce status_code username realm password nonce meth uri
     algorithm qop opaque =
     (let selected_qop = select_qop qop;
          has_qop = (selected_qop \<noteq> None \<and> selected_qop \<noteq> Some []);
          with_nc = (has_qop \<or> endswith ''-SESS'' (upper algorithm));
          nc_val = (if with_nc then Some ''00000001'' else None);
          cnonce_val = (if with_nc then Some cnonce else None)
      in case compute_digest_response md5 sha256 username realm password nonce meth uri
                algorithm selected_qop nc_val cnonce_val of
           Inl e \<Rightarrow> Inl e
         | Inr response \<Rightarrow>
             (let header_name = (if status_code = 407 then ''Proxy-Authorization'' else ''Authorization'');
                  parts = [quoted ''username'' username, quoted ''realm'' realm, quoted ''nonce'' nonce,
                           quoted ''uri'' uri, quoted ''response'' response, plain ''algorithm'' algorithm]
                    @ (if has_qop
                       then [plain ''qop'' (the selected_qop), plain ''nc'' (the nc_val),
                             quoted ''cnonce'' (the cnonce_val)] else [])
                    @ (case opaque of None \<Rightarrow> [] | Some q \<Rightarrow> if q = [] then [] else [quoted ''opaque'' q])
              in Inr (header_name @ '': Digest '' @ join '', '' parts)))"

definition build_challenge_header :: "string \<Rightarrow> nat \<Rightarrow> string \<Rightarrow> string \<Rightarrow> string \<Rightarrow> string" where
  "build_challenge_header nonce status_code realm algorithm qop =
     (if status_code = 407 then ''Proxy-Authenticate'' else ''WWW-Authenticate'') @ '': Digest ''
       @ join '', '' [quoted ''realm'' realm, quoted ''nonce'' nonce, plain ''algorithm'' algorithm,
                     quoted ''qop'' qop]"

section \<open>Reading back rendered parameters\<close>

datatype param = Param (is_quoted: bool) (pkey: string) (pval: string)

fun render :: "param \<Rightarrow> string" where
  "render (Param True k v) = quoted k v"
| "render (Param False k v) = plain k v"

definition value_char :: "char \<Rightarrow> bool" where
  "value_char c \<longleftrightarrow> c \<noteq> CHR '','' \<and> \<not> is_space c"

definition key_ok :: "string \<Rightarrow> bool" where
  "key_ok k \<longleftrightarrow> k \<noteq> [] \<and> list_all is_word k"

fun param_ok :: "param \<Rightarrow> bool" where
  "param_ok (Param True k v) \<longleftrightarrow> key_ok k \<and> v \<noteq> [] \<and> dquote \<notin> set v"
| "param_ok (Param False k v) \<longleftrightarrow> key_ok k \<and> v \<noteq> [] \<and> list_all value_char v \<and> hd v \<noteq> dquote"

lemma char_class_facts [simp]:
  "\<not> is_word (CHR ''='')" "\<not> is_word (CHR '','')" "\<not> is_word (CHR '' '')" "is_space (CHR '' '')"
  "\<not> is_space (CHR '':'')" "\<not> is_word (CHR '':'')" "\<not> is_space (CHR ''='')" "\<not> is_space dquote"
  by (simp_all add: is_word_def is_alnum_def is_alpha_def is_digit_def is_space_def code_def dquote_def)

lemma is_word_not_space: "is_word c \<Longrightarrow> \<not> is_space c"
  by (auto simp: is_word_def is_alnum_def is_alpha_def is_digit_def is_space_def code_def Let_def)

lemma match_param_quoted:
  assumes "key_ok k" and "v \<noteq> []" and "dquote \<notin> set v"
  shows "match_param (quoted k v @ rest) = Some (k, v, rest)"
proof -
  have "list_all (\<lambda>c. c \<noteq> dquote) v" using assms(3) by (auto simp: list_all_iff)
  then have q: "match_value ([dquote] @ v @ [dquote] @ rest) = Some (v, rest)"
    using assms(2) by (simp add: match_value_def Let_def span_append)
  have "takeWhile is_word (k @ CHR ''='' # dquote # v @ dquote # rest) = k"
    "dropWhile is_word (k @ CHR ''='' # dquote # v @ dquote # rest) = CHR ''='' # dquote # v @ dquote # rest"
    using assms(1) by (auto simp: key_ok_def span_append)
  then show ?thesis using assms(1) q by (simp add: match_param_def quoted_def Let_def key_ok_def)
qed

lemma match_param_plain:
  assumes k: "key_ok k" and v: "v \<noteq> []" "list_all value_char v" "hd v \<noteq> dquote"
    and rest: "rest = [] \<or> \<not> value_char (hd rest)"
  shows "match_param (plain k v @ rest) = Some (k, v, rest)"
proof -
  have eq: "(\<lambda>c. c \<noteq> CHR '','' \<and> \<not> is_space c) = value_char" by (auto simp: value_char_def)
  have "match_value (v @ rest) = Some (v, rest)"
    unfolding match_value_def Let_def eq using v takeWhile_prefix [OF v(2) rest] by simp
  moreover have "takeWhile is_word (k @ CHR ''='' # v @ rest) = k"
    "dropWhile is_word (k @ CHR ''='' # v @ rest) = CHR ''='' # v @ rest"
    using k by (auto simp: key_ok_def span_append)
  ultimately show ?thesis using k by (simp add: match_param_def plain_def Let_def key_ok_def)
qed

lemma match_param_render:
  assumes "param_ok p" and "rest = [] \<or> hd rest = CHR '',''"
  shows "match_param (render p @ rest) = Some (pkey p, pval p, rest)"
proof (cases p rule: param_ok.cases)
  case (1 k v)
  with assms show ?thesis by (simp add: match_param_quoted)
next
  case (2 k v)
  moreover have "rest = [] \<or> \<not> value_char (hd rest)" using assms(2) by (auto simp: value_char_def)
  ultimately show ?thesis using assms(1) match_param_plain [of k v rest] by simp
qed

lemma render_Cons: "param_ok p \<Longrightarrow> \<exists>c r. render p = c # r \<and> is_word c"
  by (cases p rule: param_ok.cases) (auto simp: quoted_def plain_def key_ok_def neq_Nil_conv)

lemma find_params_comma: "find_params (CHR '','' # CHR '' '' # s) = find_params s"
  by (simp add: match_param_def)

lemma find_params_render:
  "list_all param_ok ps \<Longrightarrow> find_params (join '', '' (map render ps)) = map (\<lambda>p. (pkey p, pval p)) ps"
proof (induction ps)
  case Nil
  then show ?case by simp
next
  case (Cons p ps)
  define tail where "tail = (if ps = [] then [] else '', '' @ join '', '' (map render ps))"
  have j: "join '', '' (map render (p # ps)) = render p @ tail"
    by (cases ps) (simp_all add: tail_def)
  obtain c r where c: "render p = c # r" using render_Cons [of p] Cons.prems by auto
  have "match_param (c # r @ tail) = Some (pkey p, pval p, tail)"
    using match_param_render [of p tail] Cons.prems c by (simp add: tail_def)
  moreover have "find_params tail = map (\<lambda>p. (pkey p, pval p)) ps"
    using Cons by (simp add: tail_def find_params_comma find_params.simps(1) del: find_params.simps(2))
  ultimately show ?case unfolding j c by simp
qed

lemma render_last: "param_ok p \<Longrightarrow> \<not> is_space (last (render p))"
  by (cases p rule: param_ok.cases)
     (auto simp: quoted_def plain_def list_all_iff value_char_def dest!: last_in_set)

lemma join_not_Nil: "ws \<noteq> [] \<Longrightarrow> last ws \<noteq> [] \<Longrightarrow> join sep ws \<noteq> []"
  by (induction sep ws rule: join.induct) auto

lemma join_last: "ws \<noteq> [] \<Longrightarrow> last ws \<noteq> [] \<Longrightarrow> last (join sep ws) = last (last ws)"
proof (induction sep ws rule: join.induct)
  case (3 sep w v ws)
  then have "join sep (v # ws) \<noteq> []" by (intro join_not_Nil) auto
  with 3 show ?case by simp
qed auto

lemma strip_joined:
  assumes "ps \<noteq> []" and "list_all param_ok ps"
  shows "strip (CHR '' '' # join '', '' (map render ps)) = join '', '' (map render ps)"
proof -
  obtain p qs where ps: "ps = p # qs" using assms(1) by (cases ps) auto
  obtain c r where c: "render p = c # r" "is_word c" using render_Cons [of p] assms ps by auto
  have "param_ok (last ps)" using assms by (simp add: list_all_iff)
  then have "\<not> is_space (last (last (map render ps)))" and "last (map render ps) \<noteq> []"
    using render_last [of "last ps"] render_Cons [of "last ps"] assms(1) by (auto simp: last_map)
  then have "\<not> is_space (last (join '', '' (map render ps)))"
    using assms(1) by (simp add: join_last)
  moreover have "hd (join '', '' (map render ps)) = c"
    by (cases qs) (simp_all add: ps c)
  ultimately show ?thesis
    using c by (simp add: strip_space_Cons strip_id is_word_not_space)
qed

definition collect_params :: "param list \<Rightarrow> params" where
  "collect_params ps = fold (\<lambda>(k, v) d. dset (lower k) v d) (map (\<lambda>p. (pkey p, pval p)) ps) []"

text \<open>What the parser makes of a header assembled from parameters.\<close>

lemma parse_challenge_render:
  assumes name: "name \<noteq> []" "list_all (\<lambda>c. is_word c \<or> c = CHR ''-'') name" "\<not> is_space (hd name)"
    and ps: "ps \<noteq> []" "list_all param_ok ps"
  shows "parse_challenge (name @ '': Digest '' @ join '', '' (map render ps)) =
    (let params = collect_params ps in
     if dget params ''realm'' = None \<or> dget params ''nonce'' = None then Inl MissingFields
     else Inr (case dget params ''algorithm'' of
                 None \<Rightarrow> dset ''algorithm'' ''MD5'' params | Some _ \<Rightarrow> params))"
proof -
  let ?j = "join '', '' (map render ps)" and ?h = "name @ '': Digest '' @ join '', '' (map render ps)"
  have sj: "strip (CHR '' '' # ?j) = ?j" using ps by (rule strip_joined)
  have "?j \<noteq> []"
    using ps render_Cons by (cases ps; cases "tl ps") (auto, metis list.discI)+
  then have "last ?h = last ?j" by simp
  moreover have "\<not> is_space (last ?j)"
    using strip_last [of "CHR '' '' # ?j"] sj \<open>?j \<noteq> []\<close> by simp
  moreover have "hd ?h = hd name" using name by simp
  ultimately have h: "strip ?h = ?h" using name(3) by (intro strip_id) simp
  have skip: "skip_header_name ?h = ''Digest '' @ ?j"
    using name by (simp add: skip_header_name_def Let_def span_append is_space_def code_def)
  have digest: "startswith ''digest'' (lower (''Digest '' @ ?j))"
  proof -
    have "map lower_char ''Digest'' = ''digest''" by code_simp
    then show ?thesis by (simp add: startswith_def lower_def)
  qed
  have tail: "drop 6 (''Digest '' @ ?j) = CHR '' '' # ?j" by simp
  show ?thesis
    unfolding parse_challenge_def Let_def
    by (simp only: h skip digest tail sj find_params_render [OF ps(2)] collect_params_def
        not_True_eq_False if_False)
qed

section \<open>A header built for a challenge is accepted\<close>

definition hex_digest :: "(string \<Rightarrow> string) \<Rightarrow> bool" where
  "hex_digest h \<longleftrightarrow> (\<forall>s. h s \<noteq> [] \<and> dquote \<notin> set (h s) \<and> is_ascii (h s))"

definition header_text :: "string \<Rightarrow> bool" where
  "header_text s \<longleftrightarrow> s \<noteq> [] \<and> dquote \<notin> set s"

definition supported_algorithm :: "string \<Rightarrow> bool" where
  "supported_algorithm a \<longleftrightarrow> upper a \<in> {''MD5'', ''MD5-SESS'', ''SHA-256'', ''SHA-256-SESS''}"

lemma lower_keys [simp]:
  "lower ''username'' = ''username''" "lower ''realm'' = ''realm''" "lower ''nonce'' = ''nonce''"
  "lower ''uri'' = ''uri''" "lower ''response'' = ''response''" "lower ''algorithm'' = ''algorithm''"
  "lower ''qop'' = ''qop''" "lower ''nc'' = ''nc''" "lower ''cnonce'' = ''cnonce''"
  "lower ''opaque'' = ''opaque''"
  by code_simp+

lemma key_ok_keys [simp]:
  "key_ok ''username''" "key_ok ''realm''" "key_ok ''nonce''" "key_ok ''uri''" "key_ok ''response''"
  "key_ok ''algorithm''" "key_ok ''qop''" "key_ok ''nc''" "key_ok ''cnonce''" "key_ok ''opaque''"
  by (simp_all add: key_ok_def is_word_def is_alnum_def is_alpha_def is_digit_def code_def)

lemma special_char_upper:
  "c = CHR '','' \<or> c = dquote \<or> is_space c \<Longrightarrow> upper_char c = c"
  by (auto simp: upper_char_def is_space_def code_def dquote_def Let_def)

lemma supported_algorithm_chars:
  assumes "supported_algorithm a"
  shows "a \<noteq> []" and "list_all value_char a" and "hd a \<noteq> dquote"
proof -
  have letters: "list_all (\<lambda>c. c \<noteq> CHR '','' \<and> c \<noteq> dquote \<and> \<not> is_space c) (upper a)"
    using assms by (auto simp: supported_algorithm_def is_space_def code_def dquote_def)
  show ne: "a \<noteq> []" using assms by (auto simp: supported_algorithm_def upper_def)
  have *: "c \<noteq> CHR '','' \<and> c \<noteq> dquote \<and> \<not> is_space c" if "c \<in> set a" for c
  proof (rule ccontr)
    assume "\<not> ?thesis"
    then have "upper_char c = c" by (intro special_char_upper) auto
    then have "c \<in> set (upper a)" using that by (force simp: upper_def)
    with letters \<open>\<not> ?thesis\<close> show False by (auto simp: list_all_iff)
  qed
  then show "list_all value_char a" by (auto simp: list_all_iff value_char_def)
  show "hd a \<noteq> dquote" using * ne by (cases a) auto
qed

lemma digest_hash_good:
  assumes "hex_digest md5" and "hex_digest sha256" and "digest_hash md5 sha256 d a = Inr r"
  shows "r \<noteq> []" and "dquote \<notin> set r" and "is_ascii r"
  using assms by (auto simp: digest_hash_def hex_digest_def split: if_splits)

lemma compute_digest_good:
  assumes "hex_digest md5" and "hex_digest sha256"
    and "compute_digest_response md5 sha256 u r p n m uri a q nc cn = Inr resp"
  shows "resp \<noteq> []" and "dquote \<notin> set resp" and "is_ascii resp" and "supported_algorithm a"
proof -
  obtain d where "digest_hash md5 sha256 d a = Inr resp"
    using assms(3)
    by (auto simp: compute_digest_response_def Let_def split: sum.splits option.splits if_splits)
  note * = digest_hash_good [OF assms(1,2) this]
  show "resp \<noteq> []" and "dquote \<notin> set resp" and "is_ascii resp" by (rule *)+
  show "supported_algorithm a"
    using assms(3) by (auto simp: compute_digest_response_def digest_hash_def supported_algorithm_def
        Let_def split: sum.splits if_splits)
qed

lemma select_qop_select [simp]:
  "select_qop (Some ''auth'') = Some ''auth''" "select_qop (Some ''auth-int'') = Some ''auth-int''"
  "select_qop None = None"
  by (code_simp, code_simp, simp add: select_qop_def)

definition auth_params ::
  "string \<Rightarrow> string \<Rightarrow> string \<Rightarrow> string \<Rightarrow> string \<Rightarrow> string \<Rightarrow> (string \<times> string) option \<Rightarrow> string option
   \<Rightarrow> param list" where
  "auth_params username realm nonce uri response algorithm qc opaque =
     [Param True ''username'' username, Param True ''realm'' realm, Param True ''nonce'' nonce,
      Param True ''uri'' uri, Param True ''response'' response, Param False ''algorithm'' algorithm]
     @ (case qc of None \<Rightarrow> [] | Some (q, cnonce) \<Rightarrow>
         [Param False ''qop'' q, Param False ''nc'' ''00000001'', Param True ''cnonce'' cnonce])
     @ (case opaque of None \<Rightarrow> [] | Some q \<Rightarrow> if q = [] then [] else [Param True ''opaque'' q])"

lemma auth_header_name:
  assumes "name \<in> {''Proxy-Authorization'', ''Authorization'', ''Proxy-Authenticate'', ''WWW-Authenticate''}"
  shows "name \<noteq> []" "list_all (\<lambda>c. is_word c \<or> c = CHR ''-'') name" "\<not> is_space (hd name)"
  using assms by (auto simp: is_word_def is_alnum_def is_alpha_def is_digit_def is_space_def code_def)

lemma fold_dset_new:
  assumes "distinct (map fst kvs)" and "fst ` set kvs \<inter> fst ` set d = {}"
  shows "fold (\<lambda>(k, v) d. dset k v d) kvs d = d @ kvs"
  using assms
proof (induction kvs arbitrary: d)
  case (Cons kv kvs)
  obtain k v where kv: "kv = (k, v)" by force
  have "k \<notin> fst ` set d" using Cons.prems kv by auto
  then have "dset k v d = d @ [(k, v)]"
    by (induction d) auto
  with Cons kv show ?case by auto
qed simp

lemma collect_params_distinct:
  assumes "distinct (map (\<lambda>p. lower (pkey p)) ps)"
  shows "collect_params ps = map (\<lambda>p. (lower (pkey p), pval p)) ps"
proof -
  have "collect_params ps = fold (\<lambda>(k, v) d. dset k v d) (map (\<lambda>p. (lower (pkey p), pval p)) ps) []"
    by (simp add: collect_params_def fold_map comp_def case_prod_unfold)
  also have "\<dots> = map (\<lambda>p. (lower (pkey p), pval p)) ps"
    using assms by (subst fold_dset_new) (simp_all add: comp_def)
  finally show ?thesis .
qed

lemma auth_params_distinct:
  "distinct (map (\<lambda>p. lower (pkey p)) (auth_params username realm nonce uri response algorithm qc opaque))"
  by (cases qc; cases opaque) (auto simp: auth_params_def)

lemma auth_params_ok:
  assumes "header_text username" "header_text realm" "header_text nonce" "header_text uri"
      "header_text response" "supported_algorithm algorithm"
      "case qc of None \<Rightarrow> True | Some (q, cnonce) \<Rightarrow> q \<in> {''auth'', ''auth-int''} \<and> header_text cnonce"
      "case opaque of None \<Rightarrow> True | Some q \<Rightarrow> dquote \<notin> set q"
  shows "list_all param_ok (auth_params username realm nonce uri response algorithm qc opaque)"
proof -
  have vals: "list_all value_char ''auth''" "list_all value_char ''auth-int''"
      "list_all value_char ''00000001''" "CHR ''a'' \<noteq> dquote" "CHR ''0'' \<noteq> dquote"
    by (simp_all add: value_char_def is_space_def code_def dquote_def)
  then show ?thesis
    unfolding auth_params_def
    using assms supported_algorithm_chars [OF assms(6)]
    by (auto simp: header_text_def split: option.splits)
qed

lemma auth_params_lookup:
  defines "d ps \<equiv> map_of (map (\<lambda>p. (lower (pkey p), pval p)) ps)"
  assumes "ps = auth_params username realm nonce uri response algorithm qc opaque"
  shows "d ps ''username'' = Some username" and "d ps ''realm'' = Some realm"
    and "d ps ''nonce'' = Some nonce" and "d ps ''uri'' = Some uri"
    and "d ps ''response'' = Some response" and "d ps ''algorithm'' = Some algorithm"
    and "d ps ''qop'' = map_option fst qc" and "d ps ''cnonce'' = map_option snd qc"
    and "d ps ''nc'' = map_option (\<lambda>_. ''00000001'') qc"
  unfolding assms auth_params_def
  by (simp_all split: option.split)

lemma parse_auth_params:
  assumes name: "name \<in> {''Proxy-Authorization'', ''Authorization''}"
    and ok: "header_text username" "header_text realm" "header_text nonce" "header_text uri"
      "header_text response" "supported_algorithm algorithm"
      "case qc of None \<Rightarrow> True | Some (q, cnonce) \<Rightarrow> q \<in> {''auth'', ''auth-int''} \<and> header_text cnonce"
      "case opaque of None \<Rightarrow> True | Some q \<Rightarrow> dquote \<notin> set q"
    and h: "header = name @ '': Digest '' @
      join '', '' (map render (auth_params username realm nonce uri response algorithm qc opaque))"
  obtains d where "parse_challenge header = Inr d"
    and "dget d ''username'' = Some username" and "dget d ''realm'' = Some realm"
    and "dget d ''nonce'' = Some nonce" and "dget d ''uri'' = Some uri"
    and "dget d ''response'' = Some response" and "dget d ''algorithm'' = Some algorithm"
    and "dget d ''qop'' = map_option fst qc" and "dget d ''cnonce'' = map_option snd qc"
    and "dget d ''nc'' = map_option (\<lambda>_. ''00000001'') qc"
proof -
  define ps where "ps = auth_params username realm nonce uri response algorithm qc opaque"
  let ?d = "collect_params ps"
  have ok': "list_all param_ok ps" unfolding ps_def using ok by (rule auth_params_ok)
  have ne: "ps \<noteq> []" by (simp add: ps_def auth_params_def)
  have cp: "?d = map (\<lambda>p. (lower (pkey p), pval p)) ps"
    unfolding ps_def by (rule collect_params_distinct [OF auth_params_distinct])
  note look = auth_params_lookup [OF ps_def]
  have n: "name \<in> {''Proxy-Authorization'', ''Authorization'', ''Proxy-Authenticate'', ''WWW-Authenticate''}"
    using name by auto
  have "parse_challenge header = Inr ?d"
    unfolding h ps_def [symmetric]
    using parse_challenge_render [OF auth_header_name [OF n] ne ok'] look cp by (simp add: Let_def)
  then show thesis by (rule that) (simp_all only: cp look)
qed

lemma build_auth_header_eq:
  assumes built: "build_auth_header md5 sha256 cnonce status username realm password nonce meth uri
      algorithm qop opaque = Inr header"
    and q: "select_qop qop \<in> {None, Some ''auth'', Some ''auth-int''}"
  obtains name response qc where
    "name \<in> {''Proxy-Authorization'', ''Authorization''}"
    "qc = map_option (\<lambda>q. (q, cnonce)) (select_qop qop)"
    "header = name @ '': Digest '' @ join '', ''
       (map render (auth_params username realm nonce uri response algorithm qc opaque))"
    "compute_digest_response md5 sha256 username realm password nonce meth uri algorithm
       (select_qop qop)
       (if qc \<noteq> None \<or> endswith ''-SESS'' (upper algorithm) then Some ''00000001'' else None)
       (if qc \<noteq> None \<or> endswith ''-SESS'' (upper algorithm) then Some cnonce else None) = Inr response"
proof -
  define qc where "qc = map_option (\<lambda>q. (q, cnonce)) (select_qop qop)"
  have has: "(select_qop qop \<noteq> None \<and> select_qop qop \<noteq> Some []) = (qc \<noteq> None)"
    using q by (auto simp: qc_def)
  obtain response where resp: "compute_digest_response md5 sha256 username realm password nonce meth uri algorithm
       (select_qop qop)
       (if qc \<noteq> None \<or> endswith ''-SESS'' (upper algorithm) then Some ''00000001'' else None)
       (if qc \<noteq> None \<or> endswith ''-SESS'' (upper algorithm) then Some cnonce else None) = Inr response"
    using built unfolding build_auth_header_def Let_def has
    by (auto split: sum.splits)
  show ?thesis
  proof (rule that [of "if status = 407 then ''Proxy-Authorization'' else ''Authorization''" qc response])
    show "header = (if status = 407 then ''Proxy-Authorization'' else ''Authorization'') @
        '': Digest '' @ join '', ''
       (map render (auth_params username realm nonce uri response algorithm qc opaque))"
      using built q unfolding build_auth_header_def Let_def has resp
      by (auto simp: auth_params_def qc_def split: option.splits)
  qed (use resp in \<open>simp_all add: qc_def\<close>)
qed

lemma auth_header_verifies:
  assumes "hex_digest md5" and "hex_digest sha256"
    and "header_text username" and "is_ascii username" and "header_text realm"
    and "header_text nonce" and "header_text uri" and "header_text cnonce"
    and "case opaque of None \<Rightarrow> True | Some q \<Rightarrow> dquote \<notin> set q"
    and "select_qop qop \<in> {Some ''auth'', Some ''auth-int''} \<or>
      select_qop qop = None \<and> \<not> endswith ''-SESS'' (upper algorithm)"
    and "build_auth_header md5 sha256 cnonce status username realm password nonce meth uri
      algorithm qop opaque = Inr header"
  shows "verify_digest md5 sha256 header username password meth = Some True"
proof -
  have q: "select_qop qop \<in> {None, Some ''auth'', Some ''auth-int''}" using assms(10) by auto
  obtain name response qc where
    name: "name \<in> {''Proxy-Authorization'', ''Authorization''}"
    and qc: "qc = map_option (\<lambda>q. (q, cnonce)) (select_qop qop)"
    and h: "header = name @ '': Digest '' @ join '', ''
       (map render (auth_params username realm nonce uri response algorithm qc opaque))"
    and r: "compute_digest_response md5 sha256 username realm password nonce meth uri algorithm
       (select_qop qop)
       (if qc \<noteq> None \<or> endswith ''-SESS'' (upper algorithm) then Some ''00000001'' else None)
       (if qc \<noteq> None \<or> endswith ''-SESS'' (upper algorithm) then Some cnonce else None) = Inr response"
    by (rule build_auth_header_eq [OF assms(11) q])
  note good = compute_digest_good [OF assms(1,2) r]
  have "header_text response" using good by (simp add: header_text_def)
  moreover have "case qc of None \<Rightarrow> True | Some (q, c) \<Rightarrow> q \<in> {''auth'', ''auth-int''} \<and> header_text c"
    using q assms(8) by (auto simp: qc split: option.splits)
  ultimately obtain d where d: "parse_challenge header = Inr d"
      "dget d ''username'' = Some username" "dget d ''realm'' = Some realm"
      "dget d ''nonce'' = Some nonce" "dget d ''uri'' = Some uri" "dget d ''response'' = Some response"
      "dget d ''algorithm'' = Some algorithm" "dget d ''qop'' = map_option fst qc"
      "dget d ''cnonce'' = map_option snd qc" "dget d ''nc'' = map_option (\<lambda>_. ''00000001'') qc"
    by (rule parse_auth_params [OF name assms(3,5,6,7) _ good(4) _ assms(9) h])
  have sel: "select_qop (dget d ''qop'') = select_qop qop"
    using q by (auto simp: d qc)
  have nc: "dget d ''nc'' = (if qc \<noteq> None \<or> endswith ''-SESS'' (upper algorithm) then Some ''00000001'' else None)"
    and cn: "dget d ''cnonce'' = (if qc \<noteq> None \<or> endswith ''-SESS'' (upper algorithm) then Some cnonce else None)"
    using assms(10) by (auto simp: d(9,10) qc)
  show ?thesis
    using good(3) assms(4) r
    by (simp add: verify_digest_def d(1-7) sel nc cn dget_default_def compare_digest_def)
qed

section \<open>Properties\<close>

text \<open>
  C38 An authorization header that \<open>build_auth_header\<close> makes for a user is accepted by
  \<open>verify_digest\<close> for the same user, password and method: with a \<open>qop\<close> of \<open>auth\<close> or
  \<open>auth-int\<close>, or with none and an algorithm without \<open>-sess\<close>.  The user name is ASCII, since the
  comparison of names raises on other texts; user name, realm, nonce, uri and client nonce are
  not empty and, like an opaque value, hold no double quote, which the header does not escape;
  the two hashes give hexadecimal digits.
\<close>

theorem built_header_verifies:
  assumes "hex_digest md5" and "hex_digest sha256"
    and "header_text username" and "is_ascii username" and "header_text realm"
    and "header_text nonce" and "header_text uri" and "header_text cnonce"
    and "case opaque of None \<Rightarrow> True | Some q \<Rightarrow> dquote \<notin> set q"
    and "select_qop qop \<in> {Some ''auth'', Some ''auth-int''} \<or>
      select_qop qop = None \<and> \<not> endswith ''-SESS'' (upper algorithm)"
    and "build_auth_header md5 sha256 cnonce status username realm password nonce meth uri
      algorithm qop opaque = Inr header"
  shows "verify_digest md5 sha256 header username password meth = Some True"
  using assms by (rule auth_header_verifies)

text \<open>
  A header for a \<open>-sess\<close> algorithm built without \<open>qop\<close> is never accepted: the
  builder uses a client nonce in the digest but sends neither \<open>nc\<close> nor \<open>cnonce\<close>, so
  the verifier cannot recompute it.
\<close>

theorem sess_without_qop_rejected:
  assumes "hex_digest md5" and "hex_digest sha256"
    and "header_text username" and "is_ascii username" and "header_text realm"
    and "header_text nonce" and "header_text uri"
    and "case opaque of None \<Rightarrow> True | Some q \<Rightarrow> dquote \<notin> set q"
    and "select_qop qop = None" and "endswith ''-SESS'' (upper algorithm)"
    and "build_auth_header md5 sha256 cnonce status username realm password nonce meth uri
      algorithm qop opaque = Inr header"
  shows "verify_digest md5 sha256 header username password meth = Some False"
proof -
  have q: "select_qop qop \<in> {None, Some ''auth'', Some ''auth-int''}" using assms(9) by auto
  obtain name response qc where
    name: "name \<in> {''Proxy-Authorization'', ''Authorization''}"
    and qc: "qc = map_option (\<lambda>q. (q, cnonce)) (select_qop qop)"
    and h: "header = name @ '': Digest '' @ join '', ''
       (map render (auth_params username realm nonce uri response algorithm qc opaque))"
    and r: "compute_digest_response md5 sha256 username realm password nonce meth uri algorithm
       (select_qop qop)
       (if qc \<noteq> None \<or> endswith ''-SESS'' (upper algorithm) then Some ''00000001'' else None)
       (if qc \<noteq> None \<or> endswith ''-SESS'' (upper algorithm) then Some cnonce else None) = Inr response"
    by (rule build_auth_header_eq [OF assms(11) q])
  have qc0: "qc = None" using qc assms(9) by simp
  note good = compute_digest_good [OF assms(1,2) r]
  have "header_text response" using good by (simp add: header_text_def)
  moreover have "case qc of None \<Rightarrow> True | Some (q, c) \<Rightarrow> q \<in> {''auth'', ''auth-int''} \<and> header_text c"
    by (simp add: qc0)
  ultimately obtain d where d': "parse_challenge header = Inr d"
      "dget d ''username'' = Some username" "dget d ''algorithm'' = Some algorithm"
      "dget d ''qop'' = map_option fst qc" "dget d ''cnonce'' = map_option snd qc"
      "dget d ''nc'' = map_option (\<lambda>_. ''00000001'') qc"
    by (rule parse_auth_params [OF name assms(3,5,6,7) _ good(4) _ assms(8) h])
  note d = d' [unfolded qc0, simplified]
  have "\<exists>e. compute_digest_response md5 sha256 u r p n m uri algorithm q None None = Inl e" for u r p n m uri q
    using assms(10)
    by (cases "digest_hash md5 sha256 (colon_join [u, r, p]) algorithm")
       (simp_all add: compute_digest_response_def)
  then obtain e where "compute_digest_response md5 sha256 username (dget_default d ''realm'' []) password
      (dget_default d ''nonce'' []) meth (dget_default d ''uri'' []) algorithm None None None = Inl e"
    by blast
  then show ?thesis
    using assms(4) by (simp add: verify_digest_def d dget_default_def compare_digest_def)
qed

text \<open>
  Whatever header is presented, acceptance implies that it names the expected user and
  carries the digest that the expected password gives for the header's own realm, nonce,
  URI, algorithm, qop, nonce count and client nonce.
\<close>

theorem verify_digest_sound:
  assumes "verify_digest md5 sha256 header username password meth = Some True"
  shows "\<exists>d response. parse_challenge header = Inr d \<and> dget d ''username'' = Some username \<and>
    dget d ''response'' = Some response \<and>
    compute_digest_response md5 sha256 username (dget_default d ''realm'' []) password
      (dget_default d ''nonce'' []) meth (dget_default d ''uri'' [])
      (dget_default d ''algorithm'' ''MD5'') (select_qop (dget d ''qop'')) (dget d ''nc'')
      (dget d ''cnonce'') = Inr response"
  using assms
  by (auto simp: verify_digest_def compare_digest_def split: sum.splits option.splits if_splits bool.splits)

text \<open>
  The challenge that the SIP server builds is read back by \<open>parse_challenge\<close> with the
  realm, nonce, algorithm and qop it was built from.
\<close>

theorem challenge_roundtrip:
  assumes "header_text realm" and "header_text nonce" and "supported_algorithm algorithm"
    and "header_text qop"
  shows "parse_challenge (build_challenge_header nonce status realm algorithm qop) =
    Inr [(''realm'', realm), (''nonce'', nonce), (''algorithm'', algorithm), (''qop'', qop)]"
proof -
  define ps where "ps = [Param True ''realm'' realm, Param True ''nonce'' nonce,
    Param False ''algorithm'' algorithm, Param True ''qop'' qop]"
  define name where "name = (if status = 407 then ''Proxy-Authenticate'' else ''WWW-Authenticate'')"
  have ok: "list_all param_ok ps"
    using assms supported_algorithm_chars [OF assms(3)] by (simp add: ps_def header_text_def)
  have ne: "ps \<noteq> []" by (simp add: ps_def)
  have n: "name \<in> {''Proxy-Authorization'', ''Authorization'', ''Proxy-Authenticate'', ''WWW-Authenticate''}"
    by (simp add: name_def)
  have cp: "collect_params ps =
      [(''realm'', realm), (''nonce'', nonce), (''algorithm'', algorithm), (''qop'', qop)]"
    by (subst collect_params_distinct) (simp_all add: ps_def)
  have "build_challenge_header nonce status realm algorithm qop =
      name @ '': Digest '' @ join '', '' (map render ps)"
    by (simp add: build_challenge_header_def name_def ps_def)
  then show ?thesis
    using parse_challenge_render [OF auth_header_name [OF n] ne ok] cp by (simp add: Let_def)
qed

section \<open>Witnesses\<close>

lemma upper_algorithms [simp]:
  "upper ''MD5'' = ''MD5''" "upper ''MD5-sess'' = ''MD5-SESS''"
  by code_simp+

lemma sample_texts [simp]:
  "hex_digest (\<lambda>_. ''d1'')" "header_text ''bob''" "header_text ''example.org''" "header_text ''n0''"
  "header_text ''sip:a''" "header_text ''c0''" "is_ascii ''bob''" "header_text ''auth''"
  "supported_algorithm ''MD5''" "\<not> endswith ''-SESS'' ''MD5''" "endswith ''-SESS'' ''MD5-SESS''"
  by (simp_all add: hex_digest_def header_text_def is_ascii_def dquote_def code_def
      supported_algorithm_def endswith_def)

theorem built_header_verifies_witness:
  "\<exists>header. build_auth_header (\<lambda>_. ''d1'') (\<lambda>_. ''d1'') ''c0'' 407 ''bob'' ''example.org'' ''pw'' ''n0''
     ''INVITE'' ''sip:a'' ''MD5'' (Some ''auth'') None = Inr header \<and>
   verify_digest (\<lambda>_. ''d1'') (\<lambda>_. ''d1'') header ''bob'' ''pw'' ''INVITE'' = Some True"
proof -
  obtain header where h: "build_auth_header (\<lambda>_. ''d1'') (\<lambda>_. ''d1'') ''c0'' 407 ''bob'' ''example.org''
     ''pw'' ''n0'' ''INVITE'' ''sip:a'' ''MD5'' (Some ''auth'') None = Inr header"
    by (simp add: build_auth_header_def compute_digest_response_def digest_hash_def)
  then show ?thesis
    using built_header_verifies [OF _ _ _ _ _ _ _ _ _ _ h] by auto
qed

theorem sess_without_qop_rejected_witness:
  "\<exists>header. build_auth_header (\<lambda>_. ''d1'') (\<lambda>_. ''d1'') ''c0'' 407 ''bob'' ''example.org'' ''pw'' ''n0''
     ''INVITE'' ''sip:a'' ''MD5-sess'' None None = Inr header \<and>
   verify_digest (\<lambda>_. ''d1'') (\<lambda>_. ''d1'') header ''bob'' ''pw'' ''INVITE'' = Some False"
proof -
  obtain header where h: "build_auth_header (\<lambda>_. ''d1'') (\<lambda>_. ''d1'') ''c0'' 407 ''bob'' ''example.org''
     ''pw'' ''n0'' ''INVITE'' ''sip:a'' ''MD5-sess'' None None = Inr header"
    by (simp add: build_auth_header_def compute_digest_response_def digest_hash_def)
  then show ?thesis
    using sess_without_qop_rejected [OF _ _ _ _ _ _ _ _ _ _ h] by auto
qed

theorem verify_digest_sound_witness:
  "verify_digest (\<lambda>_. ''d1'') (\<lambda>_. ''d1'') ''Digest username=bob, realm=r, nonce=n, response=d1''
     ''bob'' ''pw'' ''INVITE'' = Some True \<and>
   (\<exists>d. parse_challenge ''Digest username=bob, realm=r, nonce=n, response=d1'' = Inr d \<and>
     dget d ''username'' = Some ''bob'')"
proof -
  have v: "verify_digest (\<lambda>_. ''d1'') (\<lambda>_. ''d1'')
      ''Digest username=bob, realm=r, nonce=n, response=d1'' ''bob'' ''pw'' ''INVITE'' = Some True"
    by code_simp
  from verify_digest_sound [OF v] v show ?thesis by blast
qed

theorem challenge_roundtrip_witness:
  "parse_challenge (build_challenge_header ''n0'' 407 ''example.org'' ''MD5'' ''auth'') =
    Inr [(''realm'', ''example.org''), (''nonce'', ''n0''), (''algorithm'', ''MD5''), (''qop'', ''auth'')]"
  by (rule challenge_roundtrip) simp_all

end
