(* ===== verification/Framing.thy ===== *)
theory Framing
  imports Prelude
begin

text \<open>
  The interface between a stream connection and a message format, and the connection loop
  of \<open>sip_bridge/wa_server_helpers.py\<close> (\<open>handle_sip_connection\<close>), which takes the parser,
  the serializer and the dispatcher as arguments.  A parser reads one message from the
  front of the stream: \<open>Eof\<close> (the code's \<open>None\<close>), a message with the unread rest, or an
  exception, which ends the connection.
\<close>

datatype ('m, 'e) parsed = Eof | Parsed 'm string | Raised 'e

text \<open>What the dispatcher answers; \<open>Failed\<close> is an exception, which ends the connection.\<close>

datatype 'm reply = NoReply | Reply 'm | Failed

text \<open>
  The loop over \<open>fuel\<close> messages; \<open>None\<close> when the fuel runs out.  It returns the
  dispatcher's final state and the bytes written.
\<close>

fun conn_loop ::
  "nat \<Rightarrow> (string \<Rightarrow> ('m, 'e) parsed) \<Rightarrow> ('m \<Rightarrow> string) \<Rightarrow> ('s \<Rightarrow> 'm \<Rightarrow> 's \<times> 'm reply)
   \<Rightarrow> 's \<Rightarrow> string \<Rightarrow> ('s \<times> string) option" where
  "conn_loop 0 parse serialize dispatch st stream = None"
| "conn_loop (Suc fuel) parse serialize dispatch st stream =
     (case parse stream of
        Eof \<Rightarrow> Some (st, [])
      | Raised e \<Rightarrow> Some (st, [])
      | Parsed m rest \<Rightarrow>
          (case dispatch st m of (st', resp) \<Rightarrow>
             if resp = Failed then Some (st', [])
             else (case conn_loop fuel parse serialize dispatch st' rest of
                None \<Rightarrow> None
              | Some (st'', out) \<Rightarrow>
                  Some (st'', (case resp of Reply r \<Rightarrow> serialize r | _ \<Rightarrow> []) @ out))))"

definition handle_sip_connection ::
  "(string \<Rightarrow> ('m, 'e) parsed) \<Rightarrow> ('m \<Rightarrow> string) \<Rightarrow> ('s \<Rightarrow> 'm \<Rightarrow> 's \<times> 'm reply)
   \<Rightarrow> 's \<Rightarrow> string \<Rightarrow> ('s \<times> string) option" where
  "handle_sip_connection parse serialize dispatch st stream =
     conn_loop (Suc (length stream)) parse serialize dispatch st stream"

text \<open>What the loop should do with a list of messages.\<close>

fun dispatch_all ::
  "('m \<Rightarrow> string) \<Rightarrow> ('s \<Rightarrow> 'm \<Rightarrow> 's \<times> 'm reply) \<Rightarrow> 's \<Rightarrow> 'm list \<Rightarrow> 's \<times> string" where
  "dispatch_all serialize dispatch st [] = (st, [])"
| "dispatch_all serialize dispatch st (m # ms) =
     (case dispatch st m of (st', resp) \<Rightarrow>
        if resp = Failed then (st', [])
        else (case dispatch_all serialize dispatch st' ms of (st'', out) \<Rightarrow>
           (st'', (case resp of Reply r \<Rightarrow> serialize r | _ \<Rightarrow> []) @ out)))"

locale message_framing =
  fixes parse :: "string \<Rightarrow> ('m, 'e) parsed"
    and serialize :: "'m \<Rightarrow> string"
    and ok :: "'m \<Rightarrow> bool"
    and canon :: "'m \<Rightarrow> 'm"
  assumes parse_empty: "parse [] = Eof"
    and parse_shrinks: "parse s = Parsed m rest \<Longrightarrow> length rest < length s"
    and parse_serialize: "ok m \<Longrightarrow> parse (serialize m @ rest) = Parsed (canon m) rest"
begin

lemma conn_loop_terminates:
  "length stream < fuel \<Longrightarrow> \<exists>r. conn_loop fuel parse serialize dispatch st stream = Some r"
proof (induction fuel arbitrary: st stream)
  case 0
  then show ?case by simp
next
  case (Suc fuel)
  show ?case
  proof (cases "parse stream")
    case (Parsed m rest)
    obtain st' resp where d: "dispatch st m = (st', resp)" by force
    have "length rest < fuel" using parse_shrinks [OF Parsed] Suc.prems by simp
    then obtain r where "conn_loop fuel parse serialize dispatch st' rest = Some r"
      using Suc.IH by blast
    then show ?thesis by (cases r) (simp add: Parsed d)
  qed simp_all
qed

lemma conn_loop_messages:
  assumes "list_all ok ms" and "length ms < fuel"
  shows "conn_loop fuel parse serialize dispatch st (concat (map serialize ms)) =
    Some (dispatch_all serialize dispatch st (map canon ms))"
  using assms
proof (induction ms arbitrary: st fuel)
  case Nil
  then show ?case by (cases fuel) (simp_all add: parse_empty)
next
  case (Cons m ms)
  obtain k where k: "fuel = Suc k" using Cons.prems by (cases fuel) auto
  obtain st' resp where d: "dispatch st (canon m) = (st', resp)" by force
  have "parse (serialize m @ concat (map serialize ms)) =
      Parsed (canon m) (concat (map serialize ms))"
    using Cons.prems by (intro parse_serialize) simp
  moreover have "conn_loop k parse serialize dispatch st' (concat (map serialize ms)) =
      Some (dispatch_all serialize dispatch st' (map canon ms))"
    using Cons.prems k by (intro Cons.IH) simp_all
  ultimately show ?case by (simp add: k d split: prod.split)
qed

lemma serialize_not_Nil: "ok m \<Longrightarrow> serialize m \<noteq> []"
  using parse_serialize [of m "[]"] parse_empty by auto

lemma length_messages: "list_all ok ms \<Longrightarrow> length ms \<le> length (concat (map serialize ms))"
proof (induction ms)
  case (Cons m ms)
  then have "serialize m \<noteq> []" using serialize_not_Nil by simp
  with Cons show ?case by (cases "serialize m") auto
qed simp

lemma connection_dispatches_all:
  assumes "list_all ok ms"
  shows "handle_sip_connection parse serialize dispatch st (concat (map serialize ms)) =
    Some (dispatch_all serialize dispatch st (map canon ms))"
  unfolding handle_sip_connection_def
  by (rule conn_loop_messages [OF assms]) (use length_messages [OF assms] in simp)

lemma connection_terminates:
  "\<exists>r. handle_sip_connection parse serialize dispatch st stream = Some r"
  unfolding handle_sip_connection_def by (rule conn_loop_terminates) simp

end

end
