(* ===== verification/Sip_Tls.thy ===== *)
theory Sip_Tls
  imports Py_Strings Framing
begin

text \<open>
  \<open>sip_bridge/sip_tls.py\<close>: SIP messages on a byte stream.  The bytes on the wire are a
  \<open>string\<close> of code points 0--255; \<open>utf8_encode\<close>/\<open>utf8_decode\<close> convert between the wire and
  text.  A code point above 255, and U+FFFD, which the lenient decoder inserts for
  malformed input, lie outside the text model and appear as the substitute character
  0x1A.  \<open>readline\<close> is \<open>asyncio.StreamReader.readline\<close> with its 64 KiB limit.
\<close>

section \<open>UTF-8\<close>

definition utf8_char :: "char \<Rightarrow> string" where
  "utf8_char c = (let n = code c in
     if n < 128 then [c] else [char_of (192 + n div 64), char_of (128 + n mod 64)])"

definition utf8_encode :: "string \<Rightarrow> string" where
  "utf8_encode s = concat (map utf8_char s)"

fun utf8_decode :: "string \<Rightarrow> string" where
  "utf8_decode [] = []"
| "utf8_decode (c # s) =
     (if code c < 128 then c # utf8_decode s
      else case s of
        d # t \<Rightarrow>
          (if 194 \<le> code c \<and> code c \<le> 195 \<and> 128 \<le> code d \<and> code d < 192
           then char_of ((code c - 192) * 64 + (code d - 128)) # utf8_decode t
           else char_of (26 :: nat) # utf8_decode (d # t))
      | [] \<Rightarrow> [char_of (26 :: nat)])"

section \<open>Header names\<close>

definition compact_forms :: "(string, string) dict" where
  "compact_forms =
     [(''i'', ''call-id''), (''f'', ''from''), (''t'', ''to''), (''v'', ''via''), (''m'', ''contact''),
      (''l'', ''content-length''), (''c'', ''content-type''), (''e'', ''content-encoding''),
      (''k'', ''supported''), (''s'', ''subject'')]"

definition normalize_header_name :: "string \<Rightarrow> string" where
  "normalize_header_name name =
     (let low = strip (lower name) in dget_default compact_forms low low)"

section \<open>Messages\<close>

type_synonym headers = "(string, string) dict"

record sip_message =
  first_line :: string
  headers :: headers
  body :: string

datatype sip_error = HeadersTooLarge | MalformedHeader string | TooManyHeaders
  | InvalidContentLength string | NegativeContentLength int | MessageTooLarge int | LineTooLong

definition is_request :: "sip_message \<Rightarrow> bool" where
  "is_request m \<longleftrightarrow> \<not> startswith ''SIP/'' (first_line m)"

definition request_method :: "sip_message \<Rightarrow> string option" where
  "request_method m = (if is_request m then Some (before (CHR '' '') (first_line m)) else None)"

text \<open>\<open>status_code\<close>: \<open>Inl\<close> is the \<open>ValueError\<close> of \<open>int\<close>.\<close>

definition status_code :: "sip_message \<Rightarrow> string + int option" where
  "status_code m =
     (if is_request m then Inr None
      else case split_on (CHR '' '') (first_line m) of
        _ # w # _ \<Rightarrow> (case py_int w of None \<Rightarrow> Inl w | Some i \<Rightarrow> Inr (Some i))
      | _ \<Rightarrow> Inr None)"

definition MAX_MESSAGE_SIZE :: nat where "MAX_MESSAGE_SIZE = 65536"

definition MAX_HEADER_COUNT :: nat where "MAX_HEADER_COUNT = 100"

section \<open>The stream parser\<close>

text \<open>One line with its terminator (or the rest of the stream), and what follows.\<close>

definition readline :: "string \<Rightarrow> (string \<times> string) option" where
  "readline s =
     (let l = takeWhile (\<lambda>c. c \<noteq> lf) s in
      if 65536 < length l then None
      else case dropWhile (\<lambda>c. c \<noteq> lf) s of
        [] \<Rightarrow> Some (l, [])
      | _ # rest \<Rightarrow> Some (l @ [lf], rest))"

definition decode_line :: "string \<Rightarrow> string" where
  "decode_line raw = rstrip_where (\<lambda>c. c = cr \<or> c = lf) (utf8_decode raw)"

lemma readline_split:
  assumes "readline s = Some (l, rest)"
  shows "s = l @ rest"
proof (cases "dropWhile (\<lambda>c. c \<noteq> lf) s")
  case Nil
  note id = takeWhile_dropWhile_id [of "\<lambda>c. c \<noteq> lf" s, unfolded Nil]
  from assms show ?thesis
    unfolding readline_def Let_def Nil using id [symmetric] by (simp split: if_splits)
next
  case (Cons x xs)
  then have "x = lf" using hd_dropWhile [of "\<lambda>c. c \<noteq> lf" s] by simp
  note id = takeWhile_dropWhile_id [of "\<lambda>c. c \<noteq> lf" s, unfolded Cons this]
  from assms show ?thesis
    unfolding readline_def Let_def Cons using id by (auto split: if_splits)
qed

lemma readline_shrinks: "readline s = Some (l, rest) \<Longrightarrow> l \<noteq> [] \<Longrightarrow> length rest < length s"
  using readline_split [of s l rest] by simp

text \<open>
  The header loop: headers so far, their number, the bytes read.  \<open>Inl None\<close> is the early
  \<open>return None\<close>, \<open>Inl (Some e)\<close> an exception, \<open>Inr\<close> the headers, the size and the rest.
\<close>

function read_headers ::
  "headers \<Rightarrow> nat \<Rightarrow> nat \<Rightarrow> string \<Rightarrow> sip_error option + headers \<times> nat \<times> string" where
  "read_headers hs header_count total_size s =
     (case readline s of
        None \<Rightarrow> Inl (Some LineTooLong)
      | Some (line_raw, rest) \<Rightarrow>
          if line_raw = [] then Inl None
          else let total_size = total_size + length line_raw in
            if MAX_MESSAGE_SIZE < total_size then Inl (Some HeadersTooLarge)
            else let line = decode_line line_raw in
              if line = [] then Inr (hs, total_size, rest)
              else if CHR '':'' \<notin> set line then Inl (Some (MalformedHeader line))
              else let normalized = normalize_header_name (before (CHR '':'') line);
                       hs = dset normalized (strip (after (CHR '':'') line)) hs;
                       header_count = header_count + 1
                   in if MAX_HEADER_COUNT < header_count then Inl (Some TooManyHeaders)
                      else read_headers hs header_count total_size rest)"
  by pat_completeness auto
termination
  by (relation "measure (\<lambda>(hs, c, t, s). length s)") (auto dest: readline_shrinks)

declare read_headers.simps [simp del]

definition read_body ::
  "string \<Rightarrow> headers \<Rightarrow> nat \<Rightarrow> string \<Rightarrow> (sip_message, sip_error) parsed" where
  "read_body fl hs total_size s =
     (let content_length_str = dget_default hs ''content-length'' ''0'' in
      case py_int content_length_str of
        None \<Rightarrow> Raised (InvalidContentLength content_length_str)
      | Some content_length \<Rightarrow>
          if content_length < 0 then Raised (NegativeContentLength content_length)
          else if int MAX_MESSAGE_SIZE < int total_size + content_length
          then Raised (MessageTooLarge (int total_size + content_length))
          else if content_length = 0 then Parsed \<lparr>first_line = fl, headers = hs, body = []\<rparr> s
          else if length s < nat content_length then Eof
          else Parsed \<lparr>first_line = fl, headers = hs,
                 body = utf8_decode (take (nat content_length) s)\<rparr> (drop (nat content_length) s))"

definition parse_message :: "string \<Rightarrow> (sip_message, sip_error) parsed" where
  "parse_message s =
     (case readline s of
        None \<Rightarrow> Raised LineTooLong
      | Some (first_raw, rest) \<Rightarrow>
          if first_raw = [] then Eof
          else let fl = decode_line first_raw in
            if fl = [] then Eof
            else case read_headers [] 0 (length first_raw) rest of
              Inl None \<Rightarrow> Eof
            | Inl (Some e) \<Rightarrow> Raised e
            | Inr (hs, total_size, rest) \<Rightarrow> read_body fl hs total_size rest)"

section \<open>The serializer\<close>

definition capitalize :: "string \<Rightarrow> string" where
  "capitalize w = (case w of [] \<Rightarrow> [] | c # r \<Rightarrow> upper_char c # lower r)"

definition wire_name :: "string \<Rightarrow> string" where
  "wire_name name = join ''-'' (map capitalize (split_on (CHR ''-'') name))"

definition normalized_headers :: "headers \<Rightarrow> headers" where
  "normalized_headers hs = fold (\<lambda>(name, v) d. dset (normalize_header_name name) v d) hs []"

definition wire_headers :: "sip_message \<Rightarrow> headers" where
  "wire_headers m =
     dset ''content-length'' (nat_str (length (utf8_encode (body m)))) (normalized_headers (headers m))"

definition header_line :: "string \<times> string \<Rightarrow> string" where
  "header_line nv = (case nv of (name, v) \<Rightarrow> wire_name name @ '': '' @ v)"

definition serialize_message :: "sip_message \<Rightarrow> string" where
  "serialize_message m =
     (let header_block = join crlf (first_line m # map header_line (wire_headers m)) @ crlf @ crlf
      in utf8_encode header_block @ utf8_encode (body m))"

section \<open>Text without line ends\<close>

definition line_text :: "string \<Rightarrow> bool" where
  "line_text s \<longleftrightarrow> is_ascii s \<and> cr \<notin> set s \<and> lf \<notin> set s"

definition header_name_ok :: "string \<Rightarrow> bool" where
  "header_name_ok k \<longleftrightarrow> line_text k \<and> CHR '':'' \<notin> set k \<and> lower k = k \<and> strip k = k \<and>
     dget compact_forms k = None"

definition sip_ok :: "sip_message \<Rightarrow> bool" where
  "sip_ok m \<longleftrightarrow> line_text (first_line m) \<and> first_line m \<noteq> [] \<and> is_ascii (body m) \<and>
     list_all (\<lambda>(k, v). header_name_ok k \<and> line_text v \<and> strip v = v) (wire_headers m) \<and>
     length (wire_headers m) \<le> MAX_HEADER_COUNT \<and> length (serialize_message m) \<le> MAX_MESSAGE_SIZE"

definition canonical :: "sip_message \<Rightarrow> sip_message" where
  "canonical m = m\<lparr>headers := wire_headers m\<rparr>"

lemma utf8_ascii:
  assumes "is_ascii s"
  shows "utf8_encode s = s" and "utf8_decode s = s"
  using assms by (induction s) (auto simp: utf8_encode_def utf8_char_def is_ascii_def)

lemma is_ascii_append [simp]: "is_ascii (s @ t) \<longleftrightarrow> is_ascii s \<and> is_ascii t"
  by (simp add: is_ascii_def)

lemma line_text_append [simp]: "line_text (s @ t) \<longleftrightarrow> line_text s \<and> line_text t"
  by (auto simp: line_text_def)

lemma is_ascii_crlf [simp]: "is_ascii crlf"
  by (simp add: is_ascii_def crlf_def cr_def lf_def code_def)

lemma decode_line_crlf:
  assumes "line_text l"
  shows "decode_line (l @ crlf) = l"
proof -
  have "rstrip_where (\<lambda>c. c = cr \<or> c = lf) (l @ crlf) = rstrip_where (\<lambda>c. c = cr \<or> c = lf) l"
    by (simp add: rstrip_where_def crlf_def)
  also have "\<dots> = l"
    using assms by (intro rstrip_where_id) (auto simp: line_text_def dest!: last_in_set)
  finally show ?thesis
    using assms by (simp add: decode_line_def utf8_ascii line_text_def)
qed

lemma readline_crlf:
  assumes "line_text l" and "length l + 2 \<le> MAX_MESSAGE_SIZE"
  shows "readline (l @ crlf @ s) = Some (l @ crlf, s)"
proof -
  have "list_all (\<lambda>c. c \<noteq> lf) (l @ [cr])"
    using assms(1) by (auto simp: line_text_def list_all_iff cr_def lf_def)
  note span = span_append [OF this, of lf s, simplified]
  then show ?thesis
    using assms(2) by (simp add: readline_def Let_def crlf_def MAX_MESSAGE_SIZE_def)
qed

lemma join_crlf_lines: "ws \<noteq> [] \<Longrightarrow> join crlf ws @ crlf = concat (map (\<lambda>w. w @ crlf) ws)"
  by (induction crlf ws rule: join.induct) auto

section \<open>Header names survive the wire\<close>

lemma lower_upper_char:
  assumes "code c < 128" and "lower_char c = c"
  shows "lower_char (upper_char c) = c"
proof (cases "97 \<le> code c \<and> code c \<le> 122")
  case True
  then have u: "upper_char c = char_of (code c - 32)" by (simp add: upper_char_def)
  have "code (char_of (code c - 32)) = code c - 32" using assms(1) by (intro code_char_of) simp
  moreover have "65 \<le> code c - 32" and "code c - 32 \<le> 90" and "code c - 32 + 32 = code c"
    using True by linarith+
  ultimately have "lower_char (upper_char c) = char_of (code c)"
    by (simp add: u lower_char_def Let_def)
  also have "\<dots> = c" by (simp add: code_def)
  finally show ?thesis .
next
  case False
  then show ?thesis using assms by (auto simp: upper_char_def Let_def)
qed

lemma upper_char_cases:
  assumes "code c < 128"
  shows "upper_char c = c \<or> 65 \<le> code (upper_char c) \<and> code (upper_char c) \<le> 90"
proof (cases "97 \<le> code c \<and> code c \<le> 122")
  case True
  have "code (char_of (code c - 32)) = code c - 32" using assms by (intro code_char_of) simp
  moreover have "65 \<le> code c - 32" and "code c - 32 \<le> 90" using True by linarith+
  ultimately show ?thesis using True by (simp add: upper_char_def Let_def)
next
  case False
  then show ?thesis using assms by (auto simp: upper_char_def Let_def)
qed

lemma lower_append [simp]: "lower (s @ t) = lower s @ lower t"
  by (simp add: lower_def)

lemma lower_join_capitalize:
  assumes "\<forall>w \<in> set ws. is_ascii w \<and> lower w = w"
  shows "lower (join ''-'' (map capitalize ws)) = join ''-'' ws"
proof -
  have cap: "lower (capitalize w) = w" if "is_ascii w" "lower w = w" for w
    using that lower_upper_char
    by (cases w) (auto simp: capitalize_def lower_def is_ascii_def map_idI)
  have dash: "lower (CHR ''-'' # s) = CHR ''-'' # lower s" for s
    by (simp add: lower_def lower_char_def code_def)
  show ?thesis
    using assms
    by (induction "''-''" ws rule: join.induct) (simp_all add: cap dash lower_def [of "[]"])
qed

lemma split_on_elems: "\<forall>w \<in> set (split_on c s). set w \<subseteq> set s"
  by (induction s) (auto split: list.splits)

lemma lower_fixed: "lower w = w \<longleftrightarrow> (\<forall>c \<in> set w. lower_char c = c)"
  unfolding lower_def by (simp add: map_idI list_eq_iff_nth_eq all_set_conv_all_nth)

lemma lower_wire_name:
  assumes "is_ascii k" and "lower k = k"
  shows "lower (wire_name k) = k"
proof -
  have "is_ascii w \<and> lower w = w" if "w \<in> set (split_on (CHR ''-'') k)" for w
    using split_on_elems [of "CHR ''-''" k] that assms
    by (auto simp: is_ascii_def list_all_iff lower_fixed)
  then show ?thesis
    unfolding wire_name_def by (subst lower_join_capitalize) (simp_all add: join_split_on)
qed

lemma normalize_wire_name: "header_name_ok k \<Longrightarrow> normalize_header_name (wire_name k) = k"
  by (simp add: normalize_header_name_def lower_wire_name header_name_ok_def line_text_def
      dget_default_def)

lemma set_join: "set (join sep ws) \<subseteq> set sep \<union> \<Union> (set ` set ws)"
  by (induction sep ws rule: join.induct) auto

lemma wire_name_chars:
  assumes "header_name_ok k" and "c \<in> set (wire_name k)"
  shows "code c < 128 \<and> c \<noteq> cr \<and> c \<noteq> lf \<and> c \<noteq> CHR '':''"
proof -
  have k: "code d < 128 \<and> d \<noteq> cr \<and> d \<noteq> lf \<and> d \<noteq> CHR '':''" if "d \<in> set k" for d
    using assms(1) that by (auto simp: header_name_ok_def line_text_def is_ascii_def list_all_iff)
  have "c = CHR ''-'' \<or> (\<exists>d \<in> set k. c = d \<or> c = upper_char d)"
  proof -
    from assms(2) set_join [of "''-''"] consider "c = CHR ''-''"
      | w where "w \<in> set (split_on (CHR ''-'') k)" "c \<in> set (capitalize w)"
      unfolding wire_name_def by fastforce
    then show ?thesis
    proof cases
      case 2
      then obtain d r where w: "w = d # r" by (cases w) (auto simp: capitalize_def)
      have sub: "set w \<subseteq> set k" using split_on_elems 2(1) by blast
      then have "lower r = r"
        using assms(1) w by (auto simp: header_name_ok_def lower_fixed)
      with 2(2) w sub show ?thesis by (auto simp: capitalize_def)
    qed simp
  qed
  then consider "c = CHR ''-''" | d where "d \<in> set k" "c = d \<or> c = upper_char d" by blast
  then show ?thesis
  proof cases
    case 1
    then show ?thesis by (simp add: code_def cr_def lf_def)
  next
    case 2
    with k [of d] upper_char_cases [of d] show ?thesis
      by (auto simp: code_def cr_def lf_def)
  qed
qed

lemma wire_name_text: "header_name_ok k \<Longrightarrow> line_text (wire_name k) \<and> CHR '':'' \<notin> set (wire_name k)"
  using wire_name_chars [of k] by (fastforce simp: line_text_def is_ascii_def list_all_iff)

section \<open>Parsing what was serialized\<close>

definition header_ok :: "string \<times> string \<Rightarrow> bool" where
  "header_ok kv \<longleftrightarrow> header_name_ok (fst kv) \<and> line_text (snd kv) \<and> strip (snd kv) = snd kv"

lemma is_space_blank [simp]: "is_space (CHR '' '')"
  by (simp add: is_space_def code_def)

lemma header_line_text: "header_ok kv \<Longrightarrow> line_text (header_line kv)"
  using wire_name_text [of "fst kv"]
  by (auto simp: header_ok_def header_line_def line_text_def is_ascii_def code_def cr_def lf_def
      split: prod.split)

lemma header_line_parts:
  assumes "header_ok kv"
  shows "normalize_header_name (before (CHR '':'') (header_line kv)) = fst kv"
    and "strip (after (CHR '':'') (header_line kv)) = snd kv"
    and "header_line kv \<noteq> []" and "CHR '':'' \<in> set (header_line kv)"
proof -
  have l: "header_line kv = wire_name (fst kv) @ CHR '':'' # (CHR '' '' # snd kv)"
    by (simp add: header_line_def split: prod.split)
  have "CHR '':'' \<notin> set (wire_name (fst kv))"
    using assms wire_name_text by (simp add: header_ok_def)
  note ba = before_after [OF this, of "CHR '' '' # snd kv", folded l]
  show "normalize_header_name (before (CHR '':'') (header_line kv)) = fst kv"
    using assms by (simp add: ba normalize_wire_name header_ok_def)
  show "strip (after (CHR '':'') (header_line kv)) = snd kv"
    using assms by (simp add: ba strip_space_Cons header_ok_def)
  show "header_line kv \<noteq> []" and "CHR '':'' \<in> set (header_line kv)" by (simp_all add: l)
qed

lemma dset_new: "k \<notin> fst ` set d \<Longrightarrow> dset k v d = d @ [(k, v)]"
  by (induction d) auto

definition header_bytes :: "headers \<Rightarrow> string" where
  "header_bytes hs = concat (map (\<lambda>h. header_line h @ crlf) hs)"

lemma read_headers_blank:
  assumes "tot + 2 \<le> MAX_MESSAGE_SIZE"
  shows "read_headers hs n tot (crlf @ rest) = Inr (hs, tot + 2, rest)"
proof -
  have "readline (crlf @ rest) = Some (crlf, rest)"
    using readline_crlf [of "[]" rest] by (simp add: line_text_def is_ascii_def MAX_MESSAGE_SIZE_def)
  moreover have "decode_line crlf = []"
    using decode_line_crlf [of "[]"] by (simp add: line_text_def is_ascii_def)
  moreover have "length crlf = 2" "crlf \<noteq> []" by (simp_all add: crlf_def)
  ultimately show ?thesis
    using assms by (subst read_headers.simps) (simp add: Let_def)
qed

lemma read_headers_lines:
  assumes "list_all header_ok hs" and "distinct (map fst hs)" and "fst ` set hs \<inter> fst ` set acc = {}"
    and "n + length hs \<le> MAX_HEADER_COUNT" and "tot + length (header_bytes hs) + 2 \<le> MAX_MESSAGE_SIZE"
  shows "read_headers acc n tot (header_bytes hs @ crlf @ rest) =
    Inr (acc @ hs, tot + length (header_bytes hs) + 2, rest)"
  using assms
proof (induction hs arbitrary: acc n tot)
  case Nil
  then show ?case using read_headers_blank [of tot acc n rest] by (simp add: header_bytes_def)
next
  case (Cons h hs)
  let ?l = "header_line h"
  have h: "header_ok h" using Cons.prems by simp
  have len: "length (header_bytes (h # hs)) = length ?l + 2 + length (header_bytes hs)"
    by (simp add: header_bytes_def crlf_def)
  have sz: "length ?l + 2 \<le> MAX_MESSAGE_SIZE" "tot + (length ?l + 2) \<le> MAX_MESSAGE_SIZE"
    using Cons.prems(5) len by linarith+
  note rl = readline_crlf [OF header_line_text [OF h] sz(1)]
  note parts = header_line_parts [OF h]
  have nc: "Suc n \<le> MAX_HEADER_COUNT" using Cons.prems(4) by simp
  have new: "fst h \<notin> fst ` set acc" using Cons.prems(3) by auto
  have "read_headers acc n tot (?l @ crlf @ header_bytes hs @ crlf @ rest) =
      read_headers (acc @ [h]) (Suc n) (tot + (length ?l + 2)) (header_bytes hs @ crlf @ rest)"
    using sz nc parts(3,4)
    by (subst read_headers.simps)
       (simp add: rl decode_line_crlf header_line_text [OF h] parts(1,2) dset_new [OF new] Let_def
         not_less)
  also have "\<dots> = Inr ((acc @ [h]) @ hs, tot + (length ?l + 2) + length (header_bytes hs) + 2, rest)"
    using Cons.prems len by (intro Cons.IH) auto
  finally show ?case by (simp add: header_bytes_def crlf_def)
qed

lemma dict_wf_fold_dset: "dict_wf d \<Longrightarrow> dict_wf (fold (\<lambda>(name, v) d. dset (f name) v d) hs d)"
  by (induction hs arbitrary: d) auto

lemma dict_wf_wire_headers: "dict_wf (wire_headers m)"
  by (simp add: wire_headers_def normalized_headers_def dict_wf_fold_dset)

lemma sip_ok_headers: "sip_ok m \<Longrightarrow> list_all header_ok (wire_headers m)"
  by (auto simp: sip_ok_def header_ok_def list_all_iff)

lemma serialize_layout:
  assumes "sip_ok m"
  shows "serialize_message m =
    first_line m @ crlf @ header_bytes (wire_headers m) @ crlf @ body m"
proof -
  let ?ls = "first_line m # map header_line (wire_headers m)"
  have "join crlf ?ls @ crlf = first_line m @ crlf @ header_bytes (wire_headers m)"
    by (subst join_crlf_lines) (simp_all add: header_bytes_def comp_def)
  then have block: "join crlf ?ls @ crlf @ crlf =
      first_line m @ crlf @ header_bytes (wire_headers m) @ crlf"
    by (metis append.assoc)
  have "is_ascii (header_bytes (wire_headers m))"
    using sip_ok_headers [OF assms] header_line_text
    by (auto simp: header_bytes_def is_ascii_def list_all_iff line_text_def crlf_def cr_def lf_def code_def)
  then have "is_ascii (join crlf ?ls @ crlf @ crlf)"
    unfolding block using assms by (simp add: sip_ok_def line_text_def)
  then show ?thesis
    using assms by (simp only: serialize_message_def Let_def utf8_ascii block sip_ok_def append.assoc)
qed

lemma py_int_nat_str [simp]: "py_int (nat_str n) = Some (int n)"
  using py_int_int_str [of "int n"] by (simp add: int_str_def)

lemma parse_serialize_message:
  assumes ok: "sip_ok m"
  shows "parse_message (serialize_message m @ rest) = Parsed (canonical m) rest"
proof -
  let ?fl = "first_line m" and ?hs = "wire_headers m" and ?n = "length (body m)"
  have fl: "line_text ?fl" "?fl \<noteq> []" and ascii: "is_ascii (body m)"
    using ok by (simp_all add: sip_ok_def)
  have total: "length ?fl + 2 + length (header_bytes ?hs) + 2 + ?n \<le> MAX_MESSAGE_SIZE"
    using ok serialize_layout [OF ok] by (simp add: sip_ok_def crlf_def)
  have rl: "readline (?fl @ crlf @ header_bytes ?hs @ crlf @ body m @ rest) =
      Some (?fl @ crlf, header_bytes ?hs @ crlf @ body m @ rest)"
    by (rule readline_crlf [OF fl(1)]) (use total in linarith)
  have rh: "read_headers [] 0 (length (?fl @ crlf)) (header_bytes ?hs @ crlf @ body m @ rest) =
      Inr (?hs, length (?fl @ crlf) + length (header_bytes ?hs) + 2, body m @ rest)"
    using read_headers_lines [of ?hs "[]" 0 "length (?fl @ crlf)" "body m @ rest"]
      sip_ok_headers [OF ok] dict_wf_wire_headers [of m] ok total
    by (simp add: dict_wf_def sip_ok_def crlf_def)
  have cl: "dget_default ?hs ''content-length'' ''0'' = nat_str ?n"
    using ascii by (simp add: wire_headers_def dget_default_def utf8_ascii)
  have "read_body ?fl ?hs (length (?fl @ crlf) + length (header_bytes ?hs) + 2) (body m @ rest) =
      Parsed (canonical m) rest"
  proof -
    have "\<not> int MAX_MESSAGE_SIZE < int (length (?fl @ crlf) + length (header_bytes ?hs) + 2) + int ?n"
      using total by (simp add: crlf_def)
    then show ?thesis
      using ascii by (cases "?n = 0")
        (simp_all add: read_body_def Let_def cl utf8_ascii canonical_def)
  qed
  note rb = this
  have "serialize_message m @ rest = ?fl @ crlf @ header_bytes ?hs @ crlf @ body m @ rest"
    by (simp add: serialize_layout [OF ok])
  then show ?thesis
    using fl(2) by (simp only: parse_message_def rl decode_line_crlf [OF fl(1)] rh rb Let_def
      option.case prod.case sum.case append_is_Nil_conv if_False simp_thms)
qed

lemma parse_message_shrinks:
  assumes "parse_message s = Parsed m rest"
  shows "length rest < length s"
proof -
  have rh: "length r \<le> length u" if "read_headers hs n t u = Inr (hs', t', r)" for hs n t u hs' t' r
    using that
  proof (induction hs n t u rule: read_headers.induct)
    case (1 hs n t u)
    show ?case
    proof (cases "readline u")
      case None
      with "1.prems" show ?thesis by (simp add: read_headers.simps)
    next
      case (Some lr)
      obtain l v where lr: "lr = (l, v)" by force
      have u: "u = l @ v" using readline_split Some lr by simp
      have "length r \<le> length v"
        using "1.prems" "1.IH" [OF Some [unfolded lr] refl]
        by (subst (asm) read_headers.simps) (auto simp: Some lr Let_def split: if_splits)
      then show ?thesis by (simp add: u)
    qed
  qed
  have rb: "length r \<le> length u" if "read_body fl hs t u = Parsed m r" for fl hs t u r
    using that by (auto simp: read_body_def Let_def split: option.splits if_splits)
  obtain l v where rl: "readline s = Some (l, v)" "l \<noteq> []"
    using assms by (auto simp: parse_message_def split: option.splits if_splits)
  moreover obtain hs t u where "read_headers [] 0 (length l) v = Inr (hs, t, u)"
      "read_body (decode_line l) hs t u = Parsed m rest"
    using assms rl
    by (auto simp: parse_message_def Let_def split: if_splits sum.splits option.splits prod.splits)
  ultimately show ?thesis using rh rb readline_shrinks [of s l v] by (meson le_less_trans)
qed

lemma parse_message_empty: "parse_message [] = Eof"
  by (simp add: parse_message_def readline_def)

interpretation sip: message_framing parse_message serialize_message sip_ok canonical
  by unfold_locales (rule parse_message_empty parse_message_shrinks parse_serialize_message; assumption?)+

section \<open>Limits\<close>

lemma read_headers_limits:
  assumes "read_headers hs n t u = Inr (hs', t', r)" and "length hs \<le> n" and "n \<le> MAX_HEADER_COUNT"
  shows "length hs' \<le> MAX_HEADER_COUNT \<and> t' \<le> MAX_MESSAGE_SIZE \<and> t' + length r = t + length u"
  using assms
proof (induction hs n t u rule: read_headers.induct)
  case (1 hs n t u)
  show ?case
  proof (cases "readline u")
    case None
    with "1.prems" show ?thesis by (simp add: read_headers.simps)
  next
    case (Some lr)
    obtain l v where lr: "lr = (l, v)" by force
    let ?line = "decode_line l"
    let ?hs = "dset (normalize_header_name (before (CHR '':'') ?line))
      (strip (after (CHR '':'') ?line)) hs"
    have u: "length u = length l + length v" using readline_split [of u l v] Some lr by simp
    have l: "l \<noteq> []" and t: "\<not> MAX_MESSAGE_SIZE < t + length l"
      using "1.prems"(1) by (subst (asm) read_headers.simps; simp add: Some lr Let_def split: if_splits)+
    show ?thesis
    proof (cases "?line = []")
      case True
      then show ?thesis
        using "1.prems" l t u by (subst (asm) read_headers.simps) (simp add: Some lr Let_def)
    next
      case False
      then have rec: "read_headers ?hs (n + 1) (t + length l) v = Inr (hs', t', r)"
        and col: "CHR '':'' \<in> set ?line" and n: "\<not> MAX_HEADER_COUNT < n + 1"
        using "1.prems"(1) l t
        by (subst (asm) read_headers.simps; simp add: Some lr Let_def split: if_splits)+
      have "length ?hs \<le> n + 1" using "1.prems"(2) by (simp add: length_dset)
      with "1.IH" [OF Some [unfolded lr] refl l refl t refl False _ refl refl refl n rec] col n u
      show ?thesis by simp
    qed
  qed
qed

lemma read_body_limits:
  assumes "read_body fl hs t u = Parsed m r"
  shows "headers m = hs \<and> length r \<le> length u \<and> t + length u \<le> MAX_MESSAGE_SIZE + length r
    \<or> headers m = hs \<and> r = u"
  using assms by (auto simp: read_body_def Let_def split: option.splits if_splits)

lemma parse_message_consumes:
  assumes "parse_message s = Parsed m rest"
  shows "length (headers m) \<le> MAX_HEADER_COUNT"
    and "length s \<le> MAX_MESSAGE_SIZE + length rest"
proof -
  obtain l v where rl: "readline s = Some (l, v)"
    using assms by (auto simp: parse_message_def split: option.splits if_splits)
  then have s: "s = l @ v" by (rule readline_split)
  obtain hs t u where rh: "read_headers [] 0 (length l) v = Inr (hs, t, u)"
    and rb: "read_body (decode_line l) hs t u = Parsed m rest"
    using assms rl
    by (auto simp: parse_message_def Let_def split: if_splits sum.splits option.splits prod.splits)
  note h = read_headers_limits [OF rh, simplified]
  show "length (headers m) \<le> MAX_HEADER_COUNT" and "length s \<le> MAX_MESSAGE_SIZE + length rest"
    using read_body_limits [OF rb] h by (auto simp: s MAX_HEADER_COUNT_def)
qed

section \<open>Properties\<close>

definition sample_message :: sip_message where
  "sample_message = \<lparr>first_line = ''SIP/2.0 200 OK'',
     headers = [(''Via'', ''SIP/2.0/TLS h;branch=z9''), (''CALL-ID'', ''a-1''), (''l'', ''9'')],
     body = ''v=0''\<rparr>"

text \<open>
  C3 A connection whose peer writes any sequence of well-formed SIP messages back to back
  hands exactly these messages, in order and with canonical headers, to the dispatcher,
  and writes exactly the serialized replies: framing by Content-Length loses and invents
  nothing, whatever the state machine behind it does.  Well-formed means ASCII lines, headers
  without blanks at their ends, at most 100 of them, and a message within 64 KiB.
\<close>

theorem sip_connection_dispatches_all:
  assumes "list_all sip_ok ms"
  shows "handle_sip_connection parse_message serialize_message dispatch st
      (concat (map serialize_message ms)) =
    Some (dispatch_all serialize_message dispatch st (map canonical ms))"
  using assms by (rule sip.connection_dispatches_all)

lemma sample_message_headers: "wire_headers sample_message =
  [(''via'', ''SIP/2.0/TLS h;branch=z9''), (''call-id'', ''a-1''), (''content-length'', ''3'')]"
  by code_simp

lemma sample_message_length: "length (serialize_message sample_message) \<le> 150"
  by code_simp

lemma sample_message_ok: "sip_ok sample_message"
proof -
  have "list_all (\<lambda>(k, v). header_name_ok k \<and> line_text v \<and> strip v = v)
      [(''via'', ''SIP/2.0/TLS h;branch=z9''), (''call-id'', ''a-1''), (''content-length'', ''3'')]"
    by code_simp
  moreover have "line_text (first_line sample_message)" "first_line sample_message \<noteq> []"
    "is_ascii (body sample_message)" by code_simp+
  ultimately show ?thesis
    using sample_message_length
    by (simp add: sip_ok_def sample_message_headers MAX_HEADER_COUNT_def MAX_MESSAGE_SIZE_def)
qed

theorem sip_connection_dispatches_all_witness:
  "handle_sip_connection parse_message serialize_message (\<lambda>n m. (n + 1, Reply m)) (0 :: nat)
      (concat (map serialize_message [sample_message, sample_message])) =
    Some (dispatch_all serialize_message (\<lambda>n m. (n + 1, Reply m)) 0
      (map canonical [sample_message, sample_message]))"
  by (rule sip_connection_dispatches_all) (simp add: sample_message_ok)

text \<open>
  The connection loop returns on every byte stream, whatever the dispatcher does: every
  message consumes at least one byte.
\<close>

theorem sip_connection_returns:
  "\<exists>r. handle_sip_connection parse_message serialize_message dispatch st stream = Some r"
  by (rule sip.connection_terminates)

text \<open>
  No message is accepted that takes more than 64 KiB of the stream or carries more than
  100 headers.
\<close>

theorem parse_message_limits:
  assumes "parse_message s = Parsed m rest"
  shows "length (headers m) \<le> 100 \<and> length s - length rest \<le> 65536"
  using parse_message_consumes [OF assms] by (simp add: MAX_HEADER_COUNT_def MAX_MESSAGE_SIZE_def)

theorem parse_message_limits_witness:
  "length (headers (canonical sample_message)) \<le> 100 \<and>
   length (serialize_message sample_message @ ''x'') - length ''x'' \<le> 65536"
  using parse_message_limits [OF sip.parse_serialize [OF sample_message_ok]] .

end
