(* ===== verification/Bridge_Config.thy ===== *)
theory Bridge_Config
  imports Py_Strings
begin

text \<open>
  \<open>sip_bridge/config.py\<close> and \<open>sip_bridge/wa_config.py\<close>: the two configurations read from
  the environment (a dictionary of strings) and their validation.  An error is a value of
  \<open>config_error\<close>, one constructor per message of the code; \<open>Inl\<close> names the variable whose
  value is not an integer.
\<close>

datatype config_error =
    GoogleApiKeyRequired | PublicIpRequired | UsernameRequired | PasswordRequired
  | BadPort string | BadRegisterInterval | GatewayUrlRequired | GatewaySecretRequired
  | BadPhoneRegion | LiveModelRequired | LiveModelUnsupported
  | AllowedCidrsRequired | TlsFilesRequired | ServiceUrlRequired | ServiceSecretRequired

type_synonym env = "(string, string) dict"

definition DEFAULT_LIVE_MODEL_ID :: string where
  "DEFAULT_LIVE_MODEL_ID = ''gemini-2.5-flash-native-audio-preview-12-2025''"

definition DISALLOWED_LIVE_MODEL_IDS :: "string list" where
  "DISALLOWED_LIVE_MODEL_IDS = [''gemini-3-flash-preview'']"

definition read_int_env :: "env \<Rightarrow> string \<Rightarrow> string \<Rightarrow> string + int" where
  "read_int_env env name dflt =
     (case py_int (dget_default env name dflt) of None \<Rightarrow> Inl name | Some i \<Rightarrow> Inr i)"

definition comma_set :: "string \<Rightarrow> string set" where
  "comma_set raw = set (filter (\<lambda>w. w \<noteq> []) (map strip (split_on (CHR '','') raw)))"

definition env_flag :: "env \<Rightarrow> string \<Rightarrow> bool" where
  "env_flag env name \<longleftrightarrow> lower (dget_default env name ''false'') \<in> {''true'', ''1'', ''yes''}"

definition bad_region :: "string \<Rightarrow> bool" where
  "bad_region r \<longleftrightarrow> r = [] \<or> length r \<noteq> 2 \<or> \<not> list_all is_alpha r"

section \<open>The Africa's Talking bridge\<close>

record bridge_config =
  sip_host :: string
  sip_port :: int
  sip_public_ip :: string
  sip_allowed_peers :: "string set"
  gemini_api_key :: string
  live_model_id :: string
  system_instruction :: string
  gemini_voice :: string
  company_id :: string
  tenant_id :: string
  health_port :: int
  sip_registrar :: string
  sip_username :: string
  sip_password :: string
  sip_register_interval :: int
  default_phone_region :: string
  gateway_mode :: bool
  gateway_ws_url :: string
  gateway_ws_secret :: string

definition em_dash :: string where
  "em_dash = [CHR 0xE2, CHR 0x80, CHR 0x94]"

definition default_instruction :: string where
  "default_instruction =
     ''You are the virtual assistant named ehkaitay. '' @
     ''Your name is ehkaitay '' @ em_dash @ '' always say it exactly like that. '' @
     ''You are answering a phone call. Greet the caller warmly and ask how you can help. '' @
     ''Always speak in English. '' @
     ''Be helpful, concise, and professional. Keep responses short for phone conversation.''"

definition bridge_from_env :: "env \<Rightarrow> string + bridge_config" where
  "bridge_from_env env =
     (case read_int_env env ''SIP_BRIDGE_PORT'' ''6060'' of Inl e \<Rightarrow> Inl e | Inr port \<Rightarrow>
      case read_int_env env ''SIP_HEALTH_PORT'' ''8081'' of Inl e \<Rightarrow> Inl e | Inr health \<Rightarrow>
      case read_int_env env ''SIP_REGISTER_INTERVAL'' ''300'' of Inl e \<Rightarrow> Inl e | Inr interval \<Rightarrow>
      Inr \<lparr>sip_host = dget_default env ''SIP_BRIDGE_HOST'' ''0.0.0.0'',
           sip_port = port,
           sip_public_ip = dget_default env ''SIP_PUBLIC_IP'' ''127.0.0.1'',
           sip_allowed_peers = comma_set (dget_default env ''SIP_ALLOWED_PEERS'' []),
           gemini_api_key = dget_default env ''GOOGLE_API_KEY'' [],
           live_model_id = dget_default env ''LIVE_MODEL_ID'' DEFAULT_LIVE_MODEL_ID,
           system_instruction = dget_default env ''SIP_SYSTEM_INSTRUCTION'' default_instruction,
           gemini_voice = dget_default env ''SIP_GEMINI_VOICE'' ''Aoede'',
           company_id = dget_default env ''SIP_COMPANY_ID'' ''ekaette-electronics'',
           tenant_id = dget_default env ''SIP_TENANT_ID'' ''public'',
           health_port = health,
           sip_registrar = dget_default env ''SIP_REGISTRAR'' ''ng.sip.africastalking.com'',
           sip_username = dget_default env ''SIP_USERNAME'' [],
           sip_password = dget_default env ''SIP_PASSWORD'' [],
           sip_register_interval = interval,
           default_phone_region = upper (strip (dget_default env ''SIP_DEFAULT_PHONE_REGION'' ''NG'')),
           gateway_mode = env_flag env ''GATEWAY_MODE'',
           gateway_ws_url = dget_default env ''GATEWAY_WS_URL'' [],
           gateway_ws_secret = dget_default env ''GATEWAY_WS_SECRET'' []\<rparr>)"

definition check :: "bool \<Rightarrow> config_error \<Rightarrow> config_error list" where
  "check bad e = (if bad then [e] else [])"

definition bridge_validate :: "bridge_config \<Rightarrow> config_error list" where
  "bridge_validate c =
     (let normalized_live_model = lower (strip (live_model_id c)) in
      check (\<not> gateway_mode c \<and> gemini_api_key c = []) GoogleApiKeyRequired @
      check (sip_public_ip c = [] \<or> sip_public_ip c = ''127.0.0.1'') PublicIpRequired @
      check (sip_username c = []) UsernameRequired @
      check (sip_password c = []) PasswordRequired @
      concat (map (\<lambda>(field_name, v). check (v < 1 \<or> 65535 < v) (BadPort field_name))
        [(''SIP_BRIDGE_PORT'', sip_port c), (''SIP_HEALTH_PORT'', health_port c)]) @
      check (sip_register_interval c \<le> 0) BadRegisterInterval @
      check (gateway_mode c \<and> gateway_ws_url c = []) GatewayUrlRequired @
      check (gateway_mode c \<and> gateway_ws_secret c = []) GatewaySecretRequired @
      check (bad_region (default_phone_region c)) BadPhoneRegion @
      (if normalized_live_model = [] then [LiveModelRequired]
       else check (normalized_live_model \<in> set DISALLOWED_LIVE_MODEL_IDS) LiveModelUnsupported))"

section \<open>The WhatsApp bridge\<close>

definition is_text_only_model_id :: "string \<Rightarrow> bool" where
  "is_text_only_model_id model_id \<longleftrightarrow>
     (let normalized = lower (strip model_id) in
      normalized \<in> set DISALLOWED_LIVE_MODEL_IDS \<or>
      endswith ''-preview'' normalized \<and> \<not> contains ''native-audio'' normalized \<and>
        \<not> contains ''live'' normalized)"

record wa_config =
  wa_sip_host :: string
  wa_sip_port :: int
  wa_sip_username :: string
  wa_sip_password :: string
  wa_allowed_cidrs :: "string set"
  tls_certfile :: string
  tls_keyfile :: string
  sandbox_mode :: bool
  wa_gemini_api_key :: string
  wa_live_model_id :: string
  wa_system_instruction :: string
  wa_gemini_voice :: string
  wa_company_id :: string
  wa_tenant_id :: string
  wa_health_port :: int
  wa_service_api_base_url :: string
  wa_service_secret :: string
  wa_default_phone_region :: string
  wa_gateway_mode :: bool
  wa_gateway_ws_url :: string
  wa_gateway_ws_secret :: string

definition wa_from_env :: "env \<Rightarrow> string + wa_config" where
  "wa_from_env env =
     (case read_int_env env ''WA_SIP_PORT'' ''5061'' of Inl e \<Rightarrow> Inl e | Inr port \<Rightarrow>
      case read_int_env env ''WA_HEALTH_PORT'' ''8082'' of Inl e \<Rightarrow> Inl e | Inr health \<Rightarrow>
      Inr \<lparr>wa_sip_host = dget_default env ''WA_SIP_HOST'' ''0.0.0.0'',
           wa_sip_port = port,
           wa_sip_username = dget_default env ''WA_SIP_USERNAME'' [],
           wa_sip_password = dget_default env ''WA_SIP_PASSWORD'' [],
           wa_allowed_cidrs = comma_set (dget_default env ''WA_SIP_ALLOWED_CIDRS'' []),
           tls_certfile = dget_default env ''WA_TLS_CERTFILE'' [],
           tls_keyfile = dget_default env ''WA_TLS_KEYFILE'' [],
           sandbox_mode = env_flag env ''WA_SANDBOX_MODE'',
           wa_gemini_api_key = dget_default env ''GOOGLE_API_KEY'' [],
           wa_live_model_id = dget_default env ''LIVE_MODEL_ID'' DEFAULT_LIVE_MODEL_ID,
           wa_system_instruction = dget_default env ''WA_SYSTEM_INSTRUCTION''
             (''You are Ekaette, the virtual assistant. '' @ ''Be helpful, concise, and professional.''),
           wa_gemini_voice = dget_default env ''WA_GEMINI_VOICE'' ''Aoede'',
           wa_company_id = dget_default env ''WA_COMPANY_ID'' ''ekaette-electronics'',
           wa_tenant_id = dget_default env ''WA_TENANT_ID'' ''public'',
           wa_health_port = health,
           wa_service_api_base_url =
             rstrip_where (\<lambda>c. c = CHR ''/'') (dget_default env ''WA_SERVICE_API_BASE_URL'' []),
           wa_service_secret = dget_default env ''WA_SERVICE_SECRET'' [],
           wa_default_phone_region = upper (strip (dget_default env ''WA_DEFAULT_PHONE_REGION'' ''NG'')),
           wa_gateway_mode = env_flag env ''WA_GATEWAY_MODE'',
           wa_gateway_ws_url = dget_default env ''WA_GATEWAY_WS_URL'' [],
           wa_gateway_ws_secret = dget_default env ''WA_GATEWAY_WS_SECRET'' []\<rparr>)"

definition wa_validate :: "wa_config \<Rightarrow> config_error list" where
  "wa_validate c =
     check (wa_gateway_mode c \<and> wa_gateway_ws_url c = []) GatewayUrlRequired @
     check (wa_gateway_mode c \<and> wa_gateway_ws_secret c = []) GatewaySecretRequired @
     check (\<not> wa_gateway_mode c \<and> wa_gemini_api_key c = []) GoogleApiKeyRequired @
     (if \<not> wa_gateway_mode c then
        (let normalized_live_model = lower (strip (wa_live_model_id c)) in
         if normalized_live_model = [] then [LiveModelRequired]
         else check (is_text_only_model_id normalized_live_model) LiveModelUnsupported)
      else []) @
     check (wa_sip_username c = []) UsernameRequired @
     check (wa_sip_password c = []) PasswordRequired @
     check (\<not> sandbox_mode c \<and> wa_allowed_cidrs c = {}) AllowedCidrsRequired @
     check (\<not> sandbox_mode c \<and> (tls_certfile c = [] \<or> tls_keyfile c = [])) TlsFilesRequired @
     check (\<not> sandbox_mode c \<and> wa_service_api_base_url c = []) ServiceUrlRequired @
     check (\<not> sandbox_mode c \<and> wa_service_secret c = []) ServiceSecretRequired @
     check (bad_region (wa_default_phone_region c)) BadPhoneRegion"

section \<open>What validation guarantees\<close>

lemma check_Nil [simp]: "check b e = [] \<longleftrightarrow> \<not> b"
  by (simp add: check_def)

lemma comma_set_member:
  "w \<in> comma_set raw \<Longrightarrow> w \<noteq> [] \<and> strip w = w"
  by (auto simp: comma_set_def)

lemma bridge_validate_Nil:
  "bridge_validate c = [] \<longleftrightarrow>
     (gateway_mode c \<and> gateway_ws_url c \<noteq> [] \<and> gateway_ws_secret c \<noteq> [] \<or>
      \<not> gateway_mode c \<and> gemini_api_key c \<noteq> []) \<and>
     sip_public_ip c \<noteq> [] \<and> sip_public_ip c \<noteq> ''127.0.0.1'' \<and>
     sip_username c \<noteq> [] \<and> sip_password c \<noteq> [] \<and>
     1 \<le> sip_port c \<and> sip_port c \<le> 65535 \<and> 1 \<le> health_port c \<and> health_port c \<le> 65535 \<and>
     0 < sip_register_interval c \<and> \<not> bad_region (default_phone_region c) \<and>
     strip (live_model_id c) \<noteq> [] \<and>
     lower (strip (live_model_id c)) \<notin> set DISALLOWED_LIVE_MODEL_IDS"
  by (auto simp: bridge_validate_def Let_def not_less not_le lower_def)

text \<open>
  A WhatsApp bridge that is loaded from any environment, passes validation and is not
  in sandbox mode has a non-empty allowlist of non-blank networks, both TLS files, the
  service URL (not ending in a slash) and its secret, and in gateway mode the gateway URL
  and secret: no unprotected production configuration starts.
\<close>

theorem wa_production_config_protected:
  assumes "wa_from_env env = Inr c" and "wa_validate c = []" and "\<not> env_flag env ''WA_SANDBOX_MODE''"
  shows "(\<exists>w. w \<in> wa_allowed_cidrs c) \<and> (\<forall>w \<in> wa_allowed_cidrs c. w \<noteq> [] \<and> strip w = w) \<and>
    tls_certfile c \<noteq> [] \<and> tls_keyfile c \<noteq> [] \<and> wa_service_secret c \<noteq> [] \<and>
    wa_service_api_base_url c \<noteq> [] \<and> last (wa_service_api_base_url c) \<noteq> CHR ''/'' \<and>
    (wa_gateway_mode c \<longrightarrow> wa_gateway_ws_url c \<noteq> [] \<and> wa_gateway_ws_secret c \<noteq> [])"
proof -
  have c: "wa_allowed_cidrs c = comma_set (dget_default env ''WA_SIP_ALLOWED_CIDRS'' [])"
    "\<not> sandbox_mode c"
    "wa_service_api_base_url c =
       rstrip_where (\<lambda>c. c = CHR ''/'') (dget_default env ''WA_SERVICE_API_BASE_URL'' [])"
    using assms(1,3) by (auto simp: wa_from_env_def split: sum.splits)
  moreover have "wa_allowed_cidrs c \<noteq> {}" "tls_certfile c \<noteq> []" "tls_keyfile c \<noteq> []"
    "wa_service_secret c \<noteq> []" "wa_service_api_base_url c \<noteq> []"
    "wa_gateway_mode c \<longrightarrow> wa_gateway_ws_url c \<noteq> [] \<and> wa_gateway_ws_secret c \<noteq> []"
    using assms(2) c(2) by (simp_all add: wa_validate_def)
  ultimately show ?thesis
    using comma_set_member rstrip_where_last [of "\<lambda>c. c = CHR ''/''"] by (auto simp: ex_in_conv)
qed

definition sample_env :: env where
  "sample_env = [(''WA_SIP_ALLOWED_CIDRS'', '' 10.0.0.0/8,, ''), (''WA_TLS_CERTFILE'', ''c''),
     (''WA_TLS_KEYFILE'', ''k''), (''WA_SERVICE_API_BASE_URL'', ''u/''), (''WA_SERVICE_SECRET'', ''s''),
     (''GOOGLE_API_KEY'', ''g''), (''WA_SIP_USERNAME'', ''n''), (''WA_SIP_PASSWORD'', ''p'')]"

theorem wa_production_config_protected_witness:
  "case wa_from_env sample_env of Inl _ \<Rightarrow> False
   | Inr c \<Rightarrow> (\<exists>w. w \<in> wa_allowed_cidrs c) \<and> last (wa_service_api_base_url c) \<noteq> CHR ''/''"
proof -
  have e: "case wa_from_env sample_env of Inl _ \<Rightarrow> False | Inr c \<Rightarrow> wa_validate c = []"
    "\<not> env_flag sample_env ''WA_SANDBOX_MODE''"
    by code_simp+
  then obtain c where c: "wa_from_env sample_env = Inr c" "wa_validate c = []"
    by (cases "wa_from_env sample_env") auto
  show ?thesis using wa_production_config_protected [OF c e(2)] by (simp add: c)
qed

end
