(* ===== verification/Sdp.thy ===== *)
theory Sdp
  imports Srtp_Context
begin

text \<open>
  The session descriptions of both bridges: \<open>parse_sdp_g711\<close> and \<open>build_sdp_answer\<close> of
  \<open>sip_bridge/sip_dialog.py\<close>, \<open>parse_remote_sdp\<close> and \<open>generate_sdp_answer\<close> of
  \<open>sip_bridge/wa_sip_client.py\<close>.  The regular expressions the two files share are the
  matchers of the first section; the random key material is an argument.
\<close>

section \<open>Matchers\<close>

definition match_connection :: "string \<Rightarrow> string option" where
  "match_connection s =
     (if \<not> startswith ''c=IN'' s then None else
      let r = drop 4 s; sp = takeWhile is_space r; r = dropWhile is_space r in
      if sp = [] \<or> \<not> startswith ''IP4'' r then None else
      let r = drop 3 r; sp = takeWhile is_space r; r = dropWhile is_space r;
          ip = takeWhile (\<lambda>c. is_digit c \<or> c = CHR ''.'') r
      in if sp = [] \<or> ip = [] then None else Some ip)"

text \<open>
  \<open>m=audio\s+(\d+)\s+\S+\s+([\d\s]+)\<close>, first group.  The last group may start with the
  last space of the run before it, so two spaces or one space and a digit match.
\<close>

definition match_media :: "string \<Rightarrow> string option" where
  "match_media s =
     (if \<not> startswith ''m=audio'' s then None else
      let r = drop 7 s; sp = takeWhile is_space r; r = dropWhile is_space r;
          port = takeWhile is_digit r; r = dropWhile is_digit r;
          sp2 = takeWhile is_space r; r = dropWhile is_space r;
          proto = takeWhile (\<lambda>c. \<not> is_space c) r; r = dropWhile (\<lambda>c. \<not> is_space c) r;
          sp3 = takeWhile is_space r; r = dropWhile is_space r
      in if sp = [] \<or> port = [] \<or> sp2 = [] \<or> proto = [] \<or> sp3 = [] then None
         else if 2 \<le> length sp3 \<or> r \<noteq> [] \<and> is_digit (hd r) then Some port else None)"

definition match_rtpmap :: "string \<Rightarrow> ((nat \<times> string) \<times> string) option" where
  "match_rtpmap s =
     (if \<not> startswith ''a=rtpmap:'' s then None else
      let r = drop 9 s; pt = takeWhile is_digit r; r = dropWhile is_digit r;
          sp = takeWhile is_space r; r = dropWhile is_space r;
          codec = takeWhile (\<lambda>c. \<not> is_space c) r
      in if pt = [] \<or> sp = [] \<or> codec = [] then None
         else Some ((digits_value pt, codec), dropWhile (\<lambda>c. \<not> is_space c) r))"

definition match_fmtp :: "string \<Rightarrow> ((nat \<times> string) \<times> string) option" where
  "match_fmtp s =
     (if \<not> startswith ''a=fmtp:'' s then None else
      let r = drop 7 s; pt = takeWhile is_digit r; r = dropWhile is_digit r;
          sp = takeWhile is_space r; r = dropWhile is_space r
      in if pt = [] \<or> sp = [] then None
         else Some ((digits_value pt, takeWhile (\<lambda>c. c \<noteq> lf) r), dropWhile (\<lambda>c. c \<noteq> lf) r))"

definition match_rate :: "string \<Rightarrow> nat option" where
  "match_rate s =
     (if \<not> startswith ''maxplaybackrate='' s then None else
      let d = takeWhile is_digit (drop 16 s) in if d = [] then None else Some (digits_value d))"

section \<open>G.711\<close>

record sdp_g711 =
  g711_media_ip :: string
  g711_media_port :: nat
  pcmu_payload_type :: nat
  g711_dtmf :: "nat option"

definition media_ip_of :: "string \<Rightarrow> string" where
  "media_ip_of sdp = (case search match_connection sdp of None \<Rightarrow> [] | Some ip \<Rightarrow> ip)"

definition media_port_of :: "string \<Rightarrow> nat" where
  "media_port_of sdp = (case search match_media sdp of None \<Rightarrow> 0 | Some p \<Rightarrow> digits_value p)"

definition parse_sdp_g711 :: "string \<Rightarrow> sdp_g711" where
  "parse_sdp_g711 sdp =
     \<lparr>g711_media_ip = media_ip_of sdp, g711_media_port = media_port_of sdp, pcmu_payload_type = 0,
      g711_dtmf = fold (\<lambda>(pt, codec) d.
          if startswith ''telephone-event/'' (lower codec) then Some pt else d)
        (find_all match_rtpmap sdp) None\<rparr>"

definition build_sdp_answer :: "string \<Rightarrow> nat \<Rightarrow> string" where
  "build_sdp_answer local_ip rtp_port =
     ''v=0'' @ crlf @
     ''o=ekaette 0 0 IN IP4 '' @ local_ip @ crlf @
     ''s=Ekaette SIP Bridge'' @ crlf @
     ''c=IN IP4 '' @ local_ip @ crlf @
     ''t=0 0'' @ crlf @
     ''m=audio '' @ nat_str rtp_port @ '' RTP/AVP 0'' @ crlf @
     ''a=rtpmap:0 PCMU/8000'' @ crlf @
     ''a=ptime:20'' @ crlf @
     ''a=sendrecv'' @ crlf"

section \<open>Opus with SDES\<close>

record remote_sdp =
  media_ip :: string
  media_port :: nat
  opus_payload_type :: "nat option"
  encode_rate :: nat
  dtmf_payload_type :: "nat option"

definition rtpmap_step :: "nat \<times> string \<Rightarrow> nat option \<times> nat option \<Rightarrow> nat option \<times> nat option" where
  "rtpmap_step m st = (case m of (pt, codec) \<Rightarrow> case st of (opus, dtmf) \<Rightarrow>
     let codec = lower codec in
     if startswith ''opus/'' codec then (Some pt, dtmf)
     else if startswith ''telephone-event/'' codec then (opus, Some pt)
     else (opus, dtmf))"

definition fmtp_step :: "nat \<Rightarrow> nat \<times> string \<Rightarrow> nat \<Rightarrow> nat" where
  "fmtp_step opus m rate = (case m of (pt, params) \<Rightarrow>
     if pt = opus then (case search match_rate params of None \<Rightarrow> rate | Some r \<Rightarrow> r) else rate)"

definition parse_remote_sdp :: "string \<Rightarrow> remote_sdp" where
  "parse_remote_sdp sdp =
     (let (opus, dtmf) = fold rtpmap_step (find_all match_rtpmap sdp) (None, None) in
      \<lparr>media_ip = media_ip_of sdp, media_port = media_port_of sdp, opus_payload_type = opus,
       encode_rate = (case opus of None \<Rightarrow> 16000
         | Some pt \<Rightarrow> fold (fmtp_step pt) (find_all match_fmtp sdp) 16000),
       dtmf_payload_type = dtmf\<rparr>)"

text \<open>
  The payload type reaches the text through an f-string; the server passes Python's
  \<open>None\<close> when the offer had no Opus line.
\<close>

fun payload_text :: "nat option \<Rightarrow> string" where
  "payload_text None = ''None''"
| "payload_text (Some pt) = nat_str pt"

definition generate_sdp_answer :: "bytes \<Rightarrow> string \<Rightarrow> nat \<Rightarrow> nat option \<Rightarrow> string" where
  "generate_sdp_answer key_material local_ip local_port payload_type =
     ''v=0'' @ crlf @
     ''o=ekaette 0 0 IN IP4 '' @ local_ip @ crlf @
     ''s=Ekaette SIP Bridge'' @ crlf @
     ''c=IN IP4 '' @ local_ip @ crlf @
     ''t=0 0'' @ crlf @
     ''m=audio '' @ nat_str local_port @ '' RTP/SAVP '' @ payload_text payload_type @ '' 126'' @ crlf @
     format_crypto_line 1 key_material ''AES_CM_128_HMAC_SHA1_80'' @ crlf @
     ''a=rtpmap:'' @ payload_text payload_type @ '' opus/48000/2'' @ crlf @
     ''a=fmtp:'' @ payload_text payload_type @ '' maxplaybackrate=16000;useinbandfec=1'' @ crlf @
     ''a=rtpmap:126 telephone-event/8000'' @ crlf @
     ''a=ptime:20'' @ crlf @
     ''a=maxptime:20'' @ crlf @
     ''a=sendrecv'' @ crlf"

section \<open>Searching a description\<close>

text \<open>
  Every matcher starts with a letter and an equals sign, so text without an equals sign
  is skipped.
\<close>

definition eq_matcher :: "(string \<Rightarrow> 'a option) \<Rightarrow> bool" where
  "eq_matcher m \<longleftrightarrow> (\<forall>s. m s \<noteq> None \<longrightarrow> (\<exists>x t. s = x # CHR ''='' # t))"

lemma eq_matcher_None: "eq_matcher m \<Longrightarrow> c \<noteq> CHR ''='' \<Longrightarrow> m (x # c # s) = None"
  unfolding eq_matcher_def by (metis list.inject)

lemma eq_matcher_single: "eq_matcher m \<Longrightarrow> m [x] = None"
  unfolding eq_matcher_def by (metis list.inject list.distinct(1))

lemma eq_matcher_suffix:
  assumes "eq_matcher m" and "CHR ''='' \<notin> set v" and "v \<noteq> []" and "s = [] \<or> hd s \<noteq> CHR ''=''"
  shows "m (v @ s) = None"
proof -
  obtain x w where v: "v = x # w" using assms(3) by (cases v) auto
  show ?thesis
  proof (cases "w @ s")
    case Nil
    with v show ?thesis using eq_matcher_single [OF assms(1)] by simp
  next
    case (Cons y t)
    then have "y \<noteq> CHR ''=''" using assms(2,4) v by (cases w) auto
    with Cons v show ?thesis using eq_matcher_None [OF assms(1)] by simp
  qed
qed

lemma search_skip:
  assumes "eq_matcher m" and "CHR ''='' \<notin> set pre" and "s = [] \<or> hd s \<noteq> CHR ''=''"
  shows "search m (pre @ s) = search m s"
  by (rule search_append, rule eq_matcher_suffix [OF assms(1)]) (use assms in auto)

lemma find_all_skip:
  assumes "eq_matcher m" and "CHR ''='' \<notin> set pre" and "s = [] \<or> hd s \<noteq> CHR ''=''"
  shows "find_all m (pre @ s) = find_all m s"
  using assms(2)
proof (induction pre)
  case (Cons c pre)
  have "m ((c # pre) @ s) = None"
    by (rule eq_matcher_suffix [OF assms(1) Cons.prems _ assms(3)]) simp
  with Cons show ?case by simp
qed simp

lemma startswith_eq:
  assumes "startswith p s" and "p = x # CHR ''='' # q"
  shows "\<exists>x t. s = x # CHR ''='' # t"
proof -
  have "take (length p) s = x # CHR ''='' # q" using assms by (simp add: startswith_def)
  then show ?thesis using assms(2) by (cases s; cases "tl s") auto
qed

lemma eq_matchers:
  "eq_matcher match_connection" "eq_matcher match_media" "eq_matcher match_rtpmap"
  "eq_matcher match_fmtp" "eq_matcher match_crypto"
proof -
  have *: "eq_matcher m" if "\<And>s. \<not> startswith p s \<Longrightarrow> m s = None" and "p = x # CHR ''='' # q"
    for m :: "string \<Rightarrow> 'a option" and p x q
    unfolding eq_matcher_def using that startswith_eq by metis
  show "eq_matcher match_connection"
    by (rule * [of "''c=IN''"]) (simp_all add: match_connection_def)
  show "eq_matcher match_media"
    by (rule * [of "''m=audio''"]) (simp_all add: match_media_def)
  show "eq_matcher match_rtpmap"
    by (rule * [of "''a=rtpmap:''"]) (simp_all add: match_rtpmap_def)
  show "eq_matcher match_fmtp"
    by (rule * [of "''a=fmtp:''"]) (simp_all add: match_fmtp_def)
  show "eq_matcher match_crypto"
    by (rule * [of "''a=crypto:''"]) (simp_all add: match_crypto_def)
qed

lemma no_eq:
  "CHR ''='' \<notin> set (nat_str n)" "CHR ''='' \<notin> set crlf"
proof -
  show "CHR ''='' \<notin> set (nat_str n)"
    using nat_str_digits [of n] by (auto simp: list_all_iff is_digit_def code_def)
  show "CHR ''='' \<notin> set crlf" by (simp add: crlf_def cr_def lf_def)
qed

definition ip_text :: "string \<Rightarrow> bool" where
  "ip_text ip \<longleftrightarrow> ip \<noteq> [] \<and> list_all (\<lambda>c. is_digit c \<or> c = CHR ''.'') ip"

lemma ip_no_eq: "ip_text ip \<Longrightarrow> CHR ''='' \<notin> set ip"
  by (auto simp: ip_text_def list_all_iff is_digit_def code_def)

lemma cr_lf_class [simp]:
  "is_space cr" "is_space lf" "\<not> is_digit cr" "\<not> is_digit (CHR '' '')" "is_space (CHR '' '')"
  "cr \<noteq> CHR ''.''" "cr \<noteq> lf"
  by (simp_all add: is_space_def is_digit_def code_def cr_def lf_def)

lemma match_connection_line:
  assumes "ip_text ip"
  shows "match_connection (''c=IN IP4 '' @ ip @ crlf @ t) = Some ip"
proof -
  have ne: "ip \<noteq> []" using assms by (simp add: ip_text_def)
  then have "is_digit (hd ip) \<or> hd ip = CHR ''.''"
    using assms hd_in_set [OF ne] by (auto simp: ip_text_def list_all_iff)
  moreover have "\<not> is_space (CHR ''.'')" by (simp add: is_space_def code_def)
  ultimately have ns: "\<not> is_space (hd ip)" using is_digit_not_space by metis
  have "dropWhile is_space (ip @ crlf @ t) = ip @ crlf @ t" using ns ne by (cases ip) auto
  moreover have "takeWhile (\<lambda>c. is_digit c \<or> c = CHR ''.'') (ip @ crlf @ t) = ip"
    by (rule takeWhile_prefix) (use assms in \<open>auto simp: ip_text_def crlf_def\<close>)
  moreover have "\<not> is_space (CHR ''I'')" by (simp add: is_space_def code_def)
  ultimately show ?thesis using ne by (simp add: match_connection_def startswith_def Let_def)
qed

lemma match_media_line:
  assumes "proto \<noteq> []" and "list_all (\<lambda>c. \<not> is_space c) proto" and "is_digit d"
  shows "match_media (''m=audio '' @ nat_str p @ '' '' @ proto @ '' '' @ d # t) = Some (nat_str p)"
proof -
  obtain c r where n: "nat_str p = c # r" and c: "\<not> is_space c"
    using nat_str_digits [of p] by (cases "nat_str p") (auto dest: is_digit_not_space)
  have "takeWhile is_digit (nat_str p @ CHR '' '' # proto @ CHR '' '' # d # t) = nat_str p"
    "dropWhile is_digit (nat_str p @ CHR '' '' # proto @ CHR '' '' # d # t) = CHR '' '' # proto @ CHR '' '' # d # t"
    using span_append [OF nat_str_digits] by simp_all
  moreover have "takeWhile (\<lambda>c. \<not> is_space c) (proto @ CHR '' '' # d # t) = proto"
    "dropWhile (\<lambda>c. \<not> is_space c) (proto @ CHR '' '' # d # t) = CHR '' '' # d # t"
    using span_append [OF assms(2), of "CHR '' ''" "d # t"] by simp_all
  moreover have "takeWhile is_space (proto @ x) = []" "dropWhile is_space (proto @ x) = proto @ x" for x
    using assms(1,2) by (cases proto; simp)+
  moreover have "dropWhile is_space (nat_str p @ x) = nat_str p @ x" for x using n c by simp
  ultimately show ?thesis
    using assms is_digit_not_space [OF assms(3)]
    by (simp add: match_media_def startswith_def Let_def)
qed

lemma match_rtpmap_line:
  assumes "codec \<noteq> []" and "list_all (\<lambda>c. \<not> is_space c) codec"
  shows "match_rtpmap (''a=rtpmap:'' @ nat_str pt @ '' '' @ codec @ crlf @ t) = Some ((pt, codec), crlf @ t)"
proof -
  have "takeWhile is_digit (nat_str pt @ CHR '' '' # codec @ cr # lf # t) = nat_str pt"
    "dropWhile is_digit (nat_str pt @ CHR '' '' # codec @ cr # lf # t) = CHR '' '' # codec @ cr # lf # t"
    using span_append [OF nat_str_digits] by simp_all
  moreover have "takeWhile (\<lambda>c. \<not> is_space c) (codec @ cr # lf # t) = codec"
    "dropWhile (\<lambda>c. \<not> is_space c) (codec @ cr # lf # t) = cr # lf # t"
    using span_append [OF assms(2), of cr "lf # t"] by simp_all
  moreover have "dropWhile is_space (codec @ x) = codec @ x" for x
    using assms by (cases codec) simp_all
  ultimately show ?thesis
    using assms(1) by (simp add: match_rtpmap_def startswith_def Let_def crlf_def)
qed

lemma match_fmtp_line:
  assumes "params \<noteq> []" and "\<not> is_space (hd params)" and "lf \<notin> set params"
  shows "match_fmtp (''a=fmtp:'' @ nat_str pt @ '' '' @ params @ crlf @ t) =
    Some ((pt, params @ [cr]), lf # t)"
proof -
  have "takeWhile is_digit (nat_str pt @ CHR '' '' # params @ cr # lf # t) = nat_str pt"
    "dropWhile is_digit (nat_str pt @ CHR '' '' # params @ cr # lf # t) = CHR '' '' # params @ cr # lf # t"
    using span_append [OF nat_str_digits] by simp_all
  moreover have al: "\<forall>c \<in> set (params @ [cr]). c \<noteq> lf" using assms(3) by auto
  moreover have "takeWhile (\<lambda>c. c \<noteq> lf) (params @ cr # lf # t) = params @ [cr]"
    "dropWhile (\<lambda>c. c \<noteq> lf) (params @ cr # lf # t) = lf # t"
    using takeWhile_dropWhile_split [OF al, of lf t] by simp_all
  moreover have "dropWhile is_space (params @ x) = params @ x" for x
    using assms by (cases params) simp_all
  ultimately show ?thesis
    by (simp add: match_fmtp_def startswith_def Let_def crlf_def)
qed

section \<open>Reading the generated answers\<close>

lemma startswith_Cons [simp]:
  "startswith [] s" "\<not> startswith (a # p) []"
  "startswith (a # p) (b # s) \<longleftrightarrow> a = b \<and> startswith p s"
  by (auto simp: startswith_def)

lemma match_None:
  "\<not> startswith ''c=IN'' s \<Longrightarrow> match_connection s = None"
  "\<not> startswith ''m=audio'' s \<Longrightarrow> match_media s = None"
  "\<not> startswith ''a=rtpmap:'' s \<Longrightarrow> match_rtpmap s = None"
  "\<not> startswith ''a=fmtp:'' s \<Longrightarrow> match_fmtp s = None"
  "\<not> startswith ''a=crypto:'' s \<Longrightarrow> match_crypto s = None"
  by (simp_all add: match_connection_def match_media_def match_rtpmap_def match_fmtp_def match_crypto_def)

lemma skip_end:
  assumes "eq_matcher m"
  shows "search m crlf = None" and "eq_matcher n \<Longrightarrow> find_all n crlf = []"
proof -
  have "m [] = None" using assms unfolding eq_matcher_def by blast
  then show "search m crlf = None"
    using search_skip [OF assms no_eq(2), of "[]"] by simp
  show "eq_matcher n \<Longrightarrow> find_all n crlf = []"
    using find_all_skip [OF _ no_eq(2), of n "[]"] by simp
qed

lemmas skip_rules =
  eq_matchers [THEN search_skip] eq_matchers(3,4) [THEN find_all_skip] no_eq
  eq_matchers [THEN skip_end(1)] eq_matchers(3,4) [THEN skip_end(2) [OF eq_matchers(1)]]

lemma crlf_append_not_Nil [simp]: "crlf @ s \<noteq> []" "hd (crlf @ s) = cr" "cr \<noteq> CHR ''=''"
  by (simp_all add: crlf_def cr_def)

lemma ip_append_hd:
  assumes "ip_text ip"
  shows "hd (ip @ s) \<noteq> CHR ''=''"
  using assms ip_no_eq [OF assms] by (cases ip) (auto simp: ip_text_def)

lemma media_ip_of_answer: "ip_text ip \<Longrightarrow> media_ip_of (build_sdp_answer ip port) = ip"
  using match_connection_line [of ip]
  by (simp add: media_ip_of_def build_sdp_answer_def match_None skip_rules ip_no_eq ip_append_hd)

lemma media_port_of_answer: "ip_text ip \<Longrightarrow> media_port_of (build_sdp_answer ip port) = port"
  using match_media_line [of "''RTP/AVP''" "CHR ''0''" port]
  by (simp add: media_port_of_def build_sdp_answer_def match_None skip_rules ip_no_eq ip_append_hd
      is_space_def is_digit_def code_def)

lemma nat_str_small: "nat_str 0 = ''0''" "nat_str 126 = ''126''" "nat_str 1 = ''1''"
  by code_simp+

lemma rtpmap_of_answer:
  "ip_text ip \<Longrightarrow> find_all match_rtpmap (build_sdp_answer ip port) = [(0, ''PCMU/8000'')]"
  using match_rtpmap_line [of "''PCMU/8000''" 0, unfolded nat_str_small]
  by (simp add: build_sdp_answer_def match_None skip_rules ip_no_eq ip_append_hd is_space_def code_def)

lemma b64encode_no_eq:
  assumes "length key = 30"
  shows "CHR ''='' \<notin> set (b64encode key)"
proof -
  have "length (b64_group bs) mod 4 = 0" if "length bs mod 3 = 0" for bs
    using that
  proof (induction bs rule: b64_group.induct)
    case (4 a b c bs)
    then have "length bs mod 3 = 0" by simp
    with 4 show ?case by simp
  qed simp_all
  then have "b64_pad (length (b64_group key)) = []" using assms by (simp add: b64_pad_def)
  moreover have "CHR ''='' \<notin> set (b64_group bs)" for bs
    by (induction bs rule: b64_group.induct) (simp_all add: six_bits b64_char_urlsafe(1) [THEN not_sym])
  ultimately show ?thesis by (simp add: b64encode_def Let_def)
qed

lemma crypto_line_text:
  assumes "length key = 30"
  shows "format_crypto_line 1 key ''AES_CM_128_HMAC_SHA1_80'' =
    ''a=crypto:1 AES_CM_128_HMAC_SHA1_80 inline:'' @ b64encode key"
  using nat_str_small(3) by (simp add: format_crypto_line_def)

lemma wa_answer_media:
  assumes "ip_text ip" and "length key = 30"
  shows "media_ip_of (generate_sdp_answer key ip port (Some pt)) = ip"
    and "media_port_of (generate_sdp_answer key ip port (Some pt)) = port"
proof -
  note rules = match_None skip_rules ip_no_eq [OF assms(1)] ip_append_hd [OF assms(1)]
  show "media_ip_of (generate_sdp_answer key ip port (Some pt)) = ip"
    using match_connection_line [OF assms(1)]
    by (simp add: media_ip_of_def generate_sdp_answer_def rules)
  obtain d r where n: "nat_str pt = d # r" and d: "is_digit d"
    using nat_str_digits [of pt] by (cases "nat_str pt") auto
  show "media_port_of (generate_sdp_answer key ip port (Some pt)) = port"
    using match_media_line [of "''RTP/SAVP''" d port, OF _ _ d]
    by (simp add: media_port_of_def generate_sdp_answer_def rules n is_space_def code_def)
qed

lemma wa_answer_codecs:
  assumes "ip_text ip" and "length key = 30"
  shows "find_all match_rtpmap (generate_sdp_answer key ip port (Some pt)) =
      [(pt, ''opus/48000/2''), (126, ''telephone-event/8000'')]"
    and "find_all match_fmtp (generate_sdp_answer key ip port (Some pt)) =
      [(pt, ''maxplaybackrate=16000;useinbandfec=1'' @ [cr])]"
    and "search match_crypto (generate_sdp_answer key ip port (Some pt)) =
      Some (''1'', ''AES_CM_128_HMAC_SHA1_80'', b64encode key)"
proof -
  note rules = match_None skip_rules ip_no_eq [OF assms(1)] ip_append_hd [OF assms(1)]
  note key = crypto_line_text [OF assms(2)] b64encode_no_eq [OF assms(2)]
  have hd_n: "hd (nat_str n @ s) \<noteq> CHR ''=''" for n s
    using no_eq(1) [of n] by (cases "nat_str n") auto
  have hd_k: "b64encode key @ s = [] \<or> hd (b64encode key @ s) \<noteq> CHR ''=''" if "s \<noteq> []" "hd s \<noteq> CHR ''=''" for s
    using key(2) that by (cases "b64encode key") auto
  show "find_all match_rtpmap (generate_sdp_answer key ip port (Some pt)) =
      [(pt, ''opus/48000/2''), (126, ''telephone-event/8000'')]"
    using match_rtpmap_line [of "''opus/48000/2''" pt]
      match_rtpmap_line [of "''telephone-event/8000''" 126, unfolded nat_str_small]
    by (simp add: generate_sdp_answer_def rules key hd_n hd_k is_space_def code_def
        del: One_nat_def)
  have params: "lf \<notin> set ''maxplaybackrate=16000;useinbandfec=1''" by (simp add: lf_def)
  have lf_a: "CHR ''a'' \<noteq> lf" by (simp add: lf_def)
  show "find_all match_fmtp (generate_sdp_answer key ip port (Some pt)) =
      [(pt, ''maxplaybackrate=16000;useinbandfec=1'' @ [cr])]"
    using match_fmtp_line [of "''maxplaybackrate=16000;useinbandfec=1''" pt, OF _ _ params]
    by (simp add: generate_sdp_answer_def rules key hd_n hd_k lf_a is_space_def code_def
        del: One_nat_def)
  have key_ne: "key \<noteq> []" using assms(2) by auto
  have "match_crypto (format_crypto_line 1 key ''AES_CM_128_HMAC_SHA1_80'' @ crlf @ t) =
      Some (''1'', ''AES_CM_128_HMAC_SHA1_80'', b64encode key)" for t
    using match_crypto_format [of "crlf @ t" "''AES_CM_128_HMAC_SHA1_80''" key 1] key_ne
      supported_suite_word [of "''AES_CM_128_HMAC_SHA1_80''"]
    by (auto simp: SUPPORTED_SUITES_def nat_str_small [simplified] is_b64_char_def b64_value_def
        cr_def code_def crlf_def)
  then show "search match_crypto (generate_sdp_answer key ip port (Some pt)) =
      Some (''1'', ''AES_CM_128_HMAC_SHA1_80'', b64encode key)"
    by (simp add: generate_sdp_answer_def rules key(1) hd_n is_space_def code_def
        del: One_nat_def)
qed

lemma supported_default [simp]: "''AES_CM_128_HMAC_SHA1_80'' \<in> set SUPPORTED_SUITES"
  by (simp add: SUPPORTED_SUITES_def)

lemma wa_answer_crypto:
  assumes "ip_text ip" and "length key = 30"
  shows "parse_sdes_crypto (generate_sdp_answer key ip port (Some pt)) =
      Inr (Some \<lparr>sdes_tag = 1, sdes_suite = ''AES_CM_128_HMAC_SHA1_80'', sdes_key = key\<rparr>)"
proof -
  have "digits_value ''1'' = 1" by code_simp
  then show ?thesis
    unfolding parse_sdes_crypto_def wa_answer_codecs [OF assms]
    using assms(2) by (simp add: b64decode_encode expected_key_length_def)
qed

text \<open>
  The G.711 answer is read back by the bridge's own parser as exactly the address and
  port it was generated for, payload type 0 and no DTMF payload.
\<close>

theorem g711_answer_roundtrip:
  assumes "ip_text ip"
  shows "parse_sdp_g711 (build_sdp_answer ip port) =
    \<lparr>g711_media_ip = ip, g711_media_port = port, pcmu_payload_type = 0, g711_dtmf = None\<rparr>"
proof -
  have "\<not> startswith ''telephone-event/'' (lower ''PCMU/8000'')" by code_simp
  then show ?thesis
    using media_ip_of_answer [OF assms] media_port_of_answer [OF assms] rtpmap_of_answer [OF assms]
    by (simp only: parse_sdp_g711_def fold_simps prod.case if_False id_apply)
qed

lemma ip_text_sample: "ip_text ''10.0.0.7''"
  by code_simp

theorem g711_answer_roundtrip_witness:
  "parse_sdp_g711 (build_sdp_answer ''10.0.0.7'' 4000) =
    \<lparr>g711_media_ip = ''10.0.0.7'', g711_media_port = 4000, pcmu_payload_type = 0, g711_dtmf = None\<rparr>"
  by (rule g711_answer_roundtrip [OF ip_text_sample])

text \<open>
  C39 The Opus answer is read back as exactly what was negotiated: address, port and
  payload type, the 16 kHz encoding rate of its \<open>fmtp\<close> line, DTMF payload 126, and a
  crypto line that yields the generated SRTP key and suite; the address is a dotted IPv4
  text and the key has the 30 bytes the generator makes.
\<close>

theorem wa_answer_roundtrip:
  assumes "ip_text ip" and "length key = 30"
  shows "parse_remote_sdp (generate_sdp_answer key ip port (Some pt)) =
      \<lparr>media_ip = ip, media_port = port, opus_payload_type = Some pt, encode_rate = 16000,
       dtmf_payload_type = Some 126\<rparr> \<and>
    parse_sdes_crypto (generate_sdp_answer key ip port (Some pt)) =
      Inr (Some \<lparr>sdes_tag = 1, sdes_suite = ''AES_CM_128_HMAC_SHA1_80'', sdes_key = key\<rparr>)"
proof
  have steps: "fold rtpmap_step [(pt, ''opus/48000/2''), (126, ''telephone-event/8000'')] (None, None) =
      (Some pt, Some 126)"
    by (simp add: rtpmap_step_def lower_def lower_char_def code_def)
  have "search match_rate (''maxplaybackrate=16000;useinbandfec=1'' @ [cr]) = Some 16000"
    by code_simp
  then have rate: "fold (fmtp_step pt) [(pt, ''maxplaybackrate=16000;useinbandfec=1'' @ [cr])] 16000 = 16000"
    by (simp add: fmtp_step_def)
  show "parse_remote_sdp (generate_sdp_answer key ip port (Some pt)) =
      \<lparr>media_ip = ip, media_port = port, opus_payload_type = Some pt, encode_rate = 16000,
       dtmf_payload_type = Some 126\<rparr>"
    unfolding parse_remote_sdp_def wa_answer_codecs [OF assms] wa_answer_media [OF assms] steps
    using rate by simp
  show "parse_sdes_crypto (generate_sdp_answer key ip port (Some pt)) =
      Inr (Some \<lparr>sdes_tag = 1, sdes_suite = ''AES_CM_128_HMAC_SHA1_80'', sdes_key = key\<rparr>)"
    using assms by (rule wa_answer_crypto)
qed

theorem wa_answer_roundtrip_witness:
  "media_port (parse_remote_sdp (generate_sdp_answer (replicate 30 7) ''10.0.0.7'' 4000 (Some 111))) = 4000"
  using wa_answer_roundtrip [OF ip_text_sample, of "replicate 30 7" 4000 111] by simp

end
