(* ===== verification/Sip_Register.thy ===== *)
theory Sip_Register
  imports Sip_Auth Bridge_Config
begin

text \<open>
  The text messages of the Africa's Talking line: \<open>parse_sip_request\<close> and
  \<open>build_sip_response\<close> of \<open>sip_bridge/sip_dialog.py\<close>, and the registrar client of
  \<open>sip_bridge/sip_register.py\<close>.  Random branches and tags, the name resolver and the hash
  functions are arguments; \<open>registrar\<close> is the mutable state of \<open>SIPRegistrar\<close>, and each
  method returns the new state with the datagrams it sent.
\<close>

section \<open>Requests and responses as text\<close>

definition add_header_line :: "string \<Rightarrow> (string, string) dict \<Rightarrow> (string, string) dict" where
  "add_header_line line hs =
     (if CHR '':'' \<in> set line
      then dset (strip (before (CHR '':'') line)) (strip (after (CHR '':'') line)) hs else hs)"

record sip_request =
  req_method :: string
  req_headers :: "(string, string) dict"
  req_body :: string

definition parse_sip_request :: "string \<Rightarrow> sip_request" where
  "parse_sip_request message =
     (case split_blank_line message of (header_block, rest) \<Rightarrow>
        (let lines = split_crlf header_block; request_line = hd lines in
         \<lparr>req_method = (if request_line = [] then [] else before (CHR '' '') request_line),
          req_headers = fold add_header_line (tl lines) [],
          req_body = (case rest of None \<Rightarrow> [] | Some b \<Rightarrow> b)\<rparr>))"

definition build_sip_response ::
  "string \<Rightarrow> nat \<Rightarrow> string \<Rightarrow> (string, string) dict \<Rightarrow> string option \<Rightarrow> string \<Rightarrow> string" where
  "build_sip_response new_tag status reason invite_headers sdp_body contact_uri =
     (let h = (\<lambda>k. dget_default invite_headers k []);
          to_header = h ''To'';
          to_header = (if contains '';tag='' to_header then to_header
            else to_header @ '';tag='' @ new_tag);
          lines = [''SIP/2.0 '' @ nat_str status @ '' '' @ reason,
            ''Via: '' @ h ''Via'', ''From: '' @ h ''From'', ''To: '' @ to_header,
            ''Call-ID: '' @ h ''Call-ID'', ''CSeq: '' @ h ''CSeq'', ''Contact: '' @ contact_uri]
      in join crlf (lines @
           (case sdp_body of
              Some (c # r) \<Rightarrow> [''Content-Type: application/sdp'',
                ''Content-Length: '' @ nat_str (length (c # r)), [], c # r]
            | _ \<Rightarrow> [''Content-Length: 0'', [], []])))"

record sip_response =
  resp_status :: int
  resp_reason :: string
  resp_headers :: "(string, string) dict"

text \<open>\<open>Inl\<close> is the \<open>ValueError\<close> of a status that is not a number.\<close>

definition parse_status_line :: "string \<Rightarrow> string + int \<times> string" where
  "parse_status_line line =
     (if CHR '' '' \<notin> set line then Inr (0, [])
      else let r = after (CHR '' '') line; w = before (CHR '' '') r in
        case py_int w of None \<Rightarrow> Inl w
        | Some i \<Rightarrow> Inr (i, after (CHR '' '') r))"

definition parse_sip_response :: "string \<Rightarrow> string + sip_response" where
  "parse_sip_response message =
     (let lines = split_crlf message in
      case parse_status_line (hd lines) of
        Inl e \<Rightarrow> Inl e
      | Inr (status, reason) \<Rightarrow>
          Inr \<lparr>resp_status = status, resp_reason = reason,
               resp_headers = fold add_header_line (takeWhile (\<lambda>l. l \<noteq> []) (tl lines)) []\<rparr>)"

section \<open>The REGISTER message\<close>

definition user_part :: "string \<Rightarrow> string" where
  "user_part username = (if CHR ''@'' \<in> set username then before (CHR ''@'') username else username)"

definition build_register_message ::
  "string \<Rightarrow> string \<Rightarrow> string \<Rightarrow> string \<Rightarrow> string \<Rightarrow> int \<Rightarrow> string \<Rightarrow> int \<Rightarrow> int \<Rightarrow> string option \<Rightarrow> string" where
  "build_register_message branch tag registrar username public_ip port call_id cseq expires auth_header =
     join crlf
       ([''REGISTER sip:'' @ registrar @ '' SIP/2.0'',
         ''Via: SIP/2.0/UDP '' @ public_ip @ '':'' @ int_str port @ '';branch=z9hG4bK'' @ branch,
         ''Max-Forwards: 70'',
         ''From: <sip:'' @ username @ ''>;tag='' @ tag,
         ''To: <sip:'' @ username @ ''>'',
         ''Call-ID: '' @ call_id,
         ''CSeq: '' @ int_str cseq @ '' REGISTER'',
         ''Contact: <sip:'' @ user_part username @ ''@'' @ public_ip @ '':'' @ int_str port @ ''>'',
         ''Expires: '' @ int_str expires,
         ''User-Agent: Ekaette-SIP-Bridge/1.0'',
         ''Allow: INVITE, ACK, BYE, CANCEL, OPTIONS''] @
        (case auth_header of None \<Rightarrow> [] | Some a \<Rightarrow> if a = [] then [] else [a]) @
        [''Content-Length: 0'', [], []])"

section \<open>The registrar client\<close>

record registrar =
  registered :: bool
  transport :: bool
  reg_call_id :: string
  cseq :: int
  registrar_addr :: "(string \<times> nat) option"

type_synonym datagram = "string \<times> (string \<times> nat)"

text \<open>The random branch and tag of the next message, and the resolver (\<open>None\<close>: \<open>gaierror\<close>).\<close>

record reg_env =
  rnd_branch :: string
  rnd_tag :: string
  rnd_cnonce :: string
  gethostbyname :: "string \<Rightarrow> string option"

definition should_register :: "bridge_config \<Rightarrow> bool" where
  "should_register c \<longleftrightarrow> sip_username c \<noteq> [] \<and> sip_password c \<noteq> []"

definition resolve_registrar ::
  "bridge_config \<Rightarrow> reg_env \<Rightarrow> registrar \<Rightarrow> registrar \<times> (string \<times> nat) option" where
  "resolve_registrar c e r =
     (case registrar_addr r of
        Some a \<Rightarrow> (r, Some a)
      | None \<Rightarrow>
          (case gethostbyname e (sip_registrar c) of
             None \<Rightarrow> (r, None)
           | Some ip \<Rightarrow> (r\<lparr>registrar_addr := Some (ip, 5060)\<rparr>, Some (ip, 5060))))"

definition register_with ::
  "bridge_config \<Rightarrow> reg_env \<Rightarrow> int \<Rightarrow> string option \<Rightarrow> registrar \<Rightarrow> registrar \<times> datagram list" where
  "register_with c e expires auth_header r =
     (if \<not> transport r then (r, [])
      else case resolve_registrar c e r of
        (r, None) \<Rightarrow> (r, [])
      | (r, Some addr) \<Rightarrow>
          (let msg = build_register_message (rnd_branch e) (rnd_tag e) (sip_registrar c)
                 (sip_username c) (sip_public_ip c) (sip_port c) (reg_call_id r) (cseq r) expires auth_header
           in (r\<lparr>cseq := cseq r + 1\<rparr>, [(msg, addr)])))"

definition send_register ::
  "bridge_config \<Rightarrow> reg_env \<Rightarrow> string option \<Rightarrow> registrar \<Rightarrow> registrar \<times> datagram list" where
  "send_register c e auth_header r = register_with c e (sip_register_interval c) auth_header r"

definition send_unregister ::
  "bridge_config \<Rightarrow> reg_env \<Rightarrow> registrar \<Rightarrow> registrar \<times> datagram list" where
  "send_unregister c e r = register_with c e 0 None r"

text \<open>
  What escapes \<open>handle_response\<close>: a status that is not a number, or a digest that cannot
  be computed (an unknown algorithm).
\<close>

datatype reg_error = BadStatus string | DigestError digest_error

definition respond_to_challenge ::
  "(string \<Rightarrow> string) \<Rightarrow> (string \<Rightarrow> string) \<Rightarrow> bridge_config \<Rightarrow> reg_env \<Rightarrow> nat \<Rightarrow> string \<Rightarrow> registrar
   \<Rightarrow> reg_error option \<times> registrar \<times> datagram list" where
  "respond_to_challenge md5 sha256 c e status_code challenge_value r =
     (case parse_challenge challenge_value of
        Inl _ \<Rightarrow> (None, r, [])
      | Inr params \<Rightarrow>
          (case build_auth_header md5 sha256 (rnd_cnonce e) status_code (user_part (sip_username c))
                  (dget_default params ''realm'' []) (sip_password c) (dget_default params ''nonce'' [])
                  ''REGISTER'' (''sip:'' @ sip_registrar c) (dget_default params ''algorithm'' ''MD5'')
                  (dget params ''qop'') (dget params ''opaque'') of
             Inl de \<Rightarrow> (Some (DigestError de), r, [])
           | Inr auth_header \<Rightarrow> (None, send_register c e (Some auth_header) r)))"

definition handle_response ::
  "(string \<Rightarrow> string) \<Rightarrow> (string \<Rightarrow> string) \<Rightarrow> bridge_config \<Rightarrow> reg_env \<Rightarrow> string \<Rightarrow> registrar
   \<Rightarrow> reg_error option \<times> registrar \<times> datagram list" where
  "handle_response md5 sha256 c e message r =
     (case parse_sip_response message of
        Inl w \<Rightarrow> (Some (BadStatus w), r, [])
      | Inr p \<Rightarrow>
          if resp_status p = 200 then (None, r\<lparr>registered := True\<rparr>, [])
          else if resp_status p = 401 then
            (let ch = dget_default (resp_headers p) ''WWW-Authenticate'' [] in
             if ch = [] then (None, r, []) else respond_to_challenge md5 sha256 c e 401 ch r)
          else if resp_status p = 407 then
            (let ch = dget_default (resp_headers p) ''Proxy-Authenticate'' [] in
             if ch = [] then (None, r, []) else respond_to_challenge md5 sha256 c e 407 ch r)
          else (None, r, []))"

section \<open>Runs of the registrar\<close>

datatype reg_event = SendRegister reg_env | Response reg_env string | Unregister reg_env

definition reg_step ::
  "(string \<Rightarrow> string) \<Rightarrow> (string \<Rightarrow> string) \<Rightarrow> bridge_config \<Rightarrow> reg_event \<Rightarrow> registrar
   \<Rightarrow> registrar \<times> datagram list" where
  "reg_step md5 sha256 c ev r =
     (case ev of
        SendRegister e \<Rightarrow> send_register c e None r
      | Unregister e \<Rightarrow> send_unregister c e r
      | Response e m \<Rightarrow> (case handle_response md5 sha256 c e m r of (_, r, out) \<Rightarrow> (r, out)))"

fun reg_run ::
  "(string \<Rightarrow> string) \<Rightarrow> (string \<Rightarrow> string) \<Rightarrow> bridge_config \<Rightarrow> reg_event list \<Rightarrow> registrar
   \<Rightarrow> registrar \<times> datagram list" where
  "reg_run md5 sha256 c [] r = (r, [])"
| "reg_run md5 sha256 c (ev # evs) r =
     (case reg_step md5 sha256 c ev r of (r, out) \<Rightarrow>
        (case reg_run md5 sha256 c evs r of (r, out') \<Rightarrow> (r, out @ out')))"

definition register_datagram :: "bridge_config \<Rightarrow> string \<Rightarrow> int \<Rightarrow> datagram \<Rightarrow> bool" where
  "register_datagram c call_id k d \<longleftrightarrow> (\<exists>branch tag expires auth. fst d =
     build_register_message branch tag (sip_registrar c) (sip_username c) (sip_public_ip c) (sip_port c)
       call_id k expires auth)"

definition ok_event :: "reg_event \<Rightarrow> bool" where
  "ok_event ev \<longleftrightarrow> (case ev of Response e m \<Rightarrow>
     (case parse_sip_response m of Inr p \<Rightarrow> resp_status p = 200 | Inl _ \<Rightarrow> False) | _ \<Rightarrow> False)"

text \<open>What one step does: at most one message, numbered with the current CSeq.\<close>

definition reg_step_ok :: "bridge_config \<Rightarrow> registrar \<Rightarrow> registrar \<times> datagram list \<Rightarrow> bool" where
  "reg_step_ok c r res \<longleftrightarrow> (case res of (r', out) \<Rightarrow>
     reg_call_id r' = reg_call_id r \<and> cseq r' = cseq r + int (length out) \<and>
     (out = [] \<or> (\<exists>d. out = [d] \<and> register_datagram c (reg_call_id r) (cseq r) d)))"

lemma register_with_ok:
  "reg_step_ok c r (register_with c e x a r)"
  "registered (fst (register_with c e x a r)) = registered r"
  by (auto simp: reg_step_ok_def register_with_def resolve_registrar_def Let_def register_datagram_def
      split: option.splits)

lemma reg_step_ok_silent [simp]:
  "reg_step_ok c r (r, [])" "reg_step_ok c r (r\<lparr>registered := b\<rparr>, [])"
  by (simp_all add: reg_step_ok_def)

lemma respond_ok:
  assumes "respond_to_challenge md5 sha256 c e st ch r = (err, res)"
  shows "reg_step_ok c r res \<and> registered (fst res) = registered r"
  using assms register_with_ok [where c = c and r = r and e = e]
  by (auto simp: respond_to_challenge_def send_register_def simp del: split_paired_Ex split: sum.splits)

lemma reg_step_props:
  "reg_step_ok c r (reg_step md5 sha256 c ev r) \<and>
   registered (fst (reg_step md5 sha256 c ev r)) = (registered r \<or> ok_event ev)"
proof (cases ev)
  case (Response e m)
  obtain err res where h: "handle_response md5 sha256 c e m r = (err, res)"
    by (cases "handle_response md5 sha256 c e m r") blast
  have "reg_step_ok c r res \<and> registered (fst res) = (registered r \<or> ok_event ev)"
    using h respond_ok [of md5 sha256 c e]
    by (auto simp: Response ok_event_def handle_response_def Let_def split: sum.splits if_splits)
  then show ?thesis by (simp add: reg_step_def Response h split: prod.split)
qed (simp_all add: reg_step_def ok_event_def send_register_def send_unregister_def register_with_ok)

text \<open>
  C29 In every run of the registrar client - requests, answers, anything the peer sends -
  the CSeq numbers of the datagrams are consecutive, starting from the first unused one,
  all in the same Call-ID, and the client counts itself registered exactly when it was
  registered before or a response with status 200 arrived.  (The last part also covers the
  200 that answers an unregistration.)
\<close>

theorem registrar_run:
  assumes "reg_run md5 sha256 c evs r = (r', out)"
  shows "(\<forall>i < length out. register_datagram c (reg_call_id r) (cseq r + int i) (out ! i)) \<and>
    cseq r' = cseq r + int (length out) \<and> reg_call_id r' = reg_call_id r \<and>
    registered r' = (registered r \<or> (\<exists>ev \<in> set evs. ok_event ev))"
  using assms
proof (induction evs arbitrary: r out)
  case Nil
  then show ?case by simp
next
  case (Cons ev evs)
  obtain r1 o1 where s: "reg_step md5 sha256 c ev r = (r1, o1)" by force
  obtain o2 where run: "reg_run md5 sha256 c evs r1 = (r', o2)" and out: "out = o1 @ o2"
    using Cons.prems by (auto simp: s split: prod.splits)
  note st = reg_step_props [of c r md5 sha256 ev, unfolded s, simplified]
  from Cons.IH [OF run] st show ?case
    by (auto simp: out nth_append reg_step_ok_def less_Suc_eq_0_disj add.assoc)
qed

definition sample_reg_config :: bridge_config where
  "sample_reg_config = (case bridge_from_env [(''SIP_USERNAME'', ''bob@h''), (''SIP_PASSWORD'', ''pw''),
       (''SIP_BRIDGE_PORT'', ''7''), (''SIP_HEALTH_PORT'', ''8''), (''SIP_REGISTER_INTERVAL'', ''9'')] of
     Inr c \<Rightarrow> c | Inl _ \<Rightarrow> undefined)"

definition sample_reg_env :: reg_env where
  "sample_reg_env = \<lparr>rnd_branch = ''b'', rnd_tag = ''t'', rnd_cnonce = ''c0'', gethostbyname = (\<lambda>_. Some ''1.2.3.4'')\<rparr>"

definition sample_registrar :: registrar where
  "sample_registrar = \<lparr>registered = False, transport = True, reg_call_id = ''x'', cseq = 1, registrar_addr = Some (''1.2.3.4'', 9)\<rparr>"

theorem registrar_run_witness:
  "\<exists>r' out. reg_run (\<lambda>_. ''d1'') (\<lambda>_. ''d1'') sample_reg_config
      [SendRegister sample_reg_env, Response sample_reg_env (join crlf [''SIP/2.0 401 U'',
         ''WWW-Authenticate: Digest realm=a, nonce=b'', [], []]),
       Response sample_reg_env ''SIP/2.0 200 OK''] sample_registrar = (r', out) \<and>
    length out = 2 \<and> cseq r' = 3 \<and> registered r'"
proof -
  let ?run = "reg_run (\<lambda>_. ''d1'') (\<lambda>_. ''d1'') sample_reg_config
      [SendRegister sample_reg_env, Response sample_reg_env (join crlf [''SIP/2.0 401 U'',
         ''WWW-Authenticate: Digest realm=a, nonce=b'', [], []]),
       Response sample_reg_env ''SIP/2.0 200 OK''] sample_registrar"
  obtain r' out where run: "?run = (r', out)" by (cases ?run)
  have "length (snd ?run) = 2" by code_simp
  moreover have "cseq sample_registrar = 1" and "ok_event (Response sample_reg_env ''SIP/2.0 200 OK'')"
    by code_simp+
  ultimately show ?thesis using registrar_run [OF run] run by auto
qed

section \<open>Answering a challenge\<close>

text \<open>
  A 401 or 407 answer with a Digest challenge that can be parsed makes a client that
  has a transport and an address send exactly one more REGISTER, and the authorization
  header in it is accepted for the configured user and password.
\<close>

theorem challenge_answered:
  assumes resp: "parse_sip_response m = Inr p"
    and st: "resp_status p = 401 \<and> hname = ''WWW-Authenticate'' \<or>
      resp_status p = 407 \<and> hname = ''Proxy-Authenticate''"
    and ch: "dget (resp_headers p) hname = Some ch" and parsed: "parse_challenge ch = Inr params"
    and look: "dget params ''realm'' = Some realm" "dget params ''nonce'' = Some nonce"
      "dget params ''algorithm'' = Some algorithm"
    and texts: "header_text realm" "header_text nonce" "header_text (user_part (sip_username c))"
      "is_ascii (user_part (sip_username c))" "dquote \<notin> set (sip_registrar c)" "header_text (rnd_cnonce e)"
      "case dget params ''opaque'' of None \<Rightarrow> True | Some q \<Rightarrow> dquote \<notin> set q"
    and alg: "supported_algorithm algorithm" and hashes: "hex_digest md5" "hex_digest sha256"
    and qop: "select_qop (dget params ''qop'') \<in> {Some ''auth'', Some ''auth-int''} \<or>
      select_qop (dget params ''qop'') = None \<and> \<not> endswith ''-SESS'' (upper algorithm)"
    and net: "transport r" "registrar_addr r = Some addr"
  shows "\<exists>header. handle_response md5 sha256 c e m r =
      (None, r\<lparr>cseq := cseq r + 1\<rparr>,
       [(build_register_message (rnd_branch e) (rnd_tag e) (sip_registrar c) (sip_username c)
           (sip_public_ip c) (sip_port c) (reg_call_id r) (cseq r) (sip_register_interval c) (Some header),
         addr)]) \<and>
     verify_digest md5 sha256 header (user_part (sip_username c)) (sip_password c) ''REGISTER'' = Some True"
proof -
  let ?uri = "''sip:'' @ sip_registrar c" and ?user = "user_part (sip_username c)"
  define st where "st = (if resp_status p = 401 then 401 else 407 :: nat)"
  have uri: "header_text ?uri"
    using texts(5) by (simp add: header_text_def dquote_def)
  have h: "\<exists>h. compute_digest_response md5 sha256 ?user realm (sip_password c) nonce ''REGISTER'' ?uri algorithm
      sq (Some nc) (Some cn) = Inr h" for sq nc cn
    using alg by (auto simp: compute_digest_response_def digest_hash_def supported_algorithm_def
        endswith_def split: option.splits)
  have "\<exists>h. compute_digest_response md5 sha256 ?user realm (sip_password c) nonce ''REGISTER'' ?uri algorithm
      None None None = Inr h" if "\<not> endswith ''-SESS'' (upper algorithm)"
    using alg that by (auto simp: compute_digest_response_def digest_hash_def supported_algorithm_def
        select_qop_def)
  note none = this
  have "\<exists>header. build_auth_header md5 sha256 (rnd_cnonce e) st ?user realm (sip_password c)
      nonce ''REGISTER'' ?uri algorithm (dget params ''qop'') (dget params ''opaque'') = Inr header"
  proof (cases "select_qop (dget params ''qop'')")
    case None
    with qop none obtain h where "compute_digest_response md5 sha256 ?user realm (sip_password c) nonce
        ''REGISTER'' ?uri algorithm None None None = Inr h" by auto
    with None qop show ?thesis by (simp add: build_auth_header_def Let_def)
  next
    case (Some sq)
    obtain h where "compute_digest_response md5 sha256 ?user realm (sip_password c) nonce ''REGISTER''
        ?uri algorithm (Some sq) (Some ''00000001'') (Some (rnd_cnonce e)) = Inr h"
      using h by blast
    moreover have "sq \<noteq> []" using qop Some by auto
    ultimately show ?thesis using Some by (simp add: build_auth_header_def Let_def)
  qed
  then obtain header where built: "build_auth_header md5 sha256 (rnd_cnonce e) st ?user realm (sip_password c)
      nonce ''REGISTER'' ?uri algorithm (dget params ''qop'') (dget params ''opaque'') = Inr header" ..
  have "verify_digest md5 sha256 header ?user (sip_password c) ''REGISTER'' = Some True"
    by (rule auth_header_verifies [OF hashes texts(3,4) texts(1,2) uri texts(6,7) qop built])
  moreover have "ch \<noteq> []"
    using parsed by (auto simp: parse_challenge_def skip_header_name_def Let_def startswith_def lower_def)
  ultimately show ?thesis
    using st_def st resp ch parsed look built net
    by (auto simp: handle_response_def respond_to_challenge_def send_register_def register_with_def
        resolve_registrar_def dget_default_def Let_def)
qed

lemma sample_challenge:
  "case parse_sip_response (join crlf [''SIP/2.0 401 U'', ''WWW-Authenticate: Digest realm=a, nonce=b'', [], []])
     of Inr p \<Rightarrow> resp_status p = 401 \<and>
          dget (resp_headers p) ''WWW-Authenticate'' = Some ''Digest realm=a, nonce=b''
      | Inl _ \<Rightarrow> False"
  "parse_challenge ''Digest realm=a, nonce=b'' = Inr [(''realm'', ''a''), (''nonce'', ''b''), (''algorithm'', ''MD5'')]"
  by code_simp+

theorem challenge_answered_witness:
  "\<exists>header. handle_response (\<lambda>_. ''d1'') (\<lambda>_. ''d1'') sample_reg_config sample_reg_env
      (join crlf [''SIP/2.0 401 U'', ''WWW-Authenticate: Digest realm=a, nonce=b'', [], []]) sample_registrar =
      (None, sample_registrar\<lparr>cseq := cseq sample_registrar + 1\<rparr>,
       [(build_register_message (rnd_branch sample_reg_env) (rnd_tag sample_reg_env)
           (sip_registrar sample_reg_config) (sip_username sample_reg_config) (sip_public_ip sample_reg_config)
           (sip_port sample_reg_config) (reg_call_id sample_registrar) (cseq sample_registrar)
           (sip_register_interval sample_reg_config) (Some header), (''1.2.3.4'', 9))])"
proof -
  obtain p where p: "parse_sip_response (join crlf [''SIP/2.0 401 U'',
        ''WWW-Authenticate: Digest realm=a, nonce=b'', [], []]) = Inr p" "resp_status p = 401"
    "dget (resp_headers p) ''WWW-Authenticate'' = Some ''Digest realm=a, nonce=b''"
    using sample_challenge(1) by (auto split: sum.splits)
  have cfg: "user_part (sip_username sample_reg_config) = ''bob''"
    "sip_registrar sample_reg_config = ''ng.sip.africastalking.com''"
    by code_simp+
  have t: "header_text ''a''" "header_text ''b''" "header_text ''bob''" "is_ascii ''bob''"
    "dquote \<notin> set ''ng.sip.africastalking.com''" "header_text (rnd_cnonce sample_reg_env)"
    "supported_algorithm ''MD5''" "\<not> endswith ''-SESS'' (upper ''MD5'')"
    "hex_digest (\<lambda>_. ''d1'')"
    by (simp_all add: header_text_def dquote_def sample_reg_env_def)
  have net: "transport sample_registrar" "registrar_addr sample_registrar = Some (''1.2.3.4'', 9)"
    by (simp_all add: sample_registrar_def)
  from challenge_answered [OF p(1) _ p(3) sample_challenge(2), of "''a''" "''b''" "''MD5''" sample_reg_config
      sample_reg_env "\<lambda>_. ''d1''" "\<lambda>_. ''d1''" sample_registrar "(''1.2.3.4'', 9)"]
  show ?thesis using p(2) t net by (simp add: cfg select_qop_def) blast
qed

section \<open>The answer to an INVITE\<close>

definition line_value :: "string \<Rightarrow> bool" where
  "line_value s \<longleftrightarrow> cr \<notin> set s"

lemma add_header_line_value:
  assumes "CHR '':'' \<notin> set k" and "strip k = k"
  shows "add_header_line (k @ CHR '':'' # CHR '' '' # v) hs = dset k (strip v) hs"
  using assms by (simp add: add_header_line_def before_after strip_space_Cons)

lemma contains_append: "contains p (s @ p @ t)"
proof (induction s)
  case Nil
  have "startswith p (p @ t)" by (rule startswith_append)
  then show ?case by (cases "p @ t") (auto simp: startswith_def)
qed simp

text \<open>
  Every response built for a request parses back with its status and reason, copies
  Via, From, Call-ID and CSeq of the request, and carries a To header with a tag, the one
  of the request if it had one: the peer can match it to its transaction.
\<close>

theorem response_keeps_transaction:
  assumes "\<forall>k \<in> {''Via'', ''From'', ''To'', ''Call-ID'', ''CSeq''}. cr \<notin> set (dget_default hs k [])"
    and "cr \<notin> set reason" and "cr \<notin> set contact" and "cr \<notin> set tag"
  shows "\<exists>p to. parse_sip_response (build_sip_response tag status reason hs sdp contact) = Inr p \<and>
    resp_status p = int status \<and> resp_reason p = reason \<and>
    (\<forall>k \<in> {''Via'', ''From'', ''Call-ID'', ''CSeq''}.
       dget (resp_headers p) k = Some (strip (dget_default hs k []))) \<and>
    dget (resp_headers p) ''To'' = Some (strip to) \<and> contains '';tag='' to \<and>
    (contains '';tag='' (dget_default hs ''To'' []) \<longrightarrow> to = dget_default hs ''To'' [])"
proof -
  define to where "to = (let t = dget_default hs ''To'' [] in
    if contains '';tag='' t then t else t @ '';tag='' @ tag)"
  define status_line where "status_line = ''SIP/2.0 '' @ nat_str status @ '' '' @ reason"
  define hls where "hls = [''Via: '' @ dget_default hs ''Via'' [], ''From: '' @ dget_default hs ''From'' [],
     ''To: '' @ to, ''Call-ID: '' @ dget_default hs ''Call-ID'' [], ''CSeq: '' @ dget_default hs ''CSeq'' [],
     ''Contact: '' @ contact]"
  obtain extra b where built: "build_sip_response tag status reason hs sdp contact =
      join crlf ((status_line # hls @ extra @ [[]]) @ [b])"
    and extra: "extra \<in> {[''Content-Length: 0''], [''Content-Type: application/sdp'',
      ''Content-Length: '' @ nat_str (length (the sdp))]}"
  proof (cases "case sdp of Some (c # r) \<Rightarrow> True | _ \<Rightarrow> False")
    case True
    then obtain c r where "sdp = Some (c # r)" by (auto split: option.splits list.splits)
    then show ?thesis
      by (intro that [of "[''Content-Type: application/sdp'', ''Content-Length: '' @ nat_str (length (the sdp))]"
          "c # r"]) (simp_all add: build_sip_response_def status_line_def hls_def to_def Let_def)
  next
    case False
    then show ?thesis
      by (intro that [of "[''Content-Length: 0'']" "[]"])
        (auto simp: build_sip_response_def status_line_def hls_def to_def Let_def
          split: option.splits list.splits)
  qed
  have nocr: "cr \<notin> set (nat_str n)" for n
    using nat_str_digits [of n] by (auto simp: list_all_iff is_digit_def code_def cr_def)
  have to_cr: "cr \<notin> set to" using assms by (auto simp: to_def Let_def cr_def)
  have lit: "line_value ''Via: ''" "line_value ''From: ''" "line_value ''To: ''" "line_value ''Call-ID: ''"
      "line_value ''CSeq: ''" "line_value ''Contact: ''" "line_value ''SIP/2.0 ''" "line_value '' ''"
      "line_value []" "line_value ''Content-Length: ''" "line_value ''Content-Length: 0''"
      "line_value ''Content-Type: application/sdp''"
    by (simp_all add: line_value_def cr_def)
  have vals: "line_value (dget_default hs ''Via'' [])" "line_value (dget_default hs ''From'' [])"
      "line_value to" "line_value (dget_default hs ''Call-ID'' [])" "line_value (dget_default hs ''CSeq'' [])"
      "line_value contact" "line_value reason" "line_value (nat_str n)" for n
    using assms nocr to_cr by (simp_all add: line_value_def)
  have app: "line_value (s @ t) \<longleftrightarrow> line_value s \<and> line_value t" for s t by (simp add: line_value_def)
  have "list_all line_value extra"
    using extra lit vals app by (elim insertE emptyE) (simp_all only: list.pred_inject lit vals app simp_thms)
  then have "list_all line_value (status_line # hls @ extra @ [[]])"
    by (simp only: status_line_def hls_def list.pred_inject list_all_append lit vals app simp_thms)
  then have no_cr: "\<forall>w \<in> set (status_line # hls @ extra @ [[]]). cr \<notin> set w"
    by (simp add: list_all_iff line_value_def)
  have lines: "split_crlf (build_sip_response tag status reason hs sdp contact) =
      status_line # hls @ extra @ [] # split_crlf b"
    unfolding built split_crlf_join_last [OF no_cr] by simp
  have full: "takeWhile (\<lambda>l. l \<noteq> []) (hls @ extra @ [] # split_crlf b) = hls @ extra"
    using takeWhile_dropWhile_split(1) [of "hls @ extra" "\<lambda>l. l \<noteq> []" "[]" "split_crlf b"] extra
    by (auto simp: hls_def)
  have sp: "CHR '' '' \<notin> set (nat_str status)"
    using nat_str_digits [of status] by (auto simp: list_all_iff is_digit_def code_def)
  have "py_int (nat_str status) = Some (int status)"
    using py_int_int_str [of "int status"] by (simp add: int_str_def)
  moreover have "after (CHR '' '') status_line = nat_str status @ CHR '' '' # reason"
    using before_after(2) [of "CHR '' ''" "''SIP/2.0''"] by (simp add: status_line_def)
  ultimately have stl: "parse_status_line status_line = Inr (int status, reason)"
    using before_after [OF sp, of reason]
    by (simp add: parse_status_line_def Let_def status_line_def)
  have keys: "add_header_line (''Via: '' @ v) d = dset ''Via'' (strip v) d"
    "add_header_line (''From: '' @ v) d = dset ''From'' (strip v) d"
    "add_header_line (''To: '' @ v) d = dset ''To'' (strip v) d"
    "add_header_line (''Call-ID: '' @ v) d = dset ''Call-ID'' (strip v) d"
    "add_header_line (''CSeq: '' @ v) d = dset ''CSeq'' (strip v) d"
    "add_header_line (''Contact: '' @ v) d = dset ''Contact'' (strip v) d" for v d
    using add_header_line_value [of "''Via''"] add_header_line_value [of "''From''"]
      add_header_line_value [of "''To''"] add_header_line_value [of "''Call-ID''"]
      add_header_line_value [of "''CSeq''"] add_header_line_value [of "''Contact''"]
    by (simp_all add: strip_no_space is_space_def code_def)
  have more: "dget (fold add_header_line extra d) k = dget d k"
    if "k \<noteq> ''Content-Length''" "k \<noteq> ''Content-Type''" for d k
    using extra that add_header_line_value [of "''Content-Length''"]
      add_header_line_value [of "''Content-Type''" "''application/sdp''"]
      add_header_line_value [of "''Content-Length''" "''0''"]
    by (auto simp: strip_no_space is_space_def code_def)
  define d where "d = fold add_header_line (hls @ extra) []"
  have look: "dget d ''Via'' = Some (strip (dget_default hs ''Via'' []))"
    "dget d ''From'' = Some (strip (dget_default hs ''From'' []))" "dget d ''To'' = Some (strip to)"
    "dget d ''Call-ID'' = Some (strip (dget_default hs ''Call-ID'' []))"
    "dget d ''CSeq'' = Some (strip (dget_default hs ''CSeq'' []))"
    by (simp_all add: d_def hls_def more keys [simplified])
  have "parse_sip_response (build_sip_response tag status reason hs sdp contact) =
      Inr \<lparr>resp_status = int status, resp_reason = reason, resp_headers = d\<rparr>"
    by (simp add: parse_sip_response_def lines stl full d_def)
  moreover have "contains '';tag='' to"
    using contains_append [of "'';tag=''" "dget_default hs ''To'' []" tag] by (simp add: to_def Let_def)
  moreover have "contains '';tag='' (dget_default hs ''To'' []) \<Longrightarrow> to = dget_default hs ''To'' []"
    by (simp add: to_def)
  ultimately show ?thesis using look by auto
qed

theorem response_keeps_transaction_witness:
  "\<exists>p to. parse_sip_response (build_sip_response ''t1'' 200 ''OK'' [(''Via'', ''v''), (''To'', ''<sip:a>'')]
      (Some ''v=0'') ''<sip:b>'') = Inr p \<and>
    dget (resp_headers p) ''Via'' = Some (strip ''v'') \<and>
    dget (resp_headers p) ''To'' = Some (strip to) \<and> contains '';tag='' to"
proof -
  have "\<forall>k \<in> {''Via'', ''From'', ''To'', ''Call-ID'', ''CSeq''}.
      cr \<notin> set (dget_default [(''Via'', ''v''), (''To'', ''<sip:a>'')] k [])"
    by (simp add: dget_default_def cr_def)
  moreover have "cr \<notin> set ''OK''" "cr \<notin> set ''<sip:b>''" "cr \<notin> set ''t1''" by (simp_all add: cr_def)
  moreover have "dget_default [(''Via'', ''v''), (''To'', ''<sip:a>'')] ''Via'' [] = ''v''"
    by (simp add: dget_default_def)
  ultimately show ?thesis
    using response_keeps_transaction [of "[(''Via'', ''v''), (''To'', ''<sip:a>'')]" "''OK''" "''<sip:b>''"
        "''t1''" 200 "Some ''v=0''"]
    by (metis insertCI)
qed

end
