(* ===== verification/Wa_Client.thy ===== *)
theory Wa_Client
  imports Sip_Tls Sip_Auth Sdp
begin

text \<open>
  \<open>sip_bridge/wa_sip_client.py\<close> (dialog states, call identifiers, the response builders) and
  the pure helpers of \<open>sip_bridge/wa_server_helpers.py\<close> (transaction responses, the
  advertised address, the health endpoint).  Random tags and nonces are arguments.
\<close>

section \<open>Dialogs\<close>

datatype dialog_state = Idle | Invited | Early | Confirmed | Terminated

record dialog =
  dlg_call_id :: string
  dlg_state :: dialog_state
  dlg_local_tag :: string
  dlg_remote_tag :: string
  dlg_remote_sdp :: "remote_sdp option"
  dlg_local_sdp_body :: string
  dlg_local_key_material :: bytes

definition new_dialog :: "string \<Rightarrow> dialog" where
  "new_dialog call_id = \<lparr>dlg_call_id = call_id, dlg_state = Idle, dlg_local_tag = [], dlg_remote_tag = [],
     dlg_remote_sdp = None, dlg_local_sdp_body = [], dlg_local_key_material = []\<rparr>"

definition transition :: "dialog_state \<Rightarrow> dialog \<Rightarrow> dialog" where
  "transition new_state d = d\<lparr>dlg_state := new_state\<rparr>"

section \<open>Headers\<close>

definition header :: "sip_message \<Rightarrow> string \<Rightarrow> string" where
  "header m k = dget_default (headers m) k []"

definition resolve_call_id :: "headers \<Rightarrow> string option" where
  "resolve_call_id hs =
     (let wacid = strip (dget_default hs ''x-wa-meta-wacid'' []) in
      if wacid \<noteq> [] then Some wacid
      else let call_id = strip (dget_default hs ''call-id'' []) in
        if call_id = [] then None else Some call_id)"

definition add_tag_to_to_header :: "string \<Rightarrow> string \<Rightarrow> string" where
  "add_tag_to_to_header tag to_header =
     (if contains '';tag='' to_header then to_header else to_header @ '';tag='' @ tag)"

definition ensure_to_tag :: "string \<Rightarrow> string \<Rightarrow> string" where
  "ensure_to_tag tag to_header =
     (if to_header = [] \<or> contains '';tag='' to_header then to_header else to_header @ '';tag='' @ tag)"

definition match_colon_space :: "string \<Rightarrow> string option" where
  "match_colon_space s = (if startswith '': '' s then Some (drop 2 s) else None)"

section \<open>Responses\<close>

definition build_407_response :: "string \<Rightarrow> string \<Rightarrow> sip_message \<Rightarrow> string \<Rightarrow> sip_message" where
  "build_407_response tag nonce invite realm =
     (let challenge = build_challenge_header nonce 407 realm ''MD5'' ''auth'' in
      \<lparr>first_line = ''SIP/2.0 407 Proxy Authentication Required'',
       headers = [(''via'', header invite ''via''), (''from'', header invite ''from''),
         (''to'', add_tag_to_to_header tag (header invite ''to'')),
         (''call-id'', header invite ''call-id''), (''cseq'', header invite ''cseq''),
         (''proxy-authenticate'',
           case search match_colon_space challenge of Some v \<Rightarrow> v | None \<Rightarrow> challenge),
         (''content-length'', ''0'')],
       body = []\<rparr>)"

definition build_200_ok :: "string \<Rightarrow> sip_message \<Rightarrow> string \<Rightarrow> string \<Rightarrow> sip_message" where
  "build_200_ok tag invite sdp_body local_contact =
     \<lparr>first_line = ''SIP/2.0 200 OK'',
      headers = [(''via'', header invite ''via''), (''from'', header invite ''from''),
        (''to'', add_tag_to_to_header tag (header invite ''to'')),
        (''call-id'', header invite ''call-id''), (''cseq'', header invite ''cseq''),
        (''contact'', local_contact), (''content-type'', ''application/sdp''),
        (''content-length'', nat_str (length sdp_body))],
      body = sdp_body\<rparr>"

definition build_transaction_response ::
  "string \<Rightarrow> sip_message \<Rightarrow> nat \<Rightarrow> string \<Rightarrow> string option \<Rightarrow> bool \<Rightarrow> sip_message" where
  "build_transaction_response tag m status reason call_id add_local_to_tag =
     (let to_header = header m ''to'';
          to_header = (if add_local_to_tag then ensure_to_tag tag to_header else to_header)
      in \<lparr>first_line = ''SIP/2.0 '' @ nat_str status @ '' '' @ reason,
          headers = [(''via'', header m ''via''), (''from'', header m ''from''), (''to'', to_header),
            (''call-id'', case call_id of Some c \<Rightarrow> c | None \<Rightarrow> header m ''call-id''),
            (''cseq'', header m ''cseq''), (''content-length'', ''0'')],
          body = []\<rparr>)"

section \<open>The advertised address and the health endpoint\<close>

text \<open>\<open>public_ip\<close> is \<open>WA_SIP_PUBLIC_IP\<close>; \<open>probe\<close> the address of the UDP probe, if it has one.\<close>

definition resolve_advertised_ip :: "string \<Rightarrow> string option \<Rightarrow> string \<Rightarrow> string" where
  "resolve_advertised_ip public_ip probe bind_host =
     (let candidate = strip bind_host; configured = strip public_ip in
      if candidate \<noteq> [] \<and> candidate \<notin> {''0.0.0.0'', ''::''} \<and> \<not> startswith ''127.'' candidate
      then candidate
      else if configured \<noteq> [] \<and> \<not> startswith ''127.'' configured then configured
      else case probe of
        Some ip \<Rightarrow> if ip \<noteq> [] \<and> \<not> startswith ''127.'' ip then ip else ''127.0.0.1''
      | None \<Rightarrow> ''127.0.0.1'')"

datatype health_body = HealthOk | HealthReady nat nat | HealthUnavailable nat nat | HealthNotFound

definition health_response :: "string \<Rightarrow> nat \<Rightarrow> nat \<Rightarrow> nat \<times> health_body" where
  "health_response path active_sessions max_concurrent_calls =
     (if path = ''/healthz'' then (200, HealthOk)
      else if path = ''/readyz'' then
        (if max_concurrent_calls \<le> active_sessions
         then (503, HealthUnavailable active_sessions max_concurrent_calls)
         else (200, HealthReady active_sessions max_concurrent_calls))
      else (404, HealthNotFound))"

text \<open>The request path; \<open>None\<close> is the \<open>IndexError\<close> that becomes a 500 answer.\<close>

definition health_path :: "string \<Rightarrow> string option" where
  "health_path request_line =
     (if CHR '' '' \<in> set request_line
      then (case split_on (CHR '' '') request_line of _ # p # _ \<Rightarrow> Some p | _ \<Rightarrow> None)
      else Some ''/'')"

end
