(* ===== verification/Wa_Server.thy ===== *)
theory Wa_Server
  imports Wa_Client Bridge_Config
begin

text \<open>
  \<open>WaSIPServer\<close> of \<open>sip_bridge/wa_main.py\<close>: the handlers of INVITE, BYE and the other
  methods, as functions on the server's state.  A session task is a number; \<open>live\<close> holds
  the tasks that have not finished, with the call they were started for, and
  \<open>session_done\<close> is the task's done callback.  What one INVITE takes from outside (random
  bytes, the socket, the Opus library, the name of the caller) is the record \<open>wa_env\<close>;
  \<open>in_network\<close> is \<open>ipaddress\<close> (\<open>None\<close> for \<open>ValueError\<close>).
\<close>

record pending_challenge =
  pc_realm :: string
  pc_nonce :: string

record wa_call =
  call_task :: nat
  call_remote :: "string \<times> nat"
  call_local_port :: nat
  call_payload_type :: "nat option"
  call_encode_rate :: nat
  call_sender :: "srtp_session option"
  call_receiver :: "srtp_session option"
  call_phone :: string
  call_gateway_user :: "string option"

record wa_server =
  active_sessions :: "(string, wa_call) dict"
  session_tasks :: "(string, nat) dict"
  pending_challenges :: "(string, pending_challenge) dict"
  live :: "(nat, string) dict"
  next_task :: nat

record wa_env =
  env_md5 :: "string \<Rightarrow> string"
  env_sha256 :: "string \<Rightarrow> string"
  env_tag :: string
  env_nonce :: string
  env_answer_key :: bytes
  env_sender_key :: bytes
  env_bind :: "nat option"
  env_public_ip :: string
  env_probe :: "string option"
  env_opus_ok :: "nat \<Rightarrow> bool"
  env_user_id :: "string \<Rightarrow> string \<Rightarrow> string \<Rightarrow> string \<Rightarrow> string option"

definition empty_server :: wa_server where
  "empty_server = \<lparr>active_sessions = [], session_tasks = [], pending_challenges = [], live = [], next_task = 0\<rparr>"

section \<open>The allowlist and the caller\<close>

text \<open>\<open>any(...)\<close> stops at the first match; a \<open>ValueError\<close> before it means \<open>False\<close>.\<close>

fun any_network :: "(string \<Rightarrow> string \<Rightarrow> bool option) \<Rightarrow> string \<Rightarrow> string list \<Rightarrow> bool" where
  "any_network in_network ip [] = False"
| "any_network in_network ip (cidr # cidrs) =
     (case in_network ip cidr of
        None \<Rightarrow> False
      | Some True \<Rightarrow> True
      | Some False \<Rightarrow> any_network in_network ip cidrs)"

definition check_ip_allowed ::
  "(string \<Rightarrow> string \<Rightarrow> bool option) \<Rightarrow> wa_config \<Rightarrow> string list \<Rightarrow> string \<Rightarrow> bool" where
  "check_ip_allowed in_network c cidrs ip =
     (if cidrs = [] then sandbox_mode c else any_network in_network ip cidrs)"

definition match_sip_user :: "string \<Rightarrow> string option" where
  "match_sip_user s =
     (if lower (take 4 s) \<noteq> ''sip:'' then None
      else let u = takeWhile (\<lambda>c. c \<noteq> CHR ''@'' \<and> c \<noteq> CHR '';'' \<and> c \<noteq> CHR ''>'') (drop 4 s)
           in if u = [] then None else Some u)"

definition extract_caller_phone :: "string \<Rightarrow> string" where
  "extract_caller_phone from_header =
     (case search match_sip_user from_header of Some u \<Rightarrow> strip u | None \<Rightarrow> [])"

definition match_nonce :: "string \<Rightarrow> string option" where
  "match_nonce s =
     (let p = ''nonce='' @ [dquote]; v = takeWhile (\<lambda>c. c \<noteq> dquote) (drop (length p) s) in
      if startswith p s \<and> v \<noteq> [] \<and> dropWhile (\<lambda>c. c \<noteq> dquote) (drop (length p) s) \<noteq> []
      then Some v else None)"

section \<open>INVITE\<close>

definition call_id_of :: "sip_message \<Rightarrow> string" where
  "call_id_of m = (case resolve_call_id (headers m) of Some c \<Rightarrow> c | None \<Rightarrow> header m ''call-id'')"

definition reject :: "wa_env \<Rightarrow> sip_message \<Rightarrow> string \<Rightarrow> nat \<Rightarrow> string \<Rightarrow> sip_message" where
  "reject e m call_id status reason =
     build_transaction_response (env_tag e) m status reason (Some call_id) True"

text \<open>
  The eviction loop, with the number of entries as bound; \<open>None\<close> is \<open>StopIteration\<close> on an
  empty dictionary.
\<close>

fun evict :: "nat \<Rightarrow> (string, 'a) dict \<Rightarrow> (string, 'a) dict option" where
  "evict max_pending [] = (if max_pending = 0 then None else Some [])"
| "evict max_pending (p # d) =
     (if max_pending \<le> length (p # d) then evict max_pending d else Some (p # d))"

definition challenge_invite ::
  "wa_env \<Rightarrow> nat \<Rightarrow> wa_config \<Rightarrow> sip_message \<Rightarrow> string \<Rightarrow> wa_server \<Rightarrow> wa_server \<times> sip_message reply" where
  "challenge_invite e max_calls c invite call_id s =
     (case evict (max_calls * 2) (pending_challenges s) of
        None \<Rightarrow> (s\<lparr>pending_challenges := []\<rparr>, Failed)
      | Some pend \<Rightarrow>
          (let realm = wa_sip_host c;
               resp = build_407_response (env_tag e) (env_nonce e) invite realm;
               issued = (case search match_nonce (header resp ''proxy-authenticate'') of
                 Some n \<Rightarrow> n | None \<Rightarrow> [])
           in (s\<lparr>pending_challenges := dset call_id \<lparr>pc_realm = realm, pc_nonce = issued\<rparr> pend\<rparr>, Reply resp)))"

definition nonce_mismatch :: "wa_server \<Rightarrow> string \<Rightarrow> string \<Rightarrow> bool" where
  "nonce_mismatch s call_id auth_value \<longleftrightarrow>
     (case dget (pending_challenges s) call_id of
        None \<Rightarrow> False
      | Some pend \<Rightarrow>
          (case parse_challenge auth_value of
             Inl _ \<Rightarrow> False
           | Inr params \<Rightarrow> dget params ''nonce'' \<noteq> Some (pc_nonce pend)))"

text \<open>\<open>_create_srtp_contexts\<close>; \<open>Inl\<close> is the exception that becomes a 488.\<close>

definition create_srtp_contexts ::
  "bytes \<Rightarrow> string \<Rightarrow> srtp_error + srtp_session option \<times> srtp_session option" where
  "create_srtp_contexts local_key sdp_body =
     (case parse_sdes_crypto sdp_body of
        Inl er \<Rightarrow> Inl er
      | Inr None \<Rightarrow> Inr (None, None)
      | Inr (Some crypto) \<Rightarrow>
          (case srtp_context_init local_key True of
             Inl er \<Rightarrow> Inl er
           | Inr sender \<Rightarrow>
               (case srtp_context_init (sdes_key crypto) False of
                  Inl er \<Rightarrow> Inl er
                | Inr receiver \<Rightarrow> Inr (Some sender, Some receiver))))"

text \<open>The user id of the gateway client: \<open>Inl ()\<close> when gateway mode lacks its secret.\<close>

definition gateway_user ::
  "wa_env \<Rightarrow> wa_config \<Rightarrow> string \<Rightarrow> string \<Rightarrow> unit + string option" where
  "gateway_user e c call_id phone =
     (if wa_gateway_mode c \<and> wa_gateway_ws_url c \<noteq> [] then
        (if wa_gateway_ws_secret c = [] then Inl ()
         else Inr (Some (case env_user_id e (wa_tenant_id c) (wa_company_id c) phone (wa_default_phone_region c) of
             Some u \<Rightarrow> u
           | None \<Rightarrow> ''wa-anon-'' @ take 16 (env_sha256 e
               (wa_tenant_id c @ '':'' @ wa_company_id c @ '':call:'' @ call_id)))))
      else Inr None)"

text \<open>Registering the session and its task, which \<open>create_task\<close> starts.\<close>

definition add_session :: "string \<Rightarrow> wa_call \<Rightarrow> wa_server \<Rightarrow> wa_server" where
  "add_session call_id session s =
     s\<lparr>active_sessions := dset call_id session (active_sessions s),
       session_tasks := dset call_id (next_task s) (session_tasks s),
       live := dset (next_task s) call_id (live s),
       next_task := next_task s + 1\<rparr>"

definition open_session ::
  "wa_env \<Rightarrow> wa_config \<Rightarrow> sip_message \<Rightarrow> string \<Rightarrow> wa_server \<Rightarrow> wa_server \<times> sip_message reply" where
  "open_session e c invite call_id s =
     (let remote = parse_remote_sdp (body invite);
          local_ip = resolve_advertised_ip (env_public_ip e) (env_probe e) (wa_sip_host c)
      in if body invite = [] \<or> media_ip remote = [] \<or> media_port remote = 0
         then (s, Reply (reject e invite call_id 488 ''Not Acceptable Here''))
         else case env_bind e of
           None \<Rightarrow> (s, Failed)
         | Some local_port \<Rightarrow>
             (let phone = extract_caller_phone (header invite ''from'') in
              if \<not> env_opus_ok e (encode_rate remote)
              then (s, Reply (reject e invite call_id 488 ''Not Acceptable Here''))
              else case create_srtp_contexts (env_sender_key e) (body invite) of
                Inl _ \<Rightarrow> (s, Reply (reject e invite call_id 488 ''Not Acceptable Here''))
              | Inr (sender, receiver) \<Rightarrow>
                  (case gateway_user e c call_id phone of
                     Inl _ \<Rightarrow> (s, Reply (reject e invite call_id 488 ''Not Acceptable Here''))
                   | Inr user \<Rightarrow>
                       (let sdp = generate_sdp_answer (env_answer_key e) local_ip local_port
                              (opus_payload_type remote);
                            resp = build_200_ok (env_tag e) invite sdp (''<sip:ekaette@'' @ local_ip @ '':''
                              @ int_str (wa_sip_port c) @ '';transport=tls>'');
                            session = \<lparr>call_task = next_task s,
                              call_remote = (media_ip remote, media_port remote),
                              call_local_port = local_port, call_payload_type = opus_payload_type remote,
                              call_encode_rate = encode_rate remote, call_sender = sender,
                              call_receiver = receiver, call_phone = phone, call_gateway_user = user\<rparr>
                        in (add_session call_id session s, Reply resp)))))"

definition drop_pending :: "string \<Rightarrow> wa_server \<Rightarrow> wa_server" where
  "drop_pending call_id s = s\<lparr>pending_challenges := dpop call_id (pending_challenges s)\<rparr>"

definition handle_invite ::
  "wa_env \<Rightarrow> nat \<Rightarrow> wa_config \<Rightarrow> sip_message \<Rightarrow> wa_server \<Rightarrow> wa_server \<times> sip_message reply" where
  "handle_invite e max_calls c invite s =
     (let call_id = call_id_of invite; auth_value = header invite ''proxy-authorization'' in
      if max_calls \<le> length (active_sessions s)
      then (s, Reply (reject e invite call_id 503 ''Service Unavailable''))
      else if auth_value = [] then challenge_invite e max_calls c invite call_id s
      else if nonce_mismatch s call_id auth_value
      then (drop_pending call_id s, Reply (reject e invite call_id 403 ''Forbidden''))
      else case verify_digest (env_md5 e) (env_sha256 e) auth_value (wa_sip_username c)
                  (wa_sip_password c) ''INVITE'' of
        None \<Rightarrow> (s, Failed)
      | Some False \<Rightarrow> (drop_pending call_id s, Reply (reject e invite call_id 403 ''Forbidden''))
      | Some True \<Rightarrow> open_session e c invite call_id (drop_pending call_id s))"

section \<open>BYE, the dispatcher and the done callback\<close>

definition handle_bye :: "sip_message \<Rightarrow> wa_server \<Rightarrow> wa_server \<times> sip_message reply" where
  "handle_bye bye s =
     (let call_id = call_id_of bye in
      (s\<lparr>active_sessions := dpop call_id (active_sessions s),
         session_tasks := dpop call_id (session_tasks s)\<rparr>,
       Reply \<lparr>first_line = ''SIP/2.0 200 OK'',
         headers = [(''via'', header bye ''via''), (''from'', header bye ''from''),
           (''to'', header bye ''to''), (''call-id'', call_id), (''cseq'', header bye ''cseq''),
           (''content-length'', ''0'')],
         body = []\<rparr>))"

definition handle_sip_message ::
  "(string \<Rightarrow> string \<Rightarrow> bool option) \<Rightarrow> wa_env \<Rightarrow> nat \<Rightarrow> wa_config \<Rightarrow> string list \<Rightarrow> string
   \<Rightarrow> wa_server \<Rightarrow> sip_message \<Rightarrow> wa_server \<times> sip_message reply" where
  "handle_sip_message in_network e max_calls c cidrs peer s m =
     (if \<not> check_ip_allowed in_network c cidrs peer
      then (s, Reply (build_transaction_response (env_tag e) m 403 ''Forbidden'' None
        (request_method m = Some ''INVITE'')))
      else if request_method m = Some ''INVITE'' then handle_invite e max_calls c m s
      else if request_method m = Some ''BYE'' then handle_bye m s
      else if request_method m = Some ''ACK'' then (s, NoReply)
      else (s, Reply (build_transaction_response (env_tag e) m 405 ''Method Not Allowed'' None False)))"

definition session_done :: "nat \<Rightarrow> wa_server \<Rightarrow> wa_server" where
  "session_done task s =
     (case dget (live s) task of
        None \<Rightarrow> s
      | Some call_id \<Rightarrow>
          s\<lparr>session_tasks := dpop call_id (session_tasks s),
            active_sessions := dpop call_id (active_sessions s),
            live := dpop task (live s)\<rparr>)"

section \<open>What a handler can do to the state\<close>

text \<open>An INVITE that gets this far is refused without a trace or starts one session.\<close>

lemma open_session_result:
  assumes "open_session e c m call_id s = (s', r)"
  obtains (refused) "s' = s"
  | (accepted) call local_ip where "s' = add_session call_id call s" "call_task call = next_task s"
      "r = Reply (build_200_ok (env_tag e) m (generate_sdp_answer (env_answer_key e) local_ip
          (call_local_port call) (call_payload_type call))
        (''<sip:ekaette@'' @ local_ip @ '':'' @ int_str (wa_sip_port c) @ '';transport=tls>''))"
      "local_ip = resolve_advertised_ip (env_public_ip e) (env_probe e) (wa_sip_host c)"
      "create_srtp_contexts (env_sender_key e) (body m) = Inr (call_sender call, call_receiver call)"
      "call_payload_type call = opus_payload_type (parse_remote_sdp (body m))"
proof -
  let ?ip = "resolve_advertised_ip (env_public_ip e) (env_probe e) (wa_sip_host c)"
  have "s' = s \<or> (\<exists>call. s' = add_session call_id call s \<and> call_task call = next_task s \<and>
      r = Reply (build_200_ok (env_tag e) m (generate_sdp_answer (env_answer_key e) ?ip
          (call_local_port call) (call_payload_type call))
        (''<sip:ekaette@'' @ ?ip @ '':'' @ int_str (wa_sip_port c) @ '';transport=tls>'')) \<and>
      create_srtp_contexts (env_sender_key e) (body m) = Inr (call_sender call, call_receiver call) \<and>
      call_payload_type call = opus_payload_type (parse_remote_sdp (body m)))"
    using assms unfolding open_session_def Let_def
    by (simp only: split: if_splits option.splits sum.splits prod.splits) (fastforce simp only: prod.inject wa_call.simps sum.inject simp_thms)+
  then show ?thesis using refused accepted by blast
qed

lemma drop_pending_simps [simp]:
  "active_sessions (drop_pending k s) = active_sessions s" "live (drop_pending k s) = live s"
  "next_task (drop_pending k s) = next_task s" "session_tasks (drop_pending k s) = session_tasks s"
  by (simp_all add: drop_pending_def)

lemma challenge_invite_result:
  assumes "challenge_invite e max_calls c m call_id s = (s', r)"
  shows "\<exists>pend. s' = s\<lparr>pending_challenges := pend\<rparr> \<and> (\<exists>resp. r = Reply resp \<or> r = Failed)"
  using assms by (auto simp: challenge_invite_def Let_def split: option.splits)

text \<open>Every INVITE either starts a session, authenticated, or only touches the challenges.\<close>

lemma handle_invite_result:
  assumes "handle_invite e max_calls c m s = (s', r)"
  obtains (no_session) pend where "s' = s\<lparr>pending_challenges := pend\<rparr>"
  | (session) call where "s' = add_session (call_id_of m) call (drop_pending (call_id_of m) s)"
      "verify_digest (env_md5 e) (env_sha256 e) (header m ''proxy-authorization'') (wa_sip_username c)
         (wa_sip_password c) ''INVITE'' = Some True"
      "length (active_sessions s) < max_calls"
      "\<not> nonce_mismatch s (call_id_of m) (header m ''proxy-authorization'')"
      "open_session e c m (call_id_of m) (drop_pending (call_id_of m) s) = (s', r)"
proof -
  let ?id = "call_id_of m" and ?auth = "header m ''proxy-authorization''"
  let ?v = "verify_digest (env_md5 e) (env_sha256 e) ?auth (wa_sip_username c) (wa_sip_password c) ''INVITE''"
  consider (quiet) "s' = s" | (drop) "s' = drop_pending ?id s"
    | (challenged) "challenge_invite e max_calls c m ?id s = (s', r)"
    | (opened) "?v = Some True" "length (active_sessions s) < max_calls" "\<not> nonce_mismatch s ?id ?auth"
        "open_session e c m ?id (drop_pending ?id s) = (s', r)"
    using assms unfolding handle_invite_def Let_def
    by (auto split: if_splits option.splits bool.splits)
  then show ?thesis
  proof cases
    case quiet
    then show ?thesis by (intro no_session [of "pending_challenges s"]) simp
  next
    case drop
    then show ?thesis by (intro no_session) (simp add: drop_pending_def)
  next
    case challenged
    with challenge_invite_result no_session show ?thesis by blast
  next
    case opened
    from opened(4) show ?thesis
    proof (cases rule: open_session_result)
      case refused
      then show ?thesis by (intro no_session) (simp add: drop_pending_def)
    next
      case accepted
      with opened session show ?thesis by blast
    qed
  qed
qed

section \<open>Runs\<close>

datatype wa_event = Message wa_env string sip_message | TaskDone nat

definition wa_step ::
  "(string \<Rightarrow> string \<Rightarrow> bool option) \<Rightarrow> nat \<Rightarrow> wa_config \<Rightarrow> string list \<Rightarrow> wa_event \<Rightarrow> wa_server \<Rightarrow> wa_server" where
  "wa_step in_network max_calls c cidrs ev s =
     (case ev of
        Message e peer m \<Rightarrow> fst (handle_sip_message in_network e max_calls c cidrs peer s m)
      | TaskDone task \<Rightarrow> session_done task s)"

definition wa_run ::
  "(string \<Rightarrow> string \<Rightarrow> bool option) \<Rightarrow> nat \<Rightarrow> wa_config \<Rightarrow> string list \<Rightarrow> wa_event list \<Rightarrow> wa_server \<Rightarrow> wa_server" where
  "wa_run in_network max_calls c cidrs evs s = fold (wa_step in_network max_calls c cidrs) evs s"

definition wa_inv :: "nat \<Rightarrow> wa_server \<Rightarrow> bool" where
  "wa_inv max_calls s \<longleftrightarrow>
     dict_wf (active_sessions s) \<and> dict_wf (session_tasks s) \<and> dict_wf (pending_challenges s) \<and>
     dict_wf (live s) \<and> length (active_sessions s) \<le> max_calls \<and>
     length (pending_challenges s) \<le> 2 * max_calls \<and>
     (\<forall>t \<in> fst ` set (live s). t < next_task s) \<and>
     (\<forall>k call. dget (active_sessions s) k = Some call \<longrightarrow> dget (session_tasks s) k = Some (call_task call)) \<and>
     (\<forall>k t. dget (session_tasks s) k = Some t \<longrightarrow> t < next_task s)"

lemma evict_Some:
  assumes "evict n d = Some d'"
  shows "length d' \<le> length d \<and> (0 < n \<longrightarrow> length d' < n) \<and> (dict_wf d \<longrightarrow> dict_wf d')"
  using assms by (induction d) (auto split: if_splits simp: dict_wf_def)

lemma length_dpop_le: "length (dpop k d) \<le> length d"
  by (simp add: AList.delete_eq)

lemma dpop_keys: "fst ` set (dpop k d) \<subseteq> fst ` set d"
  by (auto simp: AList.delete_eq)

lemma dset_keys: "fst ` set (dset k v d) = insert k (fst ` set d)"
  by (simp add: dom_update flip: dom_map_of_conv_image_fst) auto

lemma add_session_inv:
  assumes "wa_inv n s" and "length (active_sessions s) < n" and "call_task call = next_task s"
  shows "wa_inv n (add_session k call s)"
  using assms by (auto simp: wa_inv_def add_session_def length_dset dset_keys less_Suc_eq split: if_splits)

lemma drop_pending_inv: "wa_inv n s \<Longrightarrow> wa_inv n (drop_pending k s)"
  using length_dpop_le [of k "pending_challenges s"] by (auto simp: wa_inv_def drop_pending_def)

lemma challenge_invite_inv:
  assumes "wa_inv n s" and "0 < n"
  shows "wa_inv n (fst (challenge_invite e n c m k s))"
proof (cases "evict (n * 2) (pending_challenges s)")
  case None
  then show ?thesis using assms by (simp add: challenge_invite_def wa_inv_def)
next
  case (Some pend)
  with evict_Some [OF this] assms show ?thesis
    by (auto simp: challenge_invite_def wa_inv_def Let_def length_dset)
qed

lemma open_session_inv:
  assumes "wa_inv n s" and "length (active_sessions s) < n"
  shows "wa_inv n (fst (open_session e c m k s))"
proof -
  obtain s' r where o: "open_session e c m k s = (s', r)" by force
  from o show ?thesis
    by (cases rule: open_session_result) (use assms add_session_inv o in auto)
qed

lemma handle_invite_inv:
  assumes "wa_inv n s"
  shows "wa_inv n (fst (handle_invite e n c m s))"
proof (cases "length (active_sessions s) < n")
  case True
  then have "0 < n" by linarith
  with True assms show ?thesis
    using open_session_inv [OF drop_pending_inv [OF assms]]
    by (auto simp: handle_invite_def Let_def challenge_invite_inv drop_pending_inv
        split: option.splits bool.splits)
next
  case False
  with assms show ?thesis by (simp add: handle_invite_def)
qed

lemma wa_step_inv:
  assumes "wa_inv n s"
  shows "wa_inv n (wa_step in_network n c cidrs ev s)"
proof (cases ev)
  case (Message e peer m)
  have bye: "wa_inv n (fst (handle_bye m s))"
    using assms length_dpop_le [of "call_id_of m" "active_sessions s"]
    by (auto simp: wa_inv_def handle_bye_def Let_def)
  show ?thesis
    using assms bye handle_invite_inv by (simp add: Message wa_step_def handle_sip_message_def)
next
  case (TaskDone t)
  show ?thesis
  proof (cases "dget (live s) t")
    case (Some k)
    have "length (dpop k (active_sessions s)) \<le> n"
      using length_dpop_le [of k "active_sessions s"] assms by (simp add: wa_inv_def)
    moreover have "u < next_task s" if "u \<in> fst ` set (dpop t (live s))" for u
      using subsetD [OF dpop_keys that] assms by (simp only: wa_inv_def)
    ultimately show ?thesis
      using assms by (simp add: TaskDone Some wa_step_def session_done_def wa_inv_def)
  qed (use assms in \<open>simp add: TaskDone wa_step_def session_done_def\<close>)
qed

lemma wa_run_inv: "wa_inv n s \<Longrightarrow> wa_inv n (wa_run in_network n c cidrs evs s)"
  unfolding wa_run_def by (induction evs arbitrary: s) (auto intro: wa_step_inv)

section \<open>Properties\<close>

text \<open>
  C2 Whatever messages arrive from whatever peers, and whenever sessions end, the server
  never tracks more sessions than the limit nor more pending challenges than twice the
  limit, and every tracked session is the one of the task tracked for its call.
\<close>

theorem server_stays_bounded:
  "length (active_sessions (wa_run in_network n c cidrs evs empty_server)) \<le> n \<and>
   length (pending_challenges (wa_run in_network n c cidrs evs empty_server)) \<le> 2 * n \<and>
   wa_inv n (wa_run in_network n c cidrs evs empty_server)"
  using wa_run_inv [of n empty_server in_network c cidrs evs]
  by (simp add: wa_inv_def empty_server_def)

text \<open>
  C1 A message starts a session only if it is an INVITE from an allowed address, below the
  session limit, whose digest is correct for the configured user and password and, when a
  challenge is pending for the call, uses the nonce of that challenge.
\<close>

theorem session_needs_authentication:
  assumes "handle_sip_message in_network e n c cidrs peer s m = (s', r)" and "next_task s' \<noteq> next_task s"
  shows "check_ip_allowed in_network c cidrs peer \<and> request_method m = Some ''INVITE'' \<and>
    length (active_sessions s) < n \<and>
    verify_digest (env_md5 e) (env_sha256 e) (header m ''proxy-authorization'') (wa_sip_username c)
      (wa_sip_password c) ''INVITE'' = Some True \<and>
    (\<forall>pend params. dget (pending_challenges s) (call_id_of m) = Some pend \<longrightarrow>
       parse_challenge (header m ''proxy-authorization'') = Inr params \<longrightarrow>
       dget params ''nonce'' = Some (pc_nonce pend))"
proof -
  have inv: "check_ip_allowed in_network c cidrs peer" "request_method m = Some ''INVITE''"
      "handle_invite e n c m s = (s', r)"
    using assms by (auto simp: handle_sip_message_def handle_bye_def Let_def split: if_splits)
  from inv(3) show ?thesis
  proof (cases rule: handle_invite_result)
    case (no_session pend)
    with assms(2) show ?thesis by simp
  next
    case (session call)
    with inv show ?thesis by (auto simp: nonce_mismatch_def)
  qed
qed

text \<open>
  The check of the nonce depends on a challenge being pending: for a call identifier
  that was never challenged (or whose challenge was evicted), any header with a correct
  digest is processed as authenticated, whoever issued its nonce, so a header captured
  from one call can be replayed under a fresh Call-ID.
\<close>

theorem unchallenged_header_accepted:
  assumes "dget (pending_challenges s) (call_id_of m) = None" and "length (active_sessions s) < n"
    and "header m ''proxy-authorization'' = auth" and "auth \<noteq> []"
    and "verify_digest (env_md5 e) (env_sha256 e) auth (wa_sip_username c) (wa_sip_password c) ''INVITE'' = Some True"
  shows "handle_invite e n c m s = open_session e c m (call_id_of m) s"
proof -
  have "dpop (call_id_of m) (pending_challenges s) = pending_challenges s"
    using assms(1) by (intro delete_id) (simp add: map_of_eq_None_iff)
  then have "drop_pending (call_id_of m) s = s" by (simp add: drop_pending_def)
  then show ?thesis using assms by (simp add: handle_invite_def nonce_mismatch_def)
qed

text \<open>
  The answer to an accepted INVITE advertises one random SRTP key while the session
  encrypts with another: the key in the answer's crypto line is drawn by
  \<open>generate_sdp_answer\<close>, the sender's key by \<open>_create_srtp_contexts\<close>.  The peer can
  decrypt only if the two independent draws happen to be equal.
\<close>

theorem advertised_key_is_not_the_senders:
  assumes "handle_sip_message in_network e n c cidrs peer s m = (s', r)" and "next_task s' \<noteq> next_task s"
    and "dget (active_sessions s') (call_id_of m) = Some call"
    and "call_payload_type call = Some pt" and "call_sender call = Some sender"
    and "length (env_answer_key e) = 30"
    and "ip_text (resolve_advertised_ip (env_public_ip e) (env_probe e) (wa_sip_host c))"
  shows "\<exists>resp crypto. r = Reply resp \<and> parse_sdes_crypto (body resp) = Inr (Some crypto) \<and>
    sdes_key crypto = env_answer_key e \<and> srtp_key sender = env_sender_key e"
proof -
  have inv: "handle_invite e n c m s = (s', r)"
    using assms(1,2) by (auto simp: handle_sip_message_def handle_bye_def Let_def split: if_splits)
  from inv show ?thesis
  proof (cases rule: handle_invite_result)
    case (no_session pend)
    with assms(2) show ?thesis by simp
  next
    case (session call')
    from session(5) show ?thesis
    proof (cases rule: open_session_result)
      case refused
      with assms(2) show ?thesis by simp
    next
      case (accepted call'' local_ip)
      then have "call'' = call" using assms(3) by (simp add: add_session_def)
      with accepted assms(4,5) have k: "srtp_key sender = env_sender_key e"
        by (auto simp: create_srtp_contexts_def srtp_context_init_def split: sum.splits option.splits if_splits)
      have ip: "ip_text local_ip" using accepted(4) assms(7) by simp
      have "body (build_200_ok tag i sdp contact) = sdp" for tag i sdp contact
        by (simp add: build_200_ok_def)
      with wa_answer_crypto [OF ip assms(6), of "call_local_port call" pt] show ?thesis
        using accepted(3) assms(4) k \<open>call'' = call\<close> by auto
    qed
  qed
qed

text \<open>
  An accepted INVITE for a call that already has a session replaces it in the tables
  but leaves the first task running, and the end of the first task removes the second one
  from the tables: it still runs, but no BYE reaches it and it no longer counts against
  the session limit.
\<close>

theorem reinvite_orphans_session:
  assumes "handle_invite e n c m s = (s', r)" and "next_task s' \<noteq> next_task s"
    and "dget (live s) old = Some (call_id_of m)" and "old < next_task s"
  shows "dget (active_sessions (session_done old s')) (call_id_of m) = None \<and>
    dget (session_tasks (session_done old s')) (call_id_of m) = None \<and>
    dget (live (session_done old s')) (next_task s) = Some (call_id_of m)"
  using assms(1)
proof (cases rule: handle_invite_result)
  case (no_session pend)
  with assms(2) show ?thesis by simp
next
  case (session call)
  then show ?thesis
    using assms(3,4) by (auto simp: session_done_def add_session_def)
qed

section \<open>Witnesses\<close>

definition sample_wa_config :: wa_config where
  "sample_wa_config = (case wa_from_env [(''WA_SIP_PORT'', ''5''), (''WA_HEALTH_PORT'', ''6''),
       (''WA_SANDBOX_MODE'', ''1''), (''WA_SIP_USERNAME'', ''bob''), (''WA_SIP_PASSWORD'', ''pw''),
       (''WA_SIP_HOST'', ''10.0.0.7'')] of Inr c \<Rightarrow> c | Inl _ \<Rightarrow> undefined)"

definition sample_wa_env :: wa_env where
  "sample_wa_env = \<lparr>env_md5 = (\<lambda>_. ''d1''), env_sha256 = (\<lambda>_. ''d1''), env_tag = ''t'', env_nonce = ''n'',
     env_answer_key = replicate 30 1, env_sender_key = replicate 30 2, env_bind = Some 9,
     env_public_ip = [], env_probe = None, env_opus_ok = (\<lambda>_. True), env_user_id = (\<lambda>_ _ _ _. None)\<rparr>"

definition sample_auth :: string where
  "sample_auth = ''Digest username=bob, realm=r, nonce=n, response=d1''"

definition sample_invite :: sip_message where
  "sample_invite = \<lparr>first_line = ''INVITE sip:a SIP/2.0'',
     headers = [(''call-id'', ''c1''), (''proxy-authorization'', sample_auth)],
     body = ''c=IN IP4 1.2.3.4'' @ [lf] @ ''m=audio 9 RTP/SAVP 7 8'' @ [lf] @ ''a=rtpmap:7 opus/48000/2'' @ [lf] @
       ''a=crypto:1 AES_CM_128_HMAC_SHA1_80 inline:AAAAAAAAAAAAAAAAAAAAAAAAAAAAAAAAAAAAAAAA''\<rparr>"

definition sample_result :: "wa_server \<times> sip_message reply" where
  "sample_result = handle_sip_message (\<lambda>_ _. None) sample_wa_env 2 sample_wa_config [] ''1.1.1.1''
     empty_server sample_invite"

lemma sample_sdp:
  "media_ip_of (body sample_invite) = ''1.2.3.4''" "media_port_of (body sample_invite) = 9"
  "find_all match_rtpmap (body sample_invite) = [(7, ''opus/48000/2'')]"
  "startswith ''opus/'' (lower ''opus/48000/2'')"
  by code_simp+

lemma sample_remote:
  "media_ip (parse_remote_sdp (body sample_invite)) = ''1.2.3.4''"
  "media_port (parse_remote_sdp (body sample_invite)) = 9"
  "opus_payload_type (parse_remote_sdp (body sample_invite)) = Some 7"
  using sample_sdp by (simp_all add: parse_remote_sdp_def rtpmap_step_def del: fun_upd_apply)

lemma sample_headers:
  "call_id_of sample_invite = ''c1''" "header sample_invite ''proxy-authorization'' = sample_auth"
  "sample_auth \<noteq> []" "request_method sample_invite = Some ''INVITE''" "body sample_invite \<noteq> []"
  "wa_gateway_mode sample_wa_config = False" "sandbox_mode sample_wa_config"
  by code_simp+

lemma sample_digest:
  "verify_digest (env_md5 sample_wa_env) (env_sha256 sample_wa_env) sample_auth
     (wa_sip_username sample_wa_config) (wa_sip_password sample_wa_config) ''INVITE'' = Some True"
  by code_simp

lemma sample_crypto:
  "create_srtp_contexts (replicate 30 2) (body sample_invite) =
     Inr (Some \<lparr>srtp_key = replicate 30 2, srtp_is_sender = True\<rparr>,
          Some \<lparr>srtp_key = replicate 30 0, srtp_is_sender = False\<rparr>)"
  by code_simp

lemma sample_opens:
  "\<exists>call r. open_session sample_wa_env sample_wa_config sample_invite ''c1'' s =
      (add_session ''c1'' call s, r) \<and> call_payload_type call = Some 7 \<and>
    call_sender call = Some \<lparr>srtp_key = replicate 30 2, srtp_is_sender = True\<rparr>"
proof -
  have "env_bind sample_wa_env = Some 9" "env_opus_ok sample_wa_env x" "env_sender_key sample_wa_env = replicate 30 2" for x
    by (simp_all add: sample_wa_env_def)
  then show ?thesis
    using sample_remote sample_crypto sample_headers
    by (simp add: open_session_def Let_def gateway_user_def) (rule exI, rule conjI, rule refl, simp)
qed

lemma sample_invite_opens:
  assumes "pending_challenges s = []" and "length (active_sessions s) < 2"
  shows "handle_invite sample_wa_env 2 sample_wa_config sample_invite s =
    open_session sample_wa_env sample_wa_config sample_invite ''c1'' s"
proof -
  have "drop_pending ''c1'' s = s" by (simp add: assms(1) drop_pending_def)
  then show ?thesis
    using sample_headers sample_digest assms
    by (simp add: handle_invite_def Let_def nonce_mismatch_def)
qed

lemma sample_result:
  "\<exists>call r. handle_sip_message (\<lambda>_ _. None) sample_wa_env 2 sample_wa_config [] ''1.1.1.1''
      empty_server sample_invite = (add_session ''c1'' call empty_server, r) \<and>
    call_payload_type call = Some 7 \<and>
    call_sender call = Some \<lparr>srtp_key = replicate 30 2, srtp_is_sender = True\<rparr>"
  using sample_opens [of empty_server] sample_headers sample_invite_opens [of empty_server]
  by (simp add: handle_sip_message_def check_ip_allowed_def empty_server_def)

theorem session_needs_authentication_witness:
  "verify_digest (env_md5 sample_wa_env) (env_sha256 sample_wa_env)
     (header sample_invite ''proxy-authorization'') (wa_sip_username sample_wa_config)
     (wa_sip_password sample_wa_config) ''INVITE'' = Some True"
proof -
  obtain call r where "handle_sip_message (\<lambda>_ _. None) sample_wa_env 2 sample_wa_config [] ''1.1.1.1''
      empty_server sample_invite = (add_session ''c1'' call empty_server, r)"
    using sample_result by blast
  from session_needs_authentication [OF this] show ?thesis by (simp add: add_session_def)
qed

theorem unchallenged_header_accepted_witness:
  "handle_invite sample_wa_env 2 sample_wa_config sample_invite empty_server =
     open_session sample_wa_env sample_wa_config sample_invite (call_id_of sample_invite) empty_server"
  by (rule unchallenged_header_accepted [OF _ _ sample_headers(2,3) sample_digest])
     (simp_all add: empty_server_def)

theorem advertised_key_is_not_the_senders_witness:
  "\<exists>(resp :: sip_message) (crypto :: sdes_crypto).
    parse_sdes_crypto (body resp) = Inr (Some crypto) \<and>
    sdes_key crypto = replicate 30 1 \<and> sdes_key crypto \<noteq> replicate 30 2"
proof -
  obtain call r where h: "handle_sip_message (\<lambda>_ _. None) sample_wa_env 2 sample_wa_config [] ''1.1.1.1''
      empty_server sample_invite = (add_session ''c1'' call empty_server, r)"
    "call_payload_type call = Some 7"
    "call_sender call = Some \<lparr>srtp_key = replicate 30 2, srtp_is_sender = True\<rparr>"
    using sample_result by blast
  have ip: "ip_text (resolve_advertised_ip (env_public_ip sample_wa_env) (env_probe sample_wa_env)
      (wa_sip_host sample_wa_config))"
    by code_simp
  have key: "env_answer_key sample_wa_env = replicate 30 1"
    by (simp add: sample_wa_env_def)
  have "length (env_answer_key sample_wa_env) = 30" by (simp add: key)
  from advertised_key_is_not_the_senders [OF h(1) _ _ h(2,3) this ip] obtain resp :: sip_message and crypto :: sdes_crypto where
    "parse_sdes_crypto (body resp) = Inr (Some crypto)" "sdes_key crypto = replicate 30 1"
    unfolding key by (simp add: add_session_def sample_headers(1)) metis
  moreover have "replicate 30 (1 :: byte) \<noteq> replicate 30 2" by simp
  ultimately show ?thesis by metis
qed

theorem reinvite_orphans_session_witness:
  "\<exists>s1 s2 r. handle_invite sample_wa_env 2 sample_wa_config sample_invite s1 = (s2, r) \<and>
    dget (live s1) 0 = Some ''c1'' \<and> dget (active_sessions (session_done 0 s2)) ''c1'' = None \<and>
    dget (live (session_done 0 s2)) 1 = Some ''c1''"
proof -
  define call :: wa_call where "call = undefined"
  let ?s1 = "add_session ''c1'' call empty_server"
  have s1: "pending_challenges ?s1 = []" "length (active_sessions ?s1) < 2" "next_task ?s1 = 1"
      "dget (live ?s1) 0 = Some ''c1''"
    by (simp_all add: add_session_def empty_server_def)
  obtain call2 r where "open_session sample_wa_env sample_wa_config sample_invite ''c1'' ?s1 =
      (add_session ''c1'' call2 ?s1, r)"
    using sample_opens by blast
  then have h: "handle_invite sample_wa_env 2 sample_wa_config sample_invite ?s1 =
      (add_session ''c1'' call2 ?s1, r)"
    using sample_invite_opens [OF s1(1,2)] by simp
  have "next_task (add_session ''c1'' call2 ?s1) \<noteq> next_task ?s1" by (simp add: add_session_def)
  from reinvite_orphans_session [OF h this, of 0] show ?thesis
    using h s1 by (auto simp: sample_headers(1))
qed

end
