(* ===== verification/Float64.thy ===== *)
theory Float64
  imports Prelude
begin

text \<open>
  Python's \<open>float\<close>.  A double is its exact rational value; every arithmetic operation of
  the code is the exact operation followed by \<open>fl\<close>, rounding to 53 significant bits,
  ties to even.  Infinities, NaN, overflow and subnormal numbers are not modelled: the
  quantities computed with floats (money, sample positions, rates) stay far inside
  the normal range.  \<open>py_round\<close> is \<open>round(x)\<close>, \<open>py_trunc\<close> is \<open>int(x)\<close>.
\<close>

fun ilog2 :: "nat \<Rightarrow> nat" where
  "ilog2 n = (if n < 2 then 0 else Suc (ilog2 (n div 2)))"

declare ilog2.simps [simp del]

definition clog2 :: "nat \<Rightarrow> nat" where
  "clog2 n = (if n \<le> 1 then 0 else Suc (ilog2 (n - 1)))"

text \<open>The exponent of the leading bit of a positive rational.\<close>

definition lead_exp :: "rat \<Rightarrow> int" where
  "lead_exp q = (if 1 \<le> q then int (ilog2 (nat \<lfloor>q\<rfloor>)) else - int (clog2 (nat \<lceil>1 / q\<rceil>)))"

definition round_even :: "rat \<Rightarrow> int" where
  "round_even q = (let f = \<lfloor>q\<rfloor>; r = q - of_int f in
     if r < 1 / 2 then f else if r > 1 / 2 then f + 1 else if even f then f else f + 1)"

definition pow2 :: "int \<Rightarrow> rat" where
  "pow2 e = (if 0 \<le> e then 2 ^ nat e else 1 / 2 ^ nat (- e))"

definition fl :: "rat \<Rightarrow> rat" where
  "fl q = (if q = 0 then 0 else
     let u = pow2 (lead_exp \<bar>q\<bar> - 52) in of_int (round_even (q / u)) * u)"

definition py_round :: "rat \<Rightarrow> int" where
  "py_round q = round_even q"

definition py_trunc :: "rat \<Rightarrow> int" where
  "py_trunc q = (if 0 \<le> q then \<lfloor>q\<rfloor> else \<lceil>q\<rceil>)"

lemma fl_0 [simp]: "fl 0 = 0"
  by (simp add: fl_def)

lemma pow2_pos [simp]: "0 < pow2 e"
  by (simp add: pow2_def)

lemma pow2_nonneg [simp]: "0 \<le> pow2 e"
  by (simp add: less_imp_le)

lemma round_even_of_int [simp]: "round_even (of_int i) = i"
  by (simp add: round_even_def)

lemma round_even_bounds: "q - 1 / 2 \<le> of_int (round_even q)" "of_int (round_even q) \<le> q + 1 / 2"
  unfolding round_even_def Let_def
  by (simp_all split: if_splits) (linarith | simp)+

lemma round_even_mono:
  assumes "p \<le> q"
  shows "round_even p \<le> round_even q"
proof (cases "\<lfloor>p\<rfloor> = \<lfloor>q\<rfloor>")
  case True
  with assms show ?thesis by (auto simp: round_even_def Let_def)
next
  case False
  with floor_mono [OF assms] have "\<lfloor>p\<rfloor> + 1 \<le> \<lfloor>q\<rfloor>" by linarith
  then show ?thesis by (auto simp: round_even_def Let_def)
qed

text \<open>Rounding never changes the sign and moves a value by at most half a unit.\<close>

lemma fl_nonneg: "0 \<le> q \<Longrightarrow> 0 \<le> fl q"
proof -
  assume q: "0 \<le> q"
  have "0 \<le> q / pow2 (lead_exp \<bar>q\<bar> - 52)" using q by (simp add: less_imp_le)
  from round_even_mono [OF this] have "0 \<le> round_even (q / pow2 (lead_exp \<bar>q\<bar> - 52))"
    by (simp add: round_even_def [of 0])
  then have "0 \<le> of_int (round_even (q / pow2 (lead_exp \<bar>q\<bar> - 52))) * pow2 (lead_exp \<bar>q\<bar> - 52)"
    by (intro mult_nonneg_nonneg) simp_all
  then show ?thesis by (simp add: fl_def Let_def)
qed

lemma fl_error: "\<bar>fl q - q\<bar> \<le> pow2 (lead_exp \<bar>q\<bar> - 52) / 2"
proof (cases "q = 0")
  case True
  then show ?thesis by (simp add: less_imp_le)
next
  case False
  define u where "u = pow2 (lead_exp \<bar>q\<bar> - 52)"
  have u: "0 < u" by (simp add: u_def)
  have "fl q - q = (of_int (round_even (q / u)) - q / u) * u"
    using False u by (simp add: fl_def Let_def u_def [symmetric] algebra_simps)
  also have "\<bar>\<dots>\<bar> = \<bar>of_int (round_even (q / u)) - q / u\<bar> * u"
    using u by (simp add: abs_mult)
  also have "\<dots> \<le> 1 / 2 * u"
    using round_even_bounds [of "q / u"] u by (intro mult_right_mono) linarith+
  finally show ?thesis by (simp add: u_def)
qed

lemma ilog2_le: "0 < n \<Longrightarrow> 2 ^ ilog2 n \<le> n"
proof (induction n rule: ilog2.induct)
  case (1 n)
  show ?case
  proof (cases "n < 2")
    case True
    then show ?thesis using 1 by (simp add: ilog2.simps [of n])
  next
    case False
    then have "2 ^ ilog2 (n div 2) \<le> n div 2" using 1 by simp
    then show ?thesis using False by (subst ilog2.simps) simp
  qed
qed

lemma ilog2_less: "n < 2 ^ Suc (ilog2 n)"
proof (induction n rule: ilog2.induct)
  case (1 n)
  show ?case
  proof (cases "n < 2")
    case True
    then show ?thesis by (simp add: ilog2.simps [of n])
  next
    case False
    then have "n div 2 < 2 ^ Suc (ilog2 (n div 2))" using 1 by simp
    then have "n < 2 * 2 ^ Suc (ilog2 (n div 2))" by simp
    then show ?thesis using False by (subst ilog2.simps) simp
  qed
qed

lemma clog2_ge: "n \<le> 2 ^ clog2 n"
  using ilog2_less [of "n - 1"] by (auto simp: clog2_def)

lemma pow2_uminus: "pow2 (- int c) = 1 / 2 ^ c"
  by (cases "c = 0") (simp_all add: pow2_def)

lemma lead_exp_le:
  assumes "0 < q"
  shows "pow2 (lead_exp q) \<le> q"
proof (cases "1 \<le> q")
  case True
  then have "0 < nat \<lfloor>q\<rfloor>" by (simp add: le_floor_iff)
  from ilog2_le [OF this] have "2 ^ ilog2 (nat \<lfloor>q\<rfloor>) \<le> \<lfloor>q\<rfloor>"
    using True by (simp add: le_nat_iff)
  then have "of_int (2 ^ ilog2 (nat \<lfloor>q\<rfloor>)) \<le> q" by (simp only: le_floor_iff)
  then show ?thesis using True by (simp add: lead_exp_def pow2_def)
next
  case False
  define n where "n = nat \<lceil>1 / q\<rceil>"
  have "1 / q \<le> of_nat n" using assms by (simp add: n_def)
  also have "of_nat n \<le> (2 :: rat) ^ clog2 n"
    using clog2_ge [of n] by (metis of_nat_le_iff of_nat_numeral of_nat_power)
  finally have "1 / 2 ^ clog2 n \<le> q" using assms by (simp add: field_simps)
  then show ?thesis using False by (simp add: lead_exp_def pow2_uminus n_def)
qed

lemma pow2_minus_52: "pow2 (e - 52) = pow2 e / 2 ^ 52"
proof (cases "52 \<le> e")
  case True
  then have "nat e = nat (e - 52) + 52" by simp
  then show ?thesis using True by (simp add: pow2_def power_add)
next
  case False
  show ?thesis
  proof (cases "0 \<le> e")
    case True
    then have "52 = nat (52 - e) + nat e" using False by simp
    then have "(2 :: rat) ^ 52 = 2 ^ nat (52 - e) * 2 ^ nat e" by (metis power_add)
    then have "(2 :: rat) ^ 52 / 2 ^ nat (52 - e) = 2 ^ nat e"
      by (metis nonzero_mult_div_cancel_left power_not_zero zero_neq_numeral)
    then show ?thesis using True False by (simp add: pow2_def field_simps)
  next
    case False
    then have "nat (52 - e) = nat (- e) + 52" by simp
    then show ?thesis using False by (simp add: pow2_def power_add)
  qed
qed

text \<open>The relative error of one operation.\<close>

lemma fl_relative: "\<bar>fl q - q\<bar> \<le> \<bar>q\<bar> / 2 ^ 53"
proof (cases "q = 0")
  case False
  then have "pow2 (lead_exp \<bar>q\<bar>) \<le> \<bar>q\<bar>" by (intro lead_exp_le) simp
  then have "pow2 (lead_exp \<bar>q\<bar> - 52) / 2 \<le> \<bar>q\<bar> / 2 ^ 53" by (simp add: pow2_minus_52)
  with fl_error [of q] show ?thesis by linarith
qed simp

lemma fl_bounds:
  assumes "0 \<le> q"
  shows "q * (1 - 1 / 2 ^ 53) \<le> fl q" and "fl q \<le> q * (1 + 1 / 2 ^ 53)"
proof -
  have "\<bar>fl q - q\<bar> \<le> q / 2 ^ 53" using fl_relative [of q] assms by simp
  then have "q - q / 2 ^ 53 \<le> fl q" and "fl q \<le> q + q / 2 ^ 53" by linarith+
  then show "q * (1 - 1 / 2 ^ 53) \<le> fl q" and "fl q \<le> q * (1 + 1 / 2 ^ 53)"
    by (simp_all only: right_diff_distrib distrib_left mult_1_right times_divide_eq_right)
qed

lemma fl_example: "fl (115 / 100) = 5179139571476070 / 4503599627370496"
  by code_simp

lemma fl_example2: "fl (fl 100 * fl (115 / 100)) < 115"
  by code_simp

end
