(* ===== verification/Codec_Bridge.thy ===== *)
theory Codec_Bridge
  imports Audio_Codec Float64
begin

text \<open>
  \<open>sip_bridge/codec_bridge.py\<close>: the linear resamplers between 24 kHz and the encoder rates,
  written with Python floats, and the two codec bridges.  The encoder and decoder objects
  of \<open>opuslib_next\<close> are not under src/: they are arguments.  \<open>None\<close> is an exception
  (\<open>struct.error\<close> for an odd number of bytes, or the codec's own).
\<close>

section \<open>Resampling\<close>

text \<open>One output sample: \<open>src\<close> is the fractional input position.\<close>

definition lerp_sample :: "int list \<Rightarrow> rat \<Rightarrow> int" where
  "lerp_sample samples src =
     (let n = length samples; idx = nat (py_trunc src); frac = fl (src - of_nat idx);
          val = (if idx + 1 < n
            then py_trunc (fl (fl (of_int (samples ! idx) * fl (1 - frac)) +
                               fl (of_int (samples ! (idx + 1)) * frac)))
            else samples ! min idx (n - 1))
      in max (- 32768) (min 32767 val))"

definition resample_with :: "(nat \<Rightarrow> nat) \<Rightarrow> (nat \<Rightarrow> rat) \<Rightarrow> bytes \<Rightarrow> bytes option" where
  "resample_with n_out src pcm =
     (let n = length pcm div 2 in
      if n = 0 then Some []
      else Option.bind (unpack_samples pcm) (\<lambda>samples.
        pack_samples (map (\<lambda>i. lerp_sample samples (src i)) [0..<n_out n])))"

definition resample_24k_to_16k :: "bytes \<Rightarrow> bytes option" where
  "resample_24k_to_16k pcm16_24k =
     resample_with (\<lambda>n. n * 2 div 3) (\<lambda>i. fl (of_nat i * (3 / 2))) pcm16_24k"

definition resample_16k_to_24k :: "bytes \<Rightarrow> bytes option" where
  "resample_16k_to_24k pcm16_16k =
     resample_with (\<lambda>n. n * 3 div 2) (\<lambda>i. fl (of_nat i * fl (2 / 3))) pcm16_16k"

definition resample_24k_to_rate :: "bytes \<Rightarrow> nat \<Rightarrow> bytes option" where
  "resample_24k_to_rate pcm16_24k target_rate =
     (let ratio = fl (of_nat target_rate / 24000) in
      resample_with (\<lambda>n. nat (py_trunc (fl (of_nat n * ratio)))) (\<lambda>i. fl (of_nat i / ratio)) pcm16_24k)"

section \<open>The G.711 bridge\<close>

definition g711_decode :: "bytes \<Rightarrow> bytes option" where
  "g711_decode encoded = Option.bind (ulaw_to_pcm16 encoded) resample_8k_to_16k"

definition g711_encode :: "bytes \<Rightarrow> bytes option" where
  "g711_encode pcm16_24k = Option.bind (resample_24k_to_8k pcm16_24k) pcm16_to_ulaw"

section \<open>The Opus bridge\<close>

record opus_bridge =
  opus_rtp_payload_type :: "nat option"
  opus_rtp_clock_rate :: nat
  opus_encode_rate :: nat
  opus_encode_frame_samples :: nat
  opus_decode_frame_samples :: nat

definition opus_bridge_init :: "nat option \<Rightarrow> nat \<Rightarrow> nat \<Rightarrow> opus_bridge" where
  "opus_bridge_init rtp_payload_type rtp_clock_rate encode_rate =
     \<lparr>opus_rtp_payload_type = rtp_payload_type, opus_rtp_clock_rate = rtp_clock_rate,
      opus_encode_rate = encode_rate, opus_encode_frame_samples = encode_rate * 20 div 1000,
      opus_decode_frame_samples = 16000 * 20 div 1000\<rparr>"

definition opus_decode :: "(bytes \<Rightarrow> nat \<Rightarrow> bytes option) \<Rightarrow> opus_bridge \<Rightarrow> bytes \<Rightarrow> bytes option" where
  "opus_decode lib_decode b encoded = lib_decode encoded (opus_decode_frame_samples b)"

definition opus_encode :: "(bytes \<Rightarrow> nat \<Rightarrow> bytes option) \<Rightarrow> opus_bridge \<Rightarrow> bytes \<Rightarrow> bytes option" where
  "opus_encode lib_encode b pcm16_24k =
     Option.bind
       (if opus_encode_rate b = 24000 then Some pcm16_24k
        else if opus_encode_rate b = 16000 then resample_24k_to_16k pcm16_24k
        else resample_24k_to_rate pcm16_24k (opus_encode_rate b))
       (\<lambda>pcm_input. lib_encode pcm_input (opus_encode_frame_samples b))"

section \<open>Lemmas\<close>

lemma lerp_sample_int16: "int16 (lerp_sample samples src)"
  by (simp add: lerp_sample_def Let_def int16_def)

lemma resample_with_total:
  assumes "even (length pcm)"
  shows "\<exists>out. resample_with n_out src pcm = Some out \<and>
    length out = (if length pcm div 2 = 0 then 0 else 2 * n_out (length pcm div 2))"
proof -
  obtain ss where ss: "unpack_samples pcm = Some ss" using assms unpack_samples_even by blast
  have "list_all int16 (map (\<lambda>i. lerp_sample ss (src i)) [0..<n_out (length pcm div 2)])"
    by (simp add: list_all_iff lerp_sample_int16)
  then obtain out where out: "pack_samples (map (\<lambda>i. lerp_sample ss (src i)) [0..<n_out (length pcm div 2)]) = Some out"
    using pack_samples_Some_iff by blast
  then show ?thesis
    using length_pack_samples [OF out] by (simp add: resample_with_def Let_def ss)
qed

lemma resample_with_odd:
  "odd (length pcm) \<Longrightarrow> 1 < length pcm \<Longrightarrow> resample_with n_out src pcm = None"
  using unpack_samples_even [of pcm] by (cases "unpack_samples pcm") (auto simp: resample_with_def Let_def)

lemma resample_24k_to_8k_total:
  assumes "even (length pcm)"
  shows "\<exists>out. resample_24k_to_8k pcm = Some out \<and> even (length out) \<and>
    length out = 2 * ((length pcm div 2 + 2) div 3)"
proof -
  obtain ss where ss: "unpack_samples pcm = Some ss" using assms unpack_samples_even by blast
  have "list_all int16 (every_third ss)"
    using unpack_samples_int16 [OF ss] every_third_subset [of ss] by (auto simp: list_all_iff)
  then obtain out where out: "pack_samples (every_third ss) = Some out"
    using pack_samples_Some_iff by blast
  have len: "length out = 2 * ((length pcm div 2 + 2) div 3)"
    using length_pack_samples [OF out] length_unpack_samples [OF ss] by (simp add: length_every_third)
  show ?thesis
  proof (cases "length pcm div 2 = 0")
    case True
    then show ?thesis using len by (simp add: resample_24k_to_8k_def)
  next
    case False
    then show ?thesis using len out by (simp add: resample_24k_to_8k_def ss)
  qed
qed

section \<open>Properties\<close>

lemma g711_decode_total: "\<exists>out. g711_decode encoded = Some out \<and> length out = 4 * length encoded"
proof -
  have "list_all int16 (map (\<lambda>b. ulaw_decode_table ! unat b) encoded)"
    by (simp add: list_all_iff ulaw_table_nth ulaw_entry_facts)
  then obtain pcm where pcm: "ulaw_to_pcm16 encoded = Some pcm"
    using pack_samples_Some_iff by (force simp: ulaw_to_pcm16_def)
  then have "length pcm = 2 * length encoded"
    by (auto simp: ulaw_to_pcm16_def dest: length_pack_samples)
  with pcm resample_8k_to_16k_total [of pcm] show ?thesis by (auto simp: g711_decode_def)
qed

text \<open>
  The telephone bridge never fails on whole samples: every mu-law frame decodes to four
  times as many bytes of 16 kHz audio, and every block of 24 kHz audio with an even number
  of bytes encodes to one byte per three samples (rounded up); with an odd number of bytes
  (and at least one sample) it raises.
\<close>

theorem g711_bridge_total:
  "(\<exists>out. g711_decode encoded = Some out \<and> length out = 4 * length encoded) \<and>
   (even (length pcm) \<longrightarrow> (\<exists>out. g711_encode pcm = Some out \<and> length out = (length pcm div 2 + 2) div 3)) \<and>
   (odd (length pcm) \<longrightarrow> 1 < length pcm \<longrightarrow> g711_encode pcm = None)"
proof (intro conjI impI)
  show "\<exists>out. g711_decode encoded = Some out \<and> length out = 4 * length encoded"
    by (rule g711_decode_total)
  show "\<exists>out. g711_encode pcm = Some out \<and> length out = (length pcm div 2 + 2) div 3" if e: "even (length pcm)"
  proof -
    obtain pcm8 where p8: "resample_24k_to_8k pcm = Some pcm8" "even (length pcm8)"
        "length pcm8 = 2 * ((length pcm div 2 + 2) div 3)"
      using resample_24k_to_8k_total [OF e] by blast
    then obtain ss where "unpack_samples pcm8 = Some ss" using unpack_samples_even by blast
    with p8 show ?thesis using length_unpack_samples [of pcm8 ss]
      by (simp add: g711_encode_def pcm16_to_ulaw_def)
  qed
  show "g711_encode pcm = None" if "odd (length pcm)" "1 < length pcm"
    using that unpack_samples_even [of pcm]
    by (cases "unpack_samples pcm") (auto simp: g711_encode_def resample_24k_to_8k_def)
qed

theorem g711_bridge_total_witness:
  "(\<exists>out. g711_encode [0, 0, 1, 0, 2, 0] = Some out \<and> length out = 1) \<and>
   g711_encode [0, 0, 1] = None"
  using g711_bridge_total [of "[]" "[0, 0, 1, 0, 2, 0]"] g711_bridge_total [of "[]" "[0, 0, 1]"] by simp

lemma ratio_8k: "py_trunc (fl (480 * fl (8000 / 24000))) = 160"
  by code_simp

lemma ratio_12k: "py_trunc (fl (480 * fl (12000 / 24000))) = 240"
  by code_simp

lemma ratio_48k: "py_trunc (fl (480 * fl (48000 / 24000))) = 960"
  by code_simp

text \<open>
  At every rate Opus supports, a 20 ms frame of 24 kHz audio reaches the encoder as
  exactly the number of samples the encoder is told to read, so a frame is never cut or
  read beyond its end, floating-point rates included.
\<close>

theorem opus_frame_matches_encoder:
  assumes "length pcm = 960" and "rate \<in> {8000, 12000, 16000, 24000, 48000}"
  shows "\<exists>input. length input = 2 * opus_encode_frame_samples (opus_bridge_init pt clk rate) \<and>
    opus_encode lib_encode (opus_bridge_init pt clk rate) pcm =
      lib_encode input (opus_encode_frame_samples (opus_bridge_init pt clk rate))"
proof -
  have e: "even (length pcm)" and n: "length pcm div 2 = 480" using assms(1) by simp_all
  have r: "resample_24k_to_rate pcm k = Some out \<Longrightarrow> length out = 2 * nat (py_trunc (fl (480 * fl (of_nat k / 24000))))"
    for k out
    using resample_with_total [OF e, of "\<lambda>n. nat (py_trunc (fl (of_nat n * fl (of_nat k / 24000))))"
        "\<lambda>i. fl (of_nat i / fl (of_nat k / 24000))"]
    by (auto simp: resample_24k_to_rate_def Let_def n)
  have t: "\<exists>out. resample_24k_to_rate pcm k = Some out" for k
    using resample_with_total [OF e] by (auto simp: resample_24k_to_rate_def Let_def)
  have s: "\<exists>out. resample_24k_to_16k pcm = Some out \<and> length out = 640"
    using resample_with_total [OF e, of "\<lambda>n. n * 2 div 3"] by (simp add: resample_24k_to_16k_def n)
  have g: "opus_encode lib_encode (opus_bridge_init pt clk k) pcm =
      Option.bind (resample_24k_to_rate pcm k) (\<lambda>x. lib_encode x (k * 20 div 1000))"
    if "k \<noteq> 24000" "k \<noteq> 16000" for k
    using that by (simp add: opus_encode_def opus_bridge_init_def)
  obtain o8 o12 o48 where o: "resample_24k_to_rate pcm 8000 = Some o8"
      "resample_24k_to_rate pcm 12000 = Some o12" "resample_24k_to_rate pcm 48000 = Some o48"
    using t by meson
  from assms(2) consider "rate = 8000" | "rate = 12000" | "rate = 16000" | "rate = 24000" | "rate = 48000"
    by blast
  then show ?thesis
  proof cases
    case 1
    with g [of 8000] o(1) r [OF o(1)] ratio_8k show ?thesis by (auto simp: opus_bridge_init_def)
  next
    case 2
    with g [of 12000] o(2) r [OF o(2)] ratio_12k show ?thesis by (auto simp: opus_bridge_init_def)
  next
    case 3
    with s show ?thesis by (auto simp: opus_encode_def opus_bridge_init_def)
  next
    case 4
    with assms(1) show ?thesis by (auto simp: opus_encode_def opus_bridge_init_def)
  next
    case 5
    with g [of 48000] o(3) r [OF o(3)] ratio_48k show ?thesis by (auto simp: opus_bridge_init_def)
  qed
qed

theorem opus_frame_matches_encoder_witness:
  "\<exists>input. length input = 2 * 160 \<and>
    opus_encode (\<lambda>x n. Some (take n x)) (opus_bridge_init (Some 111) 48000 8000) (replicate 960 0) =
      Some (take 160 input)"
  using opus_frame_matches_encoder [of "replicate 960 0" 8000 "Some 111" 48000 "\<lambda>x n. Some (take n x)"]
  by (simp add: opus_bridge_init_def)

end
