(* ===== verification/Py_Values.thy ===== *)
theory Py_Values
  imports Py_Strings Float64
begin

text \<open>
  The dynamically typed values that reach the code as JSON or as Firestore fields.  A float
  is its exact value (see \<open>Float64\<close>); a dictionary keeps its order.  \<open>fmt\<close> arguments of
  later theories are \<open>str()\<close> of such a value.
\<close>

datatype py = PNone | PBool bool | PInt int | PFloat rat | PStr string
  | PList "py list" | PDict "(string \<times> py) list"

fun truthy :: "py \<Rightarrow> bool" where
  "truthy PNone = False"
| "truthy (PBool b) = b"
| "truthy (PInt i) = (i \<noteq> 0)"
| "truthy (PFloat q) = (q \<noteq> 0)"
| "truthy (PStr s) = (s \<noteq> [])"
| "truthy (PList xs) = (xs \<noteq> [])"
| "truthy (PDict d) = (d \<noteq> [])"

text \<open>\<open>isinstance(v, int)\<close>, which holds of booleans, and the integer meant.\<close>

fun as_int :: "py \<Rightarrow> int option" where
  "as_int (PInt i) = Some i"
| "as_int (PBool b) = Some (of_bool b)"
| "as_int _ = None"

text \<open>\<open>int(v)\<close>; \<open>None\<close> is \<open>TypeError\<close> or \<open>ValueError\<close>.\<close>

fun to_int :: "py \<Rightarrow> int option" where
  "to_int (PInt i) = Some i"
| "to_int (PBool b) = Some (of_bool b)"
| "to_int (PFloat q) = Some (py_trunc q)"
| "to_int (PStr s) = py_int s"
| "to_int _ = None"

definition py_get :: "(string \<times> py) list \<Rightarrow> string \<Rightarrow> py" where
  "py_get d k = dget_default d k PNone"

text \<open>\<open>f"{n:,}"\<close>: decimal digits in groups of three.\<close>

fun group3 :: "string \<Rightarrow> string" where
  "group3 (a # b # c # d # r) = a # b # c # CHR '','' # group3 (d # r)"
| "group3 s = s"

definition format_commas :: "int \<Rightarrow> string" where
  "format_commas i = (if i < 0 then ''-'' else []) @ rev (group3 (rev (nat_str (nat \<bar>i\<bar>))))"

definition naira :: string where
  "naira = [CHR 0xE2, CHR 0x82, CHR 0xA6]"

definition format_naira :: "int \<Rightarrow> string" where
  "format_naira i = naira @ format_commas i"

text \<open>Dropping the commas gives the digits back.\<close>

lemma filter_group3: "list_all is_digit s \<Longrightarrow> filter is_digit (group3 s) = s"
  by (induction s rule: group3.induct) (auto simp: is_digit_def code_def)

lemma format_commas_digits: "filter is_digit (format_commas i) = nat_str (nat \<bar>i\<bar>)"
proof -
  have "list_all is_digit (rev (nat_str (nat \<bar>i\<bar>)))"
    using nat_str_digits by (simp add: list_all_iff)
  moreover have "\<not> is_digit (CHR ''-'')" by (simp add: is_digit_def code_def)
  ultimately show ?thesis
    by (simp add: format_commas_def filter_group3 flip: rev_filter)
qed

end
