(* ===== verification/Valuation.thy ===== *)
theory Valuation
  imports Py_Values
begin

text \<open>
  \<open>app/tools/valuation_tools.py\<close>: grading, trade-in prices, negotiation and the
  questionnaire.  The condition grades are strings in the code; the datatype \<open>grade\<close> with
  its order is the abstract view the lemmas refine to.  JSON parsing and \<open>str()\<close> of a
  value are the arguments \<open>json_loads\<close> and \<open>fmt\<close>; error texts are constructors.
\<close>

section \<open>Grades\<close>

datatype grade = Excellent | Good | Fair | Poor

fun grade_name :: "grade \<Rightarrow> string" where
  "grade_name Excellent = ''Excellent''"
| "grade_name Good = ''Good''"
| "grade_name Fair = ''Fair''"
| "grade_name Poor = ''Poor''"

fun grade_level :: "grade \<Rightarrow> nat" where
  "grade_level Excellent = 3" | "grade_level Good = 2" | "grade_level Fair = 1" | "grade_level Poor = 0"

instantiation grade :: linorder
begin

definition less_eq_grade :: "grade \<Rightarrow> grade \<Rightarrow> bool" where
  "less_eq_grade g h \<longleftrightarrow> grade_level g \<le> grade_level h"

definition less_grade :: "grade \<Rightarrow> grade \<Rightarrow> bool" where
  "less_grade g h \<longleftrightarrow> grade_level g < grade_level h"

instance
proof
  fix x y :: grade
  show "x \<le> y \<Longrightarrow> y \<le> x \<Longrightarrow> x = y"
    by (cases x; cases y) (simp_all add: less_eq_grade_def)
qed (auto simp: less_eq_grade_def less_grade_def)

end

definition VALID_GRADES :: "string list" where
  "VALID_GRADES = [''Excellent'', ''Good'', ''Fair'', ''Poor'']"

definition GRADE_ORDER :: "string list" where
  "GRADE_ORDER = [''Excellent'', ''Good'', ''Fair'', ''Poor'']"

type_synonym pricing_table = "(string \<times> py) list"

definition prices :: "int \<Rightarrow> int \<Rightarrow> int \<Rightarrow> int \<Rightarrow> py" where
  "prices e g f p = PDict [(''Excellent'', PInt e), (''Good'', PInt g), (''Fair'', PInt f), (''Poor'', PInt p)]"

definition DEFAULT_PRICING :: pricing_table where
  "DEFAULT_PRICING =
    [(''iPhone 15 Pro Max'', prices 650000 550000 430000 280000),
     (''iPhone 15 Pro'', prices 520000 440000 340000 220000),
     (''iPhone 15'', prices 380000 320000 250000 160000),
     (''iPhone 14 Pro Max'', prices 420000 350000 270000 175000),
     (''iPhone 14 Pro'', prices 350000 290000 225000 145000),
     (''iPhone 14'', prices 280000 230000 180000 115000),
     (''iPhone 13'', prices 200000 165000 125000 80000),
     (''Samsung S24 Ultra'', prices 550000 460000 360000 235000),
     (''Samsung S24'', prices 320000 270000 210000 140000),
     (''Samsung S23'', prices 230000 190000 150000 95000),
     (''Google Pixel 8 Pro'', prices 280000 230000 180000 115000),
     (''Google Pixel 8'', prices 200000 165000 130000 85000)]"

definition TRADE_IN_MULTIPLIERS :: "(string, rat) dict" where
  "TRADE_IN_MULTIPLIERS =
     [(''Excellent'', fl (68 / 100)), (''Good'', fl (58 / 100)), (''Fair'', fl (45 / 100)), (''Poor'', fl (29 / 100))]"

definition ACCEPT_THRESHOLD :: rat where "ACCEPT_THRESHOLD = fl (5 / 100)"

definition REJECT_THRESHOLD_ABOVE_MAX :: rat where "REJECT_THRESHOLD_ABOVE_MAX = fl (15 / 100)"

section \<open>Grading\<close>

record grade_result =
  gr_device_name :: py
  gr_grade :: string
  gr_summary :: string

definition detail_part :: "(py \<Rightarrow> string) \<Rightarrow> (string \<times> py) list \<Rightarrow> string \<Rightarrow> string list" where
  "detail_part fmt details key =
     (let v = py_get details key in
      if \<not> truthy v then []
      else case v of
        PDict d \<Rightarrow> (let desc = dget_default d ''description'' (PStr []) in
          if truthy desc then [key @ '': '' @ fmt desc] else [])
      | _ \<Rightarrow> [key @ '': '' @ fmt v])"

definition grade_device :: "(py \<Rightarrow> string) \<Rightarrow> (string \<times> py) list \<Rightarrow> grade_result" where
  "grade_device fmt analysis =
     (let condition = dget_default analysis ''condition'' (PStr ''Unknown'');
          details = (case py_get analysis ''details'' of PDict d \<Rightarrow> d | _ \<Rightarrow> []);
          grade = (case condition of PStr s \<Rightarrow> if s \<in> set VALID_GRADES then s else ''Fair'' | _ \<Rightarrow> ''Fair'');
          parts = concat (map (detail_part fmt details) [''screen'', ''body'', ''battery'', ''functionality''])
      in \<lparr>gr_device_name = dget_default analysis ''device_name'' (PStr ''Unknown''),
          gr_grade = grade,
          gr_summary = (if parts \<noteq> [] then join ''; '' parts else ''Graded as '' @ grade)\<rparr>)"

section \<open>Trade-in value\<close>

record value_result =
  vr_device_name :: py
  vr_grade :: string
  vr_offer :: int
  vr_formatted :: string
  vr_retail :: "int option"
  vr_not_found :: bool

text \<open>
  \<open>Inl ()\<close> is the \<open>TypeError\<close> for a device name that cannot be hashed (a list or a
  dictionary).
\<close>

definition table_prices :: "pricing_table \<Rightarrow> py \<Rightarrow> unit + (string \<times> py) list option" where
  "table_prices table device_name =
     (case device_name of
        PList _ \<Rightarrow> Inl ()
      | PDict _ \<Rightarrow> Inl ()
      | PStr s \<Rightarrow> (if s \<noteq> ''Unknown'' then
            (case dget table s of Some (PDict d) \<Rightarrow> Inr (Some d) | _ \<Rightarrow> Inr None) else Inr None)
      | _ \<Rightarrow> Inr None)"

definition calculate_trade_in_value ::
  "py \<Rightarrow> string \<Rightarrow> pricing_table option \<Rightarrow> py \<Rightarrow> unit + value_result" where
  "calculate_trade_in_value device_name grade pricing retail_price =
     (case table_prices (case pricing of Some t \<Rightarrow> t | None \<Rightarrow> DEFAULT_PRICING) device_name of
        Inl e \<Rightarrow> Inl e
      | Inr (Some device_prices) \<Rightarrow>
          (let offer = (case to_int (dget_default device_prices grade (PInt 0)) of Some i \<Rightarrow> i | None \<Rightarrow> 0)
           in Inr \<lparr>vr_device_name = device_name, vr_grade = grade, vr_offer = offer,
                vr_formatted = format_naira offer, vr_retail = None, vr_not_found = False\<rparr>)
      | Inr None \<Rightarrow>
          (case as_int retail_price of
             Some retail \<Rightarrow>
               (if 0 < retail then
                  (let multiplier = dget_default TRADE_IN_MULTIPLIERS grade (the (dget TRADE_IN_MULTIPLIERS ''Fair''));
                       offer = py_round (fl (fl (of_int retail) * multiplier))
                   in Inr \<lparr>vr_device_name = device_name, vr_grade = grade, vr_offer = offer,
                        vr_formatted = format_naira offer, vr_retail = Some retail, vr_not_found = False\<rparr>)
                else Inr \<lparr>vr_device_name = device_name, vr_grade = grade, vr_offer = 0,
                        vr_formatted = naira @ ''0'', vr_retail = None, vr_not_found = True\<rparr>)
           | None \<Rightarrow> Inr \<lparr>vr_device_name = device_name, vr_grade = grade, vr_offer = 0,
                        vr_formatted = naira @ ''0'', vr_retail = None, vr_not_found = True\<rparr>))"

section \<open>Negotiation\<close>

datatype decision = Accept int int | Counter int int | Reject int int int

text \<open>
  \<open>Accept offer final\<close>, \<open>Counter offer counter\<close>, \<open>Reject offer max threshold\<close>.
\<close>

definition accept_limit :: "int \<Rightarrow> rat" where
  "accept_limit offer_amount = fl (fl (of_int offer_amount) * fl (1 + ACCEPT_THRESHOLD))"

definition hard_reject_ceiling :: "int \<Rightarrow> int" where
  "hard_reject_ceiling max_amount =
     py_trunc (fl (fl (of_int max_amount) * fl (1 + REJECT_THRESHOLD_ABOVE_MAX)))"

definition process_negotiation :: "int \<Rightarrow> int \<Rightarrow> int \<Rightarrow> decision" where
  "process_negotiation offer_amount customer_ask max_amount =
     (if customer_ask \<le> 0 then Accept offer_amount offer_amount
      else if customer_ask \<le> offer_amount then Accept offer_amount offer_amount
      else if of_int customer_ask \<le> accept_limit offer_amount then Accept offer_amount customer_ask
      else if hard_reject_ceiling max_amount < customer_ask
      then Reject offer_amount max_amount (hard_reject_ceiling max_amount)
      else Counter offer_amount (min ((offer_amount + customer_ask) div 2) max_amount))"

section \<open>The questionnaire\<close>

fun index_of :: "'a \<Rightarrow> 'a list \<Rightarrow> nat option" where
  "index_of x [] = None"
| "index_of x (y # ys) = (if x = y then Some 0 else map_option Suc (index_of x ys))"

definition downgrade :: "string \<Rightarrow> nat \<Rightarrow> string" where
  "downgrade grade steps =
     (let idx = (case index_of grade GRADE_ORDER of Some i \<Rightarrow> i | None \<Rightarrow> 2) in
      GRADE_ORDER ! min (idx + steps) (length GRADE_ORDER - 1))"

definition is_integer_text :: "string \<Rightarrow> bool" where
  "is_integer_text s \<longleftrightarrow>
     (let t = strip s; d = (case t of c # r \<Rightarrow> if c = CHR ''-'' then r else t | [] \<Rightarrow> [])
      in d \<noteq> [] \<and> list_all is_digit d)"

fun parse_battery :: "py \<Rightarrow> int option" where
  "parse_battery (PInt i) = (if 0 \<le> i \<and> i \<le> 100 then Some i else None)"
| "parse_battery (PStr s) =
     (if \<not> is_integer_text s then None
      else case py_int (strip s) of
        Some i \<Rightarrow> if 0 \<le> i \<and> i \<le> 100 then Some i else None
      | None \<Rightarrow> None)"
| "parse_battery _ = None"

datatype adjustment = ForcedPoor string | BatteryDown int nat | OneDown string

record adjusted_grade =
  final_grade :: string
  original_vision_grade :: string
  adjustments :: "adjustment list"

definition FORCE_POOR :: "string list" where
  "FORCE_POOR = [''does_not_power_on'', ''water_damage'', ''account_locked'']"

definition DOWNGRADES :: "string list" where
  "DOWNGRADES = [''previous_repair'', ''biometric_not_working'', ''screen_burn_in'', ''buttons_not_functional'']"

definition battery_steps :: "int option \<Rightarrow> nat" where
  "battery_steps pct = (case pct of None \<Rightarrow> 0 | Some p \<Rightarrow> if p < 60 then 2 else if p < 80 then 1 else 0)"

fun apply_downgrades ::
  "(string, py) dict \<Rightarrow> string list \<Rightarrow> string \<times> adjustment list \<Rightarrow> string \<times> adjustment list" where
  "apply_downgrades answers [] st = st"
| "apply_downgrades answers (key # keys) (grade, adj) =
     apply_downgrades answers keys
       (if dget answers key = Some (PBool True) then (downgrade grade 1, adj @ [OneDown key]) else (grade, adj))"

definition adjust_grade_from_questionnaire :: "string \<Rightarrow> (string, py) dict \<Rightarrow> adjusted_grade" where
  "adjust_grade_from_questionnaire vision_grade answers =
     (case find (\<lambda>key. dget answers key = Some (PBool True)) FORCE_POOR of
        Some key \<Rightarrow> \<lparr>final_grade = ''Poor'', original_vision_grade = vision_grade, adjustments = [ForcedPoor key]\<rparr>
      | None \<Rightarrow>
          (let grade = (if vision_grade \<in> set GRADE_ORDER then vision_grade else ''Fair'');
               battery_pct = parse_battery (py_get answers ''battery_health_pct'');
               (grade, adj) =
                 (case battery_pct of
                    None \<Rightarrow> (grade, [])
                  | Some p \<Rightarrow>
                      if p < 60 then (downgrade grade 2, [BatteryDown p 2])
                      else if p < 80 then (downgrade grade 1, [BatteryDown p 1]) else (grade, []));
               (grade, adj) = apply_downgrades answers DOWNGRADES (grade, adj)
           in \<lparr>final_grade = grade, original_vision_grade = vision_grade, adjustments = adj\<rparr>))"

record question =
  q_id :: string
  q_text :: string
  q_number :: bool
  q_invert :: bool

definition arrow :: string where
  "arrow = [CHR 0xE2, CHR 0x86, CHR 0x92]"

definition bool_question :: "string \<Rightarrow> string \<Rightarrow> bool \<Rightarrow> question" where
  "bool_question i t invert = \<lparr>q_id = i, q_text = t, q_number = False, q_invert = invert\<rparr>"

definition UNIVERSAL_QUESTIONS :: "question list" where
  "UNIVERSAL_QUESTIONS =
    [bool_question ''does_not_power_on'' ''Does the device power on and hold a charge?'' True,
     bool_question ''water_damage'' ''Has the device ever been exposed to water damage?'' False,
     bool_question ''buttons_not_functional'' ''Are all physical buttons working?'' True,
     bool_question ''previous_repair'' ''Has the device been repaired before?'' False]"

definition BRAND_QUESTIONS :: "(string, question list) dict" where
  "BRAND_QUESTIONS =
    [(''apple'',
       [\<lparr>q_id = ''battery_health_pct'',
         q_text = ''What's the battery health %? (Settings '' @ arrow @ '' Battery '' @ arrow @ '' Battery Health)'',
         q_number = True, q_invert = False\<rparr>,
        bool_question ''account_locked'' ''Have you signed out of iCloud and disabled Find My?'' True,
        bool_question ''biometric_not_working'' ''Does Face ID / Touch ID work?'' True]),
     (''samsung'',
       [bool_question ''screen_burn_in'' ''Do you notice any ghost images or burn-in on the display?'' False,
        bool_question ''account_locked'' ''Have you removed your Samsung account?'' True])]"

definition get_device_questionnaire :: "py \<Rightarrow> question list" where
  "get_device_questionnaire device_brand =
     (let brand_key = (case device_brand of PStr s \<Rightarrow> lower (strip s) | _ \<Rightarrow> []) in
      UNIVERSAL_QUESTIONS @ dget_default BRAND_QUESTIONS brand_key [])"

definition YES_VALUES :: "string list" where "YES_VALUES = [''yes'', ''true'', ''1'', ''y'']"

definition NO_VALUES :: "string list" where "NO_VALUES = [''no'', ''false'', ''0'', ''n'']"

fun coerce_bool :: "py \<Rightarrow> bool option" where
  "coerce_bool (PBool b) = Some b"
| "coerce_bool (PStr s) =
     (if lower (strip s) \<in> set YES_VALUES then Some True
      else if lower (strip s) \<in> set NO_VALUES then Some False else None)"
| "coerce_bool _ = None"

definition normalize_questionnaire_answers ::
  "(string, py) dict \<Rightarrow> question list \<Rightarrow> (string, py) dict" where
  "normalize_questionnaire_answers raw_answers questions =
     (let invert_map = fold (\<lambda>q. dset (q_id q) (q_invert q)) questions [];
          number_map = fold (\<lambda>q. dset (q_id q) (q_number q)) questions []
      in fold (\<lambda>(key, v) result.
           if dget number_map key = Some True then dset key v result
           else case coerce_bool v of
             None \<Rightarrow> result
           | Some b \<Rightarrow> dset key (PBool (if dget_default invert_map key False then \<not> b else b)) result)
         raw_answers [])"

section \<open>The tools\<close>

datatype tool_error = InvalidAnalysisJson | AnalysisNotObject | AnalysisNotString | InvalidPricingJson string string

record tool_result =
  tr_grade :: grade_result
  tr_adjusted :: "adjusted_grade option"
  tr_value :: value_result

definition parse_answers :: "(string \<Rightarrow> py option) \<Rightarrow> py \<Rightarrow> (string, py) dict option" where
  "parse_answers json_loads answers =
     (case answers of
        PStr s \<Rightarrow> (if strip s \<noteq> [] then
            (case json_loads s of Some (PDict d) \<Rightarrow> Some d | _ \<Rightarrow> None) else None)
      | _ \<Rightarrow> None)"

text \<open>\<open>None\<close>: the exception of an unhashable device name escapes.\<close>

definition grade_and_value ::
  "(string \<Rightarrow> py option) \<Rightarrow> (py \<Rightarrow> string) \<Rightarrow> (string \<times> py) list \<Rightarrow> pricing_table option \<Rightarrow> py \<Rightarrow> py
   \<Rightarrow> tool_result option" where
  "grade_and_value json_loads fmt analysis pricing answers retail_price =
     (let gr = grade_device fmt analysis;
          parsed = parse_answers json_loads answers;
          adj = map_option (\<lambda>d. adjust_grade_from_questionnaire (gr_grade gr)
              (normalize_questionnaire_answers d
                (get_device_questionnaire (dget_default analysis ''brand'' (PStr ''Unknown''))))) parsed;
          gr = (case adj of None \<Rightarrow> gr | Some a \<Rightarrow> gr\<lparr>gr_grade := final_grade a\<rparr>)
      in case calculate_trade_in_value (gr_device_name gr) (gr_grade gr) pricing retail_price of
           Inl _ \<Rightarrow> None
         | Inr vr \<Rightarrow> Some \<lparr>tr_grade = gr, tr_adjusted = adj, tr_value = vr\<rparr>)"

definition grade_and_value_tool ::
  "(string \<Rightarrow> py option) \<Rightarrow> (py \<Rightarrow> string) \<Rightarrow> py \<Rightarrow> py \<Rightarrow> py \<Rightarrow> py \<Rightarrow> tool_error + tool_result option" where
  "grade_and_value_tool json_loads fmt analysis pricing answers retail_price =
     (case (case analysis of
              PDict d \<Rightarrow> Inr d
            | PStr s \<Rightarrow> (case json_loads s of
                 None \<Rightarrow> Inl InvalidAnalysisJson
               | Some (PDict d) \<Rightarrow> Inr d
               | Some _ \<Rightarrow> Inl AnalysisNotObject)
            | _ \<Rightarrow> Inl AnalysisNotString) of
        Inl er \<Rightarrow> Inl er
      | Inr safe_analysis \<Rightarrow>
          (case (case pricing of
                   PDict t \<Rightarrow> Inr (Some t)
                 | PStr s \<Rightarrow> (if strip s = [] then Inr None
                     else case json_loads s of
                       None \<Rightarrow> Inl (InvalidPricingJson
                         (fmt (dget_default safe_analysis ''device_name'' (PStr ''Unknown'')))
                         (fmt (dget_default safe_analysis ''condition'' (PStr ''Fair''))))
                     | Some (PDict t) \<Rightarrow> Inr (Some t)
                     | Some _ \<Rightarrow> Inr None)
                 | _ \<Rightarrow> Inr None) of
             Inl er \<Rightarrow> Inl er
           | Inr table \<Rightarrow> Inr (grade_and_value json_loads fmt safe_analysis table answers retail_price)))"

definition negotiate_tool :: "int \<Rightarrow> int \<Rightarrow> int \<Rightarrow> decision" where
  "negotiate_tool offer_amount customer_ask max_amount =
     process_negotiation offer_amount customer_ask max_amount"

definition get_device_questionnaire_tool :: "py \<Rightarrow> question list" where
  "get_device_questionnaire_tool device_brand =
     get_device_questionnaire (if truthy device_brand then device_brand else PStr [])"

section \<open>The abstract view of grades\<close>

definition grade_of_level :: "nat \<Rightarrow> grade" where
  "grade_of_level n = (if n = 0 then Poor else if n = 1 then Fair else if n = 2 then Good else Excellent)"

definition worsen :: "grade \<Rightarrow> nat \<Rightarrow> grade" where
  "worsen g n = grade_of_level (grade_level g - n)"

lemma worsen_le: "worsen g n \<le> g"
  by (cases g) (auto simp: worsen_def grade_of_level_def less_eq_grade_def)

lemma worsen_0 [simp]: "worsen g 0 = g"
  by (cases g) (simp_all add: worsen_def grade_of_level_def)

lemma grade_level_of_level: "n \<le> 3 \<Longrightarrow> grade_level (grade_of_level n) = n"
  by (auto simp: grade_of_level_def)

lemma grade_level_le: "grade_level g \<le> 3"
  by (cases g) simp_all

lemma worsen_worsen [simp]: "worsen (worsen g m) n = worsen g (m + n)"
  using grade_level_le [of g] by (simp add: worsen_def grade_level_of_level)

text \<open>\<open>_downgrade\<close> on a grade's name is \<open>worsen\<close> on the grade.\<close>

lemma downgrade_refines: "downgrade (grade_name g) n = grade_name (worsen g n)"
proof -
  consider "n = 0" | "n = 1" | "n = 2" | "3 \<le> n" by linarith
  then show ?thesis
    by cases (cases g; simp add: downgrade_def GRADE_ORDER_def worsen_def grade_of_level_def min_def
      numeral_2_eq_2 numeral_3_eq_3)+
qed

lemma apply_downgrades_grade:
  "fst (apply_downgrades answers keys (grade_name g, adj)) =
     grade_name (worsen g (length (filter (\<lambda>k. dget answers k = Some (PBool True)) keys)))"
proof (induction keys arbitrary: g adj)
  case (Cons k keys)
  show ?case using Cons.IH [of "worsen g 1"] Cons.IH [of g] by (simp add: downgrade_refines)
qed simp

lemma grade_name_valid: "grade_name g \<in> set GRADE_ORDER"
  by (cases g) (simp_all add: GRADE_ORDER_def)

definition steps_down :: "(string, py) dict \<Rightarrow> nat" where
  "steps_down answers = battery_steps (parse_battery (py_get answers ''battery_health_pct'')) +
     length (filter (\<lambda>k. dget answers k = Some (PBool True)) DOWNGRADES)"

lemma adjust_grade_spec:
  "final_grade (adjust_grade_from_questionnaire (grade_name g) answers) =
     (if \<exists>k \<in> set FORCE_POOR. dget answers k = Some (PBool True) then grade_name Poor
      else grade_name (worsen g (steps_down answers)))"
proof (cases "find (\<lambda>key. dget answers key = Some (PBool True)) FORCE_POOR")
  case None
  then have none: "\<not> (\<exists>k \<in> set FORCE_POOR. dget answers k = Some (PBool True))"
    by (simp add: find_None_iff)
  define base where "base = (case parse_battery (py_get answers ''battery_health_pct'') of
      None \<Rightarrow> (grade_name g, []) | Some p \<Rightarrow> if p < 60 then (downgrade (grade_name g) 2, [BatteryDown p 2])
        else if p < 80 then (downgrade (grade_name g) 1, [BatteryDown p 1]) else (grade_name g, []))"
  have "fst base = grade_name (worsen g (battery_steps
      (parse_battery (py_get answers ''battery_health_pct''))))"
    by (simp add: base_def battery_steps_def downgrade_refines split: option.split)
  then have base: "base = (grade_name (worsen g (battery_steps
      (parse_battery (py_get answers ''battery_health_pct'')))), snd base)"
    by (metis prod.collapse)
  have "final_grade (adjust_grade_from_questionnaire (grade_name g) answers) =
      fst (apply_downgrades answers DOWNGRADES base)"
    using None by (simp add: adjust_grade_from_questionnaire_def Let_def grade_name_valid base_def
        split: prod.split option.split)
  also have "\<dots> = grade_name (worsen g (steps_down answers))"
    by (subst base) (simp add: apply_downgrades_grade steps_down_def)
  finally show ?thesis using none by simp
next
  case (Some k)
  then have "k \<in> set FORCE_POOR" "dget answers k = Some (PBool True)"
    by (auto simp: find_Some_iff)
  with Some show ?thesis by (auto simp: adjust_grade_from_questionnaire_def)
qed

lemma grade_device_name: "\<exists>g. gr_grade (grade_device fmt analysis) = grade_name g"
proof -
  have "gr_grade (grade_device fmt analysis) \<in> set VALID_GRADES"
    by (auto simp: grade_device_def Let_def VALID_GRADES_def split: py.splits)
  then show ?thesis
    unfolding VALID_GRADES_def using grade_name.simps by (metis empty_iff list.set(1) set_ConsD)
qed

section \<open>Prices follow the grades\<close>

lemma prices_ordered:
  "p \<le> f \<Longrightarrow> f \<le> g \<Longrightarrow> g \<le> e \<Longrightarrow>
   \<exists>e' g' f' p'. prices e g f p = prices e' g' f' p' \<and> p' \<le> f' \<and> f' \<le> g' \<and> g' \<le> e'"
  by blast

lemma default_prices_ordered:
  "(s, v) \<in> set DEFAULT_PRICING \<Longrightarrow> \<exists>e g f p. v = prices e g f p \<and> p \<le> f \<and> f \<le> g \<and> g \<le> e"
  unfolding DEFAULT_PRICING_def
  by (elim set_ConsD [THEN disjE]) (auto intro!: prices_ordered)

lemma multiplier_bounds:
  "fl (29 / 100) \<le> 30 / 100" "44 / 100 \<le> fl (45 / 100)" "fl (45 / 100) \<le> 46 / 100"
  "57 / 100 \<le> fl (58 / 100)" "fl (58 / 100) \<le> 59 / 100" "67 / 100 \<le> fl (68 / 100)" "0 \<le> fl (29 / 100)"
  by code_simp+

lemma fl_separated:
  assumes "0 \<le> r" and "0 \<le> m" and "m \<le> b" and "b + 5 / 100 \<le> c" and "c \<le> m'" and "b \<le> 1"
  shows "fl (r * m) \<le> fl (r * m')"
proof -
  have "m * (1 + 1 / 2 ^ 53) \<le> b * (1 + 1 / 2 ^ 53)" using assms(3) by (simp add: mult_right_mono)
  also have "\<dots> \<le> (b + 5 / 100) * (1 - 1 / 2 ^ 53)" using assms(2,3,6) by (simp add: algebra_simps)
  also have "\<dots> \<le> m' * (1 - 1 / 2 ^ 53)" using assms(4,5) by (intro mult_right_mono) simp_all
  finally have "r * (m * (1 + 1 / 2 ^ 53)) \<le> r * (m' * (1 - 1 / 2 ^ 53))"
    using assms(1) by (rule mult_left_mono)
  then have mid: "r * m * (1 + 1 / 2 ^ 53) \<le> r * m' * (1 - 1 / 2 ^ 53)" by (simp only: mult.assoc)
  have pos: "0 \<le> r * m" "0 \<le> r * m'" using assms by (simp_all add: mult_nonneg_nonneg)
  from fl_bounds(2) [OF pos(1)] mid have "fl (r * m) \<le> r * m' * (1 - 1 / 2 ^ 53)" by (rule order_trans)
  then show ?thesis using fl_bounds(1) [OF pos(2)] by (rule order_trans)
qed

definition multiplier :: "grade \<Rightarrow> rat" where
  "multiplier g = dget_default TRADE_IN_MULTIPLIERS (grade_name g) (the (dget TRADE_IN_MULTIPLIERS ''Fair''))"

lemma multiplier_mono:
  assumes "g \<le> h" and "0 \<le> r"
  shows "fl (r * multiplier g) \<le> fl (r * multiplier h)"
proof -
  have m: "multiplier Excellent = fl (68 / 100)" "multiplier Good = fl (58 / 100)"
      "multiplier Fair = fl (45 / 100)" "multiplier Poor = fl (29 / 100)"
    by (simp_all add: multiplier_def dget_default_def TRADE_IN_MULTIPLIERS_def)
  note b = multiplier_bounds
  have pf: "fl (r * fl (29 / 100)) \<le> fl (r * fl (45 / 100))"
    by (rule fl_separated [where b = "30 / 100" and c = "44 / 100"]) (use assms b in simp_all)
  have fg: "fl (r * fl (45 / 100)) \<le> fl (r * fl (58 / 100))"
    by (rule fl_separated [where b = "46 / 100" and c = "57 / 100"]) (use assms b in simp_all)
  have ge: "fl (r * fl (58 / 100)) \<le> fl (r * fl (68 / 100))"
    by (rule fl_separated [where b = "59 / 100" and c = "67 / 100"]) (use assms b in simp_all)
  show ?thesis
    using assms(1) pf fg ge order_trans [OF pf fg] order_trans [OF fg ge] order_trans [OF pf order_trans [OF fg ge]]
    by (cases g; cases h) (simp_all add: m less_eq_grade_def)
qed

lemma offer_mono:
  assumes "g \<le> h" and "calculate_trade_in_value d (grade_name g) None retail = Inr v"
  shows "\<exists>w. calculate_trade_in_value d (grade_name h) None retail = Inr w \<and> vr_offer v \<le> vr_offer w"
proof (cases "table_prices DEFAULT_PRICING d")
  case (Inl e)
  with assms(2) show ?thesis by (simp add: calculate_trade_in_value_def)
next
  case (Inr res)
  show ?thesis
  proof (cases res)
    case (Some dp)
    then obtain s where "(s, PDict dp) \<in> set DEFAULT_PRICING"
      using Inr by (auto simp: table_prices_def split: py.splits if_splits option.splits dest!: map_of_SomeD)
    from default_prices_ordered [OF this] obtain e gd f p where
      dp: "dp = [(''Excellent'', PInt e), (''Good'', PInt gd), (''Fair'', PInt f), (''Poor'', PInt p)]"
      and ord: "p \<le> f" "f \<le> gd" "gd \<le> e"
      by (auto simp: prices_def)
    have look: "dget_default dp (grade_name x) (PInt 0) =
        PInt (case x of Excellent \<Rightarrow> e | Good \<Rightarrow> gd | Fair \<Rightarrow> f | Poor \<Rightarrow> p)" for x
      by (cases x) (simp_all add: dp dget_default_def)
    have "(case g of Excellent \<Rightarrow> e | Good \<Rightarrow> gd | Fair \<Rightarrow> f | Poor \<Rightarrow> p) \<le>
        (case h of Excellent \<Rightarrow> e | Good \<Rightarrow> gd | Fair \<Rightarrow> f | Poor \<Rightarrow> p)"
      using assms(1) ord by (cases g; cases h) (simp_all add: less_eq_grade_def)
    then show ?thesis
      using assms(2) by (auto simp: calculate_trade_in_value_def Inr Some look Let_def)
  next
    case None
    show ?thesis
    proof (cases "\<exists>r. as_int retail = Some r \<and> 0 < r")
      case True
      then obtain r where r: "as_int retail = Some r" "0 < r" by blast
      have "0 \<le> fl (of_int r)" using r(2) by (intro fl_nonneg) simp
      from round_even_mono [OF multiplier_mono [OF assms(1) this]] show ?thesis
        using assms(2) r
        by (auto simp: calculate_trade_in_value_def Inr None py_round_def multiplier_def Let_def)
    next
      case False
      then show ?thesis
        using assms(2) by (auto simp: calculate_trade_in_value_def Inr None split: option.splits if_splits)
    qed
  qed
qed

section \<open>Properties\<close>

text \<open>
  A questionnaire can only lower the offer: with the default price list, any answers,
  for any device, known or priced by its retail price, give an offer at most the one the
  vision analysis alone gives.
\<close>

theorem questionnaire_never_raises_offer:
  assumes "grade_and_value json_loads fmt analysis None answers retail = Some r"
  shows "\<exists>r0. grade_and_value json_loads fmt analysis None PNone retail = Some r0 \<and>
    vr_offer (tr_value r) \<le> vr_offer (tr_value r0)"
proof -
  let ?gr = "grade_device fmt analysis"
  obtain g where g: "gr_grade ?gr = grade_name g" using grade_device_name by blast
  have adj: "\<exists>h \<le> g. final_grade (adjust_grade_from_questionnaire (grade_name g) a) = grade_name h" for a
  proof (cases "\<exists>k \<in> set FORCE_POOR. dget a k = Some (PBool True)")
    case True
    moreover have "Poor \<le> g" by (cases g) (simp_all add: less_eq_grade_def)
    ultimately show ?thesis by (intro exI [of _ Poor]) (simp only: adjust_grade_spec if_True simp_thms)
  next
    case False
    then show ?thesis
      by (intro exI [of _ "worsen g (steps_down a)"]) (simp only: adjust_grade_spec if_False worsen_le simp_thms)
  qed
  define gr' where "gr' = (case parse_answers json_loads answers of None \<Rightarrow> ?gr
    | Some d \<Rightarrow> ?gr\<lparr>gr_grade := final_grade (adjust_grade_from_questionnaire (gr_grade ?gr)
        (normalize_questionnaire_answers d
          (get_device_questionnaire (dget_default analysis ''brand'' (PStr ''Unknown'')))))\<rparr>)"
  obtain h where h: "h \<le> g" "gr_grade gr' = grade_name h"
    using adj g by (cases "parse_answers json_loads answers") (auto simp: gr'_def)
  have dev: "gr_device_name gr' = gr_device_name ?gr" by (simp add: gr'_def split: option.split)
  have v: "calculate_trade_in_value (gr_device_name ?gr) (grade_name h) None retail = Inr (tr_value r)"
    using assms h(2) dev unfolding grade_and_value_def Let_def
    by (cases "parse_answers json_loads answers") (auto simp: gr'_def split: sum.splits)
  from offer_mono [OF h(1) v] obtain w where
    "calculate_trade_in_value (gr_device_name ?gr) (gr_grade ?gr) None retail = Inr w"
    "vr_offer (tr_value r) \<le> vr_offer w"
    by (auto simp: g)
  moreover have "parse_answers json_loads PNone = None" by (simp add: parse_answers_def)
  ultimately show ?thesis by (simp add: grade_and_value_def Let_def)
qed

theorem questionnaire_never_raises_offer_witness:
  "\<exists>r r0. grade_and_value (\<lambda>_. Some (PDict [(''water_damage'', PStr ''yes'')])) (\<lambda>_. [])
      [(''device_name'', PStr ''iPhone 13''), (''condition'', PStr ''Good'')] None (PStr ''x'') PNone = Some r \<and>
    grade_and_value (\<lambda>_. Some (PDict [(''water_damage'', PStr ''yes'')])) (\<lambda>_. [])
      [(''device_name'', PStr ''iPhone 13''), (''condition'', PStr ''Good'')] None PNone PNone = Some r0 \<and>
    vr_offer (tr_value r) \<le> vr_offer (tr_value r0)"
proof -
  have "calculate_trade_in_value (PStr s) x None y \<noteq> Inl e" for s x y e
    by (auto simp: calculate_trade_in_value_def table_prices_def Let_def split: option.splits py.splits)
  moreover have "gr_device_name (grade_device (\<lambda>_. [])
      [(''device_name'', PStr ''iPhone 13''), (''condition'', PStr ''Good'')]) = PStr ''iPhone 13''"
    by (simp add: grade_device_def dget_default_def Let_def)
  ultimately have "grade_and_value (\<lambda>_. Some (PDict [(''water_damage'', PStr ''yes'')])) (\<lambda>_. [])
      [(''device_name'', PStr ''iPhone 13''), (''condition'', PStr ''Good'')] None (PStr ''x'') PNone \<noteq> None"
    unfolding grade_and_value_def Let_def
    by (simp split: option.split sum.split)
  then show ?thesis using questionnaire_never_raises_offer by fastforce
qed

text \<open>
  The grade after the questionnaire is Poor when the device does not power on, has water
  damage or is locked to an account; otherwise it is the vision grade lowered, never below
  Poor, by two steps for a battery below 60 percent or one below 80, plus one step for each
  of the four other defects: the compounded clamped downgrades are one clamped sum.
\<close>

theorem questionnaire_grade:
  "final_grade (adjust_grade_from_questionnaire (grade_name g) answers) =
     (if \<exists>k \<in> set FORCE_POOR. dget answers k = Some (PBool True) then grade_name Poor
      else grade_name (worsen g (steps_down answers)))"
  by (rule adjust_grade_spec)

lemma threshold_factors:
  "104 / 100 \<le> fl (1 + ACCEPT_THRESHOLD)" "fl (1 + ACCEPT_THRESHOLD) \<le> 10501 / 10000"
  "1149 / 1000 \<le> fl (1 + REJECT_THRESHOLD_ABOVE_MAX)" "fl (1 + REJECT_THRESHOLD_ABOVE_MAX) \<le> 116 / 100"
  by code_simp+

text \<open>A product of two floats, both rounded, with a little room on each side.\<close>

lemma fl_scaled:
  assumes "0 \<le> r" and "0 \<le> lo" and "lo + 1 / 10000 \<le> c" and "c + 1 / 10000 \<le> hi" and "hi \<le> 2"
  shows "r * lo \<le> fl (fl r * c)" and "fl (fl r * c) \<le> r * hi"
proof -
  have f: "r * (1 - 1 / 2 ^ 53) \<le> fl r" "fl r \<le> r * (1 + 1 / 2 ^ 53)" "0 \<le> fl r"
    using fl_bounds [OF assms(1)] fl_nonneg [OF assms(1)] by simp_all
  have c: "0 \<le> c" using assms(2,3) by simp
  have p: "0 \<le> fl r * c" using f(3) c by simp
  have "lo \<le> (1 - 1 / 2 ^ 53) * c * (1 - 1 / 2 ^ 53)" and "(1 + 1 / 2 ^ 53) * c * (1 + 1 / 2 ^ 53) \<le> hi"
    using assms(3,4,5) c by (simp_all add: field_simps)
  from mult_left_mono [OF this(1) assms(1)] mult_left_mono [OF this(2) assms(1)]
  have e: "r * lo \<le> r * (1 - 1 / 2 ^ 53) * c * (1 - 1 / 2 ^ 53)"
    "r * (1 + 1 / 2 ^ 53) * c * (1 + 1 / 2 ^ 53) \<le> r * hi" by (simp_all only: mult.assoc)
  have "r * (1 - 1 / 2 ^ 53) * c * (1 - 1 / 2 ^ 53) \<le> fl r * c * (1 - 1 / 2 ^ 53)"
    using f(1) c by (intro mult_right_mono) simp_all
  with e(1) fl_bounds(1) [OF p] show "r * lo \<le> fl (fl r * c)" by linarith
  have "fl r * c * (1 + 1 / 2 ^ 53) \<le> r * (1 + 1 / 2 ^ 53) * c * (1 + 1 / 2 ^ 53)"
    using f(2) c by (intro mult_right_mono) simp_all
  with e(2) fl_bounds(2) [OF p] show "fl (fl r * c) \<le> r * hi" by linarith
qed

lemma accept_limit_le: "0 \<le> offer \<Longrightarrow> accept_limit offer \<le> of_int offer * (106 / 100)"
  unfolding accept_limit_def
  by (rule fl_scaled(2) [where lo = "103 / 100"]) (use threshold_factors in simp_all)

lemma hard_reject_bounds:
  assumes "0 \<le> m"
  shows "114 * m \<le> 100 * hard_reject_ceiling m + 100" and "m \<le> hard_reject_ceiling m"
proof -
  let ?f = "fl (fl (of_int m) * fl (1 + REJECT_THRESHOLD_ABOVE_MAX))"
  have lo: "of_int m * (114 / 100) \<le> ?f"
    by (rule fl_scaled(1) [where hi = "117 / 100"]) (use assms threshold_factors in simp_all)
  moreover have "0 \<le> of_int m * (114 / 100 :: rat)" using assms by simp
  ultimately have h: "hard_reject_ceiling m = \<lfloor>?f\<rfloor>" by (simp add: hard_reject_ceiling_def py_trunc_def)
  have "of_int m \<le> of_int m * (114 / 100 :: rat)" using assms by simp
  with lo have "of_int m \<le> ?f" by linarith
  then show "m \<le> hard_reject_ceiling m" by (simp add: h le_floor_iff)
  have "?f \<le> of_int (hard_reject_ceiling m) + 1" unfolding h by linarith
  with lo have "of_int (114 * m) \<le> (of_int (100 * hard_reject_ceiling m + 100) :: rat)" by simp
  then show "114 * m \<le> 100 * hard_reject_ceiling m + 100" by (simp only: of_int_le_iff)
qed

text \<open>
  A negotiation never pays below the offer on the table, accepts at most the ask and at
  most six percent above the offer, counters between the offer and the maximum and below
  the ask, and rejects only an ask above the maximum, by at least 14 percent: the
  floating-point thresholds are never further off than that.
\<close>

theorem negotiation_bounds:
  assumes "0 \<le> offer" and "offer \<le> limit"
  shows "case process_negotiation offer ask limit of
      Accept o' final \<Rightarrow> o' = offer \<and> offer \<le> final \<and> 100 * final \<le> 106 * offer
    | Counter o' counter \<Rightarrow> o' = offer \<and> offer \<le> counter \<and> counter \<le> limit \<and> counter < ask
    | Reject o' m threshold \<Rightarrow> o' = offer \<and> m = limit \<and> limit < ask \<and> 114 * limit < 100 * ask + 100"
proof -
  have acc: "100 * ask \<le> 106 * offer" if "of_int ask \<le> accept_limit offer"
  proof -
    have "of_int (100 * ask) \<le> (of_int (106 * offer) :: rat)"
      using that accept_limit_le [OF assms(1)] by simp
    then show ?thesis by (simp only: of_int_le_iff)
  qed
  have "0 \<le> limit" using assms by simp
  note h = hard_reject_bounds [OF this]
  show ?thesis
    using assms acc h by (auto simp: process_negotiation_def)
qed

theorem negotiation_bounds_witness:
  "case process_negotiation 100 130 120 of Counter o' counter \<Rightarrow> 100 \<le> counter \<and> counter \<le> 120 | _ \<Rightarrow> False"
proof -
  have "case process_negotiation 100 130 120 of Counter _ _ \<Rightarrow> True | _ \<Rightarrow> False" by code_simp
  then show ?thesis
    using negotiation_bounds [of 100 120 130] by (simp split: decision.splits)
qed

text \<open>
  Two edges: an ask exactly 15 percent above the maximum is rejected, because \<open>100 * 1.15\<close>
  is below 115 as a float, and an ask within five percent of the offer is accepted even
  above the maximum.
\<close>

lemma exactly_fifteen_percent_rejected: "process_negotiation 50 115 100 = Reject 50 100 114"
  by code_simp

lemma accepted_above_maximum: "process_negotiation 100 105 100 = Accept 100 105"
  by code_simp

end
