(* ===== verification/Idempotency.thy ===== *)
theory Idempotency
  imports Prelude
begin

text \<open>
  The contract of an idempotency store, shared by the endpoints of Africa's Talking and of
  the admin API: \<open>preflight\<close> claims a key, replays the recorded response or refuses,
  \<open>commit\<close> records a response.  \<open>entry_of\<close> is the abstract view: the fingerprint, the
  recorded body (\<open>None\<close> while pending) and the time until which the entry counts.
\<close>

datatype 'b verdict = Proceed | Replay 'b | KeyReused | InProgress | KeyExpired | KeyStale

text \<open>Events on a store: a request with a key and a fingerprint, or a commit.\<close>

datatype 'b idem_event = Request string string clock | Commit string string 'b clock

fun event_time :: "'b idem_event \<Rightarrow> clock" where
  "event_time (Request k fp t) = t"
| "event_time (Commit k fp b t) = t"

fun event_key :: "'b idem_event \<Rightarrow> string" where
  "event_key (Request k fp t) = k"
| "event_key (Commit k fp b t) = k"

fun run_idem ::
  "(string \<Rightarrow> string \<Rightarrow> clock \<Rightarrow> 's \<Rightarrow> 's \<times> 'b verdict) \<Rightarrow> (string \<Rightarrow> string \<Rightarrow> 'b \<Rightarrow> clock \<Rightarrow> 's \<Rightarrow> 's)
   \<Rightarrow> 'b idem_event list \<Rightarrow> 's \<Rightarrow> 's \<times> (string \<times> string \<times> 'b verdict) list" where
  "run_idem pre com [] s = (s, [])"
| "run_idem pre com (Request k fp t # evs) s =
     (case pre k fp t s of (s, v) \<Rightarrow> (case run_idem pre com evs s of (s, vs) \<Rightarrow> (s, (k, fp, v) # vs)))"
| "run_idem pre com (Commit k fp b t # evs) s = run_idem pre com evs (com k fp b t s)"

locale idempotency_store =
  fixes preflight :: "string \<Rightarrow> string \<Rightarrow> clock \<Rightarrow> 's \<Rightarrow> 's \<times> 'b verdict"
    and commit :: "string \<Rightarrow> string \<Rightarrow> 'b \<Rightarrow> clock \<Rightarrow> 's \<Rightarrow> 's"
    and entry_of :: "'s \<Rightarrow> string \<Rightarrow> (string \<times> 'b option \<times> clock) option"
    and inv :: "'s \<Rightarrow> bool"
    and pending_ttl :: clock and done_ttl :: clock
  assumes inv_preflight: "inv s \<Longrightarrow> inv (fst (preflight k fp now s))"
    and inv_commit: "inv s \<Longrightarrow> inv (commit k fp b now s)"
    and claims: "inv s \<Longrightarrow> preflight k fp now s = (s', Proceed) \<Longrightarrow>
      entry_of s' k = Some (fp, None, now + pending_ttl)"
    and answers: "inv s \<Longrightarrow> entry_of s k = Some (fp', bo, e) \<Longrightarrow> now < e \<Longrightarrow>
      snd (preflight k fp now s) =
        (if fp \<noteq> fp' then KeyReused else case bo of None \<Rightarrow> InProgress | Some b \<Rightarrow> Replay b)"
    and keeps: "inv s \<Longrightarrow> entry_of s k = Some x \<Longrightarrow> now < snd (snd x) \<Longrightarrow>
      entry_of (fst (preflight k' fp now s)) k = Some x"
    and records: "inv s \<Longrightarrow> entry_of s k = Some (fp, bo, e) \<Longrightarrow>
      entry_of (commit k fp b now s) k = Some (fp, Some b, now + done_ttl)"
    and commit_other: "inv s \<Longrightarrow> k' \<noteq> k \<Longrightarrow> entry_of (commit k' fp b now s) k = entry_of s k"
begin

text \<open>
  While the entry of a key is alive and nobody commits the key again, every request with it
  is refused or replays: none proceeds, and those with the same fingerprint see exactly
  the recorded body.
\<close>

lemma live_key:
  assumes "inv s" and "entry_of s k = Some (fp, bo, e)"
    and "\<forall>ev \<in> set evs. event_time ev < e" and "\<forall>k' fp' b' t. Commit k' fp' b' t \<in> set evs \<longrightarrow> k' \<noteq> k"
    and "(k, fp', v) \<in> set (snd (run_idem preflight commit evs s))"
  shows "v = (if fp' = fp then (case bo of None \<Rightarrow> InProgress | Some b \<Rightarrow> Replay b) else KeyReused)"
  using assms
proof (induction evs arbitrary: s)
  case (Cons ev evs)
  have times: "\<forall>ev \<in> set evs. event_time ev < e"
    and others: "\<forall>k' fp' b' t. Commit k' fp' b' t \<in> set evs \<longrightarrow> k' \<noteq> k"
    using Cons.prems(3) Cons.prems(4) by (simp, metis list.set_intros(2))
  show ?case
  proof (cases ev)
    case (Request k' f t)
    obtain s' v' where p: "preflight k' f t s = (s', v')" by force
    have e: "entry_of s' k = Some (fp, bo, e)"
      using keeps [OF Cons.prems(1,2), of t k' f] Cons.prems(3) p Request by simp
    have inv: "inv s'" using inv_preflight [OF Cons.prems(1), of k' f t] p by simp
    have here: "v' = (if f = fp then (case bo of None \<Rightarrow> InProgress | Some b \<Rightarrow> Replay b) else KeyReused)"
      if "k' = k"
      using answers [OF Cons.prems(1,2), of t f] Cons.prems(3) p that Request by simp
    have "k' = k \<and> f = fp' \<and> v' = v \<or> (k, fp', v) \<in> set (snd (run_idem preflight commit evs s'))"
      using Cons.prems(5) by (auto simp: p Request split: prod.splits)
    then show ?thesis
      using here Cons.IH [OF inv e times others] by blast
  next
    case (Commit k' f b' t)
    then have ne: "k' \<noteq> k" using Cons.prems(4) by auto
    then show ?thesis
      using Cons.IH [OF inv_commit [OF Cons.prems(1), of k' f b' t] _ times others] Cons.prems(2,5) Commit
        commit_other [OF Cons.prems(1) ne] by simp
  qed
qed simp

lemma live_key_never_proceeds:
  assumes "inv s" and "entry_of s k = Some (fp, bo, e)"
    and "\<forall>ev \<in> set evs. event_time ev < e" and "\<forall>k' fp' b' t. Commit k' fp' b' t \<in> set evs \<longrightarrow> k' \<noteq> k"
  shows "(k, fp', Proceed) \<notin> set (snd (run_idem preflight commit evs s))"
  using live_key [OF assms, of fp' Proceed] by (auto split: option.splits if_splits)

text \<open>
  The life of a key: after a request proceeded and its response was recorded, only replays
  and refusals follow, until the response's time is over.
\<close>

lemma proceed_then_replay:
  assumes "inv s" and "preflight k fp t0 s = (s1, Proceed)"
    and "run_idem preflight commit before s1 = (s2, out1)" and "t1 < t0 + pending_ttl"
    and "\<forall>ev \<in> set before. event_time ev < t0 + pending_ttl"
    and "\<forall>k' fp' b' t. Commit k' fp' b' t \<in> set (before @ later) \<longrightarrow> k' \<noteq> k"
    and "run_idem preflight commit later (commit k fp b t1 s2) = (s3, out2)"
    and "\<forall>ev \<in> set later. event_time ev < t1 + done_ttl"
  shows "(k, fp', v) \<in> set out1 \<Longrightarrow> v = (if fp' = fp then InProgress else KeyReused)"
    and "(k, fp', v) \<in> set out2 \<Longrightarrow> v = (if fp' = fp then Replay b else KeyReused)"
proof -
  have e1: "entry_of s1 k = Some (fp, None, t0 + pending_ttl)" by (rule claims [OF assms(1,2)])
  have i1: "inv s1" using inv_preflight [OF assms(1), of k fp t0] assms(2) by simp
  have none1: "\<forall>k' fp' b' t. Commit k' fp' b' t \<in> set before \<longrightarrow> k' \<noteq> k" using assms(6) by auto
  show "v = (if fp' = fp then InProgress else KeyReused)" if "(k, fp', v) \<in> set out1"
    using live_key [OF i1 e1 assms(5) none1, of fp' v] that assms(3) by simp
  have "inv u \<and> entry_of u k = Some (fp, None, t0 + pending_ttl) \<longrightarrow>
      inv (fst (run_idem preflight commit evs u)) \<and>
      entry_of (fst (run_idem preflight commit evs u)) k = Some (fp, None, t0 + pending_ttl)"
    if "set evs \<subseteq> set before" for evs u
    using that
  proof (induction evs arbitrary: u)
    case (Cons ev evs)
    have ev: "event_time ev < t0 + pending_ttl" "ev \<in> set before" using Cons.prems assms(5) by auto
    show ?case
    proof (cases ev)
      case (Request k' f t)
      then show ?thesis
        using Cons.IH [of "fst (preflight k' f t u)"] Cons.prems keeps [of u k "(fp, None, t0 + pending_ttl)" t k' f]
          inv_preflight [of u k' f t] ev by (auto split: prod.splits)
    next
      case (Commit k' f b' t)
      then have "k' \<noteq> k" using none1 ev(2) by blast
      then show ?thesis
        using Cons.IH [of "commit k' f b' t u"] Cons.prems inv_commit [of u k' f b' t] commit_other [of u k' k f b' t]
        by (simp add: Commit)
    qed
  qed simp
  from this [of before s1] have s2: "inv s2" "entry_of s2 k = Some (fp, None, t0 + pending_ttl)"
    using i1 e1 assms(3) by simp_all
  note e2 = records [OF s2, of b t1]
  have none2: "\<forall>k' fp' b' t. Commit k' fp' b' t \<in> set later \<longrightarrow> k' \<noteq> k" using assms(6) by auto
  show "v = (if fp' = fp then Replay b else KeyReused)" if "(k, fp', v) \<in> set out2"
    using live_key [OF inv_commit [OF s2(1)] e2 assms(8) none2, of fp' v] that assms(7) by simp
qed

end

end
