(* ===== verification/Replay_Guard.thy ===== *)
theory Replay_Guard
  imports Prelude
begin

text \<open>
  The contract of a duplicate filter: a state, and a check of a request at a time that says
  whether the request is fresh.  \<open>remembered s k u\<close> means that the state rejects key \<open>k\<close> up
  to time \<open>u\<close>; \<open>horizon\<close> is how long an accepted request is remembered.  \<open>room\<close> is what a
  provider needs of its state (a capacity, distinct keys).  The callback filter, the nonce
  store and the used-token set are its providers.
\<close>

fun run_checks :: "('r \<Rightarrow> clock \<Rightarrow> 's \<Rightarrow> 's \<times> bool) \<Rightarrow> 's \<Rightarrow> ('r \<times> clock) list \<Rightarrow> bool list" where
  "run_checks check s [] = []"
| "run_checks check s ((r, now) # evs) =
     (case check r now s of (s', ok) \<Rightarrow> ok # run_checks check s' evs)"

fun room_along :: "('r \<Rightarrow> clock \<Rightarrow> 's \<Rightarrow> 's \<times> bool) \<Rightarrow> ('s \<Rightarrow> bool) \<Rightarrow> 's \<Rightarrow> ('r \<times> clock) list \<Rightarrow> bool" where
  "room_along check room s [] \<longleftrightarrow> True"
| "room_along check room s ((r, now) # evs) \<longleftrightarrow>
     room s \<and> room_along check room (fst (check r now s)) evs"

lemma room_along_inv:
  assumes "P s" and "\<And>s r now. P s \<Longrightarrow> P (fst (check r now s))" and "\<And>s. P s \<Longrightarrow> room s"
  shows "room_along check room s evs"
  using assms(1)
proof (induction evs arbitrary: s)
  case (Cons ev evs)
  then show ?case using assms(2,3) by (cases ev) auto
qed simp

lemma length_run_checks [simp]: "length (run_checks check s evs) = length evs"
  by (induction check s evs rule: run_checks.induct) (auto split: prod.splits)

lemma run_checks_take:
  assumes "m < k" and "k \<le> length evs"
  shows "run_checks check s (take k evs) ! m = run_checks check s evs ! m"
  using assms
proof (induction evs arbitrary: s k m)
  case (Cons ev evs)
  then show ?case by (cases ev; cases k; cases m) (auto split: prod.splits)
qed simp

locale replay_guard =
  fixes check :: "'r \<Rightarrow> clock \<Rightarrow> 's \<Rightarrow> 's \<times> bool"
    and key_of :: "'r \<Rightarrow> 'k"
    and horizon :: "'r \<Rightarrow> clock \<Rightarrow> clock"
    and remembered :: "'s \<Rightarrow> 'k \<Rightarrow> clock \<Rightarrow> bool"
    and room :: "'s \<Rightarrow> bool"
  assumes remembers: "room s \<Longrightarrow> check r now s = (s', True) \<Longrightarrow> remembered s' (key_of r) (horizon r now)"
    and rejects: "room s \<Longrightarrow> remembered s (key_of r) u \<Longrightarrow> now \<le> u \<Longrightarrow> \<not> snd (check r now s)"
    and keeps: "room s \<Longrightarrow> remembered s k u \<Longrightarrow> now \<le> u \<Longrightarrow> remembered (fst (check r now s)) k u"
begin

lemma remembered_run:
  assumes "remembered s k u" and "room_along check room s evs" and "\<forall>ev \<in> set evs. snd ev \<le> u"
    and "j < length evs" and "key_of (fst (evs ! j)) = k"
  shows "\<not> run_checks check s evs ! j"
  using assms
proof (induction evs arbitrary: s j)
  case (Cons ev evs)
  obtain r now where ev: "ev = (r, now)" by force
  obtain s' ok where c: "check r now s = (s', ok)" by force
  have room: "room s" "room_along check room s' evs" using Cons.prems(2) c by (simp_all add: ev)
  have now: "now \<le> u" using Cons.prems(3) ev by simp
  show ?case
  proof (cases j)
    case 0
    then show ?thesis
      using rejects [OF room(1) _ now, of r] Cons.prems(1,5) c by (simp add: ev)
  next
    case (Suc i)
    have "remembered s' k u" using keeps [OF room(1) Cons.prems(1) now, of r] c by simp
    then show ?thesis
      using Cons.IH [OF _ room(2)] Cons.prems(3-5) c Suc by (simp add: ev)
  qed
qed simp

text \<open>After a request is accepted, its key is rejected until the horizon of that request.\<close>

lemma no_second_accept:
  assumes "room_along check room s evs" and "i < j" and "j < length evs"
    and "run_checks check s evs ! i" and "key_of (fst (evs ! j)) = key_of (fst (evs ! i))"
    and "\<forall>m. i < m \<longrightarrow> m < length evs \<longrightarrow> snd (evs ! m) \<le> horizon (fst (evs ! i)) (snd (evs ! i))"
  shows "\<not> run_checks check s evs ! j"
  using assms
proof (induction i arbitrary: s evs j)
  case 0
  then obtain r now rest where evs: "evs = (r, now) # rest" by (cases evs) auto
  obtain s' ok where c: "check r now s = (s', ok)" by force
  have ok: "check r now s = (s', True)" and room: "room s" "room_along check room s' rest"
    using 0 c by (simp_all add: evs)
  have late: "\<forall>ev \<in> set rest. snd ev \<le> horizon r now"
  proof
    fix ev assume "ev \<in> set rest"
    then obtain k where "k < length rest" "rest ! k = ev" by (auto simp: in_set_conv_nth)
    then show "snd ev \<le> horizon r now" using "0.prems"(6) [rule_format, of "Suc k"] by (simp add: evs)
  qed
  obtain k where k: "j = Suc k" using "0.prems"(2) by (cases j) auto
  have "\<not> run_checks check s' rest ! k"
    using remembered_run [OF remembers [OF room(1) ok] room(2) late] "0.prems"(3,5) k by (simp add: evs)
  then show ?case by (simp add: evs c k)
next
  case (Suc i)
  then obtain r now rest where evs: "evs = (r, now) # rest" by (cases evs) auto
  obtain s' ok where c: "check r now s = (s', ok)" by force
  obtain k where k: "j = Suc k" using Suc.prems(2) by (cases j) auto
  have "\<not> run_checks check s' rest ! k"
  proof (rule Suc.IH)
    show "\<forall>m. i < m \<longrightarrow> m < length rest \<longrightarrow> snd (rest ! m) \<le> horizon (fst (rest ! i)) (snd (rest ! i))"
      using Suc.prems(6) by (auto simp: evs)
  qed (use Suc.prems c k in \<open>simp_all add: evs\<close>)
  then show ?case by (simp add: evs c k)
qed

end

end
