(* ===== verification/At_Idempotency.thy ===== *)
theory At_Idempotency
  imports Idempotency Replay_Guard Py_Values
begin

text \<open>
  \<open>app/api/v1/at/idempotency.py\<close>: the idempotency store of the Africa's Talking endpoints
  and the filter for repeated callbacks.  The stores are dictionaries; \<open>now\<close> is the reading
  of \<open>time.time()\<close>; \<open>fingerprint\<close> is the truncated hash of the canonical JSON text.  Each
  operation runs under its lock, so it is one step.
\<close>

section \<open>The idempotency store\<close>

record at_entry =
  ae_fingerprint :: string
  ae_done :: "(string, py) dict option"
  ae_expires :: clock

type_synonym at_store = "(string, at_entry) dict"

definition IDEMPOTENCY_TTL_SECONDS :: clock where "IDEMPOTENCY_TTL_SECONDS = 3600"

definition PENDING_TTL_SECONDS :: clock where "PENDING_TTL_SECONDS = 30"

datatype key_error = KeyMissing | KeyTooLong

definition require_idempotency_key :: "string option \<Rightarrow> key_error + string" where
  "require_idempotency_key hdr =
     (let key = strip (case hdr of Some h \<Rightarrow> h | None \<Rightarrow> []) in
      if key = [] then Inl KeyMissing
      else if 256 < length key then Inl KeyTooLong
      else Inr key)"

definition at_store_key :: "string \<Rightarrow> string \<Rightarrow> string \<Rightarrow> string" where
  "at_store_key scope tenant_id idempotency_key =
     ''at:'' @ scope @ '':'' @ tenant_id @ '':'' @ idempotency_key"

definition at_pending :: "string \<Rightarrow> clock \<Rightarrow> at_entry" where
  "at_pending fp now = \<lparr>ae_fingerprint = fp, ae_done = None, ae_expires = now + PENDING_TTL_SECONDS\<rparr>"

definition at_prune :: "clock \<Rightarrow> at_store \<Rightarrow> at_store" where
  "at_prune now s =
     (if 100 < length s then dpop_all (dkeys_where (\<lambda>k e. ae_expires e < now) s) s else s)"

definition at_preflight ::
  "string \<Rightarrow> string \<Rightarrow> clock \<Rightarrow> at_store \<Rightarrow> at_store \<times> (string, py) dict verdict" where
  "at_preflight store_key fp now s =
     (let s = at_prune now s in
      case dget s store_key of
        None \<Rightarrow> (dset store_key (at_pending fp now) s, Proceed)
      | Some existing \<Rightarrow>
          if ae_fingerprint existing \<noteq> fp then (s, KeyReused)
          else (case ae_done existing of
            None \<Rightarrow>
              (if ae_expires existing < now then (dset store_key (at_pending fp now) s, Proceed)
               else (s, InProgress))
          | Some body \<Rightarrow> (s, Replay body)))"

definition at_commit ::
  "string \<Rightarrow> string \<Rightarrow> (string, py) dict \<Rightarrow> clock \<Rightarrow> at_store \<Rightarrow> at_store" where
  "at_commit store_key fp body now s =
     dset store_key
       \<lparr>ae_fingerprint = (case dget s store_key of Some e \<Rightarrow> ae_fingerprint e | None \<Rightarrow> []),
        ae_done = Some body, ae_expires = now + IDEMPOTENCY_TTL_SECONDS\<rparr> s"

text \<open>The functions of the module; the commit does not get the fingerprint.\<close>

definition idempotency_preflight ::
  "(py \<Rightarrow> string) \<Rightarrow> string \<Rightarrow> string \<Rightarrow> string \<Rightarrow> py \<Rightarrow> clock \<Rightarrow> at_store
   \<Rightarrow> at_store \<times> (string, py) dict verdict" where
  "idempotency_preflight fingerprint scope tenant_id idempotency_key payload now s =
     at_preflight (at_store_key scope tenant_id idempotency_key) (fingerprint payload) now s"

definition idempotency_commit ::
  "string \<Rightarrow> string \<Rightarrow> string \<Rightarrow> (string, py) dict \<Rightarrow> clock \<Rightarrow> at_store \<Rightarrow> at_store" where
  "idempotency_commit scope tenant_id idempotency_key body now s =
     at_commit (at_store_key scope tenant_id idempotency_key) [] body now s"

definition at_entry_of :: "at_store \<Rightarrow> string \<Rightarrow> (string \<times> (string, py) dict option \<times> clock) option" where
  "at_entry_of s k = map_option (\<lambda>e. (ae_fingerprint e, ae_done e, ae_expires e)) (dget s k)"

lemma at_prune_wf: "dict_wf s \<Longrightarrow> dict_wf (at_prune now s)"
  by (simp add: at_prune_def)

lemma at_prune_get:
  assumes "dict_wf s" and "dget s k = Some e" and "now < ae_expires e"
  shows "dget (at_prune now s) k = Some e"
  using assms by (simp add: at_prune_def in_dkeys_where_wf)

lemma at_preflight_wf: "dict_wf s \<Longrightarrow> dict_wf (fst (at_preflight k fp now s))"
  by (simp add: at_preflight_def Let_def at_prune_wf split: option.splits)

lemma at_entry_of_Some:
  "at_entry_of s k = Some x \<longleftrightarrow> (\<exists>e. dget s k = Some e \<and> x = (ae_fingerprint e, ae_done e, ae_expires e))"
  by (auto simp: at_entry_of_def)

lemma at_preflight_live:
  assumes "dict_wf s" and "at_entry_of s k = Some (fp', bo, e)" and "now < e"
  shows "at_preflight k fp now s = (at_prune now s,
    if fp \<noteq> fp' then KeyReused else case bo of None \<Rightarrow> InProgress | Some b \<Rightarrow> Replay b)"
proof -
  obtain en where en: "dget s k = Some en" "ae_fingerprint en = fp'" "ae_done en = bo" "ae_expires en = e"
    using assms(2) by (auto simp: at_entry_of_Some)
  have "dget (at_prune now s) k = Some en" using at_prune_get [OF assms(1) en(1)] en(4) assms(3) by simp
  then show ?thesis using en assms(3) by (cases bo) (simp_all add: at_preflight_def Let_def)
qed

lemma at_preflight_keeps:
  assumes "dict_wf s" and "at_entry_of s k = Some x" and "now < snd (snd x)"
  shows "at_entry_of (fst (at_preflight k' fp now s)) k = Some x"
proof -
  obtain fp' bo e where x: "x = (fp', bo, e)" by (cases x)
  have p: "at_entry_of (at_prune now s) k = Some x"
    using at_prune_get [OF assms(1)] assms(2,3) by (auto simp: at_entry_of_Some)
  show ?thesis
  proof (cases "k' = k")
    case True
    then show ?thesis using at_preflight_live [OF assms(1), of k fp' bo e now fp] assms p by (simp add: x)
  next
    case False
    then show ?thesis
      using p by (simp add: at_preflight_def Let_def at_entry_of_def split: option.split)
  qed
qed

interpretation at_idem: idempotency_store at_preflight at_commit at_entry_of dict_wf
  PENDING_TTL_SECONDS IDEMPOTENCY_TTL_SECONDS
proof
  fix s s' :: at_store and k k' fp now
  show "dict_wf s \<Longrightarrow> at_preflight k fp now s = (s', Proceed) \<Longrightarrow>
      at_entry_of s' k = Some (fp, None, now + PENDING_TTL_SECONDS)"
    by (auto simp: at_preflight_def Let_def at_entry_of_def at_pending_def split: option.splits if_splits)
  show "dict_wf s \<Longrightarrow> at_entry_of s k = Some x \<Longrightarrow> now < snd (snd x) \<Longrightarrow>
      at_entry_of (fst (at_preflight k' fp now s)) k = Some x" for x
    by (rule at_preflight_keeps)
qed (auto simp: at_preflight_wf at_commit_def at_entry_of_def at_preflight_live)

section \<open>Repeated callbacks\<close>

type_synonym callback_seen = "(string, clock) dict"

definition CALLBACK_DEDUP_WINDOW :: clock where "CALLBACK_DEDUP_WINDOW = 300"

definition callback_key :: "string \<times> string \<Rightarrow> string" where
  "callback_key ev = fst ev @ '':'' @ snd ev"

definition is_duplicate_callback ::
  "string \<times> string \<Rightarrow> clock \<Rightarrow> callback_seen \<Rightarrow> callback_seen \<times> bool" where
  "is_duplicate_callback ev now seen =
     (let dedup_key = callback_key ev in
      case dget seen dedup_key of
        Some seen_at \<Rightarrow>
          (if now - seen_at \<le> CALLBACK_DEDUP_WINDOW then (seen, True)
           else (let seen = dpop dedup_key seen;
                     seen = (if 1000 < length seen
                       then dpop_all (dkeys_where (\<lambda>k ts. CALLBACK_DEDUP_WINDOW < now - ts) seen) seen else seen)
                 in (dset dedup_key now seen, False)))
      | None \<Rightarrow>
          (let seen = (if 1000 < length seen
                 then dpop_all (dkeys_where (\<lambda>k ts. CALLBACK_DEDUP_WINDOW < now - ts) seen) seen else seen)
           in (dset dedup_key now seen, False)))"

definition callback_fresh :: "string \<times> string \<Rightarrow> clock \<Rightarrow> callback_seen \<Rightarrow> callback_seen \<times> bool" where
  "callback_fresh ev now seen = (case is_duplicate_callback ev now seen of (seen, dup) \<Rightarrow> (seen, \<not> dup))"

definition callback_remembered :: "callback_seen \<Rightarrow> string \<Rightarrow> clock \<Rightarrow> bool" where
  "callback_remembered seen k u \<longleftrightarrow> (\<exists>ts. dget seen k = Some ts \<and> u \<le> ts + CALLBACK_DEDUP_WINDOW)"

lemma callback_fresh_wf: "dict_wf seen \<Longrightarrow> dict_wf (fst (callback_fresh ev now seen))"
  by (simp add: callback_fresh_def is_duplicate_callback_def Let_def split: option.split)

interpretation callbacks: replay_guard callback_fresh callback_key "\<lambda>_ now. now + CALLBACK_DEDUP_WINDOW"
  callback_remembered dict_wf
proof
  fix s s' :: callback_seen and r :: "string \<times> string" and now u k
  show "dict_wf s \<Longrightarrow> callback_fresh r now s = (s', True) \<Longrightarrow>
      callback_remembered s' (callback_key r) (now + CALLBACK_DEDUP_WINDOW)"
    by (auto simp: callback_fresh_def is_duplicate_callback_def Let_def callback_remembered_def
        split: option.splits if_splits)
  show "dict_wf s \<Longrightarrow> callback_remembered s (callback_key r) u \<Longrightarrow> now \<le> u \<Longrightarrow> \<not> snd (callback_fresh r now s)"
    by (auto simp: callback_fresh_def is_duplicate_callback_def Let_def callback_remembered_def)
  show "dict_wf s \<Longrightarrow> callback_remembered s k u \<Longrightarrow> now \<le> u \<Longrightarrow>
      callback_remembered (fst (callback_fresh r now s)) k u"
    by (auto simp: callback_fresh_def is_duplicate_callback_def Let_def callback_remembered_def in_dkeys_where_wf
        split: option.splits)
qed

section \<open>Properties\<close>

text \<open>
  C5 No second execution, for a request that finishes in time: a request with an idempotency key
  proceeds and its response is recorded within the 30 seconds its claim lasts, and no other
  response is recorded under the key.  Then every request with the key that arrives during these
  30 seconds and before the recording is refused (as still running, or as a different payload),
  and every one in the hour after the recording replays exactly that response if its payload has
  the same fingerprint and is refused if not, whatever requests with this and other keys and
  recordings under other keys come between, in whatever order of clock readings below the two
  limits.  Outside: a request that
  takes longer than 30 seconds, where the key can be claimed again and where the recorded
  response can block the retry it was meant for (\<open>late_commit_blocks_retry\<close>).
\<close>

theorem at_request_runs_once:
  assumes "dict_wf s" and "at_preflight k fp t0 s = (s1, Proceed)"
    and "run_idem at_preflight at_commit earlier s1 = (s2, out1)" and "t1 < t0 + PENDING_TTL_SECONDS"
    and "\<forall>ev \<in> set earlier. event_time ev < t0 + PENDING_TTL_SECONDS"
    and "\<forall>k' fp' b' t. Commit k' fp' b' t \<in> set (earlier @ later) \<longrightarrow> k' \<noteq> k"
    and "run_idem at_preflight at_commit later (at_commit k fp b t1 s2) = (s3, out2)"
    and "\<forall>ev \<in> set later. event_time ev < t1 + IDEMPOTENCY_TTL_SECONDS"
  shows "(\<forall>fp' v. (k, fp', v) \<in> set out1 \<longrightarrow> v = (if fp' = fp then InProgress else KeyReused)) \<and>
    (\<forall>fp' v. (k, fp', v) \<in> set out2 \<longrightarrow> v = (if fp' = fp then Replay b else KeyReused))"
  using at_idem.proceed_then_replay [OF assms] by blast

theorem at_request_runs_once_witness:
  "\<exists>s3 out2. run_idem at_preflight at_commit [Request ''k'' ''f'' 50, Request ''k'' ''g'' 60]
      (at_commit ''k'' ''f'' [(''ok'', PBool True)] 20 (fst (at_preflight ''k'' ''f'' 0 []))) = (s3, out2) \<and>
    out2 \<noteq> [] \<and> (\<forall>v. (''k'', ''f'', v) \<in> set out2 \<longrightarrow> v = Replay [(''ok'', PBool True)])"
proof -
  have p: "at_preflight ''k'' ''f'' 0 [] = ([(''k'', at_pending ''f'' 0)], Proceed)"
    by (simp add: at_preflight_def at_prune_def)
  let ?r = "run_idem at_preflight at_commit [Request ''k'' ''f'' 50, Request ''k'' ''g'' 60]
      (at_commit ''k'' ''f'' [(''ok'', PBool True)] 20 [(''k'', at_pending ''f'' 0)])"
  obtain s3 out2 where r: "?r = (s3, out2)" by (cases ?r)
  from at_request_runs_once [OF _ p, of "[]" "[(''k'', at_pending ''f'' 0)]" "[]" 20
      "[Request ''k'' ''f'' 50, Request ''k'' ''g'' 60]" "[(''ok'', PBool True)]" s3 out2] r
  have all: "\<forall>fp' v. (''k'', fp', v) \<in> set out2 \<longrightarrow>
      v = (if fp' = ''f'' then Replay [(''ok'', PBool True)] else KeyReused)"
    by (simp add: PENDING_TTL_SECONDS_def IDEMPOTENCY_TTL_SECONDS_def)
  have "\<forall>v. (''k'', ''f'', v) \<in> set out2 \<longrightarrow> v = Replay [(''ok'', PBool True)]"
    using all [rule_format, of "''f''"] by simp
  moreover have "out2 \<noteq> []" using r by (auto split: prod.splits)
  ultimately show ?thesis using r p by auto
qed

text \<open>
  A commit whose pending entry is gone (a handler that ran past the 30 seconds while another
  request pruned the store) records an empty fingerprint, so the retry it was meant for is
  refused as a different payload.
\<close>

lemma late_commit_blocks_retry:
  assumes "dict_wf s" and "dget s k = None" and "fp \<noteq> []" and "now < t + IDEMPOTENCY_TTL_SECONDS"
  shows "snd (at_preflight k fp now (at_commit k fp b t s)) = KeyReused"
proof -
  have "at_entry_of (at_commit k fp b t s) k = Some ([], Some b, t + IDEMPOTENCY_TTL_SECONDS)"
    using assms(2) by (simp add: at_entry_of_def at_commit_def)
  from at_preflight_live [OF _ this assms(4)] assms(1,3) show ?thesis by (simp add: at_commit_def)
qed

lemma callback_entry:
  assumes "dget (fst (callback_fresh ev now seen)) k = Some ts"
  shows "dget seen k = Some ts \<or> snd (callback_fresh ev now seen) \<and> k = callback_key ev \<and> ts = now"
  using assms
  by (auto simp: callback_fresh_def is_duplicate_callback_def Let_def split: option.splits if_splits)

lemma dropped_callback_known:
  assumes "j < length evs" and "\<not> run_checks callback_fresh seen evs ! j"
  shows "(\<exists>ts. dget seen (callback_key (fst (evs ! j))) = Some ts \<and> snd (evs ! j) \<le> ts + CALLBACK_DEDUP_WINDOW) \<or>
    (\<exists>i < j. run_checks callback_fresh seen evs ! i \<and> callback_key (fst (evs ! i)) = callback_key (fst (evs ! j)) \<and>
       snd (evs ! j) \<le> snd (evs ! i) + CALLBACK_DEDUP_WINDOW)"
  using assms
proof (induction evs arbitrary: seen j)
  case (Cons e evs)
  obtain ev now where e: "e = (ev, now)" by (cases e)
  obtain s ok where c: "callback_fresh ev now seen = (s, ok)" by force
  show ?case
  proof (cases j)
    case 0
    with Cons.prems(2) c show ?thesis
      by (auto simp: e callback_fresh_def is_duplicate_callback_def Let_def split: option.splits if_splits)
  next
    case (Suc i)
    from Cons.prems Suc c have "i < length evs" "\<not> run_checks callback_fresh s evs ! i" by (simp_all add: e)
    from Cons.IH [OF this] show ?thesis
    proof
      assume "\<exists>ts. dget s (callback_key (fst (evs ! i))) = Some ts \<and> snd (evs ! i) \<le> ts + CALLBACK_DEDUP_WINDOW"
      then obtain ts where ts: "dget s (callback_key (fst (evs ! i))) = Some ts" "snd (evs ! i) \<le> ts + CALLBACK_DEDUP_WINDOW"
        by blast
      from callback_entry [of ev now seen] ts(1) c
      consider "dget seen (callback_key (fst (evs ! i))) = Some ts" | "ok" "callback_key (fst (evs ! i)) = callback_key ev" "ts = now"
        by auto
      then show ?thesis
      proof cases
        case 1
        with ts(2) show ?thesis by (simp add: Suc)
      next
        case 2
        with ts(2) c show ?thesis by (intro disjI2 exI [of _ 0]) (simp add: e Suc)
      qed
    next
      assume "\<exists>k < i. run_checks callback_fresh s evs ! k \<and> callback_key (fst (evs ! k)) = callback_key (fst (evs ! i)) \<and>
        snd (evs ! i) \<le> snd (evs ! k) + CALLBACK_DEDUP_WINDOW"
      then obtain k where "k < i" "run_checks callback_fresh s evs ! k" "callback_key (fst (evs ! k)) = callback_key (fst (evs ! i))"
        "snd (evs ! i) \<le> snd (evs ! k) + CALLBACK_DEDUP_WINDOW" by blast
      then show ?thesis by (intro disjI2 exI [of _ "Suc k"]) (simp add: e c Suc)
    qed
  qed
qed simp

text \<open>
  C40 No callback is processed twice within five minutes, and none is dropped without reason: if
  one of a series of callbacks is taken as new, every later one with the same session and event
  key is recognised as a duplicate as long as the clock has not passed five minutes after it at
  any callback up to then; and a callback is taken for a duplicate only if one with the same key
  was taken as new before, at most five minutes earlier by its clock.  This holds from the start
  of the process, whatever the clock readings and however often old keys are pruned; the key is
  the session and the event joined by a colon.
\<close>

theorem callback_processed_once:
  assumes "j < length evs"
  shows "((\<exists>i < j. run_checks callback_fresh [] evs ! i \<and> callback_key (fst (evs ! i)) = callback_key (fst (evs ! j)) \<and>
      (\<forall>m. i < m \<longrightarrow> m \<le> j \<longrightarrow> snd (evs ! m) \<le> snd (evs ! i) + CALLBACK_DEDUP_WINDOW))
        \<longrightarrow> \<not> run_checks callback_fresh [] evs ! j)
    \<and> (\<not> run_checks callback_fresh [] evs ! j \<longrightarrow>
      (\<exists>i < j. run_checks callback_fresh [] evs ! i \<and> callback_key (fst (evs ! i)) = callback_key (fst (evs ! j)) \<and>
        snd (evs ! j) \<le> snd (evs ! i) + CALLBACK_DEDUP_WINDOW))"
proof (rule conjI)
  show "\<not> run_checks callback_fresh [] evs ! j \<longrightarrow>
      (\<exists>i < j. run_checks callback_fresh [] evs ! i \<and> callback_key (fst (evs ! i)) = callback_key (fst (evs ! j)) \<and>
        snd (evs ! j) \<le> snd (evs ! i) + CALLBACK_DEDUP_WINDOW)"
    using dropped_callback_known [OF assms, of "[]"] by simp
  have "\<not> run_checks callback_fresh [] evs ! j"
    if i: "i < j" "run_checks callback_fresh [] evs ! i" "callback_key (fst (evs ! i)) = callback_key (fst (evs ! j))"
      and t: "\<forall>m. i < m \<longrightarrow> m \<le> j \<longrightarrow> snd (evs ! m) \<le> snd (evs ! i) + CALLBACK_DEDUP_WINDOW" for i
  proof -
    let ?evs = "take (Suc j) evs"
    have room: "room_along callback_fresh dict_wf [] ?evs"
      by (rule room_along_inv [where P = dict_wf]) (auto intro: callback_fresh_wf)
    have "\<not> run_checks callback_fresh [] ?evs ! j"
      by (rule callbacks.no_second_accept [OF room i(1)]) (use assms i t in \<open>simp_all add: run_checks_take less_Suc_eq_le\<close>)
    then show ?thesis using assms by (simp add: run_checks_take)
  qed
  then show "(\<exists>i < j. run_checks callback_fresh [] evs ! i \<and> callback_key (fst (evs ! i)) = callback_key (fst (evs ! j)) \<and>
      (\<forall>m. i < m \<longrightarrow> m \<le> j \<longrightarrow> snd (evs ! m) \<le> snd (evs ! i) + CALLBACK_DEDUP_WINDOW))
        \<longrightarrow> \<not> run_checks callback_fresh [] evs ! j" by blast
qed

theorem callback_processed_once_witness:
  "\<not> run_checks callback_fresh [] [((''s'', ''e''), 0), ((''s'', ''x''), 10), ((''s'', ''e''), 300)] ! 2"
proof -
  let ?evs = "[((''s'', ''e''), 0), ((''s'', ''x''), 10), ((''s'', ''e''), 300)] :: ((string \<times> string) \<times> clock) list"
  have "run_checks callback_fresh [] ?evs ! 0" by (simp add: callback_fresh_def is_duplicate_callback_def)
  then have "\<exists>i < 2. run_checks callback_fresh [] ?evs ! i \<and> callback_key (fst (?evs ! i)) = callback_key (fst (?evs ! 2)) \<and>
      (\<forall>m. i < m \<longrightarrow> m \<le> 2 \<longrightarrow> snd (?evs ! m) \<le> snd (?evs ! i) + CALLBACK_DEDUP_WINDOW)"
    by (intro exI [of _ 0]) (auto simp: CALLBACK_DEDUP_WINDOW_def callback_key_def numeral_2_eq_2 le_Suc_eq)
  then show ?thesis using callback_processed_once [of 2 ?evs] by simp
qed

end
