(* ===== verification/Admin_Idempotency.thy ===== *)
theory Admin_Idempotency
  imports Idempotency Py_Values
begin

text \<open>
  \<open>app/api/v1/admin/idempotency.py\<close>: the in-memory store and the Firestore store of the admin
  API, with the defaults of \<open>admin/settings.py\<close> for the lifetimes.  A Firestore collection
  is a dictionary of entries by document id (\<open>doc_id\<close> hashes the store key); the record
  \<open>fs_faults\<close> says which calls raise, and the code then falls back to memory.
\<close>

type_synonym cached = "int \<times> (string, py) dict"

record admin_entry =
  ad_fingerprint :: string
  ad_done :: "cached option"
  ad_expires :: clock

type_synonym admin_store = "(string, admin_entry) dict"

definition ADMIN_TTL_SECONDS :: clock where "ADMIN_TTL_SECONDS = 86400"

definition ADMIN_PENDING_TTL_SECONDS :: clock where "ADMIN_PENDING_TTL_SECONDS = 120"

definition admin_store_key :: "string \<Rightarrow> string \<Rightarrow> string \<Rightarrow> string" where
  "admin_store_key scope tenant_id idempotency_key =
     scope @ '':'' @ tenant_id @ '':'' @ strip idempotency_key"

definition admin_pending :: "string \<Rightarrow> clock \<Rightarrow> admin_entry" where
  "admin_pending fp now = \<lparr>ad_fingerprint = fp, ad_done = None, ad_expires = now + ADMIN_PENDING_TTL_SECONDS\<rparr>"

definition admin_done :: "string \<Rightarrow> cached \<Rightarrow> clock \<Rightarrow> admin_entry" where
  "admin_done fp c now = \<lparr>ad_fingerprint = fp, ad_done = Some c, ad_expires = now + ADMIN_TTL_SECONDS\<rparr>"

section \<open>The memory store\<close>

definition idempotency_prune :: "clock \<Rightarrow> admin_store \<Rightarrow> admin_store" where
  "idempotency_prune now s = dpop_all (dkeys_where (\<lambda>k e. ad_expires e \<le> now) s) s"

definition memory_begin :: "string \<Rightarrow> string \<Rightarrow> clock \<Rightarrow> admin_store \<Rightarrow> admin_store \<times> cached verdict" where
  "memory_begin store_key fp now s =
     (let s = idempotency_prune now s in
      case dget s store_key of
        Some e \<Rightarrow>
          (s, if ad_fingerprint e \<noteq> fp then KeyReused
              else case ad_done e of None \<Rightarrow> InProgress | Some c \<Rightarrow> Replay c)
      | None \<Rightarrow> (dset store_key (admin_pending fp now) s, Proceed))"

definition memory_record :: "string \<Rightarrow> string \<Rightarrow> cached \<Rightarrow> clock \<Rightarrow> admin_store \<Rightarrow> admin_store" where
  "memory_record store_key fp c now s = dset store_key (admin_done fp c now) s"

section \<open>The Firestore store\<close>

definition firestore_create :: "string \<Rightarrow> string \<Rightarrow> clock \<Rightarrow> admin_store \<Rightarrow> admin_store \<times> cached verdict" where
  "firestore_create doc_id fp now docs =
     (case dget docs doc_id of
        None \<Rightarrow> (dset doc_id (admin_pending fp now) docs, Proceed)
      | Some e \<Rightarrow>
          (docs,
           if ad_fingerprint e \<noteq> fp then KeyReused
           else case ad_done e of
             Some c \<Rightarrow> if now < ad_expires e then Replay c else KeyExpired
           | None \<Rightarrow> if ad_expires e \<le> now then KeyStale else InProgress))"

definition firestore_set :: "string \<Rightarrow> string \<Rightarrow> cached \<Rightarrow> clock \<Rightarrow> admin_store \<Rightarrow> admin_store" where
  "firestore_set doc_id fp c now docs = dset doc_id (admin_done fp c now) docs"

record fs_faults =
  no_client :: bool
  create_fails :: bool
  read_fails :: bool
  set_fails :: bool

record admin_stores =
  memory :: admin_store
  docs :: admin_store

definition fallback_begin :: "string \<Rightarrow> string \<Rightarrow> clock \<Rightarrow> admin_stores \<Rightarrow> admin_stores \<times> cached verdict" where
  "fallback_begin store_key fp now st =
     (case memory_begin store_key fp now (memory st) of (m, v) \<Rightarrow> (st\<lparr>memory := m\<rparr>, v))"

definition firestore_begin ::
  "(string \<Rightarrow> string) \<Rightarrow> fs_faults \<Rightarrow> string \<Rightarrow> string \<Rightarrow> clock \<Rightarrow> admin_stores \<Rightarrow> admin_stores \<times> cached verdict" where
  "firestore_begin doc_id f store_key fp now st =
     (if no_client f \<or> create_fails f then fallback_begin store_key fp now st
      else if dget (docs st) (doc_id store_key) \<noteq> None \<and> read_fails f
      then fallback_begin store_key fp now st
      else case firestore_create (doc_id store_key) fp now (docs st) of (d, v) \<Rightarrow> (st\<lparr>docs := d\<rparr>, v))"

definition firestore_record ::
  "(string \<Rightarrow> string) \<Rightarrow> fs_faults \<Rightarrow> string \<Rightarrow> string \<Rightarrow> cached \<Rightarrow> clock \<Rightarrow> admin_stores \<Rightarrow> admin_stores" where
  "firestore_record doc_id f store_key fp c now st =
     (if no_client f \<or> set_fails f then st\<lparr>memory := memory_record store_key fp c now (memory st)\<rparr>
      else st\<lparr>docs := firestore_set (doc_id store_key) fp c now (docs st)\<rparr>)"

section \<open>The request functions\<close>

datatype begin_result = KeyRequired | Begun "cached verdict"

definition idempotency_key_dependency :: "string option \<Rightarrow> string option" where
  "idempotency_key_dependency hdr =
     (let key = strip (case hdr of Some h \<Rightarrow> h | None \<Rightarrow> []) in if key = [] then None else Some key)"

definition idempotency_begin ::
  "bool \<Rightarrow> (string \<Rightarrow> string) \<Rightarrow> fs_faults \<Rightarrow> (py \<Rightarrow> string) \<Rightarrow> string option \<Rightarrow> string \<Rightarrow> string \<Rightarrow> py \<Rightarrow> clock
   \<Rightarrow> admin_stores \<Rightarrow> admin_stores \<times> begin_result" where
  "idempotency_begin uses_firestore doc_id f fingerprint hdr scope tenant_id payload now st =
     (case idempotency_key_dependency hdr of
        None \<Rightarrow> (st, KeyRequired)
      | Some key \<Rightarrow>
          (let store_key = admin_store_key scope tenant_id key; fp = fingerprint payload in
           case (if uses_firestore then firestore_begin doc_id f store_key fp now st
                 else fallback_begin store_key fp now st) of
             (st, v) \<Rightarrow> (st, Begun v)))"

definition idempotency_commit_admin ::
  "bool \<Rightarrow> (string \<Rightarrow> string) \<Rightarrow> fs_faults \<Rightarrow> string \<Rightarrow> string \<Rightarrow> string option \<Rightarrow> string option \<Rightarrow> cached \<Rightarrow> clock
   \<Rightarrow> admin_stores \<Rightarrow> admin_stores" where
  "idempotency_commit_admin uses_firestore doc_id f scope tenant_id key fp c now st =
     (case (key, fp) of
        (Some k, Some p) \<Rightarrow>
          (if k = [] \<or> p = [] then st
           else if uses_firestore then firestore_record doc_id f (admin_store_key scope tenant_id k) p c now st
           else st\<lparr>memory := memory_record (admin_store_key scope tenant_id k) p c now (memory st)\<rparr>)
      | _ \<Rightarrow> st)"

section \<open>Both stores keep the contract\<close>

definition admin_entry_of :: "admin_store \<Rightarrow> string \<Rightarrow> (string \<times> cached option \<times> clock) option" where
  "admin_entry_of s k = map_option (\<lambda>e. (ad_fingerprint e, ad_done e, ad_expires e)) (dget s k)"

lemma admin_prune_get:
  assumes "dict_wf s"
  shows "dget (idempotency_prune now s) k =
    (case dget s k of None \<Rightarrow> None | Some e \<Rightarrow> if ad_expires e \<le> now then None else Some e)"
  unfolding idempotency_prune_def by (rule dget_prune [OF assms])

lemma admin_prune_wf: "dict_wf s \<Longrightarrow> dict_wf (idempotency_prune now s)"
  by (simp add: idempotency_prune_def)

text \<open>
  A request that is refused after its key was reserved, without a commit, blocks its own retry
  until the reservation expires.
\<close>

lemma uncommitted_blocks_retry:
  assumes "memory_begin store_key fp now s = (s', Proceed)" and "dict_wf s" and "now' < now + ADMIN_PENDING_TTL_SECONDS"
  shows "snd (memory_begin store_key fp now' s') = InProgress"
proof -
  have s': "s' = dset store_key (admin_pending fp now) (idempotency_prune now s)"
    using assms(1) by (auto simp: memory_begin_def Let_def split: option.splits if_splits)
  then have "dict_wf s'" using admin_prune_wf [OF assms(2)] by simp
  then show ?thesis
    using assms(3) s' by (simp add: memory_begin_def Let_def idempotency_prune_def in_dkeys_where_wf admin_pending_def)
qed

interpretation mem_idem: idempotency_store memory_begin memory_record admin_entry_of dict_wf
  ADMIN_PENDING_TTL_SECONDS ADMIN_TTL_SECONDS
proof
  show "dict_wf s \<Longrightarrow> memory_begin k fp now s = (s', Proceed) \<Longrightarrow>
      admin_entry_of s' k = Some (fp, None, now + ADMIN_PENDING_TTL_SECONDS)" for s k fp now s'
    by (auto simp: memory_begin_def Let_def admin_entry_of_def admin_pending_def split: option.splits if_splits)
  show "dict_wf s \<Longrightarrow> admin_entry_of s k = Some x \<Longrightarrow> now < snd (snd x) \<Longrightarrow>
      admin_entry_of (fst (memory_begin k' fp now s)) k = Some x" for s k x now k' fp
    by (auto simp: memory_begin_def Let_def admin_entry_of_def admin_prune_get split: option.splits)
qed (auto simp: memory_begin_def memory_record_def admin_done_def admin_entry_of_def admin_prune_get
    admin_prune_wf Let_def split: option.splits)

interpretation fs_idem: idempotency_store firestore_create firestore_set admin_entry_of dict_wf
  ADMIN_PENDING_TTL_SECONDS ADMIN_TTL_SECONDS
proof
  show "dict_wf s \<Longrightarrow> firestore_create k fp now s = (s', Proceed) \<Longrightarrow>
      admin_entry_of s' k = Some (fp, None, now + ADMIN_PENDING_TTL_SECONDS)" for s k fp now s'
    by (auto simp: firestore_create_def admin_entry_of_def admin_pending_def split: option.splits if_splits)
  show "dict_wf s \<Longrightarrow> admin_entry_of s k = Some x \<Longrightarrow> now < snd (snd x) \<Longrightarrow>
      admin_entry_of (fst (firestore_create k' fp now s)) k = Some x" for s k x now k' fp
    by (auto simp: firestore_create_def admin_entry_of_def split: option.splits)
qed (auto simp: firestore_create_def firestore_set_def admin_done_def admin_entry_of_def split: option.splits)

section \<open>Properties\<close>

text \<open>
  C6 Each of the two admin stores by itself, the one in memory and the one in Firestore, lets a
  request that finishes in time execute once: a request proceeds, its response is recorded in
  the same store within the two minutes its claim lasts, and no other response is recorded under
  the key.  Then every request with the key within the two minutes and before the recording is
  refused, and every one in the 24 hours after the recording replays the recorded status and
  body, or is refused when its payload differs, whatever requests with this and other keys and
  recordings under other keys come between, in whatever order of clock readings below the two
  limits.  Outside: a longer request, and a request for
  which a Firestore call fails, since the code then asks the memory of the process instead,
  which knows nothing of the claim, so that the request runs again
  (\<open>fallback_runs_again\<close>).
\<close>

theorem admin_request_runs_once:
  assumes "(begin_op, record_op) \<in> {(memory_begin, memory_record), (firestore_create, firestore_set)}"
    and "dict_wf s" and "begin_op k fp t0 s = (s1, Proceed)"
    and "run_idem begin_op record_op earlier s1 = (s2, out1)" and "t1 < t0 + ADMIN_PENDING_TTL_SECONDS"
    and "\<forall>ev \<in> set earlier. event_time ev < t0 + ADMIN_PENDING_TTL_SECONDS"
    and "\<forall>k' fp' b' t. Commit k' fp' b' t \<in> set (earlier @ later) \<longrightarrow> k' \<noteq> k"
    and "run_idem begin_op record_op later (record_op k fp b t1 s2) = (s3, out2)"
    and "\<forall>ev \<in> set later. event_time ev < t1 + ADMIN_TTL_SECONDS"
  shows "(\<forall>fp' v. (k, fp', v) \<in> set out1 \<longrightarrow> v = (if fp' = fp then InProgress else KeyReused)) \<and>
    (\<forall>fp' v. (k, fp', v) \<in> set out2 \<longrightarrow> v = (if fp' = fp then Replay b else KeyReused))"
proof -
  from assms(1) consider "begin_op = memory_begin" "record_op = memory_record"
    | "begin_op = firestore_create" "record_op = firestore_set" by blast
  then show ?thesis
  proof cases
    case 1
    note a = assms(2-) [unfolded 1]
    from mem_idem.proceed_then_replay [OF a] show ?thesis by blast
  next
    case 2
    note a = assms(2-) [unfolded 2]
    from fs_idem.proceed_then_replay [OF a] show ?thesis by blast
  qed
qed

theorem admin_request_runs_once_witness:
  "\<exists>s3 out2. run_idem firestore_create firestore_set [Request ''k'' ''f'' 50]
      (firestore_set ''k'' ''f'' (200, []) 20 (fst (firestore_create ''k'' ''f'' 0 []))) = (s3, out2) \<and>
    out2 \<noteq> [] \<and> (\<forall>v. (''k'', ''f'', v) \<in> set out2 \<longrightarrow> v = Replay (200, []))"
proof -
  have p: "firestore_create ''k'' ''f'' 0 [] = ([(''k'', admin_pending ''f'' 0)], Proceed)"
    by (simp add: firestore_create_def)
  let ?r = "run_idem firestore_create firestore_set [Request ''k'' ''f'' 50]
      (firestore_set ''k'' ''f'' (200, []) 20 [(''k'', admin_pending ''f'' 0)])"
  obtain s3 out2 where r: "?r = (s3, out2)" by (cases ?r)
  from admin_request_runs_once [of firestore_create firestore_set "[]" "''k''" "''f''" 0 "[(''k'', admin_pending ''f'' 0)]"
      "[]" "[(''k'', admin_pending ''f'' 0)]" "[]" 20 "[Request ''k'' ''f'' 50]" "(200, [])" s3 out2] r p
  have all: "\<forall>fp' v. (''k'', fp', v) \<in> set out2 \<longrightarrow> v = (if fp' = ''f'' then Replay (200, []) else KeyReused)"
    by (simp add: ADMIN_PENDING_TTL_SECONDS_def ADMIN_TTL_SECONDS_def)
  moreover have "out2 \<noteq> []" using r by (auto split: prod.splits)
  ultimately show ?thesis using r p all [rule_format, of "''f''"] by auto
qed

text \<open>
  The fallback to memory forgets what Firestore holds: a request whose response is recorded
  there runs a second time when the claim of its repetition fails with an exception.
\<close>

lemma fallback_runs_again:
  assumes "\<not> no_client f" and "\<not> set_fails f" and "create_fails g" and "dget (memory st) store_key = None"
    and "dict_wf (memory st)"
  shows "snd (firestore_begin doc_id g store_key fp now (firestore_record doc_id f store_key fp c t st)) = Proceed"
  using assms by (simp add: firestore_begin_def firestore_record_def fallback_begin_def memory_begin_def
      admin_prune_get Let_def split: prod.split)

end
