(* ===== verification/Ws_Auth.thy ===== *)
theory Ws_Auth
  imports Base64 Py_Values Replay_Guard
begin

text \<open>
  \<open>app/api/v1/public/ws_auth.py\<close>: the signed single-use tokens of the websocket, and the
  minting of the same tokens by \<open>sip_bridge/gateway_client.py\<close>.  \<open>hmac secret input\<close> is
  HMAC-SHA256, \<open>dumps\<close> and \<open>loads\<close> are the JSON functions on encoded text (\<open>None\<close> for any
  exception), \<open>parse_float\<close> is \<open>float\<close> of a string.  The set of used token ids is a
  dictionary from the id to its expiry.
\<close>

record ws_claims =
  ws_sub :: py
  ws_tenant :: py
  ws_company :: py
  ws_exp :: clock
  ws_jti :: py
  ws_caller :: py

datatype ws_result = Rejected | Accepted ws_claims | Crashed

type_synonym used_jtis = "(py, clock) dict"

definition MAX_USED_JTIS :: nat where "MAX_USED_JTIS = 10000"

section \<open>Creating\<close>

definition token_header :: py where
  "token_header = PDict [(''alg'', PStr ''HS256''), (''typ'', PStr ''WS'')]"

definition token_payload :: "string \<Rightarrow> string \<Rightarrow> string \<Rightarrow> clock \<Rightarrow> string \<Rightarrow> string \<Rightarrow> py" where
  "token_payload user_id tenant_id company_id expiry jti caller_phone =
     PDict [(''sub'', PStr user_id), (''tenant_id'', PStr tenant_id), (''company_id'', PStr company_id),
       (''exp'', PFloat expiry), (''jti'', PStr jti), (''caller_phone'', PStr caller_phone)]"

definition sign_token :: "(string \<Rightarrow> string \<Rightarrow> bytes) \<Rightarrow> (py \<Rightarrow> bytes) \<Rightarrow> string \<Rightarrow> py \<Rightarrow> string" where
  "sign_token hmac dumps secret payload =
     (let hdr = b64url_encode (dumps token_header); p = b64url_encode (dumps payload);
          signing_input = hdr @ ''.'' @ p
      in signing_input @ ''.'' @ b64url_encode (hmac secret signing_input))"

text \<open>\<open>None\<close> is the \<open>ValueError\<close> for a missing secret.\<close>

definition create_ws_token ::
  "(string \<Rightarrow> string \<Rightarrow> bytes) \<Rightarrow> (py \<Rightarrow> bytes) \<Rightarrow> string \<Rightarrow> string \<Rightarrow> string \<Rightarrow> string \<Rightarrow> string \<Rightarrow> int \<Rightarrow> string
   \<Rightarrow> clock \<Rightarrow> string option" where
  "create_ws_token hmac dumps secret jti user_id tenant_id company_id ttl_seconds caller_phone now =
     (if secret = [] then None
      else Some (sign_token hmac dumps secret
        (token_payload user_id tenant_id company_id (fl (now + of_int ttl_seconds)) jti caller_phone)))"

section \<open>Validating\<close>

fun to_float :: "(string \<Rightarrow> rat option) \<Rightarrow> py \<Rightarrow> rat option" where
  "to_float parse_float (PInt i) = Some (fl (of_int i))"
| "to_float parse_float (PBool b) = Some (of_bool b)"
| "to_float parse_float (PFloat q) = Some q"
| "to_float parse_float (PStr s) = parse_float s"
| "to_float parse_float _ = None"

definition hashable :: "py \<Rightarrow> bool" where
  "hashable v \<longleftrightarrow> (case v of PList _ \<Rightarrow> False | PDict _ \<Rightarrow> False | _ \<Rightarrow> True)"

definition prune_used_jtis :: "clock \<Rightarrow> used_jtis \<Rightarrow> used_jtis" where
  "prune_used_jtis now used =
     (let used = dpop_all (dkeys_where (\<lambda>jti expiry. expiry < now) used) used in
      if MAX_USED_JTIS < length used
      then dpop_all (map fst (take (length used - MAX_USED_JTIS) (sort_key snd used))) used
      else used)"

text \<open>The signature check: the decoded payload of a correctly signed token.\<close>

definition verified_payload ::
  "(string \<Rightarrow> string \<Rightarrow> bytes) \<Rightarrow> (bytes \<Rightarrow> py option) \<Rightarrow> string \<Rightarrow> string \<Rightarrow> py option" where
  "verified_payload hmac loads secret token =
     (if secret = [] \<or> token = [] then None
      else case split_on (CHR ''.'') token of
        [header_b64, payload_b64, sig_b64] \<Rightarrow>
          (case b64url_decode sig_b64 of
             None \<Rightarrow> None
           | Some actual_sig \<Rightarrow>
               if hmac secret (header_b64 @ ''.'' @ payload_b64) \<noteq> actual_sig then None
               else Option.bind (b64url_decode payload_b64) loads)
      | _ \<Rightarrow> None)"

definition consume_jti :: "py \<Rightarrow> clock \<Rightarrow> clock \<Rightarrow> used_jtis \<Rightarrow> used_jtis \<times> bool" where
  "consume_jti jti expiry now used =
     (let used = prune_used_jtis now used in
      if dget used jti \<noteq> None then (used, False) else (dset jti expiry used, True))"

text \<open>
  The clock is read twice: \<open>checked_at\<close> for the expiry of the presented token, \<open>now\<close> for the
  pruning of the store under its lock.
\<close>

definition validate_ws_token ::
  "(string \<Rightarrow> string \<Rightarrow> bytes) \<Rightarrow> (bytes \<Rightarrow> py option) \<Rightarrow> (string \<Rightarrow> rat option) \<Rightarrow> string \<Rightarrow> string \<Rightarrow> string
   \<Rightarrow> clock \<Rightarrow> clock \<Rightarrow> used_jtis \<Rightarrow> used_jtis \<times> ws_result" where
  "validate_ws_token hmac loads parse_float secret token expected_user_id checked_at now used =
     (case verified_payload hmac loads secret token of
        None \<Rightarrow> (used, Rejected)
      | Some (PDict payload) \<Rightarrow>
          (case to_float parse_float (dget_default payload ''exp'' (PInt 0)) of
             None \<Rightarrow> (used, Rejected)
           | Some expiry \<Rightarrow>
               (let sub = dget_default payload ''sub'' (PStr []);
                    jti = dget_default payload ''jti'' (PStr [])
                in if expiry < checked_at then (used, Rejected)
                   else if sub \<noteq> PStr expected_user_id then (used, Rejected)
                   else if \<not> truthy jti then (used, Rejected)
                   else if \<not> hashable jti then (prune_used_jtis now used, Crashed)
                   else case consume_jti jti expiry now used of
                     (used, False) \<Rightarrow> (used, Rejected)
                   | (used, True) \<Rightarrow> (used, Accepted \<lparr>ws_sub = sub,
                       ws_tenant = dget_default payload ''tenant_id'' (PStr []),
                       ws_company = dget_default payload ''company_id'' (PStr []), ws_exp = expiry, ws_jti = jti,
                       ws_caller = dget_default payload ''caller_phone'' (PStr [])\<rparr>)))
      | Some _ \<Rightarrow> (used, Crashed))"

section \<open>A token is used once\<close>

text \<open>A presentation: the token, the user it is presented for and the reading of the expiry check.\<close>

definition ws_accepts ::
  "(string \<Rightarrow> string \<Rightarrow> bytes) \<Rightarrow> (bytes \<Rightarrow> py option) \<Rightarrow> (string \<Rightarrow> rat option) \<Rightarrow> string
   \<Rightarrow> string \<times> string \<times> clock \<Rightarrow> clock \<Rightarrow> used_jtis \<Rightarrow> used_jtis \<times> bool" where
  "ws_accepts hmac loads parse_float secret r now used =
     (case validate_ws_token hmac loads parse_float secret (fst r) (fst (snd r)) (snd (snd r)) now used of
        (used, res) \<Rightarrow> (used, \<exists>c. res = Accepted c))"

definition payload_field :: "py option \<Rightarrow> string \<Rightarrow> py \<Rightarrow> py" where
  "payload_field p k v = (case p of Some (PDict d) \<Rightarrow> dget_default d k v | _ \<Rightarrow> v)"

definition token_jti :: "(bytes \<Rightarrow> py option) \<Rightarrow> (string \<Rightarrow> string \<Rightarrow> bytes) \<Rightarrow> string \<Rightarrow> string \<Rightarrow> py" where
  "token_jti loads hmac secret token = payload_field (verified_payload hmac loads secret token) ''jti'' (PStr [])"

definition token_exp ::
  "(bytes \<Rightarrow> py option) \<Rightarrow> (string \<Rightarrow> string \<Rightarrow> bytes) \<Rightarrow> (string \<Rightarrow> rat option) \<Rightarrow> string \<Rightarrow> string \<Rightarrow> clock" where
  "token_exp loads hmac parse_float secret token =
     (case to_float parse_float (payload_field (verified_payload hmac loads secret token) ''exp'' (PInt 0)) of
        Some e \<Rightarrow> e | None \<Rightarrow> 0)"

definition jti_remembered :: "used_jtis \<Rightarrow> py \<Rightarrow> clock \<Rightarrow> bool" where
  "jti_remembered used jti u \<longleftrightarrow> (\<exists>e. dget used jti = Some e \<and> u \<le> e)"

definition jti_room :: "used_jtis \<Rightarrow> bool" where
  "jti_room used \<longleftrightarrow> dict_wf used \<and> length used \<le> MAX_USED_JTIS"

lemma prune_below_cap:
  assumes "jti_room used"
  shows "prune_used_jtis now used = dpop_all (dkeys_where (\<lambda>jti expiry. expiry < now) used) used"
  using assms length_dpop_all_le [of "dkeys_where (\<lambda>jti expiry. expiry < now) used" used]
  by (simp add: prune_used_jtis_def Let_def jti_room_def)

lemma prune_keeps:
  assumes "jti_room used" and "jti_remembered used k u" and "now \<le> u"
  shows "jti_remembered (prune_used_jtis now used) k u"
proof -
  obtain e where e: "dget used k = Some e" "u \<le> e" using assms(2) by (auto simp: jti_remembered_def)
  have "dict_wf used" using assms(1) by (simp add: jti_room_def)
  then have "dget (prune_used_jtis now used) k = Some e"
    unfolding prune_below_cap [OF assms(1)] using e assms(3) by (simp add: in_dkeys_where_wf)
  with e(2) show ?thesis by (simp add: jti_remembered_def)
qed

lemma ws_accepts_cases:
  obtains (silent) "ws_accepts hmac loads pf secret r now used = (used, False)"
  | (pruned) "ws_accepts hmac loads pf secret r now used = (prune_used_jtis now used, False)"
  | (consumed) "ws_accepts hmac loads pf secret r now used =
      consume_jti (token_jti loads hmac secret (fst r)) (token_exp loads hmac pf secret (fst r)) now used"
proof -
  have "ws_accepts hmac loads pf secret r now used \<in>
      {(used, False), (prune_used_jtis now used, False),
       consume_jti (token_jti loads hmac secret (fst r)) (token_exp loads hmac pf secret (fst r)) now used}"
    by (auto simp: ws_accepts_def validate_ws_token_def token_jti_def token_exp_def payload_field_def Let_def
        split: option.splits py.splits prod.splits bool.splits)
  then show ?thesis using silent pruned consumed by blast
qed

lemma ws_accepts_keeps:
  assumes "jti_room used" and "jti_remembered used k u" and "now \<le> u"
  shows "jti_remembered (fst (ws_accepts hmac loads pf secret r now used)) k u"
proof (cases rule: ws_accepts_cases [of hmac loads pf secret r now used])
  case consumed
  show ?thesis
    using prune_keeps [OF assms] by (auto simp: consumed consume_jti_def Let_def jti_remembered_def)
qed (use assms(2) prune_keeps [OF assms] in simp_all)

lemma ws_accepts_rejects:
  assumes "jti_room used" and "jti_remembered used (token_jti loads hmac secret (fst r)) u" and "now \<le> u"
  shows "\<not> snd (ws_accepts hmac loads pf secret r now used)"
proof (cases rule: ws_accepts_cases [of hmac loads pf secret r now used])
  case consumed
  show ?thesis
    using prune_keeps [OF assms] by (auto simp: consumed consume_jti_def Let_def jti_remembered_def)
qed simp_all

interpretation ws: replay_guard "ws_accepts hmac loads pf secret" "\<lambda>r. token_jti loads hmac secret (fst r)"
  "\<lambda>r now. token_exp loads hmac pf secret (fst r)" jti_remembered jti_room
  for hmac loads pf secret
proof
  show "jti_room s \<Longrightarrow> ws_accepts hmac loads pf secret r now s = (s', True) \<Longrightarrow>
      jti_remembered s' (token_jti loads hmac secret (fst r)) (token_exp loads hmac pf secret (fst r))"
    for s r now s'
    by (cases rule: ws_accepts_cases [of hmac loads pf secret r now s])
       (auto simp: consume_jti_def Let_def jti_remembered_def split: if_splits)
qed (use ws_accepts_keeps ws_accepts_rejects in blast)+

lemma prune_used_wf: "dict_wf used \<Longrightarrow> dict_wf (prune_used_jtis now used)"
  by (simp add: prune_used_jtis_def Let_def)

lemma prune_used_length: "length (prune_used_jtis now used) \<le> length used"
  unfolding prune_used_jtis_def Let_def
  using length_dpop_all_le le_trans by (smt (verit) length_dpop_all_le le_trans)

lemma ws_accepts_grows:
  assumes "dict_wf used"
  shows "dict_wf (fst (ws_accepts hmac loads pf secret r now used)) \<and>
    length (fst (ws_accepts hmac loads pf secret r now used)) \<le> Suc (length used)"
proof (cases rule: ws_accepts_cases [of hmac loads pf secret r now used])
  case consumed
  show ?thesis
    using prune_used_wf [OF assms, of now] prune_used_length [of now used]
    by (auto simp: consumed consume_jti_def Let_def length_dset)
qed (use assms prune_used_wf in \<open>simp_all add: le_SucI [OF prune_used_length]\<close>)

lemma ws_room_along:
  assumes "dict_wf used" and "length used + length evs \<le> MAX_USED_JTIS"
  shows "room_along (ws_accepts hmac loads pf secret) jti_room used evs"
  using assms
proof (induction evs arbitrary: used)
  case (Cons ev evs)
  obtain r now where ev: "ev = (r, now)" by (cases ev) blast
  have "room_along (ws_accepts hmac loads pf secret) jti_room
      (fst (ws_accepts hmac loads pf secret r now used)) evs"
    using Cons ws_accepts_grows [OF Cons.prems(1), of hmac loads pf secret r now]
    by (intro Cons.IH) auto
  moreover have "jti_room used" using Cons.prems by (simp add: jti_room_def)
  ultimately show ?case by (simp add: ev)
qed simp

text \<open>A sample token with an empty payload text, read as the claims of user \<open>u\<close>.\<close>

definition sample_claims :: py where
  "sample_claims = PDict [(''exp'', PInt 5), (''sub'', PStr ''u''), (''jti'', PStr ''j'')]"

lemma fl_small: "fl 5 = 5"
  by code_simp

lemma sample_claims_verified:
  "verified_payload (\<lambda>s m. []) (\<lambda>b. Some sample_claims) ''k'' ''..'' = Some sample_claims"
  by (simp add: verified_payload_def b64url_decode_def b64decode_def is_ascii_def code_def)

lemmas sample_token = sample_claims_verified [unfolded sample_claims_def] sample_claims_def dget_default_def fl_small
  consume_jti_def prune_used_jtis_def hashable_def Let_def dkeys_where_def dpop_all_def MAX_USED_JTIS_def

section \<open>Properties\<close>

text \<open>
  C4 Among up to ten thousand presentations of tokens to an empty store, a token id that was
  accepted is not accepted again while its token is still valid, whatever is presented in
  between, for whatever user, and whatever the clock says at each expiry check.
\<close>

theorem ws_token_single_use:
  assumes "length evs \<le> MAX_USED_JTIS" and "i < j" and "j < length evs"
    and "run_checks (ws_accepts hmac loads pf secret) [] evs ! i"
    and "token_jti loads hmac secret (fst (fst (evs ! j))) = token_jti loads hmac secret (fst (fst (evs ! i)))"
    and "\<forall>m. i < m \<longrightarrow> m < length evs \<longrightarrow>
      snd (evs ! m) \<le> token_exp loads hmac pf secret (fst (fst (evs ! i)))"
  shows "\<not> run_checks (ws_accepts hmac loads pf secret) [] evs ! j"
  by (rule ws.no_second_accept [OF ws_room_along assms(2-)]) (use assms(1) in simp_all)

theorem ws_token_single_use_witness:
  "run_checks (ws_accepts (\<lambda>s m. []) (\<lambda>b. Some sample_claims) (\<lambda>s. None) ''k'') []
     [((''..'', ''u'', 1), 1), ((''..'', ''u'', 1), 2)] ! 0 \<and>
   \<not> run_checks (ws_accepts (\<lambda>s m. []) (\<lambda>b. Some sample_claims) (\<lambda>s. None) ''k'') []
     [((''..'', ''u'', 1), 1), ((''..'', ''u'', 1), 2)] ! 1"
proof -
  let ?run = "run_checks (ws_accepts (\<lambda>s m. []) (\<lambda>b. Some sample_claims) (\<lambda>s. None) ''k'') []
     [((''..'', ''u'', 1), 1), ((''..'', ''u'', 1), 2)]"
  have first: "?run ! 0"
    by (simp add: ws_accepts_def validate_ws_token_def sample_token split: prod.splits)
  have "token_exp (\<lambda>b. Some sample_claims) (\<lambda>s m. []) (\<lambda>s. None) ''k'' ''..'' = 5"
    by (simp add: token_exp_def payload_field_def sample_token)
  then have "\<not> ?run ! 1"
    using first by (intro ws_token_single_use [where i = 0]) (auto simp: MAX_USED_JTIS_def less_Suc_eq)
  with first show ?thesis by simp
qed

text \<open>
  An accepted token has three parts, the third of which is the HMAC of the first two under
  the configured secret; its payload names the expected user, has not expired, and its id
  was not among the remembered ones.
\<close>

theorem ws_token_sound:
  assumes "validate_ws_token hmac loads pf secret token user checked_at now used = (used', Accepted c)"
  shows "\<exists>h p sig. token = h @ ''.'' @ p @ ''.'' @ sig \<and>
      b64url_decode sig = Some (hmac secret (h @ ''.'' @ p)) \<and> secret \<noteq> [] \<and>
    ws_sub c = PStr user \<and> checked_at \<le> ws_exp c \<and>
    dget (prune_used_jtis now used) (ws_jti c) = None \<and> dget used' (ws_jti c) = Some (ws_exp c)"
proof -
  obtain payload where vp: "verified_payload hmac loads secret token = Some (PDict payload)"
    using assms by (auto simp: validate_ws_token_def split: option.splits py.splits)
  then obtain h p sig where parts: "split_on (CHR ''.'') token = [h, p, sig]"
      and sg: "b64url_decode sig = Some (hmac secret (h @ ''.'' @ p))" and "secret \<noteq> []"
    by (auto simp: verified_payload_def split: if_splits list.splits option.splits)
  moreover have "token = h @ ''.'' @ p @ ''.'' @ sig"
    using join_split_on [of "CHR ''.''" token] parts by simp
  moreover have "ws_sub c = PStr user" "checked_at \<le> ws_exp c"
      "dget (prune_used_jtis now used) (ws_jti c) = None" "dget used' (ws_jti c) = Some (ws_exp c)"
    using assms vp
    by (auto simp: validate_ws_token_def consume_jti_def Let_def
        split: option.splits if_splits prod.splits bool.splits)
  ultimately show ?thesis by blast
qed

theorem ws_token_sound_witness:
  "ws_sub \<lparr>ws_sub = PStr ''u'', ws_tenant = PStr [], ws_company = PStr [], ws_exp = 5, ws_jti = PStr ''j'',
     ws_caller = PStr []\<rparr> = PStr ''u'' \<and>
   (\<exists>h p sig. ''..'' = h @ ''.'' @ p @ ''.'' @ sig \<and> b64url_decode sig = Some [])"
proof -
  have "validate_ws_token (\<lambda>s m. []) (\<lambda>b. Some sample_claims) (\<lambda>s. None) ''k'' ''..'' ''u'' 1 1 [] =
    ([(PStr ''j'', 5)], Accepted \<lparr>ws_sub = PStr ''u'', ws_tenant = PStr [], ws_company = PStr [], ws_exp = 5,
       ws_jti = PStr ''j'', ws_caller = PStr []\<rparr>)"
    by (simp add: validate_ws_token_def sample_token)
  from ws_token_sound [OF this] show ?thesis by auto
qed

text \<open>
  A token fresh from \<open>create_ws_token\<close> is accepted for its user until it expires, with
  the claims it was created with, provided the JSON text of the payload reads back as the
  payload and the id is new.
\<close>

theorem ws_token_roundtrip:
  assumes "create_ws_token hmac dumps secret jti user tenant company ttl caller t0 = Some token"
    and "loads (dumps (token_payload user tenant company (fl (t0 + of_int ttl)) jti caller)) =
      Some (token_payload user tenant company (fl (t0 + of_int ttl)) jti caller)" and "jti \<noteq> []"
    and "checked_at \<le> fl (t0 + of_int ttl)" and "dget (prune_used_jtis now used) (PStr jti) = None"
  shows "\<exists>used'. validate_ws_token hmac loads pf secret token user checked_at now used = (used', Accepted
    \<lparr>ws_sub = PStr user, ws_tenant = PStr tenant, ws_company = PStr company,
     ws_exp = fl (t0 + of_int ttl), ws_jti = PStr jti, ws_caller = PStr caller\<rparr>)"
proof -
  define payload where "payload = token_payload user tenant company (fl (t0 + of_int ttl)) jti caller"
  define h where "h = b64url_encode (dumps token_header)"
  define p where "p = b64url_encode (dumps payload)"
  define sig where "sig = b64url_encode (hmac secret (h @ ''.'' @ p))"
  have s: "secret \<noteq> []" and tok: "token = h @ CHR ''.'' # p @ CHR ''.'' # sig"
    using assms(1)
    by (simp_all add: create_ws_token_def sign_token_def Let_def h_def p_def sig_def payload_def split: if_splits)
  have "split_on (CHR ''.'') token = [h, p, sig]"
    unfolding tok by (simp add: split_on_append split_on_none b64url_no_dot h_def p_def sig_def)
  then have "verified_payload hmac loads secret token = Some payload"
    using s tok assms(2) by (simp add: payload_def [symmetric] verified_payload_def b64url_decode_encode p_def sig_def)
  then show ?thesis
    using assms(3-5)
    by (simp add: validate_ws_token_def payload_def token_payload_def dget_default_def hashable_def
        consume_jti_def Let_def)
qed

theorem ws_token_roundtrip_witness:
  "\<exists>used'. validate_ws_token (\<lambda>s m. []) (\<lambda>b. Some (token_payload ''u'' ''t'' ''c'' 5 ''j'' ''p'')) (\<lambda>s. None) ''k''
    (sign_token (\<lambda>s m. []) (\<lambda>v. []) ''k'' (token_payload ''u'' ''t'' ''c'' 5 ''j'' ''p'')) ''u'' 3 3 [] =
    (used', Accepted \<lparr>ws_sub = PStr ''u'', ws_tenant = PStr ''t'', ws_company = PStr ''c'',
       ws_exp = 5, ws_jti = PStr ''j'', ws_caller = PStr ''p''\<rparr>)"
proof -
  have "create_ws_token (\<lambda>s m. []) (\<lambda>v. []) ''k'' ''j'' ''u'' ''t'' ''c'' 4 ''p'' 1 =
      Some (sign_token (\<lambda>s m. []) (\<lambda>v. []) ''k'' (token_payload ''u'' ''t'' ''c'' 5 ''j'' ''p''))"
    by (simp add: create_ws_token_def fl_small)
  from ws_token_roundtrip [OF this, of "\<lambda>b. Some (token_payload ''u'' ''t'' ''c'' 5 ''j'' ''p'')" 3 3 "[]" "\<lambda>s. None"]
  show ?thesis by (simp add: fl_small sample_token)
qed

end
