(* ===== verification/Core_Helpers.thy ===== *)
theory Core_Helpers
  imports Py_Values
begin

text \<open>
  \<open>app/api/v1/public/core_helpers.py\<close>: the origin checks, the sliding-window rate limiter and
  the payload helpers shared by the HTTP and WebSocket endpoints, with the webhook guard of
  \<open>app/api/v1/at/security.py\<close> on top of the limiter.  An optional string is an \<open>option\<close>;
  attribute access on a configuration object is lookup in a dictionary of values.
\<close>

section \<open>Origins and small lookups\<close>

definition parse_allowlist :: "string \<Rightarrow> string list" where
  "parse_allowlist raw = filter (\<lambda>o'. o' \<noteq> []) (map strip (split_on (CHR '','') raw))"

definition is_origin_allowed :: "string option \<Rightarrow> string list \<Rightarrow> bool" where
  "is_origin_allowed origin allowed = (case origin of None \<Rightarrow> True | Some o' \<Rightarrow> o' \<in> set allowed)"

definition is_websocket_origin_allowed :: "string option \<Rightarrow> string list \<Rightarrow> bool \<Rightarrow> bool" where
  "is_websocket_origin_allowed origin allowed allow_missing =
     (case origin of None \<Rightarrow> allow_missing | Some o' \<Rightarrow> o' \<in> set allowed)"

text \<open>\<open>unsafe\<close> holds of the characters that \<open>unsafe_pattern\<close> removes.\<close>

definition sanitize_log :: "(char \<Rightarrow> bool) \<Rightarrow> string option \<Rightarrow> string" where
  "sanitize_log unsafe value =
     (case value of None \<Rightarrow> ''<none>'' | Some v \<Rightarrow> take 200 (filter (\<lambda>c. \<not> unsafe c) v))"

fun positive_count :: "py \<Rightarrow> int option" where
  "positive_count (PInt i) = (if 0 < i then Some i else None)"
| "positive_count (PBool b) = (if b then Some 1 else None)"
| "positive_count (PFloat q) = (if 0 < q then Some (py_trunc q) else None)"
| "positive_count _ = None"

fun usage_int :: "(string, py) dict \<Rightarrow> string list \<Rightarrow> int" where
  "usage_int usage [] = 0"
| "usage_int usage (name # names) =
     (case positive_count (py_get usage name) of Some i \<Rightarrow> i | None \<Rightarrow> usage_int usage names)"

definition voice_map :: "(string, string) dict" where
  "voice_map = [(''electronics'', ''Aoede''), (''hotel'', ''Puck''), (''automotive'', ''Charon''), (''fashion'', ''Kore'')]"

definition voice_for_industry :: "string \<Rightarrow> string" where
  "voice_for_industry industry = dget_default voice_map (lower (strip industry)) ''Aoede''"

definition known_legacy :: "string list" where
  "known_legacy = [''electronics'', ''hotel'', ''automotive'', ''fashion'']"

fun normalized_text :: "py \<Rightarrow> string option" where
  "normalized_text (PStr s) = Some (lower (strip s))"
| "normalized_text _ = None"

definition template_alias :: "string \<Rightarrow> string option" where
  "template_alias t =
     (if t \<in> set known_legacy then Some t
      else if CHR ''-'' \<in> set t then
        (let prefix = strip (before (CHR ''-'') t) in if prefix = [] then None else Some prefix)
      else None)"

definition category_alias :: "string \<Rightarrow> string option" where
  "category_alias c =
     (if c \<in> set known_legacy \<or> c \<in> {''telecom'', ''aviation''} then Some c else None)"

definition legacy_industry_alias_from_registry_config :: "(string, py) dict option \<Rightarrow> string \<Rightarrow> string" where
  "legacy_industry_alias_from_registry_config config fallback =
     (case config of
        None \<Rightarrow> fallback
      | Some c \<Rightarrow>
          (let explicit = normalized_text (py_get c ''legacy_industry_alias'') in
           if explicit \<noteq> None \<and> explicit \<noteq> Some [] then the explicit
           else case Option.bind (normalized_text (py_get c ''industry_template_id'')) template_alias of
             Some a \<Rightarrow> a
           | None \<Rightarrow>
               (case Option.bind (normalized_text (py_get c ''template_category'')) category_alias of
                  Some a \<Rightarrow> a | None \<Rightarrow> fallback)))"

section \<open>Session payloads\<close>

text \<open>A value copied when it is a non-empty string, respectively a list.\<close>

fun nonempty_text :: "py \<Rightarrow> bool" where
  "nonempty_text (PStr s) = (s \<noteq> [])"
| "nonempty_text _ = False"

fun is_list :: "py \<Rightarrow> bool" where
  "is_list (PList _) = True"
| "is_list _ = False"

definition copy_if :: "(py \<Rightarrow> bool) \<Rightarrow> (string, py) dict \<Rightarrow> string \<Rightarrow> string \<Rightarrow> (string, py) dict \<Rightarrow> (string, py) dict" where
  "copy_if ok state key name payload = (let v = py_get state key in if ok v then dset name v payload else payload)"

definition append_canonical_lock_fields ::
  "(string, py) dict \<Rightarrow> (string, py) dict option \<Rightarrow> (string, py) dict" where
  "append_canonical_lock_fields payload session_state =
     (case session_state of
        None \<Rightarrow> payload
      | Some st \<Rightarrow>
          copy_if nonempty_text st ''app:registry_version'' ''registryVersion''
            (copy_if nonempty_text st ''app:industry_template_id'' ''industryTemplateId''
              (copy_if nonempty_text st ''app:tenant_id'' ''tenantId'' payload)))"

definition build_session_started_message ::
  "string \<Rightarrow> string \<Rightarrow> string \<Rightarrow> string \<Rightarrow> bool \<Rightarrow> (string, py) dict option \<Rightarrow> (string, py) dict" where
  "build_session_started_message session_id industry company_id voice manual_vad session_state =
     (let payload = [(''type'', PStr ''session_started''), (''sessionId'', PStr session_id),
            (''industry'', PStr industry), (''companyId'', PStr company_id), (''voice'', PStr voice),
            (''manualVadActive'', PBool manual_vad),
            (''vadMode'', PStr (if manual_vad then ''manual'' else ''auto''))]
      in case session_state of
           None \<Rightarrow> payload
         | Some st \<Rightarrow>
             copy_if nonempty_text st ''app:registry_version'' ''registryVersion''
               (copy_if is_list st ''app:capabilities'' ''capabilities''
                 (copy_if nonempty_text st ''app:industry_template_id'' ''industryTemplateId''
                   (copy_if nonempty_text st ''app:tenant_id'' ''tenantId'' payload))))"

text \<open>The requested and the resolved template of the 409 answer, if there is one.\<close>

definition registry_mismatch_response ::
  "string option \<Rightarrow> string option \<Rightarrow> bool \<Rightarrow> (string \<times> string) option" where
  "registry_mismatch_response requested resolved require_match =
     (if \<not> require_match then None
      else case (requested, resolved) of
        (Some a, Some b) \<Rightarrow> if a = [] \<or> b = [] \<or> a = b then None else Some (a, b)
      | _ \<Rightarrow> None)"

definition client_ip_from_request :: "string option \<Rightarrow> string option \<Rightarrow> string" where
  "client_ip_from_request forwarded_for client_host =
     (let first_ip = (case forwarded_for of None \<Rightarrow> [] | Some f \<Rightarrow> strip (before (CHR '','') f)) in
      if first_ip \<noteq> [] then first_ip else case client_host of Some h \<Rightarrow> h | None \<Rightarrow> ''unknown'')"

section \<open>The rate limiter\<close>

type_synonym buckets = "(string, clock list) dict"

text \<open>\<open>min(d.keys(), key=score)\<close>: the first key with the least score.\<close>

fun min_key :: "('v \<Rightarrow> clock) \<Rightarrow> (string, 'v) dict \<Rightarrow> string option" where
  "min_key score [] = None"
| "min_key score ((k, v) # d) =
     (case min_key score d of
        None \<Rightarrow> Some k
      | Some k' \<Rightarrow> (case dget d k' of
          Some v' \<Rightarrow> if score v' < score v then Some k' else Some k
        | None \<Rightarrow> Some k))"

definition stale :: "clock \<Rightarrow> clock \<Rightarrow> clock list \<Rightarrow> bool" where
  "stale now window values \<longleftrightarrow> values = [] \<or> window \<le> now - last values"

definition last_seen :: "clock list \<Rightarrow> clock" where
  "last_seen values = (if values = [] then 0 else last values)"

definition bucket_key :: "string \<Rightarrow> string \<Rightarrow> string" where
  "bucket_key bucket client_ip = bucket @ '':'' @ client_ip"

definition global_prune :: "clock \<Rightarrow> clock \<Rightarrow> clock \<Rightarrow> buckets \<Rightarrow> buckets \<times> clock" where
  "global_prune now window last_prune b =
     (if window \<le> now - last_prune then (dpop_all (dkeys_where (\<lambda>k. stale now window) b) b, now)
      else (b, last_prune))"

definition make_room :: "nat \<Rightarrow> string \<Rightarrow> buckets \<Rightarrow> buckets" where
  "make_room max_buckets key b =
     (if dget b key = None \<and> max_buckets \<le> length b then
        (case min_key last_seen b of Some k \<Rightarrow> dpop k b | None \<Rightarrow> b)
      else b)"

definition check_rate_limit ::
  "nat \<Rightarrow> clock \<Rightarrow> nat \<Rightarrow> string \<Rightarrow> string \<Rightarrow> clock \<Rightarrow> buckets \<times> clock \<Rightarrow> (buckets \<times> clock) \<times> bool" where
  "check_rate_limit limit window max_buckets bucket client_ip now st =
     (case global_prune now window (snd st) (fst st) of
        (b, last_prune) \<Rightarrow>
          (let key = bucket_key bucket client_ip;
               b = make_room max_buckets key b;
               timestamps = filter (\<lambda>t. now - t < window) (dget_default b key [])
           in if limit \<le> length timestamps then ((dset key timestamps b, last_prune), False)
              else ((dset key (timestamps @ [now]) b, last_prune), True)))"

text \<open>\<open>verify_at_webhook\<close>, with its constants.\<close>

datatype guard = Allowed | Unauthorized_Source | Rate_Limited

definition AT_RATE_LIMIT :: nat where "AT_RATE_LIMIT = 30"

definition AT_RATE_WINDOW :: clock where "AT_RATE_WINDOW = 60"

definition verify_at_webhook ::
  "string list \<Rightarrow> string option \<Rightarrow> clock \<Rightarrow> buckets \<times> clock \<Rightarrow> (buckets \<times> clock) \<times> guard" where
  "verify_at_webhook allowed_ips client now st =
     (let client_ip = (case client of Some h \<Rightarrow> h | None \<Rightarrow> []) in
      if allowed_ips \<noteq> [] \<and> client_ip \<notin> set allowed_ips then (st, Unauthorized_Source)
      else case check_rate_limit AT_RATE_LIMIT AT_RATE_WINDOW 1000 ''at'' client_ip now st of
        (st', ok) \<Rightarrow> (st', if ok then Allowed else Rate_Limited))"

section \<open>Runs of the limiter\<close>

text \<open>
  The answers to a sequence of requests (client address and time), and the reference: a log
  of everything admitted, against which each request is counted.
\<close>

fun limiter_run ::
  "nat \<Rightarrow> clock \<Rightarrow> nat \<Rightarrow> string \<Rightarrow> buckets \<times> clock \<Rightarrow> (string \<times> clock) list \<Rightarrow> bool list" where
  "limiter_run limit window max_buckets bucket st [] = []"
| "limiter_run limit window max_buckets bucket st ((ip, now) # evs) =
     (case check_rate_limit limit window max_buckets bucket ip now st of
        (st', ok) \<Rightarrow> ok # limiter_run limit window max_buckets bucket st' evs)"

definition admitted_in :: "clock \<Rightarrow> (string \<times> clock) list \<Rightarrow> string \<Rightarrow> clock \<Rightarrow> clock list" where
  "admitted_in window seen ip now = map snd (filter (\<lambda>(a, t). a = ip \<and> now - t < window) seen)"

fun sliding_log :: "nat \<Rightarrow> clock \<Rightarrow> (string \<times> clock) list \<Rightarrow> (string \<times> clock) list \<Rightarrow> bool list" where
  "sliding_log limit window seen [] = []"
| "sliding_log limit window seen ((ip, now) # evs) =
     (let ok = length (admitted_in window seen ip now) < limit in
      ok # sliding_log limit window (if ok then seen @ [(ip, now)] else seen) evs)"

definition recent_of :: "clock \<Rightarrow> buckets \<Rightarrow> string \<Rightarrow> clock \<Rightarrow> clock list" where
  "recent_of window b key now = filter (\<lambda>t. now - t < window) (dget_default b key [])"

definition buckets_ok :: "string set \<Rightarrow> clock \<Rightarrow> buckets \<Rightarrow> bool" where
  "buckets_ok keys time b \<longleftrightarrow> dict_wf b \<and>
     (\<forall>k v. dget b k = Some v \<longrightarrow> k \<in> keys \<and> sorted v \<and> (\<forall>t \<in> set v. t \<le> time))"

lemma bucket_key_eq [simp]: "bucket_key bucket a = bucket_key bucket b \<longleftrightarrow> a = b"
  by (simp add: bucket_key_def)

lemma buckets_ok_later: "buckets_ok keys time b \<Longrightarrow> time \<le> now \<Longrightarrow> buckets_ok keys now b"
  unfolding buckets_ok_def by (meson order_trans)

lemma sorted_last: "sorted v \<Longrightarrow> t \<in> set v \<Longrightarrow> t \<le> last v" for t :: clock
  by (induction v) auto

lemma stale_not_recent:
  assumes "sorted v" and "stale now window v" and "now \<le> later" and "t \<in> set v"
  shows "\<not> later - t < window"
  using sorted_last [OF assms(1,4)] assms(2-4) by (auto simp: stale_def)

lemma global_prune_recent:
  assumes "buckets_ok keys time b" and "now \<le> later"
  shows "recent_of window (fst (global_prune now window lp b)) key later = recent_of window b key later"
proof (cases "dget b key")
  case None
  then show ?thesis by (simp add: recent_of_def dget_default_def global_prune_def)
next
  case (Some v)
  have "filter (\<lambda>t. later - t < window) v = []" if "stale now window v"
    using stale_not_recent [OF _ that assms(2)] assms(1) Some by (auto simp: buckets_ok_def filter_empty_conv)
  then show ?thesis
    using assms(1) Some
    by (auto simp: recent_of_def dget_default_def global_prune_def in_dkeys_where_wf buckets_ok_def)
qed

lemma global_prune_ok:
  assumes "buckets_ok keys time b"
  shows "buckets_ok keys time (fst (global_prune now window lp b))"
  using assms by (auto simp: global_prune_def buckets_ok_def split: if_splits)

text \<open>With at most \<open>max_buckets\<close> clients there is always room.\<close>

lemma length_dict_wf: "dict_wf d \<Longrightarrow> length d = card (fst ` set d)"
  using distinct_card [of "map fst d"] by (simp add: dict_wf_def)

lemma make_room_id:
  assumes "buckets_ok keys time b" and "finite keys" and "card keys \<le> max_buckets" and "key \<in> keys"
  shows "make_room max_buckets key b = b"
proof (cases "dget b key")
  case None
  have wf: "dict_wf b" using assms(1) by (simp add: buckets_ok_def)
  have "key \<notin> fst ` set b" using None by (simp add: map_of_eq_None_iff)
  moreover have "fst ` set b \<subseteq> keys"
    using assms(1) in_set_dget [OF wf] by (fastforce simp: buckets_ok_def)
  ultimately have "fst ` set b \<subset> keys" using assms(4) by blast
  then have "card (fst ` set b) < card keys" using assms(2) by (rule psubset_card_mono [rotated])
  then show ?thesis using assms(3) length_dict_wf [OF wf] by (simp add: make_room_def)
qed (simp add: make_room_def)

lemma buckets_ok_dset:
  assumes "buckets_ok keys time b" and "key \<in> keys" and "sorted v" and "\<forall>t \<in> set v. t \<le> time"
  shows "buckets_ok keys time (dset key v b)"
  using assms by (auto simp: buckets_ok_def)

text \<open>One request against the reference log.\<close>

definition tracks :: "clock \<Rightarrow> string \<Rightarrow> clock \<Rightarrow> buckets \<Rightarrow> (string \<times> clock) list \<Rightarrow> bool" where
  "tracks window bucket time b seen \<longleftrightarrow>
     (\<forall>ip later. time \<le> later \<longrightarrow> recent_of window b (bucket_key bucket ip) later = admitted_in window seen ip later)"

lemma recent_of_dset:
  "recent_of window (dset key v b) k later =
     (if k = key then filter (\<lambda>t. later - t < window) v else recent_of window b k later)"
  by (simp add: recent_of_def dget_default_def)

lemma admitted_in_snoc:
  "admitted_in window (seen @ [(a, t)]) ip later =
     admitted_in window seen ip later @ (if a = ip \<and> later - t < window then [t] else [])"
  by (simp add: admitted_in_def)

lemma filter_recent_twice:
  fixes now later :: clock
  assumes "now \<le> later"
  shows "filter (\<lambda>t. later - t < window) (filter (\<lambda>t. now - t < window) v) = filter (\<lambda>t. later - t < window) v"
  using assms by (auto intro!: filter_cong)

lemma check_rate_limit_step:
  assumes ok: "buckets_ok keys time (fst st)" and tr: "tracks window bucket time (fst st) seen"
    and "finite keys" and "card keys \<le> max_buckets" and "bucket_key bucket ip \<in> keys" and "time \<le> now"
    and step: "check_rate_limit limit window max_buckets bucket ip now st = (st', allowed)"
  shows "allowed = (length (admitted_in window seen ip now) < limit)"
    and "buckets_ok keys now (fst st')"
    and "tracks window bucket now (fst st') (if allowed then seen @ [(ip, now)] else seen)"
proof -
  obtain b lp where p: "global_prune now window (snd st) (fst st) = (b, lp)" by force
  let ?key = "bucket_key bucket ip"
  let ?ts = "filter (\<lambda>t. now - t < window) (dget_default b ?key [])"
  have b_ok: "buckets_ok keys now b"
    using buckets_ok_later [OF global_prune_ok [OF ok] assms(6)] p by (metis fst_conv)
  have recent: "recent_of window b (bucket_key bucket a) later = admitted_in window seen a later" if "now \<le> later" for a later
    using global_prune_recent [OF ok that] tr that assms(6) p by (metis fst_conv order_trans tracks_def)
  have room: "make_room max_buckets ?key b = b" by (rule make_room_id [OF b_ok assms(3-5)])
  have ts: "?ts = admitted_in window seen ip now" using recent [of now ip] by (simp add: recent_of_def)
  have st': "allowed = (length ?ts < limit)" "fst st' = dset ?key (if allowed then ?ts @ [now] else ?ts) b"
    using step by (auto simp: check_rate_limit_def p room Let_def split: if_splits)
  show "allowed = (length (admitted_in window seen ip now) < limit)" using st' ts by simp
  have "sorted (dget_default b ?key [])" "\<forall>t \<in> set (dget_default b ?key []). t \<le> now"
    using b_ok by (cases "dget b ?key", auto simp: dget_default_def buckets_ok_def)+
  then show "buckets_ok keys now (fst st')"
    unfolding st'(2) using buckets_ok_dset [OF b_ok assms(5)] by (auto simp: sorted_append sorted_wrt_filter)
  show "tracks window bucket now (fst st') (if allowed then seen @ [(ip, now)] else seen)"
    unfolding tracks_def st'(2) recent_of_dset
  proof (intro allI impI)
    fix a later
    assume later: "now \<le> later"
    have "filter (\<lambda>t. later - t < window) ?ts = admitted_in window seen ip later"
      using recent [OF later, of ip] by (simp only: filter_recent_twice [OF later] recent_of_def)
    then show "(if bucket_key bucket a = ?key
        then filter (\<lambda>t. later - t < window) (if allowed then ?ts @ [now] else ?ts)
        else recent_of window b (bucket_key bucket a) later) =
      admitted_in window (if allowed then seen @ [(ip, now)] else seen) a later"
      by (cases "a = ip"; cases allowed) (simp_all add: recent [OF later] admitted_in_snoc)
  qed
qed

lemma limiter_run_sliding:
  assumes "buckets_ok keys time (fst st)" and "tracks window bucket time (fst st) seen"
    and "finite keys" and "card keys \<le> max_buckets" and "\<forall>ev \<in> set evs. bucket_key bucket (fst ev) \<in> keys"
    and "sorted (map snd evs)" and "\<forall>ev \<in> set evs. time \<le> snd ev"
  shows "limiter_run limit window max_buckets bucket st evs = sliding_log limit window seen evs"
  using assms(1,2,5-)
proof (induction evs arbitrary: st seen time)
  case (Cons ev evs)
  obtain ip now where ev: "ev = (ip, now)" by force
  obtain st' allowed where step: "check_rate_limit limit window max_buckets bucket ip now st = (st', allowed)"
    by (cases "check_rate_limit limit window max_buckets bucket ip now st") blast
  note one = check_rate_limit_step [OF Cons.prems(1,2) assms(3,4) _ _ step]
  show ?case
    using Cons.IH [OF one(2,3)] one(1) Cons.prems(3-5) step by (auto simp: ev)
qed simp

section \<open>Properties\<close>

text \<open>
  C9 The rate limiter is an exact sliding window: over any sequence of requests in order of
  time, from at most \<open>max_buckets\<close> clients, its pruning, eviction and per-client lists answer
  exactly as the reference that keeps a log of everything it admitted and counts, for each
  request, the client's admissions within the window.
\<close>

theorem limiter_is_sliding_window:
  assumes "sorted (map snd evs)" and "card (fst ` set evs) \<le> max_buckets"
  shows "limiter_run limit window max_buckets bucket ([], last_prune) evs = sliding_log limit window [] evs"
proof (cases evs)
  case (Cons ev rest)
  have "inj (bucket_key bucket)" by (rule injI) simp
  then have "card (bucket_key bucket ` fst ` set evs) = card (fst ` set evs)"
    by (intro card_image) (simp add: inj_on_def)
  then show ?thesis
    using assms Cons
    by (intro limiter_run_sliding [where keys = "bucket_key bucket ` fst ` set evs" and time = "snd ev"])
       (auto simp: buckets_ok_def tracks_def recent_of_def dget_default_def admitted_in_def)
qed simp

theorem limiter_is_sliding_window_witness:
  "limiter_run 2 60 10 ''at'' ([], 0) [(''a'', 1), (''a'', 2), (''b'', 3), (''a'', 4), (''a'', 61)] =
    [True, True, True, False, True]"
proof -
  have "limiter_run 2 60 10 ''at'' ([], 0) [(''a'', 1), (''a'', 2), (''b'', 3), (''a'', 4), (''a'', 61)] =
    sliding_log 2 60 [] [(''a'', 1), (''a'', 2), (''b'', 3), (''a'', 4), (''a'', 61)]"
    by (rule limiter_is_sliding_window) (simp_all add: card_insert_if)
  also have "\<dots> = [True, True, True, False, True]" by (simp add: admitted_in_def)
  finally show ?thesis .
qed

end
