(* ===== verification/Wa_Security.thy ===== *)
theory Wa_Security
  imports Core_Helpers Replay_Guard Bridge_Config
begin

text \<open>
  \<open>app/api/v1/at/wa_security.py\<close>: the guard of Meta's webhook, the authentication of calls
  between the services with its nonce store, and the check of Cloud Tasks requests.
  \<open>hmac secret message\<close> is the hexadecimal HMAC-SHA256, \<open>parse_float\<close> is \<open>float\<close> of a
  string (\<open>None\<close> for \<open>ValueError\<close>); a request body is given as text (decoded with
  replacement).  Header names are looked up in lower case, a missing header is empty.
\<close>

type_synonym http_headers = "(string, string) dict"

definition hdr :: "http_headers \<Rightarrow> string \<Rightarrow> string" where
  "hdr hs name = dget_default hs name []"

text \<open>A status code is an \<open>HTTPException\<close>; \<open>Crash\<close> any other exception.\<close>

datatype 'a outcome = Passed 'a | Http nat | Crash

record wa_settings =
  app_secret :: string
  verify_token :: string
  service_secret :: string
  service_secret_previous :: string
  max_skew :: clock
  tasks_queue :: string
  tasks_audience :: string
  tasks_invoker :: string
  edge_header :: string
  rate_mode :: string

section \<open>The webhook\<close>

definition verify_wa_webhook ::
  "(string \<Rightarrow> string \<Rightarrow> string) \<Rightarrow> wa_settings \<Rightarrow> http_headers \<Rightarrow> string option \<Rightarrow> string \<Rightarrow> clock
   \<Rightarrow> buckets \<times> clock \<Rightarrow> (buckets \<times> clock) \<times> string outcome" where
  "verify_wa_webhook hmac cfg hs client raw_body now st =
     (let signature = hdr hs ''x-hub-signature-256'' in
      if signature = [] then (st, Http 403)
      else if app_secret cfg = [] then (st, Http 500)
      else case compare_digest (hmac (app_secret cfg) raw_body) (removeprefix ''sha256='' signature) of
        None \<Rightarrow> (st, Crash)
      | Some False \<Rightarrow> (st, Http 403)
      | Some True \<Rightarrow>
          if rate_mode cfg = ''edge_enforced'' then
            (st, if hdr hs (lower (edge_header cfg)) \<noteq> ''1'' then Http 403 else Passed raw_body)
          else if rate_mode cfg = ''best_effort_local'' then
            (case check_rate_limit 60 60 1000 ''wa_webhook'' (case client of Some h \<Rightarrow> h | None \<Rightarrow> []) now st of
               (st', ok) \<Rightarrow> (st', if ok then Passed raw_body else Http 429))
          else (st, Http 403))"

definition verify_wa_verify_token :: "wa_settings \<Rightarrow> string \<Rightarrow> bool option" where
  "verify_wa_verify_token cfg token =
     (if verify_token cfg = [] then Some False else compare_digest token (verify_token cfg))"

section \<open>Nonces\<close>

text \<open>The set and the dictionary of the in-process store.\<close>

record nonce_store =
  nonce_set :: "string list"
  nonce_times :: "(string, clock) dict"

definition NONCE_TTL :: clock where "NONCE_TTL = 300"

definition empty_nonces :: nonce_store where
  "empty_nonces = \<lparr>nonce_set = [], nonce_times = []\<rparr>"

definition check_nonce :: "string \<Rightarrow> clock \<Rightarrow> nonce_store \<Rightarrow> nonce_store \<times> bool" where
  "check_nonce nonce now st =
     (let expired = dkeys_where (\<lambda>n ts. NONCE_TTL < now - ts) (nonce_times st);
          seen = filter (\<lambda>n. n \<notin> set expired) (nonce_set st);
          times = dpop_all expired (nonce_times st)
      in if nonce \<in> set seen then (\<lparr>nonce_set = seen, nonce_times = times\<rparr>, False)
         else (\<lparr>nonce_set = seen @ [nonce], nonce_times = dset nonce now times\<rparr>, True))"

text \<open>Documents by hash; \<open>create\<close> fails when the document exists.\<close>

definition check_nonce_firestore ::
  "(string \<Rightarrow> string) \<Rightarrow> string \<Rightarrow> clock \<Rightarrow> (string, clock \<times> clock) dict \<Rightarrow> (string, clock \<times> clock) dict \<times> bool" where
  "check_nonce_firestore sha256 nonce now docs =
     (if dget docs (sha256 nonce) \<noteq> None then (docs, False)
      else (dset (sha256 nonce) (now, now + NONCE_TTL) docs, True))"

definition env_text :: "env \<Rightarrow> string \<Rightarrow> string" where
  "env_text e name = strip (dget_default e name [])"

definition nonce_store_uses_firestore :: "env \<Rightarrow> bool" where
  "nonce_store_uses_firestore e =
     (let mode = lower (strip (dget_default e ''WA_NONCE_STORE_MODE'' ''auto'')) in
      if mode = ''local'' then False
      else if mode = ''firestore'' then True
      else env_text e ''FIRESTORE_EMULATOR_HOST'' \<noteq> [] \<or> env_text e ''K_SERVICE'' \<noteq> [])"

section \<open>Calls between the services\<close>

text \<open>What \<open>float\<close> can return; a comparison with \<open>Not_A_Number\<close> is false.\<close>

datatype stamp = Finite clock | Infinite | Not_A_Number

fun outside_skew :: "clock \<Rightarrow> clock \<Rightarrow> stamp \<Rightarrow> bool" where
  "outside_skew now skew (Finite ts) = (skew < \<bar>now - ts\<bar>)"
| "outside_skew now skew Infinite = True"
| "outside_skew now skew Not_A_Number = False"

definition verify_hmac_with_secret ::
  "(string \<Rightarrow> string \<Rightarrow> string) \<Rightarrow> string \<Rightarrow> string \<Rightarrow> string \<Rightarrow> bool option" where
  "verify_hmac_with_secret hmac secret message received =
     (if secret = [] then Some False else compare_digest (hmac secret message) received)"

record service_request =
  sr_timestamp :: string
  sr_nonce :: string
  sr_auth :: string
  sr_body :: string

definition service_message :: "service_request \<Rightarrow> string" where
  "service_message r = sr_timestamp r @ '':'' @ sr_nonce r @ '':'' @ sr_body r"

text \<open>Everything before the nonce check: \<open>None\<close> when it passes.\<close>

definition service_auth_failure ::
  "(string \<Rightarrow> string \<Rightarrow> string) \<Rightarrow> (string \<Rightarrow> stamp option) \<Rightarrow> wa_settings \<Rightarrow> service_request \<Rightarrow> clock
   \<Rightarrow> unit outcome option" where
  "service_auth_failure hmac parse_float cfg r now =
     (if sr_timestamp r = [] \<or> sr_nonce r = [] \<or> sr_auth r = [] then Some (Http 403)
      else case parse_float (sr_timestamp r) of
        None \<Rightarrow> Some (Http 403)
      | Some ts \<Rightarrow>
          if outside_skew now (max_skew cfg) ts then Some (Http 403)
          else case verify_hmac_with_secret hmac (service_secret cfg) (service_message r) (sr_auth r) of
            None \<Rightarrow> Some Crash
          | Some True \<Rightarrow> None
          | Some False \<Rightarrow>
              (case verify_hmac_with_secret hmac (service_secret_previous cfg) (service_message r) (sr_auth r) of
                 None \<Rightarrow> Some Crash
               | Some True \<Rightarrow> None
               | Some False \<Rightarrow> Some (Http 403)))"

text \<open>
  The clock is read when the headers are checked, \<open>checked_at\<close>, and again, after the body has
  been awaited, by the nonce store, \<open>now\<close>.
\<close>

definition verify_service_auth ::
  "(string \<Rightarrow> string \<Rightarrow> string) \<Rightarrow> (string \<Rightarrow> stamp option) \<Rightarrow> wa_settings \<Rightarrow> service_request \<Rightarrow> clock \<Rightarrow> clock
   \<Rightarrow> nonce_store \<Rightarrow> nonce_store \<times> unit outcome" where
  "verify_service_auth hmac parse_float cfg r checked_at now st =
     (case service_auth_failure hmac parse_float cfg r checked_at of
        Some failure \<Rightarrow> (st, failure)
      | None \<Rightarrow>
          (case check_nonce (sr_nonce r) now st of
             (st', fresh) \<Rightarrow> (st', if fresh then Passed () else Http 403)))"

text \<open>\<open>_build_service_auth_headers\<close> of \<open>sip_bridge/wa_tools.py\<close>, as the request it makes.\<close>

definition build_service_auth_headers ::
  "(string \<Rightarrow> string \<Rightarrow> string) \<Rightarrow> string \<Rightarrow> string \<Rightarrow> string \<Rightarrow> string \<Rightarrow> service_request" where
  "build_service_auth_headers hmac timestamp nonce body secret =
     \<lparr>sr_timestamp = timestamp, sr_nonce = nonce,
      sr_auth = hmac secret (timestamp @ '':'' @ nonce @ '':'' @ body), sr_body = body\<rparr>"

section \<open>Cloud Tasks\<close>

text \<open>What the Google library answers for a token.\<close>

datatype token_check = Claims "(string, py) dict" | Token_Invalid | Token_Unavailable

definition verify_cloud_tasks_oidc ::
  "(string \<Rightarrow> string \<Rightarrow> token_check) \<Rightarrow> wa_settings \<Rightarrow> http_headers \<Rightarrow> unit outcome" where
  "verify_cloud_tasks_oidc check_token cfg hs =
     (let queue = hdr hs ''x-cloudtasks-queuename''; task = hdr hs ''x-cloudtasks-taskname'';
          auth = hdr hs ''authorization''
      in if queue = [] \<or> task = [] then Http 403
         else if queue \<noteq> tasks_queue cfg then Http 403
         else if \<not> startswith ''wa-'' task then Http 403
         else if \<not> startswith ''Bearer '' auth then Http 403
         else case check_token (removeprefix ''Bearer '' auth) (tasks_audience cfg) of
           Token_Invalid \<Rightarrow> Http 403
         | Token_Unavailable \<Rightarrow> Http 500
         | Claims claims \<Rightarrow>
             if py_get claims ''aud'' \<noteq> PStr (tasks_audience cfg) then Http 403
             else if dget_default claims ''iss'' (PStr [])
                 \<notin> {PStr ''https://accounts.google.com'', PStr ''accounts.google.com''} then Http 403
             else if strip (tasks_invoker cfg) = [] then Http 500
             else if dget_default claims ''email'' (PStr []) \<noteq> PStr (strip (tasks_invoker cfg)) then Http 403
             else let verified = py_get claims ''email_verified'' in
               if verified \<noteq> PNone \<and> \<not> truthy verified then Http 403 else Passed ())"

section \<open>A request is accepted once\<close>

text \<open>
  The set and the dictionary name the same nonces; a nonce is remembered up to \<open>u\<close> when its
  entry is younger than \<open>NONCE_TTL\<close> until then.
\<close>

definition nonces_ok :: "nonce_store \<Rightarrow> bool" where
  "nonces_ok st \<longleftrightarrow> dict_wf (nonce_times st) \<and> (\<forall>n. n \<in> set (nonce_set st) \<longleftrightarrow> dget (nonce_times st) n \<noteq> None)"

definition nonce_remembered :: "nonce_store \<Rightarrow> string \<Rightarrow> clock \<Rightarrow> bool" where
  "nonce_remembered st n u \<longleftrightarrow> (\<exists>t. dget (nonce_times st) n = Some t \<and> u \<le> t + NONCE_TTL)"

text \<open>A request with the time its headers are checked, at the time of its nonce check.\<close>

definition service_accepts ::
  "(string \<Rightarrow> string \<Rightarrow> string) \<Rightarrow> (string \<Rightarrow> stamp option) \<Rightarrow> wa_settings \<Rightarrow> service_request \<times> clock \<Rightarrow> clock
   \<Rightarrow> nonce_store \<Rightarrow> nonce_store \<times> bool" where
  "service_accepts hmac parse_float cfg r now st =
     (case verify_service_auth hmac parse_float cfg (fst r) (snd r) now st of (st', res) \<Rightarrow> (st', res = Passed ()))"

lemma dict_empty: "dkeys_where P [] = []" "dpop_all ks [] = []"
  by (simp_all add: dkeys_where_def dpop_all_eq_filter)

lemma nonces_ok_empty [simp]: "nonces_ok empty_nonces"
  by (simp add: nonces_ok_def empty_nonces_def)

lemma check_nonce_ok: "nonces_ok st \<Longrightarrow> nonces_ok (fst (check_nonce n now st))"
  by (auto simp: nonces_ok_def check_nonce_def Let_def in_dkeys_where_wf)

lemma check_nonce_keeps:
  assumes "nonces_ok st" and "nonce_remembered st k u" and "now \<le> u"
  shows "nonce_remembered (fst (check_nonce n now st)) k u" and "n = k \<Longrightarrow> \<not> snd (check_nonce n now st)"
  using assms by (fastforce simp: nonces_ok_def nonce_remembered_def check_nonce_def Let_def in_dkeys_where_wf)+

lemma check_nonce_remembers:
  assumes "check_nonce n now st = (st', True)"
  shows "nonce_remembered st' n (now + NONCE_TTL)"
  using assms by (auto simp: nonce_remembered_def check_nonce_def Let_def split: if_splits)

definition signed :: "(string \<Rightarrow> string \<Rightarrow> string) \<Rightarrow> wa_settings \<Rightarrow> string \<Rightarrow> string \<Rightarrow> bool" where
  "signed hmac cfg message received \<longleftrightarrow>
     verify_hmac_with_secret hmac (service_secret cfg) message received = Some True \<or>
     verify_hmac_with_secret hmac (service_secret cfg) message received = Some False \<and>
     verify_hmac_with_secret hmac (service_secret_previous cfg) message received = Some True"

lemma auth_passes_iff:
  "service_auth_failure hmac pf cfg r now = None \<longleftrightarrow>
     sr_timestamp r \<noteq> [] \<and> sr_nonce r \<noteq> [] \<and> sr_auth r \<noteq> [] \<and>
     (\<exists>ts. pf (sr_timestamp r) = Some ts \<and> \<not> outside_skew now (max_skew cfg) ts) \<and>
     signed hmac cfg (service_message r) (sr_auth r)"
  by (auto simp: service_auth_failure_def signed_def split: option.splits bool.splits if_splits)

lemma failure_not_passed: "service_auth_failure hmac parse_float cfg r now \<noteq> Some (Passed x)"
  by (auto simp: service_auth_failure_def split: option.splits bool.splits)

lemma service_accepts_cases:
  obtains (refused) "service_accepts hmac pf cfg r now st = (st, False)"
  | (checked) "service_auth_failure hmac pf cfg (fst r) (snd r) = None"
      "service_accepts hmac pf cfg r now st = check_nonce (sr_nonce (fst r)) now st"
proof (cases "service_auth_failure hmac pf cfg (fst r) (snd r)")
  case None
  then show ?thesis
    using checked by (auto simp: service_accepts_def verify_service_auth_def split: prod.splits)
next
  case (Some failure)
  then show ?thesis
    using refused failure_not_passed [of hmac pf cfg "fst r" "snd r" "()"]
    by (auto simp: service_accepts_def verify_service_auth_def)
qed

interpretation service: replay_guard "service_accepts hmac pf cfg" "\<lambda>r. sr_nonce (fst r)" "\<lambda>_ now. now + NONCE_TTL"
  nonce_remembered nonces_ok for hmac pf cfg
proof
  show "nonce_remembered s' (sr_nonce (fst r)) (now + NONCE_TTL)"
    if "nonces_ok s" "service_accepts hmac pf cfg r now s = (s', True)" for s r now s'
    by (cases rule: service_accepts_cases [of hmac pf cfg r now s]) (use that check_nonce_remembers in auto)
  show "\<not> snd (service_accepts hmac pf cfg r now s)"
    if "nonces_ok s" "nonce_remembered s (sr_nonce (fst r)) u" "now \<le> u" for s r u now
    by (cases rule: service_accepts_cases [of hmac pf cfg r now s]) (use check_nonce_keeps(2) [OF that] in auto)
  show "nonce_remembered (fst (service_accepts hmac pf cfg r now s)) k u"
    if "nonces_ok s" "nonce_remembered s k u" "now \<le> u" for s k u now r
    by (cases rule: service_accepts_cases [of hmac pf cfg r now s]) (use check_nonce_keeps(1) [OF that] that in auto)
qed

lemma service_accepts_ok: "nonces_ok s \<Longrightarrow> nonces_ok (fst (service_accepts hmac pf cfg r now s))"
  by (cases rule: service_accepts_cases [of hmac pf cfg r now s]) (use check_nonce_ok in auto)

lemma service_room: "nonces_ok st \<Longrightarrow> room_along (service_accepts hmac pf cfg) nonces_ok st evs"
  by (rule room_along_inv [where P = nonces_ok]) (auto intro: service_accepts_ok)

lemma run_accepted_in_skew:
  assumes "run_checks (service_accepts hmac pf cfg) st evs ! j" and "j < length evs"
    and "pf (sr_timestamp (fst (fst (evs ! j)))) = Some (Finite ts)"
  shows "\<bar>snd (fst (evs ! j)) - ts\<bar> \<le> max_skew cfg"
  using assms
proof (induction evs arbitrary: st j)
  case (Cons ev evs)
  obtain r h now where ev: "ev = ((r, h), now)" by (cases ev) auto
  show ?case
  proof (cases j)
    case 0
    then show ?thesis using Cons.prems
      by (cases rule: service_accepts_cases [of hmac pf cfg "(r, h)" now st])
         (auto simp: ev auth_passes_iff split: prod.splits)
  next
    case (Suc i)
    then show ?thesis using Cons by (auto simp: ev split: prod.splits)
  qed
qed simp

lemma service_nonce_rejected:
  assumes "sorted (map snd evs)" and "i < j" and "j < length evs"
    and "run_checks (service_accepts hmac pf cfg) empty_nonces evs ! i"
    and "sr_nonce (fst (fst (evs ! j))) = sr_nonce (fst (fst (evs ! i)))"
    and "snd (evs ! j) \<le> snd (evs ! i) + NONCE_TTL"
  shows "\<not> run_checks (service_accepts hmac pf cfg) empty_nonces evs ! j"
proof -
  have late: "snd (evs ! m) \<le> snd (evs ! i) + NONCE_TTL" if "m \<le> j" for m
    using sorted_nth_mono [OF assms(1) that] assms(3,6) that by simp
  have upto: "run_checks (service_accepts hmac pf cfg) empty_nonces (take (Suc j) evs) ! m =
      run_checks (service_accepts hmac pf cfg) empty_nonces evs ! m" if "m \<le> j" for m
    using run_checks_take [where k = "Suc j" and evs = evs and m = m] that assms(3) by simp
  have "\<not> run_checks (service_accepts hmac pf cfg) empty_nonces (take (Suc j) evs) ! j"
    by (rule service.no_second_accept [OF service_room assms(2)])
       (use assms(2,3,4,5) late upto [of i] in auto)
  then show ?thesis using upto [of j] by simp
qed

section \<open>Properties\<close>

text \<open>
  C10 After a service request is accepted, and whatever is presented in between, a request
  with its nonce is refused by the in-process store as long as the nonce is checked within
  the lifetime of a nonce, five minutes, of the accepted check; later it is refused if its
  timestamp lies outside the skew limit when its headers are read; and, the skew limit being
  at most that lifetime, it is refused whenever its body takes no longer to arrive than its
  timestamp was old at the accepted check.  The two readings of the clock, at the headers
  and after the body, are separate; a replay with a slower body is not refused
  (\<open>slow_body_replayed\<close>).
\<close>

theorem service_request_once:
  assumes "sorted (map snd evs)" and "i < j" and "j < length evs"
    and "run_checks (service_accepts hmac pf cfg) empty_nonces evs ! i"
    and "sr_nonce (fst (fst (evs ! j))) = sr_nonce (fst (fst (evs ! i)))"
    and "pf (sr_timestamp (fst (fst (evs ! j)))) = Some (Finite ts)"
    and "snd (evs ! j) \<le> snd (evs ! i) + NONCE_TTL \<or> max_skew cfg < \<bar>snd (fst (evs ! j)) - ts\<bar> \<or>
      max_skew cfg \<le> NONCE_TTL \<and> snd (evs ! j) - snd (fst (evs ! j)) \<le> snd (evs ! i) - ts"
  shows "\<not> run_checks (service_accepts hmac pf cfg) empty_nonces evs ! j"
proof (cases "snd (evs ! j) \<le> snd (evs ! i) + NONCE_TTL")
  case True
  then show ?thesis by (rule service_nonce_rejected [OF assms(1-5)])
next
  case False
  then have "max_skew cfg < \<bar>snd (fst (evs ! j)) - ts\<bar>" using assms(7) by linarith
  then show ?thesis using run_accepted_in_skew [where st = empty_nonces and pf = pf, OF _ assms(3,6)] by fastforce
qed

text \<open>A sender whose clock is \<open>5\<close>, and a MAC that is constant.\<close>

definition sample_settings :: wa_settings where
  "sample_settings = \<lparr>app_secret = ''a'', verify_token = ''v'', service_secret = ''s'', service_secret_previous = [],
     max_skew = 300, tasks_queue = ''q'', tasks_audience = ''aud'', tasks_invoker = ''i'', edge_header = ''e'',
     rate_mode = ''edge_enforced''\<rparr>"

definition sample_request :: service_request where
  "sample_request = \<lparr>sr_timestamp = ''5'', sr_nonce = ''n'', sr_auth = ''m'', sr_body = ''b''\<rparr>"

lemma sample_accepted:
  "service_auth_failure (\<lambda>k m. ''m'') (\<lambda>s. Some (Finite 5)) sample_settings sample_request now = None \<longleftrightarrow> \<bar>now - 5\<bar> \<le> 300"
  by (simp add: auth_passes_iff signed_def sample_settings_def sample_request_def verify_hmac_with_secret_def
      compare_digest_def is_ascii_def code_def not_less)

theorem service_request_once_witness:
  "run_checks (service_accepts (\<lambda>k m. ''m'') (\<lambda>s. Some (Finite 5)) sample_settings) empty_nonces
     [((sample_request, 6), 6), ((sample_request, 7), 8)] ! 0 \<and>
   \<not> run_checks (service_accepts (\<lambda>k m. ''m'') (\<lambda>s. Some (Finite 5)) sample_settings) empty_nonces
     [((sample_request, 6), 6), ((sample_request, 7), 8)] ! 1"
proof -
  let ?run = "run_checks (service_accepts (\<lambda>k m. ''m'') (\<lambda>s. Some (Finite 5)) sample_settings) empty_nonces
     [((sample_request, 6), 6), ((sample_request, 7), 8)]"
  have first: "?run ! 0"
    using sample_accepted [of 6] by (simp add: service_accepts_def verify_service_auth_def check_nonce_def
        empty_nonces_def Let_def dkeys_where_def dpop_all_def)
  have "\<not> ?run ! 1"
    by (rule service_request_once [where i = 0 and ts = 5])
       (use first in \<open>simp_all add: sample_settings_def NONCE_TTL_def\<close>)
  with first show ?thesis by simp
qed

text \<open>
  The lifetime of a nonce is measured from the first acceptance and equals the skew limit.
  An accepted request is accepted again, unchanged, when its headers are read before its
  timestamp is stale and its body arrives only after the nonce has been forgotten.
\<close>

theorem slow_body_replayed:
  assumes "service_auth_failure hmac pf cfg r h1 = None" and "service_auth_failure hmac pf cfg r h2 = None"
    and "t1 + NONCE_TTL < t2"
  shows "run_checks (service_accepts hmac pf cfg) empty_nonces [((r, h1), t1), ((r, h2), t2)] = [True, True]"
proof -
  have "dkeys_where (\<lambda>n ts. NONCE_TTL < t2 - ts) [(sr_nonce r, t1)] = [sr_nonce r]"
    using assms(3) by (simp add: dkeys_where_def)
  then show ?thesis
    using assms(1,2)
    by (simp add: service_accepts_def verify_service_auth_def check_nonce_def empty_nonces_def Let_def dict_empty)
qed

theorem slow_body_replayed_witness:
  "run_checks (service_accepts (\<lambda>k m. ''m'') (\<lambda>s. Some (Finite 5)) sample_settings) empty_nonces
     [((sample_request, 5), 6), ((sample_request, 304), 307)] = [True, True]"
  by (rule slow_body_replayed) (simp_all add: sample_accepted NONCE_TTL_def)

text \<open>
  So is a request whose timestamp lies in the future when it is first accepted, even with
  bodies that arrive at once.
\<close>

theorem future_request_replayed:
  assumes "service_auth_failure hmac pf cfg r t1 = None" and "pf (sr_timestamp r) = Some (Finite ts)"
    and "t1 + NONCE_TTL < t2" and "t2 \<le> ts + max_skew cfg"  and "ts \<le> t2"
  shows "run_checks (service_accepts hmac pf cfg) empty_nonces [((r, t1), t1), ((r, t2), t2)] = [True, True]"
proof (rule slow_body_replayed [OF assms(1) _ assms(3)])
  show "service_auth_failure hmac pf cfg r t2 = None"
    using assms(1,2,4,5) by (auto simp: auth_passes_iff)
qed

theorem future_request_replayed_witness:
  "run_checks (service_accepts (\<lambda>k m. ''m'') (\<lambda>s. Some (Finite 5)) sample_settings) empty_nonces
     [((sample_request, - 295), - 295), ((sample_request, 6), 6)] = [True, True]"
  by (rule future_request_replayed [where ts = 5])
     (simp_all add: sample_accepted NONCE_TTL_def, simp add: sample_settings_def)

text \<open>The documents of the Firestore store are never forgotten: a nonce is fresh once.\<close>

interpretation firestore_nonces: replay_guard "check_nonce_firestore sha256" sha256 "\<lambda>_ _. u"
  "\<lambda>ds h _. dget ds h \<noteq> None" "\<lambda>_. True" for sha256 u
  by unfold_locales (auto simp: check_nonce_firestore_def split: if_splits)

lemma firestore_nonce_once:
  assumes "i < j" and "j < length evs" and "run_checks (check_nonce_firestore sha256) ds evs ! i"
    and "sha256 (fst (evs ! j)) = sha256 (fst (evs ! i))"
  shows "\<not> run_checks (check_nonce_firestore sha256) ds evs ! j"
proof (rule firestore_nonces.no_second_accept [where u = "Max (snd ` set evs)", OF _ assms])
  show "room_along (check_nonce_firestore sha256) (\<lambda>_. True) ds evs"
    by (rule room_along_inv [where P = "\<lambda>_. True"]) simp_all
qed simp

text \<open>
  The signed text does not fix where the nonce ends: from an accepted request whose body
  contains a colon, anyone can make another that is accepted with the same signature, by
  moving the text up to the colon from the body to the nonce, although no new signature was
  made.
\<close>

theorem nonce_boundary_moves:
  assumes "service_auth_failure hmac pf cfg r now = None" and "sr_body r = b1 @ '':'' @ b2"
    and "nonces_ok st" and "dget (nonce_times st) (sr_nonce r @ '':'' @ b1) = None"
  shows "snd (verify_service_auth hmac pf cfg
    (r\<lparr>sr_nonce := sr_nonce r @ '':'' @ b1, sr_body := b2\<rparr>) now later st) = Passed ()"
proof -
  have "service_message (r\<lparr>sr_nonce := sr_nonce r @ '':'' @ b1, sr_body := b2\<rparr>) = service_message r"
    using assms(2) by (simp add: service_message_def)
  then have "service_auth_failure hmac pf cfg (r\<lparr>sr_nonce := sr_nonce r @ '':'' @ b1, sr_body := b2\<rparr>) now = None"
    using assms(1) by (simp add: auth_passes_iff)
  moreover have "sr_nonce r @ '':'' @ b1 \<notin> set (nonce_set st)" using assms(3,4) by (simp add: nonces_ok_def)
  ultimately show ?thesis by (simp add: verify_service_auth_def check_nonce_def Let_def)
qed

theorem nonce_boundary_moves_witness:
  "snd (verify_service_auth (\<lambda>k m. ''m'') (\<lambda>s. Some (Finite 5)) sample_settings
     \<lparr>sr_timestamp = ''5'', sr_nonce = ''n:x'', sr_auth = ''m'', sr_body = ''y''\<rparr> 6 6 empty_nonces) = Passed ()"
proof -
  have "service_auth_failure (\<lambda>k m. ''m'') (\<lambda>s. Some (Finite 5)) sample_settings (sample_request\<lparr>sr_body := ''x:y''\<rparr>) 6 = None"
    by (simp add: auth_passes_iff signed_def sample_settings_def sample_request_def verify_hmac_with_secret_def
        compare_digest_def is_ascii_def code_def)
  from nonce_boundary_moves [OF this, of "''x''" "''y''" empty_nonces 6] show ?thesis
    by (simp add: sample_request_def empty_nonces_def nonces_ok_def)
qed

text \<open>The headers the bridge builds are accepted within the skew, once per nonce.\<close>

lemma built_service_headers_accepted:
  assumes "timestamp \<noteq> []" and "nonce \<noteq> []" and "service_secret cfg \<noteq> []"
    and "pf timestamp = Some (Finite ts)" and "\<bar>now - ts\<bar> \<le> max_skew cfg"
    and "\<And>k m. hmac k m \<noteq> [] \<and> is_ascii (hmac k m)" and "nonces_ok st" and "dget (nonce_times st) nonce = None"
  shows "snd (verify_service_auth hmac pf cfg
    (build_service_auth_headers hmac timestamp nonce body (service_secret cfg)) now later st) = Passed ()"
proof -
  have "service_auth_failure hmac pf cfg (build_service_auth_headers hmac timestamp nonce body (service_secret cfg)) now = None"
    using assms(1-6) by (simp add: auth_passes_iff signed_def build_service_auth_headers_def verify_hmac_with_secret_def
        compare_digest_def service_message_def)
  moreover have "nonce \<notin> set (nonce_set st)" using assms(7,8) by (simp add: nonces_ok_def)
  ultimately show ?thesis
    by (simp add: verify_service_auth_def check_nonce_def Let_def build_service_auth_headers_def)
qed

end
