(* ===== verification/Scoped_Queries.thy ===== *)
theory Scoped_Queries
  imports Py_Values
begin

text \<open>
  \<open>app/tools/scoped_queries.py\<close>: which Firestore collection a tool may touch.  A tool context
  is \<open>None\<close> or its session state, a dictionary of values (\<open>None\<close> when the state is not
  mapping-like); a collection reference is its path.
\<close>

type_synonym session_state = "(string, py) dict"

datatype collection_path = Scoped string string string | Global string

fun text_value :: "py \<Rightarrow> string option" where
  "text_value (PStr s) = (if strip s = [] then None else Some (strip s))"
| "text_value _ = None"

definition tenant_id_from_context :: "session_state option \<Rightarrow> string option" where
  "tenant_id_from_context ctx = (case ctx of None \<Rightarrow> None | Some st \<Rightarrow> text_value (py_get st ''app:tenant_id''))"

definition company_id_from_context :: "session_state option \<Rightarrow> string option" where
  "company_id_from_context ctx = (case ctx of None \<Rightarrow> None | Some st \<Rightarrow> text_value (py_get st ''app:company_id''))"

definition scoped_collection :: "session_state option \<Rightarrow> string \<Rightarrow> collection_path option" where
  "scoped_collection ctx sub =
     (case (tenant_id_from_context ctx, company_id_from_context ctx) of
        (Some t, Some c) \<Rightarrow> Some (Scoped t c sub)
      | _ \<Rightarrow> None)"

definition scoped_collection_or_global :: "session_state option \<Rightarrow> string \<Rightarrow> collection_path option" where
  "scoped_collection_or_global ctx sub =
     (case scoped_collection ctx sub of
        Some p \<Rightarrow> Some p
      | None \<Rightarrow>
          (case ctx of
             None \<Rightarrow> Some (Global sub)
           | Some st \<Rightarrow>
               if dget st ''app:tenant_id'' \<noteq> None \<or> dget st ''app:company_id'' \<noteq> None then None
               else Some (Global sub)))"

text \<open>A session that names a tenant or a company never falls back to the global collection.\<close>

lemma scoped_or_global_fails_closed:
  assumes "dget st ''app:tenant_id'' \<noteq> None \<or> dget st ''app:company_id'' \<noteq> None"
  shows "scoped_collection_or_global (Some st) sub \<noteq> Some (Global g)"
  using assms by (auto simp: scoped_collection_or_global_def scoped_collection_def split: option.splits)

lemma scoped_collection_scope:
  "scoped_collection ctx sub = Some p \<Longrightarrow>
     \<exists>t c. p = Scoped t c sub \<and> tenant_id_from_context ctx = Some t \<and> company_id_from_context ctx = Some c"
  by (auto simp: scoped_collection_def split: option.splits)

end
