(* ===== verification/Booking.thy ===== *)
theory Booking
  imports Scoped_Queries
begin

text \<open>
  \<open>app/tools/booking_tools.py\<close>: slots and bookings in Firestore.  A document is a dictionary
  of values and is named by tenant, company and identifier.  \<open>create_booking\<close> is one
  transaction; \<open>cancel_booking\<close> is three separate requests (read, update, update), which other
  requests can interleave, so it is given both as a whole and in steps.  \<open>fmt\<close> is \<open>str()\<close>.
\<close>

type_synonym fields = "(string, py) dict"

datatype doc_key = Doc (doc_tenant: string) (doc_company: string) (doc_id: string)

record booking_db =
  slots :: "(doc_key, fields) dict"
  bookings :: "(doc_key, fields) dict"

datatype booking_error = Unavailable | Slot_Not_Found | Slot_Taken | Booking_Not_Found | Not_Owner
  | Other_Company | Operation_Failed

definition scope_of :: "session_state option \<Rightarrow> (string \<times> string) option" where
  "scope_of ctx =
     (case scoped_collection ctx ''bookings'' of Some (Scoped t c _) \<Rightarrow> Some (t, c) | _ \<Rightarrow> None)"

section \<open>Availability\<close>

definition location_tokens :: "string \<Rightarrow> string list" where
  "location_tokens value =
     filter (\<lambda>t. t \<noteq> []) (split_on (CHR '' '') (map (\<lambda>ch. if is_alnum ch then lower_char ch else CHR '' '') value))"

definition location_match_score :: "string \<Rightarrow> string \<Rightarrow> nat" where
  "location_match_score requested candidate =
     card (set (location_tokens requested) \<inter> set (location_tokens candidate))"

definition scope_docs :: "string \<times> string \<Rightarrow> (doc_key, fields) dict \<Rightarrow> (string \<times> fields) list" where
  "scope_docs sc d = map (\<lambda>(k, f). (doc_id k, f)) (filter (\<lambda>(k, f). (doc_tenant k, doc_company k) = sc) d)"

text \<open>The documents of a query with an identifier, kept when they are available.\<close>

definition available_slots :: "(fields \<Rightarrow> bool) \<Rightarrow> (string \<times> fields) list \<Rightarrow> fields list" where
  "available_slots matches docs =
     map (\<lambda>(i, f). dset ''id'' (PStr i) f)
       (filter (\<lambda>(i, f). matches f \<and> truthy (dget_default f ''available'' (PBool False))) docs)"

definition check_availability ::
  "(py \<Rightarrow> string) \<Rightarrow> string \<Rightarrow> string option \<Rightarrow> session_state option \<Rightarrow> booking_db
   \<Rightarrow> booking_error + bool \<times> fields list" where
  "check_availability fmt date location ctx db =
     (case scope_of ctx of
        None \<Rightarrow> Inl Unavailable
      | Some sc \<Rightarrow>
          (let docs = scope_docs sc (slots db);
               on_date = (\<lambda>f. dget f ''date'' = Some (PStr date));
               loc = (case location of Some l \<Rightarrow> l | None \<Rightarrow> []);
               exact = available_slots
                 (\<lambda>f. on_date f \<and> (loc = [] \<or> dget f ''location'' = Some (PStr loc))) docs
           in if exact \<noteq> [] \<or> loc = [] then Inr (False, exact)
              else
                (let score = (\<lambda>f. location_match_score loc (fmt (dget_default f ''location'' (PStr []))));
                     matches = filter (\<lambda>f. 0 < score f) (available_slots on_date docs)
                 in Inr (matches \<noteq> [], sort_key (\<lambda>f. - int (score f)) matches))))"

section \<open>Booking a slot\<close>

definition copied_text :: "session_state option \<Rightarrow> string \<Rightarrow> string \<Rightarrow> fields" where
  "copied_text ctx key name =
     (case ctx of
        Some st \<Rightarrow> (case dget_default st key (PStr []) of PStr s \<Rightarrow> (if s = [] then [] else [(name, PStr s)]) | _ \<Rightarrow> [])
      | None \<Rightarrow> [])"

record booking_request =
  br_slot :: string
  br_user :: string
  br_user_name :: string
  br_device :: string
  br_service :: string
  br_confirmation :: string
  br_now :: string

definition new_booking :: "session_state option \<Rightarrow> booking_request \<Rightarrow> fields \<Rightarrow> fields" where
  "new_booking ctx r slot =
     [(''confirmation_id'', PStr (br_confirmation r)), (''slot_id'', PStr (br_slot r)), (''user_id'', PStr (br_user r)),
      (''user_name'', PStr (br_user_name r)), (''device_name'', PStr (br_device r)),
      (''service_type'', PStr (br_service r)), (''status'', PStr ''confirmed''), (''created_at'', PStr (br_now r))]
     @ copied_text ctx ''app:tenant_id'' ''tenant_id'' @ copied_text ctx ''app:company_id'' ''company_id''
     @ [(''date'', dget_default slot ''date'' (PStr [])), (''time'', dget_default slot ''time'' (PStr [])),
        (''location'', dget_default slot ''location'' (PStr []))]"

definition create_booking ::
  "session_state option \<Rightarrow> booking_request \<Rightarrow> booking_db \<Rightarrow> booking_db \<times> (booking_error + fields)" where
  "create_booking ctx r db =
     (case scope_of ctx of
        None \<Rightarrow> (db, Inl Unavailable)
      | Some (t, c) \<Rightarrow>
          (case dget (slots db) (Doc t c (br_slot r)) of
             None \<Rightarrow> (db, Inl Slot_Not_Found)
           | Some slot \<Rightarrow>
               if \<not> truthy (dget_default slot ''available'' (PBool False)) then (db, Inl Slot_Taken)
               else (let b = new_booking ctx r slot in
                 (db\<lparr>bookings := dset (Doc t c (br_confirmation r)) b (bookings db),
                     slots := dset (Doc t c (br_slot r)) (dset ''available'' (PBool False) slot) (slots db)\<rparr>, Inr b))))"

section \<open>Cancelling\<close>

definition companies_differ :: "session_state option \<Rightarrow> fields \<Rightarrow> bool" where
  "companies_differ ctx booking =
     (case (case ctx of Some st \<Rightarrow> py_get st ''app:company_id'' | None \<Rightarrow> PNone, py_get booking ''company_id'') of
        (PStr a, PStr b) \<Rightarrow> a \<noteq> [] \<and> b \<noteq> [] \<and> a \<noteq> b
      | _ \<Rightarrow> False)"

definition booking_slot :: "doc_key \<Rightarrow> fields \<Rightarrow> doc_key option" where
  "booking_slot k booking =
     (case (k, py_get booking ''slot_id'') of
        (Doc t c i, PStr s) \<Rightarrow> (if s = [] then None else Some (Doc t c s))
      | _ \<Rightarrow> None)"

text \<open>The read and its checks; on success the document keys to update (the slot's, if any).\<close>

definition cancel_check ::
  "session_state option \<Rightarrow> string \<Rightarrow> string \<Rightarrow> booking_db \<Rightarrow> booking_error + doc_key \<times> doc_key option" where
  "cancel_check ctx confirmation user db =
     (case scope_of ctx of
        None \<Rightarrow> Inl Unavailable
      | Some (t, c) \<Rightarrow>
          (case dget (bookings db) (Doc t c confirmation) of
             None \<Rightarrow> Inl Booking_Not_Found
           | Some booking \<Rightarrow>
               if py_get booking ''user_id'' \<noteq> PStr user then Inl Not_Owner
               else if companies_differ ctx booking then Inl Other_Company
               else Inr ((Doc t c confirmation), booking_slot (Doc t c confirmation) booking)))"

text \<open>\<open>update\<close> of a document: \<open>None\<close> when it does not exist.\<close>

definition update_doc :: "doc_key \<Rightarrow> string \<Rightarrow> py \<Rightarrow> (doc_key, fields) dict \<Rightarrow> (doc_key, fields) dict option" where
  "update_doc k name v d = map_option (\<lambda>f. dset k (dset name v f) d) (dget d k)"

definition mark_cancelled :: "doc_key \<Rightarrow> booking_db \<Rightarrow> booking_db option" where
  "mark_cancelled k db =
     map_option (\<lambda>d. db\<lparr>bookings := d\<rparr>) (update_doc k ''status'' (PStr ''cancelled'') (bookings db))"

definition reopen_slot :: "doc_key option \<Rightarrow> booking_db \<Rightarrow> booking_db option" where
  "reopen_slot k db =
     (case k of None \<Rightarrow> Some db
      | Some k \<Rightarrow> map_option (\<lambda>d. db\<lparr>slots := d\<rparr>) (update_doc k ''available'' (PBool True) (slots db)))"

definition cancel_booking ::
  "session_state option \<Rightarrow> string \<Rightarrow> string \<Rightarrow> booking_db \<Rightarrow> booking_db \<times> (booking_error + string)" where
  "cancel_booking ctx confirmation user db =
     (case cancel_check ctx confirmation user db of
        Inl e \<Rightarrow> (db, Inl e)
      | Inr (b, s) \<Rightarrow>
          (case mark_cancelled b db of
             None \<Rightarrow> (db, Inl Operation_Failed)
           | Some db \<Rightarrow>
               (case reopen_slot s db of
                  None \<Rightarrow> (db, Inl Operation_Failed)
                | Some db \<Rightarrow> (db, Inr confirmation))))"

section \<open>Interleaved requests\<close>

text \<open>A cancellation in flight: its booking still to mark, or its slot still to reopen.\<close>

datatype cancel_task = Marking doc_key "doc_key option" | Reopening "doc_key option"

record booking_system =
  store :: booking_db
  tasks :: "(nat, cancel_task) dict"

datatype booking_event =
    Create "session_state option" booking_request
  | Cancel_Start nat "session_state option" string string
  | Cancel_Step nat

fun booking_step :: "booking_event \<Rightarrow> booking_system \<Rightarrow> booking_system" where
  "booking_step (Create ctx r) s = s\<lparr>store := fst (create_booking ctx r (store s))\<rparr>"
| "booking_step (Cancel_Start n ctx confirmation user) s =
     (case cancel_check ctx confirmation user (store s) of
        Inl e \<Rightarrow> s
      | Inr (b, sl) \<Rightarrow> s\<lparr>tasks := dset n (Marking b sl) (tasks s)\<rparr>)"
| "booking_step (Cancel_Step n) s =
     (case dget (tasks s) n of
        None \<Rightarrow> s
      | Some (Marking b sl) \<Rightarrow>
          (case mark_cancelled b (store s) of
             None \<Rightarrow> s\<lparr>tasks := dpop n (tasks s)\<rparr>
           | Some db \<Rightarrow> s\<lparr>store := db, tasks := dset n (Reopening sl) (tasks s)\<rparr>)
      | Some (Reopening sl) \<Rightarrow>
          (case reopen_slot sl (store s) of
             None \<Rightarrow> s\<lparr>tasks := dpop n (tasks s)\<rparr>
           | Some db \<Rightarrow> s\<lparr>store := db, tasks := dpop n (tasks s)\<rparr>))"

definition booking_run :: "booking_event list \<Rightarrow> booking_system \<Rightarrow> booking_system" where
  "booking_run evs s = fold booking_step evs s"

section \<open>What each request changes\<close>

definition is_confirmed :: "fields \<Rightarrow> bool" where
  "is_confirmed f \<longleftrightarrow> dget f ''status'' = Some (PStr ''confirmed'')"

definition confirmed_for :: "booking_db \<Rightarrow> doc_key \<Rightarrow> doc_key \<Rightarrow> bool" where
  "confirmed_for db b sl \<longleftrightarrow>
     (case dget (bookings db) b of None \<Rightarrow> False | Some f \<Rightarrow> is_confirmed f \<and> booking_slot b f = Some sl)"

definition slot_open :: "booking_db \<Rightarrow> doc_key \<Rightarrow> bool" where
  "slot_open db sl \<longleftrightarrow>
     (case dget (slots db) sl of None \<Rightarrow> False | Some f \<Rightarrow> truthy (dget_default f ''available'' (PBool False)))"

lemma new_booking_fields [simp]:
  "is_confirmed (new_booking ctx r slot)"
  "booking_slot (Doc t c i) (new_booking ctx r slot) = (if br_slot r = [] then None else Some (Doc t c (br_slot r)))"
  by (simp_all add: is_confirmed_def booking_slot_def py_get_def dget_default_def new_booking_def)

lemma create_booking_cases:
  obtains (refused) e where "create_booking ctx r db = (db, Inl e)"
  | (booked) t c slot where "scope_of ctx = Some (t, c)" "slot_open db (Doc t c (br_slot r))"
      "create_booking ctx r db =
        (db\<lparr>bookings := dset (Doc t c (br_confirmation r)) (new_booking ctx r slot) (bookings db),
            slots := dset (Doc t c (br_slot r)) (dset ''available'' (PBool False) slot) (slots db)\<rparr>,
         Inr (new_booking ctx r slot))"
proof (cases "scope_of ctx")
  case None
  then show ?thesis by (simp add: refused create_booking_def)
next
  case (Some tc)
  obtain t c where tc: "tc = (t, c)" by force
  show ?thesis
  proof (cases "dget (slots db) (Doc t c (br_slot r))")
    case None
    with Some show ?thesis by (simp add: tc refused create_booking_def)
  next
    case slot: (Some f)
    show ?thesis
    proof (cases "truthy (dget_default f ''available'' (PBool False))")
      case True
      then show ?thesis
        using Some slot by (intro booked [of t c f]) (simp_all add: tc create_booking_def slot_open_def Let_def)
    qed (use Some slot in \<open>simp add: tc refused create_booking_def\<close>)
  qed
qed

lemma booked_effect:
  fixes db :: booking_db
  assumes "db' = db\<lparr>bookings := dset (Doc t c (br_confirmation r)) (new_booking ctx r slot) (bookings db),
      slots := dset (Doc t c (br_slot r)) (dset ''available'' (PBool False) slot) (slots db)\<rparr>"
  shows "confirmed_for db' b sl \<longleftrightarrow>
      (if b = (Doc t c (br_confirmation r)) then br_slot r \<noteq> [] \<and> sl = (Doc t c (br_slot r)) else confirmed_for db b sl)"
    and "slot_open db' sl \<longleftrightarrow> sl \<noteq> (Doc t c (br_slot r)) \<and> slot_open db sl"
  unfolding assms by (auto simp: confirmed_for_def slot_open_def dget_default_def split: option.splits)

lemma cancel_check_result:
  assumes "cancel_check ctx confirmation user db = Inr (b, so)"
  shows "\<exists>f. dget (bookings db) b = Some f \<and> so = booking_slot b f"
  using assms by (auto simp: cancel_check_def split: option.splits if_splits prod.splits)

lemma mark_effect:
  assumes "mark_cancelled k db = Some db'"
  shows "confirmed_for db' b sl \<longleftrightarrow> b \<noteq> k \<and> confirmed_for db b sl" and "slot_open db' sl \<longleftrightarrow> slot_open db sl"
    and "b \<noteq> k \<Longrightarrow> dget (bookings db') b = dget (bookings db) b"
proof -
  obtain f where db': "db' = db\<lparr>bookings := dset k (dset ''status'' (PStr ''cancelled'') f) (bookings db)\<rparr>"
    using assms by (auto simp: mark_cancelled_def update_doc_def)
  show "confirmed_for db' b sl \<longleftrightarrow> b \<noteq> k \<and> confirmed_for db b sl"
    by (cases "b = k") (simp_all add: db' confirmed_for_def is_confirmed_def)
  show "slot_open db' sl \<longleftrightarrow> slot_open db sl" by (simp add: db' slot_open_def)
  show "b \<noteq> k \<Longrightarrow> dget (bookings db') b = dget (bookings db) b" by (simp add: db')
qed

lemma reopen_effect:
  assumes "reopen_slot so db = Some db'"
  shows "bookings db' = bookings db" and "confirmed_for db' b sl \<longleftrightarrow> confirmed_for db b sl"
    and "slot_open db' sl \<Longrightarrow> so = Some sl \<or> slot_open db sl"
  using assms
  by (auto simp: reopen_slot_def update_doc_def confirmed_for_def slot_open_def split: option.splits if_splits)

section \<open>The invariant\<close>

text \<open>
  The bookings whose cancellation was started are \<open>started\<close>.  A slot has at most one
  confirmed booking, and while it has one, or while a cancellation is about to reopen it, it
  is not open.
\<close>

definition one_booking :: "booking_db \<Rightarrow> bool" where
  "one_booking db \<longleftrightarrow> (\<forall>b b' sl. confirmed_for db b sl \<longrightarrow> confirmed_for db b' sl \<longrightarrow> b = b')"

definition booked_closed :: "booking_db \<Rightarrow> bool" where
  "booked_closed db \<longleftrightarrow> (\<forall>b sl. confirmed_for db b sl \<longrightarrow> \<not> slot_open db sl)"

definition marking_ok :: "doc_key list \<Rightarrow> booking_system \<Rightarrow> bool" where
  "marking_ok started s \<longleftrightarrow>
     (\<forall>n b so. dget (tasks s) n = Some (Marking b so) \<longrightarrow> b \<in> set started \<and>
        (\<exists>f. dget (bookings (store s)) b = Some f \<and> is_confirmed f \<and> so = booking_slot b f)) \<and>
     (\<forall>n m b so so'. dget (tasks s) n = Some (Marking b so) \<longrightarrow> dget (tasks s) m = Some (Marking b so') \<longrightarrow> n = m)"

definition reopening_ok :: "booking_system \<Rightarrow> bool" where
  "reopening_ok s \<longleftrightarrow>
     (\<forall>n sl. dget (tasks s) n = Some (Reopening (Some sl)) \<longrightarrow>
        \<not> slot_open (store s) sl \<and> (\<forall>b. \<not> confirmed_for (store s) b sl)) \<and>
     (\<forall>n m sl. dget (tasks s) n = Some (Reopening (Some sl)) \<longrightarrow> dget (tasks s) m = Some (Reopening (Some sl)) \<longrightarrow> n = m)"

definition unstarted_confirmed :: "doc_key list \<Rightarrow> booking_db \<Rightarrow> bool" where
  "unstarted_confirmed started db \<longleftrightarrow> (\<forall>b f. dget (bookings db) b = Some f \<longrightarrow> b \<notin> set started \<longrightarrow> is_confirmed f)"

definition booking_inv :: "doc_key list \<Rightarrow> booking_system \<Rightarrow> bool" where
  "booking_inv started s \<longleftrightarrow> one_booking (store s) \<and> booked_closed (store s) \<and> marking_ok started s \<and>
     reopening_ok s \<and> unstarted_confirmed started (store s)"

text \<open>
  The runs considered: confirmation identifiers are fresh, and the cancellation of a booking
  passes its checks at most once.
\<close>

fun orderly :: "doc_key list \<Rightarrow> booking_system \<Rightarrow> booking_event list \<Rightarrow> bool" where
  "orderly started s [] = True"
| "orderly started s (Create ctx r # evs) =
     ((case scope_of ctx of Some (t, c) \<Rightarrow> dget (bookings (store s)) (Doc t c (br_confirmation r)) = None | None \<Rightarrow> True) \<and>
      orderly started (booking_step (Create ctx r) s) evs)"
| "orderly started s (Cancel_Start n ctx confirmation user # evs) =
     (case cancel_check ctx confirmation user (store s) of
        Inl _ \<Rightarrow> orderly started s evs
      | Inr (b, so) \<Rightarrow> b \<notin> set started \<and>
          orderly (b # started) (booking_step (Cancel_Start n ctx confirmation user) s) evs)"
| "orderly started s (Cancel_Step n # evs) = orderly started (booking_step (Cancel_Step n) s) evs"

lemma booking_inv_create:
  assumes inv: "booking_inv started s"
    and fresh: "case scope_of ctx of Some (t, c) \<Rightarrow> dget (bookings (store s)) (Doc t c (br_confirmation r)) = None | None \<Rightarrow> True"
  shows "booking_inv started (booking_step (Create ctx r) s)"
proof (cases rule: create_booking_cases [of ctx r "store s"])
  case (booked t c slot)
  let ?b = "(Doc t c (br_confirmation r))" and ?sl = "(Doc t c (br_slot r))"
  let ?db = "(store s)\<lparr>bookings := dset ?b (new_booking ctx r slot) (bookings (store s)),
      slots := dset ?sl (dset ''available'' (PBool False) slot) (slots (store s))\<rparr>"
  have s': "booking_step (Create ctx r) s = s\<lparr>store := ?db\<rparr>" using booked(3) by simp
  have new: "dget (bookings (store s)) ?b = None" using fresh booked(1) by simp
  note eff = booked_effect [where db = "store s" and db' = ?db, OF refl]
  have free: "\<not> confirmed_for (store s) b ?sl" for b
    using inv booked(2) by (auto simp: booking_inv_def booked_closed_def)
  have "one_booking ?db" using inv free by (auto simp: booking_inv_def one_booking_def eff)
  moreover have "booked_closed ?db" using inv by (auto simp: booking_inv_def booked_closed_def eff)
  moreover have "marking_ok started (s\<lparr>store := ?db\<rparr>)"
    using inv new by (fastforce simp: booking_inv_def marking_ok_def)
  moreover have "reopening_ok (s\<lparr>store := ?db\<rparr>)"
    using inv booked(2) by (auto simp: booking_inv_def reopening_ok_def eff)
  moreover have "unstarted_confirmed started ?db"
    using inv by (auto simp: booking_inv_def unstarted_confirmed_def)
  ultimately show ?thesis unfolding s' by (simp add: booking_inv_def)
qed (use inv in simp)

lemma booking_inv_start:
  assumes inv: "booking_inv started s" and check: "cancel_check ctx confirmation user (store s) = Inr (b, so)"
    and "b \<notin> set started"
  shows "booking_inv (b # started) (booking_step (Cancel_Start n ctx confirmation user) s)"
proof -
  have s': "booking_step (Cancel_Start n ctx confirmation user) s = s\<lparr>tasks := dset n (Marking b so) (tasks s)\<rparr>"
    using check by simp
  obtain f where f: "dget (bookings (store s)) b = Some f" "so = booking_slot b f"
    using cancel_check_result [OF check] by blast
  have "is_confirmed f" using inv f(1) assms(3) by (auto simp: booking_inv_def unstarted_confirmed_def)
  then have "marking_ok (b # started) (s\<lparr>tasks := dset n (Marking b so) (tasks s)\<rparr>)"
    using inv f assms(3) by (auto simp: booking_inv_def marking_ok_def)
  moreover have "reopening_ok (s\<lparr>tasks := dset n (Marking b so) (tasks s)\<rparr>)"
    using inv by (auto simp: booking_inv_def reopening_ok_def)
  moreover have "unstarted_confirmed (b # started) (store s)"
    using inv by (auto simp: booking_inv_def unstarted_confirmed_def)
  ultimately show ?thesis using inv unfolding s' by (simp add: booking_inv_def)
qed

lemma booking_inv_drop_task:
  assumes "booking_inv started s"
  shows "booking_inv started (s\<lparr>tasks := dpop n (tasks s)\<rparr>)"
proof -
  have "marking_ok started (s\<lparr>tasks := dpop n (tasks s)\<rparr>)" "reopening_ok (s\<lparr>tasks := dpop n (tasks s)\<rparr>)"
    using assms by (auto simp: booking_inv_def marking_ok_def reopening_ok_def)
  then show ?thesis using assms by (simp add: booking_inv_def)
qed

lemma booking_inv_mark:
  assumes inv: "booking_inv started s" and task: "dget (tasks s) n = Some (Marking b so)"
    and mark: "mark_cancelled b (store s) = Some db"
  shows "booking_inv started (s\<lparr>store := db, tasks := dset n (Reopening so) (tasks s)\<rparr>)"
proof -
  note eff = mark_effect [OF mark]
  obtain f where f: "b \<in> set started" "dget (bookings (store s)) b = Some f" "is_confirmed f" "so = booking_slot b f"
    using inv task unfolding booking_inv_def marking_ok_def by blast
  have other: "b' \<noteq> b" if "dget (tasks s) m = Some (Marking b' so')" "m \<noteq> n" for m b' so'
    using inv task that unfolding booking_inv_def marking_ok_def by blast
  have held: "confirmed_for (store s) b sl" if "so = Some sl" for sl
    using f that by (simp add: confirmed_for_def)
  have "one_booking db" using inv by (auto simp: booking_inv_def one_booking_def eff)
  moreover have "booked_closed db" using inv by (auto simp: booking_inv_def booked_closed_def eff)
  moreover have "marking_ok started (s\<lparr>store := db, tasks := dset n (Reopening so) (tasks s)\<rparr>)"
    using inv other eff(3) unfolding booking_inv_def marking_ok_def by (simp split: if_splits)
  moreover have "reopening_ok (s\<lparr>store := db, tasks := dset n (Reopening so) (tasks s)\<rparr>)"
    unfolding reopening_ok_def
  proof (intro conjI allI impI)
    fix m sl
    assume m: "dget (tasks (s\<lparr>store := db, tasks := dset n (Reopening so) (tasks s)\<rparr>)) m = Some (Reopening (Some sl))"
    have "\<not> slot_open (store s) sl \<and> (\<forall>b'. confirmed_for (store s) b' sl \<longrightarrow> b' = b)"
    proof (cases "m = n")
      case True
      then have "confirmed_for (store s) b sl" using m held by simp
      then show ?thesis using inv unfolding booking_inv_def one_booking_def booked_closed_def by blast
    next
      case False
      then show ?thesis using m inv by (auto simp: booking_inv_def reopening_ok_def)
    qed
    then show "\<not> slot_open (store (s\<lparr>store := db, tasks := dset n (Reopening so) (tasks s)\<rparr>)) sl"
      and "\<not> confirmed_for (store (s\<lparr>store := db, tasks := dset n (Reopening so) (tasks s)\<rparr>)) b' sl" for b'
      by (auto simp: eff)
  next
    fix m m' sl
    assume "dget (tasks (s\<lparr>store := db, tasks := dset n (Reopening so) (tasks s)\<rparr>)) m = Some (Reopening (Some sl))"
      and "dget (tasks (s\<lparr>store := db, tasks := dset n (Reopening so) (tasks s)\<rparr>)) m' = Some (Reopening (Some sl))"
    then show "m = m'"
      using inv held unfolding booking_inv_def reopening_ok_def by (simp split: if_splits)
  qed
  moreover have "unstarted_confirmed started db"
    using inv f(1) eff(3) unfolding booking_inv_def unstarted_confirmed_def by metis
  ultimately show ?thesis by (simp add: booking_inv_def)
qed

lemma booking_inv_reopen:
  assumes inv: "booking_inv started s" and task: "dget (tasks s) n = Some (Reopening so)"
    and reopen: "reopen_slot so (store s) = Some db"
  shows "booking_inv started (s\<lparr>store := db, tasks := dpop n (tasks s)\<rparr>)"
proof -
  note eff = reopen_effect [OF reopen]
  have opened: "so = Some sl \<or> slot_open (store s) sl" if "slot_open db sl" for sl using eff(3) that .
  have free: "\<not> confirmed_for (store s) b sl" "m = n"
    if "so = Some sl" "dget (tasks s) m = Some (Reopening (Some sl))" for b m sl
    using inv task that unfolding booking_inv_def reopening_ok_def by blast+
  have free': "\<not> confirmed_for (store s) b sl" if "so = Some sl" for b sl
    using free(1) [OF that] task that by blast
  have "one_booking db" using inv by (simp add: booking_inv_def one_booking_def eff(2))
  moreover have "booked_closed db"
    using inv opened free' unfolding booking_inv_def booked_closed_def eff(2) by blast
  moreover have "marking_ok started (s\<lparr>store := db, tasks := dpop n (tasks s)\<rparr>)"
    using inv unfolding booking_inv_def marking_ok_def by (simp add: eff(1) split: if_splits)
  moreover have "reopening_ok (s\<lparr>store := db, tasks := dpop n (tasks s)\<rparr>)"
    using inv opened free(2) unfolding booking_inv_def reopening_ok_def
    by (simp add: eff(2) split: if_splits) metis
  moreover have "unstarted_confirmed started db" using inv by (simp add: booking_inv_def unstarted_confirmed_def eff(1))
  ultimately show ?thesis by (simp add: booking_inv_def)
qed

lemma booking_inv_cancel_step:
  assumes "booking_inv started s"
  shows "booking_inv started (booking_step (Cancel_Step n) s)"
  using booking_inv_drop_task [OF assms] booking_inv_mark [OF assms] booking_inv_reopen [OF assms] assms
  by (auto split: option.splits cancel_task.splits)

lemma booking_inv_run:
  assumes "orderly started s evs" and "booking_inv started s"
  shows "\<exists>started'. booking_inv started' (booking_run evs s)"
  using assms
proof (induction evs arbitrary: started s)
  case Nil
  then show ?case by (auto simp: booking_run_def)
next
  case (Cons ev evs)
  have "\<exists>started'. orderly started' (booking_step ev s) evs \<and> booking_inv started' (booking_step ev s)"
  proof (cases ev)
    case (Create ctx r)
    then show ?thesis using Cons.prems booking_inv_create by auto
  next
    case (Cancel_Start n ctx confirmation user)
    show ?thesis
    proof (cases "cancel_check ctx confirmation user (store s)")
      case (Inl e)
      then show ?thesis using Cons.prems Cancel_Start by auto
    next
      case (Inr p)
      then show ?thesis using Cons.prems Cancel_Start booking_inv_start by (cases p) fastforce
    qed
  next
    case (Cancel_Step n)
    then show ?thesis using Cons.prems booking_inv_cancel_step by auto
  qed
  then show ?case using Cons.IH by (auto simp: booking_run_def)
qed

section \<open>Properties\<close>

text \<open>
  C8 No double booking: whatever creations and cancellations are served and however the
  separate requests of the cancellations interleave with them, no slot ever has two confirmed
  bookings, provided confirmation identifiers are fresh and no booking is cancelled twice.
\<close>

theorem no_double_booking:
  assumes "orderly [] s evs" and "bookings (store s) = []" and "tasks s = []"
    and "confirmed_for (store (booking_run evs s)) b sl" and "confirmed_for (store (booking_run evs s)) b' sl"
  shows "b = b'"
proof -
  have "booking_inv [] s"
    using assms(2,3) by (simp add: booking_inv_def one_booking_def booked_closed_def marking_ok_def
        reopening_ok_def unstarted_confirmed_def confirmed_for_def)
  from booking_inv_run [OF assms(1) this] show ?thesis
    using assms(4,5) by (auto simp: booking_inv_def one_booking_def)
qed

text \<open>
  Cancelling is not idempotent: the owner of a cancelled booking can cancel it again after
  its slot was booked by someone else.  The second cancellation succeeds and reopens the slot,
  and the next customer is given a second confirmed booking of it.
\<close>

theorem second_cancel_double_books:
  assumes check: "cancel_check ctx conf user db = Inr (Doc t c conf, Some (Doc t c s))"
    and held: "confirmed_for db b (Doc t c s)" and "b \<noteq> Doc t c conf" and slot: "dget (slots db) (Doc t c s) \<noteq> None"
    and scope: "scope_of ctx' = Some (t, c)" and "br_slot r = s" and "s \<noteq> []" and fresh: "b \<noteq> Doc t c (br_confirmation r)"
  shows "snd (cancel_booking ctx conf user db) = Inr conf \<and>
    confirmed_for (fst (create_booking ctx' r (fst (cancel_booking ctx conf user db)))) b (Doc t c s) \<and>
    confirmed_for (fst (create_booking ctx' r (fst (cancel_booking ctx conf user db))))
      (Doc t c (br_confirmation r)) (Doc t c s)"
proof -
  obtain f where f: "dget (bookings db) (Doc t c conf) = Some f" using cancel_check_result [OF check] by blast
  then obtain db1 where mark: "mark_cancelled (Doc t c conf) db = Some db1" by (simp add: mark_cancelled_def update_doc_def)
  have "slots db1 = slots db" using mark by (auto simp: mark_cancelled_def)
  then obtain db2 where reopen: "reopen_slot (Some (Doc t c s)) db1 = Some db2"
    using slot by (auto simp: reopen_slot_def update_doc_def)
  have cancel: "cancel_booking ctx conf user db = (db2, Inr conf)"
    by (simp add: cancel_booking_def check mark reopen)
  have held2: "confirmed_for db2 b (Doc t c s)"
    using held assms(3) by (simp add: reopen_effect(2) [OF reopen] mark_effect(1) [OF mark])
  have "slot_open db2 (Doc t c s)"
    using reopen by (auto simp: reopen_slot_def update_doc_def slot_open_def dget_default_def)
  then obtain g where g: "dget (slots db2) (Doc t c s) = Some g" "truthy (dget_default g ''available'' (PBool False))"
    by (auto simp: slot_open_def split: option.splits)
  have create: "fst (create_booking ctx' r db2) =
      db2\<lparr>bookings := dset (Doc t c (br_confirmation r)) (new_booking ctx' r g) (bookings db2),
         slots := dset (Doc t c (br_slot r)) (dset ''available'' (PBool False) g) (slots db2)\<rparr>"
    using g assms(6) by (simp add: create_booking_def scope Let_def)
  show ?thesis
    unfolding cancel fst_conv snd_conv using held2 fresh assms(6,7) by (simp add: booked_effect(1) [OF create])
qed

text \<open>A session, a customer's request and an open slot.\<close>

definition sample_ctx :: "session_state option" where
  "sample_ctx = Some [(''app:tenant_id'', PStr ''t''), (''app:company_id'', PStr ''c'')]"

definition sample_booking :: "string \<Rightarrow> string \<Rightarrow> booking_request" where
  "sample_booking user conf = \<lparr>br_slot = ''s'', br_user = user, br_user_name = ''n'', br_device = ''d'',
     br_service = ''x'', br_confirmation = conf, br_now = ''0''\<rparr>"

definition sample_system :: booking_system where
  "sample_system = \<lparr>store = \<lparr>slots = [(Doc ''t'' ''c'' ''s'', [(''available'', PBool True)])], bookings = []\<rparr>, tasks = []\<rparr>"

lemma sample_scope: "scope_of sample_ctx = Some (''t'', ''c'')"
  by (simp add: scope_of_def scoped_collection_def tenant_id_from_context_def company_id_from_context_def
      sample_ctx_def py_get_def dget_default_def strip_id is_space_def code_def)

definition sample_events :: "booking_event list" where
  "sample_events = [Create sample_ctx (sample_booking ''u'' ''1''), Cancel_Start 0 sample_ctx ''1'' ''u'',
     Create sample_ctx (sample_booking ''v'' ''2''), Cancel_Step 0, Cancel_Step 0,
     Create sample_ctx (sample_booking ''v'' ''3'')]"

theorem no_double_booking_witness:
  "{b. confirmed_for (store (booking_run sample_events sample_system)) b (Doc ''t'' ''c'' ''s'')} = {Doc ''t'' ''c'' ''3''}"
proof -
  have run: "orderly [] sample_system sample_events" by code_simp
  have empty: "bookings (store sample_system) = []" "tasks sample_system = []" by (simp_all add: sample_system_def)
  have last: "confirmed_for (store (booking_run sample_events sample_system)) (Doc ''t'' ''c'' ''3'') (Doc ''t'' ''c'' ''s'')"
    by code_simp
  have "b = Doc ''t'' ''c'' ''3''"
    if "confirmed_for (store (booking_run sample_events sample_system)) b (Doc ''t'' ''c'' ''s'')" for b
    by (rule no_double_booking [OF run empty that last])
  with last show ?thesis by blast
qed

definition rebooked_db :: booking_db where
  "rebooked_db =
     (let db1 = fst (create_booking sample_ctx (sample_booking ''u'' ''1'') (store sample_system));
          db2 = fst (cancel_booking sample_ctx ''1'' ''u'' db1)
      in fst (create_booking sample_ctx (sample_booking ''v'' ''2'') db2))"

theorem second_cancel_double_books_witness:
  "confirmed_for (fst (create_booking sample_ctx (sample_booking ''w'' ''3'')
     (fst (cancel_booking sample_ctx ''1'' ''u'' rebooked_db)))) (Doc ''t'' ''c'' ''2'') (Doc ''t'' ''c'' ''s'')"
proof -
  have "cancel_check sample_ctx ''1'' ''u'' rebooked_db = Inr (Doc ''t'' ''c'' ''1'', Some (Doc ''t'' ''c'' ''s''))"
    and "confirmed_for rebooked_db (Doc ''t'' ''c'' ''2'') (Doc ''t'' ''c'' ''s'')"
    and "dget (slots rebooked_db) (Doc ''t'' ''c'' ''s'') \<noteq> None" by code_simp+
  from second_cancel_double_books [OF this(1,2) _ this(3) sample_scope, of "sample_booking ''w'' ''3''"]
  show ?thesis by (simp add: sample_booking_def)
qed

end
