(* ===== verification/Py_Records.thy ===== *)
theory Py_Records
  imports Py_Values
begin

text \<open>
  Dictionaries of values with text keys, as the tools and services build and store them: the
  updates Python offers, and the conversions the code makes again and again.
\<close>

type_synonym py_record = "(string, py) dict"

definition or_else :: "string \<Rightarrow> string \<Rightarrow> string" where
  "or_else a b = (if a = [] then b else a)"

definition py_or :: "py \<Rightarrow> py \<Rightarrow> py" where
  "py_or a b = (if truthy a then a else b)"

fun as_list :: "py \<Rightarrow> py list" where
  "as_list (PList xs) = xs"
| "as_list _ = []"

fun plain_text :: "py \<Rightarrow> string" where
  "plain_text (PStr s) = s"
| "plain_text _ = []"

text \<open>\<open>{**existing, **payload}\<close> and \<open>setdefault\<close>; an optional text as a value.\<close>

definition dmerge :: "py_record \<Rightarrow> py_record \<Rightarrow> py_record" where
  "dmerge existing payload = fold (\<lambda>(k, v). dset k v) payload existing"

definition setdefault :: "string \<Rightarrow> py \<Rightarrow> py_record \<Rightarrow> py_record" where
  "setdefault k v d = (if dget d k = None then dset k v d else d)"

definition opt_text :: "string option \<Rightarrow> py" where
  "opt_text x = (case x of None \<Rightarrow> PNone | Some s \<Rightarrow> PStr s)"

definition text_of :: "string option \<Rightarrow> string" where
  "text_of x = (case x of None \<Rightarrow> [] | Some s \<Rightarrow> s)"

lemma dget_dmerge:
  assumes "dict_wf payload"
  shows "dget (dmerge d payload) k = (case dget payload k of Some v \<Rightarrow> Some v | None \<Rightarrow> dget d k)"
  using assms
proof (induction payload arbitrary: d)
  case (Cons kv payload)
  obtain k' v where kv: "kv = (k', v)" by force
  then have wf: "dict_wf payload" and new: "dget payload k' = None"
    using Cons.prems by (simp_all add: dict_wf_def map_of_eq_None_iff)
  have "dmerge d (kv # payload) = dmerge (dset k' v d) payload" by (simp add: dmerge_def kv)
  then show ?case using Cons.IH [OF wf, of "dset k' v d"] new by (auto simp: kv split: option.splits)
qed (simp add: dmerge_def)

lemma setdefault_keeps:
  assumes "dget d k' = Some x"
  shows "dget (setdefault k v d) k' = Some x"
  using assms by (auto simp: setdefault_def)

lemma setdefault_other: "k' \<noteq> k \<Longrightarrow> dget (setdefault k v d) k' = dget d k'"
  by (simp add: setdefault_def)

lemma py_get_dset: "py_get (dset k v d) k' = (if k' = k then v else py_get d k')"
  by (simp add: py_get_def dget_default_def)

lemma py_get_setdefault_other: "k' \<noteq> k \<Longrightarrow> py_get (setdefault k v d) k' = py_get d k'"
  by (simp add: py_get_def dget_default_def setdefault_other)

end
