(* ===== verification/Campaign.thy ===== *)
theory Campaign
  imports Py_Records "HOL-Library.List_Lexorder"
begin

text \<open>
  \<open>app/api/v1/at/campaign_analytics.py\<close>: the in-process campaign store.  The module's globals
  are one record; every public function is one operation on it.  Times are clock readings
  (the code stores them as ISO text, which orders the same way); the identifiers that
  \<open>_build_campaign_id\<close> draws are given with the operation (\<open>new_ids\<close>: one for a missing
  identifier, one for an identifier of another tenant).  \<open>fmt\<close> is \<open>str()\<close>.  A set of
  recipients is a list without repetitions.  Of an event, the fields that are only stored (the
  channel, texts, amount, reference and metadata) are left out.
\<close>

record campaign =
  c_id :: string
  c_channel :: string
  c_tenant :: string
  c_company :: string
  c_name :: string
  c_message :: string
  c_created :: clock
  c_updated :: clock
  c_recipients :: "string list"
  c_sent :: nat
  c_delivered :: nat
  c_failed :: nat
  c_replies :: nat
  c_conversions :: nat
  c_revenue :: int
  c_payments_initialized :: nat
  c_payments_success :: nat

record campaign_event =
  e_time :: clock
  e_type :: string
  e_campaign :: string
  e_scope :: "string \<times> string"
  e_recipient :: string
  e_counts :: "nat \<times> nat \<times> nat"

record campaign_store =
  campaigns :: "(string, campaign) dict"
  events :: "campaign_event list"
  seen_ids :: "(string, clock) dict"
  last_campaign :: "(string \<times> string \<times> string, string) dict"

definition empty_campaigns :: campaign_store where
  "empty_campaigns = \<lparr>campaigns = [], events = [], seen_ids = [], last_campaign = []\<rparr>"

section \<open>Normalisation\<close>

definition SUCCESS_HINTS :: "string list" where
  "SUCCESS_HINTS = [''success'', ''queued'', ''sent'', ''accepted'', ''processing'', ''active'']"

definition FAILURE_HINTS :: "string list" where
  "FAILURE_HINTS = [''failed'', ''error'', ''invalid'', ''rejected'', ''blocked'']"

definition normalize_channel :: "string \<Rightarrow> string" where
  "normalize_channel channel =
     (let n = lower (strip channel) in if n \<in> {''sms'', ''voice'', ''omni''} then n else ''omni'')"

definition normalize_recipient :: "string \<Rightarrow> string" where
  "normalize_recipient r = lower (filter (\<lambda>c. is_digit c \<or> c = CHR ''+'') (strip r))"

definition status_success :: "string \<Rightarrow> bool" where
  "status_success status \<longleftrightarrow> list_ex (\<lambda>h. contains h (lower (strip status))) SUCCESS_HINTS"

definition status_failed :: "string \<Rightarrow> bool" where
  "status_failed status \<longleftrightarrow> list_ex (\<lambda>h. contains h (lower (strip status))) FAILURE_HINTS"

text \<open>One entry of a provider's answer: number keys and status keys in the order tried.\<close>

definition entry_status ::
  "(py \<Rightarrow> string) \<Rightarrow> string \<Rightarrow> string \<Rightarrow> string list \<Rightarrow> py \<Rightarrow> (string, string) dict \<Rightarrow> (string, string) dict" where
  "entry_status fmt key1 key2 status_keys item statuses =
     (case item of
        PDict d \<Rightarrow>
          (let recipient = normalize_recipient (fmt (py_or (py_get d key1) (py_or (py_get d key2) (PStr [])))) in
           if recipient = [] then statuses
           else dset recipient (fmt (foldr (\<lambda>k v. py_or (py_get d k) v) status_keys (PStr []))) statuses)
      | _ \<Rightarrow> statuses)"

definition extract_recipient_statuses :: "(py \<Rightarrow> string) \<Rightarrow> (string, py) dict \<Rightarrow> (string, string) dict" where
  "extract_recipient_statuses fmt result =
     (let sms = (case py_get result ''SMSMessageData'' of PDict d \<Rightarrow> py_get d ''Recipients'' | _ \<Rightarrow> PNone);
          statuses = fold (entry_status fmt ''number'' ''phoneNumber'' [''status'']) (as_list sms) []
      in fold (entry_status fmt ''phoneNumber'' ''number'' [''status'', ''state'']) (as_list (py_get result ''entries'')) statuses)"

section \<open>Shared steps\<close>

definition trim_seen :: "(string, clock) dict \<Rightarrow> (string, clock) dict" where
  "trim_seen seen =
     (if 10000 < length seen
      then dpop_all (map fst (take (length seen - 5000) (sort_key snd seen))) seen else seen)"

text \<open>\<open>_event_deduped\<close>: the new set of seen identifiers and whether the event is a repetition.\<close>

definition event_deduped :: "string \<Rightarrow> clock \<Rightarrow> campaign_store \<Rightarrow> campaign_store \<times> bool" where
  "event_deduped event_id now s =
     (if event_id = [] then (s, False)
      else if dget (seen_ids s) event_id \<noteq> None then (s, True)
      else (s\<lparr>seen_ids := trim_seen (dset event_id now (seen_ids s))\<rparr>, False))"

definition append_event :: "campaign_event \<Rightarrow> campaign_store \<Rightarrow> campaign_store" where
  "append_event e s =
     (let evs = events s @ [e] in s\<lparr>events := (if 10000 < length evs then drop 5000 evs else evs)\<rparr>)"

definition index_recipients :: "string \<Rightarrow> string \<Rightarrow> string list \<Rightarrow> string \<Rightarrow> campaign_store \<Rightarrow> campaign_store" where
  "index_recipients tenant company recipients cid s =
     s\<lparr>last_campaign := fold (\<lambda>r d. let n = normalize_recipient r in
        if n = [] then d else dset (tenant, company, n) cid d) recipients (last_campaign s)\<rparr>"

record campaign_args =
  a_channel :: string
  a_tenant :: string
  a_company :: string
  a_campaign :: string
  a_name :: string
  a_new_ids :: "string \<times> string"
  a_now :: clock

definition norm_tenant :: "campaign_args \<Rightarrow> string" where
  "norm_tenant a = or_else (strip (or_else (a_tenant a) ''public'')) ''public''"

definition norm_company :: "campaign_args \<Rightarrow> string" where
  "norm_company a = or_else (strip (or_else (a_company a) ''ekaette-electronics'')) ''ekaette-electronics''"

text \<open>\<open>_ensure_campaign\<close>: the store with the campaign, and its identifier.\<close>

definition fresh_campaign :: "campaign_args \<Rightarrow> string \<Rightarrow> string \<Rightarrow> campaign" where
  "fresh_campaign a message cid =
     \<lparr>c_id = cid, c_channel = normalize_channel (a_channel a), c_tenant = norm_tenant a, c_company = norm_company a,
      c_name = or_else (strip (a_name a)) (upper (normalize_channel (a_channel a)) @ '' Campaign''),
      c_message = message, c_created = a_now a, c_updated = a_now a, c_recipients = [], c_sent = 0, c_delivered = 0,
      c_failed = 0, c_replies = 0, c_conversions = 0, c_revenue = 0, c_payments_initialized = 0,
      c_payments_success = 0\<rparr>"

definition refresh_campaign :: "campaign_args \<Rightarrow> string \<Rightarrow> campaign \<Rightarrow> campaign" where
  "refresh_campaign a message c =
     c\<lparr>c_updated := a_now a,
       c_message := (if message \<noteq> [] \<and> c_message c = [] then message else c_message c),
       c_name := or_else (strip (a_name a)) (c_name c)\<rparr>"

definition ensure_campaign :: "campaign_args \<Rightarrow> string \<Rightarrow> campaign_store \<Rightarrow> campaign_store \<times> campaign" where
  "ensure_campaign a message s =
     (let cid = or_else (strip (a_campaign a)) (fst (a_new_ids a));
          store = (\<lambda>k c. (s\<lparr>campaigns := dset k c (campaigns s)\<rparr>, c))
      in case dget (campaigns s) cid of
           None \<Rightarrow> store cid (fresh_campaign a message cid)
         | Some existing \<Rightarrow>
             if c_tenant existing \<noteq> norm_tenant a \<or> c_company existing \<noteq> norm_company a
             then store (snd (a_new_ids a)) (fresh_campaign a message (snd (a_new_ids a)))
             else store cid (refresh_campaign a message existing))"

definition update_campaign :: "string \<Rightarrow> campaign \<Rightarrow> campaign_store \<Rightarrow> campaign_store" where
  "update_campaign cid c s = s\<lparr>campaigns := dset cid c (campaigns s)\<rparr>"

section \<open>Recording\<close>

fun add_recipients :: "string list \<Rightarrow> string list \<Rightarrow> string list" where
  "add_recipients [] known = known"
| "add_recipients (r # rs) known =
     (let n = normalize_recipient r in add_recipients rs (if n \<in> set known then known else known @ [n]))"

definition is_delivered :: "(string, string) dict \<Rightarrow> string \<Rightarrow> bool" where
  "is_delivered statuses r =
     (let st = dget_default statuses (normalize_recipient r) ''success'' in
      \<not> status_failed st \<and> (status_success st \<or> st = []))"

definition is_failed :: "(string, string) dict \<Rightarrow> string \<Rightarrow> bool" where
  "is_failed statuses r = status_failed (dget_default statuses (normalize_recipient r) ''success'')"

definition record_outbound_campaign ::
  "(py \<Rightarrow> string) \<Rightarrow> campaign_args \<Rightarrow> string list \<Rightarrow> string \<Rightarrow> (string, py) dict \<Rightarrow> campaign_store \<Rightarrow> campaign_store \<times> string" where
  "record_outbound_campaign fmt a recipients message result s =
     (case ensure_campaign a message s of
        (s, c) \<Rightarrow>
          (let sent = filter (\<lambda>r. normalize_recipient r \<noteq> []) recipients;
               statuses = extract_recipient_statuses fmt result;
               delivered = length (filter (is_delivered statuses) sent);
               failed = length (filter (is_failed statuses) sent);
               c = c\<lparr>c_updated := a_now a, c_sent := c_sent c + length sent,
                 c_delivered := c_delivered c + delivered, c_failed := c_failed c + failed,
                 c_recipients := add_recipients sent (c_recipients c)\<rparr>;
               s = index_recipients (c_tenant c) (c_company c) sent (c_id c) (update_campaign (c_id c) c s)
           in (append_event \<lparr>e_time = a_now a, e_type = ''sent'', e_campaign = c_id c,
                 e_scope = (c_tenant c, c_company c), e_recipient = [],
                 e_counts = (length sent, delivered, failed)\<rparr> s, c_id c)))"

definition record_inbound_reply :: "campaign_args \<Rightarrow> string \<Rightarrow> campaign_store \<Rightarrow> campaign_store \<times> string option" where
  "record_inbound_reply a recipient s =
     (let n = normalize_recipient recipient;
          cid = (if strip (a_campaign a) \<noteq> [] then strip (a_campaign a)
                 else dget_default (last_campaign s) (a_tenant a, a_company a, n) [])
      in if n = [] \<or> cid = [] then (s, None)
         else case ensure_campaign (a\<lparr>a_campaign := cid, a_name := []\<rparr>) [] s of
           (s, c) \<Rightarrow>
             (let c = c\<lparr>c_updated := a_now a, c_replies := c_replies c + 1\<rparr>;
                  s = update_campaign (c_id c) c s
              in (append_event \<lparr>e_time = a_now a, e_type = ''reply'', e_campaign = c_id c,
                    e_scope = (c_tenant c, c_company c), e_recipient = n, e_counts = (0, 0, 0)\<rparr> s, Some (c_id c))))"

definition positive_amount :: "py \<Rightarrow> int" where
  "positive_amount v = (case as_int v of Some i \<Rightarrow> (if 0 < i then i else 0) | None \<Rightarrow> 0)"

definition count_event :: "string \<Rightarrow> py \<Rightarrow> campaign \<Rightarrow> campaign" where
  "count_event kind amount c =
     (if kind = ''sent'' then c\<lparr>c_sent := c_sent c + 1\<rparr>
      else if kind = ''delivered'' then c\<lparr>c_delivered := c_delivered c + 1\<rparr>
      else if kind = ''failed'' then c\<lparr>c_failed := c_failed c + 1\<rparr>
      else if kind = ''reply'' then c\<lparr>c_replies := c_replies c + 1\<rparr>
      else if kind = ''payment_initialized'' then c\<lparr>c_payments_initialized := c_payments_initialized c + 1\<rparr>
      else if kind \<in> {''payment_success'', ''conversion''} then
        c\<lparr>c_conversions := c_conversions c + 1, c_payments_success := c_payments_success c + 1,
          c_revenue := c_revenue c + positive_amount amount\<rparr>
      else c)"

definition record_event ::
  "campaign_args \<Rightarrow> string \<Rightarrow> string \<Rightarrow> py \<Rightarrow> string \<Rightarrow> campaign_store \<Rightarrow> campaign_store \<times> string" where
  "record_event a event_type recipient amount event_id s =
     (case event_deduped event_id (a_now a) s of
        (s, True) \<Rightarrow> (s, strip (a_campaign a))
      | (s, False) \<Rightarrow>
          (case ensure_campaign a [] s of
             (s, c) \<Rightarrow>
               (let kind = lower (strip event_type);
                    c = count_event kind amount (c\<lparr>c_updated := a_now a\<rparr>);
                    n = normalize_recipient recipient;
                    s = update_campaign (c_id c) c s;
                    s = (if n = [] then s else index_recipients (c_tenant c) (c_company c) [n] (c_id c) s)
                in (append_event \<lparr>e_time = a_now a, e_type = kind, e_campaign = c_id c,
                      e_scope = (c_tenant c, c_company c), e_recipient = n, e_counts = (0, 0, 0)\<rparr> s, c_id c))))"

section \<open>Reading\<close>

text \<open>\<open>round(x, digits)\<close> of a float: the nearest decimal, ties to even, as a float.\<close>

definition round_to :: "nat \<Rightarrow> rat \<Rightarrow> rat" where
  "round_to digits q = fl (of_int (round_even (q * 10 ^ digits)) / 10 ^ digits)"

definition ratio :: "int \<Rightarrow> int \<Rightarrow> rat" where
  "ratio a b = (if b = 0 then 0 else fl (of_int a / of_int b))"

record kpis =
  delivery_rate :: rat
  engagement_rate :: rat
  conversion_rate :: rat
  avg_order_value :: rat

definition compute_kpis :: "campaign \<Rightarrow> kpis" where
  "compute_kpis c =
     \<lparr>delivery_rate = round_to 4 (ratio (int (c_delivered c)) (int (c_sent c))),
      engagement_rate = round_to 4 (ratio (int (c_replies c)) (int (c_delivered c))),
      conversion_rate = round_to 4 (ratio (int (c_conversions c)) (int (c_delivered c))),
      avg_order_value = round_to 2 (ratio (c_revenue c) (int (c_conversions c)))\<rparr>"

definition campaign_snapshot :: "string \<Rightarrow> campaign_store \<Rightarrow> (campaign \<times> kpis) option" where
  "campaign_snapshot cid s = map_option (\<lambda>c. (c, compute_kpis c)) (dget (campaigns s) cid)"

definition scoped_campaigns :: "string \<Rightarrow> string \<Rightarrow> campaign_store \<Rightarrow> campaign list" where
  "scoped_campaigns tenant company s =
     filter (\<lambda>c. c_tenant c = tenant \<and> c_company c = company) (map snd (campaigns s))"

definition list_campaign_snapshots :: "string \<Rightarrow> string \<Rightarrow> int \<Rightarrow> campaign_store \<Rightarrow> (campaign \<times> kpis) list" where
  "list_campaign_snapshots tenant company limit s =
     List.map_filter (\<lambda>c. campaign_snapshot (c_id c) s)
       (take (nat (max 1 (min limit 200))) (sort_key (\<lambda>c. - c_updated c) (scoped_campaigns tenant company s)))"

record overview =
  o_campaigns :: nat
  o_sent :: nat
  o_delivered :: nat
  o_failed :: nat
  o_replies :: nat
  o_conversions :: nat
  o_revenue :: int
  o_rates :: "rat \<times> rat \<times> rat"

definition overview_snapshot :: "string \<Rightarrow> string \<Rightarrow> int \<Rightarrow> clock \<Rightarrow> campaign_store \<Rightarrow> overview" where
  "overview_snapshot tenant company days now s =
     (let start = now - of_int (max 1 (min days 365)) * 86400;
          cs = filter (\<lambda>c. start \<le> c_created c) (scoped_campaigns tenant company s);
          sent = sum_list (map c_sent cs); delivered = sum_list (map c_delivered cs);
          replies = sum_list (map c_replies cs); conversions = sum_list (map c_conversions cs)
      in \<lparr>o_campaigns = length cs, o_sent = sent, o_delivered = delivered, o_failed = sum_list (map c_failed cs),
          o_replies = replies, o_conversions = conversions, o_revenue = sum_list (map c_revenue cs),
          o_rates = (round_to 4 (ratio (int delivered) (int sent)), round_to 4 (ratio (int replies) (int delivered)),
            round_to 4 (ratio (int conversions) (int delivered)))\<rparr>)"

record contact =
  ct_phone :: string
  ct_campaign :: string
  ct_name :: string
  ct_channel :: string

definition contact_of :: "string \<Rightarrow> campaign \<Rightarrow> contact" where
  "contact_of phone c = \<lparr>ct_phone = phone, ct_campaign = c_id c, ct_name = c_name c, ct_channel = c_channel c\<rparr>"

definition indexed_contacts :: "string \<Rightarrow> string \<Rightarrow> campaign_store \<Rightarrow> (string, contact) dict" where
  "indexed_contacts tenant company s =
     fold (\<lambda>((t, c, phone), cid) d.
        if t \<noteq> tenant \<or> c \<noteq> company then d
        else case dget (campaigns s) cid of None \<Rightarrow> d | Some st \<Rightarrow> dset phone ((contact_of phone st)\<lparr>ct_campaign := cid\<rparr>) d)
       (last_campaign s) []"

definition list_known_contacts :: "string \<Rightarrow> string \<Rightarrow> campaign_store \<Rightarrow> contact list" where
  "list_known_contacts tenant company s =
     sort_key (\<lambda>c. map code (ct_phone c)) (map snd
       (fold (\<lambda>st d. fold (\<lambda>phone d. if dget d phone = None then dset phone (contact_of phone st) d else d)
           (c_recipients st) d)
         (scoped_campaigns tenant company s) (indexed_contacts tenant company s)))"

section \<open>The invariant\<close>

datatype campaign_op =
    Outbound campaign_args "string list" string "(string, py) dict"
  | Inbound campaign_args string
  | Event campaign_args string string py string

fun op_args :: "campaign_op \<Rightarrow> campaign_args" where
  "op_args (Outbound a recipients message result) = a"
| "op_args (Inbound a recipient) = a"
| "op_args (Event a event_type recipient amount event_id) = a"

fun campaign_step :: "(py \<Rightarrow> string) \<Rightarrow> campaign_op \<Rightarrow> campaign_store \<Rightarrow> campaign_store" where
  "campaign_step fmt (Outbound a recipients message result) s =
     fst (record_outbound_campaign fmt a recipients message result s)"
| "campaign_step fmt (Inbound a recipient) s = fst (record_inbound_reply a recipient s)"
| "campaign_step fmt (Event a event_type recipient amount event_id) s =
     fst (record_event a event_type recipient amount event_id s)"

definition campaign_run :: "(py \<Rightarrow> string) \<Rightarrow> campaign_op list \<Rightarrow> campaign_store \<Rightarrow> campaign_store" where
  "campaign_run fmt ops s = fold (campaign_step fmt) ops s"

text \<open>The identifiers drawn by an operation are new.\<close>

definition ids_new :: "campaign_args \<Rightarrow> campaign_store \<Rightarrow> bool" where
  "ids_new a s \<longleftrightarrow> dget (campaigns s) (fst (a_new_ids a)) = None \<and> dget (campaigns s) (snd (a_new_ids a)) = None"

fun ids_new_along :: "(py \<Rightarrow> string) \<Rightarrow> campaign_store \<Rightarrow> campaign_op list \<Rightarrow> bool" where
  "ids_new_along fmt s [] = True"
| "ids_new_along fmt s (op' # ops) \<longleftrightarrow> ids_new (op_args op') s \<and> ids_new_along fmt (campaign_step fmt op' s) ops"

definition campaign_ok :: "campaign \<Rightarrow> bool" where
  "campaign_ok c \<longleftrightarrow> c_payments_success c = c_conversions c \<and> 0 \<le> c_revenue c \<and>
     (c_conversions c = 0 \<longrightarrow> c_revenue c = 0) \<and> [] \<notin> set (c_recipients c)"

definition in_scope :: "string \<Rightarrow> string \<Rightarrow> campaign \<Rightarrow> bool" where
  "in_scope tenant company c \<longleftrightarrow> c_tenant c = tenant \<and> c_company c = company"

definition campaigns_ok :: "campaign_store \<Rightarrow> bool" where
  "campaigns_ok s \<longleftrightarrow> (\<forall>k c. dget (campaigns s) k = Some c \<longrightarrow> c_id c = k \<and> campaign_ok c)"

definition index_ok :: "campaign_store \<Rightarrow> bool" where
  "index_ok s \<longleftrightarrow> (\<forall>t co p k. dget (last_campaign s) (t, co, p) = Some k \<longrightarrow>
     p \<noteq> [] \<and> (\<exists>c. dget (campaigns s) k = Some c \<and> in_scope t co c))"

definition logs_bounded :: "campaign_store \<Rightarrow> bool" where
  "logs_bounded s \<longleftrightarrow> length (events s) \<le> 10000 \<and> length (seen_ids s) \<le> 10000"

definition campaign_inv :: "campaign_store \<Rightarrow> bool" where
  "campaign_inv s \<longleftrightarrow> campaigns_ok s \<and> index_ok s \<and> logs_bounded s"

text \<open>What every operation does: nothing to campaigns and index entries of other scopes.\<close>

definition only_scope :: "string \<Rightarrow> string \<Rightarrow> campaign_store \<Rightarrow> campaign_store \<Rightarrow> bool" where
  "only_scope tenant company s s' \<longleftrightarrow>
     (\<forall>k c. dget (campaigns s) k = Some c \<longrightarrow> \<not> in_scope tenant company c \<longrightarrow> dget (campaigns s') k = Some c) \<and>
     (\<forall>t co p. (t, co) \<noteq> (tenant, company) \<longrightarrow> dget (last_campaign s') (t, co, p) = dget (last_campaign s) (t, co, p))"

lemma only_scope_refl [simp]: "only_scope tenant company s s"
  by (simp add: only_scope_def)

text \<open>A store whose campaign \<open>k\<close> was replaced by one of the same scope, or added.\<close>

definition may_store :: "string \<Rightarrow> string \<Rightarrow> string \<Rightarrow> campaign_store \<Rightarrow> bool" where
  "may_store tenant company k s \<longleftrightarrow> (\<forall>c. dget (campaigns s) k = Some c \<longrightarrow> in_scope tenant company c)"

lemma update_campaign_inv:
  assumes "campaign_inv s" and "campaign_ok c" and "c_id c = k" and "in_scope tenant company c"
    and "may_store tenant company k s"
  shows "campaign_inv (update_campaign k c s) \<and> only_scope tenant company s (update_campaign k c s)"
proof -
  have "index_ok (update_campaign k c s)"
    unfolding index_ok_def
  proof (intro allI impI)
    fix t co p k'
    assume "dget (last_campaign (update_campaign k c s)) (t, co, p) = Some k'"
    then have "dget (last_campaign s) (t, co, p) = Some k'" by (simp add: update_campaign_def)
    then obtain c' where "p \<noteq> []" "dget (campaigns s) k' = Some c'" "in_scope t co c'"
      using assms(1) unfolding campaign_inv_def index_ok_def by metis
    then show "p \<noteq> [] \<and> (\<exists>c'. dget (campaigns (update_campaign k c s)) k' = Some c' \<and> in_scope t co c')"
      using assms(4,5) by (auto simp: update_campaign_def may_store_def in_scope_def)
  qed
  then show ?thesis
    using assms by (auto simp: campaign_inv_def campaigns_ok_def logs_bounded_def update_campaign_def only_scope_def
        may_store_def)
qed

lemma append_event_inv: "campaign_inv s \<Longrightarrow> campaign_inv (append_event e s)"
  by (auto simp: campaign_inv_def campaigns_ok_def index_ok_def logs_bounded_def append_event_def Let_def)

lemma append_event_scope [simp]: "only_scope t co s (append_event e s') = only_scope t co s s'"
  by (simp add: only_scope_def append_event_def Let_def)

lemma index_fold_get:
  "dget (fold (\<lambda>r d. let n = normalize_recipient r in if n = [] then d else dset (t, co, n) cid d) rs d) (t', co', p) =
     (if t' = t \<and> co' = co \<and> p \<noteq> [] \<and> p \<in> normalize_recipient ` set rs then Some cid else dget d (t', co', p))"
  by (induction rs arbitrary: d) (auto simp: Let_def)

lemma index_recipients_inv:
  assumes "campaign_inv s" and "dget (campaigns s) cid = Some c" and "in_scope tenant company c"
  shows "campaign_inv (index_recipients tenant company rs cid s)"
  using assms
  by (auto simp: campaign_inv_def campaigns_ok_def logs_bounded_def index_ok_def index_recipients_def index_fold_get
      split: if_splits)

lemma index_recipients_scope:
  "only_scope tenant company s0 s \<Longrightarrow> only_scope tenant company s0 (index_recipients tenant company rs cid s)"
  by (auto simp: only_scope_def index_recipients_def index_fold_get)

lemma index_recipients_campaigns [simp]: "campaigns (index_recipients t co rs cid s) = campaigns s"
  by (simp add: index_recipients_def)

lemma ensure_campaign_result:
  assumes inv: "campaign_inv s" and new: "ids_new a s" and run: "ensure_campaign a message s = (s', c)"
  shows "campaign_inv s'" and "only_scope (norm_tenant a) (norm_company a) s s'"
    and "dget (campaigns s') (c_id c) = Some c" and "in_scope (norm_tenant a) (norm_company a) c" and "campaign_ok c"
proof -
  have "\<exists>k. s' = update_campaign k c s \<and> c_id c = k \<and> campaign_ok c \<and> in_scope (norm_tenant a) (norm_company a) c \<and>
      may_store (norm_tenant a) (norm_company a) k s"
  proof (cases "dget (campaigns s) (or_else (strip (a_campaign a)) (fst (a_new_ids a)))")
    case None
    then show ?thesis
      using run by (auto simp: ensure_campaign_def Let_def update_campaign_def fresh_campaign_def campaign_ok_def
          in_scope_def may_store_def)
  next
    case (Some existing)
    then have "c_id existing = or_else (strip (a_campaign a)) (fst (a_new_ids a))" "campaign_ok existing"
      using inv by (auto simp: campaign_inv_def campaigns_ok_def)
    then show ?thesis
      using run Some new
      by (auto simp: ensure_campaign_def Let_def update_campaign_def fresh_campaign_def refresh_campaign_def campaign_ok_def
          in_scope_def may_store_def ids_new_def split: if_splits)
  qed
  then obtain k where k: "s' = update_campaign k c s" "c_id c = k" "campaign_ok c"
      "in_scope (norm_tenant a) (norm_company a) c" "may_store (norm_tenant a) (norm_company a) k s"
    by blast
  show "campaign_inv s'" and "only_scope (norm_tenant a) (norm_company a) s s'"
    using update_campaign_inv [OF inv k(3,2,4,5)] k(1) by simp_all
  show "dget (campaigns s') (c_id c) = Some c" by (simp add: k(1,2) update_campaign_def)
  show "in_scope (norm_tenant a) (norm_company a) c" "campaign_ok c" by (rule k)+
qed

lemma only_scope_trans: "only_scope t co s s' \<Longrightarrow> only_scope t co s' s'' \<Longrightarrow> only_scope t co s s''"
  by (simp add: only_scope_def)

text \<open>The common end of the operations: the campaign changed, its recipients indexed, an event added.\<close>

lemma campaign_updated:
  assumes "campaign_inv s" and "ids_new a s" and "ensure_campaign a message s = (s', c)"
    and "campaign_ok c'" and "c_id c' = c_id c" and "c_tenant c' = c_tenant c" and "c_company c' = c_company c"
  shows "campaign_inv (append_event e (index_recipients (c_tenant c') (c_company c') rs (c_id c') (update_campaign (c_id c') c' s')))"
    and "campaign_inv (append_event e (update_campaign (c_id c') c' s'))"
    and "only_scope (norm_tenant a) (norm_company a) s
      (append_event e (index_recipients (c_tenant c') (c_company c') rs (c_id c') (update_campaign (c_id c') c' s')))"
    and "only_scope (norm_tenant a) (norm_company a) s (append_event e (update_campaign (c_id c') c' s'))"
proof -
  note r = ensure_campaign_result [OF assms(1-3)]
  let ?t = "norm_tenant a" and ?co = "norm_company a" and ?s = "update_campaign (c_id c') c' s'"
  have scope: "in_scope ?t ?co c'" "c_tenant c' = ?t" "c_company c' = ?co" using r(4) assms(6,7) by (simp_all add: in_scope_def)
  have "may_store ?t ?co (c_id c') s'" using r(3,4) assms(5) by (simp add: may_store_def)
  then have u: "campaign_inv ?s" "only_scope ?t ?co s' ?s"
    using update_campaign_inv [OF r(1) assms(4) refl scope(1)] by auto
  have here: "dget (campaigns ?s) (c_id c') = Some c'" by (simp add: update_campaign_def)
  show "campaign_inv (append_event e ?s)" by (rule append_event_inv [OF u(1)])
  show "only_scope ?t ?co s (append_event e ?s)" using only_scope_trans [OF r(2) u(2)] by simp
  show "campaign_inv (append_event e (index_recipients (c_tenant c') (c_company c') rs (c_id c') ?s))"
    unfolding scope by (intro append_event_inv index_recipients_inv [OF u(1) here] scope)
  show "only_scope ?t ?co s (append_event e (index_recipients (c_tenant c') (c_company c') rs (c_id c') ?s))"
    unfolding scope by (simp add: index_recipients_scope only_scope_trans [OF r(2) u(2)])
qed

lemma set_add_recipients: "set (add_recipients rs known) = normalize_recipient ` set rs \<union> set known"
  by (induction rs arbitrary: known) (auto simp: Let_def)

lemma count_event_keeps [simp]:
  "c_id (count_event kind amount c) = c_id c" "c_tenant (count_event kind amount c) = c_tenant c"
  "c_company (count_event kind amount c) = c_company c"
  by (simp_all add: count_event_def)

lemma count_event_ok: "campaign_ok c \<Longrightarrow> campaign_ok (count_event kind amount c)"
  by (auto simp: campaign_ok_def count_event_def positive_amount_def split: option.splits)

lemma campaign_ok_updated [simp]: "campaign_ok (c\<lparr>c_updated := t\<rparr>) = campaign_ok c"
  by (simp add: campaign_ok_def)

lemma campaign_ok_outbound:
  assumes "campaign_ok c" and "\<forall>r \<in> set rs. normalize_recipient r \<noteq> []"
  shows "campaign_ok (c\<lparr>c_updated := t, c_sent := x, c_delivered := y, c_failed := z,
    c_recipients := add_recipients rs (c_recipients c)\<rparr>)"
  using assms by (force simp: campaign_ok_def set_add_recipients)

lemma campaign_ok_reply: "campaign_ok c \<Longrightarrow> campaign_ok (c\<lparr>c_updated := t, c_replies := x\<rparr>)"
  by (simp add: campaign_ok_def)

lemma outbound_step:
  assumes "campaign_inv s" and "ids_new a s"
  shows "campaign_inv (fst (record_outbound_campaign fmt a recipients message result s)) \<and>
    only_scope (norm_tenant a) (norm_company a) s (fst (record_outbound_campaign fmt a recipients message result s))"
proof -
  obtain s' c where run: "ensure_campaign a message s = (s', c)" by (cases "ensure_campaign a message s") blast
  note ok = campaign_ok_outbound [OF ensure_campaign_result(5) [OF assms run]]
  show ?thesis
    unfolding record_outbound_campaign_def run prod.case Let_def fst_conv
    by (intro conjI campaign_updated(1,3) [OF assms run] ok) simp_all
qed

lemma norm_scope_cong:
  "norm_tenant (a\<lparr>a_campaign := x, a_name := y\<rparr>) = norm_tenant a" "norm_company (a\<lparr>a_campaign := x, a_name := y\<rparr>) = norm_company a"
  by (simp_all add: norm_tenant_def norm_company_def)

lemma inbound_step:
  assumes "campaign_inv s" and "ids_new a s"
  shows "campaign_inv (fst (record_inbound_reply a recipient s)) \<and>
    only_scope (norm_tenant a) (norm_company a) s (fst (record_inbound_reply a recipient s))"
proof -
  define cid where "cid = (if strip (a_campaign a) \<noteq> [] then strip (a_campaign a)
    else dget_default (last_campaign s) (a_tenant a, a_company a, normalize_recipient recipient) [])"
  let ?a = "a\<lparr>a_campaign := cid, a_name := []\<rparr>"
  obtain s' c where run: "ensure_campaign ?a [] s = (s', c)" by (cases "ensure_campaign ?a [] s") blast
  have new: "ids_new ?a s" using assms(2) by (simp add: ids_new_def)
  note ok = campaign_ok_reply [OF ensure_campaign_result(5) [OF assms(1) new run]]
  have step: "campaign_inv (append_event e (update_campaign (c_id c) (c\<lparr>c_updated := t, c_replies := x\<rparr>) s')) \<and>
      only_scope (norm_tenant a) (norm_company a) s (append_event e (update_campaign (c_id c) (c\<lparr>c_updated := t, c_replies := x\<rparr>) s'))"
    for e t x
  proof -
    let ?c = "c\<lparr>c_updated := t, c_replies := x\<rparr>"
    have keys: "c_id ?c = c_id c" "c_tenant ?c = c_tenant c" "c_company ?c = c_company c" by simp_all
    show ?thesis
      using campaign_updated(2,4) [OF assms(1) new run ok keys] by (simp add: norm_scope_cong)
  qed
  then show ?thesis
    using assms(1) step by (simp add: record_inbound_reply_def Let_def cid_def [symmetric] run)
qed

lemma length_dpop_all_less: "k \<in> set ks \<Longrightarrow> (k, v) \<in> set d \<Longrightarrow> length (dpop_all ks d) < length d"
  unfolding dpop_all_eq_filter by (rule length_filter_less [of "(k, v)"]) auto

lemma trim_seen_bound:
  assumes "length seen \<le> Suc 10000"
  shows "length (trim_seen seen) \<le> 10000"
proof (cases "10000 < length seen")
  case True
  let ?ks = "map fst (take (length seen - 5000) (sort_key snd seen))"
  have "sort_key snd seen \<noteq> []" using True by (metis length_0_conv length_sort not_less_zero)
  then obtain k v rest where sorted: "sort_key snd seen = (k, v) # rest" by (cases "sort_key snd seen") auto
  have "k \<in> set ?ks" using True by (simp add: sorted take_Cons')
  moreover have "(k, v) \<in> set seen" using sorted by (metis list.set_intros(1) set_sort)
  ultimately have "length (dpop_all ?ks seen) < length seen" by (rule length_dpop_all_less)
  then show ?thesis using True assms by (simp add: trim_seen_def)
qed (simp add: trim_seen_def)

lemma event_deduped_inv:
  assumes "campaign_inv s"
  shows "campaign_inv (fst (event_deduped event_id now s))" "only_scope t co s (fst (event_deduped event_id now s))"
    "campaigns (fst (event_deduped event_id now s)) = campaigns s"
proof -
  have "length (dset event_id now (seen_ids s)) \<le> Suc 10000" if "dget (seen_ids s) event_id = None"
    using assms that by (simp add: length_dset campaign_inv_def logs_bounded_def)
  then have "length (trim_seen (dset event_id now (seen_ids s))) \<le> 10000" if "dget (seen_ids s) event_id = None"
    using that trim_seen_bound by blast
  then show "campaign_inv (fst (event_deduped event_id now s))" "only_scope t co s (fst (event_deduped event_id now s))"
    "campaigns (fst (event_deduped event_id now s)) = campaigns s"
    using assms by (auto simp: campaign_inv_def campaigns_ok_def index_ok_def logs_bounded_def event_deduped_def only_scope_def)
qed

lemma event_step:
  assumes "campaign_inv s" and "ids_new a s"
  shows "campaign_inv (fst (record_event a event_type recipient amount event_id s)) \<and>
    only_scope (norm_tenant a) (norm_company a) s (fst (record_event a event_type recipient amount event_id s))"
proof -
  obtain s1 again where dedup: "event_deduped event_id (a_now a) s = (s1, again)"
    by (cases "event_deduped event_id (a_now a) s") blast
  note d = event_deduped_inv [OF assms(1), where event_id = event_id and now = "a_now a", unfolded dedup fst_conv]
  have new: "ids_new a s1" using assms(2) d(3) by (simp add: ids_new_def)
  obtain s' c where run: "ensure_campaign a [] s1 = (s', c)" by (cases "ensure_campaign a [] s1") blast
  let ?c = "count_event (lower (strip event_type)) amount (c\<lparr>c_updated := a_now a\<rparr>)"
  have ok: "campaign_ok ?c" using ensure_campaign_result(5) [OF d(1) new run] by (simp add: count_event_ok)
  have keys: "c_id ?c = c_id c" "c_tenant ?c = c_tenant c" "c_company ?c = c_company c" by simp_all
  show ?thesis
  proof (cases again)
    case True
    then show ?thesis using d(1,2) by (simp add: record_event_def dedup)
  next
    case False
    note up = campaign_updated [OF d(1) new run ok keys]
    show ?thesis
      using False up(1,2) only_scope_trans [OF d(2) up(3)] only_scope_trans [OF d(2) up(4)]
      by (simp add: record_event_def dedup run Let_def del: count_event_keeps)
  qed
qed

lemma campaign_step_inv:
  assumes "campaign_inv s" and "ids_new (op_args op') s"
  shows "campaign_inv (campaign_step fmt op' s) \<and>
    only_scope (norm_tenant (op_args op')) (norm_company (op_args op')) s (campaign_step fmt op' s)"
  using assms outbound_step inbound_step event_step by (cases op') simp_all

lemma campaign_inv_empty [simp]: "campaign_inv empty_campaigns"
  by (simp add: campaign_inv_def campaigns_ok_def index_ok_def logs_bounded_def empty_campaigns_def)

lemma campaign_run_inv:
  assumes "campaign_inv s" and "ids_new_along fmt s ops"
  shows "campaign_inv (campaign_run fmt ops s)"
  using assms
proof (induction ops arbitrary: s)
  case (Cons op' ops)
  then show ?case using campaign_step_inv [of s op' fmt] by (simp add: campaign_run_def)
qed (simp add: campaign_run_def)


text \<open>A campaign message to one customer, a payment, and another tenant naming the campaign.\<close>

definition sample_args :: "string \<Rightarrow> string \<Rightarrow> string \<Rightarrow> campaign_args" where
  "sample_args tenant cid new_id = \<lparr>a_channel = ''sms'', a_tenant = tenant, a_company = ''c'', a_campaign = cid,
     a_name = ''n'', a_new_ids = (new_id, new_id), a_now = 1\<rparr>"

definition sample_ops :: "campaign_op list" where
  "sample_ops = [Outbound (sample_args ''t'' ''k'' ''1'') [''+5''] ''m'' [],
     Event (sample_args ''t'' ''k'' ''2'') ''conversion'' [] (PInt 7) ''e'']"


section \<open>Properties\<close>

text \<open>
  C12 The books of the campaign store balance: after any sequence of outbound messages,
  replies and events, every campaign counts as many successful payments as conversions, its
  revenue is never negative and zero without a conversion, every contact of the index points
  to an existing campaign of the contact's own tenant and company, and the event log and the
  set of seen identifiers stay within 10,000 entries.  The store starts empty and the
  identifiers it draws are taken to be new (\<open>ids_new_along\<close>).
\<close>

theorem campaign_books_balance:
  assumes "ids_new_along fmt empty_campaigns ops"
  shows "campaign_inv (campaign_run fmt ops empty_campaigns)"
  by (rule campaign_run_inv [OF campaign_inv_empty assms])

theorem campaign_books_balance_witness:
  "campaign_inv (campaign_run (\<lambda>v. []) sample_ops empty_campaigns)"
proof -
  have "ids_new_along (\<lambda>v. []) empty_campaigns sample_ops" by code_simp
  then show ?thesis by (rule campaign_books_balance)
qed









text \<open>An event with an identifier that is still remembered changes nothing.\<close>

lemma repeated_event_ignored:
  assumes "event_id \<noteq> []" and "dget (seen_ids s) event_id \<noteq> None"
  shows "record_event a event_type recipient amount event_id s = (s, strip (a_campaign a))"
  using assms by (simp add: record_event_def event_deduped_def)

end
