(* ===== verification/Phone_Identity.thy ===== *)
theory Phone_Identity
  imports Py_Strings
begin

text \<open>
  \<open>shared/phone_identity.py\<close>: the masked form of a phone number for logs and the identifier a
  caller gets on every channel.  \<open>e164 region raw\<close> is what \<open>phonenumbers\<close> makes of a number
  (\<open>None\<close>: not a valid number), \<open>hmac seed\<close> the hexadecimal HMAC-SHA256 under the configured
  key.
\<close>

definition mask_phone :: "string \<Rightarrow> string" where
  "mask_phone raw =
     (let stripped = strip raw; n = length stripped in
      if n \<le> 4 then ''***''
      else let max_visible = n - 3; tail = min 4 max_visible; head = min 4 (max_visible - tail) in
        (if head > 0 then take head stripped @ ''***'' @ drop (n - tail) stripped
         else ''***'' @ drop (n - tail) stripped))"

definition FALLBACK_REGION :: string where "FALLBACK_REGION = ''NG''"

definition normalize_phone :: "(string \<Rightarrow> string \<Rightarrow> string option) \<Rightarrow> string \<Rightarrow> string \<Rightarrow> string option" where
  "normalize_phone e164 raw default_region =
     (if strip raw = [] then None
      else e164 (if default_region = [] then FALLBACK_REGION else default_region) (strip raw))"

definition canonical_phone_user_id ::
  "(string \<Rightarrow> string) \<Rightarrow> (string \<Rightarrow> string \<Rightarrow> string option) \<Rightarrow> string \<Rightarrow> string \<Rightarrow> string \<Rightarrow> string \<Rightarrow> string option" where
  "canonical_phone_user_id hmac e164 tenant_id company_id raw_phone default_region =
     (if tenant_id = [] \<or> company_id = [] then None
      else case normalize_phone e164 raw_phone default_region of
        None \<Rightarrow> None
      | Some phone \<Rightarrow>
          Some (''phone-'' @ take 24 (hmac (tenant_id @ '':'' @ company_id @ '':caller:'' @ phone))))"

text \<open>At least three characters of a masked number are hidden.\<close>

lemma mask_phone_hides:
  assumes "4 < length (strip raw)"
  obtains head tail hidden where "strip raw = head @ hidden @ tail" "mask_phone raw = head @ ''***'' @ tail"
    "3 \<le> length hidden" "length head \<le> 4" "length tail \<le> 4"
proof -
  let ?s = "strip raw" and ?n = "length (strip raw)"
  define t where "t = min 4 (?n - 3)"
  define h where "h = min 4 (?n - 3 - t)"
  have le: "h + t + 3 \<le> ?n" using assms by (auto simp: h_def t_def)
  have "?s = take h ?s @ take (?n - t - h) (drop h ?s) @ drop (?n - t) ?s"
  proof -
    have "drop h ?s = take (?n - t - h) (drop h ?s) @ drop (?n - t - h) (drop h ?s)"
      by (rule append_take_drop_id [symmetric])
    moreover have "drop (?n - t - h) (drop h ?s) = drop (?n - t) ?s"
      unfolding drop_drop using le by (intro arg_cong [of _ _ "\<lambda>k. drop k ?s"]) linarith
    ultimately show ?thesis by (metis append_take_drop_id)
  qed
  moreover have "mask_phone raw = take h ?s @ ''***'' @ drop (?n - t) ?s"
    using assms by (simp add: mask_phone_def Let_def h_def t_def)
  moreover have "3 \<le> length (take (?n - t - h) (drop h ?s))" using le by simp
  moreover have "h \<le> 4" and "t \<le> 4" by (simp_all only: h_def t_def min.cobounded1)
  then have "length (take h ?s) \<le> 4" and "length (drop (?n - t) ?s) \<le> 4" by simp_all
  ultimately show ?thesis by (rule that)
qed

end
