(* ===== verification/Udp_Server.thy ===== *)
theory Udp_Server
  imports Sip_Register Sdp Phone_Identity
begin

text \<open>
  \<open>sip_bridge/server.py\<close>: the UDP SIP server of the Africa's Talking line.  The state of
  \<open>SIPServer\<close> is a record; a session task is a number and \<open>ulive\<close> holds the tasks that have
  not finished, with their call.  Each handler returns the datagrams it sends.  A datagram is
  its decoded text; the random tags, the RTP port and the registrar's randomness of one
  datagram are the record \<open>udp_env\<close>.
\<close>

record udp_call =
  uc_task :: nat
  uc_remote :: "(string \<times> nat) option"
  uc_local_port :: nat
  uc_phone :: string
  uc_gateway :: "(string \<times> string) option"

record udp_server =
  usessions :: "(string, udp_call) dict"
  ulive :: "(nat, string) dict"
  unext :: nat
  utransport :: bool
  uregistrar :: "registrar option"

record udp_env =
  ue_hmac :: "string \<Rightarrow> string"
  ue_e164 :: "string \<Rightarrow> string \<Rightarrow> string option"
  ue_tag :: string
  ue_tag2 :: string
  ue_rtp_port :: nat
  ue_reg :: reg_env

section \<open>Calls\<close>

definition match_phone :: "string \<Rightarrow> string option" where
  "match_phone s =
     (let plus = takeWhile (\<lambda>c. c = CHR ''+'') (take 1 s);
          ds = take 15 (takeWhile is_digit (drop (length plus) s))
      in if 7 \<le> length ds then Some (plus @ ds) else None)"

definition caller_phone_of :: "string \<Rightarrow> string" where
  "caller_phone_of from_header = (case search match_phone from_header of Some p \<Rightarrow> p | None \<Rightarrow> [])"

text \<open>The user and session identifiers of the gateway; \<open>Inl ()\<close> is the \<open>ValueError\<close>.\<close>

definition gateway_ids :: "(string \<Rightarrow> string) \<Rightarrow> udp_env \<Rightarrow> bridge_config \<Rightarrow> string \<Rightarrow> string \<Rightarrow> unit + (string \<times> string) option" where
  "gateway_ids sha256 e c call_id phone =
     (if gateway_mode c \<and> gateway_ws_url c \<noteq> [] then
        (if gateway_ws_secret c = [] then Inl ()
         else
           (let user = (case canonical_phone_user_id (ue_hmac e) (ue_e164 e) (tenant_id c) (company_id c) phone
                    (default_phone_region c) of
                  Some u \<Rightarrow> u
                | None \<Rightarrow> ''sip-anon-'' @ take 16 (sha256 (tenant_id c @ '':'' @ company_id c @ '':call:'' @ call_id)));
                session = ''sip-'' @ take 24 (sha256 (tenant_id c @ '':'' @ company_id c @ '':session:'' @ call_id))
            in Inr (Some (user, session))))
      else Inr None)"

text \<open>\<open>SIPServer.handle_invite\<close> and the task that runs the session.\<close>

definition start_call ::
  "(string \<Rightarrow> string) \<Rightarrow> udp_env \<Rightarrow> bridge_config \<Rightarrow> string \<Rightarrow> (string \<times> nat) option \<Rightarrow> nat \<Rightarrow> string \<Rightarrow> udp_server \<Rightarrow> udp_server" where
  "start_call sha256 e c call_id remote local_port from_header s =
     (let phone = caller_phone_of from_header in
      case gateway_ids sha256 e c call_id phone of
        Inl _ \<Rightarrow> s
      | Inr gateway \<Rightarrow>
          s\<lparr>usessions := dset call_id \<lparr>uc_task = unext s, uc_remote = remote, uc_local_port = local_port,
               uc_phone = phone, uc_gateway = gateway\<rparr> (usessions s),
            ulive := dset (unext s) call_id (ulive s),
            unext := unext s + 1\<rparr>)"

definition end_call :: "string \<Rightarrow> udp_server \<Rightarrow> udp_server" where
  "end_call call_id s = s\<lparr>usessions := dpop call_id (usessions s)\<rparr>"

section \<open>Datagrams\<close>

definition contact_uri :: "bridge_config \<Rightarrow> string" where
  "contact_uri c = ''<sip:'' @ user_part (sip_username c) @ ''@'' @ sip_public_ip c @ '':'' @ int_str (sip_port c) @ ''>''"

definition either_case :: "(string, string) dict \<Rightarrow> string \<Rightarrow> string \<Rightarrow> string" where
  "either_case hs k k' = (let v = dget_default hs k [] in if v = [] then dget_default hs k' [] else v)"

definition coerce_dialog_headers :: "(string, string) dict \<Rightarrow> (string, string) dict" where
  "coerce_dialog_headers hs =
     [(''Via'', either_case hs ''Via'' ''via''), (''From'', either_case hs ''From'' ''from''),
      (''To'', either_case hs ''To'' ''to''), (''Call-ID'', either_case hs ''Call-ID'' ''call-id''),
      (''CSeq'', either_case hs ''CSeq'' ''cseq'')]"

fun extract_call_id :: "string list \<Rightarrow> string option" where
  "extract_call_id [] = None"
| "extract_call_id (line # lines) =
     (if startswith ''call-id:'' (lower line) then Some (strip (after (CHR '':'') line)) else extract_call_id lines)"

definition remote_media :: "string \<Rightarrow> (string \<times> nat) option" where
  "remote_media sdp =
     (let info = parse_sdp_g711 sdp in
      if sdp \<noteq> [] \<and> g711_media_ip info \<noteq> [] \<and> g711_media_port info \<noteq> 0
      then Some (g711_media_ip info, g711_media_port info) else None)"

definition invite_received ::
  "(string \<Rightarrow> string) \<Rightarrow> udp_env \<Rightarrow> bridge_config \<Rightarrow> string \<Rightarrow> string \<times> nat \<Rightarrow> udp_server \<Rightarrow> udp_server \<times> datagram list" where
  "invite_received sha256 e c message addr s =
     (let parsed = parse_sip_request message; hs = coerce_dialog_headers (req_headers parsed);
          call_id = dget_default hs ''Call-ID'' []
      in if call_id = [] \<or> dget (usessions s) call_id \<noteq> None \<or> \<not> utransport s then (s, [])
         else
           (let trying = build_sip_response (ue_tag e) 100 ''Trying'' hs None (contact_uri c);
                ok = build_sip_response (ue_tag2 e) 200 ''OK'' hs
                  (Some (build_sdp_answer (sip_public_ip c) (ue_rtp_port e))) (contact_uri c)
            in (start_call sha256 e c call_id (remote_media (req_body parsed)) (ue_rtp_port e) (dget_default hs ''From'' []) s,
                [(trying, addr), (ok, addr)])))"

definition bye_received ::
  "udp_env \<Rightarrow> bridge_config \<Rightarrow> string \<Rightarrow> string \<times> nat \<Rightarrow> udp_server \<Rightarrow> udp_server \<times> datagram list" where
  "bye_received e c message addr s =
     (let hs = coerce_dialog_headers (req_headers (parse_sip_request message));
          call_id = dget_default hs ''Call-ID'' [];
          call_id = (if call_id \<noteq> [] then call_id
            else case extract_call_id (split_crlf message) of Some i \<Rightarrow> i | None \<Rightarrow> []);
          out = (if utransport s then [(build_sip_response (ue_tag e) 200 ''OK'' hs None (contact_uri c), addr)] else [])
      in (if call_id = [] then s else end_call call_id s, out))"

definition datagram_received ::
  "(string \<Rightarrow> string) \<Rightarrow> (string \<Rightarrow> string) \<Rightarrow> udp_env \<Rightarrow> bridge_config \<Rightarrow> string \<Rightarrow> string \<times> nat \<Rightarrow> udp_server \<Rightarrow> udp_server \<times> datagram list" where
  "datagram_received md5 sha256 e c message addr s =
     (let first_line = hd (split_crlf message) in
      if startswith ''SIP/2.0'' first_line then
        (case uregistrar s of
           None \<Rightarrow> (s, [])
         | Some r \<Rightarrow>
             (case handle_response md5 sha256 c (ue_reg e) message r of
                (_, r', out) \<Rightarrow> (s\<lparr>uregistrar := Some r'\<rparr>, out)))
      else if startswith ''INVITE'' first_line then invite_received sha256 e c message addr s
      else if startswith ''BYE'' first_line then bye_received e c message addr s
      else (s, []))"

section \<open>The server\<close>

text \<open>\<open>start\<close>: the transport is bound and, with credentials, a first REGISTER is sent.\<close>

definition udp_start :: "bridge_config \<Rightarrow> reg_env \<Rightarrow> string \<Rightarrow> udp_server \<times> datagram list" where
  "udp_start c re call_id =
     (let r = \<lparr>registered = False, transport = should_register c, reg_call_id = call_id, cseq = 1, registrar_addr = None\<rparr>;
          (r', out) = (if should_register c then send_register c re None r else (r, []))
      in (\<lparr>usessions = [], ulive = [], unext = 0, utransport = True, uregistrar = Some r'\<rparr>, out))"

text \<open>One turn of \<open>_registration_loop\<close>.\<close>

definition refresh_registration :: "bridge_config \<Rightarrow> reg_env \<Rightarrow> udp_server \<Rightarrow> udp_server \<times> datagram list" where
  "refresh_registration c re s =
     (case uregistrar s of
        Some r \<Rightarrow>
          if should_register c then (case send_register c re None r of (r', out) \<Rightarrow> (s\<lparr>uregistrar := Some r'\<rparr>, out))
          else (s, [])
      | None \<Rightarrow> (s, []))"

definition udp_stop :: "bridge_config \<Rightarrow> reg_env \<Rightarrow> udp_server \<Rightarrow> udp_server \<times> datagram list" where
  "udp_stop c re s =
     (case uregistrar s of
        Some r \<Rightarrow>
          if registered r then (case send_unregister c re r of (r', out) \<Rightarrow> (s\<lparr>uregistrar := Some r'\<rparr>, out))
          else (s, [])
      | None \<Rightarrow> (s, []))"

text \<open>The done callback of a session task.\<close>

definition call_done :: "nat \<Rightarrow> udp_server \<Rightarrow> udp_server" where
  "call_done task s =
     (case dget (ulive s) task of
        None \<Rightarrow> s
      | Some call_id \<Rightarrow> s\<lparr>usessions := dpop call_id (usessions s), ulive := dpop task (ulive s)\<rparr>)"

datatype udp_event =
    Datagram udp_env string "string \<times> nat"
  | Refresh reg_env
  | Call_Done nat

fun udp_step ::
  "(string \<Rightarrow> string) \<Rightarrow> (string \<Rightarrow> string) \<Rightarrow> bridge_config \<Rightarrow> udp_event \<Rightarrow> udp_server \<Rightarrow> udp_server \<times> datagram list" where
  "udp_step md5 sha256 c (Datagram e message addr) s = datagram_received md5 sha256 e c message addr s"
| "udp_step md5 sha256 c (Refresh re) s = refresh_registration c re s"
| "udp_step md5 sha256 c (Call_Done task) s = (call_done task s, [])"

fun udp_run ::
  "(string \<Rightarrow> string) \<Rightarrow> (string \<Rightarrow> string) \<Rightarrow> bridge_config \<Rightarrow> udp_event list \<Rightarrow> udp_server \<Rightarrow> udp_server \<times> datagram list" where
  "udp_run md5 sha256 c [] s = (s, [])"
| "udp_run md5 sha256 c (ev # evs) s =
     (case udp_step md5 sha256 c ev s of (s, out) \<Rightarrow> (case udp_run md5 sha256 c evs s of (s, out') \<Rightarrow> (s, out @ out')))"

section \<open>Sessions and tasks\<close>

text \<open>Every active session is run by a task of its call; task numbers are not reused.\<close>

definition udp_inv :: "udp_server \<Rightarrow> bool" where
  "udp_inv s \<longleftrightarrow> (\<forall>k call. dget (usessions s) k = Some call \<longrightarrow> dget (ulive s) (uc_task call) = Some k) \<and>
     (\<forall>task k. dget (ulive s) task = Some k \<longrightarrow> task < unext s)"

lemma udp_inv_start_call: "udp_inv s \<Longrightarrow> udp_inv (start_call sha256 e c call_id remote local_port from_header s)"
  by (auto simp: udp_inv_def start_call_def Let_def less_Suc_eq split: sum.splits) (metis nat_neq_iff)+

lemma udp_inv_end_call: "udp_inv s \<Longrightarrow> udp_inv (end_call k s)"
  by (simp add: udp_inv_def end_call_def)

lemma udp_inv_registrar: "udp_inv (s\<lparr>uregistrar := r\<rparr>) = udp_inv s"
  by (simp add: udp_inv_def)

lemma udp_inv_call_done: "udp_inv s \<Longrightarrow> udp_inv (call_done task s)"
  by (auto simp: udp_inv_def call_done_def split: option.splits)

lemma udp_inv_datagram: "udp_inv s \<Longrightarrow> udp_inv (fst (datagram_received md5 sha256 e c message addr s))"
  by (auto simp: datagram_received_def invite_received_def bye_received_def Let_def udp_inv_registrar
      intro: udp_inv_start_call udp_inv_end_call split: option.splits prod.splits)

lemma udp_inv_step: "udp_inv s \<Longrightarrow> udp_inv (fst (udp_step md5 sha256 c ev s))"
  by (cases ev) (auto simp: udp_inv_datagram udp_inv_call_done refresh_registration_def udp_inv_registrar
      split: option.splits prod.splits)

lemma udp_run_inv: "udp_inv s \<Longrightarrow> udp_inv (fst (udp_run md5 sha256 c evs s))"
proof (induction evs arbitrary: s)
  case (Cons ev evs)
  obtain s' out where step: "udp_step md5 sha256 c ev s = (s', out)" by (cases "udp_step md5 sha256 c ev s") blast
  then have "udp_inv s'" using udp_inv_step [OF Cons.prems, of md5 sha256 c ev] by simp
  from Cons.IH [OF this] show ?case by (simp add: step case_prod_beta)
qed simp

lemma udp_inv_init: "udp_inv (fst (udp_start c re call_id))"
  by (simp add: udp_start_def udp_inv_def Let_def split: prod.splits)

section \<open>The registrar inside the server\<close>

fun reg_events_of :: "bridge_config \<Rightarrow> udp_event \<Rightarrow> reg_event list" where
  "reg_events_of c (Datagram e message addr) =
     (if startswith ''SIP/2.0'' (hd (split_crlf message)) then [Response (ue_reg e) message] else [])"
| "reg_events_of c (Refresh re) = (if should_register c then [SendRegister re] else [])"
| "reg_events_of c (Call_Done task) = []"

lemma reg_run_append:
  "reg_run md5 sha256 c (xs @ ys) r =
     (case reg_run md5 sha256 c xs r of (r, out) \<Rightarrow> (case reg_run md5 sha256 c ys r of (r, out') \<Rightarrow> (r, out @ out')))"
  by (induction xs arbitrary: r) (auto split: prod.splits)

lemma udp_step_registrar:
  assumes "uregistrar s = Some r"
  shows "uregistrar (fst (udp_step md5 sha256 c ev s)) = Some (fst (reg_run md5 sha256 c (reg_events_of c ev) r))"
  using assms
  by (cases ev)
     (auto simp: datagram_received_def invite_received_def bye_received_def start_call_def end_call_def Let_def
       refresh_registration_def call_done_def reg_step_def split: option.splits prod.splits sum.splits)

section \<open>Properties\<close>

text \<open>
  C37 Whatever datagrams arrive on the UDP port from whatever addresses, interleaved with the
  registration timer and the ends of calls, the registrar inside the server is in exactly the
  state it reaches by its own steps on the responses and timer events alone: calls do not
  disturb the registration, and only responses and timer events move it.
\<close>

theorem udp_registrar_refinement:
  assumes "uregistrar s = Some r"
  shows "uregistrar (fst (udp_run md5 sha256 c evs s)) =
    Some (fst (reg_run md5 sha256 c (concat (map (reg_events_of c) evs)) r))"
  using assms
proof (induction evs arbitrary: s r)
  case (Cons ev evs)
  obtain s' out where step: "udp_step md5 sha256 c ev s = (s', out)" by (cases "udp_step md5 sha256 c ev s") blast
  then have "uregistrar s' = Some (fst (reg_run md5 sha256 c (reg_events_of c ev) r))"
    using udp_step_registrar [OF Cons.prems, of md5 sha256 c ev] by simp
  from Cons.IH [OF this] show ?case by (auto simp: step reg_run_append split: prod.splits)
qed simp

definition sample_udp_env :: udp_env where
  "sample_udp_env = \<lparr>ue_hmac = (\<lambda>_. ''h''), ue_e164 = (\<lambda>_ _. None), ue_tag = ''t'', ue_tag2 = ''u'',
     ue_rtp_port = 5, ue_reg = sample_reg_env\<rparr>"

definition sample_invite :: string where
  "sample_invite = join crlf [''INVITE x'', ''Call-ID: k'', [], []]"

definition sample_udp :: udp_server where
  "sample_udp = \<lparr>usessions = [], ulive = [], unext = 0, utransport = True, uregistrar = Some sample_registrar\<rparr>"

theorem udp_registrar_refinement_witness:
  "uregistrar (fst (udp_run (\<lambda>_. ''d'') (\<lambda>_. ''d'') sample_reg_config
      [Datagram sample_udp_env sample_invite (''9.9.9.9'', 7), Refresh sample_reg_env, Call_Done 0] sample_udp)) =
   Some (fst (reg_run (\<lambda>_. ''d'') (\<lambda>_. ''d'') sample_reg_config
      (concat (map (reg_events_of sample_reg_config)
        [Datagram sample_udp_env sample_invite (''9.9.9.9'', 7), Refresh sample_reg_env, Call_Done 0])) sample_registrar))"
  by (rule udp_registrar_refinement) (simp add: sample_udp_def)

text \<open>
  From the start of the server, through any events, every call in the session table is
  being run by a task of that very call.
\<close>

theorem udp_sessions_have_tasks:
  assumes "dget (usessions (fst (udp_run md5 sha256 c evs (fst (udp_start c re reg_id))))) k = Some call"
  shows "dget (ulive (fst (udp_run md5 sha256 c evs (fst (udp_start c re reg_id))))) (uc_task call) = Some k"
  using udp_run_inv [OF udp_inv_init] assms by (metis udp_inv_def)

lemma sample_call:
  "dget (usessions (fst (udp_run (\<lambda>_. ''d'') (\<lambda>_. ''d'') sample_reg_config
      [Datagram sample_udp_env sample_invite (''9.9.9.9'', 7)] (fst (udp_start sample_reg_config sample_reg_env ''r''))))) ''k'' =
   Some \<lparr>uc_task = 0, uc_remote = None, uc_local_port = 5, uc_phone = [], uc_gateway = None\<rparr>"
  by code_simp

theorem udp_sessions_have_tasks_witness:
  "dget (ulive (fst (udp_run (\<lambda>_. ''d'') (\<lambda>_. ''d'') sample_reg_config
      [Datagram sample_udp_env sample_invite (''9.9.9.9'', 7)] (fst (udp_start sample_reg_config sample_reg_env ''r''))))) 0 =
   Some ''k''"
  using udp_sessions_have_tasks [OF sample_call] by simp

text \<open>
  The allowlist of peers in the configuration is not consulted: an INVITE for a new call is
  answered with 100 and 200 and opens a session whatever address it comes from, listed or not.
\<close>

theorem unlisted_peer_opens_session:
  assumes "startswith ''INVITE'' (hd (split_crlf message))" and "\<not> gateway_mode c" and "utransport s"
    and "hs = coerce_dialog_headers (req_headers (parse_sip_request message))"
    and "dget_default hs ''Call-ID'' [] = call_id" and "call_id \<noteq> []" and "dget (usessions s) call_id = None"
    and "ip \<notin> sip_allowed_peers c"
  shows "\<exists>call. dget (usessions (fst (datagram_received md5 sha256 e c message (ip, port) s))) call_id = Some call \<and>
    uc_remote call = remote_media (req_body (parse_sip_request message)) \<and>
    map snd (snd (datagram_received md5 sha256 e c message (ip, port) s)) = [(ip, port), (ip, port)]"
proof -
  obtain rest where "hd (split_crlf message) = ''INVITE'' @ rest"
    using assms(1) by (metis append_take_drop_id startswith_def)
  then have "\<not> startswith ''SIP/2.0'' (hd (split_crlf message))" by (simp add: startswith_def)
  then show ?thesis
    using assms by (simp add: datagram_received_def invite_received_def start_call_def gateway_ids_def Let_def)
qed

theorem unlisted_peer_opens_session_witness:
  "\<exists>call. dget (usessions (fst (datagram_received (\<lambda>_. ''d'') (\<lambda>_. ''d'') sample_udp_env
        (sample_reg_config\<lparr>sip_allowed_peers := {''1.1.1.1''}\<rparr>) sample_invite (''9.9.9.9'', 7) sample_udp))) ''k'' = Some call \<and>
     uc_remote call = remote_media (req_body (parse_sip_request sample_invite)) \<and>
     map snd (snd (datagram_received (\<lambda>_. ''d'') (\<lambda>_. ''d'') sample_udp_env
        (sample_reg_config\<lparr>sip_allowed_peers := {''1.1.1.1''}\<rparr>) sample_invite (''9.9.9.9'', 7) sample_udp)) =
       [(''9.9.9.9'', 7), (''9.9.9.9'', 7)]"
proof (rule unlisted_peer_opens_session)
  show "startswith ''INVITE'' (hd (split_crlf sample_invite))" by code_simp
  show "\<not> gateway_mode (sample_reg_config\<lparr>sip_allowed_peers := {''1.1.1.1''}\<rparr>)" by code_simp
  show "dget_default (coerce_dialog_headers (req_headers (parse_sip_request sample_invite))) ''Call-ID'' [] = ''k''" by code_simp
qed (simp_all add: sample_udp_def)

text \<open>
  The end of a call's first task removes the session of a second call with the same identifier.
\<close>

lemma stale_task_ends_new_call:
  assumes "dget (ulive s) old = Some k" and "dget (usessions s) k = Some call" and "uc_task call \<noteq> old"
  shows "dget (usessions (call_done old s)) k = None" and "dget (ulive (call_done old s)) (uc_task call) = dget (ulive s) (uc_task call)"
  using assms by (simp_all add: call_done_def)

end
