(* ===== verification/Payments.thy ===== *)
theory Payments
  imports Campaign At_Idempotency
begin

text \<open>
  \<open>app/api/v1/at/service_payments.py\<close>: Paystack checkouts, virtual accounts and the events of
  the gateway.  The module's dictionaries are one record (\<open>pay_store\<close>) beside the campaign
  store they feed; a stored record is its dictionary of values.  The gateway is a record of
  functions from the payload of a request (of a GET, what its URL names) to the answer (status
  and body), \<open>None\<close> being an exception of the HTTP client.  \<open>pay_env\<close> has what one request reads from outside: the
  current time (as text and as clock), the references it would generate, and the identifiers
  a new campaign would get.
\<close>

type_synonym pay_fields = "(string, py) dict"

record pay_settings =
  paystack_on :: bool
  pay_secret :: string
  pay_webhook :: string
  pay_callback :: string
  dva_bank :: string
  dva_country :: string
  sms_on :: bool
  whatsapp_on :: bool
  whatsapp_token :: string

text \<open>\<open>Value_Raised\<close> is the \<open>ValueError\<close> of \<open>int\<close>.\<close>

datatype pay_error = Gateway_Error string nat | Client_Raised | Value_Raised

record pay_store =
  payments :: "(string, pay_fields) dict"
  accounts :: "(string, pay_fields) dict"
  account_index :: "(string, string) dict"
  customer_codes :: "(string, string) dict"

record pay_world =
  ledger :: pay_store
  books :: campaign_store

record pay_env =
  pe_now :: string
  pe_clock :: clock
  pe_refs :: "string \<times> string"
  pe_new_ids :: "string \<times> string"

type_synonym gateway_call = "pay_fields \<Rightarrow> (nat \<times> pay_fields) option"

record pay_gateway =
  gw_initialize :: gateway_call
  gw_customer :: gateway_call
  gw_create_account :: gateway_call
  gw_assign_account :: gateway_call
  gw_verify :: gateway_call
  gw_providers :: gateway_call

section \<open>Normalisation\<close>

definition secret_key :: "pay_settings \<Rightarrow> string" where
  "secret_key cfg = strip (pay_secret cfg)"

definition webhook_secret :: "pay_settings \<Rightarrow> string" where
  "webhook_secret cfg = or_else (strip (pay_webhook cfg)) (secret_key cfg)"

definition is_enabled :: "pay_settings \<Rightarrow> bool" where
  "is_enabled cfg \<longleftrightarrow> paystack_on cfg \<and> secret_key cfg \<noteq> []"

definition reference_ok :: "string \<Rightarrow> bool" where
  "reference_ok s \<longleftrightarrow> 6 \<le> length s \<and> length s \<le> 128 \<and>
     list_all (\<lambda>c. ascii_letter c \<or> is_digit c \<or> c \<in> {CHR ''.'', CHR ''_'', CHR '':'', CHR ''-''}) s"

definition normalize_reference :: "string \<Rightarrow> string \<Rightarrow> string" where
  "normalize_reference generated r = (if reference_ok (strip r) then strip r else generated)"

definition validate_reference :: "string \<Rightarrow> pay_error + string" where
  "validate_reference r =
     (if reference_ok (strip r) then Inr (strip r) else Inl (Gateway_Error ''Invalid payment reference'' 400))"

text \<open>\<open>None\<close> is \<open>ValueError\<close>: a text of superscript digits passes \<open>isdigit\<close> but not \<open>int\<close>.\<close>

fun coerce_amount_kobo :: "py \<Rightarrow> int option" where
  "coerce_amount_kobo (PInt i) = Some (max i 0)"
| "coerce_amount_kobo (PFloat q) = Some (max (py_trunc q) 0)"
| "coerce_amount_kobo (PStr s) = (let t = strip s in if str_isdigit t then int_of_digits t else Some 0)"
| "coerce_amount_kobo _ = Some 0"

fun coerce_metadata :: "py \<Rightarrow> pay_fields" where
  "coerce_metadata (PDict d) = d"
| "coerce_metadata _ = []"

fun coerce_str :: "py \<Rightarrow> string" where
  "coerce_str (PStr s) = strip s"
| "coerce_str _ = []"

definition normalize_email :: "string \<Rightarrow> string" where
  "normalize_email e = lower (strip e)"

definition normalize_account_number :: "string \<Rightarrow> string" where
  "normalize_account_number s =
     (let n = filter is_digit_char s
      in if list_all is_digit n \<and> 8 \<le> length n \<and> length n \<le> 20 then n else [])"

section \<open>The records\<close>

definition merged_record :: "string \<Rightarrow> string \<Rightarrow> pay_fields \<Rightarrow> (string, pay_fields) dict \<Rightarrow> pay_fields" where
  "merged_record now reference payload records =
     dset ''updated_at'' (PStr (or_else (coerce_str (py_get payload ''updated_at'')) now))
       (setdefault ''reference'' (PStr reference) (dmerge (dget_default records reference []) payload))"

definition store_payment :: "string \<Rightarrow> string \<Rightarrow> pay_fields \<Rightarrow> pay_store \<Rightarrow> pay_store" where
  "store_payment now reference payload s =
     s\<lparr>payments := dset reference (merged_record now reference payload (payments s)) (payments s)\<rparr>"

definition store_virtual_account :: "string \<Rightarrow> string \<Rightarrow> pay_fields \<Rightarrow> pay_store \<Rightarrow> pay_store" where
  "store_virtual_account now reference payload s =
     (let merged = merged_record now reference payload (accounts s);
          number = normalize_account_number (coerce_str (py_get merged ''account_number''));
          s = s\<lparr>accounts := dset reference merged (accounts s)\<rparr>
      in if number = [] then s else s\<lparr>account_index := dset number reference (account_index s)\<rparr>)"

definition payment_snapshot :: "string \<Rightarrow> pay_store \<Rightarrow> pay_fields option" where
  "payment_snapshot reference s = dget (payments s) reference"

definition virtual_account_snapshot :: "string \<Rightarrow> pay_store \<Rightarrow> pay_fields option" where
  "virtual_account_snapshot reference s = dget (accounts s) reference"

definition virtual_account_from_number :: "string \<Rightarrow> pay_store \<Rightarrow> pay_fields option" where
  "virtual_account_from_number number s =
     (let n = normalize_account_number number; r = dget_default (account_index s) n [] in
      if n = [] \<or> r = [] then None else dget (accounts s) r)"

text \<open>\<open>None\<close> is the \<open>TypeError\<close> of \<open>compare_digest\<close>; \<open>hmac\<close> gives the hexadecimal digest.\<close>

definition verify_webhook_signature ::
  "(string \<Rightarrow> string \<Rightarrow> string) \<Rightarrow> pay_settings \<Rightarrow> string \<Rightarrow> string \<Rightarrow> bool option" where
  "verify_webhook_signature hmac cfg raw_body signature =
     (let secret = webhook_secret cfg; provided = lower (strip signature) in
      if secret = [] \<or> provided = [] then Some False
      else compare_digest (lower (hmac secret raw_body)) provided)"

section \<open>Checkouts\<close>

text \<open>The three refusals every call makes of an answer, with their default messages.\<close>

definition error_text :: "(py \<Rightarrow> string) \<Rightarrow> pay_fields \<Rightarrow> string \<Rightarrow> string" where
  "error_text fmt body msg = fmt (py_or (py_get body ''message'') (PStr msg))"

definition accepted_body ::
  "(py \<Rightarrow> string) \<Rightarrow> string \<Rightarrow> string \<Rightarrow> (nat \<times> pay_fields) option \<Rightarrow> pay_error + pay_fields" where
  "accepted_body fmt failed rejected answer =
     (case answer of
        None \<Rightarrow> Inl Client_Raised
      | Some (status, body) \<Rightarrow>
          if 400 \<le> status then Inl (Gateway_Error (error_text fmt body failed) 502)
          else if py_get body ''status'' \<noteq> PBool True then Inl (Gateway_Error (error_text fmt body rejected) 400)
          else Inr body)"

definition accepted_data ::
  "(py \<Rightarrow> string) \<Rightarrow> string \<Rightarrow> string \<Rightarrow> string \<Rightarrow> (nat \<times> pay_fields) option \<Rightarrow> pay_error + (pay_fields \<times> pay_fields)" where
  "accepted_data fmt failed rejected missing answer =
     (case accepted_body fmt failed rejected answer of
        Inl e \<Rightarrow> Inl e
      | Inr body \<Rightarrow> (case py_get body ''data'' of PDict d \<Rightarrow> Inr (body, d) | _ \<Rightarrow> Inl (Gateway_Error missing 502)))"

definition disabled :: pay_error where
  "disabled = Gateway_Error ''Paystack is disabled or not configured'' 503"

definition pay_args :: "pay_env \<Rightarrow> string \<Rightarrow> string \<Rightarrow> string \<Rightarrow> campaign_args" where
  "pay_args e tenant company campaign =
     \<lparr>a_channel = ''omni'', a_tenant = tenant, a_company = company, a_campaign = campaign, a_name = [],
      a_new_ids = pe_new_ids e, a_now = pe_clock e\<rparr>"

definition note_event ::
  "pay_env \<Rightarrow> string \<Rightarrow> string \<Rightarrow> string option \<Rightarrow> string \<Rightarrow> string option \<Rightarrow> py \<Rightarrow> string \<Rightarrow> pay_world \<Rightarrow> pay_world" where
  "note_event e tenant company campaign kind phone amount event_id w =
     (if text_of campaign = [] then w
      else w\<lparr>books := fst (record_event (pay_args e tenant company (text_of campaign)) kind (text_of phone) amount event_id
        (books w))\<rparr>)"

record init_request =
  ir_email :: string
  ir_amount :: int
  ir_currency :: string
  ir_callback :: string
  ir_reference :: string
  ir_tenant :: string
  ir_company :: string
  ir_campaign :: "string option"
  ir_phone :: "string option"
  ir_metadata :: py

definition default_if :: "string \<Rightarrow> string option \<Rightarrow> pay_fields \<Rightarrow> pay_fields" where
  "default_if k v md = (if text_of v = [] then md else setdefault k (PStr (text_of v)) md)"

definition init_metadata :: "init_request \<Rightarrow> string \<Rightarrow> pay_fields" where
  "init_metadata r reference =
     (let md = coerce_metadata (ir_metadata r);
          md = setdefault ''tenant_id'' (PStr (ir_tenant r)) md;
          md = setdefault ''company_id'' (PStr (ir_company r)) md;
          md = setdefault ''payment_reference'' (PStr reference) md;
          md = default_if ''campaign_id'' (ir_campaign r) md
      in default_if ''customer_phone'' (ir_phone r) md)"

definition resolved_currency :: "string \<Rightarrow> string" where
  "resolved_currency c = or_else (upper (strip (or_else c ''NGN''))) ''NGN''"

definition init_payload :: "pay_settings \<Rightarrow> pay_env \<Rightarrow> init_request \<Rightarrow> pay_fields" where
  "init_payload cfg e r =
     (let reference = normalize_reference (fst (pe_refs e)) (ir_reference r);
          callback = or_else (strip (ir_callback r)) (strip (pay_callback cfg))
      in [(''email'', PStr (ir_email r)), (''amount'', PInt (ir_amount r)),
          (''currency'', PStr (resolved_currency (ir_currency r))), (''reference'', PStr reference),
          (''metadata'', PDict (init_metadata r reference))] @
         (if callback = [] then [] else [(''callback_url'', PStr callback)]))"

definition initialize_transaction ::
  "(py \<Rightarrow> string) \<Rightarrow> pay_settings \<Rightarrow> pay_gateway \<Rightarrow> pay_env \<Rightarrow> init_request \<Rightarrow> pay_world
   \<Rightarrow> pay_world \<times> (pay_error + pay_fields)" where
  "initialize_transaction fmt cfg gw e r w =
     (if \<not> is_enabled cfg then (w, Inl disabled)
      else
        (let reference = normalize_reference (fst (pe_refs e)) (ir_reference r) in
         case accepted_data fmt ''Paystack initialize failed'' ''Paystack initialize rejected''
             ''Paystack initialize response missing data'' (gw_initialize gw (init_payload cfg e r)) of
           Inl err \<Rightarrow> (w, Inl err)
         | Inr (body, d) \<Rightarrow>
             (let resolved = normalize_reference (snd (pe_refs e)) (fmt (py_or (py_get d ''reference'') (PStr reference)));
                  w = w\<lparr>ledger := store_payment (pe_now e) resolved
                    [(''reference'', PStr resolved), (''status'', PStr ''initialized''), (''gateway'', PStr ''paystack''),
                     (''payment_method'', PStr ''checkout''), (''tenant_id'', PStr (ir_tenant r)),
                     (''company_id'', PStr (ir_company r)), (''campaign_id'', opt_text (ir_campaign r)),
                     (''amount_kobo'', PInt (ir_amount r)), (''currency'', PStr (resolved_currency (ir_currency r))),
                     (''email'', PStr (ir_email r)), (''metadata'', PDict (init_metadata r reference)),
                     (''authorization_url'', py_get d ''authorization_url''), (''access_code'', py_get d ''access_code''),
                     (''updated_at'', PStr (pe_now e))] (ledger w)\<rparr>;
                  w = note_event e (ir_tenant r) (ir_company r) (ir_campaign r) ''payment_initialized'' (ir_phone r) PNone
                    (''paystack:init:'' @ resolved) w
              in (w, Inr [(''reference'', PStr resolved), (''authorization_url'', py_get d ''authorization_url''),
                    (''access_code'', py_get d ''access_code''), (''raw'', PDict body)]))))"

section \<open>Virtual accounts\<close>

definition customer_code_from_create_response :: "string \<Rightarrow> pay_fields \<Rightarrow> pay_store \<Rightarrow> pay_store \<times> string" where
  "customer_code_from_create_response email body s =
     (let found = (case py_get body ''data'' of PDict d \<Rightarrow> coerce_str (py_get d ''customer_code'') | _ \<Rightarrow> []) in
      if found \<noteq> [] then (s\<lparr>customer_codes := dset email found (customer_codes s)\<rparr>, found)
      else (s, dget_default (customer_codes s) email []))"

record account_payload =
  ap_number :: string
  ap_name :: string
  ap_bank_name :: string
  ap_bank_slug :: string
  ap_id :: py

definition extract_virtual_account_payload :: "pay_fields \<Rightarrow> account_payload" where
  "extract_virtual_account_payload d =
     (let account = (case py_get d ''dedicated_account'' of PDict a \<Rightarrow> a | _ \<Rightarrow> d);
          bank_name = coerce_str (py_get account ''bank_name''); bank_slug = coerce_str (py_get account ''bank_slug'');
          (bank_name, bank_slug) =
            (if bank_name \<noteq> [] then (bank_name, bank_slug)
             else case py_get account ''bank'' of
               PDict bank \<Rightarrow> (coerce_str (py_get bank ''name''),
                 if bank_slug = [] then coerce_str (py_get bank ''slug'') else bank_slug)
             | _ \<Rightarrow> (bank_name, bank_slug))
      in \<lparr>ap_number = normalize_account_number
              (or_else (coerce_str (py_get account ''account_number'')) (coerce_str (py_get account ''accountNumber''))),
          ap_name = or_else (coerce_str (py_get account ''account_name'')) (coerce_str (py_get account ''accountName'')),
          ap_bank_name = bank_name, ap_bank_slug = bank_slug, ap_id = py_get account ''id''\<rparr>)"

record account_request =
  ar_email :: string
  ar_first :: string
  ar_last :: string
  ar_phone :: "string option"
  ar_bank :: string
  ar_country :: string
  ar_tenant :: string
  ar_company :: string
  ar_campaign :: "string option"
  ar_expected :: "int option"
  ar_reference :: string
  ar_customer_phone :: "string option"
  ar_metadata :: py

definition opt_int :: "int option \<Rightarrow> py" where
  "opt_int x = (case x of None \<Rightarrow> PNone | Some i \<Rightarrow> PInt i)"

definition account_metadata :: "account_request \<Rightarrow> string \<Rightarrow> pay_fields" where
  "account_metadata r reference =
     (let md = coerce_metadata (ar_metadata r);
          md = setdefault ''tenant_id'' (PStr (ar_tenant r)) md;
          md = setdefault ''company_id'' (PStr (ar_company r)) md;
          md = setdefault ''payment_reference'' (PStr reference) md;
          md = setdefault ''payment_method'' (PStr ''virtual_account'') md;
          md = default_if ''campaign_id'' (ar_campaign r) md;
          md = default_if ''customer_phone'' (ar_customer_phone r) md
      in if truthy (opt_int (ar_expected r)) then setdefault ''expected_amount_kobo'' (opt_int (ar_expected r)) md else md)"

definition account_phone :: "account_request \<Rightarrow> py" where
  "account_phone r = py_or (opt_text (ar_customer_phone r)) (opt_text (ar_phone r))"

definition customer_identity :: "account_request \<Rightarrow> pay_fields" where
  "customer_identity r =
     [(''email'', PStr (normalize_email (ar_email r))), (''first_name'', PStr (strip (ar_first r))),
      (''last_name'', PStr (strip (ar_last r))), (''phone'', PStr (strip (text_of (ar_phone r))))]"

text \<open>The account is created for a known customer and assigned to an unknown one.\<close>

definition request_account ::
  "pay_gateway \<Rightarrow> account_request \<Rightarrow> string \<Rightarrow> string \<Rightarrow> string \<Rightarrow> (nat \<times> pay_fields) option" where
  "request_account gw r bank country customer_code =
     (if customer_code \<noteq> [] then
        gw_create_account gw [(''customer'', PStr customer_code), (''preferred_bank'', PStr bank), (''country'', PStr country)]
      else gw_assign_account gw (customer_identity r @ [(''preferred_bank'', PStr bank), (''country'', PStr country)]))"

definition account_record ::
  "pay_env \<Rightarrow> account_request \<Rightarrow> string \<Rightarrow> string \<Rightarrow> string \<Rightarrow> account_payload \<Rightarrow> pay_fields" where
  "account_record e r reference mode bank account =
     [(''reference'', PStr reference), (''status'', PStr ''active''), (''tenant_id'', PStr (ar_tenant r)),
      (''company_id'', PStr (ar_company r)), (''campaign_id'', opt_text (ar_campaign r)),
      (''email'', PStr (normalize_email (ar_email r))), (''customer_phone'', account_phone r),
      (''expected_amount_kobo'', opt_int (ar_expected r)), (''payment_method'', PStr ''virtual_account''),
      (''provisioning_mode'', PStr mode), (''account_number'', PStr (ap_number account)),
      (''account_name'', PStr (ap_name account)), (''bank_name'', PStr (ap_bank_name account)),
      (''bank_slug'', PStr (or_else (ap_bank_slug account) bank)), (''dedicated_account_id'', ap_id account),
      (''metadata'', PDict (account_metadata r reference)), (''updated_at'', PStr (pe_now e))]"

definition account_payment :: "pay_env \<Rightarrow> account_request \<Rightarrow> string \<Rightarrow> account_payload \<Rightarrow> pay_fields" where
  "account_payment e r reference account =
     [(''reference'', PStr reference), (''status'', PStr ''awaiting_transfer''), (''gateway'', PStr ''paystack''),
      (''payment_method'', PStr ''virtual_account''), (''tenant_id'', PStr (ar_tenant r)),
      (''company_id'', PStr (ar_company r)), (''campaign_id'', opt_text (ar_campaign r)),
      (''amount_kobo'', opt_int (ar_expected r)), (''currency'', PStr ''NGN''),
      (''email'', PStr (normalize_email (ar_email r))), (''virtual_account_reference'', PStr reference),
      (''virtual_account_number'', PStr (ap_number account)), (''virtual_account_bank'', PStr (ap_bank_name account)),
      (''metadata'', PDict (account_metadata r reference)), (''updated_at'', PStr (pe_now e))]"

text \<open>From the answer of the gateway to the stored account.\<close>

definition account_created ::
  "pay_env \<Rightarrow> account_request \<Rightarrow> string \<Rightarrow> string \<Rightarrow> string \<Rightarrow> pay_fields \<Rightarrow> pay_fields \<Rightarrow> pay_world
   \<Rightarrow> pay_world \<times> (pay_error + pay_fields)" where
  "account_created e r reference mode bank body d w =
     (let account = extract_virtual_account_payload d in
      if ap_number account = []
      then (w, Inl (Gateway_Error ''Virtual account provisioning is still in progress. Retry shortly.'' 409))
      else
        (let w = w\<lparr>ledger := store_payment (pe_now e) reference (account_payment e r reference account)
               (store_virtual_account (pe_now e) reference (account_record e r reference mode bank account) (ledger w))\<rparr>;
             phone = (case account_phone r of PStr s \<Rightarrow> Some s | _ \<Rightarrow> None);
             w = note_event e (ar_tenant r) (ar_company r) (ar_campaign r) ''payment_initialized'' phone PNone
               (''paystack:va:init:'' @ reference) w
         in (w, Inr [(''reference'', PStr reference), (''account_number'', PStr (ap_number account)),
               (''account_name'', PStr (ap_name account)), (''bank_name'', PStr (ap_bank_name account)),
               (''bank_slug'', PStr (strip (or_else (ap_bank_slug account) bank))), (''status'', PStr ''awaiting_transfer''),
               (''raw'', PDict body)])))"

definition create_virtual_account ::
  "(py \<Rightarrow> string) \<Rightarrow> pay_settings \<Rightarrow> pay_gateway \<Rightarrow> pay_env \<Rightarrow> account_request \<Rightarrow> pay_world
   \<Rightarrow> pay_world \<times> (pay_error + pay_fields)" where
  "create_virtual_account fmt cfg gw e r w =
     (let email = normalize_email (ar_email r);
          reference = normalize_reference (fst (pe_refs e)) (ar_reference r);
          bank = or_else (lower (strip (ar_bank r))) (dva_bank cfg);
          country = or_else (upper (strip (ar_country r))) (dva_country cfg)
      in if \<not> is_enabled cfg then (w, Inl disabled)
      else if email = [] then (w, Inl (Gateway_Error ''Email is required'' 400))
      else case gw_customer gw (customer_identity r @ [(''metadata'', PDict (account_metadata r reference))]) of
        None \<Rightarrow> (w, Inl Client_Raised)
      | Some (status, body) \<Rightarrow>
          if 500 \<le> status then (w, Inl (Gateway_Error (error_text fmt body ''Paystack customer creation failed'') 502))
          else case customer_code_from_create_response email body (ledger w) of (l, customer_code) \<Rightarrow>
            (let w = w\<lparr>ledger := l\<rparr>; mode = (if customer_code \<noteq> [] then ''create'' else ''assign'') in
             case accepted_data fmt ''Paystack virtual account creation failed'' ''Paystack virtual account request rejected''
                 ''Paystack virtual account response missing data'' (request_account gw r bank country customer_code) of
               Inl err \<Rightarrow> (w, Inl err)
             | Inr (body, d) \<Rightarrow> account_created e r reference mode bank body d w))"

definition provider_entry :: "py \<Rightarrow> pay_fields option" where
  "provider_entry item =
     (case item of
        PDict d \<Rightarrow> Some [(''slug'', PStr (coerce_str (py_get d ''slug''))),
          (''bank_name'', PStr (or_else (coerce_str (py_get d ''bank_name'')) (coerce_str (py_get d ''name'')))),
          (''id'', py_get d ''id'')]
      | _ \<Rightarrow> None)"

definition list_virtual_account_providers ::
  "(py \<Rightarrow> string) \<Rightarrow> pay_settings \<Rightarrow> pay_gateway \<Rightarrow> pay_error + pay_fields list" where
  "list_virtual_account_providers fmt cfg gw =
     (if \<not> is_enabled cfg then Inl disabled
      else case accepted_body fmt ''Paystack providers fetch failed'' ''Paystack providers request rejected''
          (gw_providers gw []) of
        Inl err \<Rightarrow> Inl err
      | Inr body \<Rightarrow> Inr (List.map_filter provider_entry (as_list (py_get body ''data''))))"

section \<open>Events of the gateway\<close>

text \<open>The first key whose text is an account number.\<close>

definition first_account_number :: "string list \<Rightarrow> py \<Rightarrow> string" where
  "first_account_number keys v =
     (case v of
        PDict d \<Rightarrow> foldr (\<lambda>k r. or_else (normalize_account_number (coerce_str (py_get d k))) r) keys []
      | _ \<Rightarrow> [])"

definition extract_account_number_from_charge :: "pay_fields \<Rightarrow> string" where
  "extract_account_number_from_charge d =
     or_else (first_account_number [''receiver_bank_account_number'', ''account_number'', ''receiver_account_number'']
         (py_get d ''authorization''))
       (or_else (first_account_number [''account_number''] (py_get d ''dedicated_account''))
         (first_account_number [''virtual_account_number''] (PDict (coerce_metadata (py_get d ''metadata'')))))"

record charge_context =
  cc_tenant :: string
  cc_company :: string
  cc_campaign :: "string option"
  cc_phone :: "string option"
  cc_account_reference :: string
  cc_account_number :: string

fun unblank :: "py \<Rightarrow> string option" where
  "unblank (PStr s) = (if strip s = [] then None else Some s)"
| "unblank _ = None"

definition campaign_context_from_data :: "(py \<Rightarrow> string) \<Rightarrow> pay_fields \<Rightarrow> pay_store \<Rightarrow> charge_context" where
  "campaign_context_from_data fmt d s =
     (let md = coerce_metadata (py_get d ''metadata'');
          tenant = strip (fmt (py_or (py_get md ''tenant_id'') (PStr [])));
          company = strip (fmt (py_or (py_get md ''company_id'') (PStr [])));
          campaign = unblank (py_get md ''campaign_id''); phone = unblank (py_get md ''customer_phone'');
          number = extract_account_number_from_charge d;
          account = (if number = [] then None else virtual_account_from_number number s);
          rec = (case account of None \<Rightarrow> [] | Some rec \<Rightarrow> rec);
          from_record = (\<lambda>own k. if own \<noteq> None then own else map_option strip (unblank (py_get rec k)))
      in \<lparr>cc_tenant = or_else (or_else tenant (plain_text (py_get rec ''tenant_id''))) ''public'',
          cc_company = or_else (or_else company (plain_text (py_get rec ''company_id''))) ''ekaette-electronics'',
          cc_campaign = from_record campaign ''campaign_id'', cc_phone = from_record phone ''customer_phone'',
          cc_account_reference = coerce_str (py_get rec ''reference''), cc_account_number = number\<rparr>)"

definition success_events :: "string list" where
  "success_events = [''charge.success'', ''charge.succeeded'']"

definition failure_events :: "string list" where
  "failure_events = [''charge.failed'', ''charge.abandoned'']"

definition opt_nonempty :: "string \<Rightarrow> py" where
  "opt_nonempty s = (if s = [] then PNone else PStr s)"

text \<open>The fields of a charge that the handler reads.\<close>

record charge =
  ch_event :: string
  ch_reference :: string
  ch_amount :: int
  ch_currency :: string
  ch_status :: string
  ch_email :: py
  ch_channel :: string
  ch_data :: pay_fields

definition read_charge :: "(py \<Rightarrow> string) \<Rightarrow> pay_fields \<Rightarrow> pay_error + charge" where
  "read_charge fmt payload =
     (let event = lower (strip (fmt (py_or (py_get payload ''event'') (PStr [])))) in
      case py_get payload ''data'' of
        PDict d \<Rightarrow>
          (case validate_reference (fmt (py_or (py_get d ''reference'') (PStr []))) of
             Inl err \<Rightarrow> Inl err
           | Inr reference \<Rightarrow>
              (case coerce_amount_kobo (py_get d ''amount'') of
                 None \<Rightarrow> Inl Value_Raised
               | Some amount \<Rightarrow> Inr
              \<lparr>ch_event = event, ch_reference = reference, ch_amount = amount,
               ch_currency = fmt (py_or (py_get d ''currency'') (PStr ''NGN'')),
               ch_status = lower (strip (fmt (py_or (py_get d ''status'') (PStr [])))),
               ch_email = (case py_get d ''customer'' of PDict c \<Rightarrow> py_get c ''email'' | _ \<Rightarrow> PNone),
               ch_channel = (case py_get d ''authorization'' of PDict a \<Rightarrow> coerce_str (py_get a ''channel'') | _ \<Rightarrow> []),
               ch_data = d\<rparr>))
      | _ \<Rightarrow> Inl (Gateway_Error ''Webhook payload missing data'' 400))"

definition ch_method :: "charge \<Rightarrow> string" where
  "ch_method ch = (if ch_channel ch = ''dedicated_nuban'' then ''virtual_account'' else ''checkout'')"

definition ch_outcome :: "charge \<Rightarrow> py" where
  "ch_outcome ch = PStr (or_else (ch_status ch) (ch_event ch))"

text \<open>The ledger after a charge: its payment, the announced payment, the account.\<close>

definition post_charge :: "pay_env \<Rightarrow> charge \<Rightarrow> charge_context \<Rightarrow> pay_store \<Rightarrow> pay_store" where
  "post_charge e ch cc s =
     (let va = cc_account_reference cc;
          s = store_payment (pe_now e) (ch_reference ch)
            [(''reference'', PStr (ch_reference ch)), (''status'', ch_outcome ch), (''gateway'', PStr ''paystack''),
             (''payment_method'', PStr (ch_method ch)), (''payment_channel'', PStr (ch_channel ch)),
             (''tenant_id'', PStr (cc_tenant cc)), (''company_id'', PStr (cc_company cc)),
             (''campaign_id'', opt_text (cc_campaign cc)), (''amount_kobo'', PInt (ch_amount ch)),
             (''currency'', PStr (ch_currency ch)), (''email'', ch_email ch),
             (''metadata'', PDict (coerce_metadata (py_get (ch_data ch) ''metadata''))), (''gateway_event'', PStr (ch_event ch)),
             (''virtual_account_reference'', opt_nonempty va),
             (''virtual_account_number'', opt_nonempty (cc_account_number cc)), (''updated_at'', PStr (pe_now e))] s;
          s = (if va = [] \<or> va = ch_reference ch then s
               else store_payment (pe_now e) va
                 [(''status'', ch_outcome ch), (''gateway_event'', PStr (ch_event ch)),
                  (''payment_method'', PStr (ch_method ch)), (''payment_channel'', PStr (ch_channel ch)),
                  (''last_gateway_reference'', PStr (ch_reference ch)), (''last_paid_amount_kobo'', PInt (ch_amount ch)),
                  (''updated_at'', PStr (pe_now e))] s)
      in if va = [] then s
         else store_virtual_account (pe_now e) va
           [(''last_payment_reference'', PStr (ch_reference ch)), (''last_payment_status'', ch_outcome ch),
            (''last_paid_amount_kobo'', PInt (ch_amount ch)), (''last_payment_at'', PStr (pe_now e)),
            (''status'', PStr (if ch_event ch \<in> set success_events then ''paid'' else ''active''))] s)"

definition count_charge :: "pay_env \<Rightarrow> charge \<Rightarrow> charge_context \<Rightarrow> pay_world \<Rightarrow> pay_world" where
  "count_charge e ch cc w =
     (if ch_event ch \<in> set success_events then
        note_event e (cc_tenant cc) (cc_company cc) (cc_campaign cc) ''payment_success'' (cc_phone cc) (PInt (ch_amount ch))
          (''paystack:success:'' @ ch_reference ch) w
      else if ch_event ch \<in> set failure_events then
        note_event e (cc_tenant cc) (cc_company cc) (cc_campaign cc) ''failed'' (cc_phone cc) PNone
          (''paystack:failed:'' @ ch_reference ch @ '':'' @ ch_event ch) w
      else w)"

definition process_gateway_event ::
  "(py \<Rightarrow> string) \<Rightarrow> pay_env \<Rightarrow> pay_fields \<Rightarrow> pay_world \<Rightarrow> pay_world \<times> (pay_error + pay_fields)" where
  "process_gateway_event fmt e payload w =
     (case read_charge fmt payload of
        Inl err \<Rightarrow> (w, Inl err)
      | Inr ch \<Rightarrow>
          (let cc = campaign_context_from_data fmt (ch_data ch) (ledger w) in
           (count_charge e ch cc (w\<lparr>ledger := post_charge e ch cc (ledger w)\<rparr>),
            Inr [(''event'', PStr (ch_event ch)), (''reference'', PStr (ch_reference ch)), (''status'', PStr (ch_status ch)),
              (''campaign_id'', opt_text (cc_campaign cc)), (''payment_method'', PStr (ch_method ch)),
              (''payment_channel'', PStr (ch_channel ch)),
              (''virtual_account_reference'', opt_nonempty (cc_account_reference cc))])))"

definition verify_transaction ::
  "(py \<Rightarrow> string) \<Rightarrow> pay_settings \<Rightarrow> pay_gateway \<Rightarrow> pay_env \<Rightarrow> string \<Rightarrow> pay_world
   \<Rightarrow> pay_world \<times> (pay_error + pay_fields)" where
  "verify_transaction fmt cfg gw e reference w =
     (if \<not> is_enabled cfg then (w, Inl disabled)
      else case validate_reference reference of
        Inl err \<Rightarrow> (w, Inl err)
      | Inr r \<Rightarrow>
          (case accepted_data fmt ''Paystack verify failed'' ''Paystack verify rejected''
              ''Paystack verify response missing data'' (gw_verify gw [(''reference'', PStr r)]) of
             Inl err \<Rightarrow> (w, Inl err)
           | Inr (body, d) \<Rightarrow>
               (case process_gateway_event fmt e
                   [(''event'', PStr (''charge.'' @ lower (fmt (py_or (py_get d ''status'') (PStr []))))), (''data'', PDict d)] w of
                  (w, Inl err) \<Rightarrow> (w, Inl err)
                | (w, Inr processed) \<Rightarrow>
                    (w, Inr [(''reference'', PStr r), (''verification'', PDict body), (''processed'', PDict processed),
                       (''payment'', case payment_snapshot r (ledger w) of None \<Rightarrow> PNone | Some p \<Rightarrow> PDict p)]))))"

section \<open>Notifications\<close>

text \<open>\<open>f"{x:,.2f}"\<close> of a non-negative float.\<close>

definition format_amount :: "rat \<Rightarrow> string" where
  "format_amount q =
     (let n = round_even (q * 100); c = n mod 100
      in format_commas (n div 100) @ ''.'' @ (if c < 10 then ''0'' else []) @ int_str c)"

definition format_va_sms :: "string \<Rightarrow> string \<Rightarrow> string \<Rightarrow> int option \<Rightarrow> string" where
  "format_va_sms number bank_name account_name amount =
     join ''. '' ([''Pay to '' @ number @ '' ('' @ bank_name @ '')''] @
       (if account_name = [] then [] else [''Name: '' @ account_name]) @
       (case amount of
          Some a \<Rightarrow> if 0 < a then [''Amount: NGN '' @ format_amount (fl (of_int a / 100))] else []
        | None \<Rightarrow> []))"

text \<open>\<open>send\<close> is the provider's call: false or \<open>None\<close> when it raises, else the status.\<close>

definition send_va_notification_sms ::
  "pay_settings \<Rightarrow> (string \<Rightarrow> string \<Rightarrow> bool) \<Rightarrow> string \<Rightarrow> string \<Rightarrow> bool" where
  "send_va_notification_sms cfg send phone message = (sms_on cfg \<and> strip phone \<noteq> [] \<and> send (strip phone) message)"

definition send_va_notification_whatsapp ::
  "pay_settings \<Rightarrow> (string \<Rightarrow> string \<Rightarrow> nat option) \<Rightarrow> string \<Rightarrow> string \<Rightarrow> bool" where
  "send_va_notification_whatsapp cfg send phone message =
     (whatsapp_on cfg \<and> strip phone \<noteq> [] \<and> whatsapp_token cfg \<noteq> [] \<and>
      (case send (strip phone) message of Some status \<Rightarrow> status < 400 | None \<Rightarrow> False))"

section \<open>The routes\<close>

text \<open>
  \<open>app/api/v1/at/payments.py\<close>.  A route answers with a body or a status code; 500 stands for
  an exception it does not handle.  The idempotency store and the payments are the state;
  \<open>payload\<close> is the request as the dictionary that is fingerprinted.
\<close>

datatype 'a route_result = Reply 'a | Refused nat

fun error_status :: "pay_error \<Rightarrow> nat" where
  "error_status (Gateway_Error msg status) = status"
| "error_status Client_Raised = 500"
| "error_status Value_Raised = 500"

record idem_call =
  ic_key :: string
  ic_payload :: py
  ic_start :: clock
  ic_end :: clock

text \<open>The frame of both creating routes: replay, refuse, or run and record the body.\<close>

definition with_idempotency ::
  "(py \<Rightarrow> string) \<Rightarrow> string \<Rightarrow> string \<Rightarrow> idem_call \<Rightarrow> (pay_world \<Rightarrow> pay_world \<times> (pay_error + pay_fields))
   \<Rightarrow> at_store \<times> pay_world \<Rightarrow> (at_store \<times> pay_world) \<times> pay_fields route_result" where
  "with_idempotency fingerprint scope tenant c run st =
     (case idempotency_preflight fingerprint scope tenant (ic_key c) (ic_payload c) (ic_start c) (fst st) of
        (s, Proceed) \<Rightarrow>
          (case run (snd st) of
             (w, Inl err) \<Rightarrow> ((s, w), Refused (error_status err))
           | (w, Inr body) \<Rightarrow> ((idempotency_commit scope tenant (ic_key c) body (ic_end c) s, w), Reply body))
      | (s, Replay body) \<Rightarrow> ((s, snd st), Reply body)
      | (s, v) \<Rightarrow> ((s, snd st), Refused 409))"

definition init_body :: "init_request \<Rightarrow> pay_fields \<Rightarrow> pay_fields" where
  "init_body r initialized =
     [(''status'', PStr ''ok''), (''gateway'', PStr ''paystack''), (''tenant_id'', PStr (ir_tenant r)),
      (''company_id'', PStr (ir_company r)), (''campaign_id'', opt_text (ir_campaign r)),
      (''reference'', py_get initialized ''reference''),
      (''authorization_url'', py_get initialized ''authorization_url''),
      (''access_code'', py_get initialized ''access_code'')]"

definition paystack_initialize ::
  "(py \<Rightarrow> string) \<Rightarrow> (py \<Rightarrow> string) \<Rightarrow> pay_settings \<Rightarrow> pay_gateway \<Rightarrow> pay_env \<Rightarrow> init_request \<Rightarrow> idem_call
   \<Rightarrow> at_store \<times> pay_world \<Rightarrow> (at_store \<times> pay_world) \<times> pay_fields route_result" where
  "paystack_initialize fingerprint fmt cfg gw e r c =
     with_idempotency fingerprint ''paystack_initialize'' (ir_tenant r) c
       (\<lambda>w. case initialize_transaction fmt cfg gw e r w of
          (w, Inl err) \<Rightarrow> (w, Inl err)
        | (w, Inr initialized) \<Rightarrow> (w, Inr (init_body r initialized)))"

definition account_body :: "account_request \<Rightarrow> pay_fields \<Rightarrow> bool \<Rightarrow> bool \<Rightarrow> pay_fields" where
  "account_body r created sms whatsapp =
     [(''status'', PStr ''ok''), (''gateway'', PStr ''paystack''), (''payment_method'', PStr ''virtual_account''),
      (''tenant_id'', PStr (ar_tenant r)), (''company_id'', PStr (ar_company r)),
      (''campaign_id'', opt_text (ar_campaign r)), (''reference'', py_get created ''reference''),
      (''account_number'', py_get created ''account_number''), (''account_name'', py_get created ''account_name''),
      (''bank_name'', py_get created ''bank_name''), (''bank_slug'', py_get created ''bank_slug''),
      (''sms_sent'', PBool sms), (''whatsapp_sent'', PBool whatsapp),
      (''instructions'', PStr ''Send payment via bank transfer to this account. Confirmation is automatic.'')]"

definition account_message :: "account_request \<Rightarrow> pay_fields \<Rightarrow> string" where
  "account_message r created =
     format_va_sms (plain_text (py_get created ''account_number'')) (plain_text (py_get created ''bank_name''))
       (plain_text (py_get created ''account_name'')) (ar_expected r)"

definition paystack_virtual_account_create ::
  "(py \<Rightarrow> string) \<Rightarrow> (py \<Rightarrow> string) \<Rightarrow> pay_settings \<Rightarrow> pay_gateway \<Rightarrow> (string \<Rightarrow> string \<Rightarrow> bool)
   \<Rightarrow> (string \<Rightarrow> string \<Rightarrow> nat option) \<Rightarrow> pay_env \<Rightarrow> account_request \<Rightarrow> idem_call
   \<Rightarrow> at_store \<times> pay_world \<Rightarrow> (at_store \<times> pay_world) \<times> pay_fields route_result" where
  "paystack_virtual_account_create fingerprint fmt cfg gw send_sms send_text e r c =
     with_idempotency fingerprint ''paystack_virtual_account_create'' (ar_tenant r) c
       (\<lambda>w. case create_virtual_account fmt cfg gw e r w of
          (w, Inl err) \<Rightarrow> (w, Inl err)
        | (w, Inr created) \<Rightarrow>
            (let phone = or_else (text_of (ar_phone r)) (text_of (ar_customer_phone r));
                 message = account_message r created
             in (w, Inr (account_body r created (send_va_notification_sms cfg send_sms phone message)
                   (send_va_notification_whatsapp cfg send_text phone message)))))"

definition paystack_virtual_account_get :: "string \<Rightarrow> pay_world \<Rightarrow> pay_fields route_result" where
  "paystack_virtual_account_get reference w =
     (case virtual_account_snapshot reference (ledger w) of
        None \<Rightarrow> Refused 404
      | Some rec \<Rightarrow> Reply [(''status'', PStr ''ok''), (''gateway'', PStr ''paystack''),
          (''payment_method'', PStr ''virtual_account''), (''virtual_account'', PDict rec)])"

definition paystack_verify ::
  "(py \<Rightarrow> string) \<Rightarrow> pay_settings \<Rightarrow> pay_gateway \<Rightarrow> pay_env \<Rightarrow> string \<Rightarrow> pay_world \<Rightarrow> pay_world \<times> pay_fields route_result" where
  "paystack_verify fmt cfg gw e reference w =
     (case verify_transaction fmt cfg gw e reference w of
        (w, Inl err) \<Rightarrow> (w, Refused (error_status err))
      | (w, Inr result) \<Rightarrow> (w, Reply [(''status'', PStr ''ok''), (''gateway'', PStr ''paystack''),
          (''reference'', py_get result ''reference''), (''payment'', py_get result ''payment''),
          (''processed'', py_get result ''processed''), (''verification'', py_get result ''verification'')]))"

text \<open>\<open>loads\<close> parses the raw body; \<open>None\<close> is a \<open>JSONDecodeError\<close>.\<close>

definition paystack_webhook ::
  "(string \<Rightarrow> string \<Rightarrow> string) \<Rightarrow> (string \<Rightarrow> py option) \<Rightarrow> (py \<Rightarrow> string) \<Rightarrow> pay_settings \<Rightarrow> pay_env \<Rightarrow> string
   \<Rightarrow> string option \<Rightarrow> pay_world \<Rightarrow> pay_world \<times> pay_fields route_result" where
  "paystack_webhook hmac loads fmt cfg e raw_body signature w =
     (case verify_webhook_signature hmac cfg raw_body (text_of signature) of
        None \<Rightarrow> (w, Refused 500)
      | Some False \<Rightarrow> (w, Refused 401)
      | Some True \<Rightarrow>
          (case loads raw_body of
             Some (PDict payload) \<Rightarrow>
               (case process_gateway_event fmt e payload w of
                  (w, Inl err) \<Rightarrow> (w, Refused (error_status err))
                | (w, Inr processed) \<Rightarrow> (w, Reply [(''status'', PStr ''ok''), (''processed'', PDict processed)]))
           | _ \<Rightarrow> (w, Refused 400)))"

end
