(* ===== verification/Payment_Books.thy ===== *)
theory Payment_Books
  imports Payments
begin

text \<open>
  Correctness of the payments: the revenue of the campaign store is the sum of the charges,
  each reference once; how a charge changes an announced account; and whose tenant a charge is
  counted for.
\<close>

section \<open>Revenue\<close>

definition total_revenue :: "campaign_store \<Rightarrow> int" where
  "total_revenue s = sum_list (map (\<lambda>(k, c). c_revenue c) (campaigns s))"

lemma sum_dset:
  "sum_list (map (\<lambda>(k, v). f v) (dset k v d)) =
     sum_list (map (\<lambda>(k, v). f v) d) + f v - (case dget d k of None \<Rightarrow> 0 | Some w \<Rightarrow> f w)"
  for f :: "_ \<Rightarrow> int"
  by (induction d) auto

lemma total_revenue_update:
  "total_revenue (update_campaign k c s) =
     total_revenue s + c_revenue c - (case dget (campaigns s) k of None \<Rightarrow> 0 | Some c' \<Rightarrow> c_revenue c')"
  by (simp add: total_revenue_def update_campaign_def sum_dset)

lemma total_revenue_append [simp]: "total_revenue (append_event e s) = total_revenue s"
  by (simp add: total_revenue_def append_event_def Let_def)

lemma total_revenue_index [simp]: "total_revenue (index_recipients t co rs cid s) = total_revenue s"
  by (simp add: total_revenue_def)

lemma seen_ids_kept [simp]:
  "seen_ids (append_event e s) = seen_ids s" "seen_ids (index_recipients t co rs cid s) = seen_ids s"
  "seen_ids (update_campaign k c s) = seen_ids s"
  by (simp_all add: append_event_def Let_def index_recipients_def update_campaign_def)

lemma ensure_campaign_revenue:
  assumes "ids_new a s" and "ensure_campaign a message s = (s', c)"
  shows "total_revenue s' = total_revenue s" and "seen_ids s' = seen_ids s"
  using assms
  by (auto simp: ensure_campaign_def Let_def total_revenue_def sum_dset fresh_campaign_def refresh_campaign_def ids_new_def
      split: option.splits if_splits)

lemma event_deduped_revenue: "total_revenue (fst (event_deduped event_id now s)) = total_revenue s"
  by (simp add: event_deduped_def total_revenue_def)

definition earned :: "string \<Rightarrow> py \<Rightarrow> int" where
  "earned kind amount = (if lower (strip kind) \<in> {''payment_success'', ''conversion''} then positive_amount amount else 0)"

lemma count_event_revenue: "c_revenue (count_event (lower (strip kind)) amount c) = c_revenue c + earned kind amount"
  by (auto simp: count_event_def earned_def)

lemma record_event_revenue:
  assumes "campaign_inv s" and "ids_new a s"
  shows "total_revenue (fst (record_event a kind recipient amount event_id s)) =
      total_revenue s + (if snd (event_deduped event_id (a_now a) s) then 0 else earned kind amount)"
    and "seen_ids (fst (record_event a kind recipient amount event_id s)) =
      seen_ids (fst (event_deduped event_id (a_now a) s))"
proof -
  obtain s1 again where dedup: "event_deduped event_id (a_now a) s = (s1, again)"
    by (cases "event_deduped event_id (a_now a) s") blast
  note d = event_deduped_inv [OF assms(1), where event_id = event_id and now = "a_now a", unfolded dedup fst_conv]
  have new: "ids_new a s1" using assms(2) d(3) by (simp add: ids_new_def)
  obtain s' c where run: "ensure_campaign a [] s1 = (s', c)" by (cases "ensure_campaign a [] s1") blast
  note r = ensure_campaign_result(3) [OF d(1) new run] ensure_campaign_revenue [OF new run]
  have same: "total_revenue s1 = total_revenue s"
    using event_deduped_revenue [of event_id "a_now a" s] by (simp add: dedup)
  show "total_revenue (fst (record_event a kind recipient amount event_id s)) =
      total_revenue s + (if snd (event_deduped event_id (a_now a) s) then 0 else earned kind amount)"
    using r same
    by (cases again) (simp_all add: record_event_def dedup run Let_def total_revenue_update count_event_revenue)
  show "seen_ids (fst (record_event a kind recipient amount event_id s)) =
      seen_ids (fst (event_deduped event_id (a_now a) s))"
    using r by (cases again) (simp_all add: record_event_def dedup run Let_def)
qed

text \<open>The events of the gateway, in the order they arrive.\<close>

definition gateway_run :: "(py \<Rightarrow> string) \<Rightarrow> (pay_env \<times> pay_fields) list \<Rightarrow> pay_world \<Rightarrow> pay_world" where
  "gateway_run fmt evs w = fold (\<lambda>(e, p) w. fst (process_gateway_event fmt e p w)) evs w"

fun ids_free_along :: "(py \<Rightarrow> string) \<Rightarrow> pay_world \<Rightarrow> (pay_env \<times> pay_fields) list \<Rightarrow> bool" where
  "ids_free_along fmt w [] = True"
| "ids_free_along fmt w ((e, p) # evs) \<longleftrightarrow>
     ids_new (pay_args e [] [] []) (books w) \<and> ids_free_along fmt (fst (process_gateway_event fmt e p w)) evs"

text \<open>
  The reference: the successful charges of a campaign, read off the payloads and the ledger
  alone, and the sum that counts each reference once.
\<close>

fun charges_of :: "(py \<Rightarrow> string) \<Rightarrow> pay_store \<Rightarrow> (pay_env \<times> pay_fields) list \<Rightarrow> (string \<times> int) list" where
  "charges_of fmt s [] = []"
| "charges_of fmt s ((e, p) # evs) =
     (case read_charge fmt p of
        Inl err \<Rightarrow> charges_of fmt s evs
      | Inr ch \<Rightarrow>
          (let cc = campaign_context_from_data fmt (ch_data ch) s in
           (if ch_event ch \<in> set success_events \<and> text_of (cc_campaign cc) \<noteq> [] then [(ch_reference ch, ch_amount ch)] else [])
             @ charges_of fmt (post_charge e ch cc s) evs))"

fun settled :: "string set \<Rightarrow> (string \<times> int) list \<Rightarrow> int" where
  "settled seen [] = 0"
| "settled seen ((r, a) # cs) = (if r \<in> seen then settled seen cs else a + settled (insert r seen) cs)"

lemma coerce_amount_nonneg: "coerce_amount_kobo v = Some i \<Longrightarrow> 0 \<le> i"
  by (cases v) (auto simp: int_of_digits_def Let_def split: if_splits)

lemma read_charge_amount: "read_charge fmt p = Inr ch \<Longrightarrow> 0 \<le> ch_amount ch"
  by (auto simp: read_charge_def Let_def dest: coerce_amount_nonneg split: py.splits sum.splits option.splits)

definition success_id :: "string \<Rightarrow> string" where
  "success_id r = ''paystack:success:'' @ r"

definition counts :: "charge \<Rightarrow> charge_context \<Rightarrow> bool" where
  "counts ch cc \<longleftrightarrow> ch_event ch \<in> set success_events \<and> text_of (cc_campaign cc) \<noteq> []"

lemma ids_new_pay_args: "ids_new (pay_args e t co k) s = ids_new (pay_args e [] [] []) s"
  by (simp add: ids_new_def pay_args_def)

lemma event_deduped_small:
  assumes "length (seen_ids s) < 10000"
  shows "snd (event_deduped k now s) = (k \<noteq> [] \<and> dget (seen_ids s) k \<noteq> None)"
    and "k \<noteq> [] \<Longrightarrow> dget (seen_ids (fst (event_deduped k now s))) k' = None \<longleftrightarrow> k' \<noteq> k \<and> dget (seen_ids s) k' = None"
    and "length (seen_ids (fst (event_deduped k now s))) \<le> Suc (length (seen_ids s))"
proof -
  have "trim_seen (dset k now (seen_ids s)) = dset k now (seen_ids s)"
    using assms by (simp add: trim_seen_def length_dset)
  then show "snd (event_deduped k now s) = (k \<noteq> [] \<and> dget (seen_ids s) k \<noteq> None)"
    and "k \<noteq> [] \<Longrightarrow> dget (seen_ids (fst (event_deduped k now s))) k' = None \<longleftrightarrow> k' \<noteq> k \<and> dget (seen_ids s) k' = None"
    and "length (seen_ids (fst (event_deduped k now s))) \<le> Suc (length (seen_ids s))"
    by (auto simp: event_deduped_def length_dset)
qed

text \<open>One noted event: which identifiers are remembered afterwards and what was earned.\<close>

lemma note_event_effect:
  assumes "campaign_inv (books w)" and "ids_new (pay_args e [] [] []) (books w)"
    and "length (seen_ids (books w)) < 10000" and "k \<noteq> []"
    and w': "w' = note_event e t co campaign kind phone amount k w"
  shows "campaign_inv (books w') \<and> ledger w' = ledger w \<and> length (seen_ids (books w')) \<le> Suc (length (seen_ids (books w))) \<and>
    (dget (seen_ids (books w')) k' = None \<longleftrightarrow>
       (k' \<noteq> k \<or> text_of campaign = []) \<and> dget (seen_ids (books w)) k' = None) \<and>
    total_revenue (books w') = total_revenue (books w) +
      (if text_of campaign = [] \<or> dget (seen_ids (books w)) k \<noteq> None then 0 else earned kind amount)"
proof (cases "text_of campaign = []")
  case True
  then show ?thesis using assms by (simp add: note_event_def)
next
  case False
  have new: "ids_new (pay_args e t co (text_of campaign)) (books w)" using assms(2) by (rule ids_new_pay_args [THEN iffD2])
  let ?a = "pay_args e t co (text_of campaign)"
  note r = record_event_revenue [OF assms(1) new, of kind "text_of phone" amount k]
  note inv = event_step [OF assms(1) new, of kind "text_of phone" amount k, THEN conjunct1]
  note d = event_deduped_small [OF assms(3), of k "a_now ?a"]
  have b: "books w' = fst (record_event (pay_args e t co (text_of campaign)) kind (text_of phone) amount k (books w))"
    and l: "ledger w' = ledger w"
    using False by (simp_all add: w' note_event_def)
  have again: "snd (event_deduped k (a_now ?a) (books w)) \<longleftrightarrow> dget (seen_ids (books w)) k \<noteq> None"
    unfolding d(1) using assms(4) by blast
  show ?thesis
    unfolding b l r again using inv d(2) [OF assms(4), of k'] d(3) False by (intro conjI) simp_all
qed

lemma success_id_inj [simp]: "success_id r = success_id r' \<longleftrightarrow> r = r'"
  by (simp add: success_id_def)

definition failed_id :: "charge \<Rightarrow> string" where
  "failed_id ch = ''paystack:failed:'' @ ch_reference ch @ '':'' @ ch_event ch"

lemma failed_id_not_success: "failed_id ch \<noteq> success_id r" "failed_id ch \<noteq> []" "success_id r \<noteq> []"
  by (simp_all add: success_id_def failed_id_def)

lemma earned_success: "0 \<le> a \<Longrightarrow> earned ''payment_success'' (PInt a) = a"
proof -
  assume "0 \<le> a"
  moreover have "lower (strip ''payment_success'') = ''payment_success''" by code_simp
  ultimately show ?thesis by (simp add: earned_def positive_amount_def)
qed

lemma earned_failed: "earned ''failed'' v = 0"
proof -
  have "lower (strip ''failed'') = ''failed''" by code_simp
  then show ?thesis by (simp add: earned_def)
qed

lemma count_charge_effect:
  assumes "campaign_inv (books w)" and "ids_new (pay_args e [] [] []) (books w)"
    and "length (seen_ids (books w)) < 10000" and "0 \<le> ch_amount ch"
    and w': "w' = count_charge e ch cc w"
  shows "campaign_inv (books w') \<and> ledger w' = ledger w \<and> length (seen_ids (books w')) \<le> Suc (length (seen_ids (books w))) \<and>
    (dget (seen_ids (books w')) (success_id r) = None \<longleftrightarrow>
       \<not> (r = ch_reference ch \<and> counts ch cc) \<and> dget (seen_ids (books w)) (success_id r) = None) \<and>
    total_revenue (books w') = total_revenue (books w) +
      (if counts ch cc \<and> dget (seen_ids (books w)) (success_id (ch_reference ch)) = None then ch_amount ch else 0)"
proof -
  note yes = note_event_effect [OF assms(1-3) failed_id_not_success(3) [of "ch_reference ch"] refl, where t = "cc_tenant cc" and co = "cc_company cc" and campaign = "cc_campaign cc"
      and kind = "''payment_success''" and phone = "cc_phone cc" and amount = "PInt (ch_amount ch)" and k' = "success_id r",
      unfolded success_id_inj earned_success [OF assms(4)]]
  note no = note_event_effect [OF assms(1-3) failed_id_not_success(2) [of ch] refl, where t = "cc_tenant cc" and co = "cc_company cc" and campaign = "cc_campaign cc"
      and kind = "''failed''" and phone = "cc_phone cc" and amount = PNone and k' = "success_id r",
      unfolded earned_failed]
  consider "ch_event ch \<in> set success_events" | "ch_event ch \<notin> set success_events" "ch_event ch \<in> set failure_events"
    | "ch_event ch \<notin> set success_events" "ch_event ch \<notin> set failure_events" by blast
  then show ?thesis
  proof cases
    case 1
    then have "w' = note_event e (cc_tenant cc) (cc_company cc) (cc_campaign cc) ''payment_success'' (cc_phone cc)
        (PInt (ch_amount ch)) (success_id (ch_reference ch)) w"
      by (simp only: w' count_charge_def success_id_def if_True)
    then show ?thesis using yes 1 by (auto simp: counts_def)
  next
    case 2
    then have "w' = note_event e (cc_tenant cc) (cc_company cc) (cc_campaign cc) ''failed'' (cc_phone cc) PNone
        (failed_id ch) w"
      by (simp only: w' count_charge_def failed_id_def if_True if_False)
    then show ?thesis using no 2 failed_id_not_success(1) [of ch r] by (auto simp: counts_def)
  next
    case 3
    then show ?thesis using assms(1) by (simp add: w' count_charge_def counts_def)
  qed
qed

lemma post_charge_only: "ledger (w\<lparr>ledger := l\<rparr>) = l" "books (w\<lparr>ledger := l\<rparr>) = books w"
  by simp_all

lemma gateway_run_books:
  assumes "campaign_inv (books w)" and "length (seen_ids (books w)) + length evs \<le> 10000"
    and "ids_free_along fmt w evs" and "\<forall>r. dget (seen_ids (books w)) (success_id r) = None \<longleftrightarrow> r \<notin> seen"
  shows "total_revenue (books (gateway_run fmt evs w)) =
    total_revenue (books w) + settled seen (charges_of fmt (ledger w) evs)"
  using assms
proof (induction evs arbitrary: w seen)
  case Nil
  then show ?case by (simp add: gateway_run_def)
next
  case (Cons ev evs)
  obtain e p where ev: "ev = (e, p)" by force
  show ?case
  proof (cases "read_charge fmt p")
    case (Inl err)
    then have "fst (process_gateway_event fmt e p w) = w" by (simp add: process_gateway_event_def)
    then show ?thesis using Cons by (simp add: ev Inl gateway_run_def)
  next
    case (Inr ch)
    define cc where "cc = campaign_context_from_data fmt (ch_data ch) (ledger w)"
    let ?w = "w\<lparr>ledger := post_charge e ch cc (ledger w)\<rparr>"
    let ?v = "count_charge e ch cc ?w"
    have next_w: "fst (process_gateway_event fmt e p w) = ?v"
      by (simp add: process_gateway_event_def Inr cc_def Let_def)
    have new: "ids_new (pay_args e [] [] []) (books ?w)" and rest: "ids_free_along fmt ?v evs"
      using Cons.prems(3) by (simp_all add: ev next_w)
    have small: "length (seen_ids (books ?w)) < 10000" and inv: "campaign_inv (books ?w)"
      using Cons.prems(1,2) by simp_all
    note effect = count_charge_effect [OF inv new small read_charge_amount [OF Inr] refl, of cc]
    define seen' where "seen' = (if counts ch cc then insert (ch_reference ch) seen else seen)"
    have "\<forall>r. dget (seen_ids (books ?v)) (success_id r) = None \<longleftrightarrow> r \<notin> seen'"
      using effect Cons.prems(4) by (simp add: seen'_def)
    moreover have "length (seen_ids (books ?v)) + length evs \<le> 10000"
      using effect [of "[]"] Cons.prems(2) by simp
    ultimately have "total_revenue (books (gateway_run fmt evs ?v)) =
        total_revenue (books ?v) + settled seen' (charges_of fmt (ledger ?v) evs)"
      using Cons.IH [of ?v seen'] rest effect [of "[]"] by blast
    moreover have "ledger ?v = post_charge e ch cc (ledger w)" using effect [of "[]"] by simp
    moreover have "total_revenue (books ?v) = total_revenue (books w) +
        (if counts ch cc \<and> ch_reference ch \<notin> seen then ch_amount ch else 0)"
      using effect [of "[]"] Cons.prems(4) by simp
    moreover have "charges_of fmt (ledger w) (ev # evs) =
        (if counts ch cc then [(ch_reference ch, ch_amount ch)] else []) @ charges_of fmt (post_charge e ch cc (ledger w)) evs"
      by (simp add: ev Inr counts_def cc_def Let_def)
    moreover have "gateway_run fmt (ev # evs) w = gateway_run fmt evs ?v"
      by (simp add: gateway_run_def ev next_w)
    ultimately show ?thesis by (auto simp: seen'_def insert_absorb)
  qed
qed

section \<open>Announced accounts\<close>

lemma merged_record_get:
  assumes "dict_wf payload" and "k \<noteq> ''updated_at''" and "k \<noteq> ''reference''"
  shows "dget (merged_record now r payload records) k =
    (case dget payload k of Some v \<Rightarrow> Some v | None \<Rightarrow> dget (dget_default records r []) k)"
  using assms by (simp add: merged_record_def setdefault_def dget_dmerge)

lemma store_virtual_account_accounts [simp]:
  "accounts (store_virtual_account now r payload s) = dset r (merged_record now r payload (accounts s)) (accounts s)"
  by (simp add: store_virtual_account_def Let_def)

lemma store_payment_accounts [simp]: "accounts (store_payment now r payload s) = accounts s"
  by (simp add: store_payment_def)

lemma note_event_ledger [simp]: "ledger (note_event e t co campaign kind phone amount k w) = ledger w"
  by (simp add: note_event_def)

lemma count_charge_ledger [simp]: "ledger (count_charge e ch cc w) = ledger w"
  by (simp add: count_charge_def)

lemma default_if_keeps: "dget d k' = Some x \<Longrightarrow> dget (default_if k t d) k' = Some x"
  by (simp add: default_if_def setdefault_keeps)

section \<open>Properties\<close>

text \<open>
  C13 The books are right: over any sequence of gateway events (repeated, reordered, failed or
  malformed ones among them, up to 10,000), the revenue of all campaigns is the sum of the
  successful charges that belong to a campaign, each payment reference counted exactly once.
  The books start empty, the identifiers drawn for campaigns without one are taken to be new
  (\<open>ids_free_along\<close>), and the numbers of the payloads are finite.
\<close>

theorem webhook_revenue_exact:
  assumes "books w = empty_campaigns" and "length evs \<le> 10000" and "ids_free_along fmt w evs"
  shows "total_revenue (books (gateway_run fmt evs w)) = settled {} (charges_of fmt (ledger w) evs)"
proof -
  have "campaign_inv (books w)" and "seen_ids (books w) = []" and "total_revenue (books w) = 0"
    using assms(1) by (simp, simp_all add: empty_campaigns_def total_revenue_def)
  then show ?thesis using gateway_run_books [of w evs fmt "{}"] assms(2,3) by simp
qed

definition sample_pay_env :: "string \<Rightarrow> pay_env" where
  "sample_pay_env new_id = \<lparr>pe_now = ''n'', pe_clock = 1, pe_refs = (''ref-00'', ''ref-01''), pe_new_ids = (new_id, new_id)\<rparr>"

definition sample_charge :: "string \<Rightarrow> string \<Rightarrow> int \<Rightarrow> pay_fields" where
  "sample_charge event reference amount =
     [(''event'', PStr event), (''data'', PDict [(''reference'', PStr reference), (''amount'', PInt amount),
       (''metadata'', PDict [(''campaign_id'', PStr ''k''), (''tenant_id'', PStr ''t'')])])]"

definition sample_charges :: "(pay_env \<times> pay_fields) list" where
  "sample_charges = [(sample_pay_env ''1'', sample_charge ''charge.success'' ''ref-aa'' 7),
     (sample_pay_env ''2'', sample_charge ''charge.failed'' ''ref-bb'' 5),
     (sample_pay_env ''3'', sample_charge ''charge.success'' ''ref-aa'' 7),
     (sample_pay_env ''4'', sample_charge ''charge.success'' ''ref-bb'' 5)]"

definition sample_world :: pay_world where
  "sample_world = \<lparr>ledger = \<lparr>payments = [], accounts = [], account_index = [], customer_codes = []\<rparr>, books = empty_campaigns\<rparr>"

theorem webhook_revenue_exact_witness:
  "total_revenue (books (gateway_run plain_text sample_charges sample_world)) = 12"
proof -
  have "ids_free_along plain_text sample_world sample_charges" by code_simp
  moreover have "books sample_world = empty_campaigns" by (simp add: sample_world_def)
  moreover have "length sample_charges \<le> 10000" by (simp add: sample_charges_def)
  moreover have "settled {} (charges_of plain_text (ledger sample_world) sample_charges) = 12" by code_simp
  ultimately show ?thesis using webhook_revenue_exact [of sample_world sample_charges plain_text] by simp
qed

text \<open>
  A retried checkout request is answered from the record: after a request that ran, the
  same key with the same payload, within the hour, gets the same body whatever the gateway
  would say now, and neither the ledger nor the books change.
\<close>

theorem initialize_retry_replays:
  assumes "dict_wf (fst st)"
    and "snd (idempotency_preflight fp ''paystack_initialize'' (ir_tenant r) (ic_key c) (ic_payload c) (ic_start c) (fst st)) = Proceed"
    and "paystack_initialize fp fmt cfg gw e r c st = ((s, w), Reply body)"
    and "ic_key c' = ic_key c" and "ic_payload c' = ic_payload c" and "ic_start c' < ic_end c + IDEMPOTENCY_TTL_SECONDS"
  shows "\<exists>s'. paystack_initialize fp fmt cfg' gw' e' r c' (s, w) = ((s', w), Reply body)"
proof -
  let ?k = "at_store_key ''paystack_initialize'' (ir_tenant r) (ic_key c)" and ?f = "fp (ic_payload c)"
  obtain s1 where pre: "at_preflight ?k ?f (ic_start c) (fst st) = (s1, Proceed)"
    using assms(2) by (metis idempotency_preflight_def prod.collapse)
  have claim: "at_entry_of s1 ?k = Some (?f, None, ic_start c + PENDING_TTL_SECONDS)"
    by (rule at_idem.claims [OF assms(1) pre])
  have s: "s = at_commit ?k [] body (ic_end c) s1"
    using assms(3) pre
    by (auto simp: paystack_initialize_def with_idempotency_def idempotency_preflight_def idempotency_commit_def
        split: prod.splits sum.splits)
  have wf: "dict_wf s1" using at_idem.inv_preflight [OF assms(1), of ?k ?f "ic_start c"] pre by simp
  have "at_commit ?k [] body (ic_end c) s1 = at_commit ?k ?f body (ic_end c) s1" by (simp add: at_commit_def)
  then have live: "at_entry_of s ?k = Some (?f, Some body, ic_end c + IDEMPOTENCY_TTL_SECONDS)" and wf': "dict_wf s"
    using at_idem.records [OF wf claim, of body "ic_end c"] at_idem.inv_commit [OF wf, of ?k ?f body "ic_end c"] s by simp_all
  have "snd (at_preflight ?k ?f (ic_start c') s) = Replay body"
    using at_idem.answers [OF wf' live, of "ic_start c'" ?f] assms(6) by simp
  then obtain s' where "at_preflight ?k ?f (ic_start c') s = (s', Replay body)"
    by (metis prod.collapse)
  then show ?thesis
    using assms(4,5) by (simp add: paystack_initialize_def with_idempotency_def idempotency_preflight_def)
qed

definition sample_pay_settings :: pay_settings where
  "sample_pay_settings = \<lparr>paystack_on = True, pay_secret = ''s'', pay_webhook = [], pay_callback = [], dva_bank = ''b'',
     dva_country = ''NG'', sms_on = False, whatsapp_on = False, whatsapp_token = []\<rparr>"

definition sample_gateway :: pay_gateway where
  "sample_gateway = (let f = (\<lambda>_. Some (200, [(''status'', PBool True), (''data'', PDict [(''access_code'', PStr ''x'')])]))
     in \<lparr>gw_initialize = f, gw_customer = f, gw_create_account = f, gw_assign_account = f, gw_verify = f, gw_providers = f\<rparr>)"

definition down_gateway :: pay_gateway where
  "down_gateway = (let f = (\<lambda>_. None)
     in \<lparr>gw_initialize = f, gw_customer = f, gw_create_account = f, gw_assign_account = f, gw_verify = f, gw_providers = f\<rparr>)"

definition sample_init :: init_request where
  "sample_init = \<lparr>ir_email = ''e'', ir_amount = 7, ir_currency = [], ir_callback = [], ir_reference = ''ref-00'',
     ir_tenant = ''t'', ir_company = ''c'', ir_campaign = None, ir_phone = None,
     ir_metadata = PDict [(''tenant_id'', PStr ''u'')]\<rparr>"

definition sample_call :: "clock \<Rightarrow> idem_call" where
  "sample_call t = \<lparr>ic_key = ''key'', ic_payload = PNone, ic_start = t, ic_end = t + 1\<rparr>"

lemma sample_first_call:
  "snd (idempotency_preflight plain_text ''paystack_initialize'' ''t'' ''key'' PNone 5 []) = Proceed"
  "snd (paystack_initialize plain_text plain_text sample_pay_settings sample_gateway (sample_pay_env ''1'') sample_init
      (sample_call 5) ([], sample_world)) =
    Reply [(''status'', PStr ''ok''), (''gateway'', PStr ''paystack''), (''tenant_id'', PStr ''t''), (''company_id'', PStr ''c''),
      (''campaign_id'', PNone), (''reference'', PStr ''ref-00''), (''authorization_url'', PNone), (''access_code'', PStr ''x'')]"
  by code_simp+

theorem initialize_retry_replays_witness:
  "\<exists>s s' w body. paystack_initialize plain_text plain_text sample_pay_settings sample_gateway (sample_pay_env ''1'') sample_init
      (sample_call 5) ([], sample_world) = ((s, w), Reply body) \<and>
    paystack_initialize plain_text plain_text sample_pay_settings down_gateway (sample_pay_env ''2'') sample_init
      (sample_call 9) (s, w) = ((s', w), Reply body)"
proof -
  obtain s w body where first: "paystack_initialize plain_text plain_text sample_pay_settings sample_gateway (sample_pay_env ''1'')
      sample_init (sample_call 5) ([], sample_world) = ((s, w), Reply body)"
    using sample_first_call(2) by (metis prod.collapse)
  have "\<exists>s'. paystack_initialize plain_text plain_text sample_pay_settings down_gateway (sample_pay_env ''2'') sample_init
      (sample_call 9) (s, w) = ((s', w), Reply body)"
    by (rule initialize_retry_replays [OF _ _ first])
       (use sample_first_call(1) in \<open>simp_all add: sample_call_def sample_init_def IDEMPOTENCY_TTL_SECONDS_def\<close>)
  with first show ?thesis by blast
qed

text \<open>
  An announced account is marked paid whatever the amount: a successful charge to its
  number sets the status to \<open>paid\<close> and records the amount that came, which is never compared
  with the expected amount kept beside it.
\<close>

theorem account_paid_by_any_amount:
  assumes "read_charge fmt payload = Inr ch" and "ch_event ch \<in> set success_events"
    and "cc_account_reference (campaign_context_from_data fmt (ch_data ch) (ledger w)) = va" and "va \<noteq> []"
    and "dget (accounts (ledger w)) va = Some rec"
  shows "\<exists>rec'. dget (accounts (ledger (fst (process_gateway_event fmt e payload w)))) va = Some rec' \<and>
    py_get rec' ''status'' = PStr ''paid'' \<and> py_get rec' ''last_paid_amount_kobo'' = PInt (ch_amount ch) \<and>
    py_get rec' ''expected_amount_kobo'' = py_get rec ''expected_amount_kobo''"
proof -
  let ?cc = "campaign_context_from_data fmt (ch_data ch) (ledger w)"
  let ?change = "[(''last_payment_reference'', PStr (ch_reference ch)), (''last_payment_status'', ch_outcome ch),
      (''last_paid_amount_kobo'', PInt (ch_amount ch)), (''last_payment_at'', PStr (pe_now e)), (''status'', PStr ''paid'')]"
  have "dget (accounts (ledger (fst (process_gateway_event fmt e payload w)))) va =
      Some (merged_record (pe_now e) va ?change (accounts (ledger w)))"
    using assms(2,3,4) by (simp add: process_gateway_event_def assms(1) post_charge_def Let_def)
  moreover have "dict_wf ?change" by (simp add: dict_wf_def)
  ultimately show ?thesis
    using assms(5) by (auto simp: py_get_def dget_default_def [of _ _ PNone] merged_record_get dget_default_def [of _ _ "[]"])
qed

definition account_world :: pay_world where
  "account_world = \<lparr>ledger = \<lparr>payments = [], accounts = [(''va-ref'', [(''reference'', PStr ''va-ref''),
      (''expected_amount_kobo'', PInt 500)])], account_index = [(''12345678'', ''va-ref'')], customer_codes = []\<rparr>,
    books = empty_campaigns\<rparr>"

definition transfer :: pay_fields where
  "transfer = [(''event'', PStr ''charge.success''), (''data'', PDict [(''reference'', PStr ''ref-cc''), (''amount'', PInt 1),
     (''dedicated_account'', PDict [(''account_number'', PStr ''12345678'')])])]"

theorem account_paid_by_any_amount_witness:
  "\<exists>rec. dget (accounts (ledger (fst (process_gateway_event plain_text (sample_pay_env ''1'') transfer account_world)))) ''va-ref'' =
      Some rec \<and> py_get rec ''status'' = PStr ''paid'' \<and> py_get rec ''last_paid_amount_kobo'' = PInt 1 \<and>
    py_get rec ''expected_amount_kobo'' = PInt 500"
proof -
  have "(case read_charge plain_text transfer of Inr ch \<Rightarrow> ch_event ch \<in> set success_events \<and> ch_amount ch = 1 \<and>
      cc_account_reference (campaign_context_from_data plain_text (ch_data ch) (ledger account_world)) = ''va-ref''
    | Inl err \<Rightarrow> False)"
    by code_simp
  then obtain ch where ch: "read_charge plain_text transfer = Inr ch" "ch_event ch \<in> set success_events" "ch_amount ch = 1"
      "cc_account_reference (campaign_context_from_data plain_text (ch_data ch) (ledger account_world)) = ''va-ref''"
    by (auto split: sum.splits)
  have rec: "dget (accounts (ledger account_world)) ''va-ref'' = Some [(''reference'', PStr ''va-ref''),
      (''expected_amount_kobo'', PInt 500)]"
    by (simp add: account_world_def)
  have "py_get [(''reference'', PStr ''va-ref''), (''expected_amount_kobo'', PInt 500)] ''expected_amount_kobo'' = PInt 500"
    by code_simp
  then show ?thesis using account_paid_by_any_amount [OF ch(1,2,4) _ rec, of "sample_pay_env ''1''"] ch(3) by simp
qed

text \<open>
  The metadata of a request decides the tenant: the identifiers of the request are only
  defaults, so a checkout whose own metadata names another tenant is sent to the gateway with
  that name, and the charge that comes back with this metadata is booked for the other tenant.
\<close>

theorem metadata_moves_tenant:
  assumes "\<forall>x. fmt (PStr x) = x" and "ir_metadata r = PDict md" and "dget md ''tenant_id'' = Some (PStr t)" and "strip t \<noteq> []"
    and "py_get d ''metadata'' = py_get (init_payload cfg e r) ''metadata''"
  shows "cc_tenant (campaign_context_from_data fmt d s) = strip t"
proof -
  let ?md = "init_metadata r (normalize_reference (fst (pe_refs e)) (ir_reference r))"
  have "py_get (init_payload cfg e r) ''metadata'' = PDict ?md"
    by (simp add: init_payload_def Let_def py_get_def dget_default_def)
  moreover have "dget ?md ''tenant_id'' = Some (PStr t)"
    using assms(2,3) by (simp add: init_metadata_def Let_def setdefault_keeps default_if_keeps)
  moreover have "t \<noteq> []" using assms(4) by auto
  ultimately show ?thesis
    using assms(1,4,5)
    by (simp add: campaign_context_from_data_def Let_def py_get_def [of ?md] dget_default_def [of ?md] py_or_def or_else_def)
qed

theorem metadata_moves_tenant_witness:
  "cc_tenant (campaign_context_from_data plain_text
     [(''metadata'', py_get (init_payload sample_pay_settings (sample_pay_env ''1'') sample_init) ''metadata'')]
     (ledger sample_world)) = ''u''"
proof -
  have u: "strip ''u'' = ''u''" "strip ''u'' \<noteq> []" by code_simp+
  have fmt: "\<forall>x. plain_text (PStr x) = x" by simp
  have md: "ir_metadata sample_init = PDict [(''tenant_id'', PStr ''u'')]" by (simp add: sample_init_def)
  have t: "dget [(''tenant_id'', PStr ''u'')] ''tenant_id'' = Some (PStr ''u'')" by simp
  have here: "py_get [(k, v)] k = v" for k v by (simp add: py_get_def dget_default_def)
  show ?thesis by (rule metadata_moves_tenant [OF fmt md t u(2) here, unfolded u(1)])
qed

end
