(* ===== verification/Delivery_Quotes.thy ===== *)
theory Delivery_Quotes
  imports Py_Records "HOL-Library.List_Lexorder"
begin

text \<open>
  \<open>app/tools/shipping_tools.py\<close>, first part: delivery quotes of the shipping provider.  The
  provider's answer is an argument (\<open>None\<close> when the request raised); \<open>fmt\<close> is \<open>str()\<close>.
\<close>

fun clean_str :: "py \<Rightarrow> string" where
  "clean_str (PStr s) = strip s"
| "clean_str _ = []"

definition clean_opt :: "string option \<Rightarrow> string" where
  "clean_opt x = (case x of None \<Rightarrow> [] | Some s \<Rightarrow> strip s)"

text \<open>The outer \<open>None\<close> is the \<open>ValueError\<close> of \<open>int\<close>, the inner one the code's \<open>None\<close>.\<close>

fun coerce_positive_int :: "py \<Rightarrow> int option option" where
  "coerce_positive_int PNone = Some None"
| "coerce_positive_int (PInt i) = Some (Some (max i 0))"
| "coerce_positive_int (PFloat q) = Some (Some (max (py_trunc q) 0))"
| "coerce_positive_int (PStr s) =
     (let t = filter (\<lambda>c. c \<noteq> CHR '','') (strip s) in
      if str_isdigit t then map_option Some (int_of_digits t) else Some (Some 0))"
| "coerce_positive_int _ = Some (Some 0)"

definition coerce_kobo :: "py \<Rightarrow> int option" where
  "coerce_kobo v = map_option (\<lambda>r. case r of Some i \<Rightarrow> i | None \<Rightarrow> 0) (coerce_positive_int v)"

section \<open>Delivery times\<close>

record eta =
  eta_days :: int
  eta_min :: "int option"
  eta_max :: "int option"

text \<open>The two patterns, matched at the start of a text.\<close>

definition match_range :: "string \<Rightarrow> (int \<times> int) option" where
  "match_range s =
     (let d1 = takeWhile is_digit s; r = dropWhile is_space (drop (length d1) s) in
      case r of
        CHR ''-'' # r \<Rightarrow>
          (let d2 = takeWhile is_digit (dropWhile is_space r) in
           if d1 \<noteq> [] \<and> d2 \<noteq> [] then Some (int (digits_value d1), int (digits_value d2)) else None)
      | _ \<Rightarrow> None)"

definition match_days :: "string \<Rightarrow> int option" where
  "match_days s = (let d = takeWhile is_digit s in if d = [] then None else Some (int (digits_value d)))"

definition parse_delivery_eta :: "string \<Rightarrow> eta" where
  "parse_delivery_eta text =
     (let raw = lower (strip text); unknown = \<lparr>eta_days = 5, eta_min = None, eta_max = None\<rparr> in
      if raw = [] then unknown
      else case search match_range raw of
        Some (a, b) \<Rightarrow> \<lparr>eta_days = py_round (fl (of_int (a + b) / 2)), eta_min = Some a, eta_max = Some b\<rparr>
      | None \<Rightarrow>
          (case search match_days raw of
             Some d \<Rightarrow> \<lparr>eta_days = d, eta_min = Some d, eta_max = Some d\<rparr>
           | None \<Rightarrow> unknown))"

section \<open>Quotes\<close>

definition carrier_display_name :: "string \<Rightarrow> string \<Rightarrow> string" where
  "carrier_display_name tier name =
     (let t = lower tier in
      if name \<noteq> [] then name
      else if contains ''fedex'' t then ''FedEx''
      else if contains ''dhl'' t then ''DHL''
      else if contains ''ups'' t then ''UPS''
      else if contains ''aramex'' t then ''Aramex''
      else if contains ''gig'' t then ''GIG Logistics''
      else if t = ''budget'' then ''Budget Shipping''
      else if t = ''express'' then ''Express Shipping''
      else if t = ''premium'' then ''Premium Shipping''
      else or_else tier ''Topship'')"

record quote =
  q_service :: string
  q_tier :: string
  q_carrier :: string
  q_total :: int
  q_vat :: int
  q_currency :: string
  q_eta :: string
  q_days :: int
  q_range :: "int option \<times> int option"

definition q_display :: "quote \<Rightarrow> string" where
  "q_display q = q_carrier q @ '' - '' @ q_service q"

definition q_naira :: "quote \<Rightarrow> rat" where
  "q_naira q = (let x = fl (of_int (q_total q) / 100) in fl (of_int (round_even (x * 100)) / 100))"

fun py_dicts :: "py list \<Rightarrow> py_record list" where
  "py_dicts [] = []"
| "py_dicts (PDict d # xs) = d # py_dicts xs"
| "py_dicts (x # xs) = py_dicts xs"

definition extract_rate_items :: "py \<Rightarrow> py_record list" where
  "extract_rate_items payload =
     (case payload of
        PList xs \<Rightarrow> py_dicts xs
      | PDict d \<Rightarrow> py_dicts (as_list (py_get d ''data''))
      | _ \<Rightarrow> [])"

definition text_or :: "(py \<Rightarrow> string) \<Rightarrow> py_record \<Rightarrow> string \<Rightarrow> string \<Rightarrow> string" where
  "text_or fmt d k other = fmt (py_or (py_get d k) (PStr other))"

text \<open>\<open>total\<close>, or \<open>cost\<close> when there is none, and \<open>vat\<close>.\<close>

definition rate_amounts :: "py_record \<Rightarrow> (int \<times> int) option" where
  "rate_amounts rate =
     (case coerce_kobo (py_get rate ''total'') of
        None \<Rightarrow> None
      | Some t \<Rightarrow>
          (case (if t \<le> 0 then coerce_kobo (py_get rate ''cost'') else Some t) of
             None \<Rightarrow> None
           | Some amount \<Rightarrow> map_option (Pair amount) (coerce_kobo (py_get rate ''vat''))))"

definition rate_quote :: "(py \<Rightarrow> string) \<Rightarrow> py_record \<Rightarrow> int \<times> int \<Rightarrow> quote" where
  "rate_quote fmt rate amounts =
     (let tier = or_else (strip (text_or fmt rate ''pricingTier'' ''Budget'')) ''Budget'';
          eta_text = strip (fmt (py_or (py_get rate ''deliveryEta'') (py_or (py_get rate ''duration'') (PStr []))));
          eta = parse_delivery_eta eta_text
      in \<lparr>q_service = or_else (strip (fmt (py_or (py_get rate ''serviceType'') (py_or (py_get rate ''mode'') (PStr ''Standard'')))))
            ''Standard'',
          q_tier = tier,
          q_carrier = carrier_display_name tier (strip (text_or fmt rate ''carrierName'' [])),
          q_total = fst amounts, q_vat = snd amounts,
          q_currency = upper (text_or fmt rate ''currency'' ''NGN''), q_eta = eta_text,
          q_days = (if eta_days eta = 0 then 5 else eta_days eta), q_range = (eta_min eta, eta_max eta)\<rparr>)"

definition map_rate_to_quote :: "(py \<Rightarrow> string) \<Rightarrow> py_record \<Rightarrow> quote option" where
  "map_rate_to_quote fmt rate = map_option (rate_quote fmt rate) (rate_amounts rate)"

text \<open>\<open>min(xs, key=k)\<close> of a list that is not empty: the first of the least.\<close>

fun first_min :: "('a \<Rightarrow> 'k::linorder) \<Rightarrow> 'a list \<Rightarrow> 'a" where
  "first_min k [x] = x"
| "first_min k (x # y # xs) = (let m = first_min k (y # xs) in if k x \<le> k m then x else m)"
| "first_min k [] = undefined"

definition by_cost :: "quote \<Rightarrow> int list" where
  "by_cost q = [q_total q, q_days q]"

definition by_time :: "quote \<Rightarrow> int list" where
  "by_time q = [q_days q, q_total q]"

text \<open>\<open>f"{x:.1f}"\<close> of a non-negative float.\<close>

definition one_decimal :: "rat \<Rightarrow> string" where
  "one_decimal q = (let n = round_even (q * 10) in int_str (n div 10) @ ''.'' @ int_str (n mod 10))"

definition route_summary :: "string \<Rightarrow> string \<Rightarrow> rat \<Rightarrow> string" where
  "route_summary sender receiver weight = sender @ '' to '' @ receiver @ '' ('' @ one_decimal weight @ ''kg)''"

text \<open>\<open>Amount_Raised\<close> is the \<open>ValueError\<close> of an amount, which the tool does not catch.\<close>

datatype quote_error = Not_Configured | Invalid_Route | Request_Failed | Api_Error nat | No_Quotes | Amount_Raised

record quote_answer =
  qa_route :: string
  qa_weight :: rat
  qa_recommended :: quote
  qa_cheapest :: quote
  qa_fastest :: quote
  qa_quotes :: "quote list"

definition round2 :: "rat \<Rightarrow> rat" where
  "round2 q = fl (of_int (round_even (q * 100)) / 100)"

definition shipment_detail :: "string \<Rightarrow> string \<Rightarrow> string \<Rightarrow> string \<Rightarrow> rat \<Rightarrow> py_record" where
  "shipment_detail sender receiver from to weight =
     [(''senderDetails'', PDict [(''cityName'', PStr sender), (''countryCode'', PStr (upper (strip (or_else from ''NG''))))]),
      (''receiverDetails'', PDict [(''cityName'', PStr receiver), (''countryCode'', PStr (upper (strip (or_else to ''NG''))))]),
      (''totalWeight'', PFloat (round2 weight))]"

definition get_topship_delivery_quote ::
  "(py \<Rightarrow> string) \<Rightarrow> string \<Rightarrow> (py_record \<Rightarrow> (nat \<times> py) option) \<Rightarrow> string \<Rightarrow> string \<Rightarrow> rat \<Rightarrow> string \<Rightarrow> string \<Rightarrow> string
   \<Rightarrow> quote_error + quote_answer" where
  "get_topship_delivery_quote fmt api_key fetch sender_city receiver_city weight from to prefer =
     (let sender = strip sender_city; receiver = strip receiver_city; weight = (if weight \<le> 0 then 1 else weight) in
      if api_key = [] then Inl Not_Configured
      else if sender = [] \<or> receiver = [] then Inl Invalid_Route
      else case fetch (shipment_detail sender receiver from to weight) of
        None \<Rightarrow> Inl Request_Failed
      | Some (status, payload) \<Rightarrow>
          if 400 \<le> status then Inl (Api_Error status)
          else
            (case those (map (map_rate_to_quote fmt) (extract_rate_items payload)) of
               None \<Rightarrow> Inl Amount_Raised
             | Some all_quotes \<Rightarrow>
             (let quotes = filter (\<lambda>q. 0 < q_total q) all_quotes in
             if quotes = [] then Inl No_Quotes
             else
               (let cheapest = first_min by_cost quotes; fastest = first_min by_time quotes in
                Inr \<lparr>qa_route = route_summary sender receiver weight, qa_weight = round2 weight,
                  qa_recommended = (if lower (strip (or_else prefer ''cheapest'')) = ''fastest'' then fastest else cheapest),
                  qa_cheapest = cheapest, qa_fastest = fastest, qa_quotes = sort_key by_cost quotes\<rparr>))))"

section \<open>Lemmas\<close>

lemma hd_insort_key: "xs \<noteq> [] \<Longrightarrow> hd (insort_key k x xs) = (if k x \<le> k (hd xs) then x else hd xs)"
  by (cases xs) simp_all

lemma first_min_hd_sort: "xs \<noteq> [] \<Longrightarrow> first_min k xs = hd (sort_key k xs)"
proof (induction k xs rule: first_min.induct)
  case (2 k x y xs)
  then show ?case by (simp add: hd_insort_key sort_key_def)
qed simp_all

lemma first_min_in: "xs \<noteq> [] \<Longrightarrow> first_min k xs \<in> set xs"
  by (metis first_min_hd_sort hd_in_set set_empty set_sort)

lemma first_min_least: "x \<in> set xs \<Longrightarrow> k (first_min k xs) \<le> k x"
proof (induction k xs rule: first_min.induct)
  case (2 k z y xs)
  then show ?case by (auto simp: Let_def)
qed simp_all

lemma set_those: "those xs = Some ys \<Longrightarrow> Some ` set ys = set xs"
proof (induction xs arbitrary: ys)
  case (Cons x xs)
  then obtain y zs where "x = Some y" "those xs = Some zs" "ys = y # zs" by (auto split: option.splits)
  then show ?case using Cons.IH [of zs] by simp
qed simp

section \<open>Properties\<close>

text \<open>
  A delivery quote is what it says: the recommended, cheapest and fastest offers are among
  the returned ones, no offer costs less than the cheapest or arrives before the fastest, every
  offer costs something, the list starts with the cheapest and is ordered by cost and then by
  time, and it has exactly the priced offers of the provider.
\<close>

theorem quote_is_best_offer:
  assumes "get_topship_delivery_quote fmt api_key fetch sender_city receiver_city weight from to prefer = Inr a"
  shows "qa_recommended a \<in> {qa_cheapest a, qa_fastest a} \<and> {qa_cheapest a, qa_fastest a} \<subseteq> set (qa_quotes a) \<and>
    Min (q_total ` set (qa_quotes a)) = q_total (qa_cheapest a) \<and> Min (q_days ` set (qa_quotes a)) = q_days (qa_fastest a) \<and>
    0 < q_total (qa_cheapest a) \<and> hd (qa_quotes a) = qa_cheapest a \<and> sorted (map by_cost (qa_quotes a)) \<and>
    (\<exists>detail status payload. fetch detail = Some (status, payload) \<and>
       set (qa_quotes a) = {q. Some q \<in> map_rate_to_quote fmt ` set (extract_rate_items payload) \<and> 0 < q_total q})"
proof -
  let ?detail = "shipment_detail (strip sender_city) (strip receiver_city) from to (if weight \<le> 0 then 1 else weight)"
  obtain status payload where fetched: "fetch ?detail = Some (status, payload)"
    using assms unfolding get_topship_delivery_quote_def Let_def
    by (cases "fetch ?detail") (simp_all split: if_split_asm prod.split_asm)
  obtain all_quotes where mapped: "those (map (map_rate_to_quote fmt) (extract_rate_items payload)) = Some all_quotes"
    using assms unfolding get_topship_delivery_quote_def Let_def fetched
    by (cases "those (map (map_rate_to_quote fmt) (extract_rate_items payload))")
       (simp_all split: if_split_asm)
  define qs where "qs = filter (\<lambda>q. 0 < q_total q) all_quotes"
  have ok: "qs \<noteq> []" and a: "qa_recommended a \<in> {qa_cheapest a, qa_fastest a}" "qa_cheapest a = first_min by_cost qs"
      "qa_fastest a = first_min by_time qs" "qa_quotes a = sort_key by_cost qs"
    using assms unfolding get_topship_delivery_quote_def Let_def fetched option.case prod.case mapped qs_def [symmetric]
    by (simp_all split: if_split_asm) (clarsimp simp: if_distrib)+
  have cost: "q_total (first_min by_cost qs) \<le> q_total q" if "q \<in> set qs" for q
    using first_min_least [OF that, of by_cost] by (auto simp: by_cost_def)
  have time: "q_days (first_min by_time qs) \<le> q_days q" if "q \<in> set qs" for q
    using first_min_least [OF that, of by_time] by (auto simp: by_time_def)
  note mem = first_min_in [OF ok, of by_cost] first_min_in [OF ok, of by_time]
  have "Min (q_total ` set qs) = q_total (first_min by_cost qs)"
    by (rule Min_eqI) (use cost mem in auto)
  moreover have "Min (q_days ` set qs) = q_days (first_min by_time qs)"
    by (rule Min_eqI) (use time mem in auto)
  moreover have "0 < q_total (first_min by_cost qs)" using mem(1) by (simp add: qs_def)
  moreover have "hd (sort_key by_cost qs) = first_min by_cost qs" using first_min_hd_sort [OF ok] by metis
  moreover have "set qs = {q. Some q \<in> map_rate_to_quote fmt ` set (extract_rate_items payload) \<and> 0 < q_total q}"
    using set_those [OF mapped] by (auto simp: qs_def)
  ultimately show ?thesis using a mem fetched by auto
qed

definition sample_rates :: py where
  "sample_rates = PList [PDict [(''total'', PInt 900), (''deliveryEta'', PStr ''2 - 4 days'')],
     PDict [(''total'', PInt 0), (''cost'', PInt 300), (''duration'', PStr ''7 days'')], PDict [(''total'', PInt 0)], PNone]"

lemma sample_quote:
  "\<exists>a. get_topship_delivery_quote plain_text ''k'' (\<lambda>_. Some (200, sample_rates)) ''a'' ''b'' 1 [] [] ''fastest'' = Inr a \<and>
     qa_quotes a \<noteq> []"
proof -
  have "(case get_topship_delivery_quote plain_text ''k'' (\<lambda>_. Some (200, sample_rates)) ''a'' ''b'' 1 [] [] ''fastest'' of
      Inr a \<Rightarrow> qa_quotes a \<noteq> [] | Inl e \<Rightarrow> False)"
    by code_simp
  then show ?thesis by (auto split: sum.splits)
qed

theorem quote_is_best_offer_witness:
  "\<exists>a. get_topship_delivery_quote plain_text ''k'' (\<lambda>_. Some (200, sample_rates)) ''a'' ''b'' 1 [] [] ''fastest'' = Inr a \<and>
     Min (q_total ` set (qa_quotes a)) = q_total (qa_cheapest a)"
  using sample_quote quote_is_best_offer by blast

text \<open>
  An offer of delivery today or tomorrow is ranked as a five-day delivery: its mean of half
  a day rounds to 0 days, and 0 is replaced by the default for an unknown time, although the
  shown range is 0 to 1 days.
\<close>

theorem same_day_ranked_as_five:
  assumes "\<forall>x. fmt (PStr x) = x" and "py_get rate ''deliveryEta'' = PStr ''0-1 days''"
  shows "q_days (rate_quote fmt rate amounts) = 5 \<and> q_range (rate_quote fmt rate amounts) = (Some 0, Some 1)"
proof -
  have "strip ''0-1 days'' = ''0-1 days''" by code_simp
  moreover have "parse_delivery_eta ''0-1 days'' = \<lparr>eta_days = 0, eta_min = Some 0, eta_max = Some 1\<rparr>" by code_simp
  moreover have "py_or (PStr ''0-1 days'') v = PStr ''0-1 days''" for v by (simp add: py_or_def)
  ultimately show ?thesis using assms by (simp add: rate_quote_def Let_def)
qed

theorem same_day_ranked_as_five_witness:
  "q_days (rate_quote plain_text [(''deliveryEta'', PStr ''0-1 days'')] (900, 0)) = 5"
  using same_day_ranked_as_five [of plain_text "[(''deliveryEta'', PStr ''0-1 days'')]" "(900, 0)"]
  by (simp add: py_get_def dget_default_def)

end
