(* ===== verification/Orders.thy ===== *)
theory Orders
  imports Delivery_Quotes Scoped_Queries
begin

text \<open>
  \<open>app/tools/shipping_tools.py\<close>, second part: order records, their tracking and the review
  message after a delivery.  Orders live in the process (\<open>Memory\<close>) when there is no Firestore
  client, else in the collection of the session's scope; a record is its dictionary.  \<open>merge\<close> is
  Firestore's \<open>set(..., merge=True)\<close> on an existing document.  \<open>reviews\<close> logs the review messages
  for which a channel accepted the text: the order, the phone and the text.  A tool awaits its
  read, its messages and its write in turn: each is a definition of its own, and a tool's
  definition is the run in which no other call comes in between.  A write to Firestore may
  raise (\<open>oe_saves\<close>, \<open>oe_review_saves\<close>), which ends the tool with the documents as they were; a read
  that raises ends it in the state of an order that is not found.
\<close>

datatype order_storage = Memory | Cloud collection_path

datatype order_key = Order_Key order_storage string

record order_world =
  orders :: "(order_key, py_record) dict"
  reviews :: "(order_key \<times> string \<times> string) list"

text \<open>What one request reads from outside: time, a new identifier, the channels' answers.\<close>

record order_env =
  oe_now :: string
  oe_id :: string
  oe_cloud :: bool
  oe_saves :: bool
  oe_review_saves :: bool
  oe_merge :: "py_record \<Rightarrow> py_record \<Rightarrow> py_record"
  oe_sms :: "string \<Rightarrow> string \<Rightarrow> bool"
  oe_whatsapp :: "string \<Rightarrow> string \<Rightarrow> nat option"

record order_settings =
  os_topship_key :: string
  os_sms :: bool
  os_whatsapp :: bool
  os_token :: string

text \<open>\<open>Order_Raised\<close> is an exception that leaves the tool.\<close>

datatype order_error = Order_Invalid | Scope_Unavailable | Order_Not_Found | Contact_Missing | Notification_Failed | Order_Raised

section \<open>Identifiers and statuses\<close>

definition order_id_ok :: "string \<Rightarrow> bool" where
  "order_id_ok s \<longleftrightarrow> 4 \<le> length s \<and> length s \<le> 80 \<and>
     list_all (\<lambda>c. ascii_letter c \<or> is_digit c \<or> c \<in> {CHR ''.'', CHR ''_'', CHR '':'', CHR ''-''}) s"

definition normalize_order_id :: "string \<Rightarrow> string option \<Rightarrow> string" where
  "normalize_order_id generated o' = (if order_id_ok (clean_opt o') then clean_opt o' else ''EKT-ORD-'' @ generated)"

definition validated_order_id :: "string option \<Rightarrow> string option" where
  "validated_order_id o' = (if order_id_ok (clean_opt o') then Some (clean_opt o') else None)"

definition TRACKING_STATUS_MAP :: "(string, string) dict" where
  "TRACKING_STATUS_MAP = [(''pending'', ''pending''), (''booked'', ''booked''), (''awaitingpickup'', ''pickup_scheduled''),
     (''pickupinprogress'', ''pickup_scheduled''), (''successfullypicked'', ''picked_up''), (''intransit'', ''in_transit''),
     (''deliveryinprogress'', ''out_for_delivery''), (''outfordelivery'', ''out_for_delivery''), (''delivered'', ''delivered''),
     (''cancelled'', ''cancelled''), (''deliveryfailed'', ''failed''), (''failed'', ''failed''), (''returned'', ''returned'')]"

definition underscored :: "string \<Rightarrow> string" where
  "underscored s = map (\<lambda>c. if c = CHR ''-'' \<or> c = CHR '' '' then CHR ''_'' else c) (lower s)"

definition tracking_status_or_default :: "py \<Rightarrow> string" where
  "tracking_status_or_default status =
     (let raw = clean_str status;
          canonical = lower (filter (\<lambda>c. c \<notin> {CHR ''_'', CHR ''-'', CHR '' ''}) raw)
      in if raw = [] then ''pending'' else dget_default TRACKING_STATUS_MAP canonical (underscored raw))"

definition resolve_order_status_from_tracking :: "string \<Rightarrow> string" where
  "resolve_order_status_from_tracking status =
     (if status = ''delivered'' then ''fulfilled''
      else if status \<in> {''failed'', ''cancelled'', ''returned''} then status
      else if status \<in> {''pending'', ''booked'', ''pickup_scheduled'', ''picked_up'', ''in_transit'', ''out_for_delivery''}
      then ''in_fulfillment'' else status)"

section \<open>Storage\<close>

definition orders_collection :: "order_env \<Rightarrow> session_state option \<Rightarrow> order_storage option" where
  "orders_collection e ctx =
     (if \<not> oe_cloud e then Some Memory else map_option Cloud (scoped_collection_or_global ctx ''orders''))"

definition read_order_record :: "order_storage \<Rightarrow> string \<Rightarrow> order_world \<Rightarrow> py_record option" where
  "read_order_record st oid w =
     (case dget (orders w) (Order_Key st oid) of
        None \<Rightarrow> None
      | Some rec \<Rightarrow> Some (if st = Memory then rec else dset ''order_id'' (PStr oid) rec))"

text \<open>\<open>None\<close> when the write raised.\<close>

definition write_order_record ::
  "bool \<Rightarrow> order_env \<Rightarrow> order_storage \<Rightarrow> string \<Rightarrow> py_record \<Rightarrow> order_world \<Rightarrow> order_world option" where
  "write_order_record saves e st oid rec w =
     (let payload = dset ''updated_at'' (PStr (oe_now e)) (dset ''order_id'' (PStr oid) rec);
          stored = (case dget (orders w) (Order_Key st oid) of
              Some old \<Rightarrow> if st = Memory then payload else oe_merge e old payload
            | None \<Rightarrow> payload)
      in if st \<noteq> Memory \<and> \<not> saves then None
         else Some (w\<lparr>orders := dset (Order_Key st oid) stored (orders w)\<rparr>))"

definition tenant_company_from_context :: "session_state option \<Rightarrow> string option \<Rightarrow> string option \<Rightarrow> string \<times> string" where
  "tenant_company_from_context ctx tenant company =
     (if clean_opt tenant \<noteq> [] \<and> clean_opt company \<noteq> [] then (clean_opt tenant, clean_opt company)
      else
        (let state = (case ctx of None \<Rightarrow> [] | Some s \<Rightarrow> s) in
         (or_else (clean_str (py_get state ''app:tenant_id'')) ''public'',
          or_else (clean_str (py_get state ''app:company_id'')) ''ekaette-electronics'')))"

definition base_review_followup_payload :: py_record where
  "base_review_followup_payload = [(''requested'', PBool False), (''requested_at'', PNone), (''message'', PStr []),
     (''sms_sent'', PBool False), (''whatsapp_sent'', PBool False)]"

definition base_tracking_payload :: "string \<Rightarrow> string \<Rightarrow> py_record" where
  "base_tracking_payload now provider =
     [(''provider'', PStr (or_else (lower (strip provider)) ''topship'')), (''status'', PStr ''pending''),
      (''provider_status'', PStr []), (''tracking_id'', PStr []), (''shipment_id'', PStr []),
      (''estimated_delivery_at'', PNone), (''delivered_at'', PNone), (''events'', PList []), (''updated_at'', PStr now),
      (''last_checked_at'', PNone)]"

section \<open>Creating an order\<close>

text \<open>A dictionary field, or a default; a field set only when its argument was given.\<close>

definition sub_record :: "py_record \<Rightarrow> string \<Rightarrow> py_record \<Rightarrow> py_record" where
  "sub_record rec k other = (case py_get rec k of PDict d \<Rightarrow> d | _ \<Rightarrow> other)"

definition set_given :: "string \<Rightarrow> string option \<Rightarrow> py_record \<Rightarrow> py_record" where
  "set_given k v d = (case v of None \<Rightarrow> d | Some s \<Rightarrow> dset k (PStr (strip s)) d)"

record order_request =
  or_customer :: string
  or_phone :: "string option"
  or_items :: "string option"
  or_amount :: py
  or_payment :: "string option"
  or_sender :: "string option"
  or_receiver :: "string option"
  or_address :: "string option"
  or_provider :: string
  or_tracking :: "string option"
  or_shipment :: "string option"
  or_id :: "string option"
  or_tenant :: "string option"
  or_company :: "string option"

definition order_tracking :: "string \<Rightarrow> order_request \<Rightarrow> py_record \<Rightarrow> py_record" where
  "order_tracking now r rec =
     (let t = sub_record rec ''tracking'' (base_tracking_payload now (or_provider r));
          t = dset ''provider'' (PStr (or_else (lower (strip (or_provider r)))
            (or_else (clean_str (py_get t ''provider'')) ''topship''))) t;
          t = set_given ''shipment_id'' (or_shipment r) (set_given ''tracking_id'' (or_tracking r) t);
          t = dset ''status'' (PStr (tracking_status_or_default
            (PStr (or_else (clean_str (py_get t ''status'')) ''pending'')))) t
      in dset ''updated_at'' (PStr now) (setdefault ''events'' (PList []) t))"

definition order_record ::
  "string \<Rightarrow> string \<Rightarrow> string \<times> string \<Rightarrow> order_request \<Rightarrow> int option \<Rightarrow> py_record \<Rightarrow> py_record" where
  "order_record now oid scope r amount rec =
     (let customer = set_given ''phone'' (or_phone r)
            (dset ''name'' (PStr (strip (or_customer r))) (sub_record rec ''customer'' []));
          delivery = set_given ''address'' (or_address r) (set_given ''receiver_city'' (or_receiver r)
            (set_given ''sender_city'' (or_sender r) (sub_record rec ''delivery'' [])));
          tracking = order_tracking now r rec;
          review = sub_record rec ''review_followup'' base_review_followup_payload;
          rec = dset ''customer'' (PDict customer) (dset ''company_id'' (PStr (snd scope))
            (dset ''tenant_id'' (PStr (fst scope)) (dset ''order_id'' (PStr oid) rec)));
          rec = dset ''items_summary'' (case or_items r of
              Some s \<Rightarrow> PStr (strip s)
            | None \<Rightarrow> dget_default rec ''items_summary'' (PStr [])) rec;
          rec = (case amount of
              Some i \<Rightarrow> dset ''amount_kobo'' (PInt i) rec
            | None \<Rightarrow> setdefault ''amount_kobo'' (PInt 0) rec);
          rec = (case or_payment r of
              Some s \<Rightarrow> dset ''payment_reference'' (PStr (strip s)) rec
            | None \<Rightarrow> setdefault ''payment_reference'' (PStr []) rec);
          rec = dset ''review_followup'' (PDict review) (dset ''tracking'' (PDict tracking) (dset ''delivery'' (PDict delivery) rec));
          rec = dset ''status'' (PStr (or_else (clean_str (py_get rec ''status'')) ''order_received'')) rec;
          rec = dset ''created_at'' (PStr (or_else (clean_str (py_get rec ''created_at'')) now)) rec
      in dset ''updated_at'' (PStr now) rec)"

text \<open>The amount, if one is given; the outer \<open>None\<close> is the \<open>ValueError\<close> of \<open>int\<close>.\<close>

definition given_amount :: "py \<Rightarrow> int option option" where
  "given_amount v = (if v = PNone then Some None else map_option Some (coerce_kobo v))"

definition create_order_record ::
  "order_env \<Rightarrow> session_state option \<Rightarrow> order_request \<Rightarrow> order_world \<Rightarrow> order_world \<times> (order_error + py_record)" where
  "create_order_record e ctx r w =
     (if strip (or_customer r) = [] then (w, Inl Order_Invalid)
      else if or_id r \<noteq> None \<and> validated_order_id (or_id r) = None then (w, Inl Order_Invalid)
      else
        (let oid = normalize_order_id (oe_id e) (or_id r) in
         case orders_collection e ctx of
           None \<Rightarrow> (w, Inl Scope_Unavailable)
         | Some st \<Rightarrow>
             (case given_amount (or_amount r) of
                None \<Rightarrow> (w, Inl Order_Raised)
              | Some amount \<Rightarrow>
                  (let rec = order_record (oe_now e) oid
                     (tenant_company_from_context ctx (or_tenant r) (or_company r)) r amount
                     (case read_order_record st oid w of None \<Rightarrow> [] | Some rec \<Rightarrow> rec)
                   in case write_order_record (oe_saves e) e st oid rec w of
                        None \<Rightarrow> (w, Inl Order_Raised)
                      | Some w \<Rightarrow> (w, Inr rec)))))"

section \<open>The review message\<close>

definition review_message_for :: "string \<Rightarrow> string" where
  "review_message_for oid =
     ''Thanks for your order '' @ oid @ ''. '' @ ''Please rate your delivery experience 1-5 and share a short review.''"

definition send_sms_message :: "order_settings \<Rightarrow> order_env \<Rightarrow> string \<Rightarrow> string \<Rightarrow> bool" where
  "send_sms_message cfg e phone message = (os_sms cfg \<and> strip phone \<noteq> [] \<and> oe_sms e (strip phone) message)"

definition send_whatsapp_message :: "order_settings \<Rightarrow> order_env \<Rightarrow> string \<Rightarrow> string \<Rightarrow> bool" where
  "send_whatsapp_message cfg e phone message =
     (os_whatsapp cfg \<and> os_token cfg \<noteq> [] \<and> strip phone \<noteq> [] \<and>
      (case oe_whatsapp e (strip phone) message of Some status \<Rightarrow> status < 400 | None \<Rightarrow> False))"

text \<open>The answer: the order, and whether a message was sent now.\<close>

definition reviewed_order :: "string \<Rightarrow> string \<Rightarrow> bool \<Rightarrow> bool \<Rightarrow> py_record \<Rightarrow> py_record" where
  "reviewed_order now message sms whatsapp order =
     (let review = dmerge (sub_record order ''review_followup'' base_review_followup_payload)
            [(''requested'', PBool True), (''requested_at'', PStr now), (''message'', PStr message),
             (''sms_sent'', PBool sms), (''whatsapp_sent'', PBool whatsapp)]
      in dset ''updated_at'' (PStr now) (dset ''review_followup'' (PDict review) order))"

text \<open>
  The three parts between which \<open>send_order_review_followup\<close> awaits: the order is read and
  checked, the messages are sent, the order is written.
\<close>

datatype followup =
    Followup_Over "order_error + (py_record \<times> bool)"
  | Followup_Ready order_storage string py_record string string

definition followup_read ::
  "order_env \<Rightarrow> session_state option \<Rightarrow> string option \<Rightarrow> bool \<Rightarrow> string option \<Rightarrow> order_world \<Rightarrow> followup" where
  "followup_read e ctx order_id force message w =
     (case validated_order_id order_id of
        None \<Rightarrow> Followup_Over (Inl Order_Invalid)
      | Some oid \<Rightarrow>
          (case orders_collection e ctx of
             None \<Rightarrow> Followup_Over (Inl Scope_Unavailable)
           | Some st \<Rightarrow>
               (case read_order_record st oid w of
                  None \<Rightarrow> Followup_Over (Inl Order_Not_Found)
                | Some order \<Rightarrow>
                    (let review = sub_record order ''review_followup'' base_review_followup_payload;
                         phone = (case dget_default order ''customer'' (PDict []) of
                             PDict c \<Rightarrow> clean_str (py_get c ''phone'') | _ \<Rightarrow> [])
                     in if truthy (py_get review ''requested'') \<and> \<not> force then Followup_Over (Inr (order, False))
                     else if phone = [] then Followup_Over (Inl Contact_Missing)
                     else Followup_Ready st oid order phone (or_else (clean_opt message) (review_message_for oid))))))"

definition followup_send ::
  "order_settings \<Rightarrow> order_env \<Rightarrow> order_key \<Rightarrow> string \<Rightarrow> string \<Rightarrow> order_world \<Rightarrow> order_world \<times> bool \<times> bool" where
  "followup_send cfg e k phone message w =
     (let sms = send_sms_message cfg e phone message; whatsapp = send_whatsapp_message cfg e phone message
      in (if sms \<or> whatsapp then w\<lparr>reviews := reviews w @ [(k, phone, message)]\<rparr> else w, sms, whatsapp))"

definition followup_write ::
  "order_env \<Rightarrow> order_storage \<Rightarrow> string \<Rightarrow> py_record \<Rightarrow> string \<Rightarrow> bool \<times> bool \<Rightarrow> order_world
   \<Rightarrow> order_world \<times> (order_error + (py_record \<times> bool))" where
  "followup_write e st oid order message sent w =
     (let order = reviewed_order (oe_now e) message (fst sent) (snd sent) order in
      case write_order_record (oe_review_saves e) e st oid order w of
        None \<Rightarrow> (w, Inl Order_Raised)
      | Some w \<Rightarrow> (w, Inr (order, True)))"

definition send_order_review_followup ::
  "order_settings \<Rightarrow> order_env \<Rightarrow> session_state option \<Rightarrow> string option \<Rightarrow> bool \<Rightarrow> string option \<Rightarrow> order_world
   \<Rightarrow> order_world \<times> (order_error + (py_record \<times> bool))" where
  "send_order_review_followup cfg e ctx order_id force message w =
     (case followup_read e ctx order_id force message w of
        Followup_Over res \<Rightarrow> (w, res)
      | Followup_Ready st oid order phone text \<Rightarrow>
          (case followup_send cfg e (Order_Key st oid) phone text w of
             (w, sent) \<Rightarrow>
               if sent = (False, False) then (w, Inl Notification_Failed)
               else followup_write e st oid order text sent w))"

section \<open>Tracking\<close>

definition tracking_event :: "string \<Rightarrow> string \<Rightarrow> string \<Rightarrow> string \<Rightarrow> string \<Rightarrow> py" where
  "tracking_event status provider_status description location timestamp =
     PDict [(''status'', PStr status), (''provider_status'', PStr provider_status), (''description'', PStr description),
       (''location'', PStr location), (''timestamp'', PStr timestamp)]"

text \<open>\<open>sort(key=..., reverse=True)\<close>, which keeps the order of equal keys.\<close>

definition latest_first :: "(py \<Rightarrow> string) \<Rightarrow> py_record list \<Rightarrow> py_record list" where
  "latest_first fmt evs =
     rev (sort_key (\<lambda>d. map code (fmt (py_or (py_get d ''timestamp'') (PStr [])))) (rev evs))"

record tracking_update =
  tu_status :: string
  tu_provider_status :: "string option"
  tu_tracking_id :: "string option"
  tu_shipment_id :: "string option"
  tu_provider :: "string option"
  tu_description :: "string option"
  tu_location :: "string option"
  tu_timestamp :: "string option"
  tu_events :: "py list"
  tu_estimated :: "string option"
  tu_delivered :: "string option"
  tu_review :: bool

definition provider_event :: "string \<Rightarrow> string \<Rightarrow> string \<Rightarrow> py_record \<Rightarrow> py" where
  "provider_event now status provider_status d =
     (let raw = or_else (clean_str (py_get d ''provider_status'')) (clean_str (py_get d ''status'')) in
      tracking_event
        (tracking_status_or_default (py_or (py_get d ''status'') (PStr (or_else raw status))))
        (or_else raw provider_status)
        (or_else (clean_str (py_get d ''description'')) (or_else raw provider_status))
        (clean_str (py_get d ''location'')) (or_else (clean_str (py_get d ''timestamp'')) now))"

definition new_events :: "string \<Rightarrow> tracking_update \<Rightarrow> string \<Rightarrow> string \<Rightarrow> py_record list \<Rightarrow> py_record list" where
  "new_events now u status provider_status old =
     (if tu_events u \<noteq> [] then
        (let merged = py_dicts (map (provider_event now status provider_status) (py_dicts (tu_events u))) in
         if merged = [] then old else merged)
      else
        py_dicts [tracking_event status provider_status
          (or_else (clean_opt (tu_description u)) (or_else provider_status status)) (clean_opt (tu_location u))
          (or_else (clean_opt (tu_timestamp u)) now)] @ old)"

definition updated_tracking :: "(py \<Rightarrow> string) \<Rightarrow> string \<Rightarrow> tracking_update \<Rightarrow> string \<Rightarrow> py_record \<Rightarrow> py_record" where
  "updated_tracking fmt now u status t =
     (let provider_status = or_else (clean_opt (tu_provider_status u)) (strip (tu_status u));
          t = (case tu_provider u of
              None \<Rightarrow> t
            | Some p \<Rightarrow> dset ''provider'' (PStr (or_else (lower (strip p))
                (or_else (clean_str (py_get t ''provider'')) ''topship''))) t);
          t = dset ''provider_status'' (PStr provider_status) (dset ''status'' (PStr status) t);
          t = set_given ''shipment_id'' (tu_shipment_id u) (set_given ''tracking_id'' (tu_tracking_id u) t);
          t = (case tu_estimated u of None \<Rightarrow> t | Some x \<Rightarrow> dset ''estimated_delivery_at'' (PStr x) t);
          t = (case tu_delivered u of
              Some x \<Rightarrow> dset ''delivered_at'' (PStr x) t
            | None \<Rightarrow> if status = ''delivered'' \<and> \<not> truthy (py_get t ''delivered_at'')
                then dset ''delivered_at'' (PStr now) t else t);
          old = py_dicts (as_list (py_get t ''events''));
          evs = latest_first fmt (new_events now u status provider_status old)
      in dset ''last_checked_at'' (PStr now) (dset ''updated_at'' (PStr now)
           (dset ''events'' (PList (map PDict (take 50 evs))) t)))"

text \<open>The order as last read, and whether a review message was sent now.\<close>

definition update_order_tracking_status ::
  "(py \<Rightarrow> string) \<Rightarrow> order_settings \<Rightarrow> order_env \<Rightarrow> session_state option \<Rightarrow> string option \<Rightarrow> tracking_update
   \<Rightarrow> order_world \<Rightarrow> order_world \<times> (order_error + py_record)" where
  "update_order_tracking_status fmt cfg e ctx order_id u w =
     (case validated_order_id order_id of
        None \<Rightarrow> (w, Inl Order_Invalid)
      | Some oid \<Rightarrow>
          (case orders_collection e ctx of
             None \<Rightarrow> (w, Inl Scope_Unavailable)
           | Some st \<Rightarrow>
               (case read_order_record st oid w of
                  None \<Rightarrow> (w, Inl Order_Not_Found)
                | Some order \<Rightarrow>
                    (let status = tracking_status_or_default (PStr (or_else (tu_status u) (text_of (tu_provider_status u))));
                         tracking = updated_tracking fmt (oe_now e) u status (sub_record order ''tracking''
                           (base_tracking_payload (oe_now e) (or_else (text_of (tu_provider u)) ''topship'')));
                         order = dset ''updated_at'' (PStr (oe_now e))
                           (dset ''status'' (PStr (resolve_order_status_from_tracking status))
                             (dset ''tracking'' (PDict tracking) order))
                     in case write_order_record (oe_saves e) e st oid order w of
                          None \<Rightarrow> (w, Inl Order_Raised)
                        | Some w \<Rightarrow>
                            if status = ''delivered'' \<and> tu_review u then
                              (case send_order_review_followup cfg e ctx (Some oid) False None w of
                                 (w, Inr (order, sent)) \<Rightarrow> (w, Inr order)
                               | (w, Inl err) \<Rightarrow> (w, if err = Order_Raised then Inl err else Inr order))
                            else (w, Inr order)))))"

section \<open>Asking the provider\<close>

text \<open>
  \<open>_fetch_topship_tracking\<close>: \<open>None\<close> is an exception, an error is its code.  \<open>answer\<close> is the
  provider's: \<open>None\<close> when the request raised, else the status and the JSON body (an empty
  dictionary when it is not JSON).
\<close>

record tracking_answer =
  ta_tracking_id :: string
  ta_provider_status :: string
  ta_status :: string
  ta_estimated :: py
  ta_delivered :: py
  ta_events :: "py_record list"

text \<open>What \<open>for x in v\<close> yields of the dictionaries of \<open>v\<close>; \<open>None\<close> is \<open>TypeError\<close>.\<close>

fun iterated_dicts :: "py \<Rightarrow> py_record list option" where
  "iterated_dicts (PList xs) = Some (py_dicts xs)"
| "iterated_dicts (PStr s) = Some []"
| "iterated_dicts (PDict d) = Some []"
| "iterated_dicts _ = None"

definition tracking_data ::
  "(py \<Rightarrow> string) \<Rightarrow> string \<Rightarrow> string \<Rightarrow> py_record \<Rightarrow> tracking_answer option" where
  "tracking_data fmt now tracking_id d =
     (let provider_status = clean_str (py_get d ''status''); status = tracking_status_or_default (PStr provider_status);
          event_of = (\<lambda>r. let raw = clean_str (py_get r ''status'') in
            tracking_event (tracking_status_or_default (PStr (or_else raw status))) (or_else raw provider_status)
              (or_else (clean_str (py_get r ''description'')) (or_else raw provider_status))
              (clean_str (py_get r ''location'')) (or_else (clean_str (py_get r ''timestamp'')) now))
      in case iterated_dicts (dget_default d ''events'' (PList [])) of
           None \<Rightarrow> None
         | Some evs \<Rightarrow> Some
             \<lparr>ta_tracking_id = or_else (clean_str (py_get d ''trackingId'')) (strip tracking_id),
              ta_provider_status = provider_status, ta_status = status, ta_estimated = py_get d ''estimatedDeliveryDate'',
              ta_delivered = py_get d ''deliveredAt'', ta_events = take 50 (latest_first fmt (py_dicts (map event_of evs)))\<rparr>)"

definition fetch_topship_tracking ::
  "(py \<Rightarrow> string) \<Rightarrow> order_settings \<Rightarrow> string \<Rightarrow> (string \<Rightarrow> (nat \<times> py) option) \<Rightarrow> string \<Rightarrow> (string + tracking_answer) option" where
  "fetch_topship_tracking fmt cfg now answer tracking_id =
     (if os_topship_key cfg = [] then Some (Inl ''TOPSHIP_NOT_CONFIGURED'')
      else if strip tracking_id = [] then Some (Inl ''TOPSHIP_TRACKING_ID_REQUIRED'')
      else case answer tracking_id of
        None \<Rightarrow> Some (Inl ''TOPSHIP_TRACKING_REQUEST_FAILED'')
      | Some (status, payload) \<Rightarrow>
          if 400 \<le> status then Some (Inl ''TOPSHIP_TRACKING_API_ERROR'')
          else
            (case payload of
               PDict body \<Rightarrow>
                 (if py_get body ''status'' \<noteq> PBool True then Some (Inl ''TOPSHIP_TRACKING_NOT_FOUND'')
                  else (case py_get body ''data'' of
                     PDict d \<Rightarrow> map_option Inr (tracking_data fmt now tracking_id d)
                   | _ \<Rightarrow> Some (Inl ''TOPSHIP_TRACKING_INVALID_RESPONSE'')))
             | _ \<Rightarrow> None))"

definition text_opt :: "(py \<Rightarrow> string) \<Rightarrow> py \<Rightarrow> string option" where
  "text_opt fmt v = (let s = fmt (py_or v (PStr [])) in if s = [] then None else Some s)"

definition answer_update :: "(py \<Rightarrow> string) \<Rightarrow> string \<Rightarrow> string \<Rightarrow> bool \<Rightarrow> tracking_answer \<Rightarrow> tracking_update" where
  "answer_update fmt provider tracking_id review a =
     \<lparr>tu_status = or_else (ta_status a) ''pending'', tu_provider_status = Some (ta_provider_status a),
      tu_tracking_id = Some (or_else (ta_tracking_id a) tracking_id), tu_shipment_id = None, tu_provider = Some provider,
      tu_description = None, tu_location = None, tu_timestamp = None, tu_events = map PDict (ta_events a),
      tu_estimated = text_opt fmt (ta_estimated a), tu_delivered = text_opt fmt (ta_delivered a), tu_review = review\<rparr>"

text \<open>The outer \<open>None\<close> of the answer is an exception.\<close>

definition track_order_delivery ::
  "(py \<Rightarrow> string) \<Rightarrow> order_settings \<Rightarrow> order_env \<Rightarrow> session_state option \<Rightarrow> (string \<Rightarrow> (nat \<times> py) option)
   \<Rightarrow> string option \<Rightarrow> bool \<Rightarrow> string option \<Rightarrow> bool \<Rightarrow> order_world \<Rightarrow> order_world \<times> (order_error + py_record) option" where
  "track_order_delivery fmt cfg e ctx answer order_id refresh own_tracking_id review w =
     (case validated_order_id order_id of
        None \<Rightarrow> (w, Some (Inl Order_Invalid))
      | Some oid \<Rightarrow>
          (case orders_collection e ctx of
             None \<Rightarrow> (w, Some (Inl Scope_Unavailable))
           | Some st \<Rightarrow>
               (case read_order_record st oid w of
                  None \<Rightarrow> (w, Some (Inl Order_Not_Found))
                | Some order \<Rightarrow>
                    (let (tracking, order) =
                       (case dget_default order ''tracking'' (PDict []) of
                          PDict t \<Rightarrow> (t, order)
                        | _ \<Rightarrow> (base_tracking_payload (oe_now e) ''topship'',
                            dset ''tracking'' (PDict (base_tracking_payload (oe_now e) ''topship'')) order));
                         provider = or_else (lower (clean_str (py_get tracking ''provider''))) ''topship'';
                         tracking_id = or_else (clean_opt own_tracking_id) (clean_str (py_get tracking ''tracking_id''))
                     in if refresh \<and> provider = ''topship'' \<and> tracking_id \<noteq> [] then
                       (case fetch_topship_tracking fmt cfg (oe_now e) answer tracking_id of
                          None \<Rightarrow> (w, None)
                        | Some (Inr a) \<Rightarrow>
                            (case update_order_tracking_status fmt cfg e ctx (Some oid)
                                (answer_update fmt provider tracking_id review a) w of
                               (w, Inr order) \<Rightarrow> (w, Some (Inr order))
                             | (w, Inl err) \<Rightarrow> (w, if err = Order_Raised then None else Some (Inr order)))
                        | Some (Inl err) \<Rightarrow>
                            (let order = dset ''tracking'' (PDict (dset ''last_checked_at'' (PStr (oe_now e)) tracking)) order
                             in case write_order_record (oe_saves e) e st oid order w of
                                  None \<Rightarrow> (w, None)
                                | Some w \<Rightarrow> (w, Some (Inr order))))
                     else (w, Some (Inr order))))))"

section \<open>Sequences of requests\<close>

text \<open>Calls that follow one another, each run to its end; only the review that is not forced.\<close>

datatype order_op =
    Create_Order "session_state option" order_request
  | Review_Order "session_state option" "string option" "string option"
  | Update_Order "session_state option" "string option" tracking_update
  | Track_Order "session_state option" "string \<Rightarrow> (nat \<times> py) option" "string option" bool "string option" bool

fun order_step :: "(py \<Rightarrow> string) \<Rightarrow> order_settings \<Rightarrow> order_env \<times> order_op \<Rightarrow> order_world \<Rightarrow> order_world" where
  "order_step fmt cfg (e, Create_Order ctx r) w = fst (create_order_record e ctx r w)"
| "order_step fmt cfg (e, Review_Order ctx oid message) w = fst (send_order_review_followup cfg e ctx oid False message w)"
| "order_step fmt cfg (e, Update_Order ctx oid u) w = fst (update_order_tracking_status fmt cfg e ctx oid u w)"
| "order_step fmt cfg (e, Track_Order ctx answer oid refresh own review) w =
     fst (track_order_delivery fmt cfg e ctx answer oid refresh own review w)"

definition order_run :: "(py \<Rightarrow> string) \<Rightarrow> order_settings \<Rightarrow> (order_env \<times> order_op) list \<Rightarrow> order_world \<Rightarrow> order_world" where
  "order_run fmt cfg ops w = fold (order_step fmt cfg) ops w"

definition no_orders :: order_world where
  "no_orders = \<lparr>orders = [], reviews = []\<rparr>"

section \<open>At most one review message\<close>

definition followed :: "py_record \<Rightarrow> bool" where
  "followed rec = truthy (py_get (sub_record rec ''review_followup'' base_review_followup_payload) ''requested'')"

definition merge_keeps_review :: "order_env \<Rightarrow> bool" where
  "merge_keeps_review e \<longleftrightarrow> (\<forall>old new. followed new \<longrightarrow> followed (oe_merge e old new))"

definition review_count :: "order_key \<Rightarrow> order_world \<Rightarrow> nat" where
  "review_count k w = length (filter (\<lambda>(k', m). k' = k) (reviews w))"

text \<open>An order that records the request; at most one message more than the \<open>n\<close> writes that were lost.\<close>

definition asked :: "order_world \<Rightarrow> order_key \<Rightarrow> bool" where
  "asked w k \<longleftrightarrow> (case dget (orders w) k of Some rec \<Rightarrow> followed rec | None \<Rightarrow> False)"

definition reviews_ok :: "nat \<Rightarrow> order_world \<Rightarrow> bool" where
  "reviews_ok n w \<longleftrightarrow> (\<forall>k. review_count k w \<le> n + of_bool (asked w k))"

lemma reviews_ok_mono: "reviews_ok n w \<Longrightarrow> n \<le> m \<Longrightarrow> reviews_ok m w"
  unfolding reviews_ok_def by (meson add_le_mono1 le_trans)

lemma followed_dset: "k \<noteq> ''review_followup'' \<Longrightarrow> followed (dset k v rec) = followed rec"
  by (simp add: followed_def sub_record_def py_get_dset)

lemma read_asked: "read_order_record st oid w = Some rec \<Longrightarrow> asked w (Order_Key st oid) = followed rec"
  by (auto simp: read_order_record_def asked_def followed_dset split: option.splits if_splits)

lemma write_order_asked:
  assumes "merge_keeps_review e" and "write_order_record saves e st oid rec w = Some w'"
    and "\<And>old. read_order_record st oid w = Some old \<Longrightarrow> followed old \<Longrightarrow> followed rec"
  shows "review_count k w' = review_count k w" and "asked w k \<Longrightarrow> asked w' k"
    and "followed rec \<Longrightarrow> asked w' (Order_Key st oid)"
proof -
  let ?payload = "dset ''updated_at'' (PStr (oe_now e)) (dset ''order_id'' (PStr oid) rec)"
  obtain stored where w': "w' = w\<lparr>orders := dset (Order_Key st oid) stored (orders w)\<rparr>"
    and stored: "stored = ?payload \<or> (\<exists>old. stored = oe_merge e old ?payload)"
    using assms(2) by (auto simp: write_order_record_def Let_def split: if_splits option.splits)
  show "review_count k w' = review_count k w" by (simp add: w' review_count_def)
  have kept: "followed rec \<Longrightarrow> followed stored"
    using stored assms(1) by (auto simp: merge_keeps_review_def followed_dset)
  then show "followed rec \<Longrightarrow> asked w' (Order_Key st oid)" by (simp add: w' asked_def)
  have "followed rec" if "asked w (Order_Key st oid)"
    using that assms(3) by (auto simp: asked_def read_order_record_def followed_dset split: option.splits if_splits)
  then show "asked w k \<Longrightarrow> asked w' k"
    using kept by (cases "k = Order_Key st oid") (simp_all add: w' asked_def)
qed

lemma write_order_ok:
  assumes "merge_keeps_review e" and "reviews_ok n w"
    and "\<And>old. read_order_record st oid w = Some old \<Longrightarrow> followed old \<Longrightarrow> followed rec"
    and "write_order_record saves e st oid rec w = Some w'"
  shows "reviews_ok n w'"
  unfolding reviews_ok_def
proof
  fix k
  have kept: "review_count k w' = review_count k w" "asked w k \<Longrightarrow> asked w' k"
    using write_order_asked(1,2) [OF assms(1,4)] assms(3) by blast+
  have "review_count k w \<le> n + of_bool (asked w k)" using assms(2) by (simp add: reviews_ok_def)
  then show "review_count k w' \<le> n + of_bool (asked w' k)" using kept(1,2) by (cases "asked w k") auto
qed

lemma followed_reviewed: "followed (reviewed_order now message sms whatsapp order)"
proof -
  have "dict_wf [(''requested'', PBool True), (''requested_at'', PStr now), (''message'', PStr message),
      (''sms_sent'', PBool sms), (''whatsapp_sent'', PBool whatsapp)]"
    by (simp add: dict_wf_def)
  then show ?thesis
    by (simp add: reviewed_order_def followed_def Let_def sub_record_def py_get_dset py_get_def [of "dmerge _ _"]
        dget_default_def dget_dmerge)
qed

lemma followup_ready:
  assumes "followup_read e ctx oid False message w = Followup_Ready st i order phone msg"
  shows "read_order_record st i w = Some order" and "\<not> followed order"
  using assms by (auto simp: followup_read_def Let_def followed_def split: option.splits if_splits)

lemma followup_send_ok:
  assumes "reviews_ok n w"
  shows "reviews_ok (Suc n) (fst (followup_send cfg e k phone msg w))"
  unfolding reviews_ok_def
proof
  fix k'
  let ?w = "fst (followup_send cfg e k phone msg w)"
  have "review_count k' ?w \<le> Suc (review_count k' w)" "asked ?w k' = asked w k'"
    by (simp_all add: followup_send_def Let_def review_count_def asked_def)
  then show "review_count k' ?w \<le> Suc n + of_bool (asked ?w k')"
    using assms [unfolded reviews_ok_def, rule_format, of k'] by (cases "asked w k'") simp_all
qed

lemma reviewed_write_ok:
  assumes "merge_keeps_review e" and "reviews_ok n w" and "\<not> asked w (Order_Key st i)"
    and "write_order_record saves e st i (reviewed_order now msg sms whatsapp order)
      (fst (followup_send cfg e' (Order_Key st i) phone msg w)) = Some w'"
  shows "reviews_ok n w'"
  unfolding reviews_ok_def
proof
  fix k
  let ?w = "fst (followup_send cfg e' (Order_Key st i) phone msg w)"
  have same: "asked ?w k = asked w k" "review_count k ?w \<le> review_count k w + of_bool (k = Order_Key st i)"
    by (simp_all add: followup_send_def Let_def review_count_def asked_def)
  note wrote = write_order_asked [OF assms(1,4) followed_reviewed]
  have "review_count k w \<le> n + of_bool (asked w k)" using assms(2) by (simp add: reviews_ok_def)
  then show "review_count k w' \<le> n + of_bool (asked w' k)"
    using same wrote(1) [of k] wrote(2) [of k] wrote(3) [OF followed_reviewed] assms(3)
    by (cases "k = Order_Key st i"; cases "asked w k") auto
qed

definition lost_reviews :: "order_env \<Rightarrow> nat" where
  "lost_reviews e = of_bool (\<not> oe_review_saves e)"

lemma review_ok:
  assumes "merge_keeps_review e" and "reviews_ok n w"
  shows "reviews_ok (n + lost_reviews e) (fst (send_order_review_followup cfg e ctx oid False message w))"
proof (cases "followup_read e ctx oid False message w")
  case (Followup_Over res)
  then show ?thesis using reviews_ok_mono [OF assms(2)] by (simp add: send_order_review_followup_def)
next
  case (Followup_Ready st i order phone msg)
  note ready = followup_ready [OF Followup_Ready]
  have unasked: "\<not> asked w (Order_Key st i)" using read_asked [OF ready(1)] ready(2) by simp
  obtain w' sms whatsapp where sent: "followup_send cfg e (Order_Key st i) phone msg w = (w', sms, whatsapp)"
    by (metis prod.collapse)
  note run = send_order_review_followup_def Followup_Ready sent followup_write_def Let_def
  show ?thesis
  proof (cases "sms \<or> whatsapp")
    case False
    then have "w' = w" using sent by (auto simp: followup_send_def Let_def)
    then show ?thesis using False reviews_ok_mono [OF assms(2)] by (simp add: run)
  next
    case True
    let ?saved = "write_order_record (oe_review_saves e) e st i (reviewed_order (oe_now e) msg sms whatsapp order) w'"
    show ?thesis
    proof (cases ?saved)
      case None
      then have "lost_reviews e = 1"
        by (auto simp: write_order_record_def lost_reviews_def Let_def split: if_splits)
      then show ?thesis using True None followup_send_ok [OF assms(2), of cfg e "Order_Key st i" phone msg] by (auto simp: run)
    next
      case (Some w2)
      have "reviews_ok n w2" using reviewed_write_ok [OF assms unasked, where w' = w2] Some sent by (metis fst_conv)
      then have "reviews_ok (n + lost_reviews e) w2" by (rule reviews_ok_mono) simp
      then show ?thesis using True Some by (auto simp: run)
    qed
  qed
qed

lemma followed_order_record:
  assumes "followed rec"
  shows "followed (order_record now oid scope r amount rec)"
proof -
  let ?review = "sub_record rec ''review_followup'' base_review_followup_payload"
  have "py_get (order_record now oid scope r amount rec) ''review_followup'' = PDict ?review"
    by (simp add: order_record_def Let_def py_get_dset py_get_setdefault_other)
  then show ?thesis using assms by (simp add: followed_def sub_record_def)
qed

lemma create_ok:
  assumes "merge_keeps_review e" and "reviews_ok n w"
  shows "reviews_ok n (fst (create_order_record e ctx r w))"
proof -
  have step: "reviews_ok n w'"
    if "write_order_record saves e st i (order_record now i scope r amount rec) w = Some w'"
      and "read_order_record st i w = None \<or> read_order_record st i w = Some rec" for saves st i now scope amount rec w'
    by (rule write_order_ok [OF assms _ that(1)]) (use that(2) in \<open>auto simp: followed_order_record\<close>)
  show ?thesis
    using assms(2) by (auto simp: create_order_record_def Let_def intro: step split: option.split)
qed

lemma fst_followup_case:
  "fst (case x of (w, Inr (order, sent)) \<Rightarrow> (w, Inr order) | (w, Inl err) \<Rightarrow> (w, other err)) = fst x"
  by (auto split: prod.splits sum.splits)

lemma update_ok:
  assumes "merge_keeps_review e" and "reviews_ok n w"
  shows "reviews_ok (n + lost_reviews e) (fst (update_order_tracking_status fmt cfg e ctx oid u w))"
proof -
  have step: "reviews_ok n w'"
    if "read_order_record st i w = Some order" and "write_order_record saves e st i (dset ''updated_at'' (PStr (oe_now e))
      (dset ''status'' (PStr status) (dset ''tracking'' (PDict tracking) order))) w = Some w'"
    for saves st i order status tracking w'
    by (rule write_order_ok [OF assms _ that(2)]) (use that(1) in \<open>simp add: followed_dset\<close>)
  note more = reviews_ok_mono [OF assms(2) le_add1] reviews_ok_mono [OF step le_add1]
  show ?thesis
    by (auto simp: update_order_tracking_status_def Let_def fst_followup_case
        intro: more review_ok [OF assms(1) step] split: option.split)
qed

lemma fst_update_case:
  "fst (case x of (w, Inr order) \<Rightarrow> (w, Some (Inr order)) | (w, Inl err) \<Rightarrow> (w, other err)) = fst x"
  by (auto split: prod.splits sum.splits)

text \<open>A tracking request stops, updates the order, or writes it with the time it was checked.\<close>

lemma track_cases:
  obtains (same) "fst (track_order_delivery fmt cfg e ctx answer oid refresh own review w) = w"
  | (update) u i where "fst (track_order_delivery fmt cfg e ctx answer oid refresh own review w) =
      fst (update_order_tracking_status fmt cfg e ctx i u w)"
  | (written) st i order t order' where "read_order_record st i w = Some order"
      "order' = order \<or> (\<exists>t'. order' = dset ''tracking'' t' order)"
      "write_order_record (oe_saves e) e st i (dset ''tracking'' t order') w =
        Some (fst (track_order_delivery fmt cfg e ctx answer oid refresh own review w))"
proof (cases "validated_order_id oid")
  case None
  then show ?thesis using same by (simp add: track_order_delivery_def)
next
  case id: (Some i)
  show ?thesis
  proof (cases "orders_collection e ctx")
    case None
    then show ?thesis using same id by (simp add: track_order_delivery_def)
  next
    case st: (Some st)
    show ?thesis
    proof (cases "read_order_record st i w")
      case None
      then show ?thesis using same id st by (simp add: track_order_delivery_def)
    next
      case rd: (Some order)
      obtain tracking order' where t: "(case dget_default order ''tracking'' (PDict []) of PDict t \<Rightarrow> (t, order)
          | _ \<Rightarrow> (base_tracking_payload (oe_now e) ''topship'',
              dset ''tracking'' (PDict (base_tracking_payload (oe_now e) ''topship'')) order)) = (tracking, order')"
        by (metis prod.collapse)
      then have order': "order' = order \<or> (\<exists>t'. order' = dset ''tracking'' t' order)" by (auto split: py.splits)
      note run = track_order_delivery_def id st rd t Let_def option.case prod.case
      let ?provider = "or_else (lower (clean_str (py_get tracking ''provider''))) ''topship''"
      let ?id = "or_else (clean_opt own) (clean_str (py_get tracking ''tracking_id''))"
      show ?thesis
      proof (cases "refresh \<and> ?provider = ''topship'' \<and> ?id \<noteq> []")
        case False
        show ?thesis by (rule same) (simp only: run False if_False fst_conv)
      next
        case go: True
        show ?thesis
        proof (cases "fetch_topship_tracking fmt cfg (oe_now e) answer ?id")
          case None
          show ?thesis by (rule same) (simp only: run go None if_True simp_thms fst_conv)
        next
          case (Some a)
          show ?thesis
          proof (cases a)
            case (Inr ans)
            show ?thesis
              by (rule update [of "Some i" "answer_update fmt ?provider ?id review ans"])
                 (simp only: run go Some Inr if_True simp_thms sum.case fst_update_case)
          next
            case (Inl err)
            let ?rec = "dset ''tracking'' (PDict (dset ''last_checked_at'' (PStr (oe_now e)) tracking)) order'"
            show ?thesis
            proof (cases "write_order_record (oe_saves e) e st i ?rec w")
              case None
              show ?thesis by (rule same) (simp only: run go Some Inl None if_True simp_thms sum.case fst_conv)
            next
              case wrote: (Some w')
              show ?thesis
                by (rule written [OF rd order', of "PDict (dset ''last_checked_at'' (PStr (oe_now e)) tracking)"])
                   (simp only: run go Some Inl wrote if_True simp_thms sum.case fst_conv)
            qed
          qed
        qed
      qed
    qed
  qed
qed

lemma track_ok:
  assumes "merge_keeps_review e" and "reviews_ok n w"
  shows "reviews_ok (n + lost_reviews e) (fst (track_order_delivery fmt cfg e ctx answer oid refresh own review w))"
proof (cases rule: track_cases [of fmt cfg e ctx answer oid refresh own review w])
  case same
  then show ?thesis using reviews_ok_mono [OF assms(2)] by simp
next
  case (update u i)
  then show ?thesis using update_ok [OF assms] by simp
next
  case (written st i order t order')
  have "reviews_ok n (fst (track_order_delivery fmt cfg e ctx answer oid refresh own review w))"
    by (rule write_order_ok [OF assms _ written(3)]) (use written(1,2) in \<open>auto simp: followed_dset\<close>)
  then show ?thesis by (rule reviews_ok_mono) simp
qed

lemma order_run_ok:
  assumes "reviews_ok n w" and "\<forall>op' \<in> set ops. merge_keeps_review (fst op')"
  shows "reviews_ok (n + length (filter (\<lambda>op'. \<not> oe_review_saves (fst op')) ops)) (order_run fmt cfg ops w)"
  using assms
proof (induction ops arbitrary: n w)
  case (Cons op' ops)
  obtain e o' where op': "op' = (e, o')" by force
  then have law: "merge_keeps_review e" using Cons.prems(2) by simp
  have "reviews_ok (n + lost_reviews e) (order_step fmt cfg op' w)"
    using reviews_ok_mono [OF create_ok [OF law Cons.prems(1)] le_add1] review_ok [OF law Cons.prems(1)]
      update_ok [OF law Cons.prems(1)] track_ok [OF law Cons.prems(1)] by (cases o') (simp_all add: op')
  from Cons.IH [OF this] show ?case
    using Cons.prems(2) by (cases "oe_review_saves e") (simp_all add: order_run_def op' lost_reviews_def)
qed (simp add: order_run_def)

section \<open>Properties\<close>

text \<open>
  C15 A customer is asked for a review at most once per order by tools called one after
  another: over any sequence of creating, updating and tracking requests and review requests
  that are not forced, of any tenants, in memory or in Firestore, each run to its end, the
  number of review messages sent for a stored order is at most one more than the number of
  calls in which the write after the message raised; it is at most one when these writes work,
  even when a delivery is reported again and again.  Two overlapping follow-ups can both ask
  (\<open>overlapping_followups_both_ask\<close>).  Firestore's merge is taken to keep the flag
  \<open>requested\<close> of the data it is given.
\<close>

theorem review_sent_at_most_once:
  assumes "\<forall>op' \<in> set ops. merge_keeps_review (fst op')"
  shows "length (filter (\<lambda>(k', m). k' = k) (reviews (order_run fmt cfg ops no_orders)))
    \<le> 1 + length (filter (\<lambda>op'. \<not> oe_review_saves (fst op')) ops)"
proof -
  have "reviews_ok 0 no_orders" by (simp add: reviews_ok_def no_orders_def review_count_def)
  from order_run_ok [OF this assms, of fmt cfg]
  have "review_count k (order_run fmt cfg ops no_orders) \<le> length (filter (\<lambda>op'. \<not> oe_review_saves (fst op')) ops) +
      of_bool (asked (order_run fmt cfg ops no_orders) k)"
    by (simp add: reviews_ok_def)
  then show ?thesis
    unfolding review_count_def by (cases "asked (order_run fmt cfg ops no_orders) k") simp_all
qed

definition sample_order_env :: order_env where
  "sample_order_env = \<lparr>oe_now = ''n'', oe_id = ''A'', oe_cloud = False, oe_saves = True, oe_review_saves = True, oe_merge = (\<lambda>old new. new), oe_sms = (\<lambda>p m. True),
     oe_whatsapp = (\<lambda>p m. None)\<rparr>"

definition sample_order :: order_request where
  "sample_order = \<lparr>or_customer = ''a'', or_phone = Some ''5'', or_items = None, or_amount = PNone, or_payment = None,
     or_sender = None, or_receiver = None, or_address = None, or_provider = ''topship'', or_tracking = None,
     or_shipment = None, or_id = Some ''ord-1'', or_tenant = None, or_company = None\<rparr>"

definition delivered_update :: tracking_update where
  "delivered_update = \<lparr>tu_status = ''Delivered'', tu_provider_status = None, tu_tracking_id = None, tu_shipment_id = None,
     tu_provider = None, tu_description = None, tu_location = None, tu_timestamp = None, tu_events = [],
     tu_estimated = None, tu_delivered = None, tu_review = True\<rparr>"

definition sample_order_settings :: order_settings where
  "sample_order_settings = \<lparr>os_topship_key = ''k'', os_sms = True, os_whatsapp = False, os_token = []\<rparr>"

definition sample_order_ops :: "(order_env \<times> order_op) list" where
  "sample_order_ops = [(sample_order_env, Create_Order None sample_order),
     (sample_order_env, Update_Order None (Some ''ord-1'') delivered_update),
     (sample_order_env, Update_Order None (Some ''ord-1'') delivered_update)]"

theorem review_sent_at_most_once_witness:
  "length (filter (\<lambda>(k', m). k' = Order_Key Memory ''ord-1'')
     (reviews (order_run plain_text sample_order_settings sample_order_ops no_orders))) \<le> 1 + 0 \<and>
   reviews (order_run plain_text sample_order_settings sample_order_ops no_orders) \<noteq> []"
proof -
  have "\<forall>op' \<in> set sample_order_ops. merge_keeps_review (fst op')"
    by (simp add: sample_order_ops_def merge_keeps_review_def sample_order_env_def)
  moreover have "length (filter (\<lambda>op'. \<not> oe_review_saves (fst op')) sample_order_ops) = 0"
    by (simp add: sample_order_ops_def sample_order_env_def)
  moreover have "reviews (order_run plain_text sample_order_settings sample_order_ops no_orders) \<noteq> []" by code_simp
  ultimately show ?thesis using review_sent_at_most_once by metis
qed

text \<open>
  Two follow-ups of one delivered order that both read it before either writes: the second
  one sends its message although the first has sent and recorded its own.
\<close>

definition both_followups :: "order_world \<Rightarrow> order_world" where
  "both_followups w =
     (case (followup_read sample_order_env None (Some ''ord-1'') False None w,
         followup_read sample_order_env None (Some ''ord-1'') False None w) of
        (Followup_Ready st oid order phone msg, Followup_Ready st' oid' order' phone' msg') \<Rightarrow>
          (case followup_send sample_order_settings sample_order_env (Order_Key st oid) phone msg w of
             (w, sent) \<Rightarrow>
               (case followup_write sample_order_env st oid order msg sent w of
                  (w, res) \<Rightarrow> fst (followup_send sample_order_settings sample_order_env (Order_Key st' oid') phone' msg' w)))
      | _ \<Rightarrow> w)"

lemma overlapping_followups_both_ask:
  "review_count (Order_Key Memory ''ord-1'')
     (both_followups (fst (create_order_record sample_order_env None sample_order no_orders))) = 2"
  by code_simp

end
