(* ===== verification/Wa_Outbound.thy ===== *)
theory Wa_Outbound
  imports Phone_Identity Py_Records
begin

text \<open>
  \<open>app/api/v1/at/service_whatsapp.py\<close>: the 24-hour service windows of WhatsApp users, the
  nudges after silence, the choice between a free text and a template, and the idempotency of
  sends, in the in-process mode.  Keys of windows are the scoped texts the code builds; \<open>now\<close>
  is \<open>time.time()\<close>.  The Firestore mode of the idempotency is in \<open>Wa_Send_Cloud\<close>.
\<close>

section \<open>Users and messages\<close>

definition resolve_whatsapp_user_id ::
  "(string \<Rightarrow> string) \<Rightarrow> (string \<Rightarrow> string) \<Rightarrow> (string \<Rightarrow> string \<Rightarrow> string option) \<Rightarrow> string \<Rightarrow> string \<Rightarrow> string \<Rightarrow> string" where
  "resolve_whatsapp_user_id sha256 hmac e164 tenant company from =
     (case canonical_phone_user_id hmac e164 tenant company from [] of
        Some u \<Rightarrow> u
      | None \<Rightarrow> ''wa-anon-'' @ take 16 (sha256 (tenant @ '':'' @ company @ '':'' @ from)))"

definition handle_unsupported_message_type :: "string \<Rightarrow> string" where
  "handle_unsupported_message_type kind =
     ''Sorry, I can't process '' @ kind @ '' messages yet. '' @ ''Please send a text message, image, or video instead.''"

text \<open>The buttons of an interactive message: identifier and title; \<open>None\<close> is the \<open>ValueError\<close>.\<close>

definition button :: "nat \<times> py_record \<Rightarrow> (py \<times> string) option" where
  "button ib = (case ib of (i, btn) \<Rightarrow>
     (case py_get btn ''title'' of
        PStr t \<Rightarrow> if strip t = [] then None
          else Some (dget_default btn ''id'' (PStr (''btn_'' @ nat_str i)), take 20 (strip t))
      | _ \<Rightarrow> None))"

definition send_interactive_buttons :: "string \<Rightarrow> py_record list \<Rightarrow> (string \<times> (py \<times> string) list) option" where
  "send_interactive_buttons body buttons =
     map_option (\<lambda>bs. (take 1024 body, bs)) (those (map button (enumerate 0 (take 3 buttons))))"

lemma buttons_limits:
  assumes "send_interactive_buttons body buttons = Some (b, bs)"
  shows "length b \<le> 1024 \<and> length bs \<le> 3"
proof -
  have len: "those xs = Some ys \<Longrightarrow> length ys = length xs" for xs :: "(py \<times> string) option list" and ys
    by (induction xs arbitrary: ys) (auto split: option.splits)
  show ?thesis using assms by (auto simp: send_interactive_buttons_def dest: len)
qed

section \<open>Service windows\<close>

definition SERVICE_WINDOW_SECONDS :: clock where "SERVICE_WINDOW_SECONDS = 86400"

definition SERVICE_WINDOW_MAX_ENTRIES :: nat where "SERVICE_WINDOW_MAX_ENTRIES = 50000"

definition window_key :: "string \<Rightarrow> string \<Rightarrow> string \<Rightarrow> string \<Rightarrow> string" where
  "window_key user phone_id tenant company = tenant @ '':'' @ company @ '':'' @ phone_id @ '':'' @ user"

text \<open>Dropping the oldest entries above a bound, \<open>age\<close> being when an entry was made.\<close>

definition drop_oldest :: "nat \<Rightarrow> ('v \<Rightarrow> clock) \<Rightarrow> (string, 'v) dict \<Rightarrow> (string, 'v) dict" where
  "drop_oldest bound age d = dpop_all (map fst (take (length d - bound) (sort_key (\<lambda>(k, v). age v) d))) d"

definition evict_service_windows :: "clock \<Rightarrow> (string, clock) dict \<Rightarrow> (string, clock) dict" where
  "evict_service_windows now ws =
     drop_oldest SERVICE_WINDOW_MAX_ENTRIES (\<lambda>ts. ts)
       (dpop_all (dkeys_where (\<lambda>k ts. ts < now - SERVICE_WINDOW_SECONDS) ws) ws)"

definition check_service_window :: "string \<Rightarrow> clock \<Rightarrow> (string, clock) dict \<Rightarrow> (string, clock) dict \<times> bool" where
  "check_service_window k now ws =
     (let ws = evict_service_windows now ws in
      (ws, case dget ws k of None \<Rightarrow> False | Some last_ts \<Rightarrow> now - last_ts < SERVICE_WINDOW_SECONDS))"

definition record_inbound_timestamp :: "string \<Rightarrow> clock \<Rightarrow> (string, clock) dict \<Rightarrow> (string, clock) dict" where
  "record_inbound_timestamp k now ws = evict_service_windows now (dset k now (evict_service_windows now ws))"

text \<open>The Firestore documents: when a window was recorded and when it ends.\<close>

definition check_service_window_firestore ::
  "string \<Rightarrow> clock \<Rightarrow> (string, clock \<times> clock) dict option \<Rightarrow> (string, clock \<times> clock) dict option \<times> bool" where
  "check_service_window_firestore k now docs =
     (case docs of
        None \<Rightarrow> (None, False)
      | Some ds \<Rightarrow>
          (case dget ds k of
             None \<Rightarrow> (Some ds, False)
           | Some (updated, expires) \<Rightarrow> if expires \<le> now then (Some (dpop k ds), False) else (Some ds, True)))"

section \<open>Nudges\<close>

record nudge_state =
  outbound_ts :: "(string, clock) dict"
  nudge_sent :: "(string, clock) dict"
  inbound_ts :: "(string, clock) dict"

definition record_outbound_timestamp :: "string \<Rightarrow> clock \<Rightarrow> nudge_state \<Rightarrow> nudge_state" where
  "record_outbound_timestamp k now s = s\<lparr>outbound_ts := dset k now (outbound_ts s)\<rparr>"

definition newer :: "clock option \<Rightarrow> clock \<Rightarrow> bool" where
  "newer x t = (case x of None \<Rightarrow> False | Some u \<Rightarrow> t \<le> u)"

definition check_needs_nudge :: "string \<Rightarrow> nudge_state \<Rightarrow> bool" where
  "check_needs_nudge k s =
     (case dget (outbound_ts s) k of
        None \<Rightarrow> False
      | Some t \<Rightarrow> \<not> newer (dget (nudge_sent s) k) t \<and> \<not> newer (dget (inbound_ts s) k) t)"

text \<open>The Firestore variant reads a missing stamp as 0.\<close>

definition check_needs_nudge_firestore :: "clock option \<Rightarrow> clock option \<Rightarrow> clock option \<Rightarrow> bool" where
  "check_needs_nudge_firestore out nudged inbound =
     (let value = (\<lambda>x. case x of None \<Rightarrow> 0 | Some t \<Rightarrow> t) in
      value out \<noteq> 0 \<and> \<not> value out \<le> value nudged \<and> \<not> value out \<le> value inbound)"

definition mark_nudge_sent :: "string \<Rightarrow> clock \<Rightarrow> nudge_state \<Rightarrow> nudge_state" where
  "mark_nudge_sent k now s = s\<lparr>nudge_sent := dset k now (nudge_sent s)\<rparr>"

lemma nudged_once:
  assumes "dget (outbound_ts s) k = Some t" and "t \<le> now"
  shows "\<not> check_needs_nudge k (mark_nudge_sent k now s)"
  using assms by (simp add: check_needs_nudge_def mark_nudge_sent_def newer_def)

section \<open>Text or template\<close>

datatype wa_send = Send_Text string string | Send_Template string string | No_Template

definition send_with_template_fallback ::
  "string \<Rightarrow> string \<Rightarrow> string \<Rightarrow> string \<Rightarrow> clock \<Rightarrow> (string, clock) dict \<Rightarrow> (string, clock) dict \<times> wa_send" where
  "send_with_template_fallback template k to msg now ws =
     (case check_service_window k now ws of
        (ws, True) \<Rightarrow> (ws, Send_Text to (take 4096 msg))
      | (ws, False) \<Rightarrow> (ws, if template = [] then No_Template else Send_Template to (take 1024 msg)))"

section \<open>The windows are exact\<close>

definition window_run :: "(string \<times> clock) list \<Rightarrow> (string, clock) dict" where
  "window_run evs = fold (\<lambda>(k, t) ws. record_inbound_timestamp k t ws) evs []"

lemma drop_oldest_none: "length d \<le> bound \<Longrightarrow> drop_oldest bound age d = d"
  by (simp add: drop_oldest_def dpop_all_def)

text \<open>What the windows know after the messages \<open>evs\<close>, at time \<open>now\<close>.\<close>

definition windows_ok :: "(string \<times> clock) set \<Rightarrow> clock \<Rightarrow> (string, clock) dict \<Rightarrow> bool" where
  "windows_ok E now ws \<longleftrightarrow> dict_wf ws \<and> set ws \<subseteq> E \<and> (\<forall>k t. (k, t) \<in> E \<longrightarrow> t \<le> now) \<and>
     (\<forall>k t. (k, t) \<in> E \<longrightarrow> now - SERVICE_WINDOW_SECONDS \<le> t \<longrightarrow> (\<exists>u. dget ws k = Some u \<and> t \<le> u))"

lemma windows_ok_length:
  assumes "windows_ok E now ws" and "finite E" and "card (fst ` E) \<le> SERVICE_WINDOW_MAX_ENTRIES"
  shows "length ws \<le> SERVICE_WINDOW_MAX_ENTRIES"
proof -
  have "distinct (map fst ws)" and "set (map fst ws) \<subseteq> fst ` E"
    using assms(1) by (auto simp: windows_ok_def dict_wf_def)
  then have "length ws \<le> card (fst ` E)"
    using assms(2) by (metis card_mono distinct_card finite_imageI length_map)
  then show ?thesis using assms(3) by simp
qed

lemma evict_ok:
  assumes "windows_ok E t ws" and "t \<le> now" and "finite E" and "card (fst ` E) \<le> SERVICE_WINDOW_MAX_ENTRIES"
  shows "windows_ok E now (evict_service_windows now ws)"
    and "dget (evict_service_windows now ws) k =
      (case dget ws k of Some u \<Rightarrow> if u < now - SERVICE_WINDOW_SECONDS then None else Some u | None \<Rightarrow> None)"
proof -
  let ?ws = "dpop_all (dkeys_where (\<lambda>k ts. ts < now - SERVICE_WINDOW_SECONDS) ws) ws"
  have wf: "dict_wf ws" using assms(1) by (simp add: windows_ok_def)
  have "length ?ws \<le> SERVICE_WINDOW_MAX_ENTRIES"
    using windows_ok_length [OF assms(1,3,4)] length_dpop_all_le [of _ ws] by (meson order_trans)
  then have e: "evict_service_windows now ws = ?ws"
    by (simp add: evict_service_windows_def drop_oldest_none)
  have g: "dget ?ws k = (case dget ws k of Some u \<Rightarrow> if u < now - SERVICE_WINDOW_SECONDS then None else Some u | None \<Rightarrow> None)" for k
    by (auto simp: in_dkeys_where_wf [OF wf] split: option.split)
  then show "dget (evict_service_windows now ws) k =
      (case dget ws k of Some u \<Rightarrow> if u < now - SERVICE_WINDOW_SECONDS then None else Some u | None \<Rightarrow> None)"
    by (simp add: e)
  have "set ?ws \<subseteq> set ws" by (auto simp: dpop_all_eq_filter)
  moreover have "\<exists>u. dget ?ws k = Some u \<and> s \<le> u" 
    if mem: "(k, s) \<in> E" and recent: "now - SERVICE_WINDOW_SECONDS \<le> s" for k s
  proof -
    have "t - SERVICE_WINDOW_SECONDS \<le> s" using recent assms(2) by linarith
    then obtain u where "dget ws k = Some u" "s \<le> u" using assms(1) mem unfolding windows_ok_def by blast
    then show ?thesis using recent g [of k] by simp
  qed
  moreover have "\<forall>k s. (k, s) \<in> E \<longrightarrow> s \<le> now" using assms(1,2) unfolding windows_ok_def by (blast intro: order_trans)
  moreover have "set ws \<subseteq> E" and "dict_wf ?ws" using assms(1) by (simp_all add: windows_ok_def)
  ultimately show "windows_ok E now (evict_service_windows now ws)"
    unfolding e windows_ok_def by blast
qed

lemma record_ok:
  assumes "windows_ok E t ws" and "t \<le> now" and "finite E" and "card (fst ` insert (k, now) E) \<le> SERVICE_WINDOW_MAX_ENTRIES"
  shows "windows_ok (insert (k, now) E) now (record_inbound_timestamp k now ws)"
proof -
  have "card (fst ` E) \<le> card (fst ` insert (k, now) E)" by (rule card_mono) (auto simp: assms(3))
  then have small: "card (fst ` E) \<le> SERVICE_WINDOW_MAX_ENTRIES" using assms(4) by linarith
  let ?ws = "evict_service_windows now ws"
  have ok: "windows_ok E now ?ws" by (rule evict_ok(1) [OF assms(1-3) small])
  have "windows_ok (insert (k, now) E) now (dset k now ?ws)"
    unfolding windows_ok_def
  proof (intro conjI allI impI, goal_cases)
    case 1
    then show ?case using ok by (simp add: windows_ok_def)
  next
    case 2
    then show ?case using ok set_dset_subset [of k now ?ws] by (auto simp: windows_ok_def)
  next
    case (3 k' r)
    then show ?case using ok by (auto simp: windows_ok_def)
  next
    case (4 k' r)
    then show ?case using ok by (auto simp: windows_ok_def)
  qed
  then show ?thesis
    using evict_ok(1) [OF _ order_refl _ assms(4)] assms(3) by (simp add: record_inbound_timestamp_def)
qed

lemma window_run_ok:
  assumes "sorted (map snd evs)" and "\<forall>ev \<in> set evs. snd ev \<le> now" and "card (fst ` set evs) \<le> SERVICE_WINDOW_MAX_ENTRIES"
  shows "windows_ok (set evs) now (window_run evs)"
  using assms
proof (induction evs arbitrary: now rule: rev_induct)
  case Nil
  then show ?case by (simp add: windows_ok_def window_run_def)
next
  case (snoc ev evs)
  obtain k t where ev: "ev = (k, t)" by force
  have le: "\<forall>ev \<in> set evs. snd ev \<le> t" and s: "sorted (map snd evs)"
    using snoc.prems(1) by (auto simp: ev sorted_append)
  have small: "card (fst ` insert (k, t) (set evs)) \<le> SERVICE_WINDOW_MAX_ENTRIES"
    using snoc.prems(3) by (simp add: ev)
  have "card (fst ` set evs) \<le> card (fst ` insert (k, t) (set evs))" by (rule card_mono) auto
  then have ok: "windows_ok (set evs) t (window_run evs)" using snoc.IH [OF s le] small by linarith
  have "windows_ok (insert (k, t) (set evs)) t (record_inbound_timestamp k t (window_run evs))"
    by (rule record_ok [OF ok order_refl _ small]) simp
  then have "windows_ok (set (evs @ [ev])) t (window_run (evs @ [ev]))" by (simp add: ev window_run_def)
  moreover have "t \<le> now" using snoc.prems(2) by (simp add: ev)
  ultimately show ?case
    unfolding windows_ok_def by (meson diff_right_mono order_trans)
qed

section \<open>Idempotent sends, in the process\<close>

text \<open>
  A send is stored under the hash of its key with the hash of its payload, the answer and the
  time.  \<open>inflight\<close> names the payload that is being sent now; a second request with the same
  key and payload waits for it.
\<close>

record wa_sent =
  ws_payload :: string
  ws_status :: nat
  ws_body :: string
  ws_at :: clock

record wa_idem =
  sent_store :: "(string, wa_sent) dict"
  inflight :: "(string, string) dict"

datatype wa_verdict = Send | Wait | Answer nat string | Conflict | Missing

definition idempotency_ttl_seconds :: "rat \<Rightarrow> clock" where
  "idempotency_ttl_seconds hours = max (hours * 3600) 0"

definition evict_idempotency_store :: "clock \<Rightarrow> clock \<Rightarrow> (string, wa_sent) dict \<Rightarrow> (string, wa_sent) dict" where
  "evict_idempotency_store ttl now st =
     drop_oldest 50000 ws_at (dpop_all (dkeys_where (\<lambda>k r. ws_at r < now - ttl) st) st)"

definition get_cached_idempotency_result ::
  "clock \<Rightarrow> string \<Rightarrow> string \<Rightarrow> clock \<Rightarrow> (string, wa_sent) dict \<Rightarrow> (string, wa_sent) dict \<times> wa_verdict option" where
  "get_cached_idempotency_result ttl k payload now st =
     (case dget st k of
        None \<Rightarrow> (st, None)
      | Some r \<Rightarrow>
          if ttl \<le> now - ws_at r then (dpop k st, None)
          else (st, Some (if ws_payload r \<noteq> payload then Conflict else Answer (ws_status r) (ws_body r))))"

text \<open>The parts of \<open>send_with_idempotency\<close> between its waits.\<close>

definition idem_arrive :: "clock \<Rightarrow> string \<Rightarrow> string \<Rightarrow> clock \<Rightarrow> wa_idem \<Rightarrow> wa_idem \<times> wa_verdict" where
  "idem_arrive ttl k payload now s =
     (case get_cached_idempotency_result ttl k payload now (evict_idempotency_store ttl now (sent_store s)) of
        (st, Some v) \<Rightarrow> (s\<lparr>sent_store := st\<rparr>, v)
      | (st, None) \<Rightarrow>
          (let s = s\<lparr>sent_store := st\<rparr> in
           case dget (inflight s) k of
             None \<Rightarrow> (s\<lparr>inflight := dset k payload (inflight s)\<rparr>, Send)
           | Some p \<Rightarrow> (s, if p \<noteq> payload then Conflict else Wait)))"

definition idem_sent :: "clock \<Rightarrow> string \<Rightarrow> string \<Rightarrow> nat \<Rightarrow> string \<Rightarrow> clock \<Rightarrow> wa_idem \<Rightarrow> wa_idem" where
  "idem_sent ttl k payload status body now s =
     s\<lparr>sent_store := evict_idempotency_store ttl now
         (dset k \<lparr>ws_payload = payload, ws_status = status, ws_body = body, ws_at = now\<rparr> (sent_store s)),
       inflight := dpop k (inflight s)\<rparr>"

definition idem_raised :: "string \<Rightarrow> wa_idem \<Rightarrow> wa_idem" where
  "idem_raised k s = s\<lparr>inflight := dpop k (inflight s)\<rparr>"

definition idem_woken :: "clock \<Rightarrow> string \<Rightarrow> string \<Rightarrow> clock \<Rightarrow> wa_idem \<Rightarrow> wa_idem \<times> wa_verdict" where
  "idem_woken ttl k payload now s =
     (case get_cached_idempotency_result ttl k payload now (evict_idempotency_store ttl now (sent_store s)) of
        (st, v) \<Rightarrow> (s\<lparr>sent_store := st\<rparr>, case v of Some v \<Rightarrow> v | None \<Rightarrow> Missing))"

text \<open>While a send of a key is running, no other request with this key sends.\<close>

lemma inflight_blocks:
  assumes "dget (inflight s) k = Some p"
  shows "snd (idem_arrive ttl k payload now s) \<noteq> Send"
    and "dget (inflight (fst (idem_arrive ttl k' payload now s))) k = Some p"
  using assms
  by (auto simp: idem_arrive_def get_cached_idempotency_result_def Let_def split: option.splits prod.splits if_splits)

text \<open>With no time to live nothing is kept, and a waiter finds no answer although the send succeeded.\<close>

lemma waiter_needs_ttl:
  assumes "dict_wf (sent_store s)"
  shows "snd (idem_woken 0 k payload now (idem_sent 0 k payload status body now s)) = Missing"
proof -
  have "ws_at r = now" if "dget (sent_store (idem_sent 0 k payload status body now s)) k = Some r" for r
  proof -
    have "(k, r) \<in> set (dset k \<lparr>ws_payload = payload, ws_status = status, ws_body = body, ws_at = now\<rparr> (sent_store s))"
      using that by (auto simp: idem_sent_def evict_idempotency_store_def drop_oldest_def dpop_all_eq_filter dest!: map_of_SomeD)
    then have "dget (dset k \<lparr>ws_payload = payload, ws_status = status, ws_body = body, ws_at = now\<rparr> (sent_store s)) k = Some r"
      using assms by (intro in_set_dget) auto
    then show ?thesis by auto
  qed
  then have "ws_at r = now" if "dget (evict_idempotency_store 0 now (sent_store (idem_sent 0 k payload status body now s))) k = Some r" for r
    using that by (auto simp: evict_idempotency_store_def drop_oldest_def split: if_splits)
  then show ?thesis
    by (auto simp: idem_woken_def get_cached_idempotency_result_def split: option.splits)
qed

section \<open>Properties\<close>

text \<open>
  The service window is exact: after any sequence of inbound messages in order of time, from
  at most 50,000 users, the window of a user is open exactly when this user wrote less than 24
  hours ago, so a free text is sent in no other case.
\<close>

theorem service_window_exact:
  assumes "sorted (map snd evs)" and "\<forall>ev \<in> set evs. snd ev \<le> now" and "card (fst ` set evs) \<le> SERVICE_WINDOW_MAX_ENTRIES"
  shows "snd (check_service_window k now (window_run evs)) \<longleftrightarrow> (\<exists>t. (k, t) \<in> set evs \<and> now - t < SERVICE_WINDOW_SECONDS)"
proof -
  have ok: "windows_ok (set evs) now (window_run evs)" by (rule window_run_ok [OF assms])
  have get: "dget (evict_service_windows now (window_run evs)) k =
      (case dget (window_run evs) k of Some u \<Rightarrow> if u < now - SERVICE_WINDOW_SECONDS then None else Some u | None \<Rightarrow> None)"
    by (rule evict_ok(2) [OF ok order_refl _ assms(3)]) simp
  show ?thesis
  proof
    assume "snd (check_service_window k now (window_run evs))"
    then obtain u where "dget (window_run evs) k = Some u" "now - u < SERVICE_WINDOW_SECONDS"
      by (auto simp: check_service_window_def get split: option.splits if_splits)
    moreover from this have "(k, u) \<in> set evs" using ok dget_in_set unfolding windows_ok_def by fastforce
    ultimately show "\<exists>t. (k, t) \<in> set evs \<and> now - t < SERVICE_WINDOW_SECONDS" by blast
  next
    assume "\<exists>t. (k, t) \<in> set evs \<and> now - t < SERVICE_WINDOW_SECONDS"
    then obtain t where t: "(k, t) \<in> set evs" "now - t < SERVICE_WINDOW_SECONDS" by blast
    moreover have "now - SERVICE_WINDOW_SECONDS \<le> t" using t(2) by linarith
    ultimately obtain u where "dget (window_run evs) k = Some u" "t \<le> u"
      using ok unfolding windows_ok_def by blast
    then show "snd (check_service_window k now (window_run evs))"
      using t(2) by (simp add: check_service_window_def get)
  qed
qed

theorem service_window_exact_witness:
  "snd (check_service_window ''a'' 90000 (window_run [(''a'', 5), (''b'', 6), (''a'', 10000)])) \<and>
   \<not> snd (check_service_window ''b'' 90000 (window_run [(''a'', 5), (''b'', 6), (''a'', 10000)]))"
proof -
  have "snd (check_service_window k 90000 (window_run [(''a'', 5), (''b'', 6), (''a'', 10000)])) \<longleftrightarrow>
      (\<exists>t. (k, t) \<in> set [(''a'', 5), (''b'', 6), (''a'', 10000)] \<and> 90000 - t < SERVICE_WINDOW_SECONDS)" for k
    by (rule service_window_exact) (simp_all add: SERVICE_WINDOW_MAX_ENTRIES_def card_insert_if)
  note exact = this
  have "snd (check_service_window ''a'' 90000 (window_run [(''a'', 5), (''b'', 6), (''a'', 10000)]))"
    unfolding exact by (rule exI [of _ 10000]) (simp add: SERVICE_WINDOW_SECONDS_def)
  moreover have "\<not> snd (check_service_window ''b'' 90000 (window_run [(''a'', 5), (''b'', 6), (''a'', 10000)]))"
    unfolding exact by (simp add: SERVICE_WINDOW_SECONDS_def)
  ultimately show ?thesis by simp
qed

end
