(* ===== verification/Wa_Send_Cloud.thy ===== *)
theory Wa_Send_Cloud
  imports Wa_Outbound
begin

text \<open>
  \<open>_send_with_idempotency_firestore\<close> of \<open>app/api/v1/at/service_whatsapp.py\<close>: the replicas that
  serve one idempotency key share a Firestore document, and every \<open>await\<close> lets others run.  A
  request is a record with its phase between two awaits; a step of the machine is one access
  to the document (or one outcome of the send), or the passing of time.
\<close>

record cloud_doc =
  cd_payload :: string
  cd_answer :: "(nat \<times> string) option"
  cd_expires :: clock

datatype cloud_result = Answered nat string | Conflicted | Result_Missing | Raised

text \<open>
  \<open>Starting\<close> is the head of the loop; \<open>Asked\<close> has taken its time and reads the document next,
  \<open>Deleting\<close> removes an expired one and \<open>Creating\<close> claims the key; then the message is sent, the
  answer stored and the collection pruned; \<open>Clearing\<close> is the handler of any exception of these.
\<close>

datatype phase = Starting | Asked clock | Deleting clock | Creating clock | Sending | Storing nat string | Pruning nat string
  | Clearing | Finished cloud_result

record cloud_request =
  rq_payload :: string
  rq_deadline :: clock
  rq_phase :: phase

record cloud_machine =
  doc :: "cloud_doc option"
  clock_now :: clock
  requests :: "(nat, cloud_request) dict"
  others :: nat

definition after_read :: "clock \<Rightarrow> cloud_request \<Rightarrow> cloud_doc option \<Rightarrow> phase" where
  "after_read now r d =
     (case d of
        None \<Rightarrow> Creating now
      | Some d \<Rightarrow>
          if now < cd_expires d then
            (if cd_payload d \<noteq> rq_payload r then Finished Conflicted
             else case cd_answer d of
               Some (status, body) \<Rightarrow> Finished (Answered status body)
             | None \<Rightarrow> if rq_deadline r \<le> now then Finished Result_Missing else Starting)
          else Deleting now)"

definition phase_of :: "cloud_machine \<Rightarrow> nat \<Rightarrow> phase option" where
  "phase_of m p = map_option rq_phase (dget (requests m) p)"

definition goto :: "nat \<Rightarrow> phase \<Rightarrow> cloud_machine \<Rightarrow> cloud_machine" where
  "goto p ph m = (case dget (requests m) p of
      None \<Rightarrow> m
    | Some r \<Rightarrow> m\<lparr>requests := dset p (r\<lparr>rq_phase := ph\<rparr>) (requests m)\<rparr>)"

definition payload_of :: "cloud_machine \<Rightarrow> nat \<Rightarrow> string" where
  "payload_of m p = (case dget (requests m) p of Some r \<Rightarrow> rq_payload r | None \<Rightarrow> [])"

definition claim :: "clock \<Rightarrow> clock \<Rightarrow> string \<Rightarrow> cloud_doc" where
  "claim ttl now payload = \<lparr>cd_payload = payload, cd_answer = None, cd_expires = now + ttl\<rparr>"

definition IDEMPOTENCY_MAX_ENTRIES :: nat where "IDEMPOTENCY_MAX_ENTRIES = 50000"

text \<open>
  \<open>others\<close> counts the documents of other keys in the collection, at most \<open>cap\<close> at any time: a
  request of any key prunes the collection to its maximum, and may then remove this document.
\<close>

inductive cloud_step :: "clock \<Rightarrow> nat \<Rightarrow> cloud_machine \<Rightarrow> cloud_machine \<Rightarrow> bool" for ttl cap where
  tick: "clock_now m \<le> t \<Longrightarrow> cloud_step ttl cap m (m\<lparr>clock_now := t\<rparr>)"
| arrive: "dget (requests m) p = None \<Longrightarrow>
    cloud_step ttl cap m (m\<lparr>requests := dset p \<lparr>rq_payload = h, rq_deadline = clock_now m + max ttl 5, rq_phase = Starting\<rparr>
      (requests m)\<rparr>)"
| ask: "phase_of m p = Some Starting \<Longrightarrow> cloud_step ttl cap m (goto p (Asked (clock_now m)) m)"
| read: "dget (requests m) p = Some r \<Longrightarrow> rq_phase r = Asked now \<Longrightarrow> cloud_step ttl cap m (goto p (after_read now r (doc m)) m)"
| delete: "phase_of m p = Some (Deleting now) \<Longrightarrow> cloud_step ttl cap m (goto p (Creating now) (m\<lparr>doc := None\<rparr>))"
| create: "phase_of m p = Some (Creating now) \<Longrightarrow> doc m = None \<Longrightarrow>
    cloud_step ttl cap m (goto p Sending (m\<lparr>doc := Some (claim ttl now (payload_of m p))\<rparr>))"
| exists: "dget (requests m) p = Some r \<Longrightarrow> rq_phase r = Creating now \<Longrightarrow> doc m \<noteq> None \<Longrightarrow>
    cloud_step ttl cap m (goto p (if rq_deadline r \<le> now then Finished Result_Missing else Starting) m)"
| sent: "phase_of m p = Some Sending \<Longrightarrow> cloud_step ttl cap m (goto p (Storing status body) m)"
| stored: "phase_of m p = Some (Storing status body) \<Longrightarrow>
    cloud_step ttl cap m (goto p (Pruning status body)
      (m\<lparr>doc := Some \<lparr>cd_payload = payload_of m p, cd_answer = Some (status, body), cd_expires = clock_now m + ttl\<rparr>\<rparr>))"
| pruned: "phase_of m p = Some (Pruning status body) \<Longrightarrow> cloud_step ttl cap m (goto p (Finished (Answered status body)) m)"
| raised: "phase_of m p \<in> {Some Sending, Some (Storing status body), Some (Pruning status body)} \<Longrightarrow>
    cloud_step ttl cap m (goto p Clearing m)"
| cleared: "phase_of m p = Some Clearing \<Longrightarrow> cloud_step ttl cap m (goto p (Finished Raised) (m\<lparr>doc := None\<rparr>))"
| uncleared: "phase_of m p = Some Clearing \<Longrightarrow> cloud_step ttl cap m (goto p (Finished Raised) m)"
| crowd: "n \<le> cap \<Longrightarrow> cloud_step ttl cap m (m\<lparr>others := n\<rparr>)"
| evicted: "IDEMPOTENCY_MAX_ENTRIES \<le> others m \<Longrightarrow> cloud_step ttl cap m (m\<lparr>doc := None\<rparr>)"

abbreviation cloud_reach :: "clock \<Rightarrow> nat \<Rightarrow> cloud_machine \<Rightarrow> cloud_machine \<Rightarrow> bool" where
  "cloud_reach ttl cap \<equiv> (cloud_step ttl cap)\<^sup>*\<^sup>*"

definition cloud_start :: "clock \<Rightarrow> cloud_doc option \<Rightarrow> cloud_machine" where
  "cloud_start t d = \<lparr>doc = d, clock_now = t, requests = [], others = 0\<rparr>"

section \<open>One sender at a time\<close>

lemma phase_of_goto:
  "phase_of (goto p ph m) q = (if q = p \<and> dget (requests m) p \<noteq> None then Some ph else phase_of m q)"
  by (auto simp: phase_of_def goto_def split: option.splits)

lemma goto_keeps [simp]: "doc (goto p ph m) = doc m" "others (goto p ph m) = others m" "clock_now (goto p ph m) = clock_now m"
  by (simp_all add: goto_def split: option.splits)

lemma phase_of_update [simp]:
  "phase_of (m\<lparr>doc := d\<rparr>) p = phase_of m p" "phase_of (m\<lparr>others := n\<rparr>) p = phase_of m p"
  "phase_of (m\<lparr>clock_now := t\<rparr>) p = phase_of m p"
  by (simp_all add: phase_of_def)

fun sender :: "phase \<Rightarrow> bool" where
  "sender Sending = True"
| "sender (Storing status body) = True"
| "sender (Pruning status body) = True"
| "sender Clearing = True"
| "sender _ = False"

text \<open>Phases a request can be in before the first expiry: none deletes, all times are recent.\<close>

fun early :: "clock \<Rightarrow> phase \<Rightarrow> bool" where
  "early t0 (Asked now) = (t0 \<le> now)"
| "early t0 (Creating now) = (t0 \<le> now)"
| "early t0 (Deleting now) = False"
| "early t0 _ = True"

definition one_sender :: "clock \<Rightarrow> clock \<Rightarrow> cloud_machine \<Rightarrow> bool" where
  "one_sender ttl t0 m \<longleftrightarrow> t0 \<le> clock_now m \<and> others m < IDEMPOTENCY_MAX_ENTRIES \<and> (\<forall>p ph. phase_of m p = Some ph \<longrightarrow> early t0 ph) \<and>
     (\<forall>p now. phase_of m p = Some (Asked now) \<longrightarrow> now \<le> clock_now m) \<and>
     (\<forall>d. doc m = Some d \<longrightarrow> t0 + ttl \<le> cd_expires d) \<and>
     (\<forall>p q ph ph'. phase_of m p = Some ph \<longrightarrow> sender ph \<longrightarrow> phase_of m q = Some ph' \<longrightarrow> sender ph' \<longrightarrow> p = q) \<and>
     (\<forall>p ph. phase_of m p = Some ph \<longrightarrow> sender ph \<longrightarrow> doc m \<noteq> None)"

lemma after_read_early:
  assumes "t0 \<le> now" and "now < t0 + ttl" and "\<forall>d. dc = Some d \<longrightarrow> t0 + ttl \<le> cd_expires d"
  shows "early t0 (after_read now r dc)" and "\<not> sender (after_read now r dc)"
    and "after_read now r dc \<noteq> Asked t"
  using assms by (auto simp: after_read_def split: option.splits)

lemma one_sender_step:
  assumes "cloud_step ttl cap m m'" and "one_sender ttl t0 m" and "clock_now m' < t0 + ttl"
    and "cap < IDEMPOTENCY_MAX_ENTRIES"
  shows "one_sender ttl t0 m'"
  using assms
proof (induction rule: cloud_step.induct)
  case (tick m t)
  then show ?case unfolding one_sender_def by simp (meson order_trans)
next
  case (arrive m p h)
  then show ?case unfolding one_sender_def phase_of_def by (auto split: if_splits)
next
  case (ask m p)
  then show ?case unfolding one_sender_def by (auto simp: phase_of_goto split: if_splits)
next
  case (read m p r now)
  then have ph: "phase_of m p = Some (Asked now)" by (simp add: phase_of_def)
  then have "t0 \<le> now" "now < t0 + ttl" using read unfolding one_sender_def by fastforce+
  note e = after_read_early [OF this, of "doc m" r]
  then show ?case using read ph unfolding one_sender_def by (auto simp: phase_of_goto split: if_splits)
next
  case (delete m p now)
  then show ?case unfolding one_sender_def by fastforce
next
  case (create m p now)
  then have "t0 \<le> now" unfolding one_sender_def by fastforce
  then show ?case using create unfolding one_sender_def by (auto simp: phase_of_goto claim_def split: if_splits)
next
  case (exists m p r now)
  then show ?case unfolding one_sender_def by (auto simp: phase_of_goto split: if_splits)
next
  case (sent m p status body)
  then show ?case unfolding one_sender_def by (auto simp: phase_of_goto split: if_splits)
next
  case (stored m p status body)
  then show ?case unfolding one_sender_def by (auto simp: phase_of_goto split: if_splits)
next
  case (pruned m p status body)
  then show ?case unfolding one_sender_def by (auto simp: phase_of_goto split: if_splits)
next
  case (raised m p status body)
  then show ?case unfolding one_sender_def by (auto simp: phase_of_goto split: if_splits)
next
  case (cleared m p)
  then have "dget (requests m) p \<noteq> None" by (auto simp: phase_of_def)
  then show ?case using cleared unfolding one_sender_def by (auto simp: phase_of_goto split: if_splits)
next
  case (uncleared m p)
  then show ?case unfolding one_sender_def by (auto simp: phase_of_goto split: if_splits)
next
  case (crowd n m)
  then show ?case unfolding one_sender_def by simp
next
  case (evicted m)
  then show ?case unfolding one_sender_def by simp
qed

lemma clock_mono: "cloud_step ttl cap m m' \<Longrightarrow> clock_now m \<le> clock_now m'"
  by (induction rule: cloud_step.induct) simp_all

lemma one_sender_reach:
  assumes "cloud_reach ttl cap (cloud_start t0 None) m" and "clock_now m < t0 + ttl" and "cap < IDEMPOTENCY_MAX_ENTRIES"
  shows "one_sender ttl t0 m"
  using assms
proof (induction rule: rtranclp_induct)
  case base
  then show ?case by (simp add: one_sender_def cloud_start_def phase_of_def IDEMPOTENCY_MAX_ENTRIES_def)
next
  case (step m m')
  then have "clock_now m < t0 + ttl" using clock_mono by fastforce
  then show ?case using step one_sender_step by blast
qed

section \<open>Properties\<close>

text \<open>
  C14 Within one time to live of the first use of a key, at most one replica at a time is
  sending its message (or storing its answer): whatever the interleaving of the replicas'
  accesses to the document, with failures of sends and of stores, two requests are never
  between their claim and their end together.  This holds as long as the collection keeps fewer
  than 50000 documents of other keys: beyond that, pruning by any other request may remove the
  claim (\<open>crowded_claim_sent_twice\<close>).
\<close>

theorem cloud_send_exclusive:
  assumes "cloud_reach ttl cap (cloud_start t0 None) m" and "clock_now m < t0 + ttl" and "cap < IDEMPOTENCY_MAX_ENTRIES"
    and "phase_of m p = Some ph" and "sender ph" and "phase_of m q = Some ph'" and "sender ph'"
  shows "p = q"
  using one_sender_reach [OF assms(1-3)] assms(4-7) unfolding one_sender_def by metis

lemma cloud_path_start:
  "cloud_reach ttl cap (cloud_start t d)
     (cloud_start t d\<lparr>requests := [(0, \<lparr>rq_payload = h, rq_deadline = t + max ttl 5, rq_phase = Asked t\<rparr>),
       (1, \<lparr>rq_payload = h, rq_deadline = t + max ttl 5, rq_phase = Asked t\<rparr>)]\<rparr>)"
proof -
  let ?r = "\<lparr>rq_payload = h, rq_deadline = t + max ttl 5, rq_phase = Starting\<rparr>"
  let ?m1 = "cloud_start t d\<lparr>requests := [(0, ?r)]\<rparr>" and ?m2 = "cloud_start t d\<lparr>requests := [(0, ?r), (1, ?r)]\<rparr>"
  have "cloud_step ttl cap (cloud_start t d) ?m1"
    using cloud_step.arrive [of "cloud_start t d" 0 ttl cap h] by (simp add: cloud_start_def)
  moreover have "cloud_step ttl cap ?m1 ?m2"
    using cloud_step.arrive [of ?m1 1 ttl cap h] by (simp add: cloud_start_def)
  moreover have "cloud_step ttl cap ?m2 (goto 0 (Asked t) ?m2)"
    using cloud_step.ask [of ?m2 0 ttl cap] by (simp add: cloud_start_def phase_of_def)
  moreover have "cloud_step ttl cap (goto 0 (Asked t) ?m2) (goto 1 (Asked t) (goto 0 (Asked t) ?m2))"
    using cloud_step.ask [of "goto 0 (Asked t) ?m2" 1 ttl cap] by (simp add: cloud_start_def phase_of_def goto_def)
  moreover have "goto 1 (Asked t) (goto 0 (Asked t) ?m2) = cloud_start t d\<lparr>requests := [(0, ?r\<lparr>rq_phase := Asked t\<rparr>), (1, ?r\<lparr>rq_phase := Asked t\<rparr>)]\<rparr>"
    by (simp add: cloud_start_def goto_def)
  ultimately show ?thesis by (simp add: converse_rtranclp_into_rtranclp)
qed

lemma sample_sending:
  "\<exists>m. cloud_reach 60 100 (cloud_start 0 None) m \<and> clock_now m = 0 \<and> phase_of m 0 = Some Sending \<and> phase_of m 1 = Some (Creating 0)"
proof -
  let ?q = "\<lambda>ph. \<lparr>rq_payload = [], rq_deadline = 60, rq_phase = ph\<rparr>"
  let ?m = "\<lambda>x ph0 ph1. \<lparr>doc = x, clock_now = 0, requests = [(0, ?q ph0), (1, ?q ph1)], others = 0\<rparr>"
  have "cloud_reach 60 100 (cloud_start 0 None) (?m None (Asked 0) (Asked 0))"
    using cloud_path_start [of 60 100 0 None "[]"] by (simp add: cloud_start_def)
  moreover have "cloud_step 60 100 (?m None (Asked 0) (Asked 0)) (?m None (Creating 0) (Asked 0))"
    using cloud_step.read [of "?m None (Asked 0) (Asked 0)" 0 "?q (Asked 0)" 0 60 100] by (simp add: goto_def after_read_def)
  moreover have "cloud_step 60 100 (?m None (Creating 0) (Asked 0)) (?m None (Creating 0) (Creating 0))"
    using cloud_step.read [of "?m None (Creating 0) (Asked 0)" 1 "?q (Asked 0)" 0 60 100] by (simp add: goto_def after_read_def)
  moreover have "cloud_step 60 100 (?m None (Creating 0) (Creating 0)) (?m (Some (claim 60 0 [])) Sending (Creating 0))"
    using cloud_step.create [of "?m None (Creating 0) (Creating 0)" 0 0 60 100]
    by (simp add: goto_def phase_of_def payload_of_def)
  ultimately have "cloud_reach 60 100 (cloud_start 0 None) (?m (Some (claim 60 0 [])) Sending (Creating 0))"
    by (meson rtranclp.rtrancl_into_rtrancl)
  moreover have "phase_of (?m x Sending (Creating 0)) 0 = Some Sending" "phase_of (?m x Sending (Creating 0)) 1 = Some (Creating 0)" for x
    by (simp_all add: phase_of_def)
  ultimately show ?thesis by fastforce
qed

theorem cloud_send_exclusive_witness:
  "\<exists>m. cloud_reach 60 100 (cloud_start 0 None) m \<and> {p. phase_of m p = Some Sending} = {0}"
proof -
  obtain m where m: "cloud_reach 60 100 (cloud_start 0 None) m" "clock_now m = 0" "phase_of m 0 = Some Sending"
    using sample_sending by blast
  then have "p = 0" if "phase_of m p = Some Sending" for p
    using cloud_send_exclusive [OF m(1) _ _ that _ m(3)] m(2) by (simp add: IDEMPOTENCY_MAX_ENTRIES_def)
  then have "{p. phase_of m p = Some Sending} = {0}" using m(3) by blast
  with m(1) show ?thesis by blast
qed

text \<open>
  An expired document lets two replicas send the same message: both read it, the first
  deletes it and claims the key, and the second, which decided to delete before, deletes the
  fresh claim of the first and claims the key again.
\<close>

theorem expired_claim_sent_twice:
  assumes "cd_expires d \<le> t"
  shows "\<exists>m. cloud_reach ttl cap (cloud_start t (Some d)) m \<and> phase_of m 0 = Some Sending \<and> phase_of m 1 = Some Sending \<and>
    payload_of m 0 = payload_of m 1"
proof -
  let ?q = "\<lambda>ph. \<lparr>rq_payload = [], rq_deadline = t + max ttl 5, rq_phase = ph\<rparr>"
  let ?m = "\<lambda>x ph0 ph1. \<lparr>doc = x, clock_now = t, requests = [(0, ?q ph0), (1, ?q ph1)], others = 0\<rparr>"
  let ?c = "Some (claim ttl t [])"
  have "cloud_reach ttl cap (cloud_start t (Some d)) (?m (Some d) (Asked t) (Asked t))"
    using cloud_path_start [of ttl cap t "Some d" "[]"] by (simp add: cloud_start_def)
  moreover have "cloud_step ttl cap (?m (Some d) (Asked t) (Asked t)) (?m (Some d) (Deleting t) (Asked t))"
    using cloud_step.read [of "?m (Some d) (Asked t) (Asked t)" 0 "?q (Asked t)" t ttl cap] assms
    by (simp add: goto_def after_read_def)
  moreover have "cloud_step ttl cap (?m (Some d) (Deleting t) (Asked t)) (?m (Some d) (Deleting t) (Deleting t))"
    using cloud_step.read [of "?m (Some d) (Deleting t) (Asked t)" 1 "?q (Asked t)" t ttl cap] assms
    by (simp add: goto_def after_read_def)
  moreover have "cloud_step ttl cap (?m (Some d) (Deleting t) (Deleting t)) (?m None (Creating t) (Deleting t))"
    using cloud_step.delete [of "?m (Some d) (Deleting t) (Deleting t)" 0 t ttl cap] by (simp add: goto_def phase_of_def)
  moreover have "cloud_step ttl cap (?m None (Creating t) (Deleting t)) (?m ?c Sending (Deleting t))"
    using cloud_step.create [of "?m None (Creating t) (Deleting t)" 0 t ttl cap]
    by (simp add: goto_def phase_of_def payload_of_def)
  moreover have "cloud_step ttl cap (?m ?c Sending (Deleting t)) (?m None Sending (Creating t))"
    using cloud_step.delete [of "?m ?c Sending (Deleting t)" 1 t ttl cap] by (simp add: goto_def phase_of_def)
  moreover have "cloud_step ttl cap (?m None Sending (Creating t)) (?m ?c Sending Sending)"
    using cloud_step.create [of "?m None Sending (Creating t)" 1 t ttl cap]
    by (simp add: goto_def phase_of_def payload_of_def)
  ultimately have "cloud_reach ttl cap (cloud_start t (Some d)) (?m ?c Sending Sending)"
    by (meson rtranclp.rtrancl_into_rtrancl)
  moreover have "phase_of (?m ?c Sending Sending) 0 = Some Sending" "phase_of (?m ?c Sending Sending) 1 = Some Sending"
    "payload_of (?m ?c Sending Sending) 0 = payload_of (?m ?c Sending Sending) 1"
    by (simp_all add: phase_of_def payload_of_def)
  ultimately show ?thesis by blast
qed

theorem expired_claim_sent_twice_witness:
  "\<exists>m. cloud_reach 60 100 (cloud_start 100 (Some (claim 60 0 ''h''))) m \<and> phase_of m 0 = Some Sending \<and>
     phase_of m 1 = Some Sending \<and> payload_of m 0 = payload_of m 1"
  by (rule expired_claim_sent_twice) (simp add: claim_def)

text \<open>
  In a full collection a claim can be pruned while its message is sent, and the next replica
  sends the message again.
\<close>

theorem crowded_claim_sent_twice:
  assumes "IDEMPOTENCY_MAX_ENTRIES \<le> cap"
  shows "\<exists>m. cloud_reach 60 cap (cloud_start 0 None) m \<and> phase_of m 0 = Some Sending \<and> phase_of m 1 = Some Sending"
proof -
  let ?q = "\<lambda>ph. \<lparr>rq_payload = [], rq_deadline = 60, rq_phase = ph\<rparr>"
  let ?m = "\<lambda>x ph0 ph1 n. \<lparr>doc = x, clock_now = 0, requests = [(0, ?q ph0), (1, ?q ph1)], others = n\<rparr>"
  let ?c = "Some (claim 60 0 [])" and ?n = IDEMPOTENCY_MAX_ENTRIES
  have "cloud_reach 60 cap (cloud_start 0 None) (?m None (Asked 0) (Asked 0) 0)"
    using cloud_path_start [of 60 cap 0 None "[]"] by (simp add: cloud_start_def)
  moreover have "cloud_step 60 cap (?m None (Asked 0) (Asked 0) 0) (?m None (Creating 0) (Asked 0) 0)"
    using cloud_step.read [of "?m None (Asked 0) (Asked 0) 0" 0 "?q (Asked 0)" 0 60 cap] by (simp add: goto_def after_read_def)
  moreover have "cloud_step 60 cap (?m None (Creating 0) (Asked 0) 0) (?m None (Creating 0) (Creating 0) 0)"
    using cloud_step.read [of "?m None (Creating 0) (Asked 0) 0" 1 "?q (Asked 0)" 0 60 cap] by (simp add: goto_def after_read_def)
  moreover have "cloud_step 60 cap (?m None (Creating 0) (Creating 0) 0) (?m ?c Sending (Creating 0) 0)"
    using cloud_step.create [of "?m None (Creating 0) (Creating 0) 0" 0 0 60 cap]
    by (simp add: goto_def phase_of_def payload_of_def)
  moreover have "cloud_step 60 cap (?m ?c Sending (Creating 0) 0) (?m ?c Sending (Creating 0) ?n)"
    using cloud_step.crowd [OF assms, of 60 "?m ?c Sending (Creating 0) 0"] by simp
  moreover have "cloud_step 60 cap (?m ?c Sending (Creating 0) ?n) (?m None Sending (Creating 0) ?n)"
    using cloud_step.evicted [of "?m ?c Sending (Creating 0) ?n" 60 cap] by simp
  moreover have "cloud_step 60 cap (?m None Sending (Creating 0) ?n) (?m ?c Sending Sending ?n)"
    using cloud_step.create [of "?m None Sending (Creating 0) ?n" 1 0 60 cap]
    by (simp add: goto_def phase_of_def payload_of_def)
  ultimately have "cloud_reach 60 cap (cloud_start 0 None) (?m ?c Sending Sending ?n)"
    by (meson rtranclp.rtrancl_into_rtrancl)
  moreover have "phase_of (?m ?c Sending Sending ?n) 0 = Some Sending" "phase_of (?m ?c Sending Sending ?n) 1 = Some Sending"
    by (simp_all add: phase_of_def)
  ultimately show ?thesis by blast
qed

theorem crowded_claim_sent_twice_witness:
  "\<exists>m. cloud_reach 60 IDEMPOTENCY_MAX_ENTRIES (cloud_start 0 None) m \<and> phase_of m 0 = Some Sending \<and> phase_of m 1 = Some Sending"
  by (rule crowded_claim_sent_twice) simp

end
