(* ===== verification/Gateway_Client.thy ===== *)
theory Gateway_Client
  imports Py_Records Ws_Auth
begin

text \<open>
  \<open>sip_bridge/gateway_client.py\<close>: the WebSocket client of the bridges.  The socket is the
  flag \<open>gw_open\<close>; what is written to it is the result.  JSON, HMAC, \<open>quote\<close> and
  \<open>urlencode\<close> are arguments.  The reconnection loop both call sessions run around the client
  is here too: its input says, attempt by attempt, what the loop observes.
\<close>

record gateway_client =
  gateway_ws_url :: string
  gw_user_id :: string
  gw_session_id :: string
  gw_tenant_id :: string
  gw_company_id :: string
  gw_industry :: string
  gw_caller_phone :: string
  ws_secret :: string
  canonical_session_id :: string
  resumption_token :: string
  gw_open :: bool

datatype gateway_error = MissingSecret | ConnectionFailed | Disconnected

datatype gateway_frame = AudioFrame bytes | TextFrame string

definition remember_canonical_session_id :: "string \<Rightarrow> gateway_client \<Rightarrow> gateway_client" where
  "remember_canonical_session_id sid c = c\<lparr>canonical_session_id := sid\<rparr>"

definition remember_resumption_token :: "string \<Rightarrow> gateway_client \<Rightarrow> gateway_client" where
  "remember_resumption_token token c = c\<lparr>resumption_token := token\<rparr>"

text \<open>
  \<open>_mint_token\<close>: the token format of the backend (\<open>Ws_Auth\<close>), with a fresh \<open>jti\<close> and
  an expiry five minutes ahead.
\<close>

definition TOKEN_TTL :: rat where "TOKEN_TTL = 300"

definition mint_token ::
  "(string \<Rightarrow> string \<Rightarrow> bytes) \<Rightarrow> (py \<Rightarrow> bytes) \<Rightarrow> clock \<Rightarrow> string \<Rightarrow> gateway_client
     \<Rightarrow> gateway_error + string" where
  "mint_token hmac dumps now jti c =
     (if ws_secret c = [] then Inl MissingSecret
      else Inr (sign_token hmac dumps (ws_secret c)
        (token_payload (gw_user_id c) (gw_tenant_id c) (gw_company_id c) (fl (now + TOKEN_TTL)) jti
           (gw_caller_phone c))))"

text \<open>The URL: base, path and the query parameters that are set.\<close>

definition opt_param :: "string \<Rightarrow> string \<Rightarrow> (string \<times> string) list" where
  "opt_param k v = (if v = [] then [] else [(k, v)])"

definition connect_params :: "gateway_client \<Rightarrow> string \<Rightarrow> string \<Rightarrow> (string \<times> string) list" where
  "connect_params c token resumption =
     opt_param ''tenantId'' (gw_tenant_id c) @ opt_param ''companyId'' (gw_company_id c) @
     opt_param ''industry'' (gw_industry c) @ [(''token'', token)] @
     opt_param ''resumption_token'' resumption"

definition build_connect_url ::
  "(string \<Rightarrow> string) \<Rightarrow> ((string \<times> string) list \<Rightarrow> string) \<Rightarrow> (gateway_client \<Rightarrow> gateway_error + string)
     \<Rightarrow> string \<Rightarrow> string \<Rightarrow> gateway_client \<Rightarrow> gateway_error + string" where
  "build_connect_url quote urlencode mint session_id_override resumption c =
     (let sid = or_else session_id_override (gw_session_id c);
          base = rstrip_where (\<lambda>ch. ch = CHR ''/'') (gateway_ws_url c);
          path = ''/ws/'' @ quote (gw_user_id c) @ ''/'' @ quote sid
      in case mint c of
           Inl e \<Rightarrow> Inl e
         | Inr token \<Rightarrow>
             (let qs = urlencode (connect_params c token resumption)
              in Inr (if qs = [] then base @ path else base @ path @ ''?'' @ qs)))"

text \<open>\<open>connect\<close> and \<open>reconnect\<close>; \<open>accepts\<close> says whether the service takes the URL.\<close>

definition gateway_connect ::
  "(string \<Rightarrow> string \<Rightarrow> gateway_client \<Rightarrow> gateway_error + string) \<Rightarrow> (string \<Rightarrow> bool) \<Rightarrow> gateway_client
     \<Rightarrow> gateway_client \<times> gateway_error option" where
  "gateway_connect url accepts c =
     (case url [] [] c of
        Inl e \<Rightarrow> (c, Some e)
      | Inr u \<Rightarrow> if accepts u then (c\<lparr>gw_open := True\<rparr>, None) else (c, Some ConnectionFailed))"

definition gateway_reconnect ::
  "(string \<Rightarrow> string \<Rightarrow> gateway_client \<Rightarrow> gateway_error + string) \<Rightarrow> (string \<Rightarrow> bool) \<Rightarrow> gateway_client
     \<Rightarrow> gateway_client \<times> gateway_error option" where
  "gateway_reconnect url accepts c =
     (let c = c\<lparr>gw_open := False\<rparr>;
          sid = or_else (canonical_session_id c) (gw_session_id c)
      in case url sid (resumption_token c) c of
           Inl e \<Rightarrow> (c, Some e)
         | Inr u \<Rightarrow> if accepts u then (c\<lparr>gw_open := True\<rparr>, None) else (c, Some ConnectionFailed))"

text \<open>\<open>send_audio\<close> and \<open>send_text\<close>: what goes on the wire.\<close>

definition gateway_send :: "'a \<Rightarrow> gateway_client \<Rightarrow> gateway_error + 'a" where
  "gateway_send x c = (if gw_open c then Inr x else Inl Disconnected)"

definition gateway_close :: "gateway_client \<Rightarrow> gateway_client" where
  "gateway_close c = c\<lparr>gw_open := False\<rparr>"

text \<open>The bridge and the backend build the same token.\<close>

lemma mint_token_is_ws_token:
  "mint_token hmac dumps now jti c =
     (case create_ws_token hmac dumps (ws_secret c) jti (gw_user_id c) (gw_tenant_id c) (gw_company_id c)
             300 (gw_caller_phone c) now of
        None \<Rightarrow> Inl MissingSecret | Some token \<Rightarrow> Inr token)"
  by (simp add: mint_token_def create_ws_token_def TOKEN_TTL_def)

section \<open>The reconnection loop\<close>

text \<open>
  What one attempt sees: the shutdown flag when it starts, the flag after the wait, whether
  \<open>reconnect\<close> succeeds, and the flag once one of the two transfer tasks has ended; a transfer
  of which neither task ever ends is \<open>None\<close>.
\<close>

record attempt_view =
  shut_at_start :: bool
  shut_after_wait :: bool
  reconnects :: bool
  shut_after_transfer :: "bool option"

definition MAX_RETRIES :: nat where "MAX_RETRIES = 5"

definition retry_delay :: "nat \<Rightarrow> rat" where
  "retry_delay attempt = min (1 * 2 ^ (attempt - 1)) 5"

text \<open>
  The waits of the run, how many transfers were started, and where it ends: the loop returned
  because it saw the flag, it set the flag itself and returned, or it has not returned.
\<close>

datatype bidi_end = SawShutdown | SetShutdown | StillTransferring

fun bidi_from :: "nat \<Rightarrow> attempt_view list \<Rightarrow> rat list \<times> nat \<times> bidi_end" where
  "bidi_from attempt [] = ([], 0, SetShutdown)"
| "bidi_from attempt (v # vs) =
     (if shut_at_start v then ([], 0, SawShutdown)
      else
        let ws = (if attempt > 0 then [retry_delay attempt] else []) in
        if attempt > 0 \<and> shut_after_wait v then (ws, 0, SawShutdown)
        else if attempt > 0 \<and> \<not> reconnects v then
          (let (ws', n, e) = bidi_from (Suc attempt) vs in (ws @ ws', n, e))
        else case shut_after_transfer v of
          None \<Rightarrow> (ws, 1, StillTransferring)
        | Some True \<Rightarrow> (ws, 1, SawShutdown)
        | Some False \<Rightarrow> (let (ws', n, e) = bidi_from (Suc attempt) vs in (ws @ ws', Suc n, e)))"

definition gateway_bidi_loop :: "(nat \<Rightarrow> attempt_view) \<Rightarrow> rat list \<times> nat \<times> bidi_end" where
  "gateway_bidi_loop views = bidi_from 0 (map views [0..<MAX_RETRIES + 1])"

text \<open>An attempt after the first that sees the flag, that hangs, and that leads to the next one.\<close>

definition sees_shutdown :: "attempt_view \<Rightarrow> bool" where
  "sees_shutdown v \<longleftrightarrow> shut_at_start v \<or> shut_after_wait v \<or> reconnects v \<and> shut_after_transfer v = Some True"

definition hangs :: "attempt_view \<Rightarrow> bool" where
  "hangs v \<longleftrightarrow> \<not> shut_at_start v \<and> \<not> shut_after_wait v \<and> reconnects v \<and> shut_after_transfer v = None"

definition disconnects :: "attempt_view \<Rightarrow> bool" where
  "disconnects v \<longleftrightarrow> \<not> shut_at_start v \<and> \<not> shut_after_wait v \<and> (reconnects v \<longrightarrow> shut_after_transfer v = Some False)"

lemma attempt_cases:
  obtains "sees_shutdown v" | "hangs v" | "disconnects v"
  by (cases "shut_after_transfer v") (auto simp: sees_shutdown_def hangs_def disconnects_def)

lemma retry_delay_bounds: "0 \<le> retry_delay a \<and> retry_delay a \<le> 5"
  by (simp add: retry_delay_def)

lemma disconnected_step:
  assumes "disconnects v" and "bidi_from (Suc (Suc a)) vs = (ws, n, e)"
  shows "bidi_from (Suc a) (v # vs) = (retry_delay (Suc a) # ws, if reconnects v then Suc n else n, e)"
  using assms by (auto simp: disconnects_def Let_def)

lemma last_step:
  "sees_shutdown v \<Longrightarrow> \<exists>ws n. bidi_from (Suc a) (v # vs) = (ws, n, SawShutdown) \<and> ws \<in> {[], [retry_delay (Suc a)]}
     \<and> n \<le> length ws"
  "hangs v \<Longrightarrow> bidi_from (Suc a) (v # vs) = ([retry_delay (Suc a)], 1, StillTransferring)"
  by (auto simp: sees_shutdown_def hangs_def Let_def)

text \<open>The retries: which attempts disconnected, and what the last one did.\<close>

definition retries_end :: "attempt_view list \<Rightarrow> rat list \<Rightarrow> bidi_end \<Rightarrow> bool" where
  "retries_end vs ws e \<longleftrightarrow>
     (case e of
        SawShutdown \<Rightarrow> \<exists>i < length vs. length ws \<in> {i, Suc i} \<and> sees_shutdown (vs ! i) \<and> (\<forall>j < i. disconnects (vs ! j))
      | SetShutdown \<Rightarrow> length ws = length vs \<and> (\<forall>j < length vs. disconnects (vs ! j))
      | StillTransferring \<Rightarrow> \<exists>i < length vs. length ws = Suc i \<and> hangs (vs ! i) \<and> (\<forall>j < i. disconnects (vs ! j)))"

lemma retries_end_step:
  assumes "retries_end vs ws e" and "disconnects v"
  shows "retries_end (v # vs) (w # ws) e"
proof -
  have up: "\<forall>j < Suc i. disconnects ((v # vs) ! j)" if "\<forall>j < i. disconnects (vs ! j)" for i
    using that assms(2) by (auto simp: less_Suc_eq_0_disj)
  show ?thesis
  proof (cases e)
    case SawShutdown
    with assms(1) obtain i where "i < length vs" "length ws \<in> {i, Suc i}" "sees_shutdown (vs ! i)" "\<forall>j < i. disconnects (vs ! j)"
      by (auto simp: retries_end_def)
    with up [of i] SawShutdown show ?thesis by (auto simp: retries_end_def intro!: exI [of _ "Suc i"])
  next
    case SetShutdown
    with assms(1) up [of "length vs"] show ?thesis by (auto simp: retries_end_def)
  next
    case StillTransferring
    with assms(1) obtain i where "i < length vs" "length ws = Suc i" "hangs (vs ! i)" "\<forall>j < i. disconnects (vs ! j)"
      by (auto simp: retries_end_def)
    with up [of i] StillTransferring show ?thesis by (auto simp: retries_end_def intro!: exI [of _ "Suc i"])
  qed
qed

lemma bidi_retries:
  assumes "bidi_from (Suc a) vs = (ws, n, e)"
  shows "ws = map retry_delay [Suc a..<Suc a + length ws] \<and> length ws \<le> length vs \<and> n \<le> length ws \<and> retries_end vs ws e"
  using assms
proof (induction vs arbitrary: a ws n e)
  case Nil
  then show ?case by (auto simp: retries_end_def)
next
  case (Cons v vs)
  show ?case
  proof (cases v rule: attempt_cases)
    case 1
    with last_step(1) [OF 1, of a vs] Cons.prems show ?thesis by (auto simp: retries_end_def)
  next
    case 2
    with last_step(2) [OF 2, of a vs] Cons.prems show ?thesis by (auto simp: retries_end_def)
  next
    case 3
    obtain ws' n' e' where r: "bidi_from (Suc (Suc a)) vs = (ws', n', e')" by (metis prod_cases3)
    have "ws = retry_delay (Suc a) # ws'" "n \<le> Suc n'" "e = e'"
      using Cons.prems disconnected_step [OF 3 r] by (auto split: if_splits)
    moreover have "[Suc a..<Suc a + Suc (length ws')] = Suc a # [Suc (Suc a)..<Suc (Suc a) + length ws']"
      by (subst upt_conv_Cons) simp_all
    ultimately show ?thesis
      using Cons.IH [OF r] retries_end_step [OF _ 3, of vs ws' e' "retry_delay (Suc a)"] by (auto simp del: upt_Suc)
  qed
qed

text \<open>
  C35 The reconnection loop is bounded over the whole call: it makes at most five retries, which
  wait 1, 2, 4, 5 and 5 seconds, at most 17 in all, and starts at most one transfer before each
  wait and one after the last, however long the transfers between them ran.  It is still running
  only inside a transfer that never ends (a healthy socket and no hang-up), which is the last one
  it started.  If every transfer ends it returns, and then the call is shutting down: either the
  last attempt saw the flag, or all six attempts were made, every one of them disconnected, and
  the loop has set the flag.  The calls of \<open>reconnect\<close> are assumed to return.
\<close>

theorem reconnect_ends_in_shutdown:
  assumes "gateway_bidi_loop views = (waits, transfers, e)"
  shows "waits = map retry_delay [1..<1 + length waits] \<and> length waits \<le> 5 \<and> sum_list waits \<le> 17
    \<and> transfers \<le> length waits + 1
    \<and> (case e of
        StillTransferring \<Rightarrow> shut_after_transfer (views (length waits)) = None
          \<and> (waits \<noteq> [] \<longrightarrow> reconnects (views (length waits)))
      | SawShutdown \<Rightarrow> \<exists>k \<in> {length waits, length waits + 1}. k \<le> MAX_RETRIES \<and>
          (shut_at_start (views k) \<or> k > 0 \<and> shut_after_wait (views k) \<or> shut_after_transfer (views k) = Some True)
      | SetShutdown \<Rightarrow> length waits = MAX_RETRIES \<and> (\<forall>k \<le> MAX_RETRIES. \<not> shut_at_start (views k) \<and>
          (k > 0 \<longrightarrow> \<not> shut_after_wait (views k)) \<and>
          (k = 0 \<or> reconnects (views k) \<longrightarrow> shut_after_transfer (views k) = Some False)))"
proof -
  define vs where "vs = map views [Suc 0..<6]"
  have len: "length vs = 5" and nth: "\<And>i. i < 5 \<Longrightarrow> vs ! i = views (Suc i)" by (simp_all add: vs_def del: upt_Suc)
  have "[0..<MAX_RETRIES + 1] = 0 # [Suc 0..<6]" by (simp add: MAX_RETRIES_def upt_conv_Cons)
  then have loop: "gateway_bidi_loop views = bidi_from 0 (views 0 # vs)"
    by (simp only: gateway_bidi_loop_def vs_def list.map)
  obtain ws n e' where r: "bidi_from (Suc 0) vs = (ws, n, e')" by (metis prod_cases3)
  note w = bidi_retries [OF r, unfolded len]
  have total: "sum_list (map retry_delay [1..<1 + k]) \<le> 17" if "k \<le> 5" for k
  proof -
    have "k \<in> {0, 1, 2, 3, 4, 5}" using that by auto
    then show ?thesis by (auto simp: retry_delay_def upt_conv_Cons simp del: upt_Suc)
  qed
  consider "shut_at_start (views 0)" | "\<not> shut_at_start (views 0)" "shut_after_transfer (views 0) = None"
    | "\<not> shut_at_start (views 0)" "shut_after_transfer (views 0) = Some True"
    | (retry) "\<not> shut_at_start (views 0)" "shut_after_transfer (views 0) = Some False"
    by (cases "shut_after_transfer (views 0)") auto
  then show ?thesis
  proof cases
    case retry
    then have eq: "waits = ws" "transfers = Suc n" "e = e'" using assms r by (auto simp: loop)
    have bounds: "waits = map retry_delay [1..<1 + length waits] \<and> length waits \<le> 5 \<and> sum_list waits \<le> 17
        \<and> transfers \<le> length waits + 1"
      using w total [of "length ws"] by (simp add: eq del: upt_Suc)
    show ?thesis
    proof (cases e)
      case SawShutdown
      with w eq obtain i where "i < 5" "length ws \<in> {i, Suc i}" "sees_shutdown (vs ! i)"
        by (auto simp: retries_end_def len)
      with bounds SawShutdown nth [of i] show ?thesis
        by (auto simp: eq sees_shutdown_def MAX_RETRIES_def intro!: bexI [of _ "Suc i"])
    next
      case SetShutdown
      with w eq have "length ws = 5" and d: "\<And>i. i < 5 \<Longrightarrow> disconnects (views (Suc i))"
        by (auto simp: retries_end_def len nth)
      moreover have "\<not> shut_at_start (views k) \<and> (k > 0 \<longrightarrow> \<not> shut_after_wait (views k)) \<and>
          (k = 0 \<or> reconnects (views k) \<longrightarrow> shut_after_transfer (views k) = Some False)" if "k \<le> 5" for k
        using retry d [of "k - 1"] that by (cases k) (auto simp: disconnects_def)
      ultimately show ?thesis using bounds SetShutdown total [of 5] by (simp add: eq MAX_RETRIES_def del: upt_Suc)
    next
      case StillTransferring
      with w eq obtain i where "i < 5" "length ws = Suc i" "hangs (vs ! i)" by (auto simp: retries_end_def len)
      with nth [of i] have "shut_after_transfer (views (length waits)) = None \<and> reconnects (views (length waits))"
        by (simp add: eq hangs_def)
      with bounds show ?thesis unfolding StillTransferring bidi_end.case by blast
    qed
  qed (use assms in \<open>auto simp: loop\<close>)
qed

theorem reconnect_ends_in_shutdown_witness:
  "\<exists>views. gateway_bidi_loop views = ([1, 2, 4, 5, 5], 5, SetShutdown) \<and> shut_after_transfer (views 5) = Some False \<and>
     \<not> reconnects (views 2)"
proof -
  let ?v = "\<lambda>k. \<lparr>shut_at_start = False, shut_after_wait = False, reconnects = (k \<noteq> (2 :: nat)),
      shut_after_transfer = Some False\<rparr>"
  have run: "gateway_bidi_loop ?v = ([1, 2, 4, 5, 5], 5, SetShutdown)" by code_simp
  from reconnect_ends_in_shutdown [OF run] have "shut_after_transfer (?v 5) = Some False"
    by (simp add: MAX_RETRIES_def)
  with run show ?thesis by (intro exI [of _ ?v]) simp
qed

text \<open>A transfer that never ends keeps the loop: no bound on the call follows from it.\<close>

lemma healthy_transfer_never_returns:
  "gateway_bidi_loop (\<lambda>k. \<lparr>shut_at_start = False, shut_after_wait = False, reconnects = True,
     shut_after_transfer = None\<rparr>) = ([], 1, StillTransferring)"
  by code_simp

end
