(* ===== verification/Call_Session.thy ===== *)
theory Call_Session
  imports Gateway_Client Codec_Bridge Rtp
begin

text \<open>
  \<open>sip_bridge/session.py\<close>: the state of a telephone call and its loops.  Each step is what
  one coroutine does between two of its \<open>await\<close>s, so a run of the call is any sequence of
  steps; \<open>call_step\<close> gives the new state and what leaves the process.  The codec bridge is
  a pair of functions (\<open>None\<close>: it raises); what \<open>sendto\<close>, the socket and \<open>json.loads\<close>
  answer are inputs.
\<close>

section \<open>State\<close>

type_synonym address = "string \<times> nat"

record codec =
  codec_decode :: "bytes \<Rightarrow> bytes option"
  codec_encode :: "bytes \<Rightarrow> bytes option"

record call_session =
  remote_rtp_addr :: "address option"
  has_transport :: bool
  inbound_queue :: "bytes list"
  outbound_queue :: "bytes list"
  gemini_in_queue :: "bytes list"
  call_shutdown :: bool
  no_inbound_warned :: bool
  outbound_buffer :: bytes
  model_speaking :: bool
  model_speech_end_time :: clock
  frames_received :: nat
  frames_sent :: nat
  inbound_drops :: nat
  outbound_drops :: nat
  gemini_input_drops :: nat
  gateway_sid :: py
  gateway_token :: py

text \<open>The locals of the outbound loop.\<close>

record rtp_out =
  out_ssrc :: int
  out_seq :: int
  out_timestamp :: int
  out_timer :: "rtp_timer option"
  g711_buffer :: bytes

definition INBOUND_QUEUE_SIZE :: nat where "INBOUND_QUEUE_SIZE = 500"
definition OUTBOUND_QUEUE_SIZE :: nat where "OUTBOUND_QUEUE_SIZE = 10000"
definition SILENCE_FRAME :: bytes where "SILENCE_FRAME = replicate 640 0"
definition ECHO_HOLDOFF_SEC :: clock where "ECHO_HOLDOFF_SEC = 1 / 2"
definition OUT_FRAME_SIZE :: nat where "OUT_FRAME_SIZE = 160"
definition PCM_CHUNK :: nat where "PCM_CHUNK = 960"

definition call_init :: "address option \<Rightarrow> bool \<Rightarrow> call_session" where
  "call_init remote transport =
     \<lparr>remote_rtp_addr = remote, has_transport = transport, inbound_queue = [], outbound_queue = [],
      gemini_in_queue = [], call_shutdown = False, no_inbound_warned = False, outbound_buffer = [],
      model_speaking = False, model_speech_end_time = 0, frames_received = 0, frames_sent = 0,
      inbound_drops = 0, outbound_drops = 0, gemini_input_drops = 0, gateway_sid = PStr [],
      gateway_token = PStr []\<rparr>"

text \<open>\<open>ssrc = int.from_bytes(os.urandom(4), "big")\<close>.\<close>

definition rtp_out_init :: "byte \<Rightarrow> byte \<Rightarrow> byte \<Rightarrow> byte \<Rightarrow> rtp_out" where
  "rtp_out_init a b c d = \<lparr>out_ssrc = unpack_be32 a b c d, out_seq = 0, out_timestamp = 0,
     out_timer = None, g711_buffer = []\<rparr>"

section \<open>Receiving\<close>

definition feed_inbound :: "bytes \<Rightarrow> call_session \<Rightarrow> call_session" where
  "feed_inbound frame s =
     (if length (inbound_queue s) < INBOUND_QUEUE_SIZE
      then s\<lparr>inbound_queue := inbound_queue s @ [frame], frames_received := frames_received s + 1\<rparr>
      else s\<lparr>inbound_drops := inbound_drops s + 1\<rparr>)"

text \<open>One datagram in \<open>_media_recv_loop\<close>: where to send is learnt or latched first.\<close>

definition media_recv :: "bool \<Rightarrow> bytes \<Rightarrow> address \<Rightarrow> call_session \<Rightarrow> call_session" where
  "media_recv symmetric data addr s =
     (let s = (case remote_rtp_addr s of
          None \<Rightarrow> s\<lparr>remote_rtp_addr := Some addr\<rparr>
        | Some r \<Rightarrow> if symmetric \<and> r \<noteq> addr then s\<lparr>remote_rtp_addr := Some addr\<rparr> else s)
      in feed_inbound data s)"

text \<open>
  Decoding one packet.  The outer \<open>None\<close> is an exception, the inner one a payload type
  that is skipped.
\<close>

definition decode_payload :: "codec option \<Rightarrow> rtp_packet \<Rightarrow> bytes option option" where
  "decode_payload codec rtp =
     (if payload_type rtp = 0
      then (case codec of Some c \<Rightarrow> map_option Some (codec_decode c (payload rtp))
            | None \<Rightarrow> Some (Some (payload rtp)))
      else if payload_type rtp = 8
      then map_option Some (Option.bind (alaw_to_pcm16 (payload rtp)) resample_8k_to_16k)
      else Some None)"

definition clamp16 :: "int \<Rightarrow> int" where
  "clamp16 v = max (- 32768) (min 32767 v)"

definition amplify :: "int \<Rightarrow> bytes \<Rightarrow> bytes option" where
  "amplify gain pcm =
     (if gain > 1
      then Option.bind (unpack_samples pcm) (\<lambda>ss. pack_samples (map (\<lambda>v. clamp16 (v * gain)) ss))
      else Some pcm)"

text \<open>The text of \<open>SIP_AUDIO_GAIN\<close>, 4 when it is not set.\<close>

definition audio_gain :: "string option \<Rightarrow> int option" where
  "audio_gain env = py_int (case env of None \<Rightarrow> ''4'' | Some t \<Rightarrow> t)"

definition offer_input :: "bytes \<Rightarrow> call_session \<Rightarrow> call_session" where
  "offer_input pcm s =
     (if length (gemini_in_queue s) < INBOUND_QUEUE_SIZE
      then s\<lparr>gemini_in_queue := gemini_in_queue s @ [pcm]\<rparr>
      else s\<lparr>gemini_input_drops := gemini_input_drops s + 1\<rparr>)"

text \<open>One frame in \<open>_media_inbound_loop\<close>; every exception is swallowed and drops the frame.\<close>

definition inbound_frame :: "codec option \<Rightarrow> string option \<Rightarrow> bytes \<Rightarrow> call_session \<Rightarrow> call_session" where
  "inbound_frame codec gain_env frame s =
     (case rtp_parse frame of
        None \<Rightarrow> s
      | Some rtp \<Rightarrow>
          (case decode_payload codec rtp of
             Some (Some pcm) \<Rightarrow>
               if pcm = [] then s
               else (case Option.bind (audio_gain gain_env) (\<lambda>g. amplify g pcm) of
                       Some loud \<Rightarrow> offer_input loud s
                     | None \<Rightarrow> s)
           | _ \<Rightarrow> s))"

definition media_inbound :: "codec option \<Rightarrow> string option \<Rightarrow> call_session \<Rightarrow> call_session" where
  "media_inbound codec gain_env s =
     (case inbound_queue s of
        [] \<Rightarrow> s
      | frame # rest \<Rightarrow> inbound_frame codec gain_env frame (s\<lparr>inbound_queue := rest\<rparr>))"

section \<open>To the model\<close>

definition echo_muted :: "clock \<Rightarrow> call_session \<Rightarrow> bool" where
  "echo_muted now s \<longleftrightarrow> model_speaking s \<or> now - model_speech_end_time s < ECHO_HOLDOFF_SEC"

definition audio_to_send :: "clock \<Rightarrow> bytes \<Rightarrow> call_session \<Rightarrow> bytes" where
  "audio_to_send now pcm s = (if echo_muted now s then SILENCE_FRAME else pcm)"

text \<open>
  One item of the sending loops: nothing to send, an exception (which ends
  \<open>_gemini_send_loop\<close>: the level is computed from whole samples only), or the audio sent.
\<close>

datatype send_result = NothingQueued | SendRaised | AudioSent bytes

definition gemini_send :: "clock \<Rightarrow> call_session \<Rightarrow> call_session \<times> send_result" where
  "gemini_send now s =
     (case gemini_in_queue s of
        [] \<Rightarrow> (s, NothingQueued)
      | pcm # rest \<Rightarrow>
          (let s = s\<lparr>gemini_in_queue := rest\<rparr>
           in if length pcm div 2 > 0 \<and> unpack_samples pcm = None then (s, SendRaised)
              else (s, AudioSent (audio_to_send now pcm s))))"

definition gateway_send_item :: "clock \<Rightarrow> call_session \<Rightarrow> call_session \<times> send_result" where
  "gateway_send_item now s =
     (case gemini_in_queue s of
        [] \<Rightarrow> (s, NothingQueued)
      | pcm # rest \<Rightarrow> (s\<lparr>gemini_in_queue := rest\<rparr>, AudioSent (audio_to_send now pcm s)))"

section \<open>From the model\<close>

definition offer_output :: "bytes \<Rightarrow> call_session \<Rightarrow> call_session" where
  "offer_output frame s =
     (if length (outbound_queue s) < OUTBOUND_QUEUE_SIZE
      then s\<lparr>outbound_queue := outbound_queue s @ [frame]\<rparr>
      else s\<lparr>outbound_drops := outbound_drops s + 1\<rparr>)"

function drain_buffer :: "call_session \<Rightarrow> call_session" where
  "drain_buffer s =
     (if length (outbound_buffer s) \<ge> PCM_CHUNK
      then drain_buffer (offer_output (take PCM_CHUNK (outbound_buffer s))
             (s\<lparr>outbound_buffer := drop PCM_CHUNK (outbound_buffer s)\<rparr>))
      else s)"
  by pat_completeness auto
termination
  by (relation "measure (\<lambda>s. length (outbound_buffer s))") (auto simp: offer_output_def PCM_CHUNK_def)

declare drain_buffer.simps [simp del]

text \<open>One response of the live session: the audio parts and two flags.\<close>

record server_content =
  audio_parts :: "bytes list"
  turn_complete :: bool
  interrupted :: bool

definition recv_part :: "bytes \<Rightarrow> call_session \<Rightarrow> call_session" where
  "recv_part data s =
     (if data = [] then s
      else drain_buffer (s\<lparr>model_speaking := True, outbound_buffer := outbound_buffer s @ data\<rparr>))"

definition speech_ends :: "clock \<Rightarrow> call_session \<Rightarrow> call_session" where
  "speech_ends now s = s\<lparr>model_speaking := False, model_speech_end_time := now\<rparr>"

definition gemini_recv :: "clock \<Rightarrow> server_content \<Rightarrow> call_session \<Rightarrow> call_session" where
  "gemini_recv now sc s =
     (let s = fold recv_part (audio_parts sc) s;
          s = (if turn_complete sc then speech_ends now s else s)
      in if interrupted sc then speech_ends now s else s)"

definition gateway_audio :: "bytes \<Rightarrow> call_session \<Rightarrow> call_session" where
  "gateway_audio data s = offer_output data (s\<lparr>model_speaking := True\<rparr>)"

text \<open>Slicing a value; numbers, dictionaries and \<open>None\<close> raise.\<close>

fun sliceable :: "py \<Rightarrow> bool" where
  "sliceable (PStr s) = True"
| "sliceable (PList xs) = True"
| "sliceable _ = False"

definition GREETING :: string where
  "GREETING = ''[Phone call connected]''"

text \<open>
  A JSON message.  \<open>sent\<close> says whether the greeting reaches the service.  The result is
  \<open>None\<close> when the loop's coroutine raises; otherwise the state and whether the greeting was
  sent.
\<close>

definition gateway_started :: "bool \<Rightarrow> py_record \<Rightarrow> call_session \<Rightarrow> call_session \<times> bool" where
  "gateway_started sent msg s =
     (let sid = dget_default msg ''sessionId'' (PStr []);
          s = (if truthy sid then s\<lparr>gateway_sid := sid\<rparr> else s);
          s = s\<lparr>model_speaking := True\<rparr>
      in if sent then (s, True) else (s\<lparr>model_speaking := False\<rparr>, False))"

definition gateway_ending :: "py_record \<Rightarrow> call_session \<Rightarrow> call_session" where
  "gateway_ending msg s =
     (let reason = dget_default msg ''reason'' (PStr [])
      in if reason = PStr ''live_session_ended'' then s\<lparr>call_shutdown := True\<rparr>
         else if reason = PStr ''session_resumption''
           then s\<lparr>gateway_token := dget_default msg ''resumptionToken'' (PStr [])\<rparr>
         else s)"

definition gateway_transfer :: "py_record \<Rightarrow> call_session \<Rightarrow> call_session" where
  "gateway_transfer msg s =
     (let sid = dget_default msg ''sessionId'' (PStr []);
          s = (if truthy sid then s\<lparr>gateway_sid := sid\<rparr> else s);
          token = dget_default msg ''resumptionToken'' (PStr [])
      in if truthy token then s\<lparr>gateway_token := token\<rparr> else s)"

definition gateway_message :: "clock \<Rightarrow> bool \<Rightarrow> py \<Rightarrow> call_session \<Rightarrow> (call_session \<times> bool) option" where
  "gateway_message now sent m s =
     (case m of
        PDict msg \<Rightarrow>
          (let ty = dget_default msg ''type'' (PStr [])
           in if ty = PStr ''session_started'' then Some (gateway_started sent msg s)
              else if ty = PStr ''transcription'' then
                (if \<not> sliceable (dget_default msg ''text'' (PStr [])) then None
                 else if py_get msg ''role'' = PStr ''agent'' \<and> \<not> truthy (py_get msg ''partial'')
                   then Some (speech_ends now s, False)
                 else Some (s, False))
              else if ty = PStr ''session_ending'' then Some (gateway_ending msg s, False)
              else if ty = PStr ''interrupted'' then Some (speech_ends now s, False)
              else if ty = PStr ''agent_status'' then
                Some (if py_get msg ''status'' = PStr ''idle'' then speech_ends now s else s, False)
              else if ty = PStr ''agent_transfer'' then Some (gateway_transfer msg s, False)
              else Some (s, False))
      | _ \<Rightarrow> None)"

text \<open>One frame in \<open>_gateway_recv_loop\<close>; \<open>loads\<close> is \<open>None\<close> for malformed JSON.\<close>

definition gateway_recv ::
  "(string \<Rightarrow> py option) \<Rightarrow> clock \<Rightarrow> bool \<Rightarrow> gateway_frame \<Rightarrow> call_session \<Rightarrow> (call_session \<times> bool) option" where
  "gateway_recv loads now sent frame s =
     (case frame of
        AudioFrame data \<Rightarrow> Some (gateway_audio data s, False)
      | TextFrame t \<Rightarrow> (case loads t of None \<Rightarrow> Some (s, False) | Some m \<Rightarrow> gateway_message now sent m s))"

section \<open>To the peer\<close>

text \<open>
  \<open>_media_outbound_loop\<close>, in its two halves: encoding the next chunk while less than a
  frame is buffered, and sending one frame while at least a frame is.  A sent frame is its
  packet, and the datagram with its destination when there is a socket and a destination.
\<close>

definition take_chunk :: "codec option \<Rightarrow> call_session \<Rightarrow> rtp_out \<Rightarrow> call_session \<times> rtp_out" where
  "take_chunk codec s out =
     (if length (g711_buffer out) \<ge> OUT_FRAME_SIZE then (s, out)
      else case outbound_queue s of
        [] \<Rightarrow> (s, out)
      | pcm # rest \<Rightarrow>
          (let s = s\<lparr>outbound_queue := rest\<rparr>
           in case (case codec of Some c \<Rightarrow> codec_encode c pcm | None \<Rightarrow> Some pcm) of
                None \<Rightarrow> (s, out)
              | Some e \<Rightarrow> (s, out\<lparr>g711_buffer := g711_buffer out @ e\<rparr>)))"

definition frame_packet :: "call_session \<Rightarrow> rtp_out \<Rightarrow> rtp_packet" where
  "frame_packet s out =
     \<lparr>version = 2, payload_type = 0, sequence_no = out_seq out AND 0xFFFF,
      timestamp = out_timestamp out AND 0xFFFFFFFF, ssrc = out_ssrc out,
      payload = take OUT_FRAME_SIZE (g711_buffer out), marker = (frames_sent s = 0)\<rparr>"

text \<open>
  What is handed to \<open>sendto\<close>.  The exceptions of serialising and of \<open>sendto\<close> itself are swallowed
  and change nothing of the state, so the model does not tell a datagram the socket refused from
  one it took.
\<close>

definition datagram :: "call_session \<Rightarrow> rtp_packet \<Rightarrow> (bytes \<times> address) option" where
  "datagram s p =
     (if has_transport s
      then (case (rtp_serialize p, remote_rtp_addr s) of (Some d, Some a) \<Rightarrow> Some (d, a) | _ \<Rightarrow> None)
      else None)"

definition warn_no_inbound :: "call_session \<Rightarrow> call_session" where
  "warn_no_inbound s =
     (if \<not> no_inbound_warned s \<and> frames_sent s \<ge> 100 \<and> frames_received s = 0
      then s\<lparr>no_inbound_warned := True\<rparr> else s)"

text \<open>The timer exists from the first frame on; \<open>now\<close> is when it is created or waited for.\<close>

definition emit_frame ::
  "clock \<Rightarrow> call_session \<Rightarrow> rtp_out \<Rightarrow> call_session \<times> rtp_out \<times> (rtp_packet \<times> (bytes \<times> address) option) option" where
  "emit_frame now s out =
     (if length (g711_buffer out) < OUT_FRAME_SIZE \<or> call_shutdown s then (s, out, None)
      else
        let timer = (case out_timer out of None \<Rightarrow> \<lparr>timer_start = now, frame_count = 0\<rparr> | Some t \<Rightarrow> t);
            p = frame_packet s out;
            d = datagram s p;
            s = warn_no_inbound (s\<lparr>frames_sent := frames_sent s + 1\<rparr>);
            out = out\<lparr>g711_buffer := drop OUT_FRAME_SIZE (g711_buffer out), out_seq := out_seq out + 1,
              out_timestamp := out_timestamp out + int OUT_FRAME_SIZE,
              out_timer := Some (fst (wait_next_frame now timer))\<rparr>
        in (s, out, Some (p, d)))"

section \<open>The call\<close>

datatype call_event =
    Datagram bool bytes address
  | InboundTick "string option"
  | GeminiSend clock
  | GatewaySend clock
  | GeminiRecv clock server_content
  | GatewayRecv clock bool gateway_frame
  | OutboundChunk
  | OutboundFrame clock
  | Hangup

datatype call_output = ToModel bytes | Greeting | ToPeer rtp_packet "(bytes \<times> address) option"

fun sent_audio :: "send_result \<Rightarrow> call_output list" where
  "sent_audio (AudioSent b) = [ToModel b]"
| "sent_audio _ = []"

fun call_step ::
  "(string \<Rightarrow> py option) \<Rightarrow> codec option \<Rightarrow> call_event \<Rightarrow> call_session \<times> rtp_out
     \<Rightarrow> (call_session \<times> rtp_out) \<times> call_output list" where
  "call_step loads codec (Datagram symmetric data addr) (s, out) =
     ((if call_shutdown s \<or> \<not> has_transport s then s else media_recv symmetric data addr s, out), [])"
| "call_step loads codec (InboundTick gain_env) (s, out) =
     ((if call_shutdown s then s else media_inbound codec gain_env s, out), [])"
| "call_step loads codec (GeminiSend now) (s, out) =
     (if call_shutdown s then ((s, out), [])
      else let (s, r) = gemini_send now s in ((s, out), sent_audio r))"
| "call_step loads codec (GatewaySend now) (s, out) =
     (if call_shutdown s then ((s, out), [])
      else let (s, r) = gateway_send_item now s in ((s, out), sent_audio r))"
| "call_step loads codec (GeminiRecv now sc) (s, out) =
     ((if call_shutdown s then s else gemini_recv now sc s, out), [])"
| "call_step loads codec (GatewayRecv now sent frame) (s, out) =
     (if call_shutdown s then ((s, out), [])
      else case gateway_recv loads now sent frame s of
        None \<Rightarrow> ((s, out), [])
      | Some (s, greeted) \<Rightarrow> ((s, out), if greeted then [Greeting] else []))"
| "call_step loads codec OutboundChunk (s, out) =
     (if call_shutdown s then ((s, out), []) else (take_chunk codec s out, []))"
| "call_step loads codec (OutboundFrame now) (s, out) =
     (case emit_frame now s out of
        (s, out, None) \<Rightarrow> ((s, out), [])
      | (s, out, Some (p, d)) \<Rightarrow> ((s, out), [ToPeer p d]))"
| "call_step loads codec Hangup (s, out) = ((s\<lparr>call_shutdown := True\<rparr>, out), [])"

primrec call_run ::
  "(string \<Rightarrow> py option) \<Rightarrow> codec option \<Rightarrow> call_event list \<Rightarrow> call_session \<times> rtp_out
     \<Rightarrow> (call_session \<times> rtp_out) \<times> call_output list" where
  "call_run loads codec [] c = (c, [])"
| "call_run loads codec (e # es) c =
     (let (c, xs) = call_step loads codec e c; (c, ys) = call_run loads codec es c in (c, xs @ ys))"

end
