(* ===== verification/Call_Media.thy ===== *)
theory Call_Media
  imports Call_Session
begin

text \<open>
  What holds of every run of a telephone call: the queues stay within their bounds, the
  packets sent form one gapless RTP stream of exactly the encoded audio, and the caller does
  not reach the model while the model speaks.
\<close>

section \<open>The queues\<close>

definition call_ok :: "call_session \<Rightarrow> bool" where
  "call_ok s \<longleftrightarrow> length (inbound_queue s) \<le> INBOUND_QUEUE_SIZE \<and>
     length (gemini_in_queue s) \<le> INBOUND_QUEUE_SIZE \<and>
     length (outbound_queue s) \<le> OUTBOUND_QUEUE_SIZE \<and> length (outbound_buffer s) < PCM_CHUNK"

named_theorems call_defs \<open>the operations of a call session\<close>

lemmas [call_defs] = feed_inbound_def media_recv_def inbound_frame_def media_inbound_def offer_input_def
  gemini_send_def gateway_send_item_def offer_output_def speech_ends_def gemini_recv_def
  gateway_audio_def gateway_started_def gateway_ending_def gateway_transfer_def gateway_message_def
  gateway_recv_def take_chunk_def warn_no_inbound_def Let_def

lemma drain_buffer_ok:
  assumes "length (outbound_queue s) \<le> OUTBOUND_QUEUE_SIZE"
  shows "length (outbound_queue (drain_buffer s)) \<le> OUTBOUND_QUEUE_SIZE"
    and "length (outbound_buffer (drain_buffer s)) < PCM_CHUNK"
    and "inbound_queue (drain_buffer s) = inbound_queue s"
    and "gemini_in_queue (drain_buffer s) = gemini_in_queue s"
  using assms
proof (induction s rule: drain_buffer.induct)
  case (1 s)
  {
    case 1
    with "1.IH"(1) show ?case by (subst drain_buffer.simps) (simp add: offer_output_def)
  next
    case 2
    with "1.IH"(2) show ?case by (subst drain_buffer.simps) (simp add: offer_output_def)
  next
    case 3
    with "1.IH"(3) show ?case by (subst drain_buffer.simps) (simp add: offer_output_def)
  next
    case 4
    with "1.IH"(4) show ?case by (subst drain_buffer.simps) (simp add: offer_output_def)
  }
qed

lemma recv_part_ok: "call_ok s \<Longrightarrow> call_ok (recv_part data s)"
  using drain_buffer_ok [of "s\<lparr>model_speaking := True, outbound_buffer := outbound_buffer s @ data\<rparr>"]
  by (simp add: recv_part_def call_ok_def)

lemma fold_recv_part_ok: "call_ok s \<Longrightarrow> call_ok (fold recv_part parts s)"
  by (induction parts arbitrary: s) (simp_all add: recv_part_ok)

lemma call_ok_cong:
  assumes "call_ok s" and "inbound_queue s' = inbound_queue s" and "gemini_in_queue s' = gemini_in_queue s"
    and "outbound_queue s' = outbound_queue s" and "outbound_buffer s' = outbound_buffer s"
  shows "call_ok s'"
  using assms by (simp add: call_ok_def)

lemma gemini_recv_ok: "call_ok s \<Longrightarrow> call_ok (gemini_recv now sc s)"
  using fold_recv_part_ok [of s "audio_parts sc"] by (simp add: gemini_recv_def Let_def speech_ends_def call_ok_def)

lemma media_recv_ok: "call_ok s \<Longrightarrow> call_ok (media_recv symmetric data addr s)"
  by (auto simp: call_ok_def media_recv_def feed_inbound_def Let_def split: option.split)

lemma media_inbound_ok: "call_ok s \<Longrightarrow> call_ok (media_inbound codec gain_env s)"
  by (auto simp: call_ok_def media_inbound_def inbound_frame_def offer_input_def split: list.split option.split)

lemma send_ok:
  "gemini_send now s = (s', r) \<Longrightarrow> call_ok s \<Longrightarrow> call_ok s'"
  "gateway_send_item now s = (s', r) \<Longrightarrow> call_ok s \<Longrightarrow> call_ok s'"
  by (auto simp: call_ok_def gemini_send_def gateway_send_item_def Let_def split: list.splits if_splits)

lemma gateway_message_same:
  assumes "gateway_message now sent m s = Some (s', g)"
  shows "inbound_queue s' = inbound_queue s" and "gemini_in_queue s' = gemini_in_queue s"
    and "outbound_queue s' = outbound_queue s" and "outbound_buffer s' = outbound_buffer s"
    and "frames_sent s' = frames_sent s"
  using assms
  by (auto simp: gateway_message_def gateway_started_def gateway_ending_def gateway_transfer_def
      speech_ends_def Let_def split: py.splits if_splits)

lemma gateway_recv_ok: "gateway_recv loads now sent frame s = Some (s', g) \<Longrightarrow> call_ok s \<Longrightarrow> call_ok s'"
  by (auto simp: gateway_recv_def gateway_audio_def offer_output_def call_ok_def gateway_message_same
      split: gateway_frame.splits option.splits if_splits)

lemma take_chunk_ok: "take_chunk codec s out = (s', out') \<Longrightarrow> call_ok s \<Longrightarrow> call_ok s'"
  by (auto simp: call_ok_def take_chunk_def Let_def split: list.splits option.splits if_splits)

lemma emit_frame_ok: "emit_frame now s out = (s', r) \<Longrightarrow> call_ok s \<Longrightarrow> call_ok s'"
  by (auto simp: call_ok_def emit_frame_def Let_def warn_no_inbound_def split: if_splits)

lemma hangup_ok: "call_ok s \<Longrightarrow> call_ok (s\<lparr>call_shutdown := True\<rparr>)"
  by (simp add: call_ok_def)

lemma call_step_ok:
  assumes "call_ok s" and "call_step loads codec e (s, out) = ((s', out'), ys)"
  shows "call_ok s'"
  using assms
  by (cases e) (auto split: if_splits option.splits prod.splits
      intro: media_recv_ok media_inbound_ok gemini_recv_ok hangup_ok
      dest: gateway_recv_ok send_ok take_chunk_ok emit_frame_ok)

lemma call_run_ok:
  "call_run loads codec es (s, out) = ((s', out'), ys) \<Longrightarrow> call_ok s \<Longrightarrow> call_ok s'"
proof (induction es arbitrary: s out ys)
  case (Cons e es)
  obtain s1 out1 xs where st: "call_step loads codec e (s, out) = ((s1, out1), xs)" by (metis prod.exhaust)
  with Cons.prems obtain zs where "call_run loads codec es (s1, out1) = ((s', out'), zs)"
    by (auto split: prod.splits)
  then show ?case using Cons.IH call_step_ok [OF Cons.prems(2) st] by blast
qed simp

text \<open>
  C34 However fast audio arrives from the network or from the model, and in whatever order the
  loops of a call run, the three queues never exceed their sizes and less than one chunk of
  model audio waits in the buffer.
\<close>

theorem call_queues_bounded:
  assumes "call_run loads codec es (call_init remote transport, rtp_out_init a b c d) = ((s, out), ys)"
  shows "length (inbound_queue s) \<le> 500 \<and> length (gemini_in_queue s) \<le> 500 \<and>
    length (outbound_queue s) \<le> 10000 \<and> length (outbound_buffer s) < 960"
proof -
  have "call_ok (call_init remote transport)"
    by (simp add: call_ok_def call_init_def PCM_CHUNK_def)
  with call_run_ok [OF assms] show ?thesis
    by (simp add: call_ok_def INBOUND_QUEUE_SIZE_def OUTBOUND_QUEUE_SIZE_def PCM_CHUNK_def)
qed

section \<open>The RTP stream\<close>

definition packets_of :: "call_output list \<Rightarrow> rtp_packet list" where
  "packets_of ys = concat (map (\<lambda>y. case y of ToPeer p d \<Rightarrow> [p] | _ \<Rightarrow> []) ys)"

definition datagrams_of :: "call_output list \<Rightarrow> (rtp_packet \<times> bytes) list" where
  "datagrams_of ys = concat (map (\<lambda>y. case y of ToPeer p (Some (d, a)) \<Rightarrow> [(p, d)] | _ \<Rightarrow> []) ys)"

text \<open>The encoded audio one step adds to the stream, and a run.\<close>

definition chunk_added :: "codec option \<Rightarrow> call_event \<Rightarrow> call_session \<times> rtp_out \<Rightarrow> bytes" where
  "chunk_added codec e c =
     (if e = OutboundChunk \<and> \<not> call_shutdown (fst c) \<and> length (g711_buffer (snd c)) < OUT_FRAME_SIZE
      then (case outbound_queue (fst c) of
              [] \<Rightarrow> []
            | pcm # rest \<Rightarrow>
                (case (case codec of Some k \<Rightarrow> codec_encode k pcm | None \<Rightarrow> Some pcm) of
                   None \<Rightarrow> [] | Some enc \<Rightarrow> enc))
      else [])"

primrec encoded_run ::
  "(string \<Rightarrow> py option) \<Rightarrow> codec option \<Rightarrow> call_event list \<Rightarrow> call_session \<times> rtp_out \<Rightarrow> bytes" where
  "encoded_run loads codec [] c = []"
| "encoded_run loads codec (e # es) c =
     chunk_added codec e c @ encoded_run loads codec es (fst (call_step loads codec e c))"

definition stream_packet :: "int \<Rightarrow> nat \<Rightarrow> bytes \<Rightarrow> rtp_packet" where
  "stream_packet src k body =
     \<lparr>version = 2, payload_type = 0, sequence_no = int k mod 2 ^ 16,
      timestamp = 160 * int k mod 2 ^ 32, ssrc = src, payload = body, marker = (k = 0)\<rparr>"

definition stream_ok :: "int \<Rightarrow> call_session \<times> rtp_out \<Rightarrow> bool" where
  "stream_ok src c \<longleftrightarrow> out_ssrc (snd c) = src \<and> out_seq (snd c) = int (frames_sent (fst c)) \<and>
     out_timestamp (snd c) = 160 * int (frames_sent (fst c))"

lemma packets_of_simps [simp]:
  "packets_of [] = []" "packets_of (xs @ ys) = packets_of xs @ packets_of ys"
  "packets_of [ToPeer p d] = [p]" "packets_of [Greeting] = []" "packets_of (sent_audio r) = []"
  by (simp_all add: packets_of_def) (cases r; simp)

lemma datagrams_of_simps [simp]:
  "datagrams_of [] = []" "datagrams_of (xs @ ys) = datagrams_of xs @ datagrams_of ys"
  "datagrams_of [ToPeer p None] = []" "datagrams_of [ToPeer p (Some (d, a))] = [(p, d)]"
  "datagrams_of [Greeting] = []" "datagrams_of (sent_audio r) = []"
  by (simp_all add: datagrams_of_def) (cases r; simp)

text \<open>What the steps other than the sending of a frame leave alone.\<close>

lemma drain_buffer_sent: "frames_sent (drain_buffer s) = frames_sent s"
proof (induction s rule: drain_buffer.induct)
  case (1 s)
  then show ?case by (subst drain_buffer.simps) (simp add: offer_output_def)
qed

lemma recv_part_sent: "frames_sent (recv_part data s) = frames_sent s"
  by (simp add: recv_part_def drain_buffer_sent)

lemma fold_recv_part_sent: "frames_sent (fold recv_part parts s) = frames_sent s"
  by (induction parts arbitrary: s) (simp_all add: recv_part_sent)

lemma frames_sent_same:
  "frames_sent (media_recv symmetric data addr s) = frames_sent s"
  "frames_sent (media_inbound codec gain_env s) = frames_sent s"
  "frames_sent (gemini_recv now sc s) = frames_sent s"
  "gemini_send now s = (s', r) \<Longrightarrow> frames_sent s' = frames_sent s"
  "gateway_send_item now s = (s', r) \<Longrightarrow> frames_sent s' = frames_sent s"
  "gateway_recv loads now sent frame s = Some (s', g) \<Longrightarrow> frames_sent s' = frames_sent s"
      apply (simp add: media_recv_def feed_inbound_def Let_def split: option.split)
     apply (simp add: media_inbound_def inbound_frame_def offer_input_def split: list.split option.split)
    apply (simp add: gemini_recv_def Let_def speech_ends_def fold_recv_part_sent)
   apply (auto simp: gemini_send_def Let_def split: list.splits if_splits)[1]
  apply (auto simp: gateway_send_item_def split: list.splits)[1]
  apply (auto simp: gateway_recv_def gateway_audio_def offer_output_def gateway_message_same
      split: gateway_frame.splits option.splits if_splits)
  done

lemma quiet_step:
  assumes "call_step loads codec e (s, out) = ((s', out'), ys)" and "\<forall>now. e \<noteq> OutboundFrame now"
  shows "packets_of ys = []" and "datagrams_of ys = []" and "frames_sent s' = frames_sent s"
    and "out' = out\<lparr>g711_buffer := g711_buffer out @ chunk_added codec e (s, out)\<rparr>"
proof -
  have "packets_of ys = [] \<and> datagrams_of ys = [] \<and> frames_sent s' = frames_sent s \<and>
      out' = out\<lparr>g711_buffer := g711_buffer out @ chunk_added codec e (s, out)\<rparr>"
    using assms
    by (cases e) (auto simp: chunk_added_def take_chunk_def Let_def frames_sent_same
        split: if_splits option.splits prod.splits list.splits)
  then show "packets_of ys = []" and "datagrams_of ys = []" and "frames_sent s' = frames_sent s"
    and "out' = out\<lparr>g711_buffer := g711_buffer out @ chunk_added codec e (s, out)\<rparr>" by simp_all
qed

lemma emit_step:
  assumes "call_step loads codec (OutboundFrame now) (s, out) = ((s', out'), ys)" and "stream_ok src (s, out)"
  obtains (idle) "s' = s" "out' = out" "ys = []"
  | (sent) body d where "ys = [ToPeer (stream_packet src (frames_sent s) body) d]"
      "d = datagram s (stream_packet src (frames_sent s) body)" "length body = 160"
      "body @ g711_buffer out' = g711_buffer out" "frames_sent s' = Suc (frames_sent s)"
      "stream_ok src (s', out')"
proof (cases "length (g711_buffer out) < OUT_FRAME_SIZE \<or> call_shutdown s")
  case True
  with assms idle show ?thesis by (auto simp: emit_frame_def)
next
  case False
  have p: "frame_packet s out = stream_packet src (frames_sent s) (take OUT_FRAME_SIZE (g711_buffer out))"
    using assms(2) by (simp add: frame_packet_def stream_packet_def stream_ok_def and_FFFF and_FFFFFFFF)
  show ?thesis
    by (rule sent [of "take OUT_FRAME_SIZE (g711_buffer out)"
          "datagram s (stream_packet src (frames_sent s) (take OUT_FRAME_SIZE (g711_buffer out)))"])
      (use False assms p in \<open>auto simp: emit_frame_def Let_def warn_no_inbound_def stream_ok_def OUT_FRAME_SIZE_def\<close>)
qed

lemma stream_datagram:
  assumes "datagram s (stream_packet src k body) = Some (d, a)"
  shows "rtp_parse d = Some (stream_packet src k body)"
proof -
  have "rtp_serialize (stream_packet src k body) = Some d"
    using assms by (auto simp: datagram_def split: if_splits option.splits)
  from rtp_parse_serialize_gen [OF this] show ?thesis by (simp add: stream_packet_def)
qed

lemma call_run_stream:
  assumes "call_run loads codec es (s, out) = ((s', out'), ys)" and "stream_ok src (s, out)"
  shows "\<exists>bodies. packets_of ys = map (\<lambda>(k, body). stream_packet src (frames_sent s + k) body) (enumerate 0 bodies)
      \<and> list_all (\<lambda>b. length b = 160) bodies
      \<and> concat bodies @ g711_buffer out' = g711_buffer out @ encoded_run loads codec es (s, out)
      \<and> list_all (\<lambda>(p, d). rtp_parse d = Some p) (datagrams_of ys)"
  using assms
proof (induction es arbitrary: s out ys)
  case Nil
  then show ?case by (intro exI [of _ "[]"]) simp
next
  case (Cons e es)
  obtain s1 out1 xs where st: "call_step loads codec e (s, out) = ((s1, out1), xs)" by (metis prod.exhaust)
  with Cons.prems obtain zs where run: "call_run loads codec es (s1, out1) = ((s', out'), zs)" and ys: "ys = xs @ zs"
    by (auto split: prod.splits)
  show ?case
  proof (cases "\<exists>now. e = OutboundFrame now")
    case False
    note q = quiet_step [OF st] False
    have "stream_ok src (s1, out1)" using q Cons.prems(2) by (simp add: stream_ok_def)
    from Cons.IH [OF run this] q st show ?thesis by (auto simp: ys)
  next
    case True
    then obtain now where e: "e = OutboundFrame now" by blast
    have noadd: "chunk_added codec e (s, out) = []" by (simp add: e chunk_added_def)
    from st [unfolded e] Cons.prems(2) show ?thesis
    proof (cases rule: emit_step)
      case idle
      with Cons.IH [OF run] Cons.prems(2) st noadd show ?thesis by (simp add: ys)
    next
      case (sent body d)
      from Cons.IH [OF run sent(6)] obtain bodies where
        b: "packets_of zs = map (\<lambda>(k, body). stream_packet src (Suc (frames_sent s) + k) body) (enumerate 0 bodies)"
          "list_all (\<lambda>b. length b = 160) bodies"
          "concat bodies @ g711_buffer out' = g711_buffer out1 @ encoded_run loads codec es (s1, out1)"
          "list_all (\<lambda>(p, d). rtp_parse d = Some p) (datagrams_of zs)"
        using sent(5) by auto
      have shift: "enumerate (Suc 0) bodies = map (\<lambda>(k, x). (Suc k, x)) (enumerate 0 bodies)"
        by (simp add: enumerate_eq_zip map_Suc_upt [symmetric] zip_map1 del: upt_Suc map_Suc_upt)
      have "list_all (\<lambda>(p, d). rtp_parse d = Some p) (datagrams_of xs)"
      proof (cases d)
        case None
        then show ?thesis by (simp add: sent(1))
      next
        case (Some x)
        then obtain dg a where d: "d = Some (dg, a)" by (cases x) auto
        then have "rtp_parse dg = Some (stream_packet src (frames_sent s) body)"
          using sent(2) by (intro stream_datagram) simp
        then show ?thesis unfolding sent(1) d by simp
      qed
      then have dgs: "list_all (\<lambda>(p, d). rtp_parse d = Some p) (datagrams_of ys)"
        using b(4) by (simp add: ys)
      have "packets_of xs = [stream_packet src (frames_sent s) body]" by (simp add: sent(1))
      then have "packets_of ys =
          map (\<lambda>(k, body). stream_packet src (frames_sent s + k) body) (enumerate 0 (body # bodies))"
        using b(1) by (simp add: ys shift comp_def case_prod_unfold)
      moreover have "concat (body # bodies) @ g711_buffer out' =
          g711_buffer out @ encoded_run loads codec (e # es) (s, out)"
        using b(3) st noadd by (simp flip: sent(4))
      ultimately show ?thesis using dgs b(2) sent(3) by (intro exI [of _ "body # bodies"]) simp
    qed
  qed
qed

text \<open>
  C32 What a call sends is one RTP stream: the packets are numbered 0, 1, 2 and so on modulo
  65536, their timestamps advance by 160 modulo 2 to the 32, they carry one SSRC and 160 bytes
  each, only the first is marked, and the payloads, joined, are the encoded audio without gap
  or repetition, up to what is still buffered.  Every datagram parses back to its packet.  A
  packet counts as sent when the loop has made it: one without a socket or a destination is
  numbered too and gives no datagram, and one whose \<open>sendto\<close> raises (the code swallows the
  exception) is among those handed to the socket.
\<close>

theorem rtp_stream_exact:
  assumes "call_run loads codec es (call_init remote transport, rtp_out_init a b c d) = ((s, out), ys)"
  shows "\<exists>bodies. packets_of ys =
        map (\<lambda>(k, body). stream_packet (unpack_be32 a b c d) k body) (enumerate 0 bodies)
      \<and> list_all (\<lambda>x. length x = 160) bodies
      \<and> concat bodies @ g711_buffer out =
          encoded_run loads codec es (call_init remote transport, rtp_out_init a b c d)
      \<and> list_all (\<lambda>(p, dg). rtp_parse dg = Some p) (datagrams_of ys)"
proof -
  have "stream_ok (unpack_be32 a b c d) (call_init remote transport, rtp_out_init a b c d)"
    by (simp add: stream_ok_def call_init_def rtp_out_init_def)
  from call_run_stream [OF assms this] show ?thesis by (simp add: call_init_def rtp_out_init_def)
qed

definition sample_events :: "call_event list" where
  "sample_events = [GatewayRecv 0 True (AudioFrame (replicate 400 7)), OutboundChunk, OutboundFrame 0,
     OutboundFrame (1 / 50)]"

definition sample_start :: "call_session \<times> rtp_out" where
  "sample_start = (call_init (Some (''10.0.0.9'', 4000)) True, rtp_out_init 1 2 3 4)"

lemma sample_packets:
  "length (packets_of (snd (call_run (\<lambda>_. None) None sample_events sample_start))) = 2"
  by code_simp

theorem rtp_stream_exact_witness:
  "\<exists>bodies. packets_of (snd (call_run (\<lambda>_. None) None sample_events sample_start)) =
        map (\<lambda>(k, body). stream_packet (unpack_be32 1 2 3 4) k body) (enumerate 0 bodies)
      \<and> length bodies = 2 \<and> list_all (\<lambda>x. length x = 160) bodies"
proof -
  obtain s out ys where run: "call_run (\<lambda>_. None) None sample_events sample_start = ((s, out), ys)"
    by (metis prod.exhaust)
  from rtp_stream_exact [OF run [unfolded sample_start_def]] obtain bodies where
    b: "packets_of ys = map (\<lambda>(k, body). stream_packet (unpack_be32 1 2 3 4) k body) (enumerate 0 bodies)"
      "list_all (\<lambda>x. length x = 160) bodies" by blast
  have "length (packets_of ys) = 2" using sample_packets run by simp
  then have "length bodies = 2" by (simp add: b(1))
  with b run show ?thesis by auto
qed

theorem call_queues_bounded_witness:
  "\<exists>s out ys. call_run (\<lambda>_. None) None sample_events sample_start = ((s, out), ys) \<and>
     length (outbound_queue s) \<le> 10000 \<and> length (outbound_buffer s) < 960"
proof -
  obtain s out ys where run: "call_run (\<lambda>_. None) None sample_events sample_start = ((s, out), ys)"
    by (metis prod.exhaust)
  from call_queues_bounded [OF run [unfolded sample_start_def]] run show ?thesis by blast
qed

section \<open>Echo\<close>

text \<open>
  The steps that report an end of speech: a live response that completes or interrupts the turn,
  and the three gateway messages \<open>interrupted\<close>, \<open>agent_status\<close> with \<open>idle\<close> and a final transcript
  of the agent.  No other message does, a ping or a partial transcript for example.
\<close>

definition message_type :: "py_record \<Rightarrow> py" where
  "message_type msg = dget_default msg ''type'' (PStr [])"

definition ends_speech :: "(string \<Rightarrow> py option) \<Rightarrow> call_event \<Rightarrow> clock option" where
  "ends_speech loads e =
     (case e of
        GeminiRecv now sc \<Rightarrow> if turn_complete sc \<or> interrupted sc then Some now else None
      | GatewayRecv now sent (TextFrame x) \<Rightarrow>
          (case loads x of
             Some (PDict msg) \<Rightarrow>
               if message_type msg = PStr ''interrupted''
                 \<or> message_type msg = PStr ''agent_status'' \<and> py_get msg ''status'' = PStr ''idle''
                 \<or> message_type msg = PStr ''transcription'' \<and> py_get msg ''role'' = PStr ''agent''
                     \<and> \<not> truthy (py_get msg ''partial'')
               then Some now else None
           | _ \<Rightarrow> None)
      | _ \<Rightarrow> None)"

text \<open>The start of a gateway session whose greeting cannot be sent.\<close>

definition greeting_fails :: "(string \<Rightarrow> py option) \<Rightarrow> call_event \<Rightarrow> bool" where
  "greeting_fails loads e =
     (case e of
        GatewayRecv now sent (TextFrame x) \<Rightarrow>
          \<not> sent \<and> (case loads x of Some (PDict msg) \<Rightarrow> message_type msg = PStr ''session_started'' | _ \<Rightarrow> False)
      | _ \<Rightarrow> False)"

text \<open>The steps after which a caller who is muted at time \<open>t\<close> still is.\<close>

definition keeps_muted :: "(string \<Rightarrow> py option) \<Rightarrow> clock \<Rightarrow> call_event \<Rightarrow> bool" where
  "keeps_muted loads t e \<longleftrightarrow> \<not> greeting_fails loads e \<and>
     (case ends_speech loads e of None \<Rightarrow> True | Some now \<Rightarrow> t - now < ECHO_HOLDOFF_SEC)"

lemma drain_buffer_echo:
  "model_speaking (drain_buffer s) = model_speaking s \<and> model_speech_end_time (drain_buffer s) = model_speech_end_time s"
proof (induction s rule: drain_buffer.induct)
  case (1 s)
  then show ?case by (subst (1 2) drain_buffer.simps) (simp add: offer_output_def)
qed

lemma fold_recv_part_echo:
  "echo_muted t s \<Longrightarrow> echo_muted t (fold recv_part parts s)"
proof (induction parts arbitrary: s)
  case (Cons p parts)
  have "echo_muted t (recv_part p s)"
    using Cons.prems drain_buffer_echo by (simp add: recv_part_def echo_muted_def)
  from Cons.IH [OF this] show ?case by simp
qed simp

lemma echo_cong:
  "model_speaking s' = model_speaking s \<Longrightarrow> model_speech_end_time s' = model_speech_end_time s \<Longrightarrow>
    echo_muted t s' = echo_muted t s"
  by (simp add: echo_muted_def)

lemma echo_muted_simps [simp]:
  "echo_muted t (feed_inbound frame s) = echo_muted t s"
  "echo_muted t (media_recv symmetric data addr s) = echo_muted t s"
  "echo_muted t (media_inbound codec gain_env s) = echo_muted t s"
  by (rule echo_cong; simp add: feed_inbound_def media_recv_def media_inbound_def inbound_frame_def
      offer_input_def Let_def split: option.split list.split)+

lemma gateway_message_echo:
  assumes "gateway_message now sent m s = Some (s', g)" and "echo_muted t s"
    and "loads x = Some m" and "keeps_muted loads t (GatewayRecv now sent (TextFrame x))"
  shows "echo_muted t s'"
  using assms
  by (auto simp: gateway_message_def gateway_started_def gateway_ending_def gateway_transfer_def
      speech_ends_def echo_muted_def keeps_muted_def ends_speech_def greeting_fails_def message_type_def Let_def
      split: py.splits if_splits)

lemma step_keeps_muted:
  assumes st: "call_step loads codec e (s, out) = ((s', out'), ys)" and "echo_muted t s" and "keeps_muted loads t e"
  shows "echo_muted t s'"
proof (cases e)
  case (GeminiRecv now sc)
  with assms fold_recv_part_echo [of t s "audio_parts sc"] show ?thesis
    by (auto simp: gemini_recv_def Let_def keeps_muted_def ends_speech_def speech_ends_def echo_muted_def split: if_splits)
next
  case (GatewayRecv now sent frame)
  show ?thesis
  proof (cases frame)
    case (AudioFrame data)
    with assms GatewayRecv show ?thesis
      by (auto simp: gateway_recv_def gateway_audio_def offer_output_def echo_muted_def split: if_splits)
  next
    case (TextFrame x)
    with assms GatewayRecv show ?thesis
      by (auto simp: gateway_recv_def intro: gateway_message_echo split: if_splits option.splits)
  qed
next
  case (GeminiSend now)
  with assms show ?thesis
    by (auto simp: gemini_send_def echo_muted_def Let_def split: list.splits if_splits prod.splits)
next
  case (GatewaySend now)
  with assms show ?thesis
    by (auto simp: gateway_send_item_def echo_muted_def split: list.splits if_splits prod.splits)
next
  case (OutboundFrame now)
  with assms show ?thesis
    by (auto simp: emit_frame_def warn_no_inbound_def echo_muted_def Let_def split: option.splits prod.splits if_splits)
next
  case OutboundChunk
  with assms show ?thesis
    by (auto simp: take_chunk_def echo_muted_def Let_def split: list.splits option.splits if_splits)
next
  case Hangup
  with assms show ?thesis by (auto simp: echo_muted_def)
qed (use assms in \<open>auto split: if_splits\<close>)

lemma run_keeps_muted:
  "call_run loads codec es (s, out) = ((s', out'), ys) \<Longrightarrow> echo_muted t s \<Longrightarrow> list_all (keeps_muted loads t) es \<Longrightarrow>
    echo_muted t s'"
proof (induction es arbitrary: s out ys)
  case (Cons e es)
  obtain s1 out1 xs where st: "call_step loads codec e (s, out) = ((s1, out1), xs)" by (metis prod.exhaust)
  with Cons.prems obtain zs where "call_run loads codec es (s1, out1) = ((s', out'), zs)"
    by (auto split: prod.splits)
  then show ?case using Cons.IH step_keeps_muted [OF st Cons.prems(2)] Cons.prems(3) by auto
qed simp

lemma audio_mutes:
  assumes "gateway_recv loads now sent (AudioFrame data) s = Some (s', g)"
  shows "echo_muted t s'"
  using assms by (auto simp: gateway_recv_def gateway_audio_def offer_output_def echo_muted_def)

lemma audio_mutes_direct:
  assumes "data \<noteq> []" and "\<not> turn_complete sc" and "\<not> interrupted sc" and "audio_parts sc = pre @ data # post"
  shows "echo_muted t (gemini_recv now sc s)"
proof -
  have "echo_muted t (recv_part data (fold recv_part pre s))"
    using assms(1) drain_buffer_echo by (simp add: recv_part_def echo_muted_def)
  from fold_recv_part_echo [OF this, of post] assms show ?thesis by (simp add: gemini_recv_def Let_def)
qed

text \<open>
  C33 While the model speaks (the arrival of its audio sets the flag), nothing the caller says
  is forwarded to the model: only silence is, until half a second after an end of speech has
  been reported, whatever the other loops do in between, in the direct and the gateway mode.
  An end of speech is a turn completed or interrupted, an idle agent or a final transcript of the
  agent: no other message, such as a ping or a partial transcript, opens the line.  The one
  exception is a gateway session that starts while the model speaks and whose greeting cannot be
  sent: it clears the flag without any hold-off, and the theorem is about runs without it.
\<close>

theorem caller_muted_while_model_speaks:
  assumes "call_run loads codec es (s, out) = ((s1, out1), ys)"
    and "model_speaking s" and "list_all (keeps_muted loads t) es"
    and "e = GeminiSend t \<or> e = GatewaySend t"
    and "call_step loads codec e (s1, out1) = ((s2, out2), zs)"
  shows "zs \<in> {[], [ToModel SILENCE_FRAME]}"
proof -
  have m: "echo_muted t s1"
    using run_keeps_muted [OF assms(1) _ assms(3)] assms(2) by (simp add: echo_muted_def)
  then have "echo_muted t (s1\<lparr>gemini_in_queue := q\<rparr>)" for q by (simp add: echo_muted_def)
  with m show ?thesis
    using assms(4,5)
    by (auto simp: gemini_send_def gateway_send_item_def audio_to_send_def Let_def
        split: if_splits list.splits)
qed

theorem caller_muted_while_model_speaks_witness:
  "\<exists>s1 out1 ys s2 out2 zs.
     call_run (\<lambda>_. None) None [GatewayRecv 0 True (AudioFrame [1, 2]), Datagram False [1] (''h'', 1),
         GeminiRecv 1 \<lparr>audio_parts = [], turn_complete = True, interrupted = False\<rparr>] sample_start = ((s1, out1), ys) \<and>
     call_step (\<lambda>_. None) None (GatewaySend (5 / 4)) (s1, out1) = ((s2, out2), zs) \<and>
     zs \<in> {[], [ToModel SILENCE_FRAME]}"
proof -
  let ?es = "[Datagram False [1] (''h'', 1), GeminiRecv 1 \<lparr>audio_parts = [], turn_complete = True, interrupted = False\<rparr>]"
  obtain s out xs where st: "call_step (\<lambda>_. None) None (GatewayRecv 0 True (AudioFrame [1, 2])) sample_start = ((s, out), xs)"
    by (metis prod.exhaust)
  obtain s1 out1 ys where run: "call_run (\<lambda>_. None) None ?es (s, out) = ((s1, out1), ys)"
    by (metis prod.exhaust)
  obtain s2 out2 zs where last: "call_step (\<lambda>_. None) None (GatewaySend (5 / 4)) (s1, out1) = ((s2, out2), zs)"
    by (metis prod.exhaust)
  have "model_speaking s"
    using st by (auto simp: sample_start_def call_init_def gateway_recv_def gateway_audio_def offer_output_def)
  moreover have "list_all (keeps_muted (\<lambda>_. None) (5 / 4)) ?es" by (simp add: keeps_muted_def ends_speech_def greeting_fails_def ECHO_HOLDOFF_SEC_def)
  ultimately have "zs \<in> {[], [ToModel SILENCE_FRAME]}"
    using caller_muted_while_model_speaks [OF run _ _ _ last] by blast
  with st run last show ?thesis by (cases sample_start) auto
qed

text \<open>
  The hold-off is counted from the end of the model's generation, not of the playback.
\<close>

lemma drain_buffer_queues:
  assumes "length (outbound_queue s) + length (outbound_buffer s) div PCM_CHUNK \<le> OUTBOUND_QUEUE_SIZE"
  shows "length (outbound_queue (drain_buffer s)) =
    length (outbound_queue s) + length (outbound_buffer s) div PCM_CHUNK"
  using assms
proof (induction s rule: drain_buffer.induct)
  case (1 s)
  show ?case
  proof (cases "length (outbound_buffer s) \<ge> PCM_CHUNK")
    case True
    have pos: "0 < PCM_CHUNK" by (simp add: PCM_CHUNK_def)
    from True pos have d: "length (outbound_buffer s) div PCM_CHUNK =
        Suc ((length (outbound_buffer s) - PCM_CHUNK) div PCM_CHUNK)"
      by (simp add: le_div_geq)
    with "1.prems" have "length (outbound_queue s) < OUTBOUND_QUEUE_SIZE" by simp
    with "1.IH" [OF True] "1.prems" d True show ?thesis
      by (subst drain_buffer.simps) (simp add: offer_output_def)
  next
    case False
    then show ?thesis by (subst drain_buffer.simps) simp
  qed
qed

text \<open>
  Half a second after the model has finished, or was interrupted, the caller is heard by
  the model again although all of the turn may still be waiting to be played: every whole 20 ms
  chunk of the turn is in the outgoing queue, which an interruption does not empty either.  For
  a turn longer than half a second this is the echo the mute is there for.
\<close>

theorem playback_outlasts_mute:
  assumes "data \<noteq> []"
    and "length (outbound_queue s) + (length (outbound_buffer s) + length data) div PCM_CHUNK \<le> OUTBOUND_QUEUE_SIZE"
    and "turn_complete sc \<or> interrupted sc" and "audio_parts sc = [data]"
  shows "\<not> echo_muted (now + 1 / 2) (gemini_recv now sc s) \<and>
    length (outbound_queue (gemini_recv now sc s)) =
      length (outbound_queue s) + (length (outbound_buffer s) + length data) div PCM_CHUNK"
proof -
  have "length (outbound_queue (recv_part data s)) =
      length (outbound_queue s) + (length (outbound_buffer s) + length data) div PCM_CHUNK"
    using assms(1,2) drain_buffer_queues [of "s\<lparr>model_speaking := True, outbound_buffer := outbound_buffer s @ data\<rparr>"]
    by (simp add: recv_part_def)
  then show ?thesis
    using assms(3,4) by (auto simp: gemini_recv_def Let_def speech_ends_def echo_muted_def ECHO_HOLDOFF_SEC_def)
qed

theorem playback_outlasts_mute_witness:
  "\<not> echo_muted (7 + 1 / 2) (gemini_recv 7 \<lparr>audio_parts = [replicate 240000 0], turn_complete = False, interrupted = True\<rparr>
       (call_init None True)) \<and>
   length (outbound_queue (gemini_recv 7 \<lparr>audio_parts = [replicate 240000 0], turn_complete = False, interrupted = True\<rparr>
       (call_init None True))) = 250"
  using playback_outlasts_mute [of "replicate 240000 0" "call_init None True"
      "\<lparr>audio_parts = [replicate 240000 0], turn_complete = False, interrupted = True\<rparr>" 7]
  by (simp add: call_init_def PCM_CHUNK_def OUTBOUND_QUEUE_SIZE_def)

end
