(* ===== verification/Wa_Session.thy ===== *)
theory Wa_Session
  imports Call_Session Srtp_Context
begin

text \<open>
  \<open>sip_bridge/wa_session.py\<close>: the state of a WhatsApp call, its loops, its call record in
  Firestore and the tool the model can call; and the sending tool of \<open>sip_bridge/wa_tools.py\<close>.
  As in \<open>Call_Session\<close> a step is what a coroutine does between two \<open>await\<close>s.  The codec and
  libsrtp are functions (\<open>None\<close>: an exception).  Opus and SRTP objects keep state, so every
  step is given the functions as they are at that time.
\<close>

section \<open>State\<close>

record wa_session =
  w_remote :: "address option"
  w_transport :: bool
  w_inbound :: "bytes list"
  w_outbound :: "bytes list"
  w_gemini_in :: "bytes list"
  w_shutdown :: bool
  w_speaking :: bool
  w_speech_end :: clock
  w_greeting_sent :: bool
  w_received :: nat
  w_sent :: nat
  w_inbound_drops :: nat
  w_outbound_drops :: nat
  w_gateway_sid :: py
  w_gateway_token :: py

definition wa_call_init :: "address option \<Rightarrow> bool \<Rightarrow> wa_session" where
  "wa_call_init remote transport =
     \<lparr>w_remote = remote, w_transport = transport, w_inbound = [], w_outbound = [], w_gemini_in = [],
      w_shutdown = False, w_speaking = False, w_speech_end = 0, w_greeting_sent = False,
      w_received = 0, w_sent = 0, w_inbound_drops = 0, w_outbound_drops = 0,
      w_gateway_sid = PStr [], w_gateway_token = PStr []\<rparr>"

definition compute_rtp_timestamp_increment :: "nat \<Rightarrow> nat \<Rightarrow> nat" where
  "compute_rtp_timestamp_increment clock_rate frame_duration_ms = clock_rate * frame_duration_ms div 1000"

section \<open>Network to model\<close>

definition wa_feed_inbound :: "bytes \<Rightarrow> wa_session \<Rightarrow> wa_session" where
  "wa_feed_inbound frame s =
     (if length (w_inbound s) < 500
      then s\<lparr>w_inbound := w_inbound s @ [frame], w_received := w_received s + 1\<rparr>
      else s\<lparr>w_inbound_drops := w_inbound_drops s + 1\<rparr>)"

definition wa_media_recv :: "bytes \<Rightarrow> address \<Rightarrow> wa_session \<Rightarrow> wa_session" where
  "wa_media_recv data addr s =
     (if w_remote s \<noteq> None \<and> Some addr \<noteq> w_remote s then s else wa_feed_inbound data s)"

text \<open>What reaches the model of one frame: unprotect, drop the RTP header, decode.\<close>

definition strip_rtp_header :: "bytes \<Rightarrow> bytes" where
  "strip_rtp_header p = (if length p > 12 then drop 12 p else p)"

definition wa_decode ::
  "(bytes \<Rightarrow> bytes option) option \<Rightarrow> codec option \<Rightarrow> bytes \<Rightarrow> bytes option" where
  "wa_decode unprotect codec frame =
     Option.bind (case unprotect of Some u \<Rightarrow> u frame | None \<Rightarrow> Some frame) (\<lambda>p.
       case codec of Some c \<Rightarrow> codec_decode c (strip_rtp_header p) | None \<Rightarrow> Some p)"

definition wa_offer_input :: "bytes \<Rightarrow> wa_session \<Rightarrow> wa_session" where
  "wa_offer_input pcm s =
     (if pcm \<noteq> [] \<and> length (w_gemini_in s) < 500
      then s\<lparr>w_gemini_in := w_gemini_in s @ [pcm]\<rparr> else s)"

definition wa_media_inbound ::
  "(bytes \<Rightarrow> bytes option) option \<Rightarrow> codec option \<Rightarrow> wa_session \<Rightarrow> wa_session" where
  "wa_media_inbound unprotect codec s =
     (case w_inbound s of
        [] \<Rightarrow> s
      | frame # rest \<Rightarrow>
          (let s = s\<lparr>w_inbound := rest\<rparr>
           in case wa_decode unprotect codec frame of None \<Rightarrow> s | Some pcm \<Rightarrow> wa_offer_input pcm s))"

definition wa_echo_muted :: "clock \<Rightarrow> wa_session \<Rightarrow> bool" where
  "wa_echo_muted now s \<longleftrightarrow> w_speaking s \<or> now - w_speech_end s < ECHO_HOLDOFF_SEC"

text \<open>One item of either sending loop.\<close>

definition wa_send_item :: "clock \<Rightarrow> wa_session \<Rightarrow> wa_session \<times> bytes option" where
  "wa_send_item now s =
     (case w_gemini_in s of
        [] \<Rightarrow> (s, None)
      | pcm # rest \<Rightarrow>
          (s\<lparr>w_gemini_in := rest\<rparr>, Some (if wa_echo_muted now s then SILENCE_FRAME else pcm)))"

section \<open>Model to network\<close>

definition wa_offer_output :: "bytes \<Rightarrow> wa_session \<Rightarrow> wa_session" where
  "wa_offer_output pcm s =
     (if length (w_outbound s) < 10000 then s\<lparr>w_outbound := w_outbound s @ [pcm]\<rparr>
      else s\<lparr>w_outbound_drops := w_outbound_drops s + 1\<rparr>)"

definition wa_speech_ends :: "clock \<Rightarrow> wa_session \<Rightarrow> wa_session" where
  "wa_speech_ends now s = s\<lparr>w_speaking := False, w_speech_end := now\<rparr>"

definition wa_recv_part :: "bytes \<Rightarrow> wa_session \<Rightarrow> wa_session" where
  "wa_recv_part data s = (if data = [] then s else wa_offer_output data (s\<lparr>w_speaking := True\<rparr>))"

definition wa_gemini_recv :: "clock \<Rightarrow> server_content \<Rightarrow> wa_session \<Rightarrow> wa_session" where
  "wa_gemini_recv now sc s =
     (let s = fold wa_recv_part (audio_parts sc) s
      in if turn_complete sc then wa_speech_ends now s else s)"

text \<open>
  Session start: the greeting is sent the first time only; \<open>sent\<close> says whether it arrives.
\<close>

definition wa_gateway_started :: "bool \<Rightarrow> py_record \<Rightarrow> wa_session \<Rightarrow> wa_session \<times> bool" where
  "wa_gateway_started sent msg s =
     (let sid = dget_default msg ''sessionId'' (PStr []);
          s = (if truthy sid then s\<lparr>w_gateway_sid := sid\<rparr> else s)
      in if w_greeting_sent s then (s, False)
         else let s = s\<lparr>w_greeting_sent := True, w_speaking := True\<rparr>
              in if sent then (s, True) else (s\<lparr>w_speaking := False\<rparr>, False))"

definition wa_gateway_ending :: "py_record \<Rightarrow> wa_session \<Rightarrow> wa_session" where
  "wa_gateway_ending msg s =
     (let reason = dget_default msg ''reason'' (PStr [])
      in if reason = PStr ''live_session_ended'' then s\<lparr>w_shutdown := True\<rparr>
         else if reason = PStr ''session_resumption''
           then s\<lparr>w_gateway_token := dget_default msg ''resumptionToken'' (PStr [])\<rparr>
         else s)"

definition wa_gateway_message :: "clock \<Rightarrow> bool \<Rightarrow> py \<Rightarrow> wa_session \<Rightarrow> (wa_session \<times> bool) option" where
  "wa_gateway_message now sent m s =
     (case m of
        PDict msg \<Rightarrow>
          (let ty = dget_default msg ''type'' (PStr [])
           in if ty = PStr ''session_started'' then Some (wa_gateway_started sent msg s)
              else if ty = PStr ''session_ending'' then Some (wa_gateway_ending msg s, False)
              else if ty = PStr ''interrupted'' then Some (wa_speech_ends now s, False)
              else if ty = PStr ''agent_status'' then
                Some (if py_get msg ''status'' = PStr ''idle'' then wa_speech_ends now s else s, False)
              else if ty = PStr ''transcription'' then
                (if \<not> sliceable (dget_default msg ''text'' (PStr [])) then None
                 else if py_get msg ''role'' = PStr ''agent'' \<and> \<not> truthy (py_get msg ''partial'')
                   then Some (wa_speech_ends now s, False)
                 else Some (s, False))
              else Some (s, False))
      | _ \<Rightarrow> None)"

definition wa_gateway_recv ::
  "(string \<Rightarrow> py option) \<Rightarrow> clock \<Rightarrow> bool \<Rightarrow> gateway_frame \<Rightarrow> wa_session \<Rightarrow> (wa_session \<times> bool) option" where
  "wa_gateway_recv loads now sent frame s =
     (case frame of
        AudioFrame data \<Rightarrow> Some (wa_offer_output data (s\<lparr>w_speaking := True\<rparr>), False)
      | TextFrame t \<Rightarrow> (case loads t of None \<Rightarrow> Some (s, False) | Some m \<Rightarrow> wa_gateway_message now sent m s))"

text \<open>
  One frame in \<open>_media_outbound_loop\<close>: what is handed to the socket.  The counter is advanced
  before anything can fail.
\<close>

definition wa_protect ::
  "codec option \<Rightarrow> (bytes \<Rightarrow> bytes option) option \<Rightarrow> bytes \<Rightarrow> bytes option" where
  "wa_protect codec protect pcm =
     Option.bind (case codec of Some c \<Rightarrow> codec_encode c pcm | None \<Rightarrow> Some pcm) (\<lambda>encoded.
       case protect of Some p \<Rightarrow> p encoded | None \<Rightarrow> Some encoded)"

definition wa_media_outbound ::
  "codec option \<Rightarrow> (bytes \<Rightarrow> bytes option) option \<Rightarrow> wa_session \<Rightarrow> wa_session \<times> (bytes \<times> address) option" where
  "wa_media_outbound codec protect s =
     (case w_outbound s of
        [] \<Rightarrow> (s, None)
      | pcm # rest \<Rightarrow>
          (let s = s\<lparr>w_outbound := rest, w_sent := w_sent s + 1\<rparr>
           in (s, case (wa_protect codec protect pcm, w_remote s) of
                    (Some d, Some a) \<Rightarrow> if w_transport s then Some (d, a) else None
                  | _ \<Rightarrow> None)))"

section \<open>The call record\<close>

type_synonym call_docs = "(string, py_record) dict"

definition write_call_start :: "string \<Rightarrow> string \<Rightarrow> string \<Rightarrow> clock \<Rightarrow> call_docs \<Rightarrow> call_docs" where
  "write_call_start call_id tenant_id company_id started_at docs =
     dset call_id (dmerge (dget_default docs call_id [])
       [(''call_id'', PStr call_id), (''tenant_id'', PStr tenant_id), (''company_id'', PStr company_id),
        (''status'', PStr ''active''), (''started_at'', PFloat started_at)]) docs"

text \<open>\<open>update\<close> raises when the document does not exist.\<close>

definition write_call_end :: "string \<Rightarrow> rat \<Rightarrow> clock \<Rightarrow> wa_session \<Rightarrow> call_docs \<Rightarrow> call_docs option" where
  "write_call_end call_id rounded_duration now s docs =
     (case dget docs call_id of
        None \<Rightarrow> None
      | Some d \<Rightarrow> Some (dset call_id (dmerge d
          [(''status'', PStr ''terminated''), (''duration_seconds'', PFloat rounded_duration),
           (''frames_received'', PInt (int (w_received s))), (''frames_sent'', PInt (int (w_sent s))),
           (''ended_at'', PFloat now)]) docs))"

text \<open>\<open>ended_at < cutoff\<close> of a number; other values raise (\<open>None\<close>).\<close>

fun py_less :: "py \<Rightarrow> rat \<Rightarrow> bool option" where
  "py_less (PInt i) q = Some (of_int i < q)"
| "py_less (PBool b) q = Some (of_bool b < q)"
| "py_less (PFloat x) q = Some (x < q)"
| "py_less _ q = None"

definition stale_call :: "clock \<Rightarrow> py_record \<Rightarrow> bool option" where
  "stale_call cutoff d =
     (let e = dget_default d ''ended_at'' (PInt 0)
      in if \<not> truthy e then Some False else py_less e cutoff)"

fun cleanup_docs :: "clock \<Rightarrow> (string \<times> py_record) list \<Rightarrow> call_docs \<Rightarrow> nat \<Rightarrow> (call_docs \<times> nat) option" where
  "cleanup_docs cutoff [] docs n = Some (docs, n)"
| "cleanup_docs cutoff ((k, d) # ds) docs n =
     (if py_get d ''status'' \<noteq> PStr ''terminated'' then cleanup_docs cutoff ds docs n
      else case stale_call cutoff d of
        None \<Rightarrow> None
      | Some True \<Rightarrow> cleanup_docs cutoff ds (dpop k docs) (n + 1)
      | Some False \<Rightarrow> cleanup_docs cutoff ds docs n)"

definition cleanup_stale_calls :: "clock \<Rightarrow> rat \<Rightarrow> call_docs \<Rightarrow> (call_docs \<times> nat) option" where
  "cleanup_stale_calls now ttl_seconds docs = cleanup_docs (now - ttl_seconds) docs docs 0"

section \<open>The messaging tool\<close>

record wa_tool_config =
  tool_api_base_url :: string
  tool_secret :: string
  tool_tenant_id :: string
  tool_company_id :: string

definition wa_tool_error :: "string \<Rightarrow> py_record" where
  "wa_tool_error detail = [(''status'', PStr ''error''), (''detail'', PStr detail)]"

text \<open>
  The request the tool posts: URL, payload and the text whose hash is the idempotency key.
  \<open>https\<close> says whether the base URL parses as https with a host; \<open>fmt\<close> is \<open>str()\<close>.
\<close>

record tool_request =
  tool_url :: string
  tool_payload :: py_record
  tool_key_text :: string

definition first_true :: "py list \<Rightarrow> py" where
  "first_true vs = (case find truthy vs of Some v \<Rightarrow> v | None \<Rightarrow> last vs)"

definition send_wa_request ::
  "(py \<Rightarrow> string) \<Rightarrow> (string \<Rightarrow> bool) \<Rightarrow> wa_tool_config \<Rightarrow> string \<Rightarrow> py_record \<Rightarrow> py_record + tool_request" where
  "send_wa_request fmt https cfg caller args =
     (let body = dget_default args ''text'' (PStr []); base = strip (tool_api_base_url cfg)
      in if \<not> truthy body then Inl (wa_tool_error ''No text provided'')
         else if base = [] then Inl (wa_tool_error ''WA_SERVICE_API_BASE_URL not configured'')
         else if \<not> https base then Inl (wa_tool_error ''WA_SERVICE_API_BASE_URL must be https'')
         else if tool_secret cfg = [] then Inl (wa_tool_error ''WA_SERVICE_SECRET not configured'')
         else
           let scope = fmt (first_true [py_get args ''invocation_id'', py_get args ''call_id'',
                 py_get args ''session_id'', PStr caller])
           in Inr \<lparr>tool_url = rstrip_where (\<lambda>c. c = CHR ''/'') base @ ''/api/v1/at/whatsapp/send'',
                tool_payload = [(''to'', PStr caller), (''text'', body), (''type'', PStr ''text''),
                  (''tenant_id'', PStr (tool_tenant_id cfg)), (''company_id'', PStr (tool_company_id cfg))],
                tool_key_text = or_else (tool_tenant_id cfg) ''public'' @ '':'' @
                  or_else (tool_company_id cfg) ''ekaette-electronics'' @ '':send_whatsapp_message:'' @
                  scope @ '':'' @ fmt body\<rparr>)"

text \<open>
  The tool calls of one response, in order: the call's name, arguments and identifier, and the
  answer sent back.  \<open>post\<close> is the HTTP exchange with the result it is turned into.
\<close>

definition answer_tool_call ::
  "(wa_tool_config \<Rightarrow> string \<Rightarrow> py_record \<Rightarrow> py_record) \<Rightarrow> string \<Rightarrow> wa_tool_config option
     \<Rightarrow> string \<Rightarrow> py_record \<Rightarrow> py_record" where
  "answer_tool_call send caller cfg name args =
     (if name = ''send_whatsapp_message'' then
        (case cfg of
           Some c \<Rightarrow> if caller = [] then wa_tool_error ''WhatsApp tool context unavailable'' else send c caller args
         | None \<Rightarrow> wa_tool_error ''WhatsApp tool context unavailable'')
      else wa_tool_error (''Unknown tool: '' @ name))"

definition handle_tool_call ::
  "(wa_tool_config \<Rightarrow> string \<Rightarrow> py_record \<Rightarrow> py_record) \<Rightarrow> string \<Rightarrow> wa_tool_config option
     \<Rightarrow> (string \<times> py_record \<times> string) list \<Rightarrow> (string \<times> string \<times> py_record) list" where
  "handle_tool_call send caller cfg calls =
     map (\<lambda>(name, args, fid). (name, fid, answer_tool_call send caller cfg name args)) calls"

end
