(* ===== verification/Wa_Media.thy ===== *)
theory Wa_Media
  imports Wa_Session
begin

text \<open>
  Runs of a WhatsApp call: any sequence of steps of its loops, with what leaves the process.
\<close>

datatype wa_session_event =
    WDatagram bytes address
  | WInbound "(bytes \<Rightarrow> bytes option) option" "codec option"
  | WSend clock
  | WGeminiRecv clock server_content
  | WGatewayRecv clock bool gateway_frame
  | WOutbound "codec option" "(bytes \<Rightarrow> bytes option) option"
  | WHangup

datatype wa_output = WToModel bytes | WGreeting | WToPeer bytes address

fun wa_call_step ::
  "(string \<Rightarrow> py option) \<Rightarrow> wa_session_event \<Rightarrow> wa_session \<Rightarrow> wa_session \<times> wa_output list" where
  "wa_call_step loads (WDatagram data addr) s =
     (if w_shutdown s \<or> \<not> w_transport s then s else wa_media_recv data addr s, [])"
| "wa_call_step loads (WInbound unprotect codec) s =
     (if w_shutdown s then s else wa_media_inbound unprotect codec s, [])"
| "wa_call_step loads (WSend now) s =
     (if w_shutdown s then (s, [])
      else case wa_send_item now s of (s, None) \<Rightarrow> (s, []) | (s, Some b) \<Rightarrow> (s, [WToModel b]))"
| "wa_call_step loads (WGeminiRecv now sc) s =
     (if w_shutdown s then s else wa_gemini_recv now sc s, [])"
| "wa_call_step loads (WGatewayRecv now sent frame) s =
     (if w_shutdown s then (s, [])
      else case wa_gateway_recv loads now sent frame s of
        None \<Rightarrow> (s, []) | Some (s, greeted) \<Rightarrow> (s, if greeted then [WGreeting] else []))"
| "wa_call_step loads (WOutbound codec protect) s =
     (if w_shutdown s then (s, [])
      else case wa_media_outbound codec protect s of
        (s, None) \<Rightarrow> (s, []) | (s, Some (d, a)) \<Rightarrow> (s, [WToPeer d a]))"
| "wa_call_step loads WHangup s = (s\<lparr>w_shutdown := True\<rparr>, [])"

primrec wa_call_run ::
  "(string \<Rightarrow> py option) \<Rightarrow> wa_session_event list \<Rightarrow> wa_session \<Rightarrow> wa_session \<times> wa_output list" where
  "wa_call_run loads [] s = (s, [])"
| "wa_call_run loads (e # es) s =
     (let (s, xs) = wa_call_step loads e s; (s, ys) = wa_call_run loads es s in (s, xs @ ys))"

lemmas wa_media_defs = wa_media_recv_def wa_feed_inbound_def wa_media_inbound_def wa_offer_input_def
  wa_send_item_def wa_gemini_recv_def wa_speech_ends_def wa_gateway_recv_def wa_offer_output_def
  wa_gateway_message_def wa_gateway_ending_def wa_media_outbound_def Let_def

section \<open>What the steps keep\<close>

lemma fold_wa_recv_part:
  "w_greeting_sent (fold wa_recv_part parts s) = w_greeting_sent s"
  "w_remote (fold wa_recv_part parts s) = w_remote s"
  "w_inbound (fold wa_recv_part parts s) = w_inbound s"
  "w_gemini_in (fold wa_recv_part parts s) = w_gemini_in s"
  by (induction parts arbitrary: s) (simp_all add: wa_recv_part_def wa_offer_output_def)

lemma wa_started_greets:
  "wa_gateway_started sent msg s = (s', g) \<Longrightarrow> w_greeting_sent s' \<and> (g \<longrightarrow> \<not> w_greeting_sent s)"
  by (auto simp: wa_gateway_started_def Let_def split: if_splits)

lemma wa_started_keeps:
  "wa_gateway_started sent msg s = (s', g) \<Longrightarrow>
    w_remote s' = w_remote s \<and> w_inbound s' = w_inbound s \<and> w_gemini_in s' = w_gemini_in s"
  by (auto simp: wa_gateway_started_def Let_def split: if_splits)

lemma wa_message_greets:
  assumes "wa_gateway_message now sent m s = Some (s', g)"
  shows "(g \<longrightarrow> \<not> w_greeting_sent s \<and> w_greeting_sent s') \<and> (w_greeting_sent s \<longrightarrow> w_greeting_sent s')"
  using assms wa_started_greets
  by (auto simp: wa_gateway_message_def wa_gateway_ending_def wa_speech_ends_def Let_def
      split: py.splits if_splits)

lemma wa_message_keeps:
  assumes "wa_gateway_message now sent m s = Some (s', g)"
  shows "w_remote s' = w_remote s \<and> w_inbound s' = w_inbound s \<and> w_gemini_in s' = w_gemini_in s"
  using assms wa_started_keeps
  by (auto simp: wa_gateway_message_def wa_gateway_ending_def wa_speech_ends_def Let_def
      split: py.splits if_splits)

definition greetings :: "wa_output list \<Rightarrow> nat" where
  "greetings ys = length (filter (\<lambda>y. y = WGreeting) ys)"

lemma wa_step_greets:
  assumes "wa_call_step loads e s = (s', ys)"
  shows "greetings ys + of_bool (w_greeting_sent s) \<le> of_bool (w_greeting_sent s')"
proof (cases "\<exists>now sent frame. e = WGatewayRecv now sent frame")
  case True
  then obtain now sent frame where e: "e = WGatewayRecv now sent frame" by blast
  show ?thesis
  proof (cases "w_shutdown s")
    case False
    then show ?thesis
      using assms
      by (auto simp: e greetings_def wa_gateway_recv_def wa_offer_output_def
          dest!: wa_message_greets split: option.splits gateway_frame.splits if_splits)
  qed (use assms in \<open>auto simp: e greetings_def\<close>)
next
  case False
  then show ?thesis
    using assms
    by (cases e) (auto simp: greetings_def wa_media_defs fold_wa_recv_part
        split: if_splits option.splits list.splits)
qed

lemma wa_run_greets:
  "wa_call_run loads es s = (s', ys) \<Longrightarrow> greetings ys + of_bool (w_greeting_sent s) \<le> of_bool (w_greeting_sent s')"
proof (induction es arbitrary: s ys)
  case (Cons e es)
  obtain s1 xs where st: "wa_call_step loads e s = (s1, xs)" by force
  with Cons.prems obtain zs where run: "wa_call_run loads es s1 = (s', zs)" and "ys = xs @ zs"
    by (auto split: prod.splits)
  with Cons.IH [OF run] wa_step_greets [OF st] show ?case by (simp add: greetings_def)
qed (simp add: greetings_def)

text \<open>
  C36 The assistant is asked to greet at most once in a call, however often the gateway
  reconnects and announces a session.
\<close>

theorem wa_greets_once:
  assumes "wa_call_run loads es (wa_call_init remote transport) = (s, ys)"
  shows "greetings ys \<le> 1"
  using wa_run_greets [OF assms] by (auto simp: wa_call_init_def of_bool_def split: if_splits)

theorem wa_greets_once_witness:
  "greetings (snd (wa_call_run (\<lambda>x. Some (PDict [(''type'', PStr x)]))
      [WGatewayRecv 0 True (TextFrame ''session_started''), WGatewayRecv 5 True (TextFrame ''session_started'')]
      (wa_call_init None True))) \<le> 1"
  by (rule wa_greets_once [OF prod.collapse [symmetric]])

text \<open>The telephone session of \<open>Call_Session\<close> greets again on every announcement.\<close>

lemma phone_greets_again:
  "fst (gateway_started True msg s) = s' \<Longrightarrow> snd (gateway_started True msg' s')"
  by (simp add: gateway_started_def Let_def)

section \<open>Only the negotiated peer is heard\<close>

lemma wa_step_inbound:
  assumes "wa_call_step loads e s = (s', ys)" and "w_remote s = Some r"
  shows "w_remote s' = Some r"
    and "set (w_inbound s') \<subseteq> set (w_inbound s) \<union> {data. e = WDatagram data r}"
proof -
  have "w_remote s' = Some r \<and> set (w_inbound s') \<subseteq> set (w_inbound s) \<union> {data. e = WDatagram data r}"
  proof (cases "\<exists>now sent frame. e = WGatewayRecv now sent frame")
    case True
    then obtain now sent frame where e: "e = WGatewayRecv now sent frame" by blast
    show ?thesis
      using assms
      by (auto simp: e wa_gateway_recv_def wa_offer_output_def dest!: wa_message_keeps
          split: option.splits gateway_frame.splits if_splits)
  next
    case False
    then show ?thesis
      using assms
      by (cases e) (auto simp: wa_media_defs fold_wa_recv_part split: if_splits option.splits list.splits)
  qed
  then show "w_remote s' = Some r"
    and "set (w_inbound s') \<subseteq> set (w_inbound s) \<union> {data. e = WDatagram data r}" by simp_all
qed

text \<open>
  In a call whose peer was negotiated, every frame that waits to be decoded came from the
  peer's address: datagrams of anybody else are dropped.
\<close>

theorem wa_inbound_from_peer:
  assumes "wa_call_run loads es s = (s', ys)" and "w_remote s = Some r"
  shows "set (w_inbound s') \<subseteq> set (w_inbound s) \<union> {data. WDatagram data r \<in> set es}"
  using assms
proof (induction es arbitrary: s ys)
  case (Cons e es)
  obtain s1 xs where st: "wa_call_step loads e s = (s1, xs)" by force
  with Cons.prems obtain zs where run: "wa_call_run loads es s1 = (s', zs)"
    by (auto split: prod.splits)
  from Cons.IH [OF run wa_step_inbound(1) [OF st Cons.prems(2)]] wa_step_inbound(2) [OF st Cons.prems(2)]
  show ?case by auto
qed simp

theorem wa_inbound_from_peer_witness:
  "set (w_inbound (fst (wa_call_run (\<lambda>x. None) [WDatagram [1] (''a'', 1), WDatagram [2] (''b'', 1)]
      (wa_call_init (Some (''a'', 1)) True)))) \<subseteq> {[1]}"
proof -
  let ?es = "[WDatagram [1] (''a'', 1), WDatagram [2] (''b'', 1)]"
  let ?r = "wa_call_run (\<lambda>x. None) ?es (wa_call_init (Some (''a'', 1)) True)"
  have "?r = (fst ?r, snd ?r)" by simp
  from wa_inbound_from_peer [OF this, of "(''a'', 1)"] show ?thesis by (simp add: wa_call_init_def)
qed

section \<open>The frames are not RTP packets\<close>

text \<open>
  Two calls of this program cannot understand each other, even when both hold the same
  SRTP key: the sender protects the bare codec frame, the receiver takes the first 12 bytes of
  what it unprotects for an RTP header, so the decoder gets every frame without its first 12
  bytes.
\<close>

theorem wa_frames_lose_header:
  assumes "codec_encode c pcm = Some frame" and "length frame > 12"
    and "protect frame = Some dgram" and "unprotect dgram = Some frame"
    and "w_outbound s = pcm # rest" and "w_remote s = Some a" and "w_transport s"
  shows "snd (wa_media_outbound (Some c) (Some protect) s) = Some (dgram, a) \<and>
    wa_decode (Some unprotect) (Some c') dgram = codec_decode c' (drop 12 frame)"
  using assms
  by (simp add: wa_media_outbound_def wa_protect_def wa_decode_def strip_rtp_header_def Let_def)

theorem wa_frames_lose_header_witness:
  "wa_decode (Some Some) (Some \<lparr>codec_decode = Some, codec_encode = Some\<rparr>) (replicate 12 0 @ [1, 2]) = Some [1, 2]"
  using wa_frames_lose_header [of "\<lparr>codec_decode = Some, codec_encode = Some\<rparr>" "replicate 12 0 @ [1, 2]"
      "replicate 12 0 @ [1, 2]" Some "replicate 12 0 @ [1, 2]" Some
      "(wa_call_init (Some (''a'', 1)) True)\<lparr>w_outbound := [replicate 12 0 @ [1, 2]]\<rparr>" "[]" "(''a'', 1)"
      "\<lparr>codec_decode = Some, codec_encode = Some\<rparr>"]
  by (simp add: wa_call_init_def)

section \<open>Cleaning up call records\<close>

lemma cleanup_docs_keeps:
  assumes "cleanup_docs cutoff ds docs n = Some (docs', n')" and "k \<notin> set (map fst ds)"
  shows "dget docs' k = dget docs k"
  using assms by (induction cutoff ds docs n rule: cleanup_docs.induct) (auto split: option.splits bool.splits if_splits)

lemma cleanup_docs_result:
  assumes "cleanup_docs cutoff ds docs n = Some (docs', n')" and "distinct (map fst ds)"
    and "(k, d) \<in> set ds"
  shows "dget docs' k = (if py_get d ''status'' = PStr ''terminated'' \<and> stale_call cutoff d = Some True
    then None else dget docs k)"
  using assms
proof (induction cutoff ds docs n rule: cleanup_docs.induct)
  case (2 cutoff k' d' ds docs n)
  show ?case
  proof (cases "k = k'")
    case True
    with 2 have d: "d = d'" "k' \<notin> set (map fst ds)" by (auto simp: image_iff)
    then show ?thesis
      using 2(4) True cleanup_docs_keeps [of cutoff ds _ _ docs' n' k']
      by (auto split: option.splits bool.splits if_splits)
  next
    case False
    with 2 show ?thesis
      by (cases "py_get d' ''status'' = PStr ''terminated''"; cases "stale_call cutoff d'")
        (auto split: bool.splits if_splits)
  qed
qed simp

text \<open>The cleanup removes the terminated calls that ended before the cutoff, and nothing else.\<close>

lemma cleanup_exact:
  assumes "cleanup_stale_calls now ttl docs = Some (docs', n)" and "dict_wf docs"
  shows "dget docs' k = (case dget docs k of
      None \<Rightarrow> None
    | Some d \<Rightarrow> if py_get d ''status'' = PStr ''terminated'' \<and> stale_call (now - ttl) d = Some True
        then None else Some d)"
proof (cases "dget docs k")
  case None
  then have "k \<notin> set (map fst docs)" by (simp add: map_of_eq_None_iff)
  with assms(1) None show ?thesis
    using cleanup_docs_keeps by (fastforce simp: cleanup_stale_calls_def)
next
  case (Some d)
  then have "(k, d) \<in> set docs" by (rule dget_in_set)
  with assms Some show ?thesis
    using cleanup_docs_result [of "now - ttl" docs docs 0 docs' n k d]
    by (auto simp: cleanup_stale_calls_def dict_wf_def)
qed

end
