(* ===== verification/Agent_Policy.thy ===== *)
theory Agent_Policy
  imports Py_Records
begin

text \<open>
  \<open>app/configs/agent_policy.py\<close>: which sub-agents a session may use.  A list of agents is
  \<open>Some\<close>, an absent policy is \<open>None\<close>.  The session state is a dictionary of values.
\<close>

definition KNOWN_SUB_AGENT_NAMES :: "string list" where
  "KNOWN_SUB_AGENT_NAMES =
     [''vision_agent'', ''valuation_agent'', ''booking_agent'', ''catalog_agent'', ''support_agent'']"

definition DEFAULT_ENABLED_AGENTS :: "(string, string list) dict" where
  "DEFAULT_ENABLED_AGENTS =
     [(''electronics'', [''vision_agent'', ''valuation_agent'', ''booking_agent'', ''catalog_agent'', ''support_agent'']),
      (''hotel'', [''booking_agent'', ''support_agent'']),
      (''automotive'', [''vision_agent'', ''valuation_agent'', ''booking_agent'', ''catalog_agent'', ''support_agent'']),
      (''fashion'', [''catalog_agent'', ''support_agent'']),
      (''telecom'', [''catalog_agent'', ''support_agent'']),
      (''aviation-support'', [''support_agent'']),
      (''aviation'', [''support_agent''])]"

text \<open>The texts of a list, stripped.\<close>

fun stripped_texts :: "py list \<Rightarrow> string list" where
  "stripped_texts [] = []"
| "stripped_texts (PStr s # xs) = strip s # stripped_texts xs"
| "stripped_texts (_ # xs) = stripped_texts xs"

fun normalize_enabled_agents :: "py \<Rightarrow> string list option" where
  "normalize_enabled_agents (PList raw) =
     Some (filter (\<lambda>a. a \<in> set KNOWN_SUB_AGENT_NAMES) (stripped_texts raw))"
| "normalize_enabled_agents _ = None"

fun infer_enabled_agents_from_capabilities :: "py \<Rightarrow> string list option" where
  "infer_enabled_agents_from_capabilities (PList capabilities) =
     (let caps = filter (\<lambda>c. c \<noteq> []) (stripped_texts capabilities)
      in if caps = [] then None
         else Some ([''support_agent'']
           @ (if ''catalog_lookup'' \<in> set caps then [''catalog_agent''] else [])
           @ (if ''booking_reservations'' \<in> set caps then [''booking_agent''] else [])
           @ (if ''valuation_tradein'' \<in> set caps then [''vision_agent'', ''valuation_agent''] else [])))"
| "infer_enabled_agents_from_capabilities _ = None"

definition resolve_enabled_agents_from_template :: "py_record \<Rightarrow> py \<Rightarrow> string list" where
  "resolve_enabled_agents_from_template template capabilities =
     (case normalize_enabled_agents (py_get template ''enabled_agents'') of
        Some agents \<Rightarrow> agents
      | None \<Rightarrow> (case infer_enabled_agents_from_capabilities capabilities of
          Some agents \<Rightarrow> agents | None \<Rightarrow> [''support_agent'']))"

fun default_agents :: "py \<Rightarrow> string list option" where
  "default_agents (PStr s) = dget DEFAULT_ENABLED_AGENTS (lower (strip s))"
| "default_agents _ = None"

definition resolve_enabled_agents_from_state :: "py_record \<Rightarrow> string list option" where
  "resolve_enabled_agents_from_state state =
     (case normalize_enabled_agents (py_get state ''app:enabled_agents'') of
        Some agents \<Rightarrow> Some agents
      | None \<Rightarrow>
          (case default_agents (py_get state ''app:industry_template_id'') of
             Some agents \<Rightarrow> Some agents
           | None \<Rightarrow>
               (case default_agents (py_get state ''app:industry'') of
                  Some agents \<Rightarrow> Some agents
                | None \<Rightarrow> infer_enabled_agents_from_capabilities (py_get state ''app:capabilities''))))"

section \<open>Lemmas\<close>

lemma default_agents_known:
  assumes "default_agents v = Some agents"
  shows "set agents \<subseteq> set KNOWN_SUB_AGENT_NAMES"
proof -
  have *: "\<forall>(k, xs) \<in> set DEFAULT_ENABLED_AGENTS. set xs \<subseteq> set KNOWN_SUB_AGENT_NAMES"
    by (simp add: DEFAULT_ENABLED_AGENTS_def KNOWN_SUB_AGENT_NAMES_def)
  from assms obtain k where "(k, agents) \<in> set DEFAULT_ENABLED_AGENTS"
    by (cases v) (auto dest: dget_in_set)
  with * show ?thesis by blast
qed

lemma normalize_known:
  "normalize_enabled_agents v = Some agents \<Longrightarrow> set agents \<subseteq> set KNOWN_SUB_AGENT_NAMES"
  by (cases v) auto

lemma infer_known:
  "infer_enabled_agents_from_capabilities v = Some agents \<Longrightarrow> set agents \<subseteq> set KNOWN_SUB_AGENT_NAMES"
  by (cases v) (auto simp: Let_def KNOWN_SUB_AGENT_NAMES_def split: if_splits)

text \<open>Whatever the state holds, only known sub-agents are ever enabled: never the router.\<close>

lemma resolved_known:
  assumes "resolve_enabled_agents_from_state state = Some agents"
  shows "set agents \<subseteq> set KNOWN_SUB_AGENT_NAMES"
  using assms normalize_known default_agents_known infer_known
  by (auto simp: resolve_enabled_agents_from_state_def split: option.splits)

lemma router_never_enabled:
  "resolve_enabled_agents_from_state state = Some agents \<Longrightarrow> ''ekaette_router'' \<notin> set agents"
  using resolved_known by (fastforce simp: KNOWN_SUB_AGENT_NAMES_def)

text \<open>An explicit list is final, also the empty one.\<close>

lemma explicit_policy_fails_closed:
  assumes "py_get state ''app:enabled_agents'' = PList raw"
  shows "resolve_enabled_agents_from_state state =
    Some (filter (\<lambda>a. a \<in> set KNOWN_SUB_AGENT_NAMES) (stripped_texts raw))"
  using assms by (simp add: resolve_enabled_agents_from_state_def)

end
