(* ===== verification/Agent_Dedup.thy ===== *)
theory Agent_Dedup
  imports Py_Records
begin

text \<open>
  \<open>app/agents/dedup.py\<close>: suppression of repeated agent invocations and the token totals.
  \<open>sha1\<close> is the hash of a text (as hexadecimal digits); the session state is a dictionary.
\<close>

definition DEDUP_COOLDOWN_SECONDS :: rat where "DEDUP_COOLDOWN_SECONDS = 2"

definition ROOT_AGENT_NAME :: string where "ROOT_AGENT_NAME = ''ekaette_router''"

section \<open>Fingerprints\<close>

text \<open>A part of the user's content: its text, its function call and its data, if any.\<close>

record content_part =
  part_text :: "string option"
  part_call :: "(string \<times> string) option"
  part_blob :: "(string \<times> nat) option"

definition part_chunk :: "content_part \<Rightarrow> string list" where
  "part_chunk p =
     (case part_text p of
        Some t \<Rightarrow> if strip t \<noteq> [] then [''text:'' @ strip t] else
          (case part_call p of
             Some (f, args) \<Rightarrow> [''call:'' @ f @ '':'' @ args]
           | None \<Rightarrow> (case part_blob p of Some (m, n) \<Rightarrow> [''blob:'' @ m @ '':'' @ nat_str n] | None \<Rightarrow> []))
      | None \<Rightarrow>
          (case part_call p of
             Some (f, args) \<Rightarrow> [''call:'' @ f @ '':'' @ args]
           | None \<Rightarrow> (case part_blob p of Some (m, n) \<Rightarrow> [''blob:'' @ m @ '':'' @ nat_str n] | None \<Rightarrow> [])))"

text \<open>No content, content without parts (\<open>str(content)\<close>), or its parts.\<close>

datatype user_content = NoContent | NoParts string | Parts "content_part list"

fun content_fingerprint :: "user_content \<Rightarrow> string" where
  "content_fingerprint NoContent = []"
| "content_fingerprint (NoParts s) = s"
| "content_fingerprint (Parts ps) = join ''|'' (concat (map part_chunk ps))"

section \<open>Suppressing\<close>

definition record_invocation :: "string \<Rightarrow> rat \<Rightarrow> string \<Rightarrow> string \<Rightarrow> py_record \<Rightarrow> py_record" where
  "record_invocation agent now signature turn_hash state =
     dset ''temp:dedup_last_turn_hash'' (PStr turn_hash)
       (dset ''temp:dedup_last_signature'' (PStr signature)
         (dset ''temp:dedup_last_ts'' (PFloat now)
           (dset ''temp:dedup_last_agent'' (PStr agent) state)))"

fun number_of :: "py \<Rightarrow> rat option" where
  "number_of (PInt i) = Some (of_int i)"
| "number_of (PBool b) = Some (of_bool b)"
| "number_of (PFloat q) = Some q"
| "number_of _ = None"

definition is_repeat :: "string \<Rightarrow> rat \<Rightarrow> string \<Rightarrow> string \<Rightarrow> py_record \<Rightarrow> bool" where
  "is_repeat agent now signature turn_hash state \<longleftrightarrow>
     py_get state ''temp:dedup_last_agent'' = PStr agent \<and>
     py_get state ''temp:dedup_last_signature'' = PStr signature \<and>
     py_get state ''temp:dedup_last_turn_hash'' = PStr turn_hash \<and>
     (case number_of (py_get state ''temp:dedup_last_ts'') of
        Some ts \<Rightarrow> now - ts < DEDUP_COOLDOWN_SECONDS | None \<Rightarrow> False)"

text \<open>The new state and whether the invocation is suppressed.\<close>

definition dedup_before_agent ::
  "(string \<Rightarrow> string) \<Rightarrow> string \<Rightarrow> user_content \<Rightarrow> rat \<Rightarrow> py_record \<Rightarrow> py_record \<times> bool" where
  "dedup_before_agent sha1 agent content now state =
     (if agent = ROOT_AGENT_NAME then (state, False)
      else let turn_hash = sha1 (content_fingerprint content);
               signature = sha1 (agent @ ''|'' @ turn_hash)
           in if is_repeat agent now signature turn_hash state then (state, True)
              else (record_invocation agent now signature turn_hash state, False))"

section \<open>Token totals\<close>

text \<open>The usage record of an event: attributes by name.\<close>

type_synonym agent_event = "py_record option"

fun positive_int :: "py \<Rightarrow> int option" where
  "positive_int (PInt i) = (if i > 0 then Some i else None)"
| "positive_int (PBool b) = (if b then Some 1 else None)"
| "positive_int (PFloat q) = (if q > 0 then Some (py_trunc q) else None)"
| "positive_int _ = None"

primrec extract_int :: "py_record \<Rightarrow> string list \<Rightarrow> int" where
  "extract_int usage [] = 0"
| "extract_int usage (n # ns) =
     (case positive_int (py_get usage n) of Some i \<Rightarrow> i | None \<Rightarrow> extract_int usage ns)"

definition event_tokens :: "agent_event \<Rightarrow> int \<times> int \<times> int" where
  "event_tokens e =
     (case e of
        None \<Rightarrow> (0, 0, 0)
      | Some usage \<Rightarrow>
          (let prompt = extract_int usage [''prompt_token_count'', ''prompt_tokens''];
               completion = extract_int usage [''candidates_token_count'', ''completion_token_count'', ''completion_tokens''];
               total = extract_int usage [''total_token_count'', ''total_tokens'']
           in (prompt, completion, if total \<le> 0 then prompt + completion else total)))"

fun add_tokens :: "int \<times> int \<times> int \<Rightarrow> int \<times> int \<times> int \<Rightarrow> int \<times> int \<times> int" where
  "add_tokens (a, b, c) (a', b', c') = (a + a', b + b', c + c')"

definition sum_tokens :: "agent_event list \<Rightarrow> int \<times> int \<times> int" where
  "sum_tokens es = foldr (\<lambda>e. add_tokens (event_tokens e)) es (0, 0, 0)"

definition state_int :: "py_record \<Rightarrow> string \<Rightarrow> int" where
  "state_int state k =
     (case dget state k of None \<Rightarrow> 0 | Some v \<Rightarrow> (case to_int v of Some i \<Rightarrow> i | None \<Rightarrow> 0))"

definition state_float :: "(string \<Rightarrow> rat option) \<Rightarrow> py_record \<Rightarrow> string \<Rightarrow> rat" where
  "state_float parse_float state k =
     (case dget state k of
        None \<Rightarrow> 0
      | Some (PStr s) \<Rightarrow> (case parse_float s of Some q \<Rightarrow> q | None \<Rightarrow> 0)
      | Some v \<Rightarrow> (case number_of v of Some q \<Rightarrow> fl q | None \<Rightarrow> 0))"

definition telemetry_cursor :: "py_record \<Rightarrow> nat \<Rightarrow> nat" where
  "telemetry_cursor state n =
     (let c = state_int state ''temp:telemetry_event_cursor''
      in if c < 0 \<or> c > int n then 0 else nat c)"

definition token_cost :: "rat \<Rightarrow> rat \<Rightarrow> int \<Rightarrow> int \<Rightarrow> rat" where
  "token_cost price_prompt price_completion prompt completion =
     fl (fl (fl (of_int prompt / 1000000) * price_prompt) +
         fl (fl (of_int completion / 1000000) * price_completion))"

text \<open>\<open>telemetry_after_agent\<close>; prices are the configured dollars per million tokens.\<close>

definition telemetry_after_agent ::
  "(string \<Rightarrow> rat option) \<Rightarrow> rat \<Rightarrow> rat \<Rightarrow> agent_event list \<Rightarrow> py_record \<Rightarrow> py_record" where
  "telemetry_after_agent parse_float price_prompt price_completion events state =
     (if events = [] then state
      else let cursor = telemetry_cursor state (length events);
               (prompt, completion, total) = sum_tokens (drop cursor events);
               state = dset ''temp:telemetry_event_cursor'' (PInt (int (length events))) state
           in if total \<le> 0 then state
              else let p = state_int state ''temp:total_prompt_tokens'' + prompt;
                       c = state_int state ''temp:total_completion_tokens'' + completion;
                       t = state_int state ''temp:total_tokens'' + total;
                       cost = fl (state_float parse_float state ''temp:total_cost_usd'' +
                         token_cost price_prompt price_completion prompt completion)
                   in dset ''temp:total_cost_usd'' (PFloat cost)
                        (dset ''temp:total_tokens'' (PInt t)
                          (dset ''temp:total_completion_tokens'' (PInt c)
                            (dset ''temp:total_prompt_tokens'' (PInt p) state))))"

section \<open>Repeated invocations\<close>

text \<open>The times at which an agent really starts, out of the times it is invoked at.\<close>

primrec started_at ::
  "(string \<Rightarrow> string) \<Rightarrow> string \<Rightarrow> user_content \<Rightarrow> rat list \<Rightarrow> py_record \<Rightarrow> rat list" where
  "started_at sha1 agent content [] state = []"
| "started_at sha1 agent content (now # ts) state =
     (let (state', suppressed) = dedup_before_agent sha1 agent content now state
      in (if suppressed then [] else [now]) @ started_at sha1 agent content ts state')"

definition last_start :: "(string \<Rightarrow> string) \<Rightarrow> string \<Rightarrow> user_content \<Rightarrow> rat \<Rightarrow> py_record \<Rightarrow> bool" where
  "last_start sha1 agent content t state \<longleftrightarrow>
     py_get state ''temp:dedup_last_agent'' = PStr agent \<and>
     py_get state ''temp:dedup_last_signature'' = PStr (sha1 (agent @ ''|'' @ sha1 (content_fingerprint content))) \<and>
     py_get state ''temp:dedup_last_turn_hash'' = PStr (sha1 (content_fingerprint content)) \<and>
     py_get state ''temp:dedup_last_ts'' = PFloat t"

lemma record_last_start:
  "last_start sha1 agent content now (record_invocation agent now
     (sha1 (agent @ ''|'' @ sha1 (content_fingerprint content))) (sha1 (content_fingerprint content)) state)"
  by (simp add: last_start_def record_invocation_def py_get_dset)

lemma dedup_after_start:
  assumes "last_start sha1 agent content t state" and "agent \<noteq> ROOT_AGENT_NAME"
  shows "snd (dedup_before_agent sha1 agent content now state) \<longleftrightarrow> now - t < 2"
    and "last_start sha1 agent content
      (if now - t < 2 then t else now) (fst (dedup_before_agent sha1 agent content now state))"
  using assms record_last_start
  by (simp_all add: dedup_before_agent_def is_repeat_def last_start_def Let_def DEDUP_COOLDOWN_SECONDS_def)

lemma dedup_first:
  assumes "agent \<noteq> ROOT_AGENT_NAME" and "\<not> snd (dedup_before_agent sha1 agent content now state)"
  shows "last_start sha1 agent content now (fst (dedup_before_agent sha1 agent content now state))"
  using assms record_last_start by (auto simp: dedup_before_agent_def Let_def split: if_splits)

lemma started_after:
  assumes "agent \<noteq> ROOT_AGENT_NAME" and "last_start sha1 agent content t state"
  shows "sorted_wrt (\<lambda>x y. x + 2 \<le> y) (t # started_at sha1 agent content ts state)"
  using assms(2)
proof (induction ts arbitrary: t state)
  case (Cons now ts)
  note d = dedup_after_start [OF Cons.prems assms(1), of now]
  show ?case
  proof (cases "now - t < 2")
    case True
    with d Cons.IH [of t "fst (dedup_before_agent sha1 agent content now state)"] show ?thesis
      by (simp add: case_prod_unfold)
  next
    case False
    with d have l: "last_start sha1 agent content now (fst (dedup_before_agent sha1 agent content now state))"
      by simp
    from False have "t + 2 \<le> now" by simp
    moreover have "\<forall>y \<in> set (started_at sha1 agent content ts (fst (dedup_before_agent sha1 agent content now state))).
        now + 2 \<le> y"
      using Cons.IH [OF l] by simp
    ultimately show ?thesis using Cons.IH [OF l] d(1) False by (fastforce simp: case_prod_unfold)
  qed
qed simp

text \<open>
  The dedup callback breaks the transfer loop it was written for: however often the same
  sub-agent is invoked with the same user turn, from whatever state, two of its real starts are
  at least two seconds apart.
\<close>

theorem repeated_starts_spaced:
  assumes "agent \<noteq> ROOT_AGENT_NAME"
  shows "sorted_wrt (\<lambda>x y. x + 2 \<le> y) (started_at sha1 agent content ts state)"
proof (induction ts arbitrary: state)
  case (Cons now ts)
  show ?case
  proof (cases "snd (dedup_before_agent sha1 agent content now state)")
    case True
    with Cons.IH show ?thesis by (simp add: case_prod_unfold)
  next
    case False
    from started_after [OF assms dedup_first [OF assms False], of ts] False show ?thesis
      by (simp add: case_prod_unfold)
  qed
qed simp

theorem repeated_starts_spaced_witness:
  "sorted_wrt (\<lambda>x y. x + 2 \<le> y) (started_at (\<lambda>s. s) ''vision_agent'' (NoParts ''hi'') [0, 1, 2, 3, 5] []) \<and>
   started_at (\<lambda>s. s) ''vision_agent'' (NoParts ''hi'') [0, 1, 2, 3, 5] [] = [0, 2, 5]"
proof
  show "started_at (\<lambda>s. s) ''vision_agent'' (NoParts ''hi'') [0, 1, 2, 3, 5] [] = [0, 2, 5]" by code_simp
qed (rule repeated_starts_spaced, simp add: ROOT_AGENT_NAME_def)

section \<open>The totals are exact\<close>

fun nonneg3 :: "int \<times> int \<times> int \<Rightarrow> bool" where
  "nonneg3 (a, b, c) \<longleftrightarrow> 0 \<le> a \<and> 0 \<le> b \<and> 0 \<le> c \<and> (c = 0 \<longrightarrow> a = 0 \<and> b = 0)"

lemma positive_int_nonneg: "positive_int v = Some i \<Longrightarrow> 0 \<le> i"
  by (cases v) (auto simp: py_trunc_def split: if_splits)

lemma extract_int_nonneg: "0 \<le> extract_int usage names"
  by (induction names) (auto split: option.split dest: positive_int_nonneg)

declare extract_int.simps [simp del]

lemma event_nonneg: "fst (event_tokens e) \<ge> 0 \<and> fst (snd (event_tokens e)) \<ge> 0 \<and> snd (snd (event_tokens e)) \<ge> 0"
  using extract_int_nonneg by (auto simp: event_tokens_def Let_def split: option.split)

lemma event_total_zero:
  "snd (snd (event_tokens e)) = 0 \<Longrightarrow> fst (event_tokens e) = 0 \<and> fst (snd (event_tokens e)) = 0"
proof (cases e)
  case (Some usage)
  note n = extract_int_nonneg [of usage "[''prompt_token_count'', ''prompt_tokens'']"]
    extract_int_nonneg [of usage "[''candidates_token_count'', ''completion_token_count'', ''completion_tokens'']"]
  assume "snd (snd (event_tokens e)) = 0"
  with Some n show ?thesis by (auto simp: event_tokens_def Let_def split: if_splits)
qed (simp add: event_tokens_def)

lemma event_nonneg3: "nonneg3 (event_tokens e)"
  using event_nonneg [of e] event_total_zero [of e] by (cases "event_tokens e") auto

lemma sum_tokens_nonneg3: "nonneg3 (sum_tokens es)"
proof (induction es)
  case (Cons e es)
  then show ?case using event_nonneg3 [of e]
    by (cases "event_tokens e"; cases "sum_tokens es") (auto simp: sum_tokens_def)
qed (simp add: sum_tokens_def)

lemma add_tokens_assoc: "add_tokens (add_tokens x y) z = add_tokens x (add_tokens y z)"
  by (cases x; cases y; cases z) simp

lemma sum_tokens_append: "sum_tokens (xs @ ys) = add_tokens (sum_tokens xs) (sum_tokens ys)"
proof (induction xs)
  case Nil
  then show ?case by (cases "sum_tokens ys") (simp add: sum_tokens_def)
next
  case (Cons x xs)
  then show ?case by (simp add: sum_tokens_def add_tokens_assoc)
qed

definition counted :: "agent_event list \<Rightarrow> py_record \<Rightarrow> bool" where
  "counted es state \<longleftrightarrow> state_int state ''temp:telemetry_event_cursor'' = int (length es) \<and>
     (state_int state ''temp:total_prompt_tokens'', state_int state ''temp:total_completion_tokens'',
      state_int state ''temp:total_tokens'') = sum_tokens es"

lemma state_int_dset: "state_int (dset k (PInt i) state) k' = (if k' = k then i else state_int state k')"
  by (simp add: state_int_def)

lemma state_int_dset_float: "k' \<noteq> k \<Longrightarrow> state_int (dset k (PFloat q) state) k' = state_int state k'"
  by (simp add: state_int_def)

lemma telemetry_counted:
  assumes "counted es state"
  shows "counted (es @ new) (telemetry_after_agent parse_float pp pc (es @ new) state)"
proof (cases "es @ new = []")
  case True
  with assms show ?thesis by (simp add: telemetry_after_agent_def)
next
  case False
  define ev where "ev = es @ new"
  obtain p c t where s: "sum_tokens new = (p, c, t)" by (metis prod_cases3)
  have nn: "0 \<le> t" "t = 0 \<longrightarrow> p = 0 \<and> c = 0" using sum_tokens_nonneg3 [of new] s by auto
  obtain p' c' t' where old: "sum_tokens es = (p', c', t')" by (metis prod_cases3)
  have sum: "sum_tokens ev = (p' + p, c' + c, t' + t)" by (simp add: ev_def sum_tokens_append old s)
  have "telemetry_cursor state (length ev) = length es"
    using assms by (simp add: telemetry_cursor_def counted_def ev_def)
  then have d: "sum_tokens (drop (telemetry_cursor state (length ev)) ev) = (p, c, t)"
    by (simp add: ev_def s)
  from False have "ev \<noteq> []" by (simp add: ev_def)
  then have "counted ev (telemetry_after_agent parse_float pp pc ev state)"
    using assms nn old
    by (cases "t = 0")
      (simp_all add: counted_def sum telemetry_after_agent_def Let_def d state_int_dset state_int_dset_float)
  then show ?thesis by (simp add: ev_def)
qed

text \<open>
  Called after any number of agent turns, on the growing list of session events, the
  telemetry counts every event's tokens exactly once: the totals in the state are the sums over
  all events, also when turns add no events or events without usage.
\<close>

theorem tokens_counted_once:
  "counted (concat turns)
     (snd (fold (\<lambda>new (es, state). (es @ new, telemetry_after_agent parse_float pp pc (es @ new) state)) turns ([], [])))"
proof -
  have gen: "counted es state \<Longrightarrow>
      counted (es @ concat turns)
        (snd (fold (\<lambda>new (es, state). (es @ new, telemetry_after_agent parse_float pp pc (es @ new) state)) turns (es, state)))"
    for es state
  proof (induction turns arbitrary: es state)
    case (Cons new turns)
    from Cons.IH [OF telemetry_counted [OF Cons.prems]] show ?case by simp
  qed simp
  have "counted [] []" by (simp add: counted_def state_int_def sum_tokens_def)
  from gen [OF this] show ?thesis by simp
qed

end
