(* ===== verification/Global_Lessons.thy ===== *)
theory Global_Lessons
  imports Py_Records
begin

text \<open>
  \<open>app/tools/global_lessons.py\<close>: the lessons shared by all sessions of a company.  The
  Firestore collection of one tenant and company is a dictionary from document id to document;
  \<open>repr\<close> is Python's, identifiers and clock texts are inputs.
\<close>

definition LESSON_CATEGORIES :: "string list" where
  "LESSON_CATEGORIES =
     [''general'', ''greeting'', ''questionnaire_logic'', ''routing'', ''tone'', ''vision_behavior'']"

definition VALID_LESSON_STATUSES :: "string list" where
  "VALID_LESSON_STATUSES = [''active'', ''pending_review'', ''retired'']"

definition USER_SCOPE_PATTERNS :: "string list" where
  "USER_SCOPE_PATTERNS =
     [''my name'', ''i live'', ''i moved'', ''i prefer'', ''i am'', ''i'' @ [CHR 0x27] @ ''m'', ''my address'',
      ''my phone'', ''my email'', ''my number'', ''call me'', ''i work'', ''my location'', ''my account'']"

definition GLOBAL_SCOPE_PATTERNS :: "string list" where
  "GLOBAL_SCOPE_PATTERNS =
     [''you should'', ''you shouldn'' @ [CHR 0x27] @ ''t'', ''don'' @ [CHR 0x27] @ ''t ask'', ''always '', ''never '',
      ''stop asking'', ''next time'', ''in the future'', ''for everyone'', ''remember to'', ''instead of'',
      ''better to'', ''suggest'', ''improve'', ''every time'']"

section \<open>Validation\<close>

fun nonblank_text :: "py \<Rightarrow> bool" where
  "nonblank_text (PStr s) = (strip s \<noteq> [])"
| "nonblank_text _ = False"

fun text_in :: "string list \<Rightarrow> py \<Rightarrow> bool" where
  "text_in xs (PStr s) = (s \<in> set xs)"
| "text_in xs _ = False"

fun is_text :: "py \<Rightarrow> bool" where
  "is_text (PStr s) = True"
| "is_text _ = False"

fun agents_errors :: "py \<Rightarrow> string list" where
  "agents_errors PNone = []"
| "agents_errors (PList xs) = (if list_all is_text xs then [] else [''applicable_agents items must be strings''])"
| "agents_errors _ = [''applicable_agents must be a list if present'']"

definition one_of :: "(py \<Rightarrow> string) \<Rightarrow> string \<Rightarrow> string list \<Rightarrow> py \<Rightarrow> string list" where
  "one_of repr what xs v =
     (if text_in xs v then []
      else [''invalid '' @ what @ '': '' @ repr v @ '' (must be one of '' @ repr (PList (map PStr xs)) @ '')''])"

fun validate_global_lesson :: "(py \<Rightarrow> string) \<Rightarrow> py \<Rightarrow> string list" where
  "validate_global_lesson repr (PDict d) =
     concat (map (\<lambda>k. if nonblank_text (py_get d k) then [] else [''missing or empty required string field: '' @ k])
       [''id'', ''lesson'']) @
     one_of repr ''category'' LESSON_CATEGORIES (py_get d ''category'') @
     one_of repr ''status'' VALID_LESSON_STATUSES (py_get d ''status'') @
     agents_errors (py_get d ''applicable_agents'')"
| "validate_global_lesson repr _ = [''global_lesson must be a dict'']"

section \<open>Loading and formatting\<close>

type_synonym lesson_docs = "(string, py_record) dict"

definition load_global_lessons :: "(py \<Rightarrow> string) \<Rightarrow> lesson_docs option \<Rightarrow> py_record list" where
  "load_global_lessons repr db =
     (case db of
        None \<Rightarrow> []
      | Some docs \<Rightarrow>
          filter (\<lambda>d. validate_global_lesson repr (PDict d) = [])
            (take 50 (filter (\<lambda>d. py_get d ''status'' = PStr ''active'') (map snd docs))))"

definition lesson_applies_to_agent :: "py_record \<Rightarrow> string \<Rightarrow> bool" where
  "lesson_applies_to_agent lesson agent_name =
     (case py_get lesson ''applicable_agents'' of
        PList xs \<Rightarrow> xs = [] \<or> PStr ''*'' \<in> set xs \<or> PStr agent_name \<in> set xs
      | _ \<Rightarrow> True)"

text \<open>\<open>lesson.get("lesson", "").strip()\<close>; a value that is not a text raises (\<open>None\<close>).\<close>

fun lesson_line :: "py \<Rightarrow> string list option" where
  "lesson_line (PStr s) = Some (if strip s \<noteq> [] then [''- '' @ strip s] else [])"
| "lesson_line _ = None"

fun lesson_lines :: "py_record list \<Rightarrow> string list option" where
  "lesson_lines [] = Some []"
| "lesson_lines (l # ls) =
     Option.bind (lesson_line (dget_default l ''lesson'' (PStr []))) (\<lambda>a. map_option (\<lambda>b. a @ b) (lesson_lines ls))"

definition format_lessons_for_instruction :: "py_record list \<Rightarrow> string \<Rightarrow> string option" where
  "format_lessons_for_instruction lessons agent_name =
     (let matching = filter (\<lambda>l. lesson_applies_to_agent l agent_name) lessons
      in if matching = [] then Some []
         else map_option (\<lambda>ls. join [lf] (''LEARNED BEHAVIORS (apply these in every conversation):'' # ls))
                (lesson_lines matching))"

section \<open>Scope of a statement\<close>

text \<open>
  \<open>\b(a|b|...)\b\<close> searched without case: some alternative stands between word boundaries.
  The first argument is the character before the text.
\<close>

definition at_boundary :: "char option \<Rightarrow> string \<Rightarrow> bool" where
  "at_boundary prev rest \<longleftrightarrow>
     (case prev of None \<Rightarrow> False | Some c \<Rightarrow> is_word c) \<noteq> (case rest of [] \<Rightarrow> False | c # _ \<Rightarrow> is_word c)"

definition phrase_here :: "char option \<Rightarrow> string \<Rightarrow> string \<Rightarrow> bool" where
  "phrase_here prev phrase rest \<longleftrightarrow>
     startswith (lower phrase) (lower rest) \<and> phrase \<noteq> [] \<and> at_boundary prev rest \<and>
     at_boundary (Some (last phrase)) (drop (length phrase) rest)"

fun finds_phrase :: "string list \<Rightarrow> char option \<Rightarrow> string \<Rightarrow> bool" where
  "finds_phrase phrases prev [] = False"
| "finds_phrase phrases prev (c # cs) =
     ((\<exists>p \<in> set phrases. phrase_here prev p (c # cs)) \<or> finds_phrase phrases (Some c) cs)"

definition classify_lesson_scope :: "string \<Rightarrow> string" where
  "classify_lesson_scope statement =
     (if finds_phrase GLOBAL_SCOPE_PATTERNS None statement \<and> \<not> finds_phrase USER_SCOPE_PATTERNS None statement
      then ''global'' else ''user'')"

section \<open>Submitting\<close>

definition new_lesson :: "string \<Rightarrow> string \<Rightarrow> string \<Rightarrow> string \<Rightarrow> string list \<Rightarrow> string \<Rightarrow> py_record" where
  "new_lesson lesson_id created_at lesson_text category agents source =
     [(''id'', PStr lesson_id), (''lesson'', PStr lesson_text), (''category'', PStr category),
      (''status'', PStr (if source = ''admin'' then ''active'' else ''pending_review'')),
      (''source'', PStr source), (''trigger_count'', PInt 0), (''created_at'', PStr created_at)] @
     (if agents = [] then [] else [(''applicable_agents'', PList (map PStr agents))])"

text \<open>\<open>writes\<close> says whether the document store accepts the document.\<close>

definition submit_global_lesson ::
  "bool \<Rightarrow> string \<Rightarrow> string \<Rightarrow> string \<Rightarrow> string \<Rightarrow> string list \<Rightarrow> string \<Rightarrow> lesson_docs option
     \<Rightarrow> lesson_docs option \<times> py_record option" where
  "submit_global_lesson writes lesson_id created_at lesson_text category agents source db =
     (case db of
        None \<Rightarrow> (None, None)
      | Some docs \<Rightarrow>
          if strip lesson_text = [] then (db, None)
          else if category \<notin> set LESSON_CATEGORIES then (db, None)
          else let lesson = new_lesson lesson_id created_at lesson_text category agents source
               in if writes then (Some (dset lesson_id lesson docs), Some lesson) else (db, None))"

section \<open>Lemmas\<close>

text \<open>What is submitted is valid, so the loader never drops it for its form.\<close>

lemma new_lesson_fields:
  "py_get (new_lesson i c t cat agents source) ''id'' = PStr i"
  "py_get (new_lesson i c t cat agents source) ''lesson'' = PStr t"
  "py_get (new_lesson i c t cat agents source) ''category'' = PStr cat"
  "py_get (new_lesson i c t cat agents source) ''status'' = PStr (if source = ''admin'' then ''active'' else ''pending_review'')"
  "py_get (new_lesson i c t cat agents source) ''applicable_agents'' = (if agents = [] then PNone else PList (map PStr agents))"
  by (simp_all add: new_lesson_def py_get_def dget_default_def)

lemma submit_result:
  assumes "submit_global_lesson writes i c t cat agents source db = (db', Some lesson)"
  shows "lesson = new_lesson i c t cat agents source" and "strip t \<noteq> []" and "cat \<in> set LESSON_CATEGORIES"
  using assms by (auto simp: submit_global_lesson_def Let_def split: option.splits if_splits)

lemma submitted_lesson_valid:
  assumes "submit_global_lesson writes i c t cat agents source db = (db', Some lesson)" and "strip i \<noteq> []"
  shows "validate_global_lesson repr (PDict lesson) = []"
proof -
  note r = submit_result [OF assms(1)]
  have "agents_errors (if agents = [] then PNone else PList (map PStr agents)) = []"
    by (simp add: list_all_iff)
  with r(2,3) assms(2) show ?thesis
    by (simp add: r(1) new_lesson_fields one_of_def VALID_LESSON_STATUSES_def)
qed

lemma loaded_active: "d \<in> set (load_global_lessons repr db) \<Longrightarrow> py_get d ''status'' = PStr ''active''"
  by (auto simp: load_global_lessons_def split: option.splits dest!: in_set_takeD)

lemma customer_lesson_status:
  assumes "submit_global_lesson writes i c t cat agents source db = (db', Some lesson)"
    and "source \<noteq> ''admin''"
  shows "lesson \<notin> set (load_global_lessons repr db2)"
  using loaded_active [of lesson repr db2] submit_result(1) [OF assms(1)] assms(2)
  by (auto simp: new_lesson_fields)

lemma loaded_lines:
  assumes "\<forall>d \<in> set ls. validate_global_lesson repr (PDict d) = []"
  shows "\<exists>lines. lesson_lines ls = Some lines"
  using assms
proof (induction ls)
  case (Cons l ls)
  then obtain s where "py_get l ''lesson'' = PStr s"
    by (cases "py_get l ''lesson''") (auto split: if_splits)
  then have "dget_default l ''lesson'' (PStr []) = PStr s"
    by (auto simp: py_get_def dget_default_def split: option.splits)
  with Cons show ?case by auto
qed simp

text \<open>Formatting loaded lessons never raises.\<close>

lemma loaded_lessons_format:
  "\<exists>text'. format_lessons_for_instruction (load_global_lessons repr db) agent = Some text'"
proof -
  have "\<forall>d \<in> set (load_global_lessons repr db). validate_global_lesson repr (PDict d) = []"
    by (auto simp: load_global_lessons_def split: option.splits)
  then have "\<forall>d \<in> set (filter (\<lambda>l. lesson_applies_to_agent l agent) (load_global_lessons repr db)).
      validate_global_lesson repr (PDict d) = []" by simp
  from loaded_lines [OF this] show ?thesis by (auto simp: format_lessons_for_instruction_def Let_def)
qed

end
