(* ===== verification/Agent_Callbacks.thy ===== *)
theory Agent_Callbacks
  imports Agent_Policy Agent_Dedup Global_Lessons
begin

text \<open>
  \<open>app/agents/callbacks.py\<close>: the callbacks around agents, models and tools.  The session
  state is a dictionary of values; \<open>fmt\<close> is \<open>str()\<close> of a value.  A callback's result is the
  new state and what it returns to the framework.
\<close>

section \<open>Structured server messages\<close>

definition TOOL_CAPABILITY_MAP :: "(string, string) dict" where
  "TOOL_CAPABILITY_MAP =
     [(''create_booking'', ''booking_reservations''), (''cancel_booking'', ''booking_reservations''),
      (''check_availability'', ''booking_reservations''), (''search_catalog'', ''catalog_lookup''),
      (''get_product_details'', ''catalog_lookup''), (''analyze_device_image_tool'', ''valuation_tradein''),
      (''grade_and_value_tool'', ''valuation_tradein''), (''grade_condition'', ''valuation_tradein''),
      (''calculate_trade_in_value'', ''valuation_tradein''), (''search_company_knowledge'', ''policy_qa''),
      (''get_company_profile_fact'', ''policy_qa''), (''query_company_system'', ''connector_dispatch''),
      (''send_whatsapp_message'', ''outbound_messaging''), (''get_device_questionnaire_tool'', ''valuation_tradein'')]"

definition next_server_message_id :: "py_record \<Rightarrow> int" where
  "next_server_message_id state = state_int state ''temp:server_message_seq'' + 1"

definition queue_server_message :: "py_record \<Rightarrow> py_record \<Rightarrow> py_record" where
  "queue_server_message payload state =
     (let message_id = next_server_message_id state
      in dset ''temp:last_server_message'' (PDict (dset ''id'' (PInt message_id) payload))
           (dset ''temp:server_message_seq'' (PInt message_id) state))"

definition industry_scope_label :: "py_record \<Rightarrow> string" where
  "industry_scope_label state =
     (if nonblank_text (py_get state ''app:industry_template_id'')
        then strip (plain_text (py_get state ''app:industry_template_id''))
      else if nonblank_text (py_get state ''app:industry'') then strip (plain_text (py_get state ''app:industry''))
      else ''current'')"

definition agent_not_enabled_message :: "string \<Rightarrow> string \<Rightarrow> string" where
  "agent_not_enabled_message scope_label agent_name =
     ''This '' @ scope_label @ '' session is isolated and cannot switch to '' @ [CHR 0x27] @ agent_name @
     [CHR 0x27] @ ''. I can only use the agents enabled for the current industry.''"

definition keep_text :: "string \<Rightarrow> py \<Rightarrow> py_record" where
  "keep_text k v = (case v of PStr s \<Rightarrow> if s = [] then [] else [(k, PStr s)] | _ \<Rightarrow> [])"

definition agent_not_enabled_payload :: "py_record \<Rightarrow> string \<Rightarrow> string list \<Rightarrow> py_record" where
  "agent_not_enabled_payload state agent_name allowed_agents =
     [(''type'', PStr ''error''), (''code'', PStr ''AGENT_NOT_ENABLED''),
      (''message'', PStr (agent_not_enabled_message (industry_scope_label state) agent_name)),
      (''agentName'', PStr agent_name), (''allowedAgents'', PList (map PStr allowed_agents))] @
     keep_text ''tenantId'' (py_get state ''app:tenant_id'') @
     keep_text ''industryTemplateId'' (py_get state ''app:industry_template_id'')"

section \<open>Agent isolation\<close>

text \<open>\<open>args.get("agent_name", args.get("agentName"))\<close>.\<close>

definition requested_transfer_agent_name :: "py_record \<Rightarrow> string option" where
  "requested_transfer_agent_name args =
     (let raw = dget_default args ''agent_name'' (py_get args ''agentName'')
      in if nonblank_text raw then Some (strip (plain_text raw)) else None)"

definition is_transfer_tool_name :: "string \<Rightarrow> bool" where
  "is_transfer_tool_name tool_name \<longleftrightarrow>
     tool_name = ''transfer_to_agent'' \<or> startswith ''transfer_to_'' tool_name"

definition tool_transfer_target_agent_name :: "string \<Rightarrow> py_record \<Rightarrow> string option" where
  "tool_transfer_target_agent_name tool_name args =
     (if \<not> is_transfer_tool_name tool_name then None
      else case requested_transfer_agent_name args of
        Some requested \<Rightarrow> Some requested
      | None \<Rightarrow>
          if startswith ''transfer_to_'' tool_name then
            (let candidate = strip (removeprefix ''transfer_to_'' tool_name)
             in if candidate \<in> set KNOWN_SUB_AGENT_NAMES then Some candidate else None)
          else None)"

text \<open>\<open>Some\<close> is the content spoken instead of running the agent.\<close>

definition before_agent_isolation_guard :: "string \<Rightarrow> py_record \<Rightarrow> py_record \<times> string option" where
  "before_agent_isolation_guard agent_name state =
     (if agent_name = ''ekaette_router'' then (state, None)
      else case resolve_enabled_agents_from_state state of
        None \<Rightarrow> (state, None)
      | Some enabled \<Rightarrow>
          if agent_name \<in> set enabled then (state, None)
          else (queue_server_message (agent_not_enabled_payload state agent_name enabled) state,
                Some (agent_not_enabled_message (industry_scope_label state) agent_name)))"

definition DEDUP_REPLY :: string where
  "DEDUP_REPLY = ''I'' @ [CHR 0x27] @ ''m already working on that. Let me continue where I left off.''"

definition before_agent_isolation_guard_and_dedup ::
  "(string \<Rightarrow> string) \<Rightarrow> string \<Rightarrow> user_content \<Rightarrow> rat \<Rightarrow> py_record \<Rightarrow> py_record \<times> string option" where
  "before_agent_isolation_guard_and_dedup sha1 agent_name content now state =
     (case before_agent_isolation_guard agent_name state of
        (state, Some blocked) \<Rightarrow> (state, Some blocked)
      | (state, None) \<Rightarrow>
          (case dedup_before_agent sha1 agent_name content now state of
             (state, suppressed) \<Rightarrow> (state, if suppressed then Some DEDUP_REPLY else None)))"

section \<open>Tool guards\<close>

definition before_tool_agent_transfer_guard :: "string \<Rightarrow> py_record \<Rightarrow> py_record \<Rightarrow> py_record option" where
  "before_tool_agent_transfer_guard tool_name args state =
     (case tool_transfer_target_agent_name tool_name args of
        None \<Rightarrow> None
      | Some target \<Rightarrow>
          (case resolve_enabled_agents_from_state state of
             None \<Rightarrow> None
           | Some enabled \<Rightarrow>
               if target \<in> set enabled then None
               else Some (dset ''tool'' (PStr tool_name) (dset ''error'' (PStr ''agent_not_enabled'')
                      (agent_not_enabled_payload state target enabled)))))"

definition before_tool_capability_guard :: "string \<Rightarrow> py_record \<Rightarrow> py_record option" where
  "before_tool_capability_guard tool_name state =
     (case dget TOOL_CAPABILITY_MAP tool_name of
        None \<Rightarrow> None
      | Some required \<Rightarrow>
          (case py_get state ''app:capabilities'' of
             PList capabilities \<Rightarrow>
               if PStr required \<in> set capabilities then None
               else Some [(''error'', PStr ''capability_not_enabled''), (''tool'', PStr tool_name),
                      (''required'', PStr required)]
           | _ \<Rightarrow> None))"

definition before_tool_capability_guard_and_log :: "string \<Rightarrow> py_record \<Rightarrow> py_record \<Rightarrow> py_record option" where
  "before_tool_capability_guard_and_log tool_name args state =
     (case before_tool_agent_transfer_guard tool_name args state of
        Some blocked \<Rightarrow> Some blocked
      | None \<Rightarrow> before_tool_capability_guard tool_name state)"

section \<open>After a tool\<close>

definition copy_keys :: "string list \<Rightarrow> py_record \<Rightarrow> py_record \<Rightarrow> py_record" where
  "copy_keys ks src d = fold (\<lambda>k d. case dget src k of Some v \<Rightarrow> dset k v d | None \<Rightarrow> d) ks d"

definition tool_error_server_message :: "(py \<Rightarrow> string) \<Rightarrow> py_record \<Rightarrow> py_record" where
  "tool_error_server_message fmt result =
     (let code = py_get result ''code''; err = py_get result ''error''; msg = py_get result ''message''
      in if nonblank_text code then
           copy_keys [''agentName'', ''allowedAgents'', ''tenantId'', ''industryTemplateId'', ''tool'', ''required''] result
             [(''type'', PStr ''error''), (''code'', PStr (strip (plain_text code))),
              (''message'', PStr (if nonblank_text msg then strip (plain_text msg)
                 else fmt (py_or err (PStr ''Tool error''))))]
         else if err = PStr ''capability_not_enabled'' then
           copy_keys [''tool'', ''required''] result
             [(''type'', PStr ''error''), (''code'', PStr ''CAPABILITY_NOT_ENABLED''),
              (''message'', PStr ''This action is not enabled for the current session.'')]
         else [(''type'', PStr ''error''), (''code'', PStr ''TOOL_ERROR''), (''message'', PStr (fmt err))])"

definition format_product_description :: "(py \<Rightarrow> string) \<Rightarrow> py_record \<Rightarrow> string" where
  "format_product_description fmt product =
     (case py_get product ''features'' of
        PList (f # fs) \<Rightarrow> join '', '' (map fmt (take 3 (f # fs)))
      | _ \<Rightarrow> plain_text (py_get product ''description''))"

definition image_message :: "py_record \<Rightarrow> py_record" where
  "image_message result =
     [(''type'', PStr ''image_received''), (''status'', PStr ''complete'')] @
     keep_text ''previewUrl'' (py_get result ''gcs_uri'')"

definition questionnaire_message :: "py_record \<Rightarrow> py_record" where
  "questionnaire_message result =
     [(''type'', PStr ''questionnaire_started''),
      (''questionCount'', PInt (case dget_default result ''questions'' (PList []) of PList qs \<Rightarrow> int (length qs) | _ \<Rightarrow> 0))]"

definition valuation_message :: "int \<Rightarrow> py_record \<Rightarrow> py_record" where
  "valuation_message offer_amount result =
     (let m = [(''type'', PStr ''valuation_result''),
            (''deviceName'', dget_default result ''device_name'' (PStr ''Unknown'')),
            (''condition'', dget_default result ''grade'' (PStr ''Fair'')), (''price'', PInt offer_amount),
            (''currency'', dget_default result ''currency'' (PStr ''NGN'')),
            (''details'', dget_default result ''summary'' (PStr [])), (''negotiable'', PBool (offer_amount > 0))];
          m = (case dget result ''original_vision_grade'' of Some v \<Rightarrow> dset ''originalGrade'' v m | None \<Rightarrow> m)
      in case dget result ''adjustments'' of Some v \<Rightarrow> dset ''adjustments'' v m | None \<Rightarrow> m)"

definition booking_message :: "py_record \<Rightarrow> py_record" where
  "booking_message result =
     [(''type'', PStr ''booking_confirmation''),
      (''confirmationId'', dget_default result ''confirmation_id'' (PStr [])),
      (''date'', dget_default result ''date'' (PStr [])), (''time'', dget_default result ''time'' (PStr [])),
      (''location'', dget_default result ''location'' (PStr [])),
      (''service'', dget_default result ''service_type'' (PStr []))]"

text \<open>The price of a product: numbers as whole units, texts as they are, anything else 0.\<close>

fun product_price :: "py \<Rightarrow> py" where
  "product_price (PStr s) = PStr s"
| "product_price (PInt i) = PInt i"
| "product_price (PBool b) = PInt (of_bool b)"
| "product_price (PFloat q) = PInt (py_trunc q)"
| "product_price _ = PInt 0"

definition product_card :: "(py \<Rightarrow> string) \<Rightarrow> py_record \<Rightarrow> py" where
  "product_card fmt item =
     PDict [(''name'', dget_default item ''name'' (PStr ''Unknown'')),
       (''price'', product_price (dget_default item ''price'' (PInt 0))),
       (''currency'', dget_default item ''currency'' (PStr ''NGN'')),
       (''available'', PBool (truthy (dget_default item ''in_stock'' (PBool False)))),
       (''description'', PStr (format_product_description fmt item))]"

fun product_cards :: "(py \<Rightarrow> string) \<Rightarrow> py list \<Rightarrow> py list" where
  "product_cards fmt [] = []"
| "product_cards fmt (PDict d # xs) = product_card fmt d # product_cards fmt xs"
| "product_cards fmt (_ # xs) = product_cards fmt xs"

text \<open>\<open>None\<close> is the exception of \<open>int()\<close> on an offer that is no number.\<close>

definition after_tool_success :: "(py \<Rightarrow> string) \<Rightarrow> string \<Rightarrow> py_record \<Rightarrow> py_record \<Rightarrow> py_record option" where
  "after_tool_success fmt tool_name result state =
     (if tool_name = ''analyze_device_image_tool'' then
        Some (queue_server_message (image_message result)
          (dset ''temp:last_analysis'' (PDict
             [(''device_name'', dget_default result ''device_name'' (PStr ''Unknown'')),
              (''condition'', dget_default result ''condition'' (PStr ''Unknown'')),
              (''details'', dget_default result ''details'' (PDict []))]) state))
      else if tool_name = ''get_device_questionnaire_tool'' then
        Some (queue_server_message (questionnaire_message result) state)
      else if tool_name = ''grade_and_value_tool'' then
        (case to_int (py_or (py_get result ''offer_amount'') (PInt 0)) of
           None \<Rightarrow> None
         | Some offer \<Rightarrow> Some (queue_server_message (valuation_message offer result)
             (dset ''temp:last_offer_amount'' (PInt offer) state)))
      else if tool_name = ''create_booking'' then Some (queue_server_message (booking_message result) state)
      else if tool_name = ''search_catalog'' then
        (case py_get result ''products'' of
           PList products \<Rightarrow> Some (queue_server_message [(''type'', PStr ''product_recommendation''),
             (''products'', PList (product_cards fmt (take 3 products)))] state)
         | _ \<Rightarrow> Some state)
      else Some state)"

definition after_tool_emit_messages ::
  "(py \<Rightarrow> string) \<Rightarrow> string \<Rightarrow> py \<Rightarrow> py_record \<Rightarrow> py_record option" where
  "after_tool_emit_messages fmt tool_name effective_result state =
     (case effective_result of
        PDict result \<Rightarrow>
          if truthy (py_get result ''error'')
          then Some (queue_server_message (tool_error_server_message fmt result) state)
          else after_tool_success fmt tool_name result state
      | _ \<Rightarrow> Some state)"

definition on_tool_error_emit :: "string \<Rightarrow> py_record \<Rightarrow> py_record" where
  "on_tool_error_emit tool_name state =
     queue_server_message [(''type'', PStr ''error''), (''code'', PStr ''TOOL_EXCEPTION''),
       (''message'', PStr (tool_name @ '' failed. Please try again.''))] state"

section \<open>Before and after the model\<close>

definition sq :: string where "sq = [CHR 0x27]"

definition quoted :: "string \<Rightarrow> string" where
  "quoted s = sq @ s @ sq"

text \<open>\<open>s.split()\<close>: the maximal runs of characters that are no white space.\<close>

function words :: "string \<Rightarrow> string list" where
  "words s =
     (case dropWhile is_space s of
        [] \<Rightarrow> []
      | c # cs \<Rightarrow> takeWhile (\<lambda>x. \<not> is_space x) (c # cs) # words (dropWhile (\<lambda>x. \<not> is_space x) (c # cs)))"
  by pat_completeness auto
termination
proof (relation "measure length", simp)
  fix s c cs
  assume "dropWhile is_space s = c # cs"
  then have "length (c # cs) \<le> length s" and c: "\<not> is_space c"
    by (metis length_dropWhile_le) (metis \<open>dropWhile is_space s = c # cs\<close> hd_dropWhile list.distinct(1) list.sel(1))
  moreover have "length (dropWhile (\<lambda>x. \<not> is_space x) (c # cs)) \<le> length cs"
    using c length_dropWhile_le [of "\<lambda>x. \<not> is_space x" cs] by simp
  ultimately show "(dropWhile (\<lambda>x. \<not> is_space x) (c # cs), s) \<in> measure length" by simp
qed

definition industry_instruction :: "(py \<Rightarrow> string) \<Rightarrow> bool \<Rightarrow> py_record \<Rightarrow> string" where
  "industry_instruction fmt include_greeting cfg =
     (let line = ''Runtime config: industry='' @ quoted (fmt (dget_default cfg ''name'' (PStr ''General''))) @ ''.'';
          greeting = dget_default cfg ''greeting'' (PStr [])
      in if include_greeting \<and> truthy greeting then line @ '' Preferred greeting='' @ quoted (fmt greeting) @ ''.''
         else line)"

fun first_name :: "py_record \<Rightarrow> string list \<Rightarrow> string" where
  "first_name state [] = []"
| "first_name state (k # ks) =
     (case py_get state k of
        PStr v \<Rightarrow> (let n = join '' '' (words v) in if n \<noteq> [] then take 60 n else first_name state ks)
      | _ \<Rightarrow> first_name state ks)"

definition first_turn_greeting_instruction :: "py_record \<Rightarrow> py_record \<Rightarrow> py_record \<Rightarrow> string" where
  "first_turn_greeting_instruction cfg company state =
     (let company_name = or_else (strip (plain_text (py_get company ''name''))) ''our service desk'';
          greeting = or_else (strip (plain_text (py_get cfg ''greeting''))) ''How can I help you today?'';
          customer = first_name state [''user:name'', ''user:first_name'', ''app:customer_name'', ''temp:customer_name''];
          template = (if customer \<noteq> [] then ''Welcome back, '' @ customer @ '', to '' @ company_name @ ''. '' @ greeting
            else ''Welcome to '' @ company_name @ ''. '' @ greeting)
      in ''First-turn greeting policy: This is the first spoken response in the session. Use this greeting template intent: ''
         @ quoted template @ ''. Keep it short and end with exactly one actionable question.'')"

text \<open>At most six facts with a name and a value, and three knowledge topics.\<close>

definition fact_pairs :: "(py \<Rightarrow> string) \<Rightarrow> py \<Rightarrow> string list" where
  "fact_pairs fmt facts =
     (case facts of
        PDict d \<Rightarrow> take 6 (map (\<lambda>(k, v). strip k @ ''='' @ strip (fmt v))
          (filter (\<lambda>(k, v). strip k \<noteq> [] \<and> strip (fmt v) \<noteq> []) d))
      | _ \<Rightarrow> [])"

definition knowledge_topic :: "(py \<Rightarrow> string) \<Rightarrow> py_record \<Rightarrow> string" where
  "knowledge_topic fmt item =
     (let title = strip (fmt (dget_default item ''title'' (PStr [])));
          excerpt = take 100 (strip (fmt (dget_default item ''text'' (PStr []))))
      in if excerpt \<noteq> [] then title @ '': '' @ excerpt else title)"

definition knowledge_topics :: "(py \<Rightarrow> string) \<Rightarrow> py_record list \<Rightarrow> string list" where
  "knowledge_topics fmt items =
     take 3 (map (knowledge_topic fmt)
       (filter (\<lambda>d. strip (fmt (dget_default d ''title'' (PStr []))) \<noteq> []) items))"

definition TRUST_POLICY :: string where
  "TRUST_POLICY = ''Trust policy: For company-specific claims, ground responses in company facts, knowledge topics, or system query results. If data is unavailable, say so clearly.''"

definition company_instruction :: "(py \<Rightarrow> string) \<Rightarrow> string \<Rightarrow> py_record \<Rightarrow> py_record list \<Rightarrow> string" where
  "company_instruction fmt company_id profile knowledge =
     (if profile = [] then []
      else let name = or_else (strip (fmt (dget_default profile ''name'' (PStr [])))) ''Company'';
               overview = strip (fmt (dget_default profile ''overview'' (PStr [])));
               facts = fact_pairs fmt (py_get profile ''facts''); topics = knowledge_topics fmt knowledge
           in join '' ''
                ([''Company context: id='' @ quoted (or_else company_id ''default'') @ '', name='' @ quoted name @ ''.''] @
                 (if overview \<noteq> [] then [''Overview='' @ quoted (take 320 overview) @ ''.''] else []) @
                 (if facts \<noteq> [] then [''Facts: '' @ join ''; '' facts @ ''.''] else []) @
                 (if topics \<noteq> [] then [''Knowledge topics: '' @ join ''; '' topics @ ''.''] else []) @
                 [TRUST_POLICY]))"

definition CONTINUITY :: string where
  "CONTINUITY = ''Conversation continuity: A greeting has already been delivered in this session. Do NOT greet again (no hello/hi/good morning). Continue directly with the answer or next question.''"

definition STYLE_GUARD :: string where
  "STYLE_GUARD = ''Style guard: Do not re-introduce your role (for example, never say '' @ quoted ''I am the support agent'' @ ''). Keep responses task-focused.''"

definition LATENCY_POLICY :: string where
  "LATENCY_POLICY = ''CRITICAL latency policy: On a phone call, silence feels like a dropped connection. You MUST speak a brief filler phrase (e.g., '' @ quoted ''Let me check that for you'' @ '') BEFORE any tool call or agent transfer. Generate spoken text FIRST, then the tool call, in the same turn. Never leave more than 2 seconds of silence.''"

fun as_dict :: "py \<Rightarrow> py_record option" where
  "as_dict (PDict d) = Some d"
| "as_dict _ = None"

fun dicts_of :: "py list \<Rightarrow> py_record list" where
  "dicts_of [] = []"
| "dicts_of (PDict d # xs) = d # dicts_of xs"
| "dicts_of (_ # xs) = dicts_of xs"

text \<open>
  The text of the loaded lessons; an entry that is no dictionary makes the callback raise
  (\<open>None\<close>).
\<close>

definition lessons_text :: "string \<Rightarrow> py \<Rightarrow> string option" where
  "lessons_text agent v =
     (case v of
        PList ls \<Rightarrow>
          if list_all (\<lambda>l. as_dict l \<noteq> None) ls then
            (if ls = [] then Some [] else format_lessons_for_instruction (dicts_of ls) agent)
          else None
      | _ \<Rightarrow> Some [])"

definition greeted :: "py_record \<Rightarrow> bool" where
  "greeted state = truthy (dget_default state ''temp:greeted'' (PBool False))"

text \<open>The instruction lines of \<open>before_model_inject_config\<close>.\<close>

definition instruction_lines :: "(py \<Rightarrow> string) \<Rightarrow> string \<Rightarrow> py_record \<Rightarrow> string list option" where
  "instruction_lines fmt agent state =
     (let company = (case as_dict (py_get state ''app:company_profile'') of Some d \<Rightarrow> d | None \<Rightarrow> []);
          industry = as_dict (py_get state ''app:industry_config'');
          head = (case industry of
              None \<Rightarrow> []
            | Some cfg \<Rightarrow> industry_instruction fmt False cfg #
                (if greeted state then [] else [first_turn_greeting_instruction cfg company state]));
          continuity = (if greeted state then [CONTINUITY, STYLE_GUARD] else []);
          company_id = (case py_get state ''app:company_id'' of PStr s \<Rightarrow> s | _ \<Rightarrow> ''default'');
          company_line = company_instruction fmt company_id company
            (dicts_of (as_list (py_get state ''app:company_knowledge'')));
          company_lines = (if company_line \<noteq> [] then [company_line] else [])
      in map_option (\<lambda>lessons.
           let body = head @ continuity @ company_lines @ (if lessons \<noteq> [] then [lessons] else []);
               voice = (lower (strip (plain_text (py_get state ''app:channel''))) = ''voice'')
           in if body \<noteq> [] \<and> voice then body @ [LATENCY_POLICY] else body)
         (lessons_text agent (py_get state ''app:global_lessons'')))"

text \<open>
  The system instruction of the request before (\<open>PNone\<close>: none) and after; an instruction
  that is no text is left alone.
\<close>

definition before_model_inject_config ::
  "(py \<Rightarrow> string) \<Rightarrow> string \<Rightarrow> py_record \<Rightarrow> py \<Rightarrow> py option" where
  "before_model_inject_config fmt agent state existing =
     map_option (\<lambda>lines.
       if lines = [] then existing
       else let line = join [lf] lines
            in case existing of
                 PNone \<Rightarrow> PStr line
               | PStr old \<Rightarrow> if contains line old then PStr old else PStr (old @ [lf, lf] @ line)
               | other \<Rightarrow> other)
       (instruction_lines fmt agent state)"

text \<open>
  \<open>after_model_valuation_sanity\<close>: the first response with text locks the greeting; the rest
  only writes log lines.  The argument is the texts of the response's parts.
\<close>

definition response_text :: "string list \<Rightarrow> string" where
  "response_text parts = strip (join '' '' (filter (\<lambda>t. t \<noteq> []) parts))"

definition after_model_valuation_sanity :: "string list \<Rightarrow> py_record \<Rightarrow> py_record" where
  "after_model_valuation_sanity parts state =
     (if response_text parts \<noteq> [] \<and> \<not> greeted state
      then dset ''temp:greeted'' (PBool True) state else state)"

end
