(* ===== verification/Agent_Isolation.thy ===== *)
theory Agent_Isolation
  imports Agent_Callbacks
begin

text \<open>
  What the callbacks of a session guarantee together: the isolation of sessions to their
  agents, the numbering of the messages to the browser, and that the greeting is asked for
  only until the first answer.
\<close>

section \<open>A session of callbacks\<close>

datatype callback =
    BeforeAgent string user_content rat
  | AfterModel "string list"
  | AfterTool string py
  | ToolFailed string
  | AfterAgent "agent_event list"

fun callback_step ::
  "(py \<Rightarrow> string) \<Rightarrow> (string \<Rightarrow> string) \<Rightarrow> (string \<Rightarrow> rat option) \<Rightarrow> callback \<Rightarrow> py_record \<Rightarrow> py_record" where
  "callback_step fmt sha1 pf (BeforeAgent agent content now) st =
     fst (before_agent_isolation_guard_and_dedup sha1 agent content now st)"
| "callback_step fmt sha1 pf (AfterModel parts) st = after_model_valuation_sanity parts st"
| "callback_step fmt sha1 pf (AfterTool tool result) st =
     (case after_tool_emit_messages fmt tool result st of Some st' \<Rightarrow> st' | None \<Rightarrow> st)"
| "callback_step fmt sha1 pf (ToolFailed tool) st = on_tool_error_emit tool st"
| "callback_step fmt sha1 pf (AfterAgent events) st = telemetry_after_agent pf 0 0 events st"

definition message_seq :: "py_record \<Rightarrow> int" where
  "message_seq st = state_int st ''temp:server_message_seq''"

text \<open>The messages a session sends: the stored message whenever the counter has moved.\<close>

primrec session_messages ::
  "(py \<Rightarrow> string) \<Rightarrow> (string \<Rightarrow> string) \<Rightarrow> (string \<Rightarrow> rat option) \<Rightarrow> callback list \<Rightarrow> py_record \<Rightarrow> py list" where
  "session_messages fmt sha1 pf [] st = []"
| "session_messages fmt sha1 pf (c # cs) st =
     (let st' = callback_step fmt sha1 pf c st
      in (if message_seq st' = message_seq st then [] else [py_get st' ''temp:last_server_message''])
         @ session_messages fmt sha1 pf cs st')"

definition message_id :: "py \<Rightarrow> py" where
  "message_id m = (case m of PDict d \<Rightarrow> py_get d ''id'' | _ \<Rightarrow> PNone)"

text \<open>A step either leaves counter, message and greeting flag alone or queues one message.\<close>

definition quiet :: "py_record \<Rightarrow> py_record \<Rightarrow> bool" where
  "quiet st st' \<longleftrightarrow> message_seq st' = message_seq st \<and> (greeted st \<longrightarrow> greeted st')"

definition typed :: "py_record \<Rightarrow> bool" where
  "typed m \<longleftrightarrow> (\<exists>t. py_get m ''type'' = PStr t)"

definition queues :: "py_record \<Rightarrow> py_record \<Rightarrow> bool" where
  "queues st st' \<longleftrightarrow> message_seq st' = message_seq st + 1 \<and> (greeted st \<longrightarrow> greeted st') \<and>
     (\<exists>m. py_get st' ''temp:last_server_message'' = PDict m \<and> typed m \<and> py_get m ''id'' = PInt (message_seq st'))"

lemma dset_other_keys:
  assumes "k \<noteq> ''temp:server_message_seq''" and "k \<noteq> ''temp:greeted''"
  shows "message_seq (dset k v st) = message_seq st" and "greeted (dset k v st) = greeted st"
  using assms by (simp_all add: message_seq_def state_int_def greeted_def dget_default_def)

lemma queue_queues:
  assumes "message_seq st = message_seq st0" and "greeted st = greeted st0" and "typed payload"
  shows "queues st0 (queue_server_message payload st)"
  using assms
  by (simp add: queues_def queue_server_message_def Let_def message_seq_def state_int_def greeted_def
      dget_default_def py_get_dset next_server_message_id_def typed_def)

text \<open>Every message the callbacks queue has a type.\<close>

lemma typed_Cons [simp]: "typed ((''type'', PStr t) # m)"
  by (simp add: typed_def py_get_def dget_default_def)

lemma copy_keys_typed: "''type'' \<notin> set ks \<Longrightarrow> typed d \<Longrightarrow> typed (copy_keys ks src d)"
proof (induction ks arbitrary: d)
  case (Cons k ks)
  then have "typed (case dget src k of Some v \<Rightarrow> dset k v d | None \<Rightarrow> d)"
    by (auto simp: typed_def py_get_dset split: option.split)
  with Cons show ?case by (simp add: copy_keys_def)
qed (simp add: copy_keys_def)

lemma payloads_typed:
  "typed (agent_not_enabled_payload st agent allowed)" "typed (tool_error_server_message fmt result)"
  "typed (image_message result)" "typed (questionnaire_message result)" "typed (booking_message result)"
     apply (simp add: agent_not_enabled_payload_def)
    apply (simp add: tool_error_server_message_def Let_def copy_keys_typed)
   apply (simp add: image_message_def)
  apply (simp add: questionnaire_message_def)
  apply (simp add: booking_message_def)
  done

lemma valuation_message_typed: "typed (valuation_message offer result)"
  by (auto simp: valuation_message_def Let_def typed_def py_get_dset py_get_def dget_default_def split: option.split)

lemma dedup_quiet: "quiet st (fst (dedup_before_agent sha1 agent content now st))"
  by (simp add: quiet_def dedup_before_agent_def record_invocation_def Let_def dset_other_keys)

lemma telemetry_quiet: "quiet st (telemetry_after_agent pf a b events st)"
  by (simp add: quiet_def telemetry_after_agent_def Let_def case_prod_unfold dset_other_keys)

lemma model_quiet: "quiet st (after_model_valuation_sanity parts st)"
  by (simp add: quiet_def after_model_valuation_sanity_def message_seq_def state_int_def greeted_def dget_default_def)

lemma after_tool_effect:
  assumes "after_tool_emit_messages fmt tool result st = Some st'"
  shows "quiet st st' \<or> queues st st'"
proof -
  have "st' = st \<or> queues st st'"
    using assms
    by (auto simp: after_tool_emit_messages_def after_tool_success_def dset_other_keys payloads_typed valuation_message_typed
        intro!: queue_queues split: py.splits if_splits option.splits)
  then show ?thesis by (auto simp: quiet_def)
qed

lemma isolation_effect:
  "fst (before_agent_isolation_guard agent st) = st \<or>
    queues st (fst (before_agent_isolation_guard agent st))"
  by (auto simp: before_agent_isolation_guard_def payloads_typed intro!: queue_queues split: option.splits)

lemma before_agent_effect:
  "quiet st (fst (before_agent_isolation_guard_and_dedup sha1 agent content now st)) \<or>
    queues st (fst (before_agent_isolation_guard_and_dedup sha1 agent content now st))"
proof (cases "before_agent_isolation_guard agent st")
  case (Pair st' r)
  show ?thesis
  proof (cases r)
    case None
    with Pair have "st' = st"
      by (auto simp: before_agent_isolation_guard_def split: option.splits if_splits)
    with Pair None dedup_quiet [of st sha1 agent content now] show ?thesis
      by (simp add: before_agent_isolation_guard_and_dedup_def case_prod_unfold)
  next
    case (Some c)
    with Pair isolation_effect [of agent st] show ?thesis
      by (auto simp: before_agent_isolation_guard_and_dedup_def quiet_def)
  qed
qed

lemma callback_effect:
  "quiet st (callback_step fmt sha1 pf c st) \<or> queues st (callback_step fmt sha1 pf c st)"
proof (cases c)
  case (AfterTool tool result)
  then show ?thesis using after_tool_effect [of fmt tool result st]
    by (cases "after_tool_emit_messages fmt tool result st") (auto simp: quiet_def)
qed (simp_all add: before_agent_effect model_quiet telemetry_quiet on_tool_error_emit_def queue_queues)

text \<open>
  The messages a session sends to the browser carry consecutive numbers, one more than the
  last each time, whatever callbacks run in whatever order, failing tools and blocked agents
  included.
\<close>

theorem messages_numbered:
  "map message_id (session_messages fmt sha1 pf cs st) =
    map (\<lambda>k. PInt (message_seq st + 1 + int k)) [0..<length (session_messages fmt sha1 pf cs st)]"
proof (induction cs arbitrary: st)
  case (Cons c cs)
  let ?st = "callback_step fmt sha1 pf c st"
  consider (q) "message_seq ?st = message_seq st"
    | (m) "message_seq ?st = message_seq st + 1" "message_id (py_get ?st ''temp:last_server_message'') = PInt (message_seq ?st)"
    using callback_effect [of st fmt sha1 pf c] by (auto simp: quiet_def queues_def message_id_def)
  then show ?case
  proof cases
    case q
    with Cons.IH [of ?st] show ?thesis by (simp add: Let_def)
  next
    case m
    let ?rest = "session_messages fmt sha1 pf cs ?st"
    have "map (\<lambda>k. PInt (message_seq st + 1 + int k)) [0..<Suc (length ?rest)] =
        PInt (message_seq st + 1) # map (\<lambda>k. PInt (message_seq ?st + 1 + int k)) [0..<length ?rest]"
      by (simp only: upt_conv_Cons [OF zero_less_Suc] map_Suc_upt [symmetric] list.map map_map comp_def)
        (simp add: m(1) algebra_simps)
    with m Cons.IH [of ?st] show ?thesis by (simp add: Let_def del: upt_Suc)
  qed
qed simp

text \<open>Once an answer with text was given, no first-turn greeting is asked for any more.\<close>

lemma greeted_stays: "greeted st \<Longrightarrow> greeted (fold (callback_step fmt sha1 pf) cs st)"
proof (induction cs arbitrary: st)
  case (Cons c cs)
  then have "greeted (callback_step fmt sha1 pf c st)"
    using callback_effect [of st fmt sha1 pf c] by (auto simp: quiet_def queues_def)
  with Cons.IH show ?case by simp
qed simp

lemma first_answer_greets: "response_text parts \<noteq> [] \<Longrightarrow> greeted (after_model_valuation_sanity parts st)"
  by (simp add: after_model_valuation_sanity_def greeted_def dget_default_def)

section \<open>Isolation\<close>

definition agent_allowed :: "py_record \<Rightarrow> string \<Rightarrow> bool" where
  "agent_allowed st agent \<longleftrightarrow>
     (case resolve_enabled_agents_from_state st of None \<Rightarrow> True | Some enabled \<Rightarrow> agent \<in> set enabled)"

lemma isolation_guard_iff:
  "snd (before_agent_isolation_guard agent st) = None \<longleftrightarrow> agent = ''ekaette_router'' \<or> agent_allowed st agent"
  by (auto simp: before_agent_isolation_guard_def agent_allowed_def split: option.splits)

lemma transfer_guard_iff:
  assumes "tool_transfer_target_agent_name tool args = Some target"
  shows "before_tool_agent_transfer_guard tool args st = None \<longleftrightarrow> agent_allowed st target"
  using assms by (auto simp: before_tool_agent_transfer_guard_def agent_allowed_def split: option.splits)

text \<open>
  C30 A session runs only the agents of its explicit list: a sub-agent that is not on it does
  not start, and a tool call that transfers to it is answered with an error before it runs.  An
  explicit list, even an empty or an all-invalid one, is never widened by the industry's
  defaults.
\<close>

theorem session_isolated:
  assumes "py_get st ''app:enabled_agents'' = PList raw"
    and "agent \<noteq> ''ekaette_router''" and "PStr agent \<notin> (\<lambda>v. PStr (strip (plain_text v))) ` set raw"
  shows "snd (before_agent_isolation_guard_and_dedup sha1 agent content now st) \<noteq> None \<and>
    (tool_transfer_target_agent_name tool args = Some agent \<longrightarrow>
      before_tool_capability_guard_and_log tool args st \<noteq> None)"
proof -
  have "set (stripped_texts raw) \<subseteq> (\<lambda>v. strip (plain_text v)) ` set raw"
    by (induction raw rule: stripped_texts.induct) auto
  then have "\<not> agent_allowed st agent"
    using assms(3) by (auto simp: agent_allowed_def explicit_policy_fails_closed [OF assms(1)])
  moreover from this have "snd (before_agent_isolation_guard agent st) \<noteq> None"
    using isolation_guard_iff assms(2) by blast
  ultimately show ?thesis
    using transfer_guard_iff [of tool args agent st]
    by (auto simp: before_agent_isolation_guard_and_dedup_def before_tool_capability_guard_and_log_def
        split: prod.splits option.splits)
qed

definition hotel_state :: py_record where
  "hotel_state = [(''app:industry_template_id'', PStr ''hotel''),
     (''app:enabled_agents'', PList [PStr ''booking_agent'', PStr '' support_agent''])]"

theorem session_isolated_witness:
  "snd (before_agent_isolation_guard_and_dedup (\<lambda>s. s) ''catalog_agent'' NoContent 0 hotel_state) \<noteq> None \<and>
   before_tool_capability_guard_and_log ''transfer_to_agent'' [(''agent_name'', PStr ''catalog_agent'')] hotel_state \<noteq> None"
proof -
  have raw: "py_get hotel_state ''app:enabled_agents'' = PList [PStr ''booking_agent'', PStr '' support_agent'']"
    by code_simp
  have target: "tool_transfer_target_agent_name ''transfer_to_agent'' [(''agent_name'', PStr ''catalog_agent'')] = Some ''catalog_agent''"
    by code_simp
  have out: "PStr ''catalog_agent'' \<notin> (\<lambda>v. PStr (strip (plain_text v))) ` set [PStr ''booking_agent'', PStr '' support_agent'']"
    by code_simp
  show ?thesis using session_isolated [OF raw _ out] target by simp
qed

text \<open>
  The two guards disagree on the router: the agent guard always lets it run, but a tool call
  that transfers back to it is refused in every session with a policy, because a policy can
  only name sub-agents.  A sub-agent can never hand the caller back.
\<close>

theorem router_transfer_blocked:
  assumes "resolve_enabled_agents_from_state st = Some enabled"
  shows "snd (before_agent_isolation_guard ''ekaette_router'' st) = None \<and>
    before_tool_capability_guard_and_log ''transfer_to_agent'' [(''agent_name'', PStr ''ekaette_router'')] st \<noteq> None"
proof -
  have "tool_transfer_target_agent_name ''transfer_to_agent'' [(''agent_name'', PStr ''ekaette_router'')] = Some ''ekaette_router''"
    by code_simp
  moreover have "\<not> agent_allowed st ''ekaette_router''"
    using router_never_enabled [OF assms] assms by (simp add: agent_allowed_def)
  ultimately show ?thesis
    using transfer_guard_iff isolation_guard_iff
    by (auto simp: before_tool_capability_guard_and_log_def split: option.splits)
qed

theorem router_transfer_blocked_witness:
  "before_tool_capability_guard_and_log ''transfer_to_agent'' [(''agent_name'', PStr ''ekaette_router'')] hotel_state \<noteq> None"
proof -
  have "py_get hotel_state ''app:enabled_agents'' = PList [PStr ''booking_agent'', PStr '' support_agent'']"
    by code_simp
  from explicit_policy_fails_closed [OF this] show ?thesis using router_transfer_blocked by blast
qed

end
