(* ===== verification/Stream_Silence.thy ===== *)
theory Stream_Silence
  imports Py_Records
begin

text \<open>
  The silence state of a browser or gateway stream (\<open>app/api/v1/realtime/models.py\<close>) and the
  watchdog task over it (\<open>stream_tasks.py\<close>).  Clock readings are exact; the settings are
  those of \<open>public/settings.py\<close>.
\<close>

record nudge_settings =
  nudge_seconds :: int
  nudge_max :: int
  nudge_multiplier :: rat
  nudge_max_interval :: int

record silence_state =
  last_client_activity :: clock
  silence_nudge_count :: int
  agent_busy :: bool
  silence_nudge_due_at :: clock
  silence_nudge_interval :: rat
  awaiting_agent_response :: bool
  user_spoke_at :: clock
  response_nudge_count :: int

definition RESPONSE_LATENCY_FILLER_SECONDS :: rat where "RESPONSE_LATENCY_FILLER_SECONDS = 3"
definition RESPONSE_LATENCY_REASSURE_SECONDS :: rat where "RESPONSE_LATENCY_REASSURE_SECONDS = 15"

definition reset_silence_nudge_schedule :: "nudge_settings \<Rightarrow> clock \<Rightarrow> clock \<times> rat" where
  "reset_silence_nudge_schedule cfg now =
     (let base_interval = max 1 (of_int (nudge_seconds cfg)) in (now + base_interval, base_interval))"

definition next_silence_nudge_interval :: "nudge_settings \<Rightarrow> rat \<Rightarrow> rat" where
  "next_silence_nudge_interval cfg current_interval =
     (let multiplier = max 1 (nudge_multiplier cfg);
          grown = max (current_interval + 1) (current_interval * multiplier);
          max_interval = max 1 (of_int (nudge_max_interval cfg))
      in min grown max_interval)"

definition create_initial_silence_state :: "nudge_settings \<Rightarrow> clock \<Rightarrow> silence_state" where
  "create_initial_silence_state cfg now =
     (let (due_at, interval) = reset_silence_nudge_schedule cfg now
      in \<lparr>last_client_activity = now, silence_nudge_count = 0, agent_busy = False,
           silence_nudge_due_at = due_at, silence_nudge_interval = interval,
           awaiting_agent_response = False, user_spoke_at = 0, response_nudge_count = 0\<rparr>)"

section \<open>Client activity\<close>

definition client_activity :: "nudge_settings \<Rightarrow> clock \<Rightarrow> silence_state \<Rightarrow> silence_state" where
  "client_activity cfg now s =
     (let (due_at, interval) = reset_silence_nudge_schedule cfg now
      in s\<lparr>last_client_activity := now, silence_nudge_count := 0, awaiting_agent_response := False,
           response_nudge_count := 0, silence_nudge_due_at := due_at, silence_nudge_interval := interval\<rparr>)"

text \<open>A binary frame, and a JSON message of a type that counts as activity.\<close>

definition audio_activity :: "nudge_settings \<Rightarrow> clock \<Rightarrow> silence_state \<Rightarrow> silence_state" where
  "audio_activity cfg now s = (client_activity cfg now s)\<lparr>agent_busy := True\<rparr>"

definition message_activity :: "nudge_settings \<Rightarrow> clock \<Rightarrow> py \<Rightarrow> silence_state \<Rightarrow> silence_state" where
  "message_activity cfg now msg_type s =
     (if msg_type \<in> {PStr ''text'', PStr ''image'', PStr ''negotiate'', PStr ''activity_start''}
      then (let s = client_activity cfg now s
            in if msg_type \<in> {PStr ''text'', PStr ''image'', PStr ''negotiate''}
               then s\<lparr>agent_busy := True\<rparr> else s)
      else s)"

section \<open>Agent activity\<close>

definition agent_speaks :: "silence_state \<Rightarrow> silence_state" where
  "agent_speaks s = s\<lparr>agent_busy := True, awaiting_agent_response := False\<rparr>"

definition agent_interrupted :: "silence_state \<Rightarrow> silence_state" where
  "agent_interrupted s = s\<lparr>agent_busy := False, awaiting_agent_response := False\<rparr>"

text \<open>The user's speech was transcribed: the latency watchdog is armed.\<close>

definition user_transcribed :: "clock \<Rightarrow> silence_state \<Rightarrow> silence_state" where
  "user_transcribed now s =
     s\<lparr>awaiting_agent_response := True, user_spoke_at := now, response_nudge_count := 0\<rparr>"

definition agent_turn_complete :: "clock \<Rightarrow> silence_state \<Rightarrow> silence_state" where
  "agent_turn_complete now s =
     (let s = s\<lparr>agent_busy := False\<rparr>
      in if now \<ge> last_client_activity s
         then s\<lparr>silence_nudge_due_at := now + max 1 (silence_nudge_interval s)\<rparr> else s)"

section \<open>The watchdog\<close>

datatype nudge = Filler | Reassure | CheckIn | QuietCheckIn

text \<open>
  One round of \<open>silence_nudge_task\<close>: the state, the hint for the model, and whether the task
  goes on.  \<open>sent\<close> says whether the queue takes the hint.
\<close>

definition nudge_tick ::
  "nudge_settings \<Rightarrow> bool \<Rightarrow> clock \<Rightarrow> silence_state \<Rightarrow> silence_state \<times> nudge option \<times> bool" where
  "nudge_tick cfg sent now s =
     (let elapsed = now - user_spoke_at s in
      if awaiting_agent_response s \<and> elapsed \<ge> RESPONSE_LATENCY_FILLER_SECONDS \<and> response_nudge_count s = 0
      then (s\<lparr>response_nudge_count := 1\<rparr>, if sent then Some Filler else None, sent)
      else if awaiting_agent_response s \<and> elapsed \<ge> RESPONSE_LATENCY_REASSURE_SECONDS \<and> response_nudge_count s = 1
      then (s\<lparr>response_nudge_count := 2\<rparr>, if sent then Some Reassure else None, sent)
      else if now < silence_nudge_due_at s \<or> agent_busy s \<or> awaiting_agent_response s \<or>
           silence_nudge_count s \<ge> nudge_max cfg
      then (s, None, True)
      else
        let s = s\<lparr>silence_nudge_count := silence_nudge_count s + 1\<rparr>;
            hint = (if silence_nudge_count s = 1 then CheckIn else QuietCheckIn)
        in if \<not> sent then (s, None, False)
           else let s = s\<lparr>silence_nudge_interval := next_silence_nudge_interval cfg (silence_nudge_interval s)\<rparr>
                in (s\<lparr>silence_nudge_due_at := now + silence_nudge_interval s\<rparr>, Some hint, True))"

section \<open>A stream\<close>

datatype silence_event =
    Audio clock
  | ClientMessage clock py
  | AgentSpeaks
  | Interrupted
  | UserTranscribed clock
  | TurnComplete clock
  | Tick bool clock

fun silence_step :: "nudge_settings \<Rightarrow> silence_event \<Rightarrow> silence_state \<Rightarrow> silence_state \<times> nudge option" where
  "silence_step cfg (Audio now) s = (audio_activity cfg now s, None)"
| "silence_step cfg (ClientMessage now ty) s = (message_activity cfg now ty s, None)"
| "silence_step cfg AgentSpeaks s = (agent_speaks s, None)"
| "silence_step cfg Interrupted s = (agent_interrupted s, None)"
| "silence_step cfg (UserTranscribed now) s = (user_transcribed now s, None)"
| "silence_step cfg (TurnComplete now) s = (agent_turn_complete now s, None)"
| "silence_step cfg (Tick sent now) s =
     (if nudge_seconds cfg \<le> 0 then (s, None) else let (s, n, _) = nudge_tick cfg sent now s in (s, n))"

primrec silence_run :: "nudge_settings \<Rightarrow> silence_event list \<Rightarrow> silence_state \<Rightarrow> silence_state \<times> nudge list" where
  "silence_run cfg [] s = (s, [])"
| "silence_run cfg (e # es) s =
     (let (s, n) = silence_step cfg e s; (s, ns) = silence_run cfg es s
      in (s, (case n of None \<Rightarrow> ns | Some x \<Rightarrow> x # ns)))"

lemmas silence_defs = audio_activity_def message_activity_def client_activity_def
  reset_silence_nudge_schedule_def agent_speaks_def agent_interrupted_def user_transcribed_def
  agent_turn_complete_def nudge_tick_def Let_def

section \<open>How often the model is nudged\<close>

definition quiet_event :: "silence_event \<Rightarrow> bool" where
  "quiet_event e \<longleftrightarrow> (case e of Audio t \<Rightarrow> False | ClientMessage t ty \<Rightarrow> False | UserTranscribed t \<Rightarrow> False | _ \<Rightarrow> True)"

definition count_nudges :: "nudge set \<Rightarrow> nudge list \<Rightarrow> int" where
  "count_nudges N ns = int (length (filter (\<lambda>n. n \<in> N) ns))"

lemma count_nudges_Cons: "count_nudges N (x # ns) = of_bool (x \<in> N) + count_nudges N ns"
  by (simp add: count_nudges_def)

lemma quiet_step_counts:
  assumes "quiet_event e" and "silence_step cfg e s = (s', n)"
  shows "silence_nudge_count s' \<ge> silence_nudge_count s + (case n of Some x \<Rightarrow> of_bool (x \<in> {CheckIn, QuietCheckIn}) | None \<Rightarrow> 0)"
    and "response_nudge_count s' \<ge> response_nudge_count s + (case n of Some x \<Rightarrow> of_bool (x \<in> {Filler, Reassure}) | None \<Rightarrow> 0)"
    and "silence_nudge_count s \<le> max 0 (nudge_max cfg) \<Longrightarrow> silence_nudge_count s' \<le> max 0 (nudge_max cfg)"
    and "response_nudge_count s \<le> 2 \<Longrightarrow> response_nudge_count s' \<le> 2"
  using assms by (cases e; auto simp: quiet_event_def silence_defs split: if_splits)+

text \<open>
  While the client is silent, the model is asked at most \<open>SILENCE_NUDGE_MAX\<close> times to check
  in and at most twice to fill the wait for an answer, however long the silence lasts.
\<close>

theorem nudges_bounded:
  assumes "silence_run cfg es s = (s', ns)" and "list_all quiet_event es"
    and "0 \<le> silence_nudge_count s" and "silence_nudge_count s \<le> max 0 (nudge_max cfg)"
    and "0 \<le> response_nudge_count s" and "response_nudge_count s \<le> 2"
  shows "count_nudges {CheckIn, QuietCheckIn} ns \<le> max 0 (nudge_max cfg) \<and>
    count_nudges {Filler, Reassure} ns \<le> 2"
proof -
  have "silence_nudge_count s + count_nudges {CheckIn, QuietCheckIn} ns \<le> max 0 (nudge_max cfg) \<and>
      response_nudge_count s + count_nudges {Filler, Reassure} ns \<le> 2"
    using assms(1,2,4,6)
  proof (induction es arbitrary: s ns)
    case Nil
    then show ?case by (simp add: count_nudges_def)
  next
    case (Cons e es)
    obtain s1 n where st: "silence_step cfg e s = (s1, n)" by force
    obtain ns1 where run: "silence_run cfg es s1 = (s', ns1)" and ns: "ns = (case n of None \<Rightarrow> ns1 | Some x \<Rightarrow> x # ns1)"
      using Cons.prems(1) st by (auto split: prod.splits)
    have q: "quiet_event e" using Cons.prems(2) by simp
    note st' = quiet_step_counts [OF q st]
    have "silence_nudge_count s1 + count_nudges {CheckIn, QuietCheckIn} ns1 \<le> max 0 (nudge_max cfg) \<and>
        response_nudge_count s1 + count_nudges {Filler, Reassure} ns1 \<le> 2"
      using Cons.IH [OF run] Cons.prems st'(3,4) by simp
    with st'(1,2) show ?case by (cases n) (auto simp: ns count_nudges_Cons)
  qed
  with assms(3,5) show ?thesis by simp
qed

definition default_nudges :: nudge_settings where
  "default_nudges = \<lparr>nudge_seconds = 8, nudge_max = 2, nudge_multiplier = 9 / 5, nudge_max_interval = 30\<rparr>"

theorem nudges_bounded_witness:
  "silence_run default_nudges [Tick True 9, Tick True 30, Tick True 100] (create_initial_silence_state default_nudges 0) =
     (\<lparr>last_client_activity = 0, silence_nudge_count = 2, agent_busy = False, silence_nudge_due_at = 1398 / 25,
       silence_nudge_interval = 648 / 25, awaiting_agent_response = False, user_spoke_at = 0, response_nudge_count = 0\<rparr>,
      [CheckIn, QuietCheckIn]) \<and>
   count_nudges {CheckIn, QuietCheckIn} [CheckIn, QuietCheckIn] \<le> 2"
proof -
  have run: "silence_run default_nudges [Tick True 9, Tick True 30, Tick True 100] (create_initial_silence_state default_nudges 0) =
     (\<lparr>last_client_activity = 0, silence_nudge_count = 2, agent_busy = False, silence_nudge_due_at = 1398 / 25,
       silence_nudge_interval = 648 / 25, awaiting_agent_response = False, user_spoke_at = 0, response_nudge_count = 0\<rparr>,
      [CheckIn, QuietCheckIn])"
    by code_simp
  from nudges_bounded [OF run] run show ?thesis
    by (simp add: quiet_event_def create_initial_silence_state_def reset_silence_nudge_schedule_def default_nudges_def)
qed

section \<open>A steady audio stream silences the watchdogs\<close>

text \<open>
  Events in time order in which every round of the watchdog comes less than a second after an
  audio frame; the second argument is the time of the last frame.
\<close>

fun steady :: "clock \<Rightarrow> clock \<Rightarrow> silence_event list \<Rightarrow> bool" where
  "steady now a [] = True"
| "steady now a (Audio t # es) = (now \<le> t \<and> steady t t es)"
| "steady now a (ClientMessage t ty # es) = (now \<le> t \<and> steady t a es)"
| "steady now a (UserTranscribed t # es) = (now \<le> t \<and> steady t a es)"
| "steady now a (TurnComplete t # es) = (now \<le> t \<and> steady t a es)"
| "steady now a (Tick sent t # es) = (now \<le> t \<and> t < a + 1 \<and> steady t a es)"
| "steady now a (AgentSpeaks # es) = steady now a es"
| "steady now a (Interrupted # es) = steady now a es"

definition armed_after :: "clock \<Rightarrow> silence_state \<Rightarrow> bool" where
  "armed_after a s \<longleftrightarrow> a + 1 \<le> silence_nudge_due_at s \<and> (awaiting_agent_response s \<longrightarrow> a \<le> user_spoke_at s)"

lemma steady_no_nudge:
  assumes "silence_run cfg es s = (s', ns)" and "armed_after a s" and "steady now a es" and "a \<le> now"
  shows "ns = []"
  using assms
proof (induction es arbitrary: s ns now a)
  case (Cons e es)
  obtain s1 n where st: "silence_step cfg e s = (s1, n)" by force
  obtain ns1 where run: "silence_run cfg es s1 = (s', ns1)" and ns: "ns = (case n of None \<Rightarrow> ns1 | Some x \<Rightarrow> x # ns1)"
    using Cons.prems(1) st by (auto split: prod.splits)
  have due: "max 1 x \<ge> (1 :: rat)" for x by simp
  show ?case
  proof (cases e)
    case (Audio t)
    have "armed_after t s1" using st Audio due by (auto simp: armed_after_def silence_defs)
    then show ?thesis using Cons.IH [OF run, of t t] Cons.prems Audio st ns by (auto simp: silence_defs)
  next
    case (ClientMessage t ty)
    have "armed_after a s1"
      using st ClientMessage Cons.prems by (auto simp: armed_after_def silence_defs)
    then show ?thesis using Cons.IH [OF run, of a t] Cons.prems ClientMessage st ns by auto
  next
    case AgentSpeaks
    have "armed_after a s1" using st AgentSpeaks Cons.prems by (auto simp: armed_after_def silence_defs)
    then show ?thesis using Cons.IH [OF run, of a now] Cons.prems AgentSpeaks st ns by auto
  next
    case Interrupted
    have "armed_after a s1" using st Interrupted Cons.prems by (auto simp: armed_after_def silence_defs)
    then show ?thesis using Cons.IH [OF run, of a now] Cons.prems Interrupted st ns by auto
  next
    case (UserTranscribed t)
    have "armed_after a s1" using st UserTranscribed Cons.prems by (auto simp: armed_after_def silence_defs)
    then show ?thesis using Cons.IH [OF run, of a t] Cons.prems UserTranscribed st ns by auto
  next
    case (TurnComplete t)
    have "armed_after a s1"
      using st TurnComplete Cons.prems due [of "silence_nudge_interval s"]
      by (auto simp: armed_after_def silence_defs max_def split: if_splits)
    then show ?thesis using Cons.IH [OF run, of a t] Cons.prems TurnComplete st ns by auto
  next
    case (Tick sent t)
    have "s1 = s \<and> n = None"
      using st Tick Cons.prems
      by (auto simp: armed_after_def nudge_tick_def Let_def RESPONSE_LATENCY_FILLER_SECONDS_def
          RESPONSE_LATENCY_REASSURE_SECONDS_def split: if_splits)
    then show ?thesis using Cons.IH [OF run, of a t] Cons.prems Tick ns by auto
  qed
qed simp

text \<open>
  A client that sends audio without pause, as the telephone bridges do (a frame every 20 ms,
  silence included), is never nudged: every frame disarms the latency watchdog, marks the agent
  busy and moves the check-in away, so neither the filler after three seconds nor any check-in
  is ever sent, although the task exists for calls in which nobody answers.
\<close>

theorem steady_audio_never_nudged:
  assumes "silence_run cfg es (audio_activity cfg t s) = (s', ns)" and "steady t t es"
  shows "ns = []"
proof -
  have "armed_after t (audio_activity cfg t s)" by (simp add: armed_after_def silence_defs)
  from steady_no_nudge [OF assms(1) this assms(2)] show ?thesis by simp
qed

theorem steady_audio_never_nudged_witness:
  "snd (silence_run default_nudges [UserTranscribed 1, Audio (3 / 2), Tick True 2, Audio (5 / 2), Tick True 3,
      Audio 4, Tick True 4, Audio 9, Tick True 9]
     (audio_activity default_nudges 0 (create_initial_silence_state default_nudges 0))) = []"
  by (rule steady_audio_never_nudged [OF prod.collapse [symmetric]]) simp

end
