(* ===== verification/Runtime_Ids.thy ===== *)
theory Runtime_Ids
  imports Py_Records
begin

text \<open>
  The small pure functions of \<open>main.py\<close>: identifiers taken from clients, upload limits and the
  message a state delta carries.  The patterns \<open>^[a-z0-9][a-z0-9_-]{1,n}$\<close> are matched
  against the whole text.
\<close>

definition id_head :: "char \<Rightarrow> bool" where
  "id_head c \<longleftrightarrow> (97 \<le> code c \<and> code c \<le> 122) \<or> is_digit c"

definition id_char :: "char \<Rightarrow> bool" where
  "id_char c \<longleftrightarrow> id_head c \<or> c = CHR ''_'' \<or> c = CHR ''-''"

definition id_pattern :: "nat \<Rightarrow> string \<Rightarrow> bool" where
  "id_pattern n s \<longleftrightarrow>
     (case s of [] \<Rightarrow> False | c # cs \<Rightarrow> id_head c \<and> 1 \<le> length cs \<and> length cs \<le> n \<and> list_all id_char cs)"

fun normalize_id :: "nat \<Rightarrow> py \<Rightarrow> string option" where
  "normalize_id n (PStr raw) = (let s = lower (strip raw) in if id_pattern n s then Some s else None)"
| "normalize_id n _ = None"

definition normalize_company_id :: "string \<Rightarrow> py \<Rightarrow> string" where
  "normalize_company_id default_company_id raw =
     (case normalize_id 63 raw of Some s \<Rightarrow> s | None \<Rightarrow> default_company_id)"

definition normalize_tenant_id :: "py \<Rightarrow> string \<Rightarrow> string" where
  "normalize_tenant_id raw fallback = (case normalize_id 63 raw of Some s \<Rightarrow> s | None \<Rightarrow> fallback)"

definition normalize_template_id :: "py \<Rightarrow> string option" where
  "normalize_template_id raw = normalize_id 127 raw"

definition normalize_company_id_strict :: "py \<Rightarrow> string option" where
  "normalize_company_id_strict raw = normalize_id 63 raw"

definition normalize_connector_id :: "py \<Rightarrow> string option" where
  "normalize_connector_id raw = normalize_id 79 raw"

definition env_flag_value :: "string option \<Rightarrow> string \<Rightarrow> bool" where
  "env_flag_value value fallback \<longleftrightarrow>
     lower (strip (case value of None \<Rightarrow> fallback | Some v \<Rightarrow> v)) \<in> {''1'', ''true'', ''yes'', ''on''}"

section \<open>Uploads\<close>

datatype upload_error = MimeTypeNotAllowed | EmptyUpload | UploadTooLarge

text \<open>A MIME type that is no text is in no set of texts.\<close>

definition validate_upload_bytes ::
  "string list \<Rightarrow> nat \<Rightarrow> py \<Rightarrow> 'a list \<Rightarrow> upload_error option" where
  "validate_upload_bytes allowed_mime_types max_upload_bytes mime_type data =
     (if mime_type \<notin> PStr ` set allowed_mime_types then Some MimeTypeNotAllowed
      else if data = [] then Some EmptyUpload
      else if length data > max_upload_bytes then Some UploadTooLarge
      else None)"

section \<open>Structured messages\<close>

definition extract_server_message_from_state_delta :: "py_record option \<Rightarrow> py_record option" where
  "extract_server_message_from_state_delta delta =
     (case delta of
        None \<Rightarrow> None
      | Some d \<Rightarrow>
          (case py_get d ''temp:last_server_message'' of
             PDict m \<Rightarrow> (case py_get m ''type'' of PStr t \<Rightarrow> Some m | _ \<Rightarrow> None)
           | _ \<Rightarrow> None))"

section \<open>Lemmas\<close>

text \<open>
  An identifier that was accepted is safe as a document name: it holds no separator, no dot,
  no space and no capital letter, has at least two characters, and normalizes to itself.
\<close>

lemma id_pattern_chars: "id_pattern n s \<Longrightarrow> list_all id_char s \<and> 2 \<le> length s \<and> length s \<le> n + 1"
  by (cases s) (auto simp: id_pattern_def id_char_def)

lemma id_char_safe: "id_char c \<Longrightarrow> c \<noteq> CHR ''/'' \<and> c \<noteq> CHR ''.'' \<and> \<not> is_space c"
  by (auto simp: id_char_def id_head_def is_digit_def is_space_def code_def Let_def)

lemma id_char_lower: "id_char c \<Longrightarrow> lower_char c = c"
  by (auto simp: id_char_def id_head_def is_digit_def lower_char_def code_def Let_def)

lemma normalize_id_safe:
  assumes "normalize_id n v = Some s"
  shows "list_all (\<lambda>c. c \<noteq> CHR ''/'' \<and> c \<noteq> CHR ''.'' \<and> \<not> is_space c) s" and "2 \<le> length s" and "length s \<le> n + 1"
proof -
  have "id_pattern n s" using assms by (cases v) (auto simp: Let_def split: if_splits)
  note p = id_pattern_chars [OF this]
  then show "list_all (\<lambda>c. c \<noteq> CHR ''/'' \<and> c \<noteq> CHR ''.'' \<and> \<not> is_space c) s"
    using id_char_safe by (simp add: list_all_iff)
  show "2 \<le> length s" and "length s \<le> n + 1" using p by simp_all
qed

lemma strip_spaceless:
  assumes "list_all (\<lambda>c. \<not> is_space c) s"
  shows "strip s = s"
proof -
  have l: "lstrip s = s" using assms by (cases s) (simp_all add: lstrip_def)
  have "rstrip_where is_space s = s" if "list_all (\<lambda>c. \<not> is_space c) s" for s
    using that by (cases s rule: rev_cases) (simp_all add: rstrip_where_def)
  with l assms show ?thesis by (simp add: strip_def)
qed

lemma normalize_id_idem:
  assumes "normalize_id n v = Some s"
  shows "normalize_id n (PStr s) = Some s"
proof -
  have p: "id_pattern n s" using assms by (cases v) (auto simp: Let_def split: if_splits)
  from id_pattern_chars [OF p] have c: "list_all id_char s" by simp
  then have "strip s = s" using id_char_safe by (intro strip_spaceless) (simp add: list_all_iff)
  moreover have "lower s = s" using c by (induction s) (simp_all add: lower_def id_char_lower)
  ultimately show ?thesis using p by simp
qed

end
