(* ===== verification/Stream_Tasks.thy ===== *)
theory Stream_Tasks
  imports Stream_Silence Runtime_Ids Core_Helpers Base64
begin

text \<open>
  \<open>app/api/v1/realtime/stream_tasks.py\<close>: what the two transfer tasks of a stream do with one
  client message and with one event of the live model.  JSON, \<open>str()\<close>, the redaction of
  transcripts and the outcome of the upload limiter are inputs; every \<open>send\<close> succeeds.
\<close>

datatype stream_out =
    WsJson py_record
  | WsBytes bytes
  | LiveAudio bytes
  | LiveImage py bytes
  | LiveText string
  | LiveActivityStart
  | LiveActivityEnd
  | CacheImage py bytes

record stream_ctx =
  ctx_session_id :: string
  ctx_industry :: string
  ctx_session_industry :: string
  ctx_company_id :: string
  ctx_session_state :: py_record
  ctx_manual_vad :: bool
  ctx_native_audio :: bool

section \<open>From the client\<close>

definition ws_error :: "string \<Rightarrow> string \<Rightarrow> stream_out" where
  "ws_error c message = WsJson [(''type'', PStr ''error''), (''code'', PStr c), (''message'', PStr message)]"

text \<open>
  \<open>b64decode(s, validate=True)\<close>: only characters of the alphabet, at most two pad characters at
  the end, and whole quanta.
\<close>

definition b64decode_strict :: "string \<Rightarrow> bytes option" where
  "b64decode_strict s =
     (let data = takeWhile (\<lambda>c. b64_value c \<noteq> None) s; pads = dropWhile (\<lambda>c. b64_value c \<noteq> None) s
      in if length s mod 4 = 0 \<and> list_all (\<lambda>c. c = CHR ''='') pads \<and> length pads \<le> 2 then b64decode s else None)"

definition IMAGE_PROMPT :: string where
  "IMAGE_PROMPT = ''Customer uploaded a device photo. Transfer to vision_agent and call analyze_device_image_tool now.''"

definition upload_failure :: "nat \<Rightarrow> upload_error \<Rightarrow> stream_out" where
  "upload_failure max_upload_bytes e =
     (case e of
        UploadTooLarge \<Rightarrow> ws_error ''UPLOAD_TOO_LARGE'' (''Image exceeds '' @ nat_str max_upload_bytes @ '' bytes'')
      | MimeTypeNotAllowed \<Rightarrow> ws_error ''MIME_TYPE_NOT_ALLOWED'' ''Unsupported image MIME type''
      | EmptyUpload \<Rightarrow> ws_error ''INVALID_UPLOAD'' ''Invalid upload payload'')"

fun is_object :: "py \<Rightarrow> bool" where
  "is_object (PDict d) = True"
| "is_object _ = False"

text \<open>An uploaded image; a MIME type that is a list or an object raises (\<open>None\<close>).\<close>

definition image_message_out :: "string list \<Rightarrow> nat \<Rightarrow> bool \<Rightarrow> py_record \<Rightarrow> stream_out list option" where
  "image_message_out allowed_mime max_upload_bytes within_limit msg =
     (if \<not> within_limit then Some [ws_error ''RATE_LIMIT_EXCEEDED'' ''Upload rate limit exceeded'']
      else case py_get msg ''data'' of
        PStr image_b64 \<Rightarrow>
          (case b64decode_strict image_b64 of
             None \<Rightarrow> Some [ws_error ''INVALID_BASE64_IMAGE'' ''Image payload is not valid base64'']
           | Some data \<Rightarrow>
               (let mime = dget_default msg ''mimeType'' (PStr ''image/jpeg'')
                in if is_list mime \<or> is_object mime then None
                   else case validate_upload_bytes allowed_mime max_upload_bytes mime data of
                     Some e \<Rightarrow> Some [upload_failure max_upload_bytes e]
                   | None \<Rightarrow>
                       Some [CacheImage mime data,
                        WsJson [(''type'', PStr ''image_received''), (''status'', PStr ''analyzing'')],
                        LiveImage mime data, LiveText IMAGE_PROMPT]))
      | _ \<Rightarrow> Some [ws_error ''INVALID_IMAGE_PAYLOAD'' ''Image payload must be base64 string''])"

definition INDUSTRY_LOCKED_TEXT :: string where
  "INDUSTRY_LOCKED_TEXT = ''Industry is set during onboarding and cannot be changed during an active session.''"

definition COMPANY_LOCKED_TEXT :: string where
  "COMPANY_LOCKED_TEXT = ''Company profile is selected during onboarding and cannot be changed during an active session.''"

definition config_message_out :: "string \<Rightarrow> stream_ctx \<Rightarrow> py_record \<Rightarrow> stream_out" where
  "config_message_out default_company ctx msg =
     (let requested_industry = (case dget_default msg ''industry'' (PStr (ctx_industry ctx)) of
            PStr s \<Rightarrow> or_else (lower (strip s)) (ctx_industry ctx)
          | _ \<Rightarrow> or_else (lower (strip (ctx_industry ctx))) (ctx_industry ctx));
          requested_company = normalize_company_id default_company
            (dget_default msg ''companyId'' (dget_default msg ''company_id'' (PStr (ctx_company_id ctx))))
      in if requested_industry \<noteq> ctx_session_industry ctx then
           WsJson (append_canonical_lock_fields
             [(''type'', PStr ''error''), (''code'', PStr ''INDUSTRY_LOCKED''), (''message'', PStr INDUSTRY_LOCKED_TEXT),
              (''industry'', PStr (ctx_session_industry ctx)), (''companyId'', PStr (ctx_company_id ctx)),
              (''requestedIndustry'', PStr requested_industry)] (Some (ctx_session_state ctx)))
         else if requested_company \<noteq> ctx_company_id ctx then
           WsJson (append_canonical_lock_fields
             [(''type'', PStr ''error''), (''code'', PStr ''COMPANY_LOCKED''), (''message'', PStr COMPANY_LOCKED_TEXT),
              (''companyId'', PStr (ctx_company_id ctx)), (''requestedCompanyId'', PStr requested_company),
              (''industry'', PStr (ctx_session_industry ctx))] (Some (ctx_session_state ctx)))
         else
           let voice = or_else (plain_text (py_get (ctx_session_state ctx) ''app:voice''))
                 (voice_for_industry (ctx_session_industry ctx))
           in WsJson (build_session_started_message (ctx_session_id ctx) (ctx_session_industry ctx)
                (ctx_company_id ctx) voice (ctx_manual_vad ctx) (Some (ctx_session_state ctx))))"

text \<open>
  A JSON message that is an object; \<open>None\<close> is an exception, such as the \<open>KeyError\<close> of a text
  message without a text, which ends the stream.
\<close>

definition json_message_out ::
  "(py \<Rightarrow> string) \<Rightarrow> string list \<Rightarrow> nat \<Rightarrow> bool \<Rightarrow> string \<Rightarrow> int \<Rightarrow> stream_ctx \<Rightarrow> py_record \<Rightarrow> stream_out list option" where
  "json_message_out fmt allowed_mime max_upload_bytes within_limit default_company now_ms ctx msg =
     (let ty = dget_default msg ''type'' (PStr [])
      in if ty = PStr ''text'' then (case py_get msg ''text'' of PStr t \<Rightarrow> Some [LiveText t] | _ \<Rightarrow> None)
         else if ty = PStr ''image'' then image_message_out allowed_mime max_upload_bytes within_limit msg
         else if ty = PStr ''config'' then Some [config_message_out default_company ctx msg]
         else if ty = PStr ''negotiate'' then
           Some [LiveText (''Customer negotiation: '' @ fmt (dget_default msg ''action'' (PStr ''counter'')) @
             ''. Counter-offer amount: '' @ fmt (dget_default msg ''counterOffer'' (PInt 0)))]
         else if ty = PStr ''activity_start'' then Some (if ctx_manual_vad ctx then [LiveActivityStart] else [])
         else if ty = PStr ''activity_end'' then Some (if ctx_manual_vad ctx then [LiveActivityEnd] else [])
         else if ty = PStr ''client_ping'' then
           Some [WsJson [(''type'', PStr ''client_pong''), (''seq'', py_get msg ''seq''),
             (''clientTs'', py_get msg ''clientTs''), (''serverTs'', PInt now_ms)]]
         else Some [ws_error ''UNSUPPORTED_MESSAGE_TYPE'' ''Unsupported client message type''])"

datatype client_frame = Binary bytes | JsonText string

text \<open>One frame in \<open>upstream_task\<close>; \<open>loads\<close> is \<open>None\<close> for malformed JSON.\<close>

definition upstream_frame ::
  "(py \<Rightarrow> string) \<Rightarrow> (string \<Rightarrow> py option) \<Rightarrow> string list \<Rightarrow> nat \<Rightarrow> bool \<Rightarrow> string \<Rightarrow> nudge_settings \<Rightarrow> clock \<Rightarrow> int
     \<Rightarrow> stream_ctx \<Rightarrow> client_frame \<Rightarrow> silence_state \<Rightarrow> (silence_state \<times> stream_out list) option" where
  "upstream_frame fmt loads allowed_mime max_upload_bytes within_limit default_company cfg now now_ms ctx frame s =
     (case frame of
        Binary data \<Rightarrow> Some (audio_activity cfg now s, [LiveAudio data])
      | JsonText t \<Rightarrow>
          (case loads t of
             None \<Rightarrow> Some (s, [ws_error ''INVALID_JSON'' ''Malformed JSON payload''])
           | Some (PDict msg) \<Rightarrow>
               map_option (\<lambda>out. (message_activity cfg now (dget_default msg ''type'' (PStr [])) s, out))
                 (json_message_out fmt allowed_mime max_upload_bytes within_limit default_company now_ms ctx msg)
           | Some _ \<Rightarrow> None))"

section \<open>To the client\<close>

datatype content_item = AudioPart bytes | TextPart string

record live_event =
  ev_parts :: "content_item list"
  ev_turn_complete :: bool
  ev_input :: "(string \<times> bool) option"
  ev_output :: "(string \<times> bool) option"
  ev_interrupted :: bool
  ev_transfer :: py
  ev_state_delta :: "py_record option"
  ev_author :: string
  ev_usage :: "py_record option"
  ev_resumption :: py
  ev_go_away :: "int option option"

record downstream_state =
  current_agent :: string
  last_input_text :: string
  last_output_text :: string
  receiving_input :: bool
  input_finalized :: bool
  output_finalized :: bool
  last_structured_message_id :: int
  session_prompt_tokens :: int
  session_completion_tokens :: int
  session_total_tokens :: int
  session_cost_usd :: rat

definition downstream_init :: downstream_state where
  "downstream_init = \<lparr>current_agent = ''ekaette_router'', last_input_text = [], last_output_text = [],
     receiving_input = False, input_finalized = False, output_finalized = False,
     last_structured_message_id = 0, session_prompt_tokens = 0, session_completion_tokens = 0,
     session_total_tokens = 0, session_cost_usd = 0\<rparr>"

text \<open>A step of the processing: both states and the messages sent so far.\<close>

type_synonym downstream = "downstream_state \<times> silence_state \<times> stream_out list"

definition transcription :: "string \<Rightarrow> string \<Rightarrow> bool \<Rightarrow> stream_out" where
  "transcription role body partial =
     WsJson [(''type'', PStr ''transcription''), (''role'', PStr role), (''text'', PStr body), (''partial'', PBool partial)]"

definition finalize_input :: "(string \<Rightarrow> string) \<Rightarrow> downstream \<Rightarrow> downstream" where
  "finalize_input redact = (\<lambda>(d, s, out).
     (d\<lparr>last_input_text := [], receiving_input := False, input_finalized := True\<rparr>, s,
      out @ (if receiving_input d \<and> last_input_text d \<noteq> []
        then [transcription ''user'' (redact (last_input_text d)) False] else [])))"

definition finalize_output :: "downstream \<Rightarrow> downstream" where
  "finalize_output = (\<lambda>(d, s, out).
     (d\<lparr>last_output_text := [], output_finalized := True\<rparr>, s,
      out @ (if last_output_text d \<noteq> [] then [transcription ''agent'' (last_output_text d) False] else [])))"

definition content_step :: "stream_ctx \<Rightarrow> bool \<Rightarrow> content_item \<Rightarrow> downstream \<Rightarrow> downstream" where
  "content_step ctx turn_done part = (\<lambda>(d, s, out).
     (case part of
        AudioPart b \<Rightarrow> if b \<noteq> [] then (d, agent_speaks s, out @ [WsBytes b]) else (d, s, out)
      | TextPart t \<Rightarrow>
          if t \<noteq> [] \<and> \<not> ctx_native_audio ctx
          then (d, agent_speaks s, out @ [transcription ''agent'' t (\<not> turn_done)]) else (d, s, out)))"

definition input_step :: "(string \<Rightarrow> string) \<Rightarrow> clock \<Rightarrow> (string \<times> bool) option \<Rightarrow> downstream \<Rightarrow> downstream" where
  "input_step redact now tr = (\<lambda>(d, s, out).
     (case tr of
        None \<Rightarrow> (d, s, out)
      | Some (body, finished) \<Rightarrow>
          if body = [] \<or> (input_finalized d \<and> \<not> finished) then (d, s, out)
          else
            let d = d\<lparr>input_finalized := False, last_input_text := body, receiving_input := True\<rparr>;
                out = out @ [transcription ''user'' (redact body) (\<not> finished)];
                d = (if finished then d\<lparr>last_input_text := [], receiving_input := False, input_finalized := True\<rparr> else d)
            in (d, user_transcribed now s, out)))"

definition output_step :: "(string \<Rightarrow> string) \<Rightarrow> (string \<times> bool) option \<Rightarrow> downstream \<Rightarrow> downstream" where
  "output_step redact tr = (\<lambda>(d, s, out).
     (case tr of
        None \<Rightarrow> (d, s, out)
      | Some (body, finished) \<Rightarrow>
          if body = [] then (d, s, out)
          else
            let s = s\<lparr>agent_busy := True\<rparr> in
            if output_finalized d \<and> \<not> finished then (d, s, out)
            else
              let s = s\<lparr>awaiting_agent_response := False\<rparr>;
                  d = d\<lparr>output_finalized := False\<rparr>;
                  (d, s, out) = (if receiving_input d then finalize_input redact (d, s, out) else (d, s, out));
                  d = d\<lparr>last_output_text := body\<rparr>;
                  out = out @ [transcription ''agent'' body (\<not> finished)];
                  d = (if finished then d\<lparr>last_output_text := [], output_finalized := True\<rparr> else d)
              in (d, s, out)))"

definition interrupted_step :: "(string \<Rightarrow> string) \<Rightarrow> bool \<Rightarrow> downstream \<Rightarrow> downstream" where
  "interrupted_step redact flag x =
     (if \<not> flag then x
      else (\<lambda>(d, s, out). (d, agent_interrupted s,
              out @ [WsJson [(''type'', PStr ''interrupted''), (''interrupted'', PBool True)]]))
             (finalize_output (finalize_input redact x)))"

definition transfer_step :: "py \<Rightarrow> downstream \<Rightarrow> downstream" where
  "transfer_step target = (\<lambda>(d, s, out).
     (case target of
        PStr new_agent \<Rightarrow>
          if strip new_agent = [] \<or> new_agent = current_agent d then (d, s, out)
          else (d\<lparr>current_agent := new_agent\<rparr>, s, out @
            [WsJson [(''type'', PStr ''agent_transfer''), (''from'', PStr (current_agent d)), (''to'', PStr new_agent)],
             WsJson [(''type'', PStr ''agent_status''), (''agent'', PStr new_agent), (''status'', PStr ''active'')]])
      | _ \<Rightarrow> (d, s, out)))"

definition structured_id :: "py_record \<Rightarrow> int" where
  "structured_id m = (case to_int (dget_default m ''id'' (PInt 0)) of Some i \<Rightarrow> i | None \<Rightarrow> 0)"

definition structured_step :: "py_record option \<Rightarrow> downstream \<Rightarrow> downstream" where
  "structured_step delta = (\<lambda>(d, s, out).
     (case extract_server_message_from_state_delta delta of
        None \<Rightarrow> (d, s, out)
      | Some m \<Rightarrow>
          if structured_id m > last_structured_message_id d
          then (d\<lparr>last_structured_message_id := structured_id m\<rparr>, s, out @ [WsJson (filter (\<lambda>(k, v). k \<noteq> ''id'') m)])
          else (d, s, out)))"

definition turn_complete_step :: "(string \<Rightarrow> string) \<Rightarrow> clock \<Rightarrow> string \<Rightarrow> bool \<Rightarrow> downstream \<Rightarrow> downstream" where
  "turn_complete_step redact now author flag x =
     (if \<not> flag then x
      else (\<lambda>(d, s, out). (d\<lparr>input_finalized := False, output_finalized := False\<rparr>, agent_turn_complete now s,
              out @ [WsJson [(''type'', PStr ''agent_status''), (''agent'', PStr (or_else author (current_agent d))),
                (''status'', PStr ''idle'')]]))
             (finalize_output (finalize_input redact x)))"

definition usage_cost :: "rat \<Rightarrow> rat \<Rightarrow> int \<Rightarrow> int \<Rightarrow> rat" where
  "usage_cost price_prompt price_completion prompt completion =
     fl (fl (fl (of_int prompt / 1000000) * price_prompt) + fl (fl (of_int completion / 1000000) * price_completion))"

definition telemetry_out :: "(rat \<Rightarrow> rat) \<Rightarrow> int \<Rightarrow> int \<Rightarrow> int \<Rightarrow> downstream_state \<Rightarrow> stream_out" where
  "telemetry_out round6 prompt completion tokens d =
     WsJson [(''type'', PStr ''telemetry''), (''promptTokens'', PInt prompt), (''completionTokens'', PInt completion),
       (''totalTokens'', PInt tokens), (''sessionPromptTokens'', PInt (session_prompt_tokens d)),
       (''sessionCompletionTokens'', PInt (session_completion_tokens d)),
       (''sessionTotalTokens'', PInt (session_total_tokens d)),
       (''sessionCostUsd'', PFloat (round6 (session_cost_usd d)))]"

definition usage_step :: "(rat \<Rightarrow> rat) \<Rightarrow> rat \<Rightarrow> rat \<Rightarrow> bool \<Rightarrow> py_record option \<Rightarrow> downstream \<Rightarrow> downstream" where
  "usage_step round6 price_prompt price_completion debug usage = (\<lambda>(d, s, out).
     (case usage of
        None \<Rightarrow> (d, s, out)
      | Some u \<Rightarrow>
          (let prompt = usage_int u [''prompt_token_count'', ''prompt_tokens''];
               completion = usage_int u [''candidates_token_count'', ''completion_token_count'', ''completion_tokens''];
               tokens = usage_int u [''total_token_count'', ''total_tokens''];
               tokens = (if tokens \<le> 0 then prompt + completion else tokens)
           in if tokens > 0 then
                let d = d\<lparr>session_prompt_tokens := session_prompt_tokens d + prompt,
                      session_completion_tokens := session_completion_tokens d + completion,
                      session_total_tokens := session_total_tokens d + tokens,
                      session_cost_usd := fl (session_cost_usd d + usage_cost price_prompt price_completion prompt completion)\<rparr>
                in (d, s, out @ (if debug then [telemetry_out round6 prompt completion tokens d] else []))
              else (d, s, out))))"

definition ending_step :: "py \<Rightarrow> int option option \<Rightarrow> downstream \<Rightarrow> downstream" where
  "ending_step token go_away = (\<lambda>(d, s, out).
     (d, s, out @
      (case token of PStr (c # cs) \<Rightarrow> [WsJson [(''type'', PStr ''session_ending''),
          (''reason'', PStr ''session_resumption''), (''resumptionToken'', PStr (c # cs))]] | _ \<Rightarrow> []) @
      (case go_away of None \<Rightarrow> [] | Some left \<Rightarrow> [WsJson [(''type'', PStr ''session_ending''),
          (''reason'', PStr ''go_away''), (''timeLeftMs'', case left of Some ms \<Rightarrow> PInt ms | None \<Rightarrow> PNone)]])))"

record stream_prices =
  price_prompt :: rat
  price_completion :: rat
  debug_telemetry :: bool

text \<open>One event in \<open>downstream_task\<close>, in the order the code looks at its parts.\<close>

definition downstream_event ::
  "(string \<Rightarrow> string) \<Rightarrow> (rat \<Rightarrow> rat) \<Rightarrow> stream_prices \<Rightarrow> stream_ctx \<Rightarrow> clock \<Rightarrow> live_event \<Rightarrow> downstream \<Rightarrow> downstream" where
  "downstream_event redact round6 prices ctx now ev x =
     (let x = fold (content_step ctx (ev_turn_complete ev)) (ev_parts ev) x;
          x = input_step redact now (ev_input ev) x;
          x = output_step redact (ev_output ev) x;
          x = interrupted_step redact (ev_interrupted ev) x;
          x = transfer_step (ev_transfer ev) x;
          x = structured_step (ev_state_delta ev) x;
          x = turn_complete_step redact now (ev_author ev) (ev_turn_complete ev) x;
          x = usage_step round6 (price_prompt prices) (price_completion prices) (debug_telemetry prices) (ev_usage ev) x
      in ending_step (ev_resumption ev) (ev_go_away ev) x)"

definition live_session_ended :: stream_out where
  "live_session_ended = WsJson [(''type'', PStr ''session_ending''), (''reason'', PStr ''live_session_ended'')]"

end
