(* ===== verification/Stream_Protocol.thy ===== *)
theory Stream_Protocol
  imports Stream_Tasks Agent_Isolation "HOL-Library.Sublist"
begin

text \<open>
  What a client of a stream can rely on: transcripts are closed once per turn, and every
  message a callback queues arrives exactly once and in order.
\<close>

primrec downstream_run ::
  "(string \<Rightarrow> string) \<Rightarrow> (rat \<Rightarrow> rat) \<Rightarrow> stream_prices \<Rightarrow> stream_ctx \<Rightarrow> (clock \<times> live_event) list \<Rightarrow> downstream \<Rightarrow> downstream" where
  "downstream_run redact round6 prices ctx [] x = x"
| "downstream_run redact round6 prices ctx (e # es) x =
     downstream_run redact round6 prices ctx es (downstream_event redact round6 prices ctx (fst e) (snd e) x)"

section \<open>Closed turns\<close>

text \<open>
  The state of one role's transcript: whether a final text was sent in this turn; \<open>None\<close> once a
  partial text has followed a final one.
\<close>

definition turn_flag :: "string \<Rightarrow> stream_out \<Rightarrow> bool option \<Rightarrow> bool option" where
  "turn_flag role m f =
     (case (m, f) of
        (WsJson r, Some b) \<Rightarrow>
          if py_get r ''type'' = PStr ''agent_status'' \<and> py_get r ''status'' = PStr ''idle'' then Some False
          else if py_get r ''type'' = PStr ''transcription'' \<and> py_get r ''role'' = PStr role
            then (if py_get r ''partial'' = PBool False then Some True else if b then None else Some b)
          else Some b
      | (_, f) \<Rightarrow> f)"

definition turn_state :: "string \<Rightarrow> stream_out list \<Rightarrow> bool option" where
  "turn_state role out = fold (turn_flag role) out (Some False)"

definition user_ok :: "downstream \<Rightarrow> bool" where
  "user_ok x \<longleftrightarrow> (case turn_state ''user'' (snd (snd x)) of None \<Rightarrow> False | Some f \<Rightarrow> f \<longrightarrow> input_finalized (fst x))"

lemma turn_state_simps [simp]:
  "turn_state role [] = Some False" "turn_state role (out @ [m]) = turn_flag role m (turn_state role out)"
  "turn_state role (out @ [m, m']) = turn_flag role m' (turn_flag role m (turn_state role out))"
  by (simp_all add: turn_state_def)

lemma turn_flag_simps [simp]:
  "turn_flag role (WsBytes bs) f = f"
  "turn_flag role (transcription role' body p) (Some b) =
     (if role' = role then if \<not> p then Some True else if b then None else Some b else Some b)"
  by (auto simp: turn_flag_def transcription_def py_get_def dget_default_def split: option.split)

lemma turn_flag_other:
  assumes "py_get r ''type'' \<noteq> PStr ''transcription''" and "py_get r ''type'' \<noteq> PStr ''agent_status''"
  shows "turn_flag role (WsJson r) f = f"
  using assms by (simp add: turn_flag_def split: option.split)

lemma turn_flag_None [simp]: "turn_flag role m None = None"
  by (simp add: turn_flag_def split: stream_out.split)

lemma turn_flag_json [simp]:
  "ty \<noteq> ''transcription'' \<Longrightarrow> ty \<noteq> ''agent_status'' \<Longrightarrow>
    turn_flag role (WsJson ((''type'', PStr ty) # r)) f = f"
  by (rule turn_flag_other) (simp_all add: py_get_def dget_default_def)

lemma turn_flag_status [simp]:
  "turn_flag role (WsJson [(''type'', PStr ''agent_status''), (''agent'', a), (''status'', PStr st)]) (Some b) =
    Some (if st = ''idle'' then False else b)"
  by (simp add: turn_flag_def py_get_def dget_default_def)

lemma user_ok_iff: "user_ok (d, s, out) \<longleftrightarrow> turn_state ''user'' out \<in> (if input_finalized d then {Some False, Some True} else {Some False})"
  by (auto simp: user_ok_def split: option.splits)

lemma finalize_input_ok: "user_ok x \<Longrightarrow> user_ok (finalize_input redact x)"
  by (cases x) (auto simp: finalize_input_def user_ok_iff split: if_splits)

lemma finalize_output_ok: "user_ok x \<Longrightarrow> user_ok (finalize_output x)"
  by (cases x) (auto simp: finalize_output_def user_ok_iff split: if_splits)

lemma content_ok: "user_ok x \<Longrightarrow> user_ok (content_step ctx p part x)"
  by (cases x) (auto simp: content_step_def user_ok_iff split: content_item.split if_splits)

lemma fold_content_ok: "user_ok x \<Longrightarrow> user_ok (fold (content_step ctx p) parts x)"
  by (induction parts arbitrary: x) (simp_all add: content_ok)

lemma input_ok: "user_ok x \<Longrightarrow> user_ok (input_step redact now tr x)"
  by (cases x) (auto simp: input_step_def Let_def user_ok_iff split: option.split if_splits)

lemma output_ok: "user_ok x \<Longrightarrow> user_ok (output_step redact tr x)"
  by (cases x) (auto simp: output_step_def finalize_input_def Let_def user_ok_iff split: option.split if_splits)

lemma interrupted_ok:
  assumes "user_ok x"
  shows "user_ok (interrupted_step redact flag x)"
proof -
  have "user_ok (finalize_output (finalize_input redact x))"
    using assms by (intro finalize_output_ok finalize_input_ok)
  with assms show ?thesis
    by (cases "finalize_output (finalize_input redact x)")
      (auto simp: interrupted_step_def user_ok_iff split: if_splits)
qed

lemma transfer_ok: "user_ok x \<Longrightarrow> user_ok (transfer_step target x)"
  by (cases x) (auto simp: transfer_step_def user_ok_iff split: py.split if_splits)

definition plain_message :: "py_record option \<Rightarrow> bool" where
  "plain_message delta \<longleftrightarrow>
     (case extract_server_message_from_state_delta delta of
        None \<Rightarrow> True
      | Some m \<Rightarrow> py_get m ''type'' \<noteq> PStr ''transcription'' \<and> py_get m ''type'' \<noteq> PStr ''agent_status'')"

lemma dget_filter: "P k \<Longrightarrow> dget (filter (\<lambda>(k, v). P k) m) k = dget m k"
  by (induction m) auto

lemma py_get_filter: "k \<noteq> ''id'' \<Longrightarrow> py_get (filter (\<lambda>(k, v). k \<noteq> ''id'') m) k = py_get m k"
  using dget_filter [of "\<lambda>k. k \<noteq> ''id''" k m] by (simp add: py_get_def dget_default_def)

lemma structured_ok: "user_ok x \<Longrightarrow> plain_message delta \<Longrightarrow> user_ok (structured_step delta x)"
  by (cases x) (auto simp: structured_step_def plain_message_def turn_flag_other py_get_filter user_ok_iff split: option.splits if_splits)

lemma turn_complete_ok:
  assumes "user_ok x"
  shows "user_ok (turn_complete_step redact now author flag x)"
proof -
  have "user_ok (finalize_output (finalize_input redact x))"
    using assms by (intro finalize_output_ok finalize_input_ok)
  with assms show ?thesis
    by (cases "finalize_output (finalize_input redact x)")
      (auto simp: turn_complete_step_def user_ok_iff split: if_splits)
qed

lemma usage_ok: "user_ok x \<Longrightarrow> user_ok (usage_step round6 pp pc debug usage x)"
  by (cases x) (auto simp: usage_step_def telemetry_out_def Let_def user_ok_iff split: option.split if_splits)

lemma ending_ok: "user_ok x \<Longrightarrow> user_ok (ending_step token go x)"
  by (cases x) (auto simp: ending_step_def user_ok_iff split: py.split list.split option.split if_splits)

lemma event_ok:
  "user_ok x \<Longrightarrow> plain_message (ev_state_delta ev) \<Longrightarrow> user_ok (downstream_event redact round6 prices ctx now ev x)"
  by (simp add: downstream_event_def Let_def ending_ok usage_ok turn_complete_ok structured_ok transfer_ok
      interrupted_ok output_ok input_ok fold_content_ok)

lemma run_ok:
  "user_ok x \<Longrightarrow> list_all (\<lambda>e. plain_message (ev_state_delta (snd e))) es \<Longrightarrow>
    user_ok (downstream_run redact round6 prices ctx es x)"
  by (induction es arbitrary: x) (simp_all add: event_ok)

text \<open>
  In what a client is sent, no partial transcript of the user follows a final one of the
  same turn (until the agent reports idle): the late partials the live model produces after a
  final text are suppressed, whatever the order of events, interruptions and transfers.
\<close>

theorem no_late_user_partials:
  assumes "list_all (\<lambda>e. plain_message (ev_state_delta (snd e))) es"
  shows "turn_state ''user'' (snd (snd (downstream_run redact round6 prices ctx es (downstream_init, s, [])))) \<noteq> None"
proof -
  have "user_ok (downstream_init, s, [])" by (simp add: user_ok_def)
  from run_ok [OF this assms, of redact round6 prices ctx] show ?thesis
    by (simp add: user_ok_def split: option.splits)
qed

definition sample_ctx :: stream_ctx where
  "sample_ctx = \<lparr>ctx_session_id = ''s1'', ctx_industry = ''electronics'', ctx_session_industry = ''electronics'',
     ctx_company_id = ''default'', ctx_session_state = [], ctx_manual_vad = False, ctx_native_audio = True\<rparr>"

definition sample_event :: live_event where
  "sample_event = \<lparr>ev_parts = [], ev_turn_complete = False, ev_input = None, ev_output = None, ev_interrupted = False,
     ev_transfer = PNone, ev_state_delta = None, ev_author = [], ev_usage = None, ev_resumption = PNone, ev_go_away = None\<rparr>"

definition sample_prices :: stream_prices where
  "sample_prices = \<lparr>price_prompt = 0, price_completion = 0, debug_telemetry = False\<rparr>"

theorem no_late_user_partials_witness:
  "turn_state ''user'' (snd (snd (downstream_run (\<lambda>t. t) (\<lambda>q. q) sample_prices sample_ctx
      [(1, sample_event\<lparr>ev_input := Some (''hel'', False)\<rparr>), (2, sample_event\<lparr>ev_input := Some (''hello'', True)\<rparr>),
       (3, sample_event\<lparr>ev_input := Some (''hello'', False)\<rparr>)]
      (downstream_init, create_initial_silence_state default_nudges 0, [])))) \<noteq> None"
  by (rule no_late_user_partials) (simp add: sample_event_def plain_message_def extract_server_message_from_state_delta_def)

section \<open>Every queued message arrives once\<close>

definition structured_run :: "py_record option list \<Rightarrow> downstream \<Rightarrow> downstream" where
  "structured_run deltas x = fold structured_step deltas x"

definition carries :: "py_record \<Rightarrow> py_record option" where
  "carries m = Some [(''temp:last_server_message'', PDict m)]"

definition without_id :: "py_record \<Rightarrow> stream_out" where
  "without_id m = WsJson (filter (\<lambda>(k, v). k \<noteq> ''id'') m)"

lemma extract_carries: "typed m \<Longrightarrow> extract_server_message_from_state_delta (carries m) = Some m"
  by (auto simp: extract_server_message_from_state_delta_def carries_def typed_def py_get_def dget_default_def)

text \<open>
  Deltas with ascending numbers, the same number always with the same message: what is sent is
  each message after the last one sent, once.
\<close>

lemma structured_run_once:
  assumes "list_all typed ms" and "sorted (map structured_id ms)"
    and "\<forall>m \<in> set ms. last_structured_message_id d \<le> structured_id m"
    and "inj_on structured_id (set ms)"
  shows "snd (snd (structured_run (map carries ms) (d, s, out))) =
    out @ map without_id (remdups_adj (dropWhile (\<lambda>m. structured_id m = last_structured_message_id d) ms))"
  using assms
proof (induction ms arbitrary: d out)
  case Nil
  then show ?case by (simp add: structured_run_def)
next
  case (Cons m ms)
  have ext: "extract_server_message_from_state_delta (carries m) = Some m"
    using Cons.prems(1) by (simp add: extract_carries)
  show ?case
  proof (cases "structured_id m = last_structured_message_id d")
    case True
    then have st: "structured_step (carries m) (d, s, out) = (d, s, out)"
      by (simp add: structured_step_def ext)
    from Cons.IH [of d out] Cons.prems True show ?thesis
      by (simp add: structured_run_def st inj_on_def)
  next
    case False
    define d' where "d' = d\<lparr>last_structured_message_id := structured_id m\<rparr>"
    have gt: "structured_id m > last_structured_message_id d" using Cons.prems(3) False by (simp add: order_less_le)
    then have st: "structured_step (carries m) (d, s, out) = (d', s, out @ [without_id m])"
      by (simp add: structured_step_def ext without_id_def d'_def)
    have "dropWhile (\<lambda>x. structured_id x = structured_id m) ms = dropWhile (\<lambda>x. x = m) ms"
      using Cons.prems(4) by (intro dropWhile_cong) (auto simp: inj_on_def)
    moreover have "snd (snd (structured_run (map carries ms) (d', s, out @ [without_id m]))) =
        (out @ [without_id m]) @ map without_id (remdups_adj (dropWhile (\<lambda>x. structured_id x = structured_id m) ms))"
      using Cons.IH [of d' "out @ [without_id m]"] Cons.prems by (simp add: d'_def inj_on_def)
    ultimately show ?thesis
      using False by (simp add: structured_run_def st remdups_adj_Cons' del: remdups_adj.simps)
  qed
qed

lemma structured_id_get: "py_get m ''id'' = PInt i \<Longrightarrow> structured_id m = i"
  by (auto simp: structured_id_def py_get_def dget_default_def split: option.splits)

text \<open>The messages of a session of callbacks, as records with their numbers.\<close>

lemma session_message_records:
  "\<exists>ms. session_messages fmt sha1 pf cs st = map PDict ms \<and> list_all typed ms \<and>
     map structured_id ms = map (\<lambda>k. message_seq st + 1 + int k) [0..<length ms]"
proof -
  have "\<forall>v \<in> set (session_messages fmt sha1 pf cs st). \<exists>m. v = PDict m \<and> typed m"
  proof (induction cs arbitrary: st)
    case (Cons c cs)
    then show ?case
      using callback_effect [of st fmt sha1 pf c] by (auto simp: Let_def quiet_def queues_def)
  qed simp
  then obtain ms where ms: "session_messages fmt sha1 pf cs st = map PDict ms" "list_all typed ms"
  proof -
    have "\<forall>v \<in> set vs. \<exists>m. v = PDict m \<and> typed m \<Longrightarrow> \<exists>ms. vs = map PDict ms \<and> list_all typed ms" for vs
    proof (induction vs)
      case (Cons v vs)
      then obtain m ms where "v = PDict m" "typed m" "vs = map PDict ms" "list_all typed ms" by auto
      then show ?case by (intro exI [of _ "m # ms"]) simp
    qed simp
    then show ?thesis using \<open>\<forall>v \<in> set _. _\<close> that by blast
  qed
  have ids: "map (\<lambda>m. py_get m ''id'') ms = map (\<lambda>k. PInt (message_seq st + 1 + int k)) [0..<length ms]"
    using messages_numbered [of fmt sha1 pf cs st] by (simp add: ms(1) comp_def message_id_def)
  have "structured_id (ms ! k) = message_seq st + 1 + int k" if "k < length ms" for k
  proof (rule structured_id_get)
    from arg_cong [OF ids, of "\<lambda>xs. xs ! k"] that show "py_get (ms ! k) ''id'' = PInt (message_seq st + 1 + int k)"
      by simp
  qed
  then have "map structured_id ms = map (\<lambda>k. message_seq st + 1 + int k) [0..<length ms]"
    by (intro nth_equalityI) simp_all
  with ms show ?thesis by blast
qed

lemma sorted_map_remdups_adj: "sorted (map f (remdups_adj xs)) \<Longrightarrow> sorted (map f xs)"
proof (induction xs rule: remdups_adj.induct)
  case (3 x y xs)
  then show ?case by (cases "x = y") (auto simp: remdups_adj_set)
qed simp_all

text \<open>The messages that a sequence of state deltas carries.\<close>

definition carried :: "py_record option list \<Rightarrow> py_record list" where
  "carried deltas = List.map_filter extract_server_message_from_state_delta deltas"

lemma structured_run_carried:
  assumes "list_all typed (carried deltas)"
  shows "structured_run deltas x = structured_run (map carries (carried deltas)) x"
  using assms
proof (induction deltas arbitrary: x)
  case (Cons delta deltas)
  show ?case
  proof (cases "extract_server_message_from_state_delta delta")
    case None
    then show ?thesis
      using Cons by (cases x) (simp add: structured_run_def structured_step_def carried_def map_filter_simps)
  next
    case (Some m)
    then have "typed m" and rest: "list_all typed (carried deltas)"
      using Cons.prems by (simp_all add: carried_def map_filter_simps)
    then have "structured_step (carries m) = structured_step delta"
      using Some by (simp add: structured_step_def extract_carries)
    then show ?thesis
      using Cons.IH [OF rest] Some by (simp add: structured_run_def carried_def map_filter_simps)
  qed
qed (simp add: structured_run_def carried_def map_filter_simps)

text \<open>
  C31 The client is sent exactly the structured messages that the state deltas of the model's
  events carry, each once and in the order the callbacks queued them, without its number,
  however often the events repeat a delta in a row and whatever deltas without a message come
  between:
  the deltas carry messages of one session of callbacks in their order, not necessarily all of
  them, and the session's numbers start above the last number sent on the stream.  So every
  queued message that reaches a delta arrives; the slot in the state holds one message, and a
  message that the next one replaces before a delta is made never does
  (\<open>slot_keeps_the_last_message\<close>).
\<close>

theorem queued_messages_delivered_once:
  assumes "last_structured_message_id d \<le> message_seq st"
    and "subseq (map PDict (remdups_adj (carried deltas))) (session_messages fmt sha1 pf cs st)"
  shows "snd (snd (structured_run deltas (d, s, []))) = map without_id (remdups_adj (carried deltas))"
proof -
  let ?ms = "carried deltas"
  from session_message_records [of fmt sha1 pf cs st] obtain rs where
    rs: "session_messages fmt sha1 pf cs st = map PDict rs" "list_all typed rs"
      "map structured_id rs = map (\<lambda>k. message_seq st + 1 + int k) [0..<length rs]" by blast
  from assms(2) obtain N where "map PDict (remdups_adj ?ms) = nths (map PDict rs) N"
    unfolding subseq_conv_nths rs(1) by blast
  then have "map PDict (remdups_adj ?ms) = map PDict (nths rs N)" by (simp add: nths_map)
  moreover have "inj PDict" by (rule injI) simp
  ultimately have sub: "remdups_adj ?ms = nths rs N" by (simp add: inj_map_eq_map)
  have set: "set ?ms = set (nths rs N)" by (metis remdups_adj_set sub)
  have "sorted (map structured_id rs)" "distinct (map structured_id rs)"
    unfolding rs(3) by (simp_all add: sorted_iff_nth_mono distinct_map inj_on_def)
  then have nths: "sorted (map structured_id (nths rs N))" "distinct (map structured_id (nths rs N))"
    by (metis nths_map sorted_nths, metis nths_map distinct_nthsI)
  have sorted: "sorted (map structured_id ?ms)"
    by (rule sorted_map_remdups_adj) (simp add: sub nths(1))
  have inj: "inj_on structured_id (set ?ms)" unfolding set using nths(2) by (simp add: distinct_map)
  have mem: "set ?ms \<subseteq> set rs" unfolding set by (rule set_nths_subset)
  have above: "last_structured_message_id d < structured_id m" if "m \<in> set ?ms" for m
  proof -
    have "structured_id m \<in> set (map structured_id rs)" using that mem by auto
    then show ?thesis unfolding rs(3) using assms(1) by auto
  qed
  have typed: "list_all typed ?ms" using rs(2) mem by (auto simp: list_all_iff)
  have fresh: "dropWhile (\<lambda>m. structured_id m = last_structured_message_id d) ?ms = ?ms"
    using above [OF list.set_sel(1)] by (auto simp: dropWhile_eq_self_iff less_le)
  show ?thesis
    unfolding structured_run_carried [OF typed]
    using structured_run_once [OF typed sorted _ inj, of d s "[]"] above fresh by (simp add: less_imp_le)
qed

theorem queued_messages_delivered_once_witness:
  "\<exists>m. snd (snd (structured_run [carries m, None, carries m] (downstream_init, create_initial_silence_state default_nudges 0, [])))
     = [without_id m] \<and> PDict m = hd (session_messages (\<lambda>v. []) (\<lambda>x. x) (\<lambda>x. None) [ToolFailed ''search_catalog''] [])"
proof -
  let ?all = "session_messages (\<lambda>v. []) (\<lambda>x. x) (\<lambda>x. None) [ToolFailed ''search_catalog''] []"
  have one: "length ?all = 1" by code_simp
  from session_message_records [of "\<lambda>v. []" "\<lambda>x. x" "\<lambda>x. None" "[ToolFailed ''search_catalog'']" "[]"]
  obtain rs where rs: "?all = map PDict rs" "list_all typed rs" by blast
  then have "length rs = Suc 0" using one by simp
  with rs(2) obtain m where m: "rs = [m]" "typed m" by (cases rs) auto
  have c: "carried [carries m, None, carries m] = [m, m]"
    using extract_carries [OF m(2)]
    by (simp add: carried_def map_filter_simps extract_server_message_from_state_delta_def)
  have "last_structured_message_id downstream_init \<le> message_seq []"
    by (simp add: message_seq_def state_int_def downstream_init_def)
  from queued_messages_delivered_once [OF this, of "[carries m, None, carries m]" "\<lambda>v. []" "\<lambda>x. x" "\<lambda>x. None"
      "[ToolFailed ''search_catalog'']" "create_initial_silence_state default_nudges 0"] rs(1) m(1) c
  show ?thesis by (intro exI [of _ m]) simp
qed

text \<open>
  The slot holds one message: of two that are queued before a delta is made, by the callbacks
  of parallel tool calls for example, a delta carries the second only.
\<close>

lemma slot_keeps_the_last_message:
  "py_get (queue_server_message q (queue_server_message p st)) ''temp:last_server_message'' =
     PDict (dset ''id'' (PInt (message_seq st + 2)) q)"
  by (simp add: queue_server_message_def next_server_message_id_def Let_def py_get_dset message_seq_def
      state_int_def dget_default_def add.commute)

end
