(* ===== verification/Registry_Config.thy ===== *)
theory Registry_Config
  imports Agent_Policy "HOL-Library.List_Lexorder" "HOL-Library.Char_ord"
begin

text \<open>
  \<open>app/configs/__init__.py\<close> and the runtime half of \<open>app/configs/registry_loader.py\<close>: a
  session's configuration is resolved from a company document and the industry template it
  names.  What reading a Firestore document gives is an input; \<open>fmt\<close> is \<open>str()\<close> of a value
  and \<open>digest\<close> the SHA-256 hex digest of the canonical JSON text of a value.
\<close>

section \<open>Shared configuration helpers\<close>

definition MIN_SUPPORTED_SCHEMA_VERSION :: int where "MIN_SUPPORTED_SCHEMA_VERSION = 1"
definition MAX_SUPPORTED_SCHEMA_VERSION :: int where "MAX_SUPPORTED_SCHEMA_VERSION = 1"

definition config_sanitize_log :: "string option \<Rightarrow> string" where
  "config_sanitize_log value =
     (case value of None \<Rightarrow> ''<none>''
      | Some s \<Rightarrow> take 200 (filter (\<lambda>c. \<not> (code c < 32 \<or> code c = 127)) s))"

definition quoted :: "string \<Rightarrow> string" where
  "quoted s = [CHR 0x27] @ s @ [CHR 0x27]"

text \<open>\<open>env_flag\<close>: the variable's value, or the default when it is not set.\<close>

definition config_flag :: "string option \<Rightarrow> string \<Rightarrow> bool" where
  "config_flag value dflt =
     (lower (strip (case value of None \<Rightarrow> dflt | Some s \<Rightarrow> s)) \<in> {''1'', ''true'', ''yes'', ''on''})"

definition registry_enabled :: "string option \<Rightarrow> bool" where
  "registry_enabled value = config_flag value ''true''"

datatype registry_error =
    SchemaVersionUnsupported string
  | RegistryDataMissing string
  | RegistryMismatch string
  | NotADictionary

fun validate_registry_schema_version ::
  "(py \<Rightarrow> string) \<Rightarrow> py \<Rightarrow> string \<Rightarrow> string \<Rightarrow> registry_error + int" where
  "validate_registry_schema_version fmt (PDict d) kind identifier =
     (let who = kind @ '' '' @ quoted (config_sanitize_log (Some identifier)); v = py_get d ''schema_version'' in
      case as_int v of
        None \<Rightarrow> Inl (SchemaVersionUnsupported (who @ '' missing integer schema_version''))
      | Some n \<Rightarrow>
          if n < MIN_SUPPORTED_SCHEMA_VERSION \<or> n > MAX_SUPPORTED_SCHEMA_VERSION
          then Inl (SchemaVersionUnsupported (who @ '' has unsupported schema_version='' @ fmt v @
            '' (supported '' @ int_str MIN_SUPPORTED_SCHEMA_VERSION @ ''-'' @ int_str MAX_SUPPORTED_SCHEMA_VERSION @ '')''))
          else Inr n)"
| "validate_registry_schema_version fmt _ kind identifier =
     Inl (SchemaVersionUnsupported (kind @ '' '' @ quoted (config_sanitize_log (Some identifier)) @ '' is not a dict''))"

section \<open>Reading documents\<close>

text \<open>Outcome of reading a document: an exception, no document, or its content.\<close>

datatype doc_read = ReadFails | NoDocument | Document py

record registry_db =
  template_doc :: "string \<Rightarrow> doc_read"
  company_doc :: "string \<Rightarrow> string \<Rightarrow> doc_read"

definition checked_document ::
  "(py \<Rightarrow> string) \<Rightarrow> string \<Rightarrow> string \<Rightarrow> string \<Rightarrow> doc_read \<Rightarrow> registry_error + py" where
  "checked_document fmt kind id_key dflt r =
     (case r of
        Document (PDict d) \<Rightarrow>
          (case validate_registry_schema_version fmt (PDict d) kind (fmt (py_or (py_get d id_key) (PStr dflt))) of
             Inl e \<Rightarrow> Inl e | Inr _ \<Rightarrow> Inr (PDict d))
      | Document v \<Rightarrow> Inr v
      | _ \<Rightarrow> Inr PNone)"

definition load_industry_template ::
  "(py \<Rightarrow> string) \<Rightarrow> registry_db option \<Rightarrow> string \<Rightarrow> registry_error + py" where
  "load_industry_template fmt db template_id =
     (case db of None \<Rightarrow> Inr PNone
      | Some db \<Rightarrow> checked_document fmt ''industry template'' ''id'' template_id (template_doc db template_id))"

definition load_tenant_company ::
  "(py \<Rightarrow> string) \<Rightarrow> registry_db option \<Rightarrow> string \<Rightarrow> string \<Rightarrow> registry_error + py" where
  "load_tenant_company fmt db tenant_id company_id =
     (case db of None \<Rightarrow> Inr PNone
      | Some db \<Rightarrow> checked_document fmt ''company'' ''company_id'' company_id (company_doc db tenant_id company_id))"

section \<open>Reading fields\<close>

fun string_or_default :: "py \<Rightarrow> string \<Rightarrow> string" where
  "string_or_default (PStr s) dflt = (if strip s \<noteq> [] then strip s else dflt)"
| "string_or_default _ dflt = dflt"

fun dict_or_empty :: "py \<Rightarrow> py_record" where
  "dict_or_empty (PDict d) = d"
| "dict_or_empty _ = []"

fun list_of_strings :: "py \<Rightarrow> string list" where
  "list_of_strings (PList xs) = filter (\<lambda>s. s \<noteq> []) (stripped_texts xs)"
| "list_of_strings _ = []"

text \<open>\<open>str.title\<close>: a letter after a letter in lower case, any other in upper case.\<close>

fun title_from :: "bool \<Rightarrow> string \<Rightarrow> string" where
  "title_from _ [] = []"
| "title_from in_word (c # cs) = (if in_word then lower_char c else upper_char c) # title_from (is_alpha c) cs"

definition title_case :: "string \<Rightarrow> string" where
  "title_case s = title_from False s"

section \<open>Registry version\<close>

function (sequential) stable_payload :: "py \<Rightarrow> py" where
  "stable_payload (PDict d) = PDict (map (\<lambda>kv. (fst kv, stable_payload (snd kv))) (sort_key fst d))"
| "stable_payload (PList xs) = PList (map stable_payload xs)"
| "stable_payload v = v"
  by pat_completeness auto
termination
proof (relation "measure size")
  fix d :: "(string \<times> py) list" and kv :: "string \<times> py"
  assume "kv \<in> set (sort_key fst d)"
  then have "kv \<in> set d" by simp
  then show "(snd kv, PDict d) \<in> measure size"
    by (induction d) (auto simp: less_Suc_eq_le)
next
  fix xs :: "py list" and v :: py
  assume "v \<in> set xs"
  then show "(v, PList xs) \<in> measure size"
    by (induction xs) auto
qed simp

definition compute_registry_version :: "(py \<Rightarrow> string) \<Rightarrow> py_record \<Rightarrow> py_record \<Rightarrow> string" where
  "compute_registry_version digest template company =
     ''v1-'' @ take 8 (digest (PDict [(''template'', stable_payload (PDict template)), (''company'', stable_payload (PDict company))]))"

section \<open>Resolution\<close>

definition add_capability :: "string \<Rightarrow> string list \<Rightarrow> string list" where
  "add_capability cap base = (if cap \<in> set base then base else base @ [cap])"

definition resolve_capabilities :: "py_record \<Rightarrow> py_record \<Rightarrow> string list" where
  "resolve_capabilities template company =
     (let base = list_of_strings (py_get template ''capabilities'') in
      case dget_default company ''capability_overrides'' (PDict []) of
        PDict overrides \<Rightarrow>
          fold remove1 (list_of_strings (py_get overrides ''remove''))
            (fold add_capability (list_of_strings (py_get overrides ''add'')) base)
      | _ \<Rightarrow> base)"

record resolved_registry_config =
  rc_tenant_id :: string
  rc_company_id :: string
  rc_industry_template_id :: string
  rc_template_category :: string
  rc_template_label :: string
  rc_capabilities :: "string list"
  rc_voice :: string
  rc_theme :: py_record
  rc_greeting :: string
  rc_connector_manifest :: py_record
  rc_registry_version :: string
  rc_enabled_agents :: "string list option"

definition merge_config ::
  "(py \<Rightarrow> string) \<Rightarrow> string \<Rightarrow> string \<Rightarrow> string \<Rightarrow> py_record \<Rightarrow> py_record \<Rightarrow> resolved_registry_config" where
  "merge_config digest tenant_id company_id template_id template company =
     (let ui_overrides = dict_or_empty (py_get company ''ui_overrides'');
          capabilities = resolve_capabilities template company in
      \<lparr>rc_tenant_id = tenant_id, rc_company_id = company_id, rc_industry_template_id = template_id,
       rc_template_category = string_or_default (py_get template ''category'') template_id,
       rc_template_label = string_or_default (py_get template ''label'')
         (string_or_default (py_get template ''name'') (title_case template_id)),
       rc_capabilities = capabilities,
       rc_voice = string_or_default (py_get ui_overrides ''voice'')
         (string_or_default (py_get template ''default_voice'') ''Aoede''),
       rc_theme = dict_or_empty (py_get template ''theme''),
       rc_greeting = string_or_default (py_get template ''greeting_policy'') [],
       rc_connector_manifest = dict_or_empty (py_get company ''connectors''),
       rc_registry_version = compute_registry_version digest template company,
       rc_enabled_agents = Some (resolve_enabled_agents_from_template template (PList (map PStr capabilities)))\<rparr>)"

definition resolve_template ::
  "(py \<Rightarrow> string) \<Rightarrow> (py \<Rightarrow> string) \<Rightarrow> registry_db \<Rightarrow> string \<Rightarrow> string \<Rightarrow> py_record \<Rightarrow> registry_error + resolved_registry_config option" where
  "resolve_template fmt digest db tenant_id company_id company =
     (let template_id = string_or_default (py_get company ''industry_template_id'') [] in
      if template_id = [] then Inr None
      else case load_industry_template fmt (Some db) template_id of
        Inl e \<Rightarrow> Inl e
      | Inr PNone \<Rightarrow> Inr None
      | Inr (PDict template) \<Rightarrow>
          if dget_default template ''id'' (PStr template_id) \<noteq> PStr template_id
          then Inl (RegistryMismatch (''Company '' @ company_id @ '' references template '' @ quoted template_id @
            '' but loaded template has id '' @ quoted (fmt (py_get template ''id''))))
          else Inr (Some (merge_config digest tenant_id company_id template_id template company))
      | Inr _ \<Rightarrow> Inl NotADictionary)"

definition resolve_registry_config ::
  "(py \<Rightarrow> string) \<Rightarrow> (py \<Rightarrow> string) \<Rightarrow> registry_db option \<Rightarrow> string \<Rightarrow> string \<Rightarrow> registry_error + resolved_registry_config option" where
  "resolve_registry_config fmt digest db tenant_id company_id =
     (case db of
        None \<Rightarrow> Inr None
      | Some d \<Rightarrow>
          (case load_tenant_company fmt db tenant_id company_id of
             Inl e \<Rightarrow> Inl e
           | Inr PNone \<Rightarrow> Inr None
           | Inr (PDict company) \<Rightarrow> resolve_template fmt digest d tenant_id company_id company
           | Inr _ \<Rightarrow> Inl NotADictionary))"

definition texts :: "string list \<Rightarrow> py" where
  "texts xs = PList (map PStr xs)"

definition build_session_state_from_registry :: "resolved_registry_config \<Rightarrow> py_record" where
  "build_session_state_from_registry config =
     [(''app:industry'', PStr (rc_template_category config)),
      (''app:industry_config'', PDict [(''name'', PStr (rc_template_label config)),
         (''voice'', PStr (rc_voice config)), (''greeting'', PStr (rc_greeting config))]),
      (''app:company_id'', PStr (rc_company_id config)),
      (''app:voice'', PStr (rc_voice config)),
      (''app:greeting'', PStr (rc_greeting config)),
      (''app:tenant_id'', PStr (rc_tenant_id config)),
      (''app:industry_template_id'', PStr (rc_industry_template_id config)),
      (''app:capabilities'', texts (rc_capabilities config)),
      (''app:enabled_agents'', texts (case rc_enabled_agents config of None \<Rightarrow> [] | Some xs \<Rightarrow> xs)),
      (''app:ui_theme'', PDict (rc_theme config)),
      (''app:connector_manifest'', PDict (rc_connector_manifest config)),
      (''app:registry_version'', PStr (rc_registry_version config))]"

end
