(* ===== verification/Registry_Session.thy ===== *)
theory Registry_Session
  imports Registry_Config Agent_Isolation "HOL-Library.Multiset"
begin

text \<open>
  What the resolved configuration promises to the agents of a session: the types of the
  session state, its agents and its capabilities.
\<close>

section \<open>Capabilities\<close>

lemma set_fold_add: "set (fold add_capability ys base) = set base \<union> set ys"
  by (induction ys arbitrary: base) (auto simp: add_capability_def)

lemma distinct_fold_add: "distinct base \<Longrightarrow> distinct (fold add_capability ys base)"
  by (induction ys arbitrary: base) (auto simp: add_capability_def)

lemma fold_remove1:
  "distinct xs \<Longrightarrow> set (fold remove1 ys xs) = set xs - set ys \<and> distinct (fold remove1 ys xs)"
  by (induction ys arbitrary: xs) auto

lemma count_fold_add: "count_list base c \<le> count_list (fold add_capability ys base) c"
proof (induction ys arbitrary: base)
  case (Cons y ys)
  have "count_list base c \<le> count_list (add_capability y base) c" by (simp add: add_capability_def)
  with Cons.IH [of "add_capability y base"] show ?case by simp
qed simp

lemma count_fold_remove1: "count_list xs c - count_list ys c \<le> count_list (fold remove1 ys xs) c"
proof (induction ys arbitrary: xs)
  case (Cons y ys)
  have "count_list (remove1 y xs) c = count_list xs c - (if y = c then 1 else 0)"
    by (induction xs) (auto simp: count_list_0_iff)
  with Cons.IH [of "remove1 y xs"] show ?case by (auto split: if_splits)
qed simp

text \<open>
  A session's capabilities are the template's, with the company's additions and without its
  removals, each once: a removed capability is gone also when the company adds it as well.
\<close>

theorem capabilities_exact:
  assumes "dget company ''capability_overrides'' = Some (PDict overrides)"
    and "distinct (list_of_strings (py_get template ''capabilities''))"
  shows "set (resolve_capabilities template company) =
      set (list_of_strings (py_get template ''capabilities'')) \<union> set (list_of_strings (py_get overrides ''add''))
        - set (list_of_strings (py_get overrides ''remove''))
    \<and> distinct (resolve_capabilities template company)"
  using assms fold_remove1 [OF distinct_fold_add]
  by (simp add: resolve_capabilities_def dget_default_def set_fold_add)

text \<open>
  A capability the template lists more often than the company removes it stays: the list is
  not made free of repetitions and \<open>list.remove\<close> takes the first occurrence only.
\<close>

theorem repeated_capability_survives:
  assumes "dget company ''capability_overrides'' = Some (PDict overrides)"
    and "count_list (list_of_strings (py_get overrides ''remove'')) c < count_list (list_of_strings (py_get template ''capabilities'')) c"
  shows "c \<in> set (resolve_capabilities template company)"
proof -
  let ?base = "list_of_strings (py_get template ''capabilities'')" and ?rem = "list_of_strings (py_get overrides ''remove'')"
  let ?added = "fold add_capability (list_of_strings (py_get overrides ''add'')) ?base"
  have "0 < count_list (fold remove1 ?rem ?added) c"
    using count_fold_remove1 [of ?added c ?rem] count_fold_add [of ?base c "list_of_strings (py_get overrides ''add'')"] assms(2)
    by linarith
  then have "c \<in> set (fold remove1 ?rem ?added)" using count_list_0_iff by (metis less_irrefl)
  then show ?thesis using assms(1) by (simp add: resolve_capabilities_def dget_default_def)
qed

definition sample_template :: py_record where
  "sample_template = [(''id'', PStr ''hotel''), (''schema_version'', PInt 1),
     (''capabilities'', PList [PStr ''policy_qa'', PStr '' booking_reservations'', PStr ''policy_qa''])]"

definition sample_company :: py_record where
  "sample_company = [(''industry_template_id'', PStr ''hotel''), (''schema_version'', PInt 1),
     (''capability_overrides'', PDict [(''add'', PList [PStr ''outbound_messaging'']), (''remove'', PList [PStr ''policy_qa''])])]"

theorem capabilities_exact_witness:
  "set (resolve_capabilities [(''capabilities'', PList [PStr ''a'', PStr ''b''])] sample_company) = {''a'', ''b'', ''outbound_messaging''}"
proof -
  have "dget sample_company ''capability_overrides'' =
      Some (PDict [(''add'', PList [PStr ''outbound_messaging'']), (''remove'', PList [PStr ''policy_qa''])])"
    by (simp add: sample_company_def)
  moreover have "distinct (list_of_strings (py_get [(''capabilities'', PList [PStr ''a'', PStr ''b''])] ''capabilities''))"
    by code_simp
  ultimately have "set (resolve_capabilities [(''capabilities'', PList [PStr ''a'', PStr ''b''])] sample_company) =
      set (list_of_strings (py_get [(''capabilities'', PList [PStr ''a'', PStr ''b''])] ''capabilities''))
        \<union> set (list_of_strings (py_get [(''add'', PList [PStr ''outbound_messaging'']), (''remove'', PList [PStr ''policy_qa''])] ''add''))
        - set (list_of_strings (py_get [(''add'', PList [PStr ''outbound_messaging'']), (''remove'', PList [PStr ''policy_qa''])] ''remove''))"
    by (rule capabilities_exact [THEN conjunct1])
  also have "\<dots> = {''a'', ''b'', ''outbound_messaging''}" by code_simp
  finally show ?thesis .
qed

theorem repeated_capability_survives_witness:
  "''policy_qa'' \<in> set (resolve_capabilities sample_template sample_company)"
  by (rule repeated_capability_survives
      [where overrides = "[(''add'', PList [PStr ''outbound_messaging'']), (''remove'', PList [PStr ''policy_qa''])]"])
    code_simp+

section \<open>The session state\<close>

text \<open>What the readers of the state expect of each key.\<close>

fun is_texts :: "py \<Rightarrow> bool" where
  "is_texts (PList xs) = list_all is_text xs"
| "is_texts _ = False"

fun is_record :: "py \<Rightarrow> bool" where
  "is_record (PDict d) = True"
| "is_record _ = False"

definition session_state_schema :: "(string \<times> (py \<Rightarrow> bool)) list" where
  "session_state_schema =
     map (\<lambda>k. (k, is_text)) [''app:industry'', ''app:company_id'', ''app:voice'', ''app:greeting'', ''app:tenant_id'',
       ''app:industry_template_id'', ''app:registry_version'']
     @ map (\<lambda>k. (k, is_texts)) [''app:capabilities'', ''app:enabled_agents'']
     @ map (\<lambda>k. (k, is_record)) [''app:industry_config'', ''app:ui_theme'', ''app:connector_manifest'']"

definition well_typed_state :: "py_record \<Rightarrow> bool" where
  "well_typed_state st \<longleftrightarrow>
     list_all (\<lambda>(k, ok). case dget st k of None \<Rightarrow> False | Some v \<Rightarrow> ok v) session_state_schema"

lemma is_texts_texts [simp]: "is_texts (texts xs)"
  by (simp add: texts_def list_all_iff)

lemma session_state_typed: "well_typed_state (build_session_state_from_registry config)"
  by (simp add: well_typed_state_def session_state_schema_def build_session_state_from_registry_def)

lemma stripped_texts_map: "stripped_texts (map PStr xs) = map strip xs"
  by (induction xs) simp_all

lemma known_stripped: "a \<in> set KNOWN_SUB_AGENT_NAMES \<Longrightarrow> strip a = a"
proof -
  have "list_all (\<lambda>a. strip a = a) KNOWN_SUB_AGENT_NAMES" by code_simp
  then show "a \<in> set KNOWN_SUB_AGENT_NAMES \<Longrightarrow> strip a = a" by (simp add: list_all_iff)
qed

lemma template_agents_known: "set (resolve_enabled_agents_from_template template caps) \<subseteq> set KNOWN_SUB_AGENT_NAMES"
  using normalize_known infer_known
  by (auto simp: resolve_enabled_agents_from_template_def KNOWN_SUB_AGENT_NAMES_def split: option.splits)

lemma resolved_cases:
  assumes "resolve_registry_config fmt digest (Some db) t c = Inr (Some cfg)"
  obtains company template template_id where
    "load_tenant_company fmt (Some db) t c = Inr (PDict company)"
    "template_id = string_or_default (py_get company ''industry_template_id'') []" "template_id \<noteq> []"
    "load_industry_template fmt (Some db) template_id = Inr (PDict template)"
    "cfg = merge_config digest t c template_id template company"
  using assms
  by (auto simp: resolve_registry_config_def resolve_template_def Let_def split: sum.splits py.splits if_splits)

text \<open>Normalising an already normalised list of known agents changes nothing.\<close>

lemma normalize_texts:
  assumes "set xs \<subseteq> set KNOWN_SUB_AGENT_NAMES"
  shows "normalize_enabled_agents (texts xs) = Some xs"
proof -
  have "map strip xs = xs" using assms known_stripped by (intro map_idI) blast
  then show ?thesis using assms by (simp add: texts_def stripped_texts_map subset_iff)
qed

lemma state_agents:
  assumes "rc_enabled_agents cfg = Some xs" and "set xs \<subseteq> set KNOWN_SUB_AGENT_NAMES"
  shows "resolve_enabled_agents_from_state (build_session_state_from_registry cfg) = Some xs"
proof -
  have "py_get (build_session_state_from_registry cfg) ''app:enabled_agents'' = texts xs"
    by (simp add: build_session_state_from_registry_def py_get_def dget_default_def assms(1))
  then show ?thesis using normalize_texts [OF assms(2)] by (simp add: resolve_enabled_agents_from_state_def)
qed

lemma state_capabilities:
  "py_get (build_session_state_from_registry cfg) ''app:capabilities'' = texts (rc_capabilities cfg)"
  by (simp add: build_session_state_from_registry_def py_get_def dget_default_def)

text \<open>
  C16 The registry governs the session: with the state built from a resolved configuration, the
  agents that may start are the router and exactly the agents resolved from the template, and
  a tool that needs a capability runs exactly when the resolved capabilities have it.
\<close>

theorem registry_governs_session:
  assumes "resolve_registry_config fmt digest (Some db) t c = Inr (Some cfg)"
    and "rc_enabled_agents cfg = Some agents"
  shows "(snd (before_agent_isolation_guard agent (build_session_state_from_registry cfg)) = None \<longleftrightarrow>
      agent = ''ekaette_router'' \<or> agent \<in> set agents)
    \<and> before_tool_capability_guard tool (build_session_state_from_registry cfg) =
      (case dget TOOL_CAPABILITY_MAP tool of
         None \<Rightarrow> None
       | Some required \<Rightarrow> if required \<in> set (rc_capabilities cfg) then None
           else Some [(''error'', PStr ''capability_not_enabled''), (''tool'', PStr tool), (''required'', PStr required)])"
proof -
  obtain company template template_id where cfg: "cfg = merge_config digest t c template_id template company"
    using resolved_cases [OF assms(1)] by blast
  then have "set agents \<subseteq> set KNOWN_SUB_AGENT_NAMES"
    using assms(2) template_agents_known by (auto simp: merge_config_def Let_def)
  then have "resolve_enabled_agents_from_state (build_session_state_from_registry cfg) = Some agents"
    using state_agents [OF assms(2)] by blast
  then show ?thesis
    by (auto simp: isolation_guard_iff agent_allowed_def before_tool_capability_guard_def state_capabilities
      texts_def image_iff split: option.splits)
qed

text \<open>
  Every resolved configuration gives a session state of the types its readers expect, with
  a voice, an industry, a template and a name that are not empty, whatever the documents hold.
\<close>

theorem session_state_well_typed:
  assumes "resolve_registry_config fmt digest (Some db) t c = Inr (Some cfg)"
  shows "well_typed_state (build_session_state_from_registry cfg) \<and>
    rc_voice cfg \<noteq> [] \<and> rc_template_category cfg \<noteq> [] \<and> rc_industry_template_id cfg \<noteq> [] \<and> rc_template_label cfg \<noteq> []"
proof -
  have ne: "string_or_default v d \<noteq> []" if "d \<noteq> []" for v d
    using that by (cases "(v, d)" rule: string_or_default.cases) simp_all
  obtain company template template_id where "template_id \<noteq> []"
      and cfg: "cfg = merge_config digest t c template_id template company"
    using resolved_cases [OF assms(1)] by blast
  moreover from this have "title_case template_id \<noteq> []" by (cases template_id) (simp_all add: title_case_def)
  ultimately show ?thesis
    by (simp add: merge_config_def Let_def ne session_state_typed)
qed

definition sample_db :: registry_db where
  "sample_db = \<lparr>template_doc = (\<lambda>i. if i = ''hotel'' then Document (PDict sample_template) else NoDocument),
     company_doc = (\<lambda>t c. if (t, c) = (''t'', ''c'') then Document (PDict sample_company) else NoDocument)\<rparr>"

definition sample_config :: resolved_registry_config where
  "sample_config = merge_config (\<lambda>_. ''0123456789'') ''t'' ''c'' ''hotel'' sample_template sample_company"

lemma sample_resolves:
  "resolve_registry_config plain_text (\<lambda>_. ''0123456789'') (Some sample_db) ''t'' ''c'' = Inr (Some sample_config)"
  by code_simp

theorem registry_governs_session_witness:
  "snd (before_agent_isolation_guard ''valuation_agent'' (build_session_state_from_registry sample_config)) \<noteq> None"
proof -
  have "rc_enabled_agents sample_config = Some [''support_agent'', ''booking_agent'']" by code_simp
  from registry_governs_session [OF sample_resolves this, of "''valuation_agent''"] show ?thesis by auto
qed

theorem session_state_well_typed_witness: "well_typed_state (build_session_state_from_registry sample_config)"
  using session_state_well_typed [OF sample_resolves] by blast

section \<open>Registry version\<close>

text \<open>The version does not depend on the order in which a document lists its fields.\<close>

lemma stable_payload_order:
  assumes "distinct (map fst d)" and "mset d = mset d'"
  shows "stable_payload (PDict d) = stable_payload (PDict d')"
proof -
  have "inj_on fst (set d)" using assms(1) by (simp add: distinct_map)
  then have "sort_key fst d = sort_key fst d'"
    using assms(2) by (intro sort_key_inj_key_eq) simp_all
  then show ?thesis by simp
qed

lemma registry_version_order:
  assumes "distinct (map fst company)" and "mset company = mset company'"
    and "distinct (map fst template)" and "mset template = mset template'"
  shows "compute_registry_version digest template company = compute_registry_version digest template' company'"
  using stable_payload_order [OF assms(1,2)] stable_payload_order [OF assms(3,4)]
  by (simp add: compute_registry_version_def del: stable_payload.simps)

end
