(* ===== verification/Local_Configs.thy ===== *)
theory Local_Configs
  imports Py_Records
begin

text \<open>
  The built-in configurations of \<open>app/configs/\<close> for running without the registry: industries,
  companies and their knowledge, as the modules write them.
\<close>

definition LOCAL_INDUSTRY_THEMES :: "(string, py_record) dict" where
  "LOCAL_INDUSTRY_THEMES =
     [(''electronics'', [(''accent'', PStr ''oklch(74% 0.21 158)''), (''accentSoft'',
       PStr ''oklch(74% 0.21 158 / 0.15)''), (''title'', PStr ''Electronics Trade Desk''), (''hint'',
       PStr ''Inspect. Value. Negotiate. Book pickup.'')]),
      (''hotel'', [(''accent'', PStr ''oklch(78% 0.15 55)''), (''accentSoft'',
       PStr ''oklch(78% 0.15 55 / 0.15)''), (''title'', PStr ''Hospitality Concierge''), (''hint'',
       PStr ''Real-time booking and guest support voice assistant.'')]),
      (''automotive'', [(''accent'', PStr ''oklch(71% 0.18 240)''), (''accentSoft'',
       PStr ''oklch(71% 0.18 240 / 0.15)''), (''title'', PStr ''Automotive Service Lane''), (''hint'',
       PStr ''Trade-ins, inspections, parts and service scheduling.'')]),
      (''fashion'', [(''accent'', PStr ''oklch(74% 0.2 20)''), (''accentSoft'',
       PStr ''oklch(74% 0.2 20 / 0.15)''), (''title'', PStr ''Fashion Client Studio''), (''hint'',
       PStr ''Catalog recommendations and consultation workflows.'')])]"

definition LOCAL_INDUSTRY_CAPABILITIES :: "(string, string list) dict" where
  "LOCAL_INDUSTRY_CAPABILITIES =
     [(''electronics'', [''catalog_lookup'', ''valuation_tradein'', ''booking_reservations'',
       ''outbound_messaging'']),
      (''hotel'', [''booking_reservations'', ''policy_qa'', ''outbound_messaging'']),
      (''automotive'', [''booking_reservations'', ''valuation_tradein'', ''catalog_lookup'',
       ''outbound_messaging'']),
      (''fashion'', [''catalog_lookup'', ''policy_qa'', ''outbound_messaging''])]"

definition LOCAL_INDUSTRY_COMPANY_MAP :: "(string, string) dict" where
  "LOCAL_INDUSTRY_COMPANY_MAP =
     [(''electronics'', ''ekaette-electronics''),
      (''hotel'', ''ekaette-hotel''),
      (''automotive'', ''ekaette-automotive''),
      (''fashion'', ''ekaette-fashion'')]"

definition DEFAULT_CONFIG :: "py_record" where
  "DEFAULT_CONFIG =
     [(''name'', PStr ''General''),
      (''voice'', PStr ''Aoede''),
      (''greeting'', PStr ''Hello! How can I help you today?'')]"

definition LOCAL_INDUSTRY_CONFIGS :: "(string, py_record) dict" where
  "LOCAL_INDUSTRY_CONFIGS =
     [(''electronics'', [(''name'', PStr ''Electronics & Gadgets''), (''voice'', PStr ''Aoede''),
       (''greeting'', PStr ''Welcome! I can help you with device trade-ins, swaps, and purchases.'')]),
      (''hotel'', [(''name'', PStr ''Hotels & Hospitality''), (''voice'', PStr ''Puck''),
       (''greeting'', PStr ''Good day! Welcome to our hotel. How can I make your stay perfect?'')]),
      (''automotive'', [(''name'', PStr ''Automotive''), (''voice'', PStr ''Charon''), (''greeting'',
       PStr ''Hello! Looking to buy, sell, or service a vehicle?'')]),
      (''fashion'', [(''name'', PStr ''Fashion & Retail''), (''voice'', PStr ''Kore''), (''greeting'',
       PStr ''Hey there! Let me help you find your perfect style.'')])]"

definition DEFAULT_COMPANY_PROFILE :: "py_record" where
  "DEFAULT_COMPANY_PROFILE =
     [(''company_id'', PStr ''default''),
      (''name'', PStr ''Demo Company''),
      (''overview'', PStr ''General customer support profile.''),
      (''facts'', PDict []),
      (''links'', PList []),
      (''system_connectors'', PDict [])]"

definition LOCAL_COMPANY_PROFILES :: "(string, py_record) dict" where
  "LOCAL_COMPANY_PROFILES =
     [(''ekaette-electronics'', [(''name'', PStr ''Ekaette Devices Hub''), (''overview'',
       PStr ''Trade-in focused electronics store serving Lagos and Abuja.''), (''facts'',
       PDict [(''primary_location'', PStr ''Lagos - Ikeja''), (''support_hours'',
       PStr ''09:00-19:00''), (''pickup_window'', PStr ''10:00-18:00'')]), (''links'',
       PList [PStr ''https://example.com/electronics'',
       PStr ''https://example.com/electronics/policies'']), (''system_connectors'', PDict [(''crm'',
       PDict [(''provider'', PStr ''mock''), (''mock_actions'', PDict [(''lookup_customer'',
       PDict [(''loyalty_tier'', PStr ''silver'')])])])])]),
      (''ekaette-hotel'', [(''name'', PStr ''Ekaette Grand Hotel''), (''overview'',
       PStr ''Business and leisure hotel with concierge and airport pickup.''), (''facts'',
       PDict [(''rooms'', PInt 120), (''check_in_time'', PStr ''14:00''), (''check_out_time'',
       PStr ''12:00'')]), (''links'', PList [PStr ''https://example.com/hotel'',
       PStr ''https://example.com/hotel/policies'']), (''system_connectors'', PDict [(''pms'',
       PDict [(''provider'', PStr ''mock''), (''mock_actions'', PDict [(''lookup_booking'',
       PDict [(''status'', PStr ''confirmed''), (''room_type'', PStr ''Deluxe'')])])])])]),
      (''ekaette-automotive'', [(''name'', PStr ''Ekaette Auto Exchange''), (''overview'',
       PStr ''Vehicle trade, inspection, and maintenance booking center.''), (''facts'',
       PDict [(''inspection_slots_per_day'', PInt 24), (''service_hours'', PStr ''08:00-18:00''),
       (''pickup_service'', PBool True)]), (''links'', PList [PStr ''https://example.com/automotive'',
       PStr ''https://example.com/automotive/inspection'']), (''system_connectors'', PDict [(''dms'',
       PDict [(''provider'', PStr ''mock''), (''mock_actions'', PDict [(''lookup_vehicle'',
       PDict [(''status'', PStr ''available'')])])])])]),
      (''ekaette-fashion'', [(''name'', PStr ''Ekaette Style House''), (''overview'',
       PStr ''Retail fashion outlet with in-store and virtual styling sessions.''), (''facts'',
       PDict [(''branches'', PInt 3), (''same_day_delivery_cutoff'', PStr ''15:00''),
       (''return_window_days'', PInt 14)]), (''links'', PList [PStr ''https://example.com/fashion'',
       PStr ''https://example.com/fashion/returns'']), (''system_connectors'', PDict [(''erp'',
       PDict [(''provider'', PStr ''mock''), (''mock_actions'', PDict [(''lookup_order'',
       PDict [(''status'', PStr ''processing'')])])])])]),
      (''acme-hotel'', [(''name'', PStr ''Acme Grand Hotel''), (''overview'',
       PStr ''Luxury hospitality with smart concierge service.''), (''facts'', PDict [(''rooms'',
       PInt 120), (''check_in_time'', PStr ''14:00''), (''check_out_time'', PStr ''12:00'')]),
       (''links'', PList [PStr ''https://example.com/rooms'', PStr ''https://example.com/policies'']),
       (''system_connectors'', PDict [(''crm'', PDict [(''provider'', PStr ''mock''),
       (''mock_actions'', PDict [(''lookup_guest'', PDict [(''vip'', PBool False), (''loyalty_tier'',
       PStr ''standard'')])])])])])]"

definition DEFAULT_KNOWLEDGE_ENTRIES :: "py_record list" where
  "DEFAULT_KNOWLEDGE_ENTRIES =
     [[(''id'', PStr ''kb-default-1''), (''title'', PStr ''General service policy''), (''text'',
       PStr ''Always verify customer details before confirming a booking or order.''), (''tags'',
       PList [PStr ''policy'']), (''source'', PStr ''local_fallback'')]]"

definition LOCAL_COMPANY_KNOWLEDGE :: "(string, py_record list) dict" where
  "LOCAL_COMPANY_KNOWLEDGE =
     [(''ekaette-electronics'', [[(''id'', PStr ''kb-elec-hours''), (''title'',
       PStr ''Support hours''), (''text'',
       PStr ''Customer support is available daily from 9 AM to 7 PM.''), (''tags'',
       PList [PStr ''support'', PStr ''hours'']), (''source'', PStr ''local_fallback'')], [(''id'',
       PStr ''kb-elec-pickup''), (''title'', PStr ''Pickup policy''), (''text'',
       PStr ''Same-day pickup is available for confirmed bookings made before 2 PM.''), (''tags'',
       PList [PStr ''pickup'', PStr ''policy'']), (''source'', PStr ''local_fallback'')]]),
      (''ekaette-hotel'', [[(''id'', PStr ''kb-hotel-checkout''), (''title'',
       PStr ''Late checkout policy''), (''text'',
       PStr ''Late checkout until 1 PM is available for premium guests.''), (''tags'',
       PList [PStr ''checkout'', PStr ''policy'']), (''source'', PStr ''local_fallback'')], [(''id'',
       PStr ''kb-hotel-breakfast''), (''title'', PStr ''Breakfast schedule''), (''text'',
       PStr ''Breakfast is served from 6:30 AM to 10:30 AM daily.''), (''tags'',
       PList [PStr ''breakfast'', PStr ''amenities'']), (''source'', PStr ''local_fallback'')]]),
      (''ekaette-automotive'', [[(''id'', PStr ''kb-auto-inspection''), (''title'',
       PStr ''Inspection checklist''), (''text'',
       PStr ''Vehicle inspections cover engine, brakes, tires, electronics, and body condition.''),
       (''tags'', PList [PStr ''inspection'', PStr ''service'']), (''source'',
       PStr ''local_fallback'')], [(''id'', PStr ''kb-auto-finance''), (''title'',
       PStr ''Financing support''), (''text'',
       PStr ''Financing options are available through partner banks for qualified buyers.''),
       (''tags'', PList [PStr ''finance'', PStr ''sales'']), (''source'', PStr ''local_fallback'')]]),
      (''ekaette-fashion'', [[(''id'', PStr ''kb-fashion-returns''), (''title'',
       PStr ''Return policy''), (''text'',
       PStr ''Returns are accepted within 14 days for unworn items with tags attached.''), (''tags'',
       PList [PStr ''returns'', PStr ''policy'']), (''source'', PStr ''local_fallback'')], [(''id'',
       PStr ''kb-fashion-sizing''), (''title'', PStr ''Sizing assistance''), (''text'',
       PStr ''Virtual stylists can help with sizing and fit recommendations over chat.''), (''tags'',
       PList [PStr ''sizing'', PStr ''styling'']), (''source'', PStr ''local_fallback'')]]),
      (''acme-hotel'', [[(''id'', PStr ''kb-acme-checkout''), (''title'',
       PStr ''Late checkout policy''), (''text'',
       PStr ''Late checkout is available until 1 PM for premium guests.''), (''tags'',
       PList [PStr ''checkout'', PStr ''policy'']), (''source'', PStr ''local_fallback'')]])]"

end
