(* ===== verification/Onboarding.thy ===== *)
theory Onboarding
  imports Registry_Config Local_Configs
begin

text \<open>
  The onboarding half of \<open>app/configs/registry_loader.py\<close>: the templates and companies the
  browser offers, from the registry or from the built-in tables.  A query gives the documents
  with their identifiers, or raises (\<open>None\<close>).
\<close>

type_synonym query_docs = "(string \<times> py) list option"

record registry_queries =
  template_query :: query_docs
  company_query :: "string \<Rightarrow> query_docs"

record onboarding =
  ob_tenant :: string
  ob_templates :: "py_record list"
  ob_companies :: "py_record list"
  ob_defaults :: "string \<times> string"

section \<open>Normalising documents\<close>

definition template_status :: "py \<Rightarrow> string" where
  "template_status v =
     (let status = lower (string_or_default v ''active'')
      in if status \<in> {''active'', ''beta'', ''disabled''} then status else ''active'')"

definition template_fields :: "py_record \<Rightarrow> string \<Rightarrow> py_record" where
  "template_fields raw template_id =
     [(''id'', PStr template_id),
      (''label'', PStr (string_or_default (py_get raw ''label'')
         (string_or_default (py_get raw ''name'') (title_case template_id)))),
      (''category'', PStr (string_or_default (py_get raw ''category'') template_id)),
      (''description'', PStr (string_or_default (py_get raw ''description'') [])),
      (''defaultVoice'', PStr (string_or_default (py_get raw ''default_voice'') ''Aoede'')),
      (''theme'', PDict (dict_or_empty (py_get raw ''theme''))),
      (''capabilities'', texts (list_of_strings (py_get raw ''capabilities''))),
      (''status'', PStr (template_status (py_get raw ''status'')))]"

fun normalize_onboarding_template :: "(py \<Rightarrow> string) \<Rightarrow> py \<Rightarrow> string \<Rightarrow> registry_error + py_record option" where
  "normalize_onboarding_template fmt (PDict raw) doc_id =
     (case validate_registry_schema_version fmt (PDict raw) ''industry template'' doc_id of
        Inl e \<Rightarrow> Inl e
      | Inr _ \<Rightarrow>
          let template_id = lower (string_or_default (py_get raw ''id'') doc_id) in
          Inr (if template_id = [] then None else Some (template_fields raw template_id)))"
| "normalize_onboarding_template fmt _ doc_id = Inr None"

definition company_fields :: "py_record \<Rightarrow> string \<Rightarrow> py_record" where
  "company_fields raw company_id =
     [(''id'', PStr company_id),
      (''templateId'', PStr (string_or_default (py_get raw ''industry_template_id'') [])),
      (''displayName'', PStr (string_or_default (py_get raw ''display_name'')
         (string_or_default (py_get raw ''name'') company_id)))]"

fun normalize_onboarding_company :: "(py \<Rightarrow> string) \<Rightarrow> py \<Rightarrow> string \<Rightarrow> registry_error + py_record option" where
  "normalize_onboarding_company fmt (PDict raw) doc_id =
     (case validate_registry_schema_version fmt (PDict raw) ''company'' doc_id of
        Inl e \<Rightarrow> Inl e
      | Inr _ \<Rightarrow>
          let company_id = lower (string_or_default (py_get raw ''company_id'') doc_id) in
          Inr (if company_id = [] then None else Some (company_fields raw company_id)))"
| "normalize_onboarding_company fmt _ doc_id = Inr None"

text \<open>The identifier of a document; one bad schema version loses the whole answer (\<open>None\<close>).\<close>

definition document_id :: "(py \<Rightarrow> string) \<Rightarrow> string \<Rightarrow> string \<Rightarrow> py \<Rightarrow> string" where
  "document_id fmt id_key doc_id raw =
     (if doc_id \<noteq> [] then doc_id else case raw of PDict d \<Rightarrow> fmt (py_get d id_key) | _ \<Rightarrow> [])"

fun normalize_documents ::
  "(py \<Rightarrow> string) \<Rightarrow> string \<Rightarrow> (py \<Rightarrow> string \<Rightarrow> registry_error + py_record option) \<Rightarrow> (string \<times> py) list \<Rightarrow> py_record list option" where
  "normalize_documents fmt id_key normalise [] = Some []"
| "normalize_documents fmt id_key normalise ((doc_id, raw) # docs) =
     (case normalise raw (document_id fmt id_key doc_id raw) of
        Inl _ \<Rightarrow> None
      | Inr None \<Rightarrow> normalize_documents fmt id_key normalise docs
      | Inr (Some item) \<Rightarrow> map_option (\<lambda>items. item # items) (normalize_documents fmt id_key normalise docs))"

section \<open>Defaults and order\<close>

definition text_field :: "string \<Rightarrow> py_record \<Rightarrow> string" where
  "text_field k item = plain_text (py_get item k)"

definition registry_onboarding_defaults :: "py_record list \<Rightarrow> py_record list \<Rightarrow> string \<times> string" where
  "registry_onboarding_defaults templates companies =
     (if ''electronics'' \<in> set (map (text_field ''id'') templates) \<and>
         ''ekaette-electronics'' \<in> set (map (text_field ''id'') companies)
      then (''electronics'', ''ekaette-electronics'')
      else case templates of
        [] \<Rightarrow> (''electronics'', ''ekaette-electronics'')
      | t # _ \<Rightarrow>
          (text_field ''id'' t,
           case companies of [] \<Rightarrow> []
           | c # _ \<Rightarrow>
               (case find (\<lambda>c. text_field ''templateId'' c = text_field ''id'' t \<and> text_field ''id'' c \<noteq> []) companies of
                  Some own \<Rightarrow> text_field ''id'' own
                | None \<Rightarrow> text_field ''id'' c)))"

text \<open>The sort keys; a pair of a flag and a text is a list of two texts.\<close>

definition template_key :: "py_record \<Rightarrow> string list" where
  "template_key item =
     [if text_field ''status'' item = ''disabled'' then ''1'' else ''0'', lower (text_field ''label'' item)]"

definition company_key :: "py_record \<Rightarrow> string" where
  "company_key item = lower (text_field ''displayName'' item)"

definition build_onboarding_config_registry ::
  "(py \<Rightarrow> string) \<Rightarrow> registry_queries option \<Rightarrow> string \<Rightarrow> onboarding option" where
  "build_onboarding_config_registry fmt db tenant_id =
     (case db of
        None \<Rightarrow> None
      | Some db \<Rightarrow>
          (case Option.bind (template_query db) (normalize_documents fmt ''id'' (normalize_onboarding_template fmt)) of
             None \<Rightarrow> None
           | Some [] \<Rightarrow> None
           | Some templates \<Rightarrow>
               (case Option.bind (company_query db tenant_id)
                       (normalize_documents fmt ''company_id'' (normalize_onboarding_company fmt)) of
                  None \<Rightarrow> None
                | Some companies \<Rightarrow>
                    let templates = sort_key template_key templates; companies = sort_key company_key companies in
                    Some \<lparr>ob_tenant = tenant_id, ob_templates = templates, ob_companies = companies,
                      ob_defaults = registry_onboarding_defaults templates companies\<rparr>)))"

section \<open>Without the registry\<close>

definition local_theme :: "string \<Rightarrow> py_record \<Rightarrow> py_record" where
  "local_theme industry_id config =
     dget_default LOCAL_INDUSTRY_THEMES industry_id
       [(''accent'', PStr ''oklch(70% 0.15 200)''), (''accentSoft'', PStr ''oklch(70% 0.15 200 / 0.15)''),
        (''title'', dget_default config ''name'' (PStr (title_case industry_id))), (''hint'', PStr [])]"

definition local_template :: "string \<times> py_record \<Rightarrow> py_record" where
  "local_template = (\<lambda>(industry_id, config).
     let theme = local_theme industry_id config in
     [(''id'', PStr industry_id),
      (''label'', dget_default config ''name'' (PStr (title_case industry_id))),
      (''category'', PStr industry_id),
      (''description'', dget_default theme ''hint'' (PStr [])),
      (''defaultVoice'', dget_default config ''voice'' (PStr ''Aoede'')),
      (''theme'', PDict theme),
      (''capabilities'', texts (dget_default LOCAL_INDUSTRY_CAPABILITIES industry_id [])),
      (''status'', PStr ''active'')])"

definition local_company_template :: "string \<Rightarrow> string" where
  "local_company_template company_id =
     (case find (\<lambda>(_, co). co = company_id) LOCAL_INDUSTRY_COMPANY_MAP of
        Some (ind, _) \<Rightarrow> ind
      | None \<Rightarrow>
          (case find (\<lambda>(ind, _). contains ind company_id) LOCAL_INDUSTRY_CONFIGS of
             Some (ind, _) \<Rightarrow> ind | None \<Rightarrow> []))"

definition local_company :: "string \<times> py_record \<Rightarrow> py_record" where
  "local_company = (\<lambda>(company_id, profile).
     [(''id'', PStr company_id), (''templateId'', PStr (local_company_template company_id)),
      (''displayName'', dget_default profile ''name'' (PStr company_id))])"

definition build_onboarding_config_compat :: "string \<Rightarrow> onboarding" where
  "build_onboarding_config_compat tenant_id =
     \<lparr>ob_tenant = tenant_id, ob_templates = map local_template LOCAL_INDUSTRY_CONFIGS,
      ob_companies = map local_company LOCAL_COMPANY_PROFILES,
      ob_defaults = (''electronics'', ''ekaette-electronics'')\<rparr>"

definition build_onboarding_config ::
  "(py \<Rightarrow> string) \<Rightarrow> string option \<Rightarrow> registry_queries option \<Rightarrow> string \<Rightarrow> registry_error + onboarding" where
  "build_onboarding_config fmt registry_flag db tenant_id =
     (if registry_enabled registry_flag then
        (case build_onboarding_config_registry fmt db tenant_id of
           Some config \<Rightarrow> Inr config
         | None \<Rightarrow> Inl (RegistryDataMissing (''Registry onboarding config not found for tenant='' @
             quoted (config_sanitize_log (Some tenant_id)) @ '' (REGISTRY_ENABLED=true)'')))
      else Inr (build_onboarding_config_compat tenant_id))"

section \<open>What is offered\<close>

lemma lower_char_idem: "lower_char (lower_char c) = lower_char c"
proof (cases "lower_char c = c")
  case False
  then have "code (lower_char c) = code c + 32 \<and> (65 \<le> code c \<and> code c \<le> 90 \<or> 192 \<le> code c \<and> code c \<le> 222)"
    by (auto simp: lower_char_def Let_def code_def split: if_splits)
  then have "\<not> (65 \<le> code (lower_char c) \<and> code (lower_char c) \<le> 90)" "\<not> (192 \<le> code (lower_char c) \<and> code (lower_char c) \<le> 222)"
    by linarith+
  then show ?thesis by (subst lower_char_def) (auto simp: Let_def)
qed simp

lemma lower_idem: "lower (lower s) = lower s"
  by (simp add: lower_def lower_char_idem)

lemma normalize_documents_cases:
  assumes "normalize_documents fmt id_key normalise docs = Some items" and "item \<in> set items"
  obtains raw doc_id where "normalise raw doc_id = Inr (Some item)"
  using assms
  by (induction docs arbitrary: items rule: list.induct) (fastforce split: sum.splits option.splits)+

lemma field_simps:
  "text_field ''id'' (template_fields raw i) = i"
  "text_field ''status'' (template_fields raw i) = template_status (py_get raw ''status'')"
  "text_field ''id'' (company_fields raw i) = i"
  "text_field ''templateId'' (company_fields raw i) = string_or_default (py_get raw ''industry_template_id'') []"
  by (simp_all add: text_field_def py_get_def dget_default_def template_fields_def company_fields_def)

lemma normalized_template:
  "normalize_onboarding_template fmt raw doc_id = Inr (Some item) \<longleftrightarrow>
     (\<exists>d i n. raw = PDict d \<and> i = lower (string_or_default (py_get d ''id'') doc_id) \<and> i \<noteq> [] \<and>
       item = template_fields d i \<and> validate_registry_schema_version fmt raw ''industry template'' doc_id = Inr n)"
  by (cases raw) (auto simp: Let_def simp del: validate_registry_schema_version.simps split: sum.splits)

lemma normalized_company:
  "normalize_onboarding_company fmt raw doc_id = Inr (Some item) \<longleftrightarrow>
     (\<exists>d i n. raw = PDict d \<and> i = lower (string_or_default (py_get d ''company_id'') doc_id) \<and> i \<noteq> [] \<and>
       item = company_fields d i \<and> validate_registry_schema_version fmt raw ''company'' doc_id = Inr n)"
  by (cases raw) (auto simp: Let_def simp del: validate_registry_schema_version.simps split: sum.splits)

lemma template_id_lower:
  assumes "normalize_onboarding_template fmt raw doc_id = Inr (Some item)"
  shows "lower (text_field ''id'' item) = text_field ''id'' item \<and> text_field ''id'' item \<noteq> []"
  using assms unfolding normalized_template by (elim exE conjE) (simp add: field_simps lower_idem)

lemma company_id_present:
  assumes "normalize_onboarding_company fmt raw doc_id = Inr (Some item)"
  shows "text_field ''id'' item \<noteq> []"
  using assms unfolding normalized_company by (elim exE conjE) (simp add: field_simps)

lemma normalized_have_ids:
  "normalize_documents fmt k (normalize_onboarding_template fmt) docs = Some items \<Longrightarrow> x \<in> set items \<Longrightarrow> text_field ''id'' x \<noteq> []"
  "normalize_documents fmt k (normalize_onboarding_company fmt) docs = Some items \<Longrightarrow> x \<in> set items \<Longrightarrow> text_field ''id'' x \<noteq> []"
  by (erule (1) normalize_documents_cases, drule template_id_lower, erule conjunct2)
    (erule (1) normalize_documents_cases, erule company_id_present)

lemma find_in_set: "find P xs = Some x \<Longrightarrow> x \<in> set xs \<and> P x"
  by (auto simp: find_Some_iff)

lemma defaults_offered:
  assumes "registry_onboarding_defaults templates companies = (t, c)" and "templates \<noteq> []"
  shows "t \<in> set (map (text_field ''id'') templates) \<and> (companies = [] \<or> c \<in> set (map (text_field ''id'') companies))"
proof (cases "''electronics'' \<in> set (map (text_field ''id'') templates) \<and>
         ''ekaette-electronics'' \<in> set (map (text_field ''id'') companies)")
  case True
  have e: "registry_onboarding_defaults templates companies = (''electronics'', ''ekaette-electronics'')"
    unfolding registry_onboarding_defaults_def using True by (rule if_P)
  show ?thesis
    by (rule Pair_inject [OF trans [OF sym [OF assms(1)] e]]) (use True in blast)
next
  case False
  obtain t0 ts where t0: "templates = t0 # ts" using assms(2) by (cases templates) auto
  show ?thesis
  proof (cases companies)
    case Nil
    with False assms(1) t0 show ?thesis by (simp add: registry_onboarding_defaults_def)
  next
    case (Cons c0 cs)
    let ?own = "find (\<lambda>c. text_field ''templateId'' c = text_field ''id'' t0 \<and> text_field ''id'' c \<noteq> []) companies"
    have "t = text_field ''id'' t0 \<and> c = text_field ''id'' (case ?own of Some own \<Rightarrow> own | None \<Rightarrow> c0)"
      using assms(1) unfolding registry_onboarding_defaults_def if_not_P [OF False]
      by (simp del: find.simps add: t0 Cons split: option.splits)
    moreover have "(case ?own of Some own \<Rightarrow> own | None \<Rightarrow> c0) \<in> set companies"
    proof (cases ?own)
      case None
      show ?thesis unfolding None option.case by (simp add: Cons)
    next
      case (Some x)
      show ?thesis unfolding Some option.case using find_in_set [OF Some] by blast
    qed
    ultimately show ?thesis by (auto simp: t0)
  qed
qed

lemma registry_onboarding_cases:
  assumes "build_onboarding_config_registry fmt (Some db) tenant = Some ob"
  obtains docs templates companies where "template_query db = Some docs"
    "normalize_documents fmt ''id'' (normalize_onboarding_template fmt) docs = Some templates" "templates \<noteq> []"
    "Option.bind (company_query db tenant) (normalize_documents fmt ''company_id'' (normalize_onboarding_company fmt)) = Some companies"
    "ob_templates ob = sort_key template_key templates" "ob_companies ob = sort_key company_key companies"
    "ob_defaults ob = registry_onboarding_defaults (ob_templates ob) (ob_companies ob)"
  using assms
  by (auto simp: build_onboarding_config_registry_def Let_def split: option.splits list.splits bind_splits)

text \<open>
  What the registry offers a browser is consistent: the preselected template is one of the
  offered ones, the preselected company is one of the offered ones unless there is none, the
  templates are sorted with the disabled ones last, the companies by name, and every entry
  has an identifier.
\<close>

theorem onboarding_consistent:
  assumes "build_onboarding_config_registry fmt (Some db) tenant = Some ob"
  shows "fst (ob_defaults ob) \<in> set (map (text_field ''id'') (ob_templates ob)) \<and>
    (ob_companies ob = [] \<or> snd (ob_defaults ob) \<in> set (map (text_field ''id'') (ob_companies ob))) \<and>
    sorted (map template_key (ob_templates ob)) \<and> sorted (map company_key (ob_companies ob)) \<and>
    list_all (\<lambda>x. text_field ''id'' x \<noteq> []) (ob_templates ob @ ob_companies ob)"
proof -
  obtain docs templates companies where n: "template_query db = Some docs"
    "normalize_documents fmt ''id'' (normalize_onboarding_template fmt) docs = Some templates" "templates \<noteq> []"
    "Option.bind (company_query db tenant) (normalize_documents fmt ''company_id'' (normalize_onboarding_company fmt)) = Some companies"
    and ob: "ob_templates ob = sort_key template_key templates" "ob_companies ob = sort_key company_key companies"
    "ob_defaults ob = registry_onboarding_defaults (ob_templates ob) (ob_companies ob)"
    by (rule registry_onboarding_cases [OF assms])
  have "ob_templates ob \<noteq> []" using ob(1) n(3) by (metis set_empty set_sort)
  with defaults_offered [OF _ this, of "ob_companies ob" "fst (ob_defaults ob)" "snd (ob_defaults ob)"] ob(3)
  have "fst (ob_defaults ob) \<in> set (map (text_field ''id'') (ob_templates ob))"
    "ob_companies ob = [] \<or> snd (ob_defaults ob) \<in> set (map (text_field ''id'') (ob_companies ob))" by simp_all
  moreover obtain docs' where n4: "normalize_documents fmt ''company_id'' (normalize_onboarding_company fmt) docs' = Some companies"
    using n(4) unfolding bind_eq_Some_conv by blast
  have "list_all (\<lambda>x. text_field ''id'' x \<noteq> []) (ob_templates ob @ ob_companies ob)"
    using normalized_have_ids(1) [OF n(2)] normalized_have_ids(2) [OF n4] by (auto simp: ob(1,2) list_all_iff)
  moreover have "sorted (map template_key (ob_templates ob))" "sorted (map company_key (ob_companies ob))"
    by (simp_all add: ob(1,2))
  ultimately show ?thesis by blast
qed

text \<open>
  A template whose identifier has capital letters never matches its companies in the
  browser: the template's identifier is put in lower case, the company's reference to it is
  not, although at run time the two belong together.
\<close>

theorem mixed_case_template_unmatched:
  assumes "normalize_onboarding_template fmt template doc_id = Inr (Some offered)"
    and "normalize_onboarding_company fmt (PDict company) doc_id' = Inr (Some entry)"
    and "py_get company ''industry_template_id'' = PStr ref" and "lower (strip ref) \<noteq> strip ref"
  shows "text_field ''templateId'' entry \<noteq> text_field ''id'' offered"
proof -
  have "strip ref \<noteq> []" using assms(4) by (auto simp: lower_def)
  then have "text_field ''templateId'' entry = strip ref"
    using assms(2,3) unfolding normalized_company by (elim exE conjE) (simp add: field_simps)
  then show ?thesis using template_id_lower [OF assms(1)] assms(4) by metis
qed

theorem mixed_case_template_unmatched_witness:
  "(case (normalize_onboarding_template plain_text (PDict [(''id'', PStr ''Hotel''), (''schema_version'', PInt 1)]) ''Hotel'',
          normalize_onboarding_company plain_text (PDict [(''industry_template_id'', PStr ''Hotel''), (''schema_version'', PInt 1)]) ''c'') of
     (Inr (Some offered), Inr (Some entry)) \<Rightarrow> text_field ''templateId'' entry \<noteq> text_field ''id'' offered | _ \<Rightarrow> False)"
proof -
  let ?t = "[(''id'', PStr ''Hotel''), (''schema_version'', PInt 1)]"
  let ?c = "[(''industry_template_id'', PStr ''Hotel''), (''schema_version'', PInt 1)]"
  have t: "normalize_onboarding_template plain_text (PDict ?t) ''Hotel'' = Inr (Some (template_fields ?t ''hotel''))" by code_simp
  have c: "normalize_onboarding_company plain_text (PDict ?c) ''c'' = Inr (Some (company_fields ?c ''c''))" by code_simp
  have "lower (strip ''Hotel'') \<noteq> strip ''Hotel''" "py_get ?c ''industry_template_id'' = PStr ''Hotel''" by code_simp+
  from mixed_case_template_unmatched [OF t c this(2,1)] show ?thesis
    by (simp only: t c sum.case option.case prod.case simp_thms)
qed

definition sample_queries :: registry_queries where
  "sample_queries = \<lparr>template_query = Some [(''b'', PDict [(''schema_version'', PInt 1), (''status'', PStr ''disabled'')]),
       (''h'', PDict [(''schema_version'', PInt 1)])],
     company_query = (\<lambda>_. Some [(''co'', PDict [(''schema_version'', PInt 1), (''industry_template_id'', PStr ''h'')])])\<rparr>"

theorem onboarding_consistent_witness:
  "\<exists>ob. build_onboarding_config_registry plain_text (Some sample_queries) ''t'' = Some ob \<and>
     fst (ob_defaults ob) \<in> set (map (text_field ''id'') (ob_templates ob))"
proof -
  obtain ob where ob: "build_onboarding_config_registry plain_text (Some sample_queries) ''t'' = Some ob"
  proof -
    have "build_onboarding_config_registry plain_text (Some sample_queries) ''t'' \<noteq> None" by code_simp
    then show thesis using that by blast
  qed
  with onboarding_consistent [OF ob] show ?thesis by blast
qed

end
