(* ===== verification/Company_Context.thy ===== *)
theory Company_Context
  imports Registry_Config Local_Configs
begin

text \<open>
  \<open>app/configs/industry_loader.py\<close> and \<open>app/configs/company_loader.py\<close>: the industry
  configuration, the company profile and the company's knowledge of a session, from the
  registry or (without it) from the old collections and the built-in tables.  \<open>fmt\<close> is
  \<open>str()\<close> of a value; what a Firestore read gives is an input.
\<close>

section \<open>Industry configuration\<close>

definition fallback_config_for :: "string \<Rightarrow> py_record" where
  "fallback_config_for industry = dget_default LOCAL_INDUSTRY_CONFIGS (lower (strip industry)) DEFAULT_CONFIG"

text \<open>The first true candidate when it is a text that is not blank, otherwise the default.\<close>

definition nonblank_or :: "py \<Rightarrow> string \<Rightarrow> string" where
  "nonblank_or v dflt = strip (case v of PStr s \<Rightarrow> if strip s \<noteq> [] then s else dflt | _ \<Rightarrow> dflt)"

definition default_greeting :: string where
  "default_greeting = ''Hello! How can I help you today?''"

definition legacy_config_from_registry_template :: "string \<Rightarrow> py_record \<Rightarrow> py_record" where
  "legacy_config_from_registry_template template_id template =
     [(''name'', PStr (nonblank_or (py_or (py_get template ''label'')
         (py_or (py_get template ''name'') (PStr (title_case template_id)))) (title_case template_id))),
      (''voice'', PStr (nonblank_or (py_or (py_get template ''default_voice'') (PStr ''Aoede'')) ''Aoede'')),
      (''greeting'', PStr (nonblank_or (py_or (py_get template ''greeting_policy'') (PStr default_greeting)) default_greeting))]"

definition in_registry_mode :: "string \<Rightarrow> string \<Rightarrow> string" where
  "in_registry_mode what who = what @ quoted (config_sanitize_log (Some who)) @ '' (REGISTRY_ENABLED=true)''"

definition client_required :: "string \<Rightarrow> string \<Rightarrow> registry_error" where
  "client_required kind who =
     RegistryDataMissing (''Firestore client required when REGISTRY_ENABLED=true ('' @ kind @ ''='' @
       quoted (config_sanitize_log (Some who)) @ '')'')"

text \<open>The old collection's document is returned as it is; a failing or missing read falls back.\<close>

definition load_industry_config ::
  "(py \<Rightarrow> string) \<Rightarrow> string option \<Rightarrow> registry_db option \<Rightarrow> (string \<Rightarrow> doc_read) option \<Rightarrow> string \<Rightarrow> registry_error + py" where
  "load_industry_config fmt registry_flag db old_collection industry =
     (if config_flag registry_flag ''true'' then
        (if db = None then Inl (client_required ''industry'' industry)
         else case load_industry_template fmt db industry of
           Inr (PDict template) \<Rightarrow> Inr (PDict (legacy_config_from_registry_template industry template))
         | _ \<Rightarrow> Inl (RegistryDataMissing (in_registry_mode ''Registry template not found for industry='' industry)))
      else Inr (case old_collection of
          None \<Rightarrow> PDict (fallback_config_for industry)
        | Some get \<Rightarrow> (case get industry of Document v \<Rightarrow> v | _ \<Rightarrow> PDict (fallback_config_for industry))))"

definition build_session_state :: "py_record \<Rightarrow> string \<Rightarrow> py_record \<Rightarrow> py_record" where
  "build_session_state config industry user_data =
     fold (\<lambda>(k, v). dset (''user:'' @ k) v) user_data
       [(''app:industry'', PStr industry), (''app:industry_config'', PDict config),
        (''app:voice'', dget_default config ''voice'' (PStr ''Aoede'')),
        (''app:greeting'', dget_default config ''greeting'' (PStr default_greeting))]"

section \<open>Company profile\<close>

definition company_key_of :: "string \<Rightarrow> string" where
  "company_key_of company_id = or_else (lower (strip (or_else company_id ''default''))) ''default''"

definition default_registry_tenant_id :: "string option \<Rightarrow> string" where
  "default_registry_tenant_id env =
     or_else (lower (strip (case env of None \<Rightarrow> ''public'' | Some s \<Rightarrow> s))) ''public''"

definition resolved_tenant :: "string option \<Rightarrow> string option \<Rightarrow> string" where
  "resolved_tenant env tenant_id =
     or_else (lower (strip (or_else (text_of tenant_id) (default_registry_tenant_id env)))) ''public''"

definition fallback_profile_for :: "string \<Rightarrow> py_record" where
  "fallback_profile_for company_id =
     (let key = company_key_of company_id;
          profile = dset ''company_id'' (PStr key) (dget_default LOCAL_COMPANY_PROFILES key DEFAULT_COMPANY_PROFILE)
      in setdefault ''overview'' (PStr []) (setdefault ''system_connectors'' (PDict [])
           (setdefault ''links'' (PList []) (setdefault ''facts'' (PDict []) profile))))"

fun text_items :: "(py \<Rightarrow> string) \<Rightarrow> py \<Rightarrow> py" where
  "text_items fmt (PList xs) = PList (map (\<lambda>x. PStr (fmt x)) (filter truthy xs))"
| "text_items fmt _ = PList []"

fun record_or_empty :: "py \<Rightarrow> py" where
  "record_or_empty (PDict d) = PDict d"
| "record_or_empty _ = PDict []"

definition text_or_empty :: "py \<Rightarrow> py" where
  "text_or_empty v = (case v of PStr s \<Rightarrow> v | _ \<Rightarrow> PStr [])"

definition name_or_demo :: "py \<Rightarrow> py_record \<Rightarrow> py_record" where
  "name_or_demo v profile =
     (case v of PStr s \<Rightarrow> if strip s = [] then dset ''name'' (PStr ''Demo Company'') profile else profile
      | _ \<Rightarrow> dset ''name'' (PStr ''Demo Company'') profile)"

definition set_overview :: "py \<Rightarrow> py_record \<Rightarrow> py_record" where
  "set_overview v profile = (case v of PStr s \<Rightarrow> profile | _ \<Rightarrow> dset ''overview'' (PStr []) profile)"

definition normalize_profile :: "(py \<Rightarrow> string) \<Rightarrow> string \<Rightarrow> py \<Rightarrow> py_record" where
  "normalize_profile fmt company_id raw =
     (let p = dset ''company_id'' (PStr (company_key_of company_id)) (dict_or_empty raw);
          p = name_or_demo (py_get p ''name'') p;
          p = set_overview (py_get p ''overview'') p;
          p = dset ''facts'' (record_or_empty (py_get p ''facts'')) p;
          p = dset ''links'' (text_items fmt (py_get p ''links'')) p
      in dset ''system_connectors'' (record_or_empty (py_get p ''system_connectors'')) p)"

fun normalize_registry_company_profile :: "(py \<Rightarrow> string) \<Rightarrow> string \<Rightarrow> py \<Rightarrow> py_record" where
  "normalize_registry_company_profile fmt company_id (PDict raw) =
     normalize_profile fmt company_id (PDict
       [(''company_id'', PStr company_id), (''name'', py_or (py_get raw ''display_name'') (py_get raw ''name'')),
        (''overview'', py_get raw ''overview''), (''facts'', py_get raw ''facts''), (''links'', py_get raw ''links''),
        (''system_connectors'', py_get raw ''connectors'')])"
| "normalize_registry_company_profile fmt company_id _ = normalize_profile fmt company_id (PDict [])"

definition load_company_profile ::
  "(py \<Rightarrow> string) \<Rightarrow> string option \<Rightarrow> string option \<Rightarrow> registry_db option \<Rightarrow> (string \<Rightarrow> doc_read) option \<Rightarrow>
     string \<Rightarrow> string option \<Rightarrow> registry_error + py_record" where
  "load_company_profile fmt registry_flag tenant_env db old_collection company_id tenant_id =
     (let key = company_key_of company_id in
      if registry_enabled registry_flag then
        (if db = None then Inl (client_required ''company'' key)
         else case load_tenant_company fmt db (resolved_tenant tenant_env tenant_id) key of
           Inr (PDict d) \<Rightarrow> Inr (normalize_registry_company_profile fmt key (PDict d))
         | _ \<Rightarrow> Inl (RegistryDataMissing (in_registry_mode ''Registry company not found for company='' key)))
      else Inr (case old_collection of
          None \<Rightarrow> fallback_profile_for key
        | Some get \<Rightarrow> (case get key of
              Document (PDict raw) \<Rightarrow> normalize_profile fmt key (PDict raw)
            | _ \<Rightarrow> fallback_profile_for key)))"

section \<open>Company knowledge\<close>

definition knowledge_title :: "(py \<Rightarrow> string) \<Rightarrow> py_record \<Rightarrow> string" where
  "knowledge_title fmt raw =
     (let fallback = strip (fmt (dget_default raw ''text'' (PStr [])));
          other = (if fallback \<noteq> [] then take 80 fallback else ''Untitled'')
      in case py_get raw ''title'' of PStr s \<Rightarrow> if strip s = [] then other else s | _ \<Rightarrow> other)"

definition knowledge_text :: "(py \<Rightarrow> string) \<Rightarrow> py \<Rightarrow> string" where
  "knowledge_text fmt v = (case v of PStr s \<Rightarrow> s | _ \<Rightarrow> fmt (py_or v (PStr [])))"

definition knowledge_tags :: "(py \<Rightarrow> string) \<Rightarrow> py \<Rightarrow> string list" where
  "knowledge_tags fmt v =
     (case v of PList xs \<Rightarrow> filter (\<lambda>s. s \<noteq> []) (map (\<lambda>x. strip (fmt x)) xs) | _ \<Rightarrow> [])"

definition normalize_knowledge_entry :: "(py \<Rightarrow> string) \<Rightarrow> string \<Rightarrow> py_record \<Rightarrow> string \<Rightarrow> py_record" where
  "normalize_knowledge_entry fmt company_id raw entry_id =
     [(''id'', PStr entry_id),
      (''company_id'', PStr (company_key_of company_id)),
      (''title'', PStr (strip (knowledge_title fmt raw))),
      (''text'', PStr (strip (knowledge_text fmt (py_get raw ''text'')))),
      (''url'', PStr (string_or_default (py_get raw ''url'') [])),
      (''tags'', texts (knowledge_tags fmt (py_get raw ''tags''))),
      (''source'', PStr (string_or_default (py_get raw ''source'') ''firestore''))]"

definition local_entries :: "(py \<Rightarrow> string) \<Rightarrow> string \<Rightarrow> string \<Rightarrow> py_record list \<Rightarrow> py_record list" where
  "local_entries fmt key prefix entries =
     map (\<lambda>(idx, entry). dset ''source'' (PStr ''local_fallback'') (normalize_knowledge_entry fmt key entry
        (fmt (py_or (py_get entry ''id'') (PStr (prefix @ nat_str idx))))))
       (enumerate 1 entries)"

definition fallback_knowledge_for :: "(py \<Rightarrow> string) \<Rightarrow> string \<Rightarrow> py_record list" where
  "fallback_knowledge_for fmt company_id =
     (let key = company_key_of company_id in
      case dget LOCAL_COMPANY_KNOWLEDGE key of
        Some (e # es) \<Rightarrow> local_entries fmt key ''kb-local-'' (e # es)
      | _ \<Rightarrow> local_entries fmt key ''kb-fallback-'' DEFAULT_KNOWLEDGE_ENTRIES)"

text \<open>Documents of a query with their identifiers; those that are not dictionaries are skipped.\<close>

fun entries_of :: "(py \<Rightarrow> string) \<Rightarrow> string \<Rightarrow> nat \<Rightarrow> (string \<times> py) list \<Rightarrow> py_record list" where
  "entries_of fmt key idx [] = []"
| "entries_of fmt key idx ((doc_id, PDict raw) # docs) =
     normalize_knowledge_entry fmt key raw
       (fmt (py_or (PStr doc_id) (py_or (py_get raw ''id'') (PStr (''kb-'' @ nat_str idx)))))
     # entries_of fmt key (Suc idx) docs"
| "entries_of fmt key idx (_ # docs) = entries_of fmt key (Suc idx) docs"

text \<open>
  The query results: of the tenant's and company's collection, and of the old collection;
  \<open>None\<close> raises.  The limit is applied by the service.
\<close>

definition load_company_knowledge ::
  "(py \<Rightarrow> string) \<Rightarrow> string option \<Rightarrow> string option \<Rightarrow> (string \<Rightarrow> string \<Rightarrow> nat \<Rightarrow> (string \<times> py) list option) option \<Rightarrow>
     (string \<Rightarrow> nat \<Rightarrow> (string \<times> py) list option) option \<Rightarrow> string \<Rightarrow> int \<Rightarrow> string option \<Rightarrow> registry_error + py_record list" where
  "load_company_knowledge fmt registry_flag tenant_env registry old_collection company_id limit tenant_id =
     (let key = company_key_of company_id; safe_limit = nat (max 1 (min limit 50));
          tenant = resolved_tenant tenant_env tenant_id in
      if registry_enabled registry_flag then
        (case registry of
           None \<Rightarrow> Inl (client_required ''company'' key)
         | Some query \<Rightarrow>
             (case query tenant key safe_limit of
                None \<Rightarrow> Inl (RegistryDataMissing (''Registry company knowledge unavailable for company='' @
                  quoted (config_sanitize_log (Some key)) @ '' (tenant='' @ quoted (config_sanitize_log (Some tenant)) @
                  '', REGISTRY_ENABLED=true)''))
              | Some docs \<Rightarrow> Inr (entries_of fmt key 1 docs)))
      else Inr (case old_collection of
          None \<Rightarrow> fallback_knowledge_for fmt key
        | Some query \<Rightarrow>
            (case query key safe_limit of
               None \<Rightarrow> fallback_knowledge_for fmt key
             | Some docs \<Rightarrow>
                 (let entries = entries_of fmt key 1 docs
                  in if entries \<noteq> [] then entries else fallback_knowledge_for fmt key))))"

definition runtime_entry :: "(py \<Rightarrow> string) \<Rightarrow> string \<Rightarrow> nat \<Rightarrow> py \<Rightarrow> py_record" where
  "runtime_entry fmt key idx entry =
     (let dflt = PStr (''kb-runtime-'' @ nat_str idx) in
      case entry of
        PDict d \<Rightarrow> normalize_knowledge_entry fmt key d (fmt (py_or (py_get d ''id'') dflt))
      | v \<Rightarrow> normalize_knowledge_entry fmt key [(''text'', PStr (fmt v))] (plain_text dflt))"

definition build_company_session_state :: "(py \<Rightarrow> string) \<Rightarrow> string \<Rightarrow> py \<Rightarrow> py \<Rightarrow> py_record" where
  "build_company_session_state fmt company_id profile knowledge =
     (let key = company_key_of company_id;
          entries = map (\<lambda>(idx, e). runtime_entry fmt key idx e) (enumerate 1 (as_list knowledge))
      in [(''app:company_id'', PStr key),
          (''app:company_profile'', PDict (normalize_profile fmt key (py_or profile (PDict [])))),
          (''app:company_knowledge'', PList (map PDict
             (filter (\<lambda>e. truthy (py_get e ''text'') \<or> truthy (py_get e ''title'')) entries)))])"

section \<open>A normalised profile\<close>

lemma dset_same: "dget d k = Some v \<Longrightarrow> dset k v d = d"
  by (induction d) auto

definition profile_ok :: "(py \<Rightarrow> string) \<Rightarrow> string \<Rightarrow> py_record \<Rightarrow> bool" where
  "profile_ok fmt company_id p \<longleftrightarrow>
     dget p ''company_id'' = Some (PStr (company_key_of company_id)) \<and>
     (\<exists>s. dget p ''name'' = Some (PStr s) \<and> strip s \<noteq> []) \<and> (\<exists>s. dget p ''overview'' = Some (PStr s)) \<and>
     (\<exists>d. dget p ''facts'' = Some (PDict d)) \<and> (\<exists>d. dget p ''system_connectors'' = Some (PDict d)) \<and>
     (\<exists>xs. dget p ''links'' = Some (PList (map PStr xs)) \<and> list_all (\<lambda>s. s \<noteq> []) xs)"

lemma strip_demo: "strip ''Demo Company'' \<noteq> []"
  by code_simp

lemma name_or_demo_get:
  "(\<exists>s. dget (name_or_demo (py_get p ''name'') p) ''name'' = Some (PStr s) \<and> strip s \<noteq> [])
   \<and> (k = ''name'' \<or> dget (name_or_demo (py_get p ''name'') p) k = dget p k)"
proof (cases "dget p ''name''")
  case (Some v)
  then show ?thesis by (cases v) (simp_all add: name_or_demo_def py_get_def dget_default_def strip_demo)
qed (simp add: name_or_demo_def py_get_def dget_default_def strip_demo)

lemma set_overview_get:
  "(\<exists>s. dget (set_overview (py_get p ''overview'') p) ''overview'' = Some (PStr s))
   \<and> (k = ''overview'' \<or> dget (set_overview (py_get p ''overview'') p) k = dget p k)"
proof (cases "dget p ''overview''")
  case (Some v)
  then show ?thesis by (cases v) (simp_all add: set_overview_def py_get_def dget_default_def)
qed (simp add: set_overview_def py_get_def dget_default_def)

lemma record_or_empty_dict: "\<exists>d. record_or_empty v = PDict d"
  by (cases v) simp_all

lemma text_items_texts:
  assumes "\<And>v. truthy v \<Longrightarrow> fmt v \<noteq> []"
  shows "\<exists>xs. text_items fmt v = PList (map PStr xs) \<and> list_all (\<lambda>s. s \<noteq> []) xs"
proof (cases v)
  case (PList xs)
  have "text_items fmt v = PList (map PStr (map fmt (filter truthy xs)))" by (simp add: PList)
  moreover have "list_all (\<lambda>s. s \<noteq> []) (map fmt (filter truthy xs))" using assms by (simp add: list_all_iff)
  ultimately show ?thesis by blast
qed (auto intro: exI [of _ "[]"])

text \<open>
  Whatever the profile document holds, the normalised profile has the types its readers expect.
\<close>

lemma normalize_profile_ok:
  assumes "\<And>v. truthy v \<Longrightarrow> fmt v \<noteq> []"
  shows "profile_ok fmt company_id (normalize_profile fmt company_id raw)"
proof -
  define p0 where "p0 = dset ''company_id'' (PStr (company_key_of company_id)) (dict_or_empty raw)"
  define p1 where "p1 = name_or_demo (py_get p0 ''name'') p0"
  define p2 where "p2 = set_overview (py_get p1 ''overview'') p1"
  have "dget p0 ''company_id'' = Some (PStr (company_key_of company_id))" by (simp add: p0_def)
  then have "dget p1 ''company_id'' = Some (PStr (company_key_of company_id))"
    using name_or_demo_get [of p0 "''company_id''"] by (simp add: p1_def)
  moreover obtain s where "dget p1 ''name'' = Some (PStr s)" "strip s \<noteq> []"
    using name_or_demo_get [of p0 "''name''"] by (auto simp: p1_def)
  moreover obtain u where "dget p2 ''overview'' = Some (PStr u)"
    using set_overview_get [of p1 "''overview''"] by (auto simp: p2_def)
  ultimately have "dget p2 ''company_id'' = Some (PStr (company_key_of company_id))" "dget p2 ''name'' = Some (PStr s)"
    "strip s \<noteq> []" "dget p2 ''overview'' = Some (PStr u)"
    using set_overview_get [of p1 "''company_id''"] set_overview_get [of p1 "''name''"] by (simp_all add: p2_def)
  then show ?thesis
    using record_or_empty_dict text_items_texts [OF assms]
    by (simp add: profile_ok_def normalize_profile_def Let_def flip: p0_def p1_def p2_def)
qed

text \<open>A normalised profile is left alone: normalisation is idempotent.\<close>

lemma text_items_fixed:
  assumes "\<And>s. fmt (PStr s) = s" and "list_all (\<lambda>s. s \<noteq> []) xs"
  shows "text_items fmt (PList (map PStr xs)) = PList (map PStr xs)"
  using assms(2) by (induction xs) (simp_all add: assms(1))

lemma normalize_profile_fixed:
  assumes "\<And>s. fmt (PStr s) = s" and "profile_ok fmt company_id p"
  shows "normalize_profile fmt company_id (PDict p) = p"
proof -
  obtain s u f g xs where g: "dget p ''company_id'' = Some (PStr (company_key_of company_id))"
    "dget p ''name'' = Some (PStr s)" "strip s \<noteq> []" "dget p ''overview'' = Some (PStr u)"
    "dget p ''facts'' = Some (PDict f)" "dget p ''system_connectors'' = Some (PDict g)"
    "dget p ''links'' = Some (PList (map PStr xs))" "list_all (\<lambda>s. s \<noteq> []) xs"
    using assms(2) unfolding profile_ok_def by blast
  then show ?thesis
    by (simp add: normalize_profile_def Let_def dset_same name_or_demo_def set_overview_def py_get_def dget_default_def
      text_items_fixed [OF assms(1)] del: text_items.simps)
qed

lemma normalize_profile_idem:
  assumes "\<And>v. truthy v \<Longrightarrow> fmt v \<noteq> []" and "\<And>s. fmt (PStr s) = s"
  shows "normalize_profile fmt c (PDict (normalize_profile fmt c raw)) = normalize_profile fmt c raw"
  using normalize_profile_fixed [OF assms(2) normalize_profile_ok [OF assms(1)]] .

text \<open>The registry's profile never comes from the built-in tables.\<close>

lemma registry_profile_source:
  assumes "load_company_profile fmt flag env db old c t = Inr p" and "registry_enabled flag"
  shows "\<exists>d. load_tenant_company fmt db (resolved_tenant env t) (company_key_of c) = Inr (PDict d) \<and>
    p = normalize_registry_company_profile fmt (company_key_of c) (PDict d)"
  using assms by (auto simp: load_company_profile_def Let_def split: if_splits sum.splits py.splits)

lemma built_in_company_keys: "list_all (\<lambda>(k, _). company_key_of k = k) LOCAL_COMPANY_PROFILES"
  by code_simp

end
