(* ===== verification/Registry_Schema.thy ===== *)
theory Registry_Schema
  imports Registry_Config Global_Lessons
begin

text \<open>
  \<open>app/configs/registry_schema.py\<close>: the validators of registry documents.  A validator gives
  the list of error texts, empty for a valid document.  \<open>repr\<close> is Python's.
\<close>

definition required_texts :: "string list \<Rightarrow> py_record \<Rightarrow> string list" where
  "required_texts ks d =
     concat (map (\<lambda>k. if nonblank_text (py_get d k) then [] else [''missing or empty required string field: '' @ k]) ks)"

text \<open>A field that may be absent or \<open>None\<close> but otherwise is a text.\<close>

definition optional_text :: "string \<Rightarrow> py_record \<Rightarrow> string \<Rightarrow> string list" where
  "optional_text k d message =
     (if py_get d k = PNone \<or> is_text (py_get d k) then [] else [message @ '' must be a string if present''])"

definition schema_version_errors :: "(py \<Rightarrow> string) \<Rightarrow> py_record \<Rightarrow> string list" where
  "schema_version_errors fmt d =
     (case as_int (py_get d ''schema_version'') of
        None \<Rightarrow> [''missing or invalid required field: schema_version (must be an integer)'']
      | Some n \<Rightarrow>
          if n < MIN_SUPPORTED_SCHEMA_VERSION \<or> n > MAX_SUPPORTED_SCHEMA_VERSION
          then [''unsupported schema_version '' @ fmt (py_get d ''schema_version'') @ '' (supported '' @
            int_str MIN_SUPPORTED_SCHEMA_VERSION @ ''-'' @ int_str MAX_SUPPORTED_SCHEMA_VERSION @ '')'']
          else [])"

fun validate_theme :: "py \<Rightarrow> string list" where
  "validate_theme (PDict d) =
     concat (map (\<lambda>k. if nonblank_text (py_get d k) then []
         else [''theme.'' @ k @ '' is required and must be a non-empty string'']) [''accent'', ''title''])
     @ concat (map (\<lambda>k. optional_text k d (''theme.'' @ k)) [''accentSoft'', ''hint''])"
| "validate_theme _ = [''theme must be a dict'']"

fun capabilities_errors :: "py \<Rightarrow> string list" where
  "capabilities_errors (PList xs) =
     (if list_all is_text xs then [] else [''capabilities must contain only strings''])"
| "capabilities_errors _ = [''missing or invalid required field: capabilities (must be a list)'']"

fun validate_template :: "(py \<Rightarrow> string) \<Rightarrow> py \<Rightarrow> string list" where
  "validate_template fmt (PDict d) =
     schema_version_errors fmt d
     @ required_texts [''id'', ''label'', ''category'', ''status''] d
     @ capabilities_errors (py_get d ''capabilities'')
     @ (if py_get d ''theme'' = PNone then [''missing required field: theme''] else validate_theme (py_get d ''theme''))
     @ optional_text ''status'' d ''status'' @ optional_text ''display_name'' d ''display_name''"
| "validate_template fmt _ = [''template must be a dict'']"

fun validate_company :: "(py \<Rightarrow> string) \<Rightarrow> py \<Rightarrow> string list" where
  "validate_company fmt (PDict d) =
     schema_version_errors fmt d @ required_texts [''company_id'', ''tenant_id'', ''industry_template_id''] d"
| "validate_company fmt _ = [''company must be a dict'']"

fun removed_unknown :: "string list \<Rightarrow> py list \<Rightarrow> string list" where
  "removed_unknown caps [] = []"
| "removed_unknown caps (PStr s # xs) =
     (if strip s \<noteq> [] \<and> strip s \<notin> set caps
      then [''capability override removes '' @ quoted (strip s) @ '' which is not in template capabilities''] else [])
     @ removed_unknown caps xs"
| "removed_unknown caps (_ # xs) = removed_unknown caps xs"

fun validate_capability_overrides :: "py \<Rightarrow> string list \<Rightarrow> string list" where
  "validate_capability_overrides (PDict overrides) caps = removed_unknown caps (as_list (py_get overrides ''remove''))"
| "validate_capability_overrides PNone caps = []"
| "validate_capability_overrides _ caps = [''capability_overrides must be a dict'']"

fun tags_errors :: "py \<Rightarrow> string list" where
  "tags_errors (PList (t # ts)) = []"
| "tags_errors _ = [''missing or empty required field: tags (must be a non-empty list)'']"

fun validate_knowledge_entry :: "py \<Rightarrow> string list" where
  "validate_knowledge_entry (PDict d) = required_texts [''id'', ''title''] d @ tags_errors (py_get d ''tags'')"
| "validate_knowledge_entry _ = [''knowledge entry must be a dict'']"

text \<open>\<open>isinstance(price, (int, float))\<close> holds of booleans too.\<close>

fun number_of :: "py \<Rightarrow> rat option" where
  "number_of (PInt i) = Some (of_int i)"
| "number_of (PBool b) = Some (of_bool b)"
| "number_of (PFloat q) = Some q"
| "number_of _ = None"

fun is_bool :: "py \<Rightarrow> bool" where
  "is_bool (PBool b) = True"
| "is_bool _ = False"

definition price_ok :: "py \<Rightarrow> bool" where
  "price_ok v = (case number_of v of Some q \<Rightarrow> 0 \<le> q | None \<Rightarrow> False)"

fun validate_product :: "py \<Rightarrow> string list" where
  "validate_product (PDict d) =
     required_texts [''id'', ''name'', ''category''] d
     @ (if price_ok (py_get d ''price'') then [] else [''missing or invalid required field: price (must be a non-negative number)''])
     @ (if nonblank_text (py_get d ''currency'') then [] else [''missing or empty required string field: currency''])
     @ (if is_bool (py_get d ''in_stock'') then [] else [''missing or invalid required field: in_stock (must be a boolean)''])
     @ optional_text ''data_tier'' d ''data_tier''"
| "validate_product _ = [''product must be a dict'']"

text \<open>\<open>^\d{4}-\d{2}-\d{2}$\<close> on a stripped text.\<close>

definition is_iso_date :: "string \<Rightarrow> bool" where
  "is_iso_date s \<longleftrightarrow>
     length s = 10 \<and> s ! 4 = CHR ''-'' \<and> s ! 7 = CHR ''-'' \<and>
     list_all is_digit (take 4 s) \<and> list_all is_digit (take 2 (drop 5 s)) \<and> list_all is_digit (drop 8 s)"

fun date_errors :: "py \<Rightarrow> string list" where
  "date_errors (PStr s) =
     (if strip s = [] \<or> is_iso_date (strip s) then [] else [''date must be in YYYY-MM-DD format''])"
| "date_errors _ = []"

fun validate_booking_slot :: "py \<Rightarrow> string list" where
  "validate_booking_slot (PDict d) =
     required_texts [''id'', ''date'', ''time''] d
     @ date_errors (py_get d ''date'')
     @ (if is_bool (py_get d ''available'') then [] else [''missing or invalid required field: available (must be a boolean)''])
     @ optional_text ''data_tier'' d ''data_tier''"
| "validate_booking_slot _ = [''booking_slot must be a dict'']"

section \<open>Lemmas\<close>

lemma nonblank_text_iff: "nonblank_text v \<longleftrightarrow> (\<exists>s. v = PStr s \<and> strip s \<noteq> [])"
  by (cases v) simp_all

lemma required_texts_ok: "required_texts ks d = [] \<longleftrightarrow> (\<forall>k \<in> set ks. nonblank_text (py_get d k))"
  by (auto simp: required_texts_def)

lemma product_ok_iff:
  "validate_product (PDict d) = [] \<longleftrightarrow>
     nonblank_text (py_get d ''id'') \<and> nonblank_text (py_get d ''name'') \<and> nonblank_text (py_get d ''category'') \<and>
     price_ok (py_get d ''price'') \<and> nonblank_text (py_get d ''currency'') \<and> is_bool (py_get d ''in_stock'') \<and>
     (py_get d ''data_tier'' = PNone \<or> is_text (py_get d ''data_tier''))"
  by (simp add: required_texts_ok optional_text_def)

text \<open>
  A document that passes the validator of templates is accepted by the loader, and one with an
  unsupported schema version is refused by both.
\<close>

lemma schema_version_agrees:
  "schema_version_errors fmt d = [] \<longleftrightarrow> (\<exists>n. validate_registry_schema_version fmt (PDict d) kind identifier = Inr n)"
  by (simp add: schema_version_errors_def Let_def split: option.splits)

end
