(* ===== verification/Inventory.thy ===== *)
theory Inventory
  imports Registry_Schema Booking
begin

text \<open>
  The inventory import of \<open>app/api/v1/admin/service_data.py\<close>: rows of a sheet become products,
  products and booking slots are written to a company's collections, and demo or old documents
  are purged.  A collection is the part of a dictionary of documents whose keys carry the
  tenant and the company.  \<open>fmt\<close> is \<open>str()\<close>, \<open>parse_float\<close> is \<open>float()\<close> of a text, infinities and
  NaN among its results; rows arrive already split into cells, and whole numbers in them are
  small enough for a float.
\<close>

section \<open>Headers and cells\<close>

definition slug_char :: "char \<Rightarrow> bool" where
  "slug_char c \<longleftrightarrow> (let n = code c in 97 \<le> n \<and> n \<le> 122 \<or> 48 \<le> n \<and> n \<le> 57)"

text \<open>\<open>re.sub(r"[^a-z0-9]+", sep, text)\<close>.\<close>

fun squeeze :: "char \<Rightarrow> bool \<Rightarrow> string \<Rightarrow> string" where
  "squeeze sep in_run [] = []"
| "squeeze sep in_run (c # cs) =
     (if slug_char c then c # squeeze sep False cs
      else if in_run then squeeze sep True cs else sep # squeeze sep True cs)"

definition strip_char :: "char \<Rightarrow> string \<Rightarrow> string" where
  "strip_char c s = rstrip_where (\<lambda>x. x = c) (dropWhile (\<lambda>x. x = c) s)"

definition header_key :: "string \<Rightarrow> string" where
  "header_key raw = strip_char (CHR ''_'') (squeeze (CHR ''_'') False (lower (strip raw)))"

definition slugify :: "string \<Rightarrow> string" where
  "slugify raw = strip_char (CHR ''-'') (squeeze (CHR ''-'') False (lower (strip raw)))"

definition TRUTHY :: "string list" where
  "TRUTHY = [''1'', ''true'', ''yes'', ''y'', ''on'', ''available'', ''in_stock'', ''instock'']"

definition FALSY :: "string list" where
  "FALSY = [''0'', ''false'', ''no'', ''n'', ''off'', ''out_of_stock'', ''outofstock'', ''sold_out'']"

definition INVENTORY_HEADER_ALIASES :: "(string, string list) dict" where
  "INVENTORY_HEADER_ALIASES =
     [(''id'', [''id'', ''sku'', ''product_id'', ''productid'', ''item_id'', ''itemid'']),
      (''name'', [''name'', ''product_name'', ''productname'', ''item_name'', ''itemname'', ''title'']),
      (''category'', [''category'', ''product_category'', ''productcategory'', ''department'']),
      (''price'', [''price'', ''unit_price'', ''unitprice'', ''amount'']),
      (''currency'', [''currency'', ''currency_code'', ''currencycode'']),
      (''in_stock'', [''in_stock'', ''instock'', ''available'', ''availability'', ''stock_status'', ''stockstatus'']),
      (''quantity'', [''quantity'', ''qty'', ''stock'', ''inventory'', ''on_hand'', ''onhand'']),
      (''description'', [''description'', ''details'', ''summary'']),
      (''brand'', [''brand'', ''maker'']),
      (''warehouse'', [''warehouse'', ''location'', ''warehouse_location'', ''warehouselocation''])]"

fun first_non_empty :: "py_record \<Rightarrow> string list \<Rightarrow> py option" where
  "first_non_empty row [] = None"
| "first_non_empty row (k # ks) =
     (case py_get row k of
        PNone \<Rightarrow> first_non_empty row ks
      | PStr s \<Rightarrow> if strip s \<noteq> [] then Some (PStr (strip s)) else first_non_empty row ks
      | v \<Rightarrow> Some v)"

definition cell :: "string \<Rightarrow> py_record \<Rightarrow> py option" where
  "cell field row = first_non_empty row (dget_default INVENTORY_HEADER_ALIASES field [])"

text \<open>\<open>_parse_float\<close>: a text may read as an infinity or as NaN.\<close>

datatype parsed = No_Number | Number rat | Plus_Infinity | Minus_Infinity | Not_A_Num

fun parse_number :: "(string \<Rightarrow> parsed) \<Rightarrow> py \<Rightarrow> parsed" where
  "parse_number parse_float (PInt i) = Number (fl (of_int i))"
| "parse_number parse_float (PBool b) = Number (of_bool b)"
| "parse_number parse_float (PFloat q) = Number q"
| "parse_number parse_float (PStr s) =
     (let candidate = filter (\<lambda>c. c \<noteq> CHR '','') (strip s) in if strip s = [] then No_Number else parse_float candidate)"
| "parse_number parse_float _ = No_Number"

definition cell_number :: "(string \<Rightarrow> parsed) \<Rightarrow> py option \<Rightarrow> parsed" where
  "cell_number parse_float v = (case v of None \<Rightarrow> No_Number | Some v \<Rightarrow> parse_number parse_float v)"

text \<open>\<open>_parse_int\<close>; the outer \<open>None\<close> is \<open>int()\<close> of an infinity or of NaN raising.\<close>

definition parse_whole :: "(string \<Rightarrow> parsed) \<Rightarrow> py option \<Rightarrow> int option option" where
  "parse_whole parse_float v =
     (case cell_number parse_float v of No_Number \<Rightarrow> Some None | Number q \<Rightarrow> Some (Some (py_trunc q)) | _ \<Rightarrow> None)"

fun parse_bool :: "py \<Rightarrow> bool option" where
  "parse_bool (PBool b) = Some b"
| "parse_bool (PInt i) = Some (i \<noteq> 0)"
| "parse_bool (PFloat q) = Some (q \<noteq> 0)"
| "parse_bool (PStr s) =
     (if header_key s \<in> set TRUTHY then Some True else if header_key s \<in> set FALSY then Some False else None)"
| "parse_bool _ = None"

definition normalized_row :: "py_record \<Rightarrow> py_record" where
  "normalized_row row = fold (\<lambda>(k, v) d. if header_key k \<noteq> [] then dset (header_key k) v d else d) row []"

definition stock_flag :: "py option \<Rightarrow> int option \<Rightarrow> bool" where
  "stock_flag flag quantity =
     (case Option.bind flag parse_bool of
        Some b \<Rightarrow> b | None \<Rightarrow> (case quantity of Some q \<Rightarrow> 0 < q | None \<Rightarrow> False))"

text \<open>\<open>str(raw)\<close> stripped and put in one case, or the default when absent or blank.\<close>

definition cased_or :: "(py \<Rightarrow> string) \<Rightarrow> (string \<Rightarrow> string) \<Rightarrow> py option \<Rightarrow> string \<Rightarrow> string" where
  "cased_or fmt f v dflt = (case v of None \<Rightarrow> dflt | Some v \<Rightarrow> or_else (f (strip (fmt v))) dflt)"

definition optional_field :: "string \<Rightarrow> py_record \<Rightarrow> py_record" where
  "optional_field field row = (case cell field row of Some (PStr s) \<Rightarrow> if strip s \<noteq> [] then [(field, PStr (strip s))] else [] | _ \<Rightarrow> [])"

definition row_error :: "nat \<Rightarrow> string \<Rightarrow> string" where
  "row_error index msg = ''row '' @ nat_str index @ '': '' @ msg"

definition product_of_row ::
  "(py \<Rightarrow> string) \<Rightarrow> py_record \<Rightarrow> nat \<Rightarrow> string \<Rightarrow> string \<Rightarrow> rat \<Rightarrow> int option \<Rightarrow> py_record" where
  "product_of_row fmt row index data_tier name price quantity =
     ([(''id'', PStr (cased_or fmt lower (cell ''id'' row)
          (or_else (slugify name) (''product-'' @ nat_str index) @ ''-'' @ nat_str index))),
       (''name'', PStr name),
       (''category'', PStr (cased_or fmt lower (cell ''category'' row) ''general'')),
       (''price'', PFloat price),
       (''currency'', PStr (cased_or fmt upper (cell ''currency'' row) ''NGN'')),
       (''in_stock'', PBool (stock_flag (cell ''in_stock'' row) quantity)),
       (''data_tier'', PStr data_tier)]
      @ optional_field ''description'' row @ optional_field ''brand'' row @ optional_field ''warehouse'' row
      @ (case quantity of Some q \<Rightarrow> [(''quantity'', PInt q)] | None \<Rightarrow> []))"

text \<open>
  What becomes of a row: an error, a product, or \<open>int()\<close> of its quantity raises.  A price of plus
  infinity or NaN is no error in the code, but no value of \<open>py\<close>: such a row is \<open>Row_Beyond\<close> the
  model.
\<close>

datatype row_result = Row_Error string | Row_Product py_record | Row_Raises | Row_Beyond

definition priced_row ::
  "(py \<Rightarrow> string) \<Rightarrow> (string \<Rightarrow> parsed) \<Rightarrow> string \<Rightarrow> nat \<Rightarrow> py_record \<Rightarrow> string \<Rightarrow> rat option \<Rightarrow> row_result" where
  "priced_row fmt parse_float data_tier index row name price =
     (case parse_whole parse_float (cell ''quantity'' row) of
        None \<Rightarrow> Row_Raises
      | Some quantity \<Rightarrow>
          (case price of
             None \<Rightarrow> Row_Beyond
           | Some q \<Rightarrow>
               let product = product_of_row fmt row index data_tier name q quantity;
                   errors = validate_product (PDict product) in
               if errors \<noteq> [] then Row_Error (row_error index (join ''; '' errors)) else Row_Product product))"

definition normalize_inventory_row ::
  "(py \<Rightarrow> string) \<Rightarrow> (string \<Rightarrow> parsed) \<Rightarrow> string \<Rightarrow> nat \<Rightarrow> py_record \<Rightarrow> row_result" where
  "normalize_inventory_row fmt parse_float data_tier index raw_row =
     (let row = normalized_row raw_row in
      case cell ''name'' row of
        Some (PStr name) \<Rightarrow>
          (case cell_number parse_float (cell ''price'' row) of
             Number price \<Rightarrow>
               if price < 0 then Row_Error (row_error index ''missing or invalid price'')
               else priced_row fmt parse_float data_tier index row (strip name) (Some price)
           | Plus_Infinity \<Rightarrow> priced_row fmt parse_float data_tier index row (strip name) None
           | Not_A_Num \<Rightarrow> priced_row fmt parse_float data_tier index row (strip name) None
           | _ \<Rightarrow> Row_Error (row_error index ''missing or invalid price''))
      | _ \<Rightarrow> Row_Error (row_error index ''missing product name''))"

text \<open>A row that raises ends the import; else the products and the errors.\<close>

datatype 'a import_outcome = Done 'a | Raises | Beyond

definition normalize_inventory_rows ::
  "(py \<Rightarrow> string) \<Rightarrow> (string \<Rightarrow> parsed) \<Rightarrow> string \<Rightarrow> py_record list \<Rightarrow> (py_record list \<times> string list) import_outcome" where
  "normalize_inventory_rows fmt parse_float data_tier rows =
     (let results = map (\<lambda>(index, row). normalize_inventory_row fmt parse_float data_tier index row) (enumerate 1 rows)
      in if Row_Raises \<in> set results then Raises
         else if Row_Beyond \<in> set results then Beyond
         else Done (concat (map (\<lambda>r. case r of Row_Product p \<Rightarrow> [p] | _ \<Rightarrow> []) results),
           concat (map (\<lambda>r. case r of Row_Error e \<Rightarrow> [e] | _ \<Rightarrow> []) results)))"

section \<open>Equality of values\<close>

text \<open>Python's \<open>==\<close>: numbers by value, dictionaries whatever their order.\<close>

function (sequential) py_equal :: "py \<Rightarrow> py \<Rightarrow> bool" where
  "py_equal (PStr a) (PStr b) = (a = b)"
| "py_equal (PList xs) (PList ys) = (length xs = length ys \<and> (\<forall>p \<in> set (zip xs ys). py_equal (fst p) (snd p)))"
| "py_equal (PDict d) (PDict e) =
     (length d = length e \<and>
      (\<forall>kv \<in> set d. case dget e (fst kv) of None \<Rightarrow> False | Some w \<Rightarrow> py_equal (snd kv) w))"
| "py_equal v w = (v = PNone \<and> w = PNone \<or> number_of v \<noteq> None \<and> number_of v = number_of w)"
  by pat_completeness auto
termination
proof (relation "measure (\<lambda>(v, w). size v)")
  fix xs ys :: "py list" and p
  assume "p \<in> set (zip xs ys)"
  then have "fst p \<in> set xs" by (metis prod.collapse set_zip_leftD)
  then have "size (fst p) < Suc (size_list size xs)" by (induction xs) auto
  then show "((fst p, snd p), (PList xs, PList ys)) \<in> measure (\<lambda>(v, w). size v)" by (cases p) simp
next
  fix d e :: "(string \<times> py) list" and kv w
  assume "kv \<in> set d"
  then show "((snd kv, w), (PDict d, PDict e)) \<in> measure (\<lambda>(v, w). size v)"
    by (induction d) (auto simp: less_Suc_eq_le)
qed simp

section \<open>Writing a collection\<close>

fun batches :: "nat \<Rightarrow> 'a list \<Rightarrow> 'a list list" where
  "batches n [] = []"
| "batches n (x # xs) = take (Suc n) (x # xs) # batches n (drop n xs)"

record import_report =
  ir_written :: nat
  ir_created :: nat
  ir_updated :: nat
  ir_unchanged :: nat
  ir_failed :: nat
  ir_errors :: "string list"

datatype import_fate = Failed string | Unchanged | Updated string py_record | Created string py_record

text \<open>What becomes of one item, given the documents as they are before any is written.\<close>

definition import_item ::
  "(py \<Rightarrow> string) \<Rightarrow> (py \<Rightarrow> string list) \<Rightarrow> string \<Rightarrow> (string \<Rightarrow> py_record option) \<Rightarrow> py \<Rightarrow> import_fate" where
  "import_item fmt validate data_tier existing item =
     (case item of
        PDict d \<Rightarrow>
          (let entry_id = strip (fmt (dget_default d ''id'' (PStr []))) in
           if entry_id = [] then Failed (''entry: missing required field '' @ quoted ''id'')
           else let normalized = setdefault ''data_tier'' (PStr data_tier) d; errors = validate (PDict normalized) in
             if errors \<noteq> [] then Failed (''entry '' @ quoted entry_id @ '': '' @ join ''; '' errors)
             else case existing entry_id of
               None \<Rightarrow> Created entry_id normalized
             | Some data \<Rightarrow> if py_equal (PDict data) (PDict normalized) then Unchanged else Updated entry_id normalized)
      | _ \<Rightarrow> Failed ''entry: item must be an object'')"

definition fate_write :: "import_fate \<Rightarrow> (string \<times> py_record) list" where
  "fate_write f = (case f of Updated i d \<Rightarrow> [(i, d)] | Created i d \<Rightarrow> [(i, d)] | _ \<Rightarrow> [])"

definition write_batch :: "('k \<times> py_record) list \<Rightarrow> ('k, py_record) dict \<Rightarrow> ('k, py_record) dict" where
  "write_batch batch docs = fold (\<lambda>(k, d). dset k d) batch docs"

definition import_company_runtime_docs ::
  "(py \<Rightarrow> string) \<Rightarrow> (py \<Rightarrow> string list) \<Rightarrow> string \<Rightarrow> string \<Rightarrow> string \<Rightarrow> py list
   \<Rightarrow> (doc_key, py_record) dict \<Rightarrow> (doc_key, py_record) dict \<times> import_report" where
  "import_company_runtime_docs fmt validate tenant_id company_id data_tier items docs =
     (let fates = map (import_item fmt validate data_tier (\<lambda>i. dget docs (Doc tenant_id company_id i))) items;
          writes = map (\<lambda>(i, d). (Doc tenant_id company_id i, d)) (concat (map fate_write fates))
      in (fold write_batch (batches 499 writes) docs,
          \<lparr>ir_written = length writes,
           ir_created = length (filter (\<lambda>f. case f of Created _ _ \<Rightarrow> True | _ \<Rightarrow> False) fates),
           ir_updated = length (filter (\<lambda>f. case f of Updated _ _ \<Rightarrow> True | _ \<Rightarrow> False) fates),
           ir_unchanged = length (filter (\<lambda>f. f = Unchanged) fates),
           ir_failed = length (filter (\<lambda>f. case f of Failed _ \<Rightarrow> True | _ \<Rightarrow> False) fates),
           ir_errors = concat (map (\<lambda>f. case f of Failed e \<Rightarrow> [e] | _ \<Rightarrow> []) fates)\<rparr>))"

definition import_company_products ::
  "(py \<Rightarrow> string) \<Rightarrow> string \<Rightarrow> string \<Rightarrow> string \<Rightarrow> py list \<Rightarrow> (doc_key, py_record) dict \<Rightarrow> (doc_key, py_record) dict \<times> import_report" where
  "import_company_products fmt = import_company_runtime_docs fmt validate_product"

definition import_company_booking_slots ::
  "(py \<Rightarrow> string) \<Rightarrow> string \<Rightarrow> string \<Rightarrow> string \<Rightarrow> py list \<Rightarrow> (doc_key, py_record) dict \<Rightarrow> (doc_key, py_record) dict \<times> import_report" where
  "import_company_booking_slots fmt = import_company_runtime_docs fmt validate_booking_slot"

section \<open>The inventory sync\<close>

record sync_result =
  sr_parsed :: nat
  sr_normalized :: nat
  sr_written :: nat
  sr_created :: nat
  sr_updated :: nat
  sr_unchanged :: nat
  sr_failed :: nat
  sr_errors :: "string list"
  sr_dry_run :: bool

definition sync_company_inventory_from_rows ::
  "(py \<Rightarrow> string) \<Rightarrow> (string \<Rightarrow> parsed) \<Rightarrow> string \<Rightarrow> string \<Rightarrow> string \<Rightarrow> bool \<Rightarrow> py_record list
   \<Rightarrow> (doc_key, py_record) dict \<Rightarrow> (doc_key, py_record) dict \<times> sync_result import_outcome" where
  "sync_company_inventory_from_rows fmt parse_float tenant_id company_id data_tier dry_run rows docs =
     (case normalize_inventory_rows fmt parse_float data_tier rows of
        Raises \<Rightarrow> (docs, Raises)
      | Beyond \<Rightarrow> (docs, Beyond)
      | Done (products, errors) \<Rightarrow>
          if dry_run then
            (docs, Done \<lparr>sr_parsed = length rows, sr_normalized = length products, sr_written = 0,
               sr_created = length products, sr_updated = 0, sr_unchanged = 0, sr_failed = length errors,
               sr_errors = errors, sr_dry_run = True\<rparr>)
          else case import_company_products fmt tenant_id company_id data_tier (map PDict products) docs of
            (docs', r) \<Rightarrow>
              (docs', Done \<lparr>sr_parsed = length rows, sr_normalized = length products, sr_written = ir_written r,
                 sr_created = ir_created r, sr_updated = ir_updated r, sr_unchanged = ir_unchanged r,
                 sr_failed = ir_failed r + length errors, sr_errors = errors @ ir_errors r, sr_dry_run = False\<rparr>))"

section \<open>Equality is reflexive\<close>

function (sequential) py_wf :: "py \<Rightarrow> bool" where
  "py_wf (PList xs) = (\<forall>x \<in> set xs. py_wf x)"
| "py_wf (PDict d) = (dict_wf d \<and> (\<forall>kv \<in> set d. py_wf (snd kv)))"
| "py_wf v = True"
  by pat_completeness auto
termination
proof (relation "measure size")
  fix xs :: "py list" and v :: py
  assume "v \<in> set xs"
  then show "(v, PList xs) \<in> measure size" by (induction xs) auto
next
  fix d :: "(string \<times> py) list" and kv
  assume "kv \<in> set d"
  then show "(snd kv, PDict d) \<in> measure size" by (induction d) (auto simp: less_Suc_eq_le)
qed simp

lemma py_equal_refl: "py_wf v \<Longrightarrow> py_equal v v"
proof (induction v rule: py_wf.induct)
  case (1 xs)
  have "py_equal (fst p) (snd p)" if "p \<in> set (zip xs xs)" for p
  proof -
    have n: "fst p \<in> set xs" "snd p = fst p" using that by (auto simp: zip_same_conv_map)
    then have "py_wf (fst p)" using 1(2) unfolding py_wf.simps by blast
    then show ?thesis unfolding n(2) by (rule 1(1) [OF n(1)])
  qed
  then show ?case by simp
next
  case (2 d)
  have "case dget d (fst kv) of None \<Rightarrow> False | Some w \<Rightarrow> py_equal (snd kv) w" if "kv \<in> set d" for kv
  proof -
    have "dget d (fst kv) = Some (snd kv)" using 2(2) that by (intro in_set_dget) simp_all
    moreover have "py_equal (snd kv) (snd kv)" using 2 that by (metis py_wf.simps(2))
    ultimately show ?thesis by simp
  qed
  then show ?case by simp
qed simp_all

section \<open>Writing\<close>

lemma concat_batches: "concat (batches n xs) = xs"
  by (induction n xs rule: batches.induct) simp_all

lemma batches_bounded: "b \<in> set (batches n xs) \<Longrightarrow> b \<noteq> [] \<and> length b \<le> Suc n"
  by (induction n xs rule: batches.induct) auto

lemma write_batches: "fold write_batch (batches n ws) docs = fold (\<lambda>(k, d). dset k d) ws docs"
proof -
  have "fold write_batch bs docs = fold (\<lambda>(k, d). dset k d) (concat bs) docs" for bs
    by (induction bs arbitrary: docs) (simp_all add: write_batch_def)
  from this [of "batches n ws"] show ?thesis by (simp add: concat_batches)
qed

text \<open>The documents after a list of writes: the last write of a key, or what was there.\<close>

lemma dget_writes: "dget (fold (\<lambda>(k, d). dset k d) ws docs) k =
    (case dget (rev ws) k of Some d \<Rightarrow> Some d | None \<Rightarrow> dget docs k)"
  by (induction ws arbitrary: docs) (auto simp: map_add_def split: option.splits)

lemma dget_writes_distinct:
  assumes "distinct (map fst ws)"
  shows "dget (fold (\<lambda>(k, d). dset k d) ws docs) k = (case dget ws k of Some d \<Rightarrow> Some d | None \<Rightarrow> dget docs k)"
proof (cases "dget ws k")
  case None
  then have "dget (rev ws) k = None" by (simp add: map_of_eq_None_iff)
  with None show ?thesis by (simp add: dget_writes)
next
  case (Some d)
  then have "(k, d) \<in> set (rev ws)" using dget_in_set [of ws k d] by simp
  then have "dget (rev ws) k = Some d" using assms by (intro in_set_dget) (simp_all add: dict_wf_def flip: rev_map)
  with Some show ?thesis by (simp add: dget_writes)
qed

end
