(* ===== verification/Inventory_Import.thy ===== *)
theory Inventory_Import
  imports Inventory
begin

text \<open>
  What an import does to a company's collection: the documents it leaves, the counts it
  reports, what a second import of the same items does, and what it does to held slots.
\<close>

section \<open>Entries\<close>

text \<open>An item that is imported: its document identifier and the document stored.\<close>

definition valid_entry ::
  "(py \<Rightarrow> string) \<Rightarrow> (py \<Rightarrow> string list) \<Rightarrow> string \<Rightarrow> py \<Rightarrow> (string \<times> py_record) option" where
  "valid_entry fmt validate data_tier item =
     (case item of
        PDict d \<Rightarrow>
          (let i = strip (fmt (dget_default d ''id'' (PStr []))); n = setdefault ''data_tier'' (PStr data_tier) d
           in if i \<noteq> [] \<and> validate (PDict n) = [] then Some (i, n) else None)
      | _ \<Rightarrow> None)"

definition same_as :: "(string \<Rightarrow> py_record option) \<Rightarrow> string \<times> py_record \<Rightarrow> bool" where
  "same_as existing e = (case existing (fst e) of None \<Rightarrow> False | Some d \<Rightarrow> py_equal (PDict d) (PDict (snd e)))"

lemma import_item_cases:
  obtains (invalid) e where "valid_entry fmt validate tier item = None" "import_item fmt validate tier existing item = Failed e"
  | (same) i n where "valid_entry fmt validate tier item = Some (i, n)" "same_as existing (i, n)"
      "import_item fmt validate tier existing item = Unchanged"
  | (updated) i n where "valid_entry fmt validate tier item = Some (i, n)" "\<not> same_as existing (i, n)"
      "import_item fmt validate tier existing item = Updated i n"
  | (created) i n where "valid_entry fmt validate tier item = Some (i, n)" "\<not> same_as existing (i, n)"
      "import_item fmt validate tier existing item = Created i n"
proof (cases item)
  case (PDict d)
  define i where "i = strip (fmt (dget_default d ''id'' (PStr [])))"
  define n where "n = setdefault ''data_tier'' (PStr tier) d"
  have v: "valid_entry fmt validate tier item = (if i \<noteq> [] \<and> validate (PDict n) = [] then Some (i, n) else None)"
    by (simp add: valid_entry_def PDict Let_def flip: i_def n_def)
  have f: "import_item fmt validate tier existing item =
     (if i = [] then Failed (''entry: missing required field '' @ quoted ''id'')
      else if validate (PDict n) \<noteq> [] then Failed (''entry '' @ quoted i @ '': '' @ join ''; '' (validate (PDict n)))
      else case existing i of None \<Rightarrow> Created i n
        | Some data \<Rightarrow> if py_equal (PDict data) (PDict n) then Unchanged else Updated i n)"
    by (simp add: import_item_def PDict Let_def flip: i_def n_def)
  show thesis
  proof (cases "i \<noteq> [] \<and> validate (PDict n) = []")
    case True
    show thesis
    proof (cases "existing i")
      case None
      with True show thesis by (intro created [of i n]) (simp_all add: v f same_as_def)
    next
      case (Some data)
      show thesis
      proof (cases "py_equal (PDict data) (PDict n)")
        case eq: True
        with True Some show thesis by (intro same [of i n]) (simp_all add: v f same_as_def)
      next
        case neq: False
        with True Some show thesis by (intro updated [of i n]) (simp_all add: v f same_as_def)
      qed
    qed
  next
    case False
    show thesis
    proof (cases "i = []")
      case True
      then show thesis by (intro invalid [of "''entry: missing required field '' @ quoted ''id''"]) (simp_all only: v f simp_thms if_True if_False)
    next
      case nonblank: False
      then have "validate (PDict n) \<noteq> []" using False by blast
      with nonblank show thesis by (intro invalid) (simp_all only: v f simp_thms if_True if_False)
    qed
  qed
qed (use invalid in \<open>simp_all add: valid_entry_def import_item_def\<close>)

definition entries :: "(py \<Rightarrow> string) \<Rightarrow> (py \<Rightarrow> string list) \<Rightarrow> string \<Rightarrow> py list \<Rightarrow> (string \<times> py_record) list" where
  "entries fmt validate tier items = List.map_filter (valid_entry fmt validate tier) items"

lemma import_writes:
  "concat (map fate_write (map (import_item fmt validate tier existing) items)) =
     filter (\<lambda>e. \<not> same_as existing e) (entries fmt validate tier items)"
proof (induction items)
  case (Cons item items)
  show ?case
    by (cases rule: import_item_cases [of fmt validate tier item existing])
      (use Cons.IH in \<open>simp_all add: fate_write_def entries_def map_filter_simps\<close>)
qed (simp add: entries_def map_filter_simps)

lemma import_counts:
  fixes fates :: "import_fate list"
  shows "length (filter (\<lambda>f. case f of Created _ _ \<Rightarrow> True | _ \<Rightarrow> False) fates)
     + length (filter (\<lambda>f. case f of Updated _ _ \<Rightarrow> True | _ \<Rightarrow> False) fates)
     + length (filter (\<lambda>f. f = Unchanged) fates)
     + length (filter (\<lambda>f. case f of Failed _ \<Rightarrow> True | _ \<Rightarrow> False) fates) = length fates"
    and "length (concat (map fate_write fates)) =
      length (filter (\<lambda>f. case f of Created _ _ \<Rightarrow> True | _ \<Rightarrow> False) fates)
     + length (filter (\<lambda>f. case f of Updated _ _ \<Rightarrow> True | _ \<Rightarrow> False) fates)"
  by (induction fates) (auto simp: fate_write_def split: import_fate.splits)

abbreviation import_docs where "import_docs \<equiv> import_company_runtime_docs"

lemma import_report_counts:
  "ir_created (snd (import_docs fmt validate t c tier items docs)) + ir_updated (snd (import_docs fmt validate t c tier items docs))
     + ir_unchanged (snd (import_docs fmt validate t c tier items docs))
     + ir_failed (snd (import_docs fmt validate t c tier items docs)) = length items"
  "ir_written (snd (import_docs fmt validate t c tier items docs)) =
     ir_created (snd (import_docs fmt validate t c tier items docs)) + ir_updated (snd (import_docs fmt validate t c tier items docs))"
  unfolding import_company_runtime_docs_def Let_def
  by (simp_all only: snd_conv import_report.select_convs length_map import_counts)

lemma import_docs_writes:
  "fst (import_docs fmt validate t c tier items docs) =
     fold (\<lambda>(k, d). dset k d) (map (\<lambda>(i, d). (Doc t c i, d))
       (filter (\<lambda>e. \<not> same_as (\<lambda>i. dget docs (Doc t c i)) e) (entries fmt validate tier items))) docs"
  unfolding import_company_runtime_docs_def Let_def fst_conv write_batches import_writes ..

lemma dget_doc_keys: "dget (map (\<lambda>(i, d). (Doc t c i, d)) es) (Doc t c i) = dget es i"
  by (induction es) auto

lemma import_other_scope:
  assumes "(doc_tenant k, doc_company k) \<noteq> (t, c)"
  shows "dget (fst (import_docs fmt validate t c tier items docs)) k = dget docs k"
proof -
  have "dget (rev (map (\<lambda>(i, d). (Doc t c i, d)) es)) k = None" for es :: "(string \<times> py_record) list"
    using assms by (cases k) (auto simp: map_of_eq_None_iff)
  then show ?thesis by (simp add: import_docs_writes dget_writes)
qed

lemma dget_filter_distinct:
  assumes "distinct (map fst es)"
  shows "dget (filter P es) i = (case dget es i of None \<Rightarrow> None | Some n \<Rightarrow> if P (i, n) then Some n else None)"
  using assms by (induction es) (auto simp: map_of_eq_None_iff split: option.splits)

text \<open>Distinct identifiers: each valid entry ends up stored, up to Python's equality.\<close>

lemma import_stores:
  assumes "distinct (map fst (entries fmt validate tier items))"
  shows "dget (fst (import_docs fmt validate t c tier items docs)) (Doc t c i) =
    (case dget (entries fmt validate tier items) i of
       None \<Rightarrow> dget docs (Doc t c i)
     | Some n \<Rightarrow> if same_as (\<lambda>i. dget docs (Doc t c i)) (i, n) then dget docs (Doc t c i) else Some n)"
proof -
  let ?E = "entries fmt validate tier items"
  let ?W = "filter (\<lambda>e. \<not> same_as (\<lambda>i. dget docs (Doc t c i)) e) ?E"
  have "distinct (map fst ?W)" using assms by (simp add: distinct_map_filter)
  then have dist: "distinct (map fst (map (\<lambda>(i, d). (Doc t c i, d)) ?W))"
    by (auto simp: distinct_map inj_on_def)
  have "dget ?W i = (case dget ?E i of None \<Rightarrow> None
      | Some n \<Rightarrow> if same_as (\<lambda>i. dget docs (Doc t c i)) (i, n) then None else Some n)"
    using dget_filter_distinct [OF assms, of "\<lambda>e. \<not> same_as (\<lambda>i. dget docs (Doc t c i)) e" i] by (simp split: option.splits)
  then show ?thesis
    unfolding import_docs_writes dget_writes_distinct [OF dist] dget_doc_keys
    by (simp split: option.splits)
qed

section \<open>Importing twice\<close>

lemma entries_mem:
  assumes "(i, n) \<in> set (entries fmt validate tier items)"
  obtains d where "PDict d \<in> set items" "n = setdefault ''data_tier'' (PStr tier) d"
    "i = strip (fmt (dget_default d ''id'' (PStr [])))" "i \<noteq> []" "validate (PDict n) = []"
proof -
  obtain item where "item \<in> set items" "valid_entry fmt validate tier item = Some (i, n)"
    using assms by (auto simp: entries_def List.map_filter_def)
  moreover from this(2) obtain d where "item = PDict d" by (cases item) (simp_all add: valid_entry_def)
  ultimately show thesis
    by (intro that [of d]) (simp_all add: valid_entry_def Let_def split: if_splits)
qed

lemma setdefault_wf:
  assumes "py_wf (PDict d)"
  shows "py_wf (PDict (setdefault k (PStr s) d))"
proof (cases "dget d k")
  case None
  have "\<forall>kv \<in> set (dset k (PStr s) d). py_wf (snd kv)"
    using assms set_dset_subset [of k "PStr s" d] by auto
  then show ?thesis using assms None by (simp add: setdefault_def)
qed (use assms in \<open>simp add: setdefault_def\<close>)

text \<open>
  Importing is settled after one run: when the items carry distinct identifiers, every valid
  item is stored up to Python's equality, all other documents stay, the counts add up to the
  number of items, and importing the same items again writes nothing.
\<close>

theorem import_settles:
  assumes "distinct (map fst (entries fmt validate tier items))" and "\<forall>item \<in> set items. py_wf item"
    and "import_company_runtime_docs fmt validate t c tier items docs = (docs', r)"
  shows "(\<forall>(i, n) \<in> set (entries fmt validate tier items).
        \<exists>d. dget docs' (Doc t c i) = Some d \<and> py_equal (PDict d) (PDict n)) \<and>
    (\<forall>k. k \<notin> (\<lambda>(i, n). Doc t c i) ` set (entries fmt validate tier items) \<longrightarrow> dget docs' k = dget docs k) \<and>
    ir_created r + ir_updated r + ir_unchanged r + ir_failed r = length items \<and> ir_written r = ir_created r + ir_updated r \<and>
    fst (import_company_runtime_docs fmt validate t c tier items docs') = docs' \<and>
    ir_written (snd (import_company_runtime_docs fmt validate t c tier items docs')) = 0"
proof -
  let ?E = "entries fmt validate tier items"
  have docs': "docs' = fst (import_docs fmt validate t c tier items docs)" and r: "r = snd (import_docs fmt validate t c tier items docs)"
    using assms(3) by simp_all
  note stored = import_stores [OF assms(1), where t = t and c = c and docs = docs, folded docs']
  have same: "\<exists>d. dget docs' (Doc t c i) = Some d \<and> py_equal (PDict d) (PDict n)" if e: "(i, n) \<in> set ?E" for i n
  proof -
    obtain d where "PDict d \<in> set items" "n = setdefault ''data_tier'' (PStr tier) d" using entries_mem [OF e] by metis
    then have "py_equal (PDict n) (PDict n)" using assms(2) setdefault_wf py_equal_refl by metis
    moreover have "dget ?E i = Some n" using assms(1) e by (simp add: in_set_dget dict_wf_def)
    ultimately show ?thesis
      using stored [of i] by (auto simp: same_as_def simp del: py_equal.simps split: option.splits if_splits)
  qed
  have "dget docs' k = dget docs k" if "k \<notin> (\<lambda>(i, n). Doc t c i) ` set ?E" for k
  proof (cases "(doc_tenant k, doc_company k) = (t, c)")
    case True
    then have k: "k = Doc t c (doc_id k)" by (cases k) simp
    then have "dget ?E (doc_id k) = None" using that by (force simp: map_of_eq_None_iff)
    then show ?thesis using stored [of "doc_id k"] k by simp
  qed (use import_other_scope in \<open>simp add: docs'\<close>)
  moreover have "filter (\<lambda>e. \<not> same_as (\<lambda>i. dget docs' (Doc t c i)) e) ?E = []"
    using same by (fastforce simp: filter_empty_conv same_as_def simp del: py_equal.simps)
  then have "fst (import_docs fmt validate t c tier items docs') = docs'"
    and "ir_written (snd (import_docs fmt validate t c tier items docs')) = 0"
    by (simp add: import_docs_writes, simp only: import_company_runtime_docs_def Let_def snd_conv import_report.select_convs import_writes length_map, simp)
  moreover note import_report_counts [where docs = docs, of fmt validate t c tier items, folded r]
  ultimately show ?thesis using same by blast
qed

definition sample_item :: "string \<Rightarrow> string \<Rightarrow> py" where
  "sample_item i name = PDict [(''id'', PStr i), (''name'', PStr name), (''category'', PStr ''tablets''),
     (''price'', PInt 5), (''currency'', PStr ''NGN''), (''in_stock'', PBool True)]"

theorem import_settles_witness:
  "ir_written (snd (import_company_runtime_docs plain_text validate_product ''t'' ''c'' ''demo''
     [sample_item ''a'' ''A'', PNone, sample_item ''b'' ''B'']
     (fst (import_company_runtime_docs plain_text validate_product ''t'' ''c'' ''demo''
       [sample_item ''a'' ''A'', PNone, sample_item ''b'' ''B''] [])))) = 0"
proof -
  let ?items = "[sample_item ''a'' ''A'', PNone, sample_item ''b'' ''B'']"
  have "distinct (map fst (entries plain_text validate_product ''demo'' ?items))" by code_simp
  moreover have "\<forall>item \<in> set ?items. py_wf item" by (simp add: sample_item_def dict_wf_def)
  ultimately show ?thesis by (rule import_settles [OF _ _ prod.collapse [symmetric], THEN conjunct2, THEN conjunct2,
    THEN conjunct2, THEN conjunct2, THEN conjunct2])
qed

text \<open>
  Two items with one identifier never settle: items are compared with the documents as they
  were before the import, so each import of the same file stores the other one of the two.
\<close>

theorem duplicate_ids_flip:
  assumes "valid_entry fmt validate tier a = Some (i, na)" and "valid_entry fmt validate tier b = Some (i, nb)"
    and "\<not> py_equal (PDict nb) (PDict na)" and "py_wf (PDict nb)" and "dget docs (Doc t c i) = None"
    and "docs1 = fst (import_company_runtime_docs fmt validate t c tier [a, b] docs)"
  shows "dget docs1 (Doc t c i) = Some nb \<and>
    dget (fst (import_company_runtime_docs fmt validate t c tier [a, b] docs1)) (Doc t c i) = Some na"
proof -
  have e: "entries fmt validate tier [a, b] = [(i, na), (i, nb)]"
    using assms(1,2) by (simp add: entries_def map_filter_simps)
  have 1: "dget docs1 (Doc t c i) = Some nb"
    using assms(5) unfolding assms(6) import_docs_writes e by (simp add: same_as_def)
  then show ?thesis
    using assms(3) py_equal_refl [OF assms(4)] unfolding import_docs_writes e
    by (simp add: same_as_def del: py_equal.simps)
qed

definition sample_stored :: "string \<Rightarrow> py_record" where
  "sample_stored name = dict_or_empty (sample_item ''a'' name) @ [(''data_tier'', PStr ''demo'')]"

theorem duplicate_ids_flip_witness:
  "dget (fst (import_company_runtime_docs plain_text validate_product ''t'' ''c'' ''demo'' [sample_item ''a'' ''A'', sample_item ''a'' ''B'']
     (fst (import_company_runtime_docs plain_text validate_product ''t'' ''c'' ''demo'' [sample_item ''a'' ''A'', sample_item ''a'' ''B''] []))))
     (Doc ''t'' ''c'' ''a'') = Some (sample_stored ''A'')"
proof -
  have n: "valid_entry plain_text validate_product ''demo'' (sample_item ''a'' ''A'') = Some (''a'', sample_stored ''A'')"
      "valid_entry plain_text validate_product ''demo'' (sample_item ''a'' ''B'') = Some (''a'', sample_stored ''B'')"
      "\<not> py_equal (PDict (sample_stored ''B'')) (PDict (sample_stored ''A''))" "py_wf (PDict (sample_stored ''B''))"
    by code_simp+
  show ?thesis by (rule duplicate_ids_flip [OF n _ refl, THEN conjunct2]) simp
qed

section \<open>Slots\<close>

lemma unequal_flag:
  assumes "dget f k = Some (PBool False)" and "dget n k = Some (PBool True)"
  shows "\<not> py_equal (PDict f) (PDict n)"
proof -
  have "(k, PBool False) \<in> set f" by (rule dget_in_set [OF assms(1)])
  then show ?thesis using assms(2) by (auto intro!: bexI [of _ "(k, PBool False)"])
qed

text \<open>
  Importing booking slots overwrites the state of a slot that somebody holds: the booking
  of a held slot is refused before the import and accepted after it, while the first
  booking stays confirmed.  The demo seed does this with its own slots.
\<close>

theorem slot_import_double_books:
  assumes "scope_of ctx = Some (t, c)" and "dget (slots db) (Doc t c (br_slot r)) = Some f"
    and "dget f ''available'' = Some (PBool False)"
    and "valid_entry fmt validate_booking_slot tier item = Some (br_slot r, n)" and "dget n ''available'' = Some (PBool True)"
    and "db' = db\<lparr>slots := fst (import_company_booking_slots fmt t c tier [item] (slots db))\<rparr>"
  shows "create_booking ctx r db = (db, Inl Slot_Taken) \<and>
    snd (create_booking ctx r db') = Inr (new_booking ctx r n) \<and> bookings db' = bookings db"
proof -
  have "entries fmt validate_booking_slot tier [item] = [(br_slot r, n)]"
    using assms(4) by (simp add: entries_def map_filter_simps)
  moreover have "\<not> same_as (\<lambda>i. dget (slots db) (Doc t c i)) (br_slot r, n)"
    using unequal_flag [OF assms(3,5)] assms(2) by (simp add: same_as_def del: py_equal.simps)
  ultimately have "dget (slots db') (Doc t c (br_slot r)) = Some n"
    unfolding assms(6) import_company_booking_slots_def by (simp add: import_docs_writes)
  then have "snd (create_booking ctx r db') = Inr (new_booking ctx r n)"
    using assms(1,5) by (simp add: create_booking_def dget_default_def Let_def)
  moreover have "create_booking ctx r db = (db, Inl Slot_Taken)"
    using assms(1,2,3) by (simp add: create_booking_def dget_default_def)
  ultimately show ?thesis using assms(6) by simp
qed

definition sample_held :: booking_db where
  "sample_held = fst (create_booking sample_ctx (sample_booking ''u'' ''1'') (store sample_system))"

definition sample_slot_fields :: py_record where
  "sample_slot_fields = [(''id'', PStr ''s''), (''date'', PStr ''2026-03-01''), (''time'', PStr ''10:00''),
     (''available'', PBool True), (''data_tier'', PStr ''demo'')]"

theorem slot_import_double_books_witness:
  "snd (create_booking sample_ctx (sample_booking ''v'' ''2'')
     (sample_held\<lparr>slots := fst (import_company_booking_slots plain_text ''t'' ''c'' ''demo'' [PDict sample_slot_fields] (slots sample_held))\<rparr>))
   = Inr (new_booking sample_ctx (sample_booking ''v'' ''2'') sample_slot_fields)"
proof -
  have "dget (slots sample_held) (Doc ''t'' ''c'' (br_slot (sample_booking ''v'' ''2''))) = Some [(''available'', PBool False)]"
    and "valid_entry plain_text validate_booking_slot ''demo'' (PDict sample_slot_fields) =
      Some (br_slot (sample_booking ''v'' ''2''), sample_slot_fields)"
    by code_simp+
  from slot_import_double_books [OF sample_scope this(1) _ this(2) _ refl] show ?thesis
    by (simp add: sample_slot_fields_def)
qed

section \<open>The catalog\<close>

text \<open>Every stored product is valid and carries the identifier it is stored under.\<close>

definition catalog_ok :: "(py \<Rightarrow> string) \<Rightarrow> (doc_key, py_record) dict \<Rightarrow> bool" where
  "catalog_ok fmt docs \<longleftrightarrow>
     (\<forall>k d. dget docs k = Some d \<longrightarrow> validate_product (PDict d) = [] \<and> strip (fmt (py_get d ''id'')) = doc_id k)"

lemma import_origin:
  assumes "dget (fst (import_docs fmt validate t c tier items docs)) k = Some d"
  shows "dget docs k = Some d \<or> (\<exists>i. k = Doc t c i \<and> (i, d) \<in> set (entries fmt validate tier items))"
  using assms unfolding import_docs_writes dget_writes
  by (auto split: option.splits dest!: dget_in_set)

lemma products_keep_catalog:
  assumes "catalog_ok fmt docs"
  shows "catalog_ok fmt (fst (import_company_products fmt t c tier items docs))"
  unfolding catalog_ok_def import_company_products_def
proof (intro allI impI)
  fix k d
  assume "dget (fst (import_docs fmt validate_product t c tier items docs)) k = Some d"
  then consider "dget docs k = Some d" | i where "k = Doc t c i" "(i, d) \<in> set (entries fmt validate_product tier items)"
    using import_origin by blast
  then show "validate_product (PDict d) = [] \<and> strip (fmt (py_get d ''id'')) = doc_id k"
  proof cases
    case 1
    then show ?thesis using assms by (simp add: catalog_ok_def)
  next
    case 2
    then obtain d0 where d: "d = setdefault ''data_tier'' (PStr tier) d0" "i = strip (fmt (dget_default d0 ''id'' (PStr [])))"
        "validate_product (PDict d) = []" by (metis entries_mem)
    then have "nonblank_text (py_get d ''id'')" unfolding product_ok_iff by blast
    moreover have "py_get d ''id'' = py_get d0 ''id''" by (simp add: d(1) py_get_setdefault_other)
    ultimately have "dget_default d0 ''id'' (PStr []) = py_get d ''id''"
      by (simp add: py_get_def dget_default_def split: option.splits)
    then show ?thesis using d 2(1) by simp
  qed
qed

lemma inventory_row_results:
  assumes "normalize_inventory_rows fmt pf tier rows = Done (products, errors)"
  shows "length products + length errors = length rows"
proof -
  have count: "length (concat (map (\<lambda>r. case r of Row_Product p \<Rightarrow> [p] | _ \<Rightarrow> []) rs)) +
      length (concat (map (\<lambda>r. case r of Row_Error e \<Rightarrow> [e] | _ \<Rightarrow> []) rs)) = length rs"
    if "Row_Raises \<notin> set rs" "Row_Beyond \<notin> set rs" for rs
    using that by (induction rs) (auto split: row_result.splits)
  show ?thesis
    using assms count [of "map (\<lambda>(index, row). normalize_inventory_row fmt pf tier index row) (enumerate 1 rows)"]
    unfolding normalize_inventory_rows_def Let_def by (auto split: if_split_asm)
qed

lemma priced_row_raises:
  "priced_row fmt pf tier index row name price = Row_Raises \<longleftrightarrow> parse_whole pf (cell ''quantity'' row) = None"
  by (simp add: priced_row_def Let_def del: validate_product.simps split: option.split)

lemma priced_row_beyond: "priced_row fmt pf tier index row name (Some q) \<noteq> Row_Beyond"
  by (simp add: priced_row_def Let_def del: validate_product.simps split: option.split)

lemma row_raises:
  assumes "normalize_inventory_row fmt pf tier index row = Row_Raises"
  shows "parse_whole pf (cell ''quantity'' (normalized_row row)) = None"
proof (cases "cell ''name'' (normalized_row row)")
  case (Some v)
  then show ?thesis
    using assms
    by (cases v; cases "cell_number pf (cell ''price'' (normalized_row row))")
       (auto simp only: normalize_inventory_row_def Let_def priced_row_raises option.case py.case parsed.case
         row_result.distinct split: if_split_asm)
qed (use assms in \<open>simp add: normalize_inventory_row_def\<close>)

lemma row_beyond:
  assumes "normalize_inventory_row fmt pf tier index row = Row_Beyond"
  shows "cell_number pf (cell ''price'' (normalized_row row)) \<in> {Plus_Infinity, Not_A_Num}"
proof (cases "cell ''name'' (normalized_row row)")
  case (Some v)
  then show ?thesis
    using assms
    by (cases v; cases "cell_number pf (cell ''price'' (normalized_row row))")
       (auto simp only: normalize_inventory_row_def Let_def priced_row_beyond option.case py.case parsed.case
         row_result.distinct insert_iff split: if_split_asm)
qed (use assms in \<open>simp add: normalize_inventory_row_def\<close>)

lemma row_result_at:
  assumes "x \<in> set (map (\<lambda>(index, row). normalize_inventory_row fmt pf tier index row) (enumerate n rows))"
  shows "\<exists>row \<in> set rows. \<exists>index. normalize_inventory_row fmt pf tier index row = x"
  using assms by (induction rows arbitrary: n) (simp, simp only: enumerate_simps list.map list.set prod.case, blast)

lemma rows_raise:
  assumes "normalize_inventory_rows fmt pf tier rows = Raises"
  shows "\<exists>row \<in> set rows. parse_whole pf (cell ''quantity'' (normalized_row row)) = None"
proof -
  have "Row_Raises \<in> set (map (\<lambda>(index, row). normalize_inventory_row fmt pf tier index row) (enumerate 1 rows))"
    using assms unfolding normalize_inventory_rows_def Let_def by (simp split: if_split_asm del: set_map)
  from row_result_at [OF this] show ?thesis using row_raises by blast
qed

lemma rows_beyond:
  assumes "normalize_inventory_rows fmt pf tier rows = Beyond"
  shows "\<exists>row \<in> set rows. cell_number pf (cell ''price'' (normalized_row row)) \<in> {Plus_Infinity, Not_A_Num}"
proof -
  have "Row_Beyond \<in> set (map (\<lambda>(index, row). normalize_inventory_row fmt pf tier index row) (enumerate 1 rows))"
    using assms unfolding normalize_inventory_rows_def Let_def by (simp split: if_split_asm del: set_map)
  from row_result_at [OF this] show ?thesis using row_beyond by blast
qed

text \<open>
  C25 An inventory sync keeps the catalog in order: every stored product stays valid and stored
  under its own identifier, nothing outside the company's collection changes, and a dry run
  writes nothing.  Either every row is accounted for, or some row's quantity reads as infinity
  or NaN, and the whole sync raises with nothing written.  Firestore's calls are taken to
  work, and rows whose price reads as plus infinity or NaN, which the code stores, are outside
  the model.
\<close>

theorem inventory_sync_keeps_catalog:
  assumes "catalog_ok fmt docs"
    and "sync_company_inventory_from_rows fmt pf t c tier dry rows docs = (docs', r)"
  shows "catalog_ok fmt docs' \<and>
    (\<forall>k. (doc_tenant k, doc_company k) \<noteq> (t, c) \<longrightarrow> dget docs' k = dget docs k) \<and>
    (dry \<longrightarrow> docs' = docs) \<and>
    (case r of
       Done r \<Rightarrow> sr_created r + sr_updated r + sr_unchanged r + sr_failed r = length rows
     | Raises \<Rightarrow> docs' = docs \<and> (\<exists>row \<in> set rows. parse_whole pf (cell ''quantity'' (normalized_row row)) = None)
     | Beyond \<Rightarrow> \<exists>row \<in> set rows. cell_number pf (cell ''price'' (normalized_row row)) \<in> {Plus_Infinity, Not_A_Num})"
proof (cases "normalize_inventory_rows fmt pf tier rows")
  case Raises
  then have "docs' = docs" "r = Raises" using assms(2) by (simp_all add: sync_company_inventory_from_rows_def)
  then show ?thesis using assms(1) rows_raise [OF Raises] by simp
next
  case Beyond
  then have "docs' = docs" "r = Beyond" using assms(2) by (simp_all add: sync_company_inventory_from_rows_def)
  then show ?thesis using assms(1) rows_beyond [OF Beyond] by simp
next
  case (Done n')
  then obtain products errors where n: "normalize_inventory_rows fmt pf tier rows = Done (products, errors)"
    by (cases n') simp
  note len = inventory_row_results [OF n]
  show ?thesis
  proof (cases dry)
    case True
    then show ?thesis using assms len by (auto simp: sync_company_inventory_from_rows_def n)
  next
    case False
    obtain d' ir where i: "import_company_products fmt t c tier (map PDict products) docs = (d', ir)" by force
    obtain s where s: "docs' = d'" "r = Done s" "sr_created s + sr_updated s + sr_unchanged s + sr_failed s =
        ir_created ir + ir_updated ir + ir_unchanged ir + ir_failed ir + length errors"
      using assms(2) False i by (auto simp: sync_company_inventory_from_rows_def n)
    have "ir_created ir + ir_updated ir + ir_unchanged ir + ir_failed ir = length products"
      using import_report_counts(1) [of fmt validate_product t c tier "map PDict products" docs] i
      by (simp add: import_company_products_def)
    moreover have "catalog_ok fmt d'" using products_keep_catalog [OF assms(1), of t c tier "map PDict products"] by (simp add: i)
    moreover have "dget d' k = dget docs k" if "(doc_tenant k, doc_company k) \<noteq> (t, c)" for k
      using import_other_scope [OF that, of fmt validate_product tier "map PDict products" docs] i
      by (simp add: import_company_products_def)
    ultimately show ?thesis using len False s by simp
  qed
qed

definition sample_rows :: "py_record list" where
  "sample_rows = [[(''Product Name'', PStr '' Tab ''), (''Unit-Price'', PStr ''1,200''), (''Qty'', PInt 3)],
     [(''Product Name'', PStr ''Case''), (''Price'', PStr ''free'')]]"

definition sample_float :: "string \<Rightarrow> parsed" where
  "sample_float s = (if s = ''inf'' then Plus_Infinity else case py_int s of None \<Rightarrow> No_Number | Some i \<Rightarrow> Number (of_int i))"

theorem inventory_sync_keeps_catalog_witness:
  "catalog_ok plain_text (fst (sync_company_inventory_from_rows plain_text sample_float ''t'' ''c'' ''admin'' False sample_rows []))"
  by (rule inventory_sync_keeps_catalog [OF _ prod.collapse [symmetric], THEN conjunct1]) (simp add: catalog_ok_def)

lemma sample_sync:
  "map_option (\<lambda>d. (py_get d ''price'', py_get d ''in_stock''))
     (dget (fst (sync_company_inventory_from_rows plain_text sample_float ''t'' ''c'' ''admin'' False sample_rows []))
       (Doc ''t'' ''c'' ''tab-1'')) = Some (PFloat 1200, PBool True)"
  by code_simp

text \<open>One quantity that reads as infinity keeps all rows of the file out of the catalog.\<close>

lemma infinite_quantity_aborts:
  "sync_company_inventory_from_rows plain_text sample_float ''t'' ''c'' ''admin'' False
     (sample_rows @ [[(''Name'', PStr ''Pen''), (''Price'', PInt 1), (''Qty'', PStr ''inf'')]]) [] = ([], Raises)"
  by code_simp

end
