(* ===== verification/Admin_Auth.thy ===== *)
theory Admin_Auth
  imports Core_Helpers Runtime_Ids
begin

text \<open>
  \<open>app/api/v1/admin/auth.py\<close>: who an admin request comes from (a JWT of the identity-aware
  proxy, or the headers of a trusted caller), what it may do, and the checks every admin route
  begins with.  Verifying a JWT is the Google library's: \<open>verify assertion audience\<close> are its
  claims, or \<open>None\<close> when it raises; \<open>fmt\<close> is \<open>str()\<close> of a claim.
\<close>

section \<open>Settings and contexts\<close>

record admin_settings =
  ADMIN_ALLOWED_ROLE_SET :: "string set"
  ADMIN_RATE_LIMIT :: int
  ADMIN_SHARED_SECRET :: string
  ADMIN_REQUIRE_SHARED_SECRET :: bool
  ADMIN_AUTH_MODE :: string
  ADMIN_IAP_AUDIENCE :: string
  ADMIN_IAP_ALLOWED_ISSUERS :: "string set"
  ADMIN_IAP_ALLOWLIST_EMAILS :: "string set"
  ADMIN_IAP_DEFAULT_SCOPES :: "string set"
  ADMIN_DEFAULT_TENANT_ID :: string
  TOKEN_ALLOWED_TENANTS :: "string set"
  ALLOWED_ORIGIN_SET :: "string set"

definition ADMIN_READ_SCOPE_SET :: "string set" where
  "ADMIN_READ_SCOPE_SET = {''admin:read'', ''admin:write'', ''admin:*''}"

definition ADMIN_WRITE_SCOPE_SET :: "string set" where
  "ADMIN_WRITE_SCOPE_SET = {''admin:write'', ''admin:*''}"

record admin_auth_context =
  ctx_user_id :: string
  ctx_tenant_id :: string
  ctx_roles :: "string set"
  ctx_scopes :: "string set"

datatype admin_error =
    IapNotConfigured | IapTokenRequired | IapTokenInvalid | IapIssuerInvalid
  | IdentityForbidden | Unauthorized | AuthNotConfigured | SharedSecretInvalid
  | OriginNotAllowed | TenantForbidden | ScopeRequired | AdminRateLimitExceeded

type_synonym request_headers = "(string, string) dict"

definition get_header :: "request_headers \<Rightarrow> string \<Rightarrow> string" where
  "get_header hs name = dget_default hs name []"

section \<open>Claims\<close>

definition normal_texts :: "string list \<Rightarrow> string set" where
  "normal_texts items = set (map (\<lambda>s. lower (strip s)) (filter (\<lambda>s. strip s \<noteq> []) items))"

definition parse_csv_set :: "string \<Rightarrow> string set" where
  "parse_csv_set raw = normal_texts (split_on CHR '','' raw)"

fun text_items :: "py list \<Rightarrow> string list" where
  "text_items [] = []"
| "text_items (PStr s # vs) = s # text_items vs"
| "text_items (_ # vs) = text_items vs"

fun parse_claim_values :: "py \<Rightarrow> string set" where
  "parse_claim_values (PStr s) = parse_csv_set s"
| "parse_claim_values (PList vs) = normal_texts (text_items vs)"
| "parse_claim_values _ = {}"

definition claim_text :: "(py \<Rightarrow> string) \<Rightarrow> py \<Rightarrow> string" where
  "claim_text fmt v = (case v of PStr s \<Rightarrow> s | v \<Rightarrow> if truthy v then fmt v else [])"

text \<open>\<open>email_claim.strip().lower()\<close>, or the header of the proxy, whose part before a colon names the issuer.\<close>

definition iap_email_from_request :: "request_headers \<Rightarrow> py_record \<Rightarrow> string" where
  "iap_email_from_request hs claims =
     (let claim = strip (plain_text (py_get claims ''email''));
          header_email = strip (get_header hs ''x-goog-authenticated-user-email'')
      in if claim \<noteq> [] then lower claim
         else if CHR '':'' \<in> set header_email then lower (strip (after CHR '':'' header_email))
         else lower header_email)"

definition claimed_tenant :: "py_record \<Rightarrow> py" where
  "claimed_tenant claims =
     py_or (py_get claims ''tenant_id'') (py_or (py_get claims ''tenantId'')
       (py_or (py_get claims ''https://ekaette.dev/tenant_id'') (py_get claims ''https://ekaette.dev/tenantId'')))"

definition first_set :: "'a set \<Rightarrow> 'a set \<Rightarrow> 'a set" where
  "first_set a b = (if a \<noteq> {} then a else b)"

definition iap_context_from_claims ::
  "admin_settings \<Rightarrow> (py \<Rightarrow> string) \<Rightarrow> request_headers \<Rightarrow> py_record \<Rightarrow> admin_error + admin_auth_context" where
  "iap_context_from_claims cfg fmt hs claims =
     (let issuer = lower (strip (claim_text fmt (py_get claims ''iss'')));
          email = iap_email_from_request hs claims;
          user_id = strip (claim_text fmt (py_or (py_get claims ''sub'') (py_get claims ''email'')));
          tenant_id = normalize_tenant_id (claimed_tenant claims) (ADMIN_DEFAULT_TENANT_ID cfg);
          roles = first_set (parse_claim_values (py_get claims ''roles'')) (parse_claim_values (py_get claims ''role''));
          scopes = first_set (parse_claim_values (py_get claims ''scopes'')) (parse_claim_values (py_get claims ''scope''));
          listed = email \<noteq> [] \<and> email \<in> ADMIN_IAP_ALLOWLIST_EMAILS cfg
      in if ADMIN_IAP_ALLOWED_ISSUERS cfg \<noteq> {} \<and> issuer \<notin> ADMIN_IAP_ALLOWED_ISSUERS cfg then Inl IapIssuerInvalid
         else if ADMIN_IAP_ALLOWLIST_EMAILS cfg \<noteq> {} \<and> email \<notin> ADMIN_IAP_ALLOWLIST_EMAILS cfg then Inl IdentityForbidden
         else if user_id = [] then Inl Unauthorized
         else if tenant_id = [] then Inl Unauthorized
         else Inr \<lparr>ctx_user_id = user_id, ctx_tenant_id = tenant_id,
           ctx_roles = (if listed then insert ''tenant_admin'' roles else roles),
           ctx_scopes = (if listed then scopes \<union> ADMIN_IAP_DEFAULT_SCOPES cfg else scopes)\<rparr>)"

section \<open>Who asks\<close>

definition legacy_admin_context_from_headers ::
  "admin_settings \<Rightarrow> request_headers \<Rightarrow> admin_error + admin_auth_context" where
  "legacy_admin_context_from_headers cfg hs =
     (let provided_secret = strip (get_header hs ''x-admin-key'');
          user_id = strip (get_header hs ''x-user-id'');
          tenant_id = normalize_tenant_id (opt_text (dget hs ''x-tenant-id'')) []
      in if ADMIN_REQUIRE_SHARED_SECRET cfg \<and> ADMIN_SHARED_SECRET cfg = [] then Inl AuthNotConfigured
         else if ADMIN_REQUIRE_SHARED_SECRET cfg \<and> (provided_secret = [] \<or> provided_secret \<noteq> ADMIN_SHARED_SECRET cfg)
           then Inl SharedSecretInvalid
         else if user_id = [] \<or> tenant_id = [] then Inl Unauthorized
         else Inr \<lparr>ctx_user_id = user_id, ctx_tenant_id = tenant_id,
           ctx_roles = parse_csv_set (get_header hs ''x-roles''), ctx_scopes = parse_csv_set (get_header hs ''x-scopes'')\<rparr>)"

definition verify_iap_jwt_assertion ::
  "admin_settings \<Rightarrow> (string \<Rightarrow> string \<Rightarrow> py_record option) \<Rightarrow> request_headers \<Rightarrow> admin_error + py_record" where
  "verify_iap_jwt_assertion cfg verify hs =
     (let assertion = strip (get_header hs ''x-goog-iap-jwt-assertion'')
      in if ADMIN_IAP_AUDIENCE cfg = [] then Inl IapNotConfigured
         else if assertion = [] then Inl IapTokenRequired
         else case verify assertion (ADMIN_IAP_AUDIENCE cfg) of None \<Rightarrow> Inl IapTokenInvalid | Some claims \<Rightarrow> Inr claims)"

definition effective_mode :: "admin_settings \<Rightarrow> string" where
  "effective_mode cfg =
     (if ADMIN_AUTH_MODE cfg \<in> {''headers'', ''iap'', ''hybrid''} then ADMIN_AUTH_MODE cfg else ''headers'')"

definition uses_iap :: "admin_settings \<Rightarrow> request_headers \<Rightarrow> bool" where
  "uses_iap cfg hs \<longleftrightarrow> effective_mode cfg = ''iap''
     \<or> effective_mode cfg = ''hybrid'' \<and> get_header hs ''x-goog-iap-jwt-assertion'' \<noteq> []"

text \<open>\<open>cached\<close>: the context an earlier dependency of the same request stored.\<close>

definition extract_admin_auth_context ::
  "admin_settings \<Rightarrow> (string \<Rightarrow> string \<Rightarrow> py_record option) \<Rightarrow> (py \<Rightarrow> string) \<Rightarrow> admin_auth_context option
   \<Rightarrow> request_headers \<Rightarrow> admin_error + admin_auth_context" where
  "extract_admin_auth_context cfg verify fmt cached hs =
     (case cached of Some ctx \<Rightarrow> Inr ctx
      | None \<Rightarrow>
          if uses_iap cfg hs
          then (case verify_iap_jwt_assertion cfg verify hs of
              Inl e \<Rightarrow> Inl e
            | Inr claims \<Rightarrow> iap_context_from_claims cfg fmt hs claims)
          else legacy_admin_context_from_headers cfg hs)"

section \<open>What it may do\<close>

definition has_admin_scope :: "admin_settings \<Rightarrow> admin_auth_context \<Rightarrow> string \<Rightarrow> bool" where
  "has_admin_scope cfg ctx required_scope \<longleftrightarrow>
     ctx_roles ctx \<inter> ADMIN_ALLOWED_ROLE_SET cfg \<noteq> {}
     \<or> ctx_scopes ctx \<inter> (if required_scope = ''write'' then ADMIN_WRITE_SCOPE_SET else ADMIN_READ_SCOPE_SET) \<noteq> {}"

type_synonym limiter = "buckets \<times> clock"

definition admin_context_or_reject ::
  "admin_settings \<Rightarrow> clock \<Rightarrow> nat \<Rightarrow> string \<Rightarrow> string \<Rightarrow> clock \<Rightarrow> admin_error + admin_auth_context \<Rightarrow> limiter
   \<Rightarrow> limiter \<times> (admin_error + admin_auth_context)" where
  "admin_context_or_reject cfg window max_buckets tenant_id required_scope now extracted st =
     (case extracted of
        Inl e \<Rightarrow> (st, Inl e)
      | Inr ctx \<Rightarrow>
          if ctx_tenant_id ctx \<noteq> tenant_id then (st, Inl TenantForbidden)
          else if \<not> has_admin_scope cfg ctx (if required_scope \<in> {''read'', ''write''} then required_scope else ''read'')
            then (st, Inl ScopeRequired)
          else if ADMIN_RATE_LIMIT cfg > 0
            then (case check_rate_limit (nat (ADMIN_RATE_LIMIT cfg)) window max_buckets ''admin_api''
                (ctx_tenant_id ctx @ '':'' @ ctx_user_id ctx) now st of
              (st', ok) \<Rightarrow> (st', if ok then Inr ctx else Inl AdminRateLimitExceeded))
          else (st, Inr ctx))"

definition resolve_tenant_id :: "string option \<Rightarrow> request_headers \<Rightarrow> string" where
  "resolve_tenant_id query_tenant hs =
     normalize_tenant_id (opt_text query_tenant) (normalize_tenant_id (opt_text (dget hs ''x-tenant-id'')) ''public'')"

definition admin_tenant_allowed :: "admin_settings \<Rightarrow> string \<Rightarrow> bool" where
  "admin_tenant_allowed cfg tenant_id \<longleftrightarrow> TOKEN_ALLOWED_TENANTS cfg = {} \<or> tenant_id \<in> TOKEN_ALLOWED_TENANTS cfg"

definition admin_origin_allowed :: "admin_settings \<Rightarrow> string option \<Rightarrow> bool" where
  "admin_origin_allowed cfg origin \<longleftrightarrow> (case origin of None \<Rightarrow> True | Some a \<Rightarrow> a \<in> ALLOWED_ORIGIN_SET cfg)"

text \<open>The beginning of every admin route: origin, tenant, context and scope.\<close>

definition admin_route_guard ::
  "admin_settings \<Rightarrow> (string \<Rightarrow> string \<Rightarrow> py_record option) \<Rightarrow> (py \<Rightarrow> string) \<Rightarrow> clock \<Rightarrow> nat
   \<Rightarrow> string \<Rightarrow> string option \<Rightarrow> admin_auth_context option \<Rightarrow> request_headers \<Rightarrow> clock \<Rightarrow> limiter
   \<Rightarrow> limiter \<times> (admin_error + string \<times> admin_auth_context)" where
  "admin_route_guard cfg verify fmt window max_buckets required_scope query_tenant cached hs now st =
     (let tenant_id = resolve_tenant_id query_tenant hs in
      if \<not> admin_origin_allowed cfg (dget hs ''origin'') then (st, Inl OriginNotAllowed)
      else if \<not> admin_tenant_allowed cfg tenant_id then (st, Inl TenantForbidden)
      else case admin_context_or_reject cfg window max_buckets tenant_id required_scope now
          (extract_admin_auth_context cfg verify fmt cached hs) st of
        (st', Inl e) \<Rightarrow> (st', Inl e)
      | (st', Inr ctx) \<Rightarrow> (st', Inr (tenant_id, ctx)))"

text \<open>The dependencies for routers: no limiter, the context kept in the request.\<close>

definition require_admin_context ::
  "admin_settings \<Rightarrow> (string \<Rightarrow> string \<Rightarrow> py_record option) \<Rightarrow> (py \<Rightarrow> string) \<Rightarrow> string \<Rightarrow> string option
   \<Rightarrow> admin_auth_context option \<Rightarrow> request_headers \<Rightarrow> admin_error + admin_auth_context" where
  "require_admin_context cfg verify fmt required_scope query_tenant cached hs =
     (case extract_admin_auth_context cfg verify fmt cached hs of
        Inl e \<Rightarrow> Inl e
      | Inr ctx \<Rightarrow>
          if ctx_tenant_id ctx \<noteq> resolve_tenant_id query_tenant hs then Inl TenantForbidden
          else if \<not> has_admin_scope cfg ctx required_scope then Inl ScopeRequired
          else Inr ctx)"

section \<open>Theorems\<close>

lemma has_scope_write: "has_admin_scope cfg ctx ''write'' \<Longrightarrow> has_admin_scope cfg ctx ''read''"
  by (auto simp: has_admin_scope_def ADMIN_READ_SCOPE_SET_def ADMIN_WRITE_SCOPE_SET_def)

lemma context_accepted:
  assumes "admin_context_or_reject cfg window max_buckets tenant_id required_scope now extracted st = (st', Inr ctx)"
  shows "extracted = Inr ctx" and "ctx_tenant_id ctx = tenant_id" and "has_admin_scope cfg ctx (if required_scope = ''write'' then ''write'' else ''read'')"
    and "ADMIN_RATE_LIMIT cfg > 0 \<Longrightarrow>
      snd (check_rate_limit (nat (ADMIN_RATE_LIMIT cfg)) window max_buckets ''admin_api'' (tenant_id @ '':'' @ ctx_user_id ctx) now st)"
  using assms unfolding admin_context_or_reject_def
  by (auto split: sum.splits if_splits prod.splits)

lemma context_rejected_keeps_limiter:
  assumes "admin_context_or_reject cfg window max_buckets tenant_id required_scope now extracted st = (st', Inl e)"
    and "e \<noteq> AdminRateLimitExceeded"
  shows "st' = st"
  using assms unfolding admin_context_or_reject_def by (auto split: sum.splits if_splits prod.splits)

text \<open>
  What stands behind a context: a verified assertion from an allowed issuer, whose identity is
  on the list when there is one; or, when the mode allows headers, the shared secret when it is
  required.
\<close>

definition iap_vouched ::
  "admin_settings \<Rightarrow> (string \<Rightarrow> string \<Rightarrow> py_record option) \<Rightarrow> (py \<Rightarrow> string) \<Rightarrow> request_headers \<Rightarrow> admin_auth_context \<Rightarrow> bool" where
  "iap_vouched cfg verify fmt hs ctx \<longleftrightarrow>
     (case verify (strip (get_header hs ''x-goog-iap-jwt-assertion'')) (ADMIN_IAP_AUDIENCE cfg) of
        None \<Rightarrow> False
      | Some claims \<Rightarrow>
          ADMIN_IAP_AUDIENCE cfg \<noteq> []
          \<and> (ADMIN_IAP_ALLOWED_ISSUERS cfg = {} \<or> lower (strip (claim_text fmt (py_get claims ''iss''))) \<in> ADMIN_IAP_ALLOWED_ISSUERS cfg)
          \<and> (ADMIN_IAP_ALLOWLIST_EMAILS cfg = {} \<or> iap_email_from_request hs claims \<in> ADMIN_IAP_ALLOWLIST_EMAILS cfg)
          \<and> ctx_user_id ctx = strip (claim_text fmt (py_or (py_get claims ''sub'') (py_get claims ''email''))))"

definition secret_vouched :: "admin_settings \<Rightarrow> request_headers \<Rightarrow> admin_auth_context \<Rightarrow> bool" where
  "secret_vouched cfg hs ctx \<longleftrightarrow>
     (ADMIN_REQUIRE_SHARED_SECRET cfg \<longrightarrow>
        ADMIN_SHARED_SECRET cfg \<noteq> [] \<and> strip (get_header hs ''x-admin-key'') = ADMIN_SHARED_SECRET cfg)
     \<and> ctx_user_id ctx = strip (get_header hs ''x-user-id'')"

lemma iap_context_vouched:
  assumes "verify_iap_jwt_assertion cfg verify hs = Inr claims" and "iap_context_from_claims cfg fmt hs claims = Inr ctx"
  shows "iap_vouched cfg verify fmt hs ctx" and "ctx_user_id ctx \<noteq> []" and "ctx_tenant_id ctx \<noteq> []"
proof -
  have v: "verify (strip (get_header hs ''x-goog-iap-jwt-assertion'')) (ADMIN_IAP_AUDIENCE cfg) = Some claims"
    "ADMIN_IAP_AUDIENCE cfg \<noteq> []"
    using assms(1) by (auto simp: verify_iap_jwt_assertion_def Let_def split: if_splits option.splits)
  show "iap_vouched cfg verify fmt hs ctx"
    using assms(2) v by (auto simp: iap_vouched_def iap_context_from_claims_def Let_def split: if_splits)
  show "ctx_user_id ctx \<noteq> []" and "ctx_tenant_id ctx \<noteq> []"
    using assms(2) by (auto simp: iap_context_from_claims_def Let_def split: if_splits)
qed

lemma legacy_context_vouched:
  assumes "legacy_admin_context_from_headers cfg hs = Inr ctx"
  shows "secret_vouched cfg hs ctx" and "ctx_user_id ctx \<noteq> []" and "ctx_tenant_id ctx \<noteq> []"
  using assms by (auto simp: legacy_admin_context_from_headers_def secret_vouched_def Let_def split: if_splits)

lemma extracted_vouched:
  assumes "extract_admin_auth_context cfg verify fmt None hs = Inr ctx"
  shows "if uses_iap cfg hs then iap_vouched cfg verify fmt hs ctx else secret_vouched cfg hs ctx"
    and "ctx_user_id ctx \<noteq> [] \<and> ctx_tenant_id ctx \<noteq> []"
  using assms iap_context_vouched legacy_context_vouched
  unfolding extract_admin_auth_context_def by (auto split: if_splits sum.splits)

lemma guard_accepted:
  assumes "admin_route_guard cfg verify fmt window max_buckets required_scope query_tenant cached hs now st = (st', Inr (tenant_id, ctx))"
  shows "admin_origin_allowed cfg (dget hs ''origin'')" and "admin_tenant_allowed cfg tenant_id"
    and "tenant_id = resolve_tenant_id query_tenant hs"
    and "admin_context_or_reject cfg window max_buckets tenant_id required_scope now
      (extract_admin_auth_context cfg verify fmt cached hs) st = (st', Inr ctx)"
  using assms unfolding admin_route_guard_def Let_def by (auto split: if_splits prod.splits sum.splits)

text \<open>
  C7 A request passes the checks at the beginning of an admin route only from an allowed
  origin, for an allowed tenant that is also the tenant of its context, with an admin role or
  a scope of the required kind (for writing, one that allows writing), and with an identity
  somebody vouches for: in IAP mode a verified assertion of an allowed issuer and, when there
  is a list, a listed identity; with headers the configured secret when it is required.  The
  request has no context cached from an earlier check.
\<close>

theorem admin_request_authorised:
  assumes "admin_route_guard cfg verify fmt window max_buckets required_scope query_tenant None hs now st = (st', Inr (tenant_id, ctx))"
  shows "admin_origin_allowed cfg (dget hs ''origin'') \<and> admin_tenant_allowed cfg tenant_id
    \<and> tenant_id = resolve_tenant_id query_tenant hs \<and> ctx_tenant_id ctx = tenant_id
    \<and> has_admin_scope cfg ctx (if required_scope = ''write'' then ''write'' else ''read'')
    \<and> (if uses_iap cfg hs then iap_vouched cfg verify fmt hs ctx else secret_vouched cfg hs ctx)
    \<and> (ADMIN_RATE_LIMIT cfg > 0 \<longrightarrow>
         snd (check_rate_limit (nat (ADMIN_RATE_LIMIT cfg)) window max_buckets ''admin_api'' (tenant_id @ '':'' @ ctx_user_id ctx) now st))"
proof -
  note g = guard_accepted [OF assms]
  note c = context_accepted [OF g(4)]
  show ?thesis using g(1-3) c(2-4) extracted_vouched(1) [OF c(1)] by blast
qed

definition sample_settings :: admin_settings where
  "sample_settings = \<lparr>ADMIN_ALLOWED_ROLE_SET = {''tenant_admin''}, ADMIN_RATE_LIMIT = 120, ADMIN_SHARED_SECRET = ''s3cret'',
     ADMIN_REQUIRE_SHARED_SECRET = True, ADMIN_AUTH_MODE = ''headers'', ADMIN_IAP_AUDIENCE = [],
     ADMIN_IAP_ALLOWED_ISSUERS = {}, ADMIN_IAP_ALLOWLIST_EMAILS = {}, ADMIN_IAP_DEFAULT_SCOPES = {},
     ADMIN_DEFAULT_TENANT_ID = ''public'', TOKEN_ALLOWED_TENANTS = {''public''}, ALLOWED_ORIGIN_SET = {''https://shop''}\<rparr>"

definition sample_headers :: request_headers where
  "sample_headers = [(''origin'', ''https://shop''), (''x-admin-key'', ''s3cret''), (''x-user-id'', ''u1''),
     (''x-tenant-id'', ''public''), (''x-scopes'', ''admin:write'')]"

lemma admin_request_authorised_witness:
  "has_admin_scope sample_settings
     \<lparr>ctx_user_id = ''u1'', ctx_tenant_id = ''public'', ctx_roles = {}, ctx_scopes = {''admin:write''}\<rparr> ''write''"
proof -
  have "admin_route_guard sample_settings (\<lambda>_ _. None) (\<lambda>_. []) 60 5000 ''write'' None None sample_headers 1 ([], 0) =
    (([(''admin_api:public:u1'', [1])], 0),
     Inr (''public'', \<lparr>ctx_user_id = ''u1'', ctx_tenant_id = ''public'', ctx_roles = {}, ctx_scopes = {''admin:write''}\<rparr>))"
    by code_simp
  from admin_request_authorised [OF this] show ?thesis by (elim conjE) (simp only: if_True refl)
qed

text \<open>An unknown mode trusts the headers, also when no secret is asked for.\<close>

lemma unknown_mode_trusts_headers:
  assumes "ADMIN_AUTH_MODE cfg \<notin> {''headers'', ''iap'', ''hybrid''}"
  shows "extract_admin_auth_context cfg verify fmt None hs = legacy_admin_context_from_headers cfg hs"
  using assms by (simp add: extract_admin_auth_context_def uses_iap_def effective_mode_def)

text \<open>
  A claimed tenant that is no identifier is read as the default tenant, and an assertion
  without an e-mail takes its identity from an unsigned header, with the role of an
  administrator when that address is listed.
\<close>

lemma malformed_tenant_claim_is_default:
  assumes "normalize_id 63 (claimed_tenant claims) = None" and "iap_context_from_claims cfg fmt hs claims = Inr ctx"
  shows "ctx_tenant_id ctx = ADMIN_DEFAULT_TENANT_ID cfg"
  using assms by (auto simp: iap_context_from_claims_def normalize_tenant_id_def Let_def split: if_splits)

lemma header_email_makes_admin:
  assumes "strip (plain_text (py_get claims ''email'')) = []"
    and "strip (get_header hs ''x-goog-authenticated-user-email'') = a" and "CHR '':'' \<notin> set a" and "a \<noteq> []"
    and "lower a \<in> ADMIN_IAP_ALLOWLIST_EMAILS cfg" and "iap_context_from_claims cfg fmt hs claims = Inr ctx"
  shows "''tenant_admin'' \<in> ctx_roles ctx"
proof -
  have "iap_email_from_request hs claims = lower a" using assms(1-4) by (simp add: iap_email_from_request_def Let_def)
  moreover have "lower a \<noteq> []" using assms(4) by (simp add: lower_def)
  ultimately show ?thesis
    using assms(5,6) by (auto simp: iap_context_from_claims_def Let_def split: if_splits)
qed

end
