(* ===== verification/Timed_Lock.thy ===== *)
theory Timed_Lock
  imports Prelude
begin

text \<open>
  The contract of a lock that expires: \<open>acquire k now\<close> succeeds when \<open>k\<close> is free or expired
  and then holds it until \<open>now + ttl\<close>, \<open>release k\<close> frees it whoever calls.  \<open>expiry s k\<close> is the
  time up to which the state holds \<open>k\<close>.
\<close>

datatype 'k lock_event = Acquire nat 'k clock | Release nat 'k

text \<open>
  The clients that hold a key, with the time their lock ends: an acquirer is entered when it
  succeeds, and removed when it releases.
\<close>

type_synonym 'k holders = "(nat \<times> 'k \<times> clock) list"

fun lock_run ::
  "('k \<Rightarrow> clock \<Rightarrow> 's \<Rightarrow> 's \<times> bool) \<Rightarrow> ('k \<Rightarrow> 's \<Rightarrow> 's) \<Rightarrow> clock \<Rightarrow> 'k lock_event list \<Rightarrow> 's \<times> 'k holders \<Rightarrow> 's \<times> 'k holders" where
  "lock_run acquire release ttl [] sh = sh"
| "lock_run acquire release ttl (Acquire c k now # evs) (s, h) =
     (case acquire k now s of (s', got) \<Rightarrow>
        lock_run acquire release ttl evs (s', if got then (c, k, now + ttl) # h else h))"
| "lock_run acquire release ttl (Release c k # evs) (s, h) =
     lock_run acquire release ttl evs (release k s, filter (\<lambda>(c', k', e). (c', k') \<noteq> (c, k)) h)"

text \<open>
  Times do not go back, and a client releases only a key it holds and before its lock ends:
  \<open>t\<close> is the time of the last event.
\<close>

fun disciplined ::
  "('k \<Rightarrow> clock \<Rightarrow> 's \<Rightarrow> 's \<times> bool) \<Rightarrow> ('k \<Rightarrow> 's \<Rightarrow> 's) \<Rightarrow> clock \<Rightarrow> clock \<Rightarrow> 'k lock_event list \<Rightarrow> 's \<times> 'k holders \<Rightarrow> bool" where
  "disciplined acquire release ttl t [] sh = True"
| "disciplined acquire release ttl t (Acquire c k now # evs) (s, h) =
     (t \<le> now \<and> disciplined acquire release ttl now evs (lock_run acquire release ttl [Acquire c k now] (s, h)))"
| "disciplined acquire release ttl t (Release c k # evs) (s, h) =
     (list_ex (\<lambda>(c', k', e). c' = c \<and> k' = k \<and> t < e) h \<and>
      disciplined acquire release ttl t evs (lock_run acquire release ttl [Release c k] (s, h)))"

fun last_time :: "clock \<Rightarrow> 'k lock_event list \<Rightarrow> clock" where
  "last_time t [] = t"
| "last_time t (Acquire c k now # evs) = last_time now evs"
| "last_time t (Release c k # evs) = last_time t evs"

locale timed_lock =
  fixes acquire :: "'k \<Rightarrow> clock \<Rightarrow> 's \<Rightarrow> 's \<times> bool"
    and release :: "'k \<Rightarrow> 's \<Rightarrow> 's"
    and expiry :: "'s \<Rightarrow> 'k \<Rightarrow> clock option"
    and inv :: "'s \<Rightarrow> bool"
    and ttl :: clock
  assumes inv_acquire: "inv s \<Longrightarrow> inv (fst (acquire k now s))"
    and inv_release: "inv s \<Longrightarrow> inv (release k s)"
    and acquires: "inv s \<Longrightarrow> snd (acquire k now s) \<longleftrightarrow> (case expiry s k of None \<Rightarrow> True | Some e \<Rightarrow> e \<le> now)"
    and holds: "inv s \<Longrightarrow> snd (acquire k now s) \<Longrightarrow> expiry (fst (acquire k now s)) k = Some (now + ttl)"
    and keeps: "inv s \<Longrightarrow> expiry s k' = Some e \<Longrightarrow> now < e \<Longrightarrow> k' \<noteq> k \<or> \<not> snd (acquire k now s) \<Longrightarrow>
      expiry (fst (acquire k now s)) k' = Some e"
    and frees: "inv s \<Longrightarrow> k' \<noteq> k \<Longrightarrow> expiry (release k s) k' = expiry s k'"
    and free: "inv s \<Longrightarrow> expiry (release k s) k = None"
begin

lemma release_frees: "inv s \<Longrightarrow> snd (acquire k now (release k s))"
  by (simp add: acquires inv_release free)

definition held_ok :: "clock \<Rightarrow> 's \<times> 'k holders \<Rightarrow> bool" where
  "held_ok t sh \<longleftrightarrow>
     inv (fst sh) \<and> (\<forall>(c, k, e) \<in> set (snd sh). t < e \<longrightarrow> expiry (fst sh) k = Some e)
     \<and> (\<forall>(c, k, e) \<in> set (snd sh). \<forall>(c', k', e') \<in> set (snd sh). k = k' \<and> t < e \<and> t < e' \<longrightarrow> c = c')"

lemma held_acquire:
  assumes "held_ok t (s, h)" and "t \<le> now"
  shows "held_ok now (lock_run acquire release ttl [Acquire c k now] (s, h))"
proof -
  obtain s' got where a: "acquire k now s = (s', got)" by force
  have inv: "inv s" and old: "\<And>c k e. (c, k, e) \<in> set h \<Longrightarrow> now < e \<Longrightarrow> expiry s k = Some e"
    and one: "\<And>c c' k e e'. (c, k, e) \<in> set h \<Longrightarrow> (c', k, e') \<in> set h \<Longrightarrow> now < e \<Longrightarrow> now < e' \<Longrightarrow> c = c'"
    using assms unfolding held_ok_def by fastforce+
  have "inv s'" using inv_acquire [OF inv, of k now] by (simp add: a)
  have free: "\<not> now < e" if "got" "(c', k, e) \<in> set h" for c' e
    using acquires [OF inv, of k now] old [OF that(2)] that(1) by (auto simp: a)
  have kept: "expiry s' k' = Some e" if "(c', k', e) \<in> set h" "now < e" for c' k' e
    using keeps [OF inv old [OF that] that(2), of k] free that by (cases "k' = k") (auto simp: a)
  show ?thesis
  proof (cases got)
    case True
    then have "expiry s' k = Some (now + ttl)" using holds [OF inv, of k now] by (simp add: a)
    then show ?thesis
      using \<open>inv s'\<close> kept one free True unfolding held_ok_def by (fastforce simp: a)
  next
    case False
    then show ?thesis using \<open>inv s'\<close> kept one unfolding held_ok_def by (fastforce simp: a)
  qed
qed

lemma held_release:
  assumes "held_ok t (s, h)" and "(c, k, e) \<in> set h" and "t < e"
  shows "held_ok t (lock_run acquire release ttl [Release c k] (s, h))"
proof -
  have inv: "inv s" and old: "\<And>c k e. (c, k, e) \<in> set h \<Longrightarrow> t < e \<Longrightarrow> expiry s k = Some e"
    and one: "\<And>c c' k e e'. (c, k, e) \<in> set h \<Longrightarrow> (c', k, e') \<in> set h \<Longrightarrow> t < e \<Longrightarrow> t < e' \<Longrightarrow> c = c'"
    using assms(1) unfolding held_ok_def by fastforce+
  have "expiry (release k s) k' = Some e'" if "(c', k', e') \<in> set h" "t < e'" "(c', k') \<noteq> (c, k)" for c' k' e'
    using old [OF that(1,2)] frees [OF inv, of k' k] one [OF assms(2) _ assms(3) that(2)] that by fastforce
  then show ?thesis using inv_release [OF inv] one unfolding held_ok_def by fastforce
qed

lemma held_run:
  assumes "held_ok t sh" and "disciplined acquire release ttl t evs sh"
  shows "held_ok (last_time t evs) (lock_run acquire release ttl evs sh)"
  using assms
proof (induction evs arbitrary: t sh)
  case (Cons ev evs)
  obtain s h where sh: "sh = (s, h)" by force
  show ?case
  proof (cases ev)
    case (Acquire c k now)
    obtain s' got where a: "acquire k now s = (s', got)" by force
    have "held_ok t (s, h)" "t \<le> now" using Cons.prems by (simp_all add: sh Acquire)
    from Cons.IH [OF held_acquire [OF this, of c k]] Cons.prems(2) show ?thesis by (simp add: sh Acquire a)
  next
    case (Release c k)
    then obtain e where "(c, k, e) \<in> set h" "t < e" using Cons.prems(2) by (auto simp: sh list_ex_iff)
    then have "held_ok t (lock_run acquire release ttl [Release c k] (s, h))"
      using held_release Cons.prems(1) unfolding sh by blast
    from Cons.IH [OF this] Cons.prems(2) show ?thesis by (simp add: sh Release)
  qed
qed simp

text \<open>At no time do two clients hold one key.\<close>

lemma exclusive:
  assumes "inv s" and "disciplined acquire release ttl t evs (s, [])"
    and "lock_run acquire release ttl evs (s, []) = (s', h)"
    and "(c, k, e) \<in> set h" and "(c', k, e') \<in> set h" and "last_time t evs < e" and "last_time t evs < e'"
  shows "c = c'"
proof -
  have "held_ok t (s, [])" using assms(1) by (simp add: held_ok_def)
  from held_run [OF this assms(2)] assms(3-7) show ?thesis unfolding held_ok_def by fastforce
qed

end

end
