(* ===== verification/Connector_Guard.thy ===== *)
theory Connector_Guard
  imports Py_Records Timed_Lock
begin

text \<open>
  The connector circuits and locks of \<open>app/api/v1/admin/policy.py\<close>, each with its memory and its
  Firestore backend, and the probe loop of \<open>routes/connectors.py\<close>.  The collection of circuit
  or lock documents is a dictionary keyed by the key itself, whose SHA-256 is the document's
  name; a failing call of the service is an input (\<open>False\<close>).
\<close>

definition connector_circuit_key :: "string \<Rightarrow> string \<Rightarrow> string \<Rightarrow> string" where
  "connector_circuit_key tenant_id company_id connector_id = tenant_id @ '':'' @ company_id @ '':'' @ connector_id"

section \<open>Circuits\<close>

text \<open>An entry of the memory store: the failures and the time until which the circuit is open.\<close>

type_synonym circuits = "(string, int \<times> rat) dict"

definition remaining_seconds :: "rat \<Rightarrow> clock \<Rightarrow> int" where
  "remaining_seconds open_until now = (let remaining = py_trunc (open_until - now) in if remaining > 0 then remaining else 0)"

definition circuit_retry_after_memory :: "string \<Rightarrow> clock \<Rightarrow> circuits \<Rightarrow> int" where
  "circuit_retry_after_memory key now st =
     (case dget st key of None \<Rightarrow> 0 | Some (failures, open_until) \<Rightarrow> remaining_seconds open_until now)"

definition next_open_until :: "int \<Rightarrow> int \<Rightarrow> int \<Rightarrow> clock \<Rightarrow> rat" where
  "next_open_until failures open_after seconds now =
     (if failures \<ge> max 1 open_after then now + of_int seconds else 0)"

definition circuit_record_failure_memory :: "string \<Rightarrow> int \<Rightarrow> int \<Rightarrow> clock \<Rightarrow> circuits \<Rightarrow> circuits" where
  "circuit_record_failure_memory key open_after seconds now st =
     (let failures = (case dget st key of Some (f, _) \<Rightarrow> f | None \<Rightarrow> 0) + 1
      in dset key (failures, next_open_until failures open_after seconds now) st)"

definition circuit_record_success_memory :: "string \<Rightarrow> circuits \<Rightarrow> circuits" where
  "circuit_record_success_memory key st = dpop key st"

text \<open>The service: which backend is configured, the documents, and the memory fallback.\<close>

record circuit_world =
  memory :: circuits
  documents :: "(string, py_record) dict option"

fun number_value :: "py \<Rightarrow> rat option" where
  "number_value (PFloat q) = Some q"
| "number_value (PInt i) = Some (of_int i)"
| "number_value (PBool b) = Some (of_bool b)"
| "number_value _ = None"

definition circuit_retry_after :: "bool \<Rightarrow> bool \<Rightarrow> string \<Rightarrow> clock \<Rightarrow> circuit_world \<Rightarrow> int" where
  "circuit_retry_after use_firestore read_works key now w =
     (case (use_firestore, documents w) of
        (True, Some docs) \<Rightarrow>
          if \<not> read_works then circuit_retry_after_memory key now (memory w)
          else (case dget docs key of
              None \<Rightarrow> 0
            | Some payload \<Rightarrow>
                (case number_value (py_get payload ''open_until_epoch'') of
                   None \<Rightarrow> 0 | Some open_until \<Rightarrow> remaining_seconds open_until now))
      | _ \<Rightarrow> circuit_retry_after_memory key now (memory w))"

definition circuit_is_open :: "bool \<Rightarrow> bool \<Rightarrow> string \<Rightarrow> clock \<Rightarrow> circuit_world \<Rightarrow> bool" where
  "circuit_is_open use_firestore read_works key now w \<longleftrightarrow> circuit_retry_after use_firestore read_works key now w > 0"

text \<open>\<open>works\<close>: the read and the write both succeed; otherwise memory counts the failure.\<close>

definition circuit_record_failure :: "bool \<Rightarrow> bool \<Rightarrow> string \<Rightarrow> int \<Rightarrow> int \<Rightarrow> clock \<Rightarrow> circuit_world \<Rightarrow> circuit_world" where
  "circuit_record_failure use_firestore works key open_after seconds now w =
     (let fallback = w\<lparr>memory := circuit_record_failure_memory key open_after seconds now (memory w)\<rparr> in
      case (use_firestore, documents w) of
        (True, Some docs) \<Rightarrow>
          if \<not> works then fallback
          else (let payload = (case dget docs key of Some p \<Rightarrow> p | None \<Rightarrow> []) in
            case to_int (dget_default payload ''failures'' (PInt 0)) of
              None \<Rightarrow> fallback
            | Some f \<Rightarrow>
                w\<lparr>documents := Some (dset key (dmerge payload
                    [(''circuit_key'', PStr key), (''failures'', PInt (f + 1)),
                     (''open_until_epoch'', PFloat (next_open_until (f + 1) open_after seconds now)),
                     (''updated_at_epoch'', PFloat now)]) docs)\<rparr>)
      | _ \<Rightarrow> fallback)"

definition circuit_record_success :: "bool \<Rightarrow> bool \<Rightarrow> string \<Rightarrow> circuit_world \<Rightarrow> circuit_world" where
  "circuit_record_success use_firestore works key w =
     (case (use_firestore, documents w) of
        (True, Some docs) \<Rightarrow>
          if works then w\<lparr>documents := Some (dpop key docs)\<rparr>
          else w\<lparr>memory := circuit_record_success_memory key (memory w)\<rparr>
      | _ \<Rightarrow> w\<lparr>memory := circuit_record_success_memory key (memory w)\<rparr>)"

section \<open>The probe of a connector\<close>

datatype probe = Probe_Passed | Probe_Timeout | Probe_Not_Implemented | Probe_Error

datatype test_outcome =
    Circuit_Open int
  | Test_Passed nat
  | Test_Failed probe nat int

text \<open>
  The attempts: the first success, or the last failure with the number of attempts made; a
  probe that is not implemented is not repeated.
\<close>

fun probe_attempts :: "nat \<Rightarrow> nat \<Rightarrow> (nat \<Rightarrow> probe) \<Rightarrow> probe \<times> nat" where
  "probe_attempts 0 done outcome = (Probe_Not_Implemented, done)"
| "probe_attempts (Suc left) done outcome =
     (case outcome done of
        Probe_Passed \<Rightarrow> (Probe_Passed, Suc done)
      | Probe_Not_Implemented \<Rightarrow> (Probe_Not_Implemented, Suc done)
      | failure \<Rightarrow> if left = 0 then (failure, Suc done) else probe_attempts left (Suc done) outcome)"

definition max_attempts :: "int \<Rightarrow> nat" where
  "max_attempts max_retries = nat (max 1 (max_retries + 1))"

text \<open>\<open>int(test_policy.get("maxRetries") or CONNECTOR_TEST_MAX_RETRIES)\<close>: a policy's 0 is falsy.\<close>

definition effective_retries :: "int \<Rightarrow> int \<Rightarrow> int" where
  "effective_retries policy_retries default_retries = (if policy_retries \<noteq> 0 then policy_retries else default_retries)"

text \<open>
  From the check of the circuit on.  \<open>now\<close> is the time before and \<open>later\<close> after the probes; the
  policy's numbers have their defaults already.
\<close>

definition connector_test ::
  "bool \<Rightarrow> bool \<Rightarrow> string \<Rightarrow> int \<Rightarrow> int \<Rightarrow> int \<Rightarrow> (nat \<Rightarrow> probe) \<Rightarrow> clock \<Rightarrow> clock \<Rightarrow> circuit_world \<Rightarrow> circuit_world \<times> test_outcome" where
  "connector_test use_firestore works key max_retries open_after seconds outcome now later w =
     (if circuit_is_open use_firestore works key now w
      then (w, Circuit_Open (circuit_retry_after use_firestore works key now w))
      else case probe_attempts (max_attempts max_retries) 0 outcome of
          (Probe_Passed, attempts) \<Rightarrow> (circuit_record_success use_firestore works key w, Test_Passed attempts)
        | (failure, attempts) \<Rightarrow>
            (let w' = circuit_record_failure use_firestore works key open_after seconds later w
             in (w', Test_Failed failure attempts (circuit_retry_after use_firestore works key later w'))))"

section \<open>Locks in memory\<close>

type_synonym memory_locks = "(string, clock) dict"

definition memory_acquire :: "clock \<Rightarrow> string \<Rightarrow> clock \<Rightarrow> memory_locks \<Rightarrow> memory_locks \<times> bool" where
  "memory_acquire ttl key now locks =
     (let live = dpop_all (dkeys_where (\<lambda>_ expiry. expiry \<le> now) locks) locks
      in if dget live key \<noteq> None then (live, False) else (dset key (now + ttl) live, True))"

definition memory_release :: "string \<Rightarrow> memory_locks \<Rightarrow> memory_locks" where
  "memory_release key locks = dpop key locks"

interpretation mem_lock: timed_lock "memory_acquire ttl" memory_release dget dict_wf ttl for ttl
  by unfold_locales
    (auto simp: memory_acquire_def memory_release_def Let_def in_dkeys_where_wf split: option.splits if_splits)

section \<open>Locks in Firestore\<close>

text \<open>
  An acquisition in its separate requests: create the document; when it exists, read it; when
  it has expired, delete it and create it again.
\<close>

datatype lock_task = Creating | Reading | Deleting | Recreating | Finished bool

definition lock_document :: "string \<Rightarrow> clock \<Rightarrow> clock \<Rightarrow> py_record" where
  "lock_document key now ttl =
     [(''lock_key'', PStr key), (''created_at_epoch'', PFloat now), (''expires_at_epoch'', PFloat (now + ttl))]"

text \<open>\<open>float(existing.get("expires_at_epoch", 0) or 0)\<close> of a number; a text that is none raises.\<close>

definition expires_at :: "py_record \<Rightarrow> rat option" where
  "expires_at d = (let v = dget_default d ''expires_at_epoch'' (PInt 0) in if truthy v then number_value v else Some 0)"

fun lock_step :: "clock \<Rightarrow> string \<Rightarrow> clock \<Rightarrow> lock_task \<Rightarrow> (string, py_record) dict \<Rightarrow> lock_task \<times> (string, py_record) dict" where
  "lock_step ttl key now Creating docs =
     (case dget docs key of
        None \<Rightarrow> (Finished True, dset key (lock_document key now ttl) docs)
      | Some _ \<Rightarrow> (Reading, docs))"
| "lock_step ttl key now Reading docs =
     (case expires_at (case dget docs key of Some d \<Rightarrow> d | None \<Rightarrow> []) of
        None \<Rightarrow> (Finished False, docs)
      | Some e \<Rightarrow> (if e \<le> now then Deleting else Finished False, docs))"
| "lock_step ttl key now Deleting docs = (Recreating, dpop key docs)"
| "lock_step ttl key now Recreating docs =
     (case dget docs key of
        None \<Rightarrow> (Finished True, dset key (lock_document key now ttl) docs)
      | Some _ \<Rightarrow> (Finished False, docs))"
| "lock_step ttl key now (Finished b) docs = (Finished b, docs)"

text \<open>
  The run in which no other client's request comes in between, as a function: four steps
  always finish.  The interleaved runs are those of \<open>lock_machine_run\<close> below.
\<close>

definition firestore_acquire :: "clock \<Rightarrow> string \<Rightarrow> clock \<Rightarrow> (string, py_record) dict \<Rightarrow> (string, py_record) dict \<times> bool" where
  "firestore_acquire ttl key now docs =
     (case ((\<lambda>(t, d). lock_step ttl key now t d) ^^ 4) (Creating, docs) of
        (Finished b, docs) \<Rightarrow> (docs, b) | (_, docs) \<Rightarrow> (docs, False))"

definition firestore_release :: "string \<Rightarrow> (string, py_record) dict \<Rightarrow> (string, py_record) dict" where
  "firestore_release key docs = dpop key docs"

definition document_expiry :: "(string, py_record) dict \<Rightarrow> string \<Rightarrow> clock option" where
  "document_expiry docs key = Option.bind (dget docs key) expires_at"

definition locks_ok :: "(string, py_record) dict \<Rightarrow> bool" where
  "locks_ok docs \<longleftrightarrow> (\<forall>k d. dget docs k = Some d \<longrightarrow> expires_at d \<noteq> None)"

definition acquire_connector_lock ::
  "bool \<Rightarrow> clock \<Rightarrow> string \<Rightarrow> clock \<Rightarrow> memory_locks \<times> (string, py_record) dict option
   \<Rightarrow> (memory_locks \<times> (string, py_record) dict option) \<times> bool" where
  "acquire_connector_lock use_firestore ttl key now st =
     (case (use_firestore, snd st) of
        (True, Some docs) \<Rightarrow> (case firestore_acquire ttl key now docs of (docs, b) \<Rightarrow> ((fst st, Some docs), b))
      | _ \<Rightarrow> (case memory_acquire ttl key now (fst st) of (m, b) \<Rightarrow> ((m, snd st), b)))"

definition release_connector_lock ::
  "bool \<Rightarrow> string \<Rightarrow> memory_locks \<times> (string, py_record) dict option \<Rightarrow> memory_locks \<times> (string, py_record) dict option" where
  "release_connector_lock use_firestore key st =
     (case (use_firestore, snd st) of
        (True, Some docs) \<Rightarrow> (fst st, Some (firestore_release key docs))
      | _ \<Rightarrow> (memory_release key (fst st), snd st))"

lemma expires_at_document: "expires_at (lock_document key now ttl) = Some (now + ttl)"
  by (simp add: expires_at_def lock_document_def dget_default_def)

lemma firestore_acquire_result:
  assumes "locks_ok docs"
  shows "firestore_acquire ttl key now docs =
    (case document_expiry docs key of
       Some e \<Rightarrow> if e \<le> now then (dset key (lock_document key now ttl) (dpop key docs), True) else (docs, False)
     | None \<Rightarrow> (dset key (lock_document key now ttl) docs, True))"
proof (cases "dget docs key")
  case None
  then show ?thesis by (simp add: firestore_acquire_def document_expiry_def numeral_eq_Suc)
next
  case (Some d)
  then obtain e where "expires_at d = Some e" using assms by (auto simp: locks_ok_def)
  with Some show ?thesis by (simp add: firestore_acquire_def document_expiry_def numeral_eq_Suc)
qed

interpretation fs_lock: timed_lock "firestore_acquire ttl" firestore_release document_expiry locks_ok ttl for ttl
proof
  fix s :: "(string, py_record) dict" and k k' :: string and now e :: clock
  assume ok: "locks_ok s"
  note run = firestore_acquire_result [OF ok]
  show "locks_ok (fst (firestore_acquire ttl k now s))"
    using ok by (auto simp: run locks_ok_def expires_at_document split: option.splits)
  show "locks_ok (firestore_release k s)" using ok by (simp add: firestore_release_def locks_ok_def)
  show "snd (firestore_acquire ttl k now s) \<longleftrightarrow> (case document_expiry s k of None \<Rightarrow> True | Some e \<Rightarrow> e \<le> now)"
    by (simp add: run split: option.splits)
  show "document_expiry (fst (firestore_acquire ttl k now s)) k = Some (now + ttl)"
    if "snd (firestore_acquire ttl k now s)"
    using that by (auto simp: run document_expiry_def expires_at_document split: option.splits if_splits)
  show "document_expiry (fst (firestore_acquire ttl k now s)) k' = Some e"
    if "document_expiry s k' = Some e" "now < e" "k' \<noteq> k \<or> \<not> snd (firestore_acquire ttl k now s)"
    using that by (auto simp: run document_expiry_def expires_at_document split: option.splits if_splits)
  show "document_expiry (firestore_release k s) k = None" by (simp add: firestore_release_def document_expiry_def)
  show "document_expiry (firestore_release k s) k' = document_expiry s k'" if "k' \<noteq> k"
    using that by (simp add: firestore_release_def document_expiry_def)
qed

text \<open>The lock of the configured backend, over both stores.\<close>

definition connector_expiry :: "bool \<Rightarrow> memory_locks \<times> (string, py_record) dict option \<Rightarrow> string \<Rightarrow> clock option" where
  "connector_expiry use_firestore st key =
     (case (use_firestore, snd st) of (True, Some docs) \<Rightarrow> document_expiry docs key | _ \<Rightarrow> dget (fst st) key)"

definition connector_locks_ok :: "bool \<Rightarrow> memory_locks \<times> (string, py_record) dict option \<Rightarrow> bool" where
  "connector_locks_ok use_firestore st \<longleftrightarrow>
     (case (use_firestore, snd st) of (True, Some docs) \<Rightarrow> locks_ok docs | _ \<Rightarrow> dict_wf (fst st))"

lemmas connector_backend =
  acquire_connector_lock_def release_connector_lock_def connector_expiry_def connector_locks_ok_def case_prod_unfold

interpretation connector_lock: timed_lock "acquire_connector_lock uf ttl" "release_connector_lock uf"
  "connector_expiry uf" "connector_locks_ok uf" ttl for uf ttl
proof (cases uf)
  case True
  then show "timed_lock (acquire_connector_lock uf ttl) (release_connector_lock uf) (connector_expiry uf) (connector_locks_ok uf) ttl"
    by unfold_locales
      (auto simp: connector_backend mem_lock.inv_acquire mem_lock.inv_release mem_lock.acquires mem_lock.holds
          mem_lock.keeps mem_lock.frees mem_lock.free fs_lock.inv_acquire fs_lock.inv_release fs_lock.acquires fs_lock.holds
          fs_lock.keeps fs_lock.frees fs_lock.free split: option.splits)
next
  case False
  then show "timed_lock (acquire_connector_lock uf ttl) (release_connector_lock uf) (connector_expiry uf) (connector_locks_ok uf) ttl"
    by unfold_locales
      (auto simp: connector_backend mem_lock.inv_acquire mem_lock.inv_release mem_lock.acquires mem_lock.holds
          mem_lock.keeps mem_lock.frees mem_lock.free split: option.splits)
qed

text \<open>
  Acquisitions and releases that run one after another: as long as every client releases only
  the lock it holds and in time, no two clients hold the lock of one connector.
\<close>

lemma serial_locks_exclusive:
  assumes "connector_locks_ok uf st"
    and "disciplined (acquire_connector_lock uf ttl) (release_connector_lock uf) ttl t evs (st, [])"
    and "lock_run (acquire_connector_lock uf ttl) (release_connector_lock uf) ttl evs (st, []) = (st', h)"
    and "(c, k, e) \<in> set h" and "(c', k, e') \<in> set h" and "last_time t evs < e" and "last_time t evs < e'"
  shows "c = c'"
  using assms by (rule connector_lock.exclusive)

text \<open>
  The discipline is needed: a release pops or deletes whatever lock is there, so a client
  whose lock has expired frees the lock of the next holder.
\<close>

lemma late_release_frees_next_holder:
  assumes "connector_locks_ok uf st"
  shows "snd (acquire_connector_lock uf ttl k now (release_connector_lock uf k st))"
  using assms by (rule connector_lock.release_frees)

text \<open>
  The Firestore requests are not one step: two clients that read the expired document before
  either deletes it both hold the lock.
\<close>

lemma expired_lock_taken_twice:
  assumes "dget docs k = Some d" and "expires_at d = Some e" and "e \<le> now"
  shows "\<exists>docs1 docs2 docs3 docs4.
    lock_step ttl k now Creating docs = (Reading, docs) \<and> lock_step ttl k now Reading docs = (Deleting, docs)
    \<and> lock_step ttl k now Deleting docs = (Recreating, docs1) \<and> lock_step ttl k now Recreating docs1 = (Finished True, docs2)
    \<and> lock_step ttl k now Deleting docs2 = (Recreating, docs3) \<and> lock_step ttl k now Recreating docs3 = (Finished True, docs4)"
  using assms by auto

section \<open>Interleaved acquisitions\<close>

text \<open>
  The clients of the locks, each with its key, the time its acquisition started and where it
  is; \<open>usurped\<close> logs the key of every lock that an acquisition deleted, as expired, while some
  client held it.
\<close>

record lock_machine =
  lm_memory :: memory_locks
  lm_docs :: "(string, py_record) dict"
  lm_tasks :: "(nat, string \<times> clock \<times> lock_task) dict"
  usurped :: "string list"

text \<open>
  A client starts; its pending request is carried out and answered; its request raises,
  carried out or not; a holder releases, which in Firestore may fail unnoticed; a client that
  got no lock leaves.
\<close>

datatype lock_call = Begins nat string clock | Answered nat | Raised nat bool | Lets_Go nat bool | Leaves nat

definition holders_of :: "(nat, string \<times> clock \<times> lock_task) dict \<Rightarrow> string \<Rightarrow> nat list" where
  "holders_of tasks k = filter (\<lambda>c. case dget tasks c of Some (k', now, t) \<Rightarrow> k' = k \<and> t = Finished True | None \<Rightarrow> False)
     (remdups (map fst tasks))"

definition delete_logged :: "string list \<Rightarrow> lock_machine \<Rightarrow> string list" where
  "delete_logged ks m = usurped m @ filter (\<lambda>k. holders_of (lm_tasks m) k \<noteq> []) ks"

definition lock_request :: "clock \<Rightarrow> nat \<Rightarrow> string \<times> clock \<times> lock_task \<Rightarrow> lock_machine \<Rightarrow> lock_machine" where
  "lock_request ttl c task m =
     (case task of (k, now, t) \<Rightarrow>
        (case lock_step ttl k now t (lm_docs m) of (t', docs) \<Rightarrow>
           m\<lparr>lm_docs := docs, lm_tasks := dset c (k, now, t') (lm_tasks m),
             usurped := delete_logged (if t = Deleting then [k] else []) m\<rparr>))"

definition memory_request :: "clock \<Rightarrow> nat \<Rightarrow> string \<times> clock \<times> lock_task \<Rightarrow> lock_machine \<Rightarrow> lock_machine" where
  "memory_request ttl c task m =
     (case task of (k, now, t) \<Rightarrow>
        if t \<noteq> Creating then m
        else (case memory_acquire ttl k now (lm_memory m) of (locks, got) \<Rightarrow>
           m\<lparr>lm_memory := locks, lm_tasks := dset c (k, now, Finished got) (lm_tasks m),
             usurped := delete_logged (dkeys_where (\<lambda>_ expiry. expiry \<le> now) (lm_memory m)) m\<rparr>))"

fun lock_machine_step :: "bool \<Rightarrow> clock \<Rightarrow> lock_call \<Rightarrow> lock_machine \<Rightarrow> lock_machine" where
  "lock_machine_step uf ttl (Begins c k now) m =
     (if dget (lm_tasks m) c = None then m\<lparr>lm_tasks := dset c (k, now, Creating) (lm_tasks m)\<rparr> else m)"
| "lock_machine_step uf ttl (Answered c) m =
     (case dget (lm_tasks m) c of
        None \<Rightarrow> m
      | Some task \<Rightarrow> if uf then lock_request ttl c task m else memory_request ttl c task m)"
| "lock_machine_step uf ttl (Raised c carried_out) m =
     (case dget (lm_tasks m) c of
        Some (k, now, t) \<Rightarrow>
          if \<not> uf \<or> t \<in> {Finished True, Finished False} then m
          else (let m = (if carried_out then lock_request ttl c (k, now, t) m else m)
                in m\<lparr>lm_tasks := dset c (k, now, Finished False) (lm_tasks m)\<rparr>)
      | None \<Rightarrow> m)"
| "lock_machine_step uf ttl (Lets_Go c works) m =
     (case dget (lm_tasks m) c of
        Some (k, now, Finished True) \<Rightarrow>
          m\<lparr>lm_docs := (if uf \<and> works then firestore_release k (lm_docs m) else lm_docs m),
            lm_memory := (if uf then lm_memory m else memory_release k (lm_memory m)),
            lm_tasks := dpop c (lm_tasks m)\<rparr>
      | _ \<Rightarrow> m)"
| "lock_machine_step uf ttl (Leaves c) m =
     (case dget (lm_tasks m) c of
        Some (k, now, Finished False) \<Rightarrow> m\<lparr>lm_tasks := dpop c (lm_tasks m)\<rparr>
      | _ \<Rightarrow> m)"

definition lock_machine_run :: "bool \<Rightarrow> clock \<Rightarrow> lock_call list \<Rightarrow> lock_machine \<Rightarrow> lock_machine" where
  "lock_machine_run uf ttl evs m = fold (lock_machine_step uf ttl) evs m"








definition lock_there :: "bool \<Rightarrow> lock_machine \<Rightarrow> string \<Rightarrow> bool" where
  "lock_there uf m k = (if uf then dget (lm_docs m) k \<noteq> None else dget (lm_memory m) k \<noteq> None)"


lemma lock_there_tasks [simp]: "lock_there uf (m\<lparr>lm_tasks := x\<rparr>) k = lock_there uf m k"
  by (simp add: lock_there_def)













text \<open>
  A lock that is released while another client waits is no exception: the client finds the
  document, then reads that there is none, takes that for an expired lock and deletes the lock
  a third client has created in between; both hold it.
\<close>

lemma released_lock_taken_twice:
  "holders_of (lm_tasks (lock_machine_run True 30
     [Begins 1 ''k'' 0, Answered 1, Begins 2 ''k'' 1, Answered 2, Lets_Go 1 True, Answered 2,
      Begins 3 ''k'' 1, Answered 3, Answered 2, Answered 2]
     \<lparr>lm_memory = [], lm_docs = [], lm_tasks = [], usurped = []\<rparr>)) ''k'' = [2, 3]"
  by code_simp

section \<open>The circuits against their history\<close>

datatype circuit_event = Failed clock | Passed

fun circuit_run :: "bool \<Rightarrow> int \<Rightarrow> int \<Rightarrow> (string \<times> circuit_event) list \<Rightarrow> circuit_world \<Rightarrow> circuit_world" where
  "circuit_run uf open_after seconds [] w = w"
| "circuit_run uf open_after seconds ((key, Failed now) # evs) w =
     circuit_run uf open_after seconds evs (circuit_record_failure uf True key open_after seconds now w)"
| "circuit_run uf open_after seconds ((key, Passed) # evs) w =
     circuit_run uf open_after seconds evs (circuit_record_success uf True key w)"

text \<open>The failures of a connector since its last success, the latest first.\<close>

fun recent_failures :: "string \<Rightarrow> (string \<times> circuit_event) list \<Rightarrow> clock list \<Rightarrow> clock list" where
  "recent_failures key [] fs = fs"
| "recent_failures key ((k, Failed now) # evs) fs = recent_failures key evs (if k = key then now # fs else fs)"
| "recent_failures key ((k, Passed) # evs) fs = recent_failures key evs (if k = key then [] else fs)"

definition open_circuit_until :: "int \<Rightarrow> int \<Rightarrow> clock list \<Rightarrow> rat option" where
  "open_circuit_until open_after seconds fs =
     (if fs \<noteq> [] \<and> int (length fs) \<ge> open_after then Some (hd fs + of_int seconds) else None)"

definition entry_matches :: "bool \<Rightarrow> int \<Rightarrow> int \<Rightarrow> string \<Rightarrow> clock list \<Rightarrow> circuit_world \<Rightarrow> bool" where
  "entry_matches uf open_after seconds key fs w \<longleftrightarrow>
     (let state = (int (length fs), next_open_until (int (length fs)) open_after seconds (hd fs)) in
      case (uf, documents w) of
        (True, Some docs) \<Rightarrow>
          (if fs = [] then dget docs key = None
           else \<exists>d. dget docs key = Some d \<and> dget d ''failures'' = Some (PInt (fst state))
             \<and> dget d ''open_until_epoch'' = Some (PFloat (snd state)))
      | _ \<Rightarrow> dget (memory w) key = (if fs = [] then None else Some state))"

lemma payload_wf: "dict_wf [(''circuit_key'', a), (''failures'', b), (''open_until_epoch'', c), (''updated_at_epoch'', d)]"
  by (simp add: dict_wf_def)

lemmas circuit_simps =
  entry_matches_def circuit_record_failure_def circuit_record_failure_memory_def circuit_record_success_def
  circuit_record_success_memory_def Let_def

lemma entry_after_failure:
  assumes "entry_matches uf open_after seconds key fs w"
  shows "entry_matches uf open_after seconds key (if k = key then now # fs else fs)
    (circuit_record_failure uf True k open_after seconds now w)"
proof (cases "uf \<and> documents w \<noteq> None")
  case True
  then obtain docs where d: "uf" "documents w = Some docs" by auto
  show ?thesis
  proof (cases "k = key")
    case False
    with d assms show ?thesis by (auto simp: circuit_simps dget_default_def split: option.splits)
  next
    case k: True
    show ?thesis
    proof (cases fs)
      case Nil
      with d assms k show ?thesis
        by (simp add: circuit_simps dget_dmerge payload_wf dget_default_def next_open_until_def)
    next
      case (Cons t ts)
      with d assms obtain e where "dget docs key = Some e" "dget e ''failures'' = Some (PInt (int (length fs)))"
        by (auto simp: entry_matches_def Let_def)
      with d k Cons show ?thesis
        by (simp add: circuit_simps dget_dmerge payload_wf dget_default_def next_open_until_def add.commute)
    qed
  qed
next
  case False
  with assms show ?thesis
    by (cases "uf"; cases "documents w"; cases "fs") (auto simp: circuit_simps add.commute)
qed

lemma entry_after_success:
  assumes "entry_matches uf open_after seconds key fs w"
  shows "entry_matches uf open_after seconds key (if k = key then [] else fs) (circuit_record_success uf True k w)"
  using assms by (auto simp: circuit_simps split: option.splits bool.splits if_splits)

lemma entry_after_run:
  assumes "entry_matches uf open_after seconds key fs w"
  shows "entry_matches uf open_after seconds key (recent_failures key evs fs) (circuit_run uf open_after seconds evs w)"
  using assms
proof (induction evs arbitrary: fs w)
  case (Cons ev evs)
  obtain k x where ev: "ev = (k, x)" by force
  show ?case
    using Cons.IH [OF entry_after_failure [OF Cons.prems]] Cons.IH [OF entry_after_success [OF Cons.prems]]
    by (cases x) (simp_all add: ev)
qed simp

lemma circuit_run_result:
  assumes "0 \<le> now" and "docs = None \<or> docs = Some []"
  shows "circuit_retry_after uf True key now (circuit_run uf open_after seconds evs \<lparr>memory = [], documents = docs\<rparr>) =
    (case open_circuit_until open_after seconds (recent_failures key evs []) of
       None \<Rightarrow> 0 | Some until \<Rightarrow> max 0 (py_trunc (until - now)))"
proof -
  let ?fs = "recent_failures key evs []" and ?w = "circuit_run uf open_after seconds evs \<lparr>memory = [], documents = docs\<rparr>"
  have "entry_matches uf open_after seconds key [] \<lparr>memory = [], documents = docs\<rparr>"
    using assms(2) by (auto simp: entry_matches_def Let_def split: bool.splits)
  from entry_after_run [OF this] have m: "entry_matches uf open_after seconds key ?fs ?w" .
  have closed: "\<not> 0 < py_trunc (- now)" using assms(1) by (auto simp: py_trunc_def)
  have entry: "circuit_retry_after uf True key now ?w =
      (if ?fs = [] then 0 else remaining_seconds (next_open_until (int (length ?fs)) open_after seconds (hd ?fs)) now)"
    using m unfolding entry_matches_def circuit_retry_after_def circuit_retry_after_memory_def Let_def
    by (auto simp: py_get_def dget_default_def split: bool.splits option.splits if_splits)
  show ?thesis
    unfolding entry by (cases ?fs) (auto simp: next_open_until_def open_circuit_until_def closed remaining_seconds_def Let_def)
qed

text \<open>
  C21 Over any history of probes of many connectors recorded one after another, in memory or
  in Firestore with its calls working, the retry time reported for a connector is the number of
  whole seconds, cut off towards zero, that are left of the configured time after its last
  failure, if it has failed at least the configured number of times in a row since its last
  success, and 0 otherwise.  The circuit counts as open while that number is positive, so it
  closes up to one second before the configured time is over
  (\<open>one_second_circuit_never_open\<close>).
\<close>

theorem circuit_opens_exactly:
  assumes "0 \<le> now" and "docs = None \<or> docs = Some []"
  shows "circuit_retry_after uf True key now (circuit_run uf open_after seconds evs \<lparr>memory = [], documents = docs\<rparr>) =
    (case open_circuit_until open_after seconds (recent_failures key evs []) of
       None \<Rightarrow> 0 | Some until \<Rightarrow> max 0 (py_trunc (until - now)))"
  using assms by (rule circuit_run_result)

lemma circuit_opens_exactly_witness:
  "circuit_retry_after True True ''t:c:crm'' 12
     (circuit_run True 2 30 [(''t:c:crm'', Failed 5), (''t:c:erp'', Failed 6), (''t:c:crm'', Failed 10)]
        \<lparr>memory = [], documents = Some []\<rparr>) = 28"
  unfolding circuit_opens_exactly [of 12 "Some []", simplified] by code_simp

text \<open>
  Truncation closes a circuit up to one second early: a circuit to be open for one second
  never is.
\<close>

lemma one_second_circuit_never_open:
  assumes "0 \<le> t" and "t < now" and "docs = None \<or> docs = Some []"
  shows "\<not> circuit_is_open uf True key now
    (circuit_run uf 1 1 [(key, Failed t)] \<lparr>memory = [], documents = docs\<rparr>)"
proof -
  have "py_trunc (t + 1 - now) \<le> 0" using assms(2) by (simp add: py_trunc_def floor_le_iff)
  moreover have "0 \<le> now" using assms(1,2) by linarith
  ultimately show ?thesis
    using circuit_run_result [of now docs uf key 1 1 "[(key, Failed t)]"] assms(3)
    unfolding circuit_is_open_def by (simp add: open_circuit_until_def)
qed

end
