(* ===== verification/Connector_Config.thy ===== *)
theory Connector_Config
  imports Runtime_Ids
begin

text \<open>
  What a connector may be: the provider catalogue and the policies of
  \<open>app/api/v1/admin/policy.py\<close>, the payload checks of \<open>service_connectors.py\<close> and the host
  allowlist of \<open>app/configs/host_allowlist.py\<close>.  Reading and parsing a policy file (JSON or
  YAML) is an input; \<open>fmt\<close> is \<open>str()\<close>, \<open>to_float\<close> is \<open>float()\<close> (\<open>None\<close> when it raises) and
  \<open>hostname\<close> the host that \<open>urlparse\<close> finds.
\<close>

definition str_value :: "(py \<Rightarrow> string) \<Rightarrow> py \<Rightarrow> string" where
  "str_value fmt v = (case v of PStr s \<Rightarrow> s | v \<Rightarrow> fmt v)"

fun as_dict :: "py \<Rightarrow> py_record" where
  "as_dict (PDict d) = d"
| "as_dict _ = []"

text \<open>\<open>[str(x).strip().lower() for x in (v if isinstance(v, list) else []) if str(x).strip()]\<close>\<close>

definition normal_list :: "(py \<Rightarrow> string) \<Rightarrow> py \<Rightarrow> string list" where
  "normal_list fmt v =
     map (\<lambda>x. lower (strip (str_value fmt x))) (filter (\<lambda>x. strip (str_value fmt x) \<noteq> []) (as_list v))"

section \<open>Policy documents\<close>

text \<open>
  A policy file at one moment: its modification time, its text and what parsing it gives.  The
  cache keeps the last document read of each path.
\<close>

record policy_file =
  mtime :: "rat option"
  content :: "string option"

type_synonym policy_cache = "(string, rat \<times> py_record) dict"

fun dict_value :: "py option \<Rightarrow> py_record option" where
  "dict_value (Some (PDict d)) = Some d"
| "dict_value _ = None"

definition read_policy :: "(string \<Rightarrow> py option) \<Rightarrow> string \<Rightarrow> rat \<Rightarrow> policy_file \<Rightarrow> policy_cache \<Rightarrow> policy_cache \<times> py_record" where
  "read_policy parse path m file cache =
     (case dict_value (Option.bind (content file) parse) of
        None \<Rightarrow> (cache, []) | Some d \<Rightarrow> (dset path (m, d) cache, d))"

definition load_policy_document ::
  "(string \<Rightarrow> py option) \<Rightarrow> string \<Rightarrow> policy_file \<Rightarrow> policy_cache \<Rightarrow> policy_cache \<times> py_record" where
  "load_policy_document parse path file cache =
     (case mtime file of
        None \<Rightarrow> (cache, [])
      | Some m \<Rightarrow>
          (case dget cache path of
             None \<Rightarrow> read_policy parse path m file cache
           | Some (m', data) \<Rightarrow> if m' = m then (cache, data) else read_policy parse path m file cache))"

section \<open>The provider catalogue\<close>

text \<open>\<open>str.title()\<close> of ASCII text: every run of letters starts with a capital.\<close>

fun title_from :: "bool \<Rightarrow> string \<Rightarrow> string" where
  "title_from inside [] = []"
| "title_from inside (c # cs) =
     (if is_alpha c then (if inside then lower_char c else upper_char c) # title_from True cs
      else c # title_from False cs)"

definition provider_label :: "string \<Rightarrow> string" where
  "provider_label provider_id = title_from False (map (\<lambda>c. if c = CHR ''-'' then CHR '' '' else c) provider_id)"

definition catalog_test_policy :: "(py \<Rightarrow> string) \<Rightarrow> py \<Rightarrow> py" where
  "catalog_test_policy fmt test_policy =
     (case test_policy of
        PDict p \<Rightarrow> PDict
          [(''timeoutSeconds'', py_get p ''timeoutSeconds''), (''maxRetries'', py_get p ''maxRetries''),
           (''circuitOpenAfterFailures'', py_get p ''circuitOpenAfterFailures''),
           (''circuitOpenSeconds'', py_get p ''circuitOpenSeconds''),
           (''allowedHosts'', PList (map PStr (normal_list fmt (py_get p ''allowedHosts''))))]
      | _ \<Rightarrow> PDict [])"

definition catalog_entry :: "(py \<Rightarrow> string) \<Rightarrow> string \<Rightarrow> py_record \<Rightarrow> py_record" where
  "catalog_entry fmt provider_id v =
     [(''id'', PStr provider_id),
      (''label'', PStr (str_value fmt (py_or (py_get v ''label'') (PStr (provider_label provider_id))))),
      (''status'', PStr (str_value fmt (py_or (py_get v ''status'') (PStr ''active'')))),
      (''requiresSecretRef'', PBool (truthy (dget_default v ''requiresSecretRef'' (PBool (provider_id \<noteq> ''mock''))))),
      (''capabilities'', PList (map PStr (normal_list fmt (py_get v ''capabilities'')))),
      (''testPolicy'', catalog_test_policy fmt (py_get v ''testPolicy''))]"

type_synonym catalog = "(string, py_record) dict"

definition add_provider :: "(py \<Rightarrow> string) \<Rightarrow> string \<times> py \<Rightarrow> catalog \<Rightarrow> catalog" where
  "add_provider fmt kv cat =
     (let provider_id = lower (strip (fst kv)) in
      case snd kv of
        PDict v \<Rightarrow> if provider_id = [] then cat else dset provider_id (catalog_entry fmt provider_id v) cat
      | _ \<Rightarrow> cat)"

definition provider_catalog_from_policy :: "(py \<Rightarrow> string) \<Rightarrow> py_record \<Rightarrow> catalog" where
  "provider_catalog_from_policy fmt policy = fold (add_provider fmt) (as_dict (py_get policy ''providers'')) []"

definition built_in_provider :: "string \<Rightarrow> string \<Rightarrow> string \<Rightarrow> bool \<Rightarrow> string list \<Rightarrow> string \<times> py_record" where
  "built_in_provider pid label status secret caps =
     (pid, [(''id'', PStr pid), (''label'', PStr label), (''status'', PStr status), (''requiresSecretRef'', PBool secret),
        (''capabilities'', PList (map PStr caps))])"

definition MCP_PROVIDER_CATALOG :: catalog where
  "MCP_PROVIDER_CATALOG =
     [built_in_provider ''mock'' ''Mock Provider'' ''active'' False [''read''],
      built_in_provider ''salesforce'' ''Salesforce'' ''preview'' True [''read'', ''write''],
      built_in_provider ''hubspot'' ''HubSpot'' ''preview'' True [''read'', ''write''],
      built_in_provider ''zendesk'' ''Zendesk'' ''preview'' True [''read'', ''write'']]"

definition effective_mcp_provider_catalog :: "(py \<Rightarrow> string) \<Rightarrow> py_record \<Rightarrow> catalog \<Rightarrow> string set \<Rightarrow> catalog" where
  "effective_mcp_provider_catalog fmt policy built_in allowlist =
     (let cat = provider_catalog_from_policy fmt policy;
          cat = (if cat \<noteq> [] then cat else built_in)
      in if allowlist \<noteq> {} then filter (\<lambda>(k, v). k \<in> allowlist) cat else cat)"

definition template_policy_config :: "py \<Rightarrow> py_record \<Rightarrow> py_record" where
  "template_policy_config template_id policy =
     (case normalize_template_id template_id of
        None \<Rightarrow> []
      | Some t \<Rightarrow> as_dict (py_get (as_dict (py_get policy ''templates'')) t))"

section \<open>The test policy\<close>

record test_defaults =
  TIMEOUT_SECONDS :: rat
  MAX_RETRIES :: int
  OPEN_AFTER_FAILURES :: int
  OPEN_SECONDS :: int
  REQUIRE_POLICY :: bool

definition safe_float :: "(py \<Rightarrow> rat option) \<Rightarrow> py \<Rightarrow> rat \<Rightarrow> rat" where
  "safe_float to_float v fallback = (case to_float v of Some q \<Rightarrow> if q > 0 then q else fallback | None \<Rightarrow> fallback)"

definition safe_int :: "py \<Rightarrow> int \<Rightarrow> int \<Rightarrow> int" where
  "safe_int v fallback minimum = (case to_int v of Some i \<Rightarrow> if i \<ge> minimum then i else fallback | None \<Rightarrow> fallback)"

record test_policy =
  timeoutSeconds :: rat
  maxRetries :: int
  circuitOpenAfterFailures :: int
  circuitOpenSeconds :: int
  allowedHosts :: "string list"

text \<open>\<open>None\<close>: the answer CONNECTOR_PROVIDER_POLICY_MISSING.\<close>

definition normalize_connector_test_policy ::
  "(py \<Rightarrow> string) \<Rightarrow> (py \<Rightarrow> rat option) \<Rightarrow> test_defaults \<Rightarrow> string \<Rightarrow> py_record \<Rightarrow> test_policy option" where
  "normalize_connector_test_policy fmt to_float df provider provider_policy =
     (let raw = py_get provider_policy ''testPolicy'';
          p = as_dict raw
      in if (case raw of PDict _ \<Rightarrow> False | _ \<Rightarrow> True) \<and> REQUIRE_POLICY df \<and> provider \<noteq> ''mock'' then None
         else Some \<lparr>timeoutSeconds = safe_float to_float (py_get p ''timeoutSeconds'') (TIMEOUT_SECONDS df),
           maxRetries = safe_int (py_get p ''maxRetries'') (MAX_RETRIES df) 0,
           circuitOpenAfterFailures = safe_int (py_get p ''circuitOpenAfterFailures'') (OPEN_AFTER_FAILURES df) 1,
           circuitOpenSeconds = safe_int (py_get p ''circuitOpenSeconds'') (OPEN_SECONDS df) 1,
           allowedHosts = normal_list fmt (py_get p ''allowedHosts'')\<rparr>)"

section \<open>Inline secrets\<close>

definition FORBIDDEN_SECRET_KEYS :: "string list" where
  "FORBIDDEN_SECRET_KEYS = [''password'', ''token'', ''api_key'', ''apikey'', ''secret'']"

definition forbidden_key :: "string \<Rightarrow> bool" where
  "forbidden_key raw_key \<longleftrightarrow> lower (strip raw_key) \<in> set FORBIDDEN_SECRET_KEYS"

definition dotted :: "string \<Rightarrow> string \<Rightarrow> string" where
  "dotted prefix raw_key = (if prefix \<noteq> [] then prefix @ ''.'' @ strip raw_key else strip raw_key)"

definition item_prefix :: "string \<Rightarrow> nat \<Rightarrow> string" where
  "item_prefix prefix index = prefix @ ''['' @ nat_str index @ '']''"

text \<open>A dictionary's entries and a list's items in turn; the paths found, as a list.\<close>

fun forbidden_paths :: "string \<Rightarrow> py \<Rightarrow> string list"
  and forbidden_in_entries :: "string \<Rightarrow> (string \<times> py) list \<Rightarrow> string list"
  and forbidden_in_items :: "string \<Rightarrow> nat \<Rightarrow> py list \<Rightarrow> string list" where
  "forbidden_paths prefix (PDict d) = forbidden_in_entries prefix d"
| "forbidden_paths prefix (PList vs) = forbidden_in_items prefix 0 vs"
| "forbidden_paths prefix _ = []"
| "forbidden_in_entries prefix [] = []"
| "forbidden_in_entries prefix ((raw_key, child) # d) =
     (if forbidden_key raw_key then [dotted prefix raw_key] else [])
     @ forbidden_paths (dotted prefix raw_key) child @ forbidden_in_entries prefix d"
| "forbidden_in_items prefix index [] = []"
| "forbidden_in_items prefix index (v # vs) =
     forbidden_paths (item_prefix prefix index) v @ forbidden_in_items prefix (Suc index) vs"

definition collect_forbidden_secret_paths :: "py \<Rightarrow> string set" where
  "collect_forbidden_secret_paths v = set (forbidden_paths [] v)"

section \<open>The payload of a connector\<close>

record connector_payload =
  provider :: string
  enabled :: bool
  capabilities :: "string list"
  secret_ref :: "string option"
  config :: py_record

datatype connector_error =
    InvalidConnectorId | ProviderNotAllowed | ProviderNotAllowedForTemplate | IdNotAllowedForTemplate
  | SecretRefRequired | InlineSecretForbidden "string set" | CapabilityNotAllowed
  | CapabilityNotAllowedForTemplate | ProviderPolicyMissing

text \<open>\<open>allowed and value not in allowed\<close>: an empty set allows everything.\<close>

definition outside :: "string list \<Rightarrow> string \<Rightarrow> bool" where
  "outside allowed value \<longleftrightarrow> allowed \<noteq> [] \<and> value \<notin> set allowed"

definition normal_capabilities :: "string list \<Rightarrow> string list" where
  "normal_capabilities caps = map (\<lambda>c. lower (strip c)) (filter (\<lambda>c. strip c \<noteq> []) caps)"

definition requires_secret_ref :: "string \<Rightarrow> py_record \<Rightarrow> bool" where
  "requires_secret_ref prov policy = truthy (dget_default policy ''requiresSecretRef'' (PBool (prov \<noteq> ''mock'')))"

definition policy_record :: "test_policy \<Rightarrow> py" where
  "policy_record p = PDict
     [(''timeoutSeconds'', PFloat (timeoutSeconds p)), (''maxRetries'', PInt (maxRetries p)),
      (''circuitOpenAfterFailures'', PInt (circuitOpenAfterFailures p)), (''circuitOpenSeconds'', PInt (circuitOpenSeconds p)),
      (''allowedHosts'', PList (map PStr (allowedHosts p)))]"

definition normalize_connector_payload ::
  "(py \<Rightarrow> string) \<Rightarrow> (py \<Rightarrow> rat option) \<Rightarrow> test_defaults \<Rightarrow> catalog \<Rightarrow> py_record \<Rightarrow> string \<Rightarrow> connector_payload
   \<Rightarrow> connector_error + py_record" where
  "normalize_connector_payload fmt to_float df providers template_policy connector_id payload =
     (case normalize_connector_id (PStr connector_id) of
        None \<Rightarrow> Inl InvalidConnectorId
      | Some cid \<Rightarrow>
          let prov = lower (strip (provider payload)) in
          case dget providers prov of
            None \<Rightarrow> Inl ProviderNotAllowed
          | Some policy \<Rightarrow>
              let secret = strip (text_of (secret_ref payload));
                  forbidden = collect_forbidden_secret_paths (PDict (config payload));
                  caps = normal_capabilities (capabilities payload)
              in if outside (normal_list fmt (py_get template_policy ''allowed_provider_ids'')) prov
                   then Inl ProviderNotAllowedForTemplate
                 else if outside (normal_list fmt (py_get template_policy ''allowed_connector_ids'')) cid
                   then Inl IdNotAllowedForTemplate
                 else if requires_secret_ref prov policy \<and> secret = [] then Inl SecretRefRequired
                 else if forbidden \<noteq> {} then Inl (InlineSecretForbidden forbidden)
                 else if list_ex (outside (normal_list fmt (py_get policy ''capabilities''))) caps
                   then Inl CapabilityNotAllowed
                 else if list_ex (outside (normal_list fmt (py_get template_policy ''max_capabilities''))) caps
                   then Inl CapabilityNotAllowedForTemplate
                 else case normalize_connector_test_policy fmt to_float df prov policy of
                     None \<Rightarrow> Inl ProviderPolicyMissing
                   | Some runtime \<Rightarrow> Inr
                       ([(''id'', PStr cid), (''provider'', PStr prov), (''enabled'', PBool (enabled payload)),
                         (''capabilities'', PList (map PStr caps)), (''config'', PDict (config payload)),
                         (''runtime_policy'', policy_record runtime)]
                        @ (if secret \<noteq> [] then [(''secret_ref'', PStr secret)] else [])))"

section \<open>Hosts\<close>

definition normalize_hostname :: "string \<Rightarrow> string" where
  "normalize_hostname v = rstrip_where (\<lambda>c. c = CHR ''.'') (lower (strip v))"

fun first_host :: "(string \<Rightarrow> string option) \<Rightarrow> py_record \<Rightarrow> string list \<Rightarrow> string option" where
  "first_host hostname cfg [] = None"
| "first_host hostname cfg (key # keys) =
     (case py_get cfg key of
        PStr raw \<Rightarrow>
          (case (if strip raw = [] then None else hostname (strip raw)) of
             None \<Rightarrow> first_host hostname cfg keys
           | Some h \<Rightarrow> if h \<noteq> [] \<and> normalize_hostname h \<noteq> [] then Some (normalize_hostname h)
               else first_host hostname cfg keys)
      | _ \<Rightarrow> first_host hostname cfg keys)"

definition extract_connector_endpoint_host :: "(string \<Rightarrow> string option) \<Rightarrow> py_record \<Rightarrow> string option" where
  "extract_connector_endpoint_host hostname connector =
     (case py_get connector ''config'' of
        PDict cfg \<Rightarrow> first_host hostname cfg [''endpoint'', ''base_url'', ''url''] | _ \<Rightarrow> None)"

definition host_matches :: "string \<Rightarrow> string \<Rightarrow> bool" where
  "host_matches host candidate \<longleftrightarrow>
     (if candidate = [] then False
      else if startswith ''*.'' candidate
        then drop 2 candidate \<noteq> [] \<and> host \<noteq> drop 2 candidate \<and> endswith (CHR ''.'' # drop 2 candidate) host
      else host = candidate)"

definition host_matches_allowlist :: "string \<Rightarrow> string list \<Rightarrow> bool" where
  "host_matches_allowlist hostname allowed_hosts \<longleftrightarrow>
     (let host = normalize_hostname hostname
      in host \<noteq> [] \<and> list_ex (\<lambda>c. host_matches host (normalize_hostname c)) allowed_hosts)"

text \<open>The egress check of a connector test.\<close>

datatype egress = EgressAllowed | EgressHostRequired | EgressHostNotAllowed

definition egress_check :: "(string \<Rightarrow> string option) \<Rightarrow> test_policy \<Rightarrow> py_record \<Rightarrow> egress" where
  "egress_check hostname policy connector =
     (if allowedHosts policy = [] then EgressAllowed
      else case extract_connector_endpoint_host hostname connector of
          None \<Rightarrow> EgressHostRequired
        | Some h \<Rightarrow> if host_matches_allowlist h (allowedHosts policy) then EgressAllowed else EgressHostNotAllowed)"

section \<open>Theorems\<close>

text \<open>A key at any depth of a value.\<close>

inductive has_key :: "py \<Rightarrow> string \<Rightarrow> bool" where
  here: "(k, v) \<in> set d \<Longrightarrow> has_key (PDict d) k"
| entry: "(k, v) \<in> set d \<Longrightarrow> has_key v k' \<Longrightarrow> has_key (PDict d) k'"
| item: "v \<in> set vs \<Longrightarrow> has_key v k \<Longrightarrow> has_key (PList vs) k"

inductive_simps has_key_simps:
  "has_key PNone k" "has_key (PBool b) k" "has_key (PInt i) k" "has_key (PFloat q) k" "has_key (PStr s) k"
  "has_key (PDict d) k" "has_key (PList vs) k"

lemma has_key_entries [simp]:
  "\<not> has_key (PDict []) k'"
  "has_key (PDict ((k, v) # d)) k' \<longleftrightarrow> k' = k \<or> has_key v k' \<or> has_key (PDict d) k'"
  by (auto simp: has_key_simps(6))

lemma has_key_items [simp]:
  "\<not> has_key (PList []) k"
  "has_key (PList (v # vs)) k \<longleftrightarrow> has_key v k \<or> has_key (PList vs) k"
  by (auto simp: has_key_simps(7))

lemma no_forbidden_iff:
  "forbidden_paths prefix v = [] \<longleftrightarrow> (\<forall>k. has_key v k \<longrightarrow> \<not> forbidden_key k)"
  "forbidden_in_entries prefix d = [] \<longleftrightarrow> (\<forall>k. has_key (PDict d) k \<longrightarrow> \<not> forbidden_key k)"
  "forbidden_in_items prefix index vs = [] \<longleftrightarrow> (\<forall>k. has_key (PList vs) k \<longrightarrow> \<not> forbidden_key k)"
  by (induction prefix v and prefix d and prefix index vs
      rule: forbidden_paths_forbidden_in_entries_forbidden_in_items.induct)
    (auto simp: has_key_simps(1-5))

lemma guard_InrD: "(if b then Inl e else X) = Inr c \<Longrightarrow> \<not> b \<and> X = Inr c"
  by (simp split: if_splits)

lemma collect_forbidden_empty:
  "collect_forbidden_secret_paths v = {} \<longleftrightarrow> (\<forall>k. has_key v k \<longrightarrow> \<not> forbidden_key k)"
  by (simp add: collect_forbidden_secret_paths_def no_forbidden_iff)

text \<open>
  C19 A connector is accepted only with a valid identifier, a provider of the catalogue that
  its template permits, capabilities that both permit, and a reference to a secret when the
  provider asks for one; and no key at any depth of its stored configuration, in dictionaries
  or lists, is one of the names of an inline secret, whatever its case and spaces.
\<close>

theorem connector_accepted_safe:
  assumes "normalize_connector_payload fmt to_float df providers template_policy connector_id payload = Inr c"
  shows "\<exists>cid prov policy caps.
    normalize_connector_id (PStr connector_id) = Some cid \<and> dget c ''id'' = Some (PStr cid)
    \<and> dget c ''provider'' = Some (PStr prov) \<and> dget providers prov = Some policy
    \<and> dget c ''capabilities'' = Some (PList (map PStr caps)) \<and> caps = normal_capabilities (capabilities payload)
    \<and> list_all (\<lambda>cap. \<not> outside (normal_list fmt (py_get policy ''capabilities'')) cap
         \<and> \<not> outside (normal_list fmt (py_get template_policy ''max_capabilities'')) cap) caps
    \<and> \<not> outside (normal_list fmt (py_get template_policy ''allowed_provider_ids'')) prov
    \<and> \<not> outside (normal_list fmt (py_get template_policy ''allowed_connector_ids'')) cid
    \<and> (requires_secret_ref prov policy \<longrightarrow> (\<exists>r. dget c ''secret_ref'' = Some (PStr r) \<and> r \<noteq> []))
    \<and> (\<forall>k. has_key (py_get c ''config'') k \<longrightarrow> \<not> forbidden_key k)"
proof -
  obtain cid where id: "normalize_connector_id (PStr connector_id) = Some cid"
    using assms by (auto simp: normalize_connector_payload_def split: option.splits)
  obtain policy where p: "dget providers (lower (strip (provider payload))) = Some policy"
    using assms id by (auto simp: normalize_connector_payload_def Let_def split: option.splits)
  note run = assms [unfolded normalize_connector_payload_def id option.case Let_def p]
  note r1 = guard_InrD [OF run] note r2 = guard_InrD [OF r1 [THEN conjunct2]]
  note r3 = guard_InrD [OF r2 [THEN conjunct2]] note r4 = guard_InrD [OF r3 [THEN conjunct2]]
  note r5 = guard_InrD [OF r4 [THEN conjunct2]] note r6 = guard_InrD [OF r5 [THEN conjunct2]]
  let ?prov = "lower (strip (provider payload))" and ?caps = "normal_capabilities (capabilities payload)"
    and ?secret = "strip (text_of (secret_ref payload))"
  obtain runtime where c: "c = [(''id'', PStr cid), (''provider'', PStr ?prov), (''enabled'', PBool (enabled payload)),
      (''capabilities'', PList (map PStr ?caps)), (''config'', PDict (config payload)), (''runtime_policy'', policy_record runtime)]
      @ (if ?secret \<noteq> [] then [(''secret_ref'', PStr ?secret)] else [])"
    using r6 [THEN conjunct2] by (auto simp del: append.simps split: option.splits)
  have fields: "dget c ''id'' = Some (PStr cid)" "dget c ''provider'' = Some (PStr ?prov)"
    "dget c ''capabilities'' = Some (PList (map PStr ?caps))" "py_get c ''config'' = PDict (config payload)"
    "?secret \<noteq> [] \<Longrightarrow> dget c ''secret_ref'' = Some (PStr ?secret)"
    by (simp_all add: c py_get_def dget_default_def)
  have "list_all (\<lambda>cap. \<not> outside (normal_list fmt (py_get policy ''capabilities'')) cap
      \<and> \<not> outside (normal_list fmt (py_get template_policy ''max_capabilities'')) cap) ?caps"
    using r5 r6 by (simp add: list_all_iff list_ex_iff)
  moreover have "\<forall>k. has_key (py_get c ''config'') k \<longrightarrow> \<not> forbidden_key k"
    using r4 by (simp add: fields(4) collect_forbidden_empty)
  ultimately show ?thesis using r1 r2 r3 id p fields(1-3,5) by blast
qed

definition sample_payload :: connector_payload where
  "sample_payload = \<lparr>provider = '' HubSpot'', enabled = True, capabilities = [''Read''], secret_ref = Some ''sm://x'',
     config = [(''auth'', PList [PDict [(''tokens'', PInt 3)]])]\<rparr>"

definition sample_defaults :: test_defaults where
  "sample_defaults = \<lparr>TIMEOUT_SECONDS = 2, MAX_RETRIES = 1, OPEN_AFTER_FAILURES = 2, OPEN_SECONDS = 20, REQUIRE_POLICY = False\<rparr>"

lemma connector_accepted_safe_witness:
  "\<exists>c. normalize_connector_payload (\<lambda>_. []) (\<lambda>_. None) sample_defaults [(''hubspot'', [])] [] ''crm'' sample_payload = Inr c
     \<and> (\<forall>k. has_key (py_get c ''config'') k \<longrightarrow> \<not> forbidden_key k)"
proof -
  let ?n = "normalize_connector_payload (\<lambda>_. []) (\<lambda>_. None) sample_defaults [(''hubspot'', [])] [] ''crm'' sample_payload"
  have "isl ?n = False" by code_simp
  then obtain c where c: "?n = Inr c" by (cases ?n) auto
  from connector_accepted_safe [OF c] have "\<forall>k. has_key (py_get c ''config'') k \<longrightarrow> \<not> forbidden_key k"
    by (elim exE conjE)
  with c show ?thesis by (intro exI conjI)
qed

text \<open>A secret in the tenth item of a list under another name's dictionary is found.\<close>

lemma nested_secret_found:
  "collect_forbidden_secret_paths (PDict [(''http'', PList [PNone, PDict [('' Api_Key '', PStr ''x'')]])]) = {''http[1].Api_Key''}"
  by code_simp

text \<open>A wildcard admits proper subdomains only, and an empty list of hosts everything.\<close>

lemma wildcard_admits_subdomains:
  assumes "host_matches host (''*.'' @ base)"
  obtains sub where "host = sub @ ''.'' @ base" and "host \<noteq> base" and "base \<noteq> []"
proof (rule that [of "take (length host - Suc (length base)) host"])
  have "drop (length host - Suc (length base)) host = ''.'' @ base" and n: "host \<noteq> base" "base \<noteq> []"
    using assms by (auto simp: host_matches_def startswith_def endswith_def split: if_splits)
  then show "host = take (length host - Suc (length base)) host @ ''.'' @ base" by (metis append_take_drop_id)
  show "host \<noteq> base" "base \<noteq> []" by (fact n)+
qed

lemma egress_allowed_listed:
  assumes "egress_check hostname policy connector = EgressAllowed" and "allowedHosts policy \<noteq> []"
  obtains h c where "extract_connector_endpoint_host hostname connector = Some h" and "c \<in> set (allowedHosts policy)"
    and "host_matches (normalize_hostname h) (normalize_hostname c)"
  using assms unfolding egress_check_def host_matches_allowlist_def
  by (auto simp: list_ex_iff Let_def split: option.splits if_splits)

text \<open>The cached document is served while the time of the file does not change.\<close>

lemma policy_cache_stores:
  assumes "load_policy_document parse path file cache = (cache', d)" and "d \<noteq> []"
  shows "\<exists>m. mtime file = Some m \<and> dget cache' path = Some (m, d)"
  using assms unfolding load_policy_document_def
  by (auto simp: read_policy_def split: option.split_asm prod.split_asm if_split_asm)

lemma policy_cache_hit:
  assumes "load_policy_document parse path file cache = (cache', d)" and "d \<noteq> []"
    and "mtime file' = mtime file"
  shows "load_policy_document parse' path file' cache' = (cache', d)"
  using policy_cache_stores [OF assms(1,2)] assms(3) by (auto simp: load_policy_document_def)

lemma safe_float_positive: "0 < q \<Longrightarrow> 0 < safe_float to_float v q"
  by (simp add: safe_float_def split: option.splits)

lemma safe_int_minimum: "m \<le> i \<Longrightarrow> m \<le> safe_int v i m"
  by (simp add: safe_int_def split: option.splits)

lemma test_policy_positive:
  assumes "normalize_connector_test_policy fmt to_float df prov policy = Some p"
    and "0 < TIMEOUT_SECONDS df" "0 \<le> MAX_RETRIES df" "1 \<le> OPEN_AFTER_FAILURES df" "1 \<le> OPEN_SECONDS df"
  shows "0 < timeoutSeconds p \<and> 0 \<le> maxRetries p \<and> 1 \<le> circuitOpenAfterFailures p \<and> 1 \<le> circuitOpenSeconds p"
proof -
  have "\<exists>x. timeoutSeconds p = safe_float to_float x (TIMEOUT_SECONDS df)"
    and "\<exists>x. maxRetries p = safe_int x (MAX_RETRIES df) 0"
    and "\<exists>x. circuitOpenAfterFailures p = safe_int x (OPEN_AFTER_FAILURES df) 1"
    and "\<exists>x. circuitOpenSeconds p = safe_int x (OPEN_SECONDS df) 1"
    using assms(1) unfolding normalize_connector_test_policy_def Let_def
    by (auto simp del: py.case split: if_split_asm)
  with assms(2-5) show ?thesis by (metis safe_float_positive safe_int_minimum)
qed

end
