(* ===== verification/Admin_Companies.thy ===== *)
theory Admin_Companies
  imports Registry_Schema Connector_Guard Connector_Config
begin

text \<open>
  Writing companies and their connectors: \<open>service_companies.py\<close> and the routes of
  \<open>routes/companies.py\<close> and \<open>routes/connectors.py\<close> behind the admin checks (\<open>Admin_Auth\<close>)
  and the idempotency store (\<open>Admin_Idempotency\<close>).  A company's document is a record; what a
  Firestore update or merge makes of it is a parameter.
\<close>

section \<open>Company documents\<close>

definition company_links :: "(py \<Rightarrow> string) \<Rightarrow> py list \<Rightarrow> py" where
  "company_links fmt links =
     PList (map (\<lambda>l. PStr (strip (str_value fmt l))) (filter (\<lambda>l. strip (str_value fmt l) \<noteq> []) links))"

record company_draft =
  industry_template_id :: string
  display_name :: string
  company_status :: string
  connectors :: py_record
  overview :: string
  facts :: py_record
  links :: "py list"

definition admin_company_payload ::
  "(py \<Rightarrow> string) \<Rightarrow> string \<Rightarrow> string \<Rightarrow> company_draft \<Rightarrow> string \<Rightarrow> py_record" where
  "admin_company_payload fmt tenant_id company_id f now_iso =
     [(''schema_version'', PInt 1), (''tenant_id'', PStr tenant_id), (''company_id'', PStr company_id),
      (''industry_template_id'', PStr (industry_template_id f)), (''display_name'', PStr (display_name f)),
      (''status'', PStr (company_status f)), (''connectors'', PDict (connectors f)),
      (''overview'', PStr (strip (overview f))), (''facts'', PDict (facts f)),
      (''links'', company_links fmt (links f)), (''updated_at'', PStr now_iso)]"

text \<open>The answer; \<open>None\<close> is \<open>int()\<close> of a schema version raising.\<close>

definition admin_company_response :: "(py \<Rightarrow> string) \<Rightarrow> string \<Rightarrow> string \<Rightarrow> py_record \<Rightarrow> py_record option" where
  "admin_company_response fmt tenant_id company_id company =
     map_option (\<lambda>version.
       [(''id'', PStr company_id), (''tenantId'', PStr tenant_id),
        (''templateId'', PStr (text_of (normalize_template_id (py_get company ''industry_template_id'')))),
        (''displayName'', PStr (str_value fmt (py_or (py_get company ''display_name'')
            (py_or (py_get company ''name'') (PStr company_id))))),
        (''status'', PStr (or_else (lower (strip (str_value fmt (py_or (py_get company ''status'') (PStr ''active''))))) ''active'')),
        (''connectors'', PDict (as_dict (py_get company ''connectors''))),
        (''inventorySync'', PDict (as_dict (py_get company ''inventory_sync''))),
        (''overview'', PStr (str_value fmt (py_or (py_get company ''overview'') (PStr [])))),
        (''facts'', PDict (as_dict (py_get company ''facts''))),
        (''links'', PList (as_list (py_get company ''links''))),
        (''schemaVersion'', PInt version),
        (''updatedAt'', py_get company ''updated_at''), (''createdAt'', py_get company ''created_at'')])
     (to_int (py_or (py_get company ''schema_version'') (PInt 1)))"

text \<open>\<open>_upsert_registry_company_doc\<close>: whether it is new, and the document merged into the stored one.\<close>

definition created_at_of :: "py_record \<Rightarrow> string \<Rightarrow> py" where
  "created_at_of existing now_iso = (if is_text (py_get existing ''created_at'') then py_get existing ''created_at'' else PStr now_iso)"

definition upsert_registry_company_doc ::
  "(py \<Rightarrow> string) \<Rightarrow> string \<Rightarrow> string \<Rightarrow> company_draft \<Rightarrow> string \<Rightarrow> py_record \<Rightarrow> bool \<times> py_record" where
  "upsert_registry_company_doc fmt tenant_id company_id f now_iso existing =
     (existing = [], dset ''created_at'' (created_at_of existing now_iso) (admin_company_payload fmt tenant_id company_id f now_iso))"

section \<open>Creating and updating a company\<close>

datatype company_error =
    TenantMismatch | InvalidCompanyId | InvalidTemplateId | InvalidDisplayName | InvalidStatus | TemplateNotFound

definition company_statuses :: "string list" where
  "company_statuses = [''active'', ''beta'', ''disabled'']"

definition offered_templates :: "py list \<Rightarrow> string option list" where
  "offered_templates templates =
     map (\<lambda>t. normalize_template_id (py_get (as_dict t) ''id'')) (filter (\<lambda>t. truthy (py_get (as_dict t) ''id'')) templates)"

record company_upsert =
  up_company_id :: string
  up_template_id :: string
  up_display_name :: string
  up_status :: string
  up_connectors :: py_record
  up_overview :: "string option"
  up_facts :: py_record
  up_links :: "string list"
  up_tenant_id :: "string option"

text \<open>\<open>templates\<close>: the templates of the tenant's onboarding configuration; \<open>existing\<close>: the stored document.\<close>

definition upsert_company ::
  "(py \<Rightarrow> string) \<Rightarrow> string \<Rightarrow> py list \<Rightarrow> string \<Rightarrow> py_record \<Rightarrow> company_upsert \<Rightarrow> company_error + string \<times> bool \<times> py_record" where
  "upsert_company fmt tenant_id templates now_iso existing p =
     (let template = text_of (normalize_template_id (PStr (up_template_id p)));
          display = strip (up_display_name p); status = lower (strip (up_status p))
      in if normalize_tenant_id (opt_text (up_tenant_id p)) tenant_id \<noteq> tenant_id then Inl TenantMismatch
         else case normalize_company_id_strict (PStr (up_company_id p)) of
             None \<Rightarrow> Inl InvalidCompanyId
           | Some company_id \<Rightarrow>
               if template = [] then Inl InvalidTemplateId
               else if display = [] then Inl InvalidDisplayName
               else if status \<notin> set company_statuses then Inl InvalidStatus
               else if Some template \<notin> set (offered_templates templates) then Inl TemplateNotFound
               else Inr (company_id, upsert_registry_company_doc fmt tenant_id company_id
                 \<lparr>industry_template_id = template, display_name = display, company_status = status,
                  connectors = up_connectors p, overview = text_of (up_overview p), facts = up_facts p,
                  links = map PStr (up_links p)\<rparr> now_iso existing))"

record company_update =
  new_template_id :: "string option"
  new_display_name :: "string option"
  new_status :: "string option"
  new_connectors :: "py_record option"
  new_overview :: "string option"
  new_facts :: "py_record option"
  new_links :: "string list option"
  new_tenant_id :: "string option"

definition next_fields :: "(py \<Rightarrow> string) \<Rightarrow> string \<Rightarrow> py_record \<Rightarrow> company_update \<Rightarrow> company_draft" where
  "next_fields fmt company_id doc p =
     \<lparr>industry_template_id = text_of (normalize_template_id
        (case new_template_id p of Some t \<Rightarrow> PStr t | None \<Rightarrow> py_get doc ''industry_template_id'')),
      display_name = (case new_display_name p of Some t \<Rightarrow> strip t
        | None \<Rightarrow> str_value fmt (py_or (py_get doc ''display_name'') (py_or (py_get doc ''name'') (PStr company_id)))),
      company_status = lower (strip (case new_status p of Some t \<Rightarrow> t
        | None \<Rightarrow> str_value fmt (py_or (py_get doc ''status'') (PStr ''active'')))),
      connectors = (case new_connectors p of Some c \<Rightarrow> c | None \<Rightarrow> as_dict (py_get doc ''connectors'')),
      overview = (case new_overview p of Some t \<Rightarrow> t | None \<Rightarrow> str_value fmt (py_or (py_get doc ''overview'') (PStr []))),
      facts = (case new_facts p of Some c \<Rightarrow> c | None \<Rightarrow> as_dict (py_get doc ''facts'')),
      links = (case new_links p of Some l \<Rightarrow> map PStr l | None \<Rightarrow> as_list (py_get doc ''links''))\<rparr>"

definition update_company ::
  "(py \<Rightarrow> string) \<Rightarrow> string \<Rightarrow> string \<Rightarrow> py list \<Rightarrow> string \<Rightarrow> py_record \<Rightarrow> company_update \<Rightarrow> company_error + py_record" where
  "update_company fmt tenant_id company_id templates now_iso doc p =
     (let f = next_fields fmt company_id doc p;
          payload = admin_company_payload fmt tenant_id company_id f now_iso;
          created = plain_text (py_get doc ''created_at'')
      in if normalize_tenant_id (opt_text (new_tenant_id p)) tenant_id \<noteq> tenant_id then Inl TenantMismatch
         else if display_name f = [] then Inl InvalidDisplayName
         else if industry_template_id f = [] then Inl InvalidTemplateId
         else if company_status f \<notin> set company_statuses then Inl InvalidStatus
         else if Some (industry_template_id f) \<notin> set (offered_templates templates) then Inl TemplateNotFound
         else Inr (if created \<noteq> [] then dset ''created_at'' (PStr created) payload else payload))"

text \<open>\<open>_resolve_company_for_bootstrap\<close>: the company asked for, else the default, else the only one.\<close>

definition company_ids :: "(py \<Rightarrow> string) \<Rightarrow> py_record list \<Rightarrow> string set" where
  "company_ids fmt companies =
     set (map (\<lambda>c. lower (strip (str_value fmt (py_get c ''id'')))) (filter (\<lambda>c. truthy (py_get c ''id'')) companies))"

definition the_only :: "'a set \<Rightarrow> 'a option" where
  "the_only A = (if is_singleton A then Some (the_elem A) else None)"

definition resolve_company_for_bootstrap ::
  "(py \<Rightarrow> string) \<Rightarrow> string \<Rightarrow> string \<Rightarrow> py_record list \<Rightarrow> py_record option \<Rightarrow> string option" where
  "resolve_company_for_bootstrap fmt default_company_id requested companies defaults =
     (let ids = company_ids fmt companies in
      if requested \<noteq> []
      then (let c = normalize_company_id default_company_id (PStr requested) in if c \<in> ids then Some c else None)
      else let c = (case defaults of None \<Rightarrow> [] | Some d \<Rightarrow> normalize_company_id default_company_id (py_get d ''companyId''))
        in if c \<noteq> [] \<and> c \<in> ids then Some c else the_only ids)"

section \<open>Writing a connector\<close>

text \<open>
  What Firestore makes of a document: \<open>set\<close> with merge, and \<open>update\<close> of the field path
  \<open>connectors.\<close>id with the time (\<open>None\<close> is \<open>DELETE_FIELD\<close>).
\<close>

record doc_ops =
  merge_set :: "py_record \<Rightarrow> py_record \<Rightarrow> py_record"
  update_path :: "string \<Rightarrow> py option \<Rightarrow> string \<Rightarrow> py_record \<Rightarrow> py_record"

datatype write_kind = CreateConnector | UpdateConnector | DeleteConnector

datatype write_answer =
    Written | WriteInProgress | CompanyNotFound | ConnectorAlreadyExists | ConnectorNotFound | StorageUnavailable

definition connectors_of :: "py_record \<Rightarrow> py_record" where
  "connectors_of doc = as_dict (py_get doc ''connectors'')"

definition new_value :: "write_kind \<Rightarrow> py \<Rightarrow> py option" where
  "new_value kind connector = (if kind = DeleteConnector then None else Some connector)"

definition put_entry :: "string \<Rightarrow> py option \<Rightarrow> py_record \<Rightarrow> py_record" where
  "put_entry cid v d = (case v of None \<Rightarrow> dpop cid d | Some x \<Rightarrow> dset cid x d)"

text \<open>Under the lock: \<open>update_works\<close> and \<open>save_works\<close> say whether the two Firestore calls succeed.\<close>

definition write_connector ::
  "doc_ops \<Rightarrow> bool \<Rightarrow> bool \<Rightarrow> write_kind \<Rightarrow> string \<Rightarrow> py \<Rightarrow> string \<Rightarrow> py_record \<Rightarrow> py_record \<times> write_answer" where
  "write_connector ops update_works save_works kind cid connector now_iso doc =
     (let present = dget (connectors_of doc) cid \<noteq> None;
          v = new_value kind connector
      in if kind = CreateConnector \<and> present then (doc, ConnectorAlreadyExists)
         else if kind \<noteq> CreateConnector \<and> \<not> present then (doc, ConnectorNotFound)
         else if update_works then (update_path ops cid v now_iso doc, Written)
         else if save_works
           then (merge_set ops doc (dset ''updated_at'' (PStr now_iso)
               (dset ''connectors'' (PDict (put_entry cid v (connectors_of doc))) doc)), Written)
         else (doc, StorageUnavailable))"

text \<open>The whole critical section: acquire, load again (\<open>loads\<close>), write, and release in \<open>finally\<close>.\<close>

type_synonym connector_locks = "memory_locks \<times> (string, py_record) dict option"

definition locked_connector_write ::
  "doc_ops \<Rightarrow> bool \<Rightarrow> clock \<Rightarrow> string \<Rightarrow> clock \<Rightarrow> bool \<Rightarrow> bool \<Rightarrow> bool \<Rightarrow> write_kind \<Rightarrow> string \<Rightarrow> py \<Rightarrow> string
   \<Rightarrow> connector_locks \<times> py_record \<Rightarrow> (connector_locks \<times> py_record) \<times> write_answer" where
  "locked_connector_write ops uf ttl lock_key now loads update_works save_works kind cid connector now_iso st =
     (case acquire_connector_lock uf ttl lock_key now (fst st) of
        (locks, False) \<Rightarrow> ((locks, snd st), WriteInProgress)
      | (locks, True) \<Rightarrow>
          (case (if loads then write_connector ops update_works save_works kind cid connector now_iso (snd st)
                 else (snd st, CompanyNotFound)) of
             (doc, answer) \<Rightarrow> ((release_connector_lock uf lock_key locks, doc), answer)))"

section \<open>Theorems\<close>

lemma normalize_id_nonempty: "normalize_id n v = Some s \<Longrightarrow> strip s \<noteq> [] \<and> s \<noteq> []"
  using normalize_id_safe [of n v s] by (cases s) (auto simp: strip_no_space list_all_iff)

lemma payload_fields:
  "py_get (admin_company_payload fmt t c f now) ''schema_version'' = PInt 1"
  "py_get (admin_company_payload fmt t c f now) ''company_id'' = PStr c"
  "py_get (admin_company_payload fmt t c f now) ''tenant_id'' = PStr t"
  "py_get (admin_company_payload fmt t c f now) ''industry_template_id'' = PStr (industry_template_id f)"
  "py_get (admin_company_payload fmt t c f now) ''status'' = PStr (company_status f)"
  "py_get (admin_company_payload fmt t c f now) ''connectors'' = PDict (connectors f)"
  "py_get (admin_company_payload fmt t c f now) ''display_name'' = PStr (display_name f)"
  by (simp_all add: admin_company_payload_def py_get_def dget_default_def)

lemma company_document_valid:
  assumes "strip c \<noteq> []" and "strip t \<noteq> []" and "strip (industry_template_id f) \<noteq> []"
  shows "validate_company fmt (PDict (admin_company_payload fmt' t c f now)) = []"
    and "validate_company fmt (PDict (dset ''created_at'' x (admin_company_payload fmt' t c f now))) = []"
  using assms
  by (simp_all add: required_texts_ok schema_version_errors_def py_get_dset payload_fields
      MIN_SUPPORTED_SCHEMA_VERSION_def MAX_SUPPORTED_SCHEMA_VERSION_def)

text \<open>What a written document promises to its readers.\<close>

definition company_ok :: "(py \<Rightarrow> string) \<Rightarrow> string \<Rightarrow> string \<Rightarrow> py list \<Rightarrow> py_record \<Rightarrow> bool" where
  "company_ok fmt tenant_id company_id templates d \<longleftrightarrow>
     validate_company fmt (PDict d) = []
     \<and> py_get d ''tenant_id'' = PStr tenant_id \<and> py_get d ''company_id'' = PStr company_id
     \<and> normalize_template_id (py_get d ''industry_template_id'') \<in> set (offered_templates templates)
     \<and> (\<exists>s. py_get d ''status'' = PStr s \<and> s \<in> set company_statuses)
     \<and> (\<exists>s. py_get d ''display_name'' = PStr s \<and> s \<noteq> [])"

lemma template_normal:
  assumes "t = text_of (normalize_template_id v)" and "t \<noteq> []"
  shows "normalize_template_id (PStr t) = Some t" and "strip t \<noteq> []"
proof -
  have "normalize_id 127 v = Some t" using assms by (auto simp: text_of_def normalize_template_id_def split: option.splits)
  then show "normalize_template_id (PStr t) = Some t" "strip t \<noteq> []"
    using normalize_id_idem normalize_id_nonempty by (auto simp: normalize_template_id_def)
qed

lemma upsert_company_ok:
  assumes "strip tenant_id \<noteq> []" and "upsert_company fmt tenant_id templates now_iso existing p = Inr (company_id, created, d)"
  shows "company_ok fmt tenant_id company_id templates d"
proof -
  let ?t = "text_of (normalize_template_id (PStr (up_template_id p)))"
  obtain c where c: "normalize_company_id_strict (PStr (up_company_id p)) = Some c"
    using assms(2) by (auto simp: upsert_company_def Let_def split: if_splits option.splits)
  note run = assms(2) [unfolded upsert_company_def Let_def c option.case]
  note r1 = guard_InrD [OF run] note r2 = guard_InrD [OF r1 [THEN conjunct2]]
  note r3 = guard_InrD [OF r2 [THEN conjunct2]] note r4 = guard_InrD [OF r3 [THEN conjunct2]]
  note r5 = guard_InrD [OF r4 [THEN conjunct2]]
  have id: "strip c \<noteq> []" using c normalize_id_nonempty unfolding normalize_company_id_strict_def by blast
  have t: "normalize_template_id (PStr ?t) = Some ?t" "strip ?t \<noteq> []" using template_normal r2 by auto
  show ?thesis
    using r3 r4 r5 id t assms(1)
    by (auto simp: company_ok_def upsert_registry_company_doc_def company_document_valid py_get_dset payload_fields
      simp del: validate_company.simps)
qed

lemma update_company_ok:
  assumes "strip tenant_id \<noteq> []" and "strip company_id \<noteq> []"
    and "update_company fmt tenant_id company_id templates now_iso doc p = Inr d"
  shows "company_ok fmt tenant_id company_id templates d"
proof -
  let ?f = "next_fields fmt company_id doc p"
  note run = assms(3) [unfolded update_company_def Let_def]
  note r1 = guard_InrD [OF run] note r2 = guard_InrD [OF r1 [THEN conjunct2]]
  note r3 = guard_InrD [OF r2 [THEN conjunct2]] note r4 = guard_InrD [OF r3 [THEN conjunct2]]
  note r5 = guard_InrD [OF r4 [THEN conjunct2]]
  have "industry_template_id ?f = text_of (normalize_template_id
      (case new_template_id p of Some t \<Rightarrow> PStr t | None \<Rightarrow> py_get doc ''industry_template_id''))"
    by (simp add: next_fields_def)
  then have t: "normalize_template_id (PStr (industry_template_id ?f)) = Some (industry_template_id ?f)"
    "strip (industry_template_id ?f) \<noteq> []" using template_normal r3 by auto
  show ?thesis
    using r2 r4 r5 t assms(1,2)
    by (auto simp: company_ok_def company_document_valid py_get_dset payload_fields
      simp del: validate_company.simps split: if_splits)
qed

lemma valid_document_loads:
  assumes "validate_company fmt (PDict d) = []"
  shows "load_tenant_company fmt (Some \<lparr>template_doc = tpl, company_doc = (\<lambda>_ _. Document (PDict d))\<rparr>) t c = Inr (PDict d)"
proof -
  have "schema_version_errors fmt d = []" using assms by simp
  then obtain n where "validate_registry_schema_version fmt (PDict d) ''company''
      (fmt (py_or (py_get d ''company_id'') (PStr c))) = Inr n"
    using schema_version_agrees by blast
  then show ?thesis by (simp add: load_tenant_company_def checked_document_def)
qed

text \<open>
  What the routes store: the document that \<open>set(..., merge=True)\<close> makes of the stored one and
  the accepted payload.  Of the merge it is used that a field of the payload that is no map
  replaces the stored one, and that a map of the payload gives a map with its entries that are
  no maps themselves.
\<close>

fun is_map :: "py \<Rightarrow> bool" where
  "is_map (PDict d) = True"
| "is_map _ = False"

definition merge_law :: "doc_ops \<Rightarrow> bool" where
  "merge_law ops \<longleftrightarrow> (\<forall>old new k v. dict_wf new \<longrightarrow> dget new k = Some v \<longrightarrow>
     (\<not> is_map v \<longrightarrow> dget (merge_set ops old new) k = Some v) \<and>
     (\<forall>e k' x. v = PDict e \<longrightarrow> dget e k' = Some x \<longrightarrow> \<not> is_map x \<longrightarrow>
        dget (as_dict (py_get (merge_set ops old new) k)) k' = Some x))"

lemma merged_scalar:
  assumes "merge_law ops" and "dict_wf new" and "dget new k = Some v" and "\<not> is_map v"
  shows "py_get (merge_set ops old new) k = py_get new k"
  using assms(1) [unfolded merge_law_def, rule_format, OF assms(2,3)] assms(3,4)
  by (simp add: py_get_def dget_default_def)

definition scalar_fields :: "string list" where
  "scalar_fields = [''schema_version'', ''tenant_id'', ''company_id'', ''industry_template_id'', ''display_name'', ''status'',
     ''overview'', ''links'', ''updated_at'']"

lemma accepted_shape:
  assumes "upsert_company fmt tenant_id templates now_iso existing u = Inr (company_id, created, d)
      \<or> update_company fmt tenant_id company_id templates now_iso existing p = Inr d"
  shows "\<exists>f c. d = admin_company_payload fmt tenant_id company_id f now_iso \<or>
    d = dset ''created_at'' c (admin_company_payload fmt tenant_id company_id f now_iso)"
  using assms
  by (auto simp: upsert_company_def update_company_def Let_def upsert_registry_company_doc_def
      split: if_split_asm option.split_asm)

lemma payload_keys: "map fst (admin_company_payload fmt t c f now) =
    [''schema_version'', ''tenant_id'', ''company_id'', ''industry_template_id'', ''display_name'', ''status'',
     ''connectors'', ''overview'', ''facts'', ''links'', ''updated_at'']"
  by (simp add: admin_company_payload_def)

lemma payload_dict: "dict_wf (admin_company_payload fmt t c f now)"
  by (simp add: dict_wf_def payload_keys)

lemma payload_scalar:
  assumes "k \<in> set scalar_fields"
  shows "\<exists>v. dget (admin_company_payload fmt t c f now) k = Some v \<and> \<not> is_map v" and "k \<noteq> ''created_at''"
  using assms by (auto simp: scalar_fields_def admin_company_payload_def company_links_def)

lemma stored_scalar:
  assumes "merge_law ops" and "d = admin_company_payload fmt t c f now \<or>
      d = dset ''created_at'' x (admin_company_payload fmt t c f now)" and "k \<in> set scalar_fields"
  shows "py_get (merge_set ops old d) k = py_get d k"
proof -
  have "dict_wf d" using assms(2) payload_dict by (metis dict_wf_dset)
  moreover obtain v where "dget d k = Some v" "\<not> is_map v"
    using assms(2) payload_scalar [OF assms(3)] by (metis dget_dset)
  ultimately show ?thesis by (rule merged_scalar [OF assms(1)])
qed

lemma company_ok_cong:
  assumes "company_ok fmt t c templates d" and "\<forall>k \<in> set scalar_fields. py_get d' k = py_get d k"
  shows "company_ok fmt t c templates d'"
proof -
  have "validate_company fmt (PDict d') = validate_company fmt (PDict d)"
    using assms(2) by (simp add: scalar_fields_def required_texts_def schema_version_errors_def cong: option.case_cong if_cong)
  then show ?thesis using assms by (simp add: company_ok_def scalar_fields_def del: validate_company.simps)
qed

text \<open>The fields of an answer that the maps of a document do not enter.\<close>

definition answered_fields :: "string list" where
  "answered_fields = [''id'', ''tenantId'', ''templateId'', ''displayName'', ''status'', ''overview'', ''links'',
     ''schemaVersion'', ''updatedAt'']"

lemma response_cong:
  assumes "\<forall>k \<in> set scalar_fields. py_get d' k = py_get d k"
    and "py_get d ''schema_version'' = PInt 1" and "py_get d ''display_name'' = PStr n" and "n \<noteq> []"
  shows "\<exists>r r'. admin_company_response fmt t c d = Some r \<and> admin_company_response fmt t c d' = Some r' \<and>
    (\<forall>k \<in> set answered_fields. py_get r' k = py_get r k)"
  using assms
  by (simp add: admin_company_response_def scalar_fields_def answered_fields_def py_or_def py_get_def [of "_ # _"]
      dget_default_def)

text \<open>
  C20 Whatever document of the company is stored before, the document that is stored after
  one of the two write routes accepted a company passes the registry's own validator and is
  loaded by the registry loader as it is stored: it carries the tenant and the company it was
  written for, a template the tenant is offered, one of the three statuses and a name.  A later
  read answers with the same template, name, status, overview, links, version and time as the
  write itself did, and with every given fact that is no map.  The routes store with Firestore's merge,
  whose law \<open>merge_law\<close> is assumed; entries of the stored maps that the payload does not
  mention may stay (\<open>omitted_fact_stays\<close>).
\<close>

theorem company_writes_load:
  assumes "strip tenant_id \<noteq> []" and "merge_law ops"
    and "upsert_company fmt tenant_id templates now_iso existing u = Inr (company_id, created, d)
      \<or> strip company_id \<noteq> [] \<and> update_company fmt tenant_id company_id templates now_iso existing p = Inr d"
    and "stored = merge_set ops old d"
  shows "company_ok fmt tenant_id company_id templates stored
    \<and> load_tenant_company fmt (Some \<lparr>template_doc = tpl, company_doc = (\<lambda>_ _. Document (PDict stored))\<rparr>) tenant_id company_id
        = Inr (PDict stored)
    \<and> (\<exists>r r'. admin_company_response fmt tenant_id company_id d = Some r
        \<and> admin_company_response fmt tenant_id company_id stored = Some r'
        \<and> (\<forall>k \<in> set answered_fields. py_get r' k = py_get r k))
    \<and> (\<forall>k x. dget (as_dict (py_get d ''facts'')) k = Some x \<longrightarrow> \<not> is_map x
        \<longrightarrow> dget (as_dict (py_get stored ''facts'')) k = Some x)"
proof -
  have "company_ok fmt tenant_id company_id templates d"
    using assms(1,3) upsert_company_ok update_company_ok by blast
  moreover obtain f c where shape: "d = admin_company_payload fmt tenant_id company_id f now_iso \<or>
      d = dset ''created_at'' c (admin_company_payload fmt tenant_id company_id f now_iso)"
    using accepted_shape assms(3) by blast
  have same: "\<forall>k \<in> set scalar_fields. py_get stored k = py_get d k"
    unfolding assms(4) using stored_scalar [OF assms(2) shape] by blast
  ultimately have ok: "company_ok fmt tenant_id company_id templates d" "company_ok fmt tenant_id company_id templates stored"
    using company_ok_cong by blast+
  then obtain n where n: "py_get d ''display_name'' = PStr n" "n \<noteq> []" by (auto simp: company_ok_def)
  have version: "py_get d ''schema_version'' = PInt 1" using shape by (auto simp: payload_fields py_get_dset)
  have load: "load_tenant_company fmt (Some \<lparr>template_doc = tpl, company_doc = (\<lambda>_ _. Document (PDict stored))\<rparr>)
      tenant_id company_id = Inr (PDict stored)"
    using ok(2) valid_document_loads unfolding company_ok_def by blast
  have wf: "dict_wf d" using shape payload_dict by (metis dict_wf_dset)
  have facts: "dget d ''facts'' = Some (PDict (facts f))" using shape by (auto simp: admin_company_payload_def)
  then have "as_dict (py_get d ''facts'') = facts f" by (simp add: py_get_def dget_default_def)
  moreover have "dget (as_dict (py_get stored ''facts'')) k = Some x"
    if "dget (facts f) k = Some x" "\<not> is_map x" for k x
    unfolding assms(4) using assms(2) [unfolded merge_law_def, rule_format, OF wf facts] that by blast
  ultimately show ?thesis
    using ok(2) load response_cong [OF same version n] by (intro conjI) simp_all
qed

definition sample_upsert :: company_upsert where
  "sample_upsert = \<lparr>up_company_id = ''Acme-1'', up_template_id = ''Hotel'', up_display_name = '' Acme '', up_status = ''Active'',
     up_connectors = [], up_overview = None, up_facts = [(''rooms'', PInt 7)], up_links = [], up_tenant_id = None\<rparr>"

definition sample_merge :: doc_ops where
  "sample_merge = \<lparr>merge_set = dmerge, update_path = (\<lambda>cid v now d. d)\<rparr>"

lemma sample_merge_law: "merge_law sample_merge"
  by (auto simp: merge_law_def sample_merge_def dget_dmerge py_get_def dget_default_def)

lemma company_writes_load_witness:
  "\<exists>created d. upsert_company (\<lambda>_. []) ''public'' [PDict [(''id'', PStr ''hotel'')]] ''now'' [] sample_upsert = Inr (''acme-1'', created, d)
     \<and> py_get (dmerge [(''old'', PInt 1)] d) ''company_id'' = PStr ''acme-1''"
proof -
  let ?u = "upsert_company (\<lambda>_. []) ''public'' [PDict [(''id'', PStr ''hotel'')]] ''now'' [] sample_upsert"
  have e: "?u = Inr (''acme-1'', snd (projr ?u))" by code_simp
  obtain created d where u: "?u = Inr (''acme-1'', created, d)" using e by (metis prod.collapse)
  have "strip ''public'' \<noteq> []" by code_simp
  from company_writes_load [OF this sample_merge_law disjI1 [OF u] refl, of "[(''old'', PInt 1)]"]
  have "py_get (dmerge [(''old'', PInt 1)] d) ''company_id'' = PStr ''acme-1''"
    by (simp add: company_ok_def sample_merge_def)
  with u show ?thesis by blast
qed

text \<open>
  A merge keeps the entries of a stored map that the new map, not being empty, does not
  mention: an update that leaves a fact out answers without it, but the fact stays stored.
\<close>

lemma omitted_fact_stays:
  assumes "\<forall>old new e k. dget new ''facts'' = Some (PDict e) \<longrightarrow> e \<noteq> [] \<longrightarrow> dget e k = None \<longrightarrow>
      dget (as_dict (py_get (merge_set ops old new) ''facts'')) k = dget (as_dict (py_get old ''facts'')) k"
    and "update_company fmt tenant_id company_id templates now_iso doc p = Inr d"
    and "new_facts p = Some e" and "e \<noteq> []" and "dget e k = None" and "dget (as_dict (py_get doc ''facts'')) k = Some x"
  shows "dget (as_dict (py_get d ''facts'')) k = None"
    and "dget (as_dict (py_get (merge_set ops doc d) ''facts'')) k = Some x"
proof -
  have "dget d ''facts'' = Some (PDict e)"
    using assms(2,3)
    by (auto simp: update_company_def Let_def admin_company_payload_def next_fields_def split: if_split_asm)
  then show "dget (as_dict (py_get d ''facts'')) k = None"
    and "dget (as_dict (py_get (merge_set ops doc d) ''facts'')) k = Some x"
    using assms(1,4-6) by (simp_all add: py_get_def [of d] dget_default_def)
qed

section \<open>Connector writes\<close>

lemma write_connector_cases:
  assumes "write_connector ops True save_works kind cid connector now_iso doc = (doc', ans)"
  shows "ans = Written \<and> doc' = update_path ops cid (new_value kind connector) now_iso doc
      \<and> (dget (connectors_of doc) cid = None \<longleftrightarrow> kind = CreateConnector)
    \<or> doc' = doc \<and> (ans = ConnectorAlreadyExists \<or> ans = ConnectorNotFound)"
  using assms unfolding write_connector_def Let_def by (auto split: if_split_asm)

text \<open>
  C17 A connector write that Firestore serves either is stored, and then exactly the entry of that
  connector was created, replaced or removed (created only when there was none, replaced or
  removed only when there was one), or changes nothing; it is refused as in progress exactly
  while somebody holds the connector's lock; and otherwise the lock is free afterwards, on
  every path.
\<close>

theorem connector_write_exact:
  assumes "connector_locks_ok uf locks"
    and "\<forall>d v. connectors_of (update_path ops cid v now_iso d) = put_entry cid v (connectors_of d)"
    and "locked_connector_write ops uf ttl key now loads True save_works kind cid connector now_iso (locks, doc)
      = ((locks', doc'), ans)"
  shows "(ans = Written \<longrightarrow> connectors_of doc' = put_entry cid (new_value kind connector) (connectors_of doc)
      \<and> (dget (connectors_of doc) cid = None \<longleftrightarrow> kind = CreateConnector))
    \<and> (ans \<noteq> Written \<longrightarrow> doc' = doc)
    \<and> (ans = WriteInProgress \<longleftrightarrow> (\<exists>e. connector_expiry uf locks key = Some e \<and> now < e))
    \<and> (ans \<noteq> WriteInProgress \<longrightarrow> connector_expiry uf locks' key = None)"
proof -
  obtain l got where a: "acquire_connector_lock uf ttl key now locks = (l, got)" by (meson surj_pair)
  have got: "got \<longleftrightarrow> \<not> (\<exists>e. connector_expiry uf locks key = Some e \<and> now < e)"
    using connector_lock.acquires [OF assms(1), where ttl = ttl and k = key and now = now] by (auto simp: a split: option.splits)
  have ok: "connector_locks_ok uf l"
    using connector_lock.inv_acquire [OF assms(1), where ttl = ttl and k = key and now = now] by (simp add: a)
  show ?thesis
  proof (cases got)
    case False
    then show ?thesis using assms(3) got by (auto simp: locked_connector_write_def a)
  next
    case True
    obtain d w where w: "(if loads then write_connector ops True save_works kind cid connector now_iso doc
        else (doc, CompanyNotFound)) = (d, w)" by (meson surj_pair)
    then have r: "locks' = release_connector_lock uf key l" "doc' = d" "ans = w"
      using assms(3) [unfolded locked_connector_write_def fst_conv snd_conv a w] True by simp_all
    have "connector_expiry uf locks' key = None" using connector_lock.free [OF ok] by (simp add: r)
    moreover have "w = Written \<and> d = update_path ops cid (new_value kind connector) now_iso doc
        \<and> (dget (connectors_of doc) cid = None \<longleftrightarrow> kind = CreateConnector)
      \<or> d = doc \<and> (w = ConnectorAlreadyExists \<or> w = ConnectorNotFound \<or> w = CompanyNotFound)"
    proof (cases loads)
      case True
      with w have "write_connector ops True save_works kind cid connector now_iso doc = (d, w)" by simp
      from write_connector_cases [OF this] show ?thesis by blast
    next
      case False
      with w show ?thesis by simp
    qed
    ultimately show ?thesis using assms(2) got True r by auto
  qed
qed

definition sample_ops :: doc_ops where
  "sample_ops = \<lparr>merge_set = (\<lambda>d p. p),
     update_path = (\<lambda>cid v now d. dset ''connectors'' (PDict (put_entry cid v (connectors_of d))) d)\<rparr>"

lemma sample_ops_path:
  "\<forall>d v. connectors_of (update_path sample_ops cid v now_iso d) = put_entry cid v (connectors_of d)"
  by (simp add: sample_ops_def connectors_of_def py_get_dset)

lemma connector_write_exact_witness:
  "\<exists>locks' doc'. locked_connector_write sample_ops False 30 ''t:c:crm'' 1 True True True CreateConnector ''crm'' (PInt 7) ''now''
      (([], None), []) = ((locks', doc'), Written) \<and> dget (connectors_of doc') ''crm'' = Some (PInt 7)"
proof -
  let ?r = "locked_connector_write sample_ops False 30 ''t:c:crm'' 1 True True True CreateConnector ''crm'' (PInt 7) ''now'' (([], None), [])"
  have e: "?r = ((fst (fst ?r), snd (fst ?r)), Written)" by code_simp
  have ok: "connector_locks_ok False ([], None)" by (simp add: connector_locks_ok_def)
  have "connectors_of (snd (fst ?r)) = put_entry ''crm'' (Some (PInt 7)) (connectors_of [])"
    using connector_write_exact [OF ok sample_ops_path e] by (simp add: new_value_def)
  then show ?thesis using e by (intro exI conjI) (assumption, simp add: put_entry_def)
qed

text \<open>
  When the update fails, a deletion falls back on a merge of the whole document, and a merge
  keeps what the new document does not mention (an empty map aside): the answer is a success,
  and the connector of a company with more than one stays.
\<close>

lemma fallback_delete_keeps:
  assumes "\<forall>d p k c. py_get p ''connectors'' = PDict c \<longrightarrow> c \<noteq> [] \<longrightarrow> dget c k = None \<longrightarrow>
      dget (connectors_of (merge_set ops d p)) k = dget (connectors_of d) k"
    and "dget (connectors_of doc) cid = Some x" and "dpop cid (connectors_of doc) \<noteq> []"
  shows "snd (write_connector ops False True DeleteConnector cid connector now_iso doc) = Written"
    and "dget (connectors_of (fst (write_connector ops False True DeleteConnector cid connector now_iso doc))) cid = Some x"
  using assms by (simp_all add: write_connector_def new_value_def put_entry_def py_get_dset)

text \<open>
  The routes of companies store the connectors they are given as they are: whatever update is
  accepted, the same update with a password in a connector is accepted too and stored.
\<close>

lemma inline_secret_through_company:
  assumes "update_company fmt tenant_id company_id templates now_iso doc p = Inr d"
  shows "\<exists>d'. update_company fmt tenant_id company_id templates now_iso doc
      (p\<lparr>new_connectors := Some [(''crm'', PDict [(''config'', PDict [(''password'', PStr secret)])])]\<rparr>) = Inr d'
    \<and> has_key (py_get d' ''connectors'') ''password''"
proof -
  let ?c = "[(''crm'', PDict [(''config'', PDict [(''password'', PStr secret)])])]"
  let ?p = "p\<lparr>new_connectors := Some ?c\<rparr>"
  have f: "next_fields fmt company_id doc ?p = (next_fields fmt company_id doc p)\<lparr>connectors := ?c\<rparr>"
    by (simp add: next_fields_def)
  note run = assms [unfolded update_company_def Let_def]
  note r1 = guard_InrD [OF run] note r2 = guard_InrD [OF r1 [THEN conjunct2]]
  note r3 = guard_InrD [OF r2 [THEN conjunct2]] note r4 = guard_InrD [OF r3 [THEN conjunct2]]
  note r5 = guard_InrD [OF r4 [THEN conjunct2]]
  have k: "has_key (PDict ?c) ''password''" by simp
  show ?thesis
    using r1 r2 r3 r4 r5 k by (simp add: update_company_def Let_def f py_get_dset payload_fields del: has_key_entries)
qed

end
