(* ===== verification/Admin_Knowledge.thy ===== *)
theory Admin_Knowledge
  imports Registry_Schema Admin_Idempotency Connector_Config
begin

text \<open>
  Knowledge entries: \<open>service_knowledge.py\<close> and the import routes of \<open>routes/knowledge.py\<close>
  behind the admin checks.  The collection of a company is a dictionary by entry id; the hash
  of the seed, the clock's texts and the text extracted from a file are inputs; \<open>merge\<close> is
  Firestore's \<open>set\<close> with merge.
\<close>

section \<open>Entries\<close>

definition normalize_tags :: "(py \<Rightarrow> string) \<Rightarrow> py \<Rightarrow> string \<Rightarrow> string list" where
  "normalize_tags fmt raw_tags default_tag =
     (let tags = normal_list fmt raw_tags in if tags \<noteq> [] then tags else [default_tag])"

record knowledge_payload =
  kp_id :: "string option"
  kp_title :: "string option"
  kp_text :: string
  kp_tags :: "string list"
  kp_source :: string
  kp_url :: "string option"

text \<open>\<open>digest seed\<close>: the first sixteen hexadecimal digits of the SHA-256 of the seed.\<close>

definition knowledge_id :: "(string \<Rightarrow> string) \<Rightarrow> string \<Rightarrow> string \<Rightarrow> string \<Rightarrow> string option \<Rightarrow> string" where
  "knowledge_id digest title body time_text requested =
     (case Option.bind requested (\<lambda>k. if k = [] then None else normalize_connector_id (PStr k)) of
        Some k \<Rightarrow> k
      | None \<Rightarrow> ''kb-'' @ digest (title @ ''|'' @ body @ ''|'' @ time_text))"

definition knowledge_entry :: "(string \<Rightarrow> string) \<Rightarrow> string \<Rightarrow> string \<Rightarrow> knowledge_payload \<Rightarrow> py_record" where
  "knowledge_entry digest time_text now_iso p =
     (let body = strip (kp_text p);
          title = strip (or_else (text_of (kp_title p)) (or_else (take 80 body) ''Imported Knowledge''))
      in [(''id'', PStr (knowledge_id digest title body time_text (kp_id p))),
          (''title'', PStr title), (''text'', PStr body),
          (''tags'', PList (map PStr (normalize_tags (\<lambda>_. []) (PList (map PStr (kp_tags p))) ''general''))),
          (''source'', PStr (or_else (lower (strip (or_else (kp_source p) ''text''))) ''text'')),
          (''url'', PStr (strip (text_of (kp_url p)))),
          (''data_tier'', PStr ''admin''), (''updated_at'', PStr now_iso)])"

definition import_scope_payload :: "string \<Rightarrow> py_record \<Rightarrow> py" where
  "import_scope_payload company_id entry = PDict [(''companyId'', PStr company_id), (''entry'', PDict entry)]"

section \<open>Importing and deleting\<close>

type_synonym knowledge = "(string, py_record) dict"

datatype knowledge_answer =
    InvalidEntry "string list" | IdempotencyAnswer begin_result | KnowledgeUnavailable | Imported string py_record

text \<open>One import of a text; \<open>begin_idem\<close> is \<open>_idempotency_begin\<close> of this request on the payload.\<close>

definition import_knowledge_text ::
  "(string \<Rightarrow> string) \<Rightarrow> (py_record \<Rightarrow> py_record \<Rightarrow> py_record) \<Rightarrow> (py \<Rightarrow> 's \<Rightarrow> 's \<times> begin_result) \<Rightarrow> (cached \<Rightarrow> 's \<Rightarrow> 's)
   \<Rightarrow> bool \<Rightarrow> string \<Rightarrow> string \<Rightarrow> string \<Rightarrow> string \<Rightarrow> knowledge_payload \<Rightarrow> 's \<times> knowledge \<Rightarrow> ('s \<times> knowledge) \<times> knowledge_answer" where
  "import_knowledge_text digest merge begin_idem commit_idem write_works tenant_id company_id time_text now_iso p st =
     (let entry = knowledge_entry digest time_text now_iso p;
          kid = plain_text (py_get entry ''id'');
          errors = validate_knowledge_entry (PDict entry)
      in if errors \<noteq> [] then (st, InvalidEntry errors)
         else case begin_idem (import_scope_payload company_id entry) (fst st) of
             (s, Begun Proceed) \<Rightarrow>
               if \<not> write_works then ((s, snd st), KnowledgeUnavailable)
               else ((commit_idem (201, [(''apiVersion'', PStr ''v1''), (''tenantId'', PStr tenant_id), (''companyId'', PStr company_id),
                        (''knowledgeId'', PStr kid), (''entry'', PDict entry), (''created'', PBool True)]) s,
                      dset kid (merge (dget_default (snd st) kid []) entry) (snd st)), Imported kid entry)
           | (s, r) \<Rightarrow> ((s, snd st), IdempotencyAnswer r))"

text \<open>The payload of a URL import; \<open>None\<close>: the text payload's limits raise (title at most 160, text at least 1).\<close>

datatype url_import = InvalidUrl | PayloadRaises | TextPayload knowledge_payload

definition text_payload_limits :: "knowledge_payload \<Rightarrow> bool" where
  "text_payload_limits p \<longleftrightarrow>
     length (text_of (kp_id p)) \<le> 120 \<and> length (text_of (kp_title p)) \<le> 160
     \<and> 1 \<le> length (kp_text p) \<and> length (kp_text p) \<le> 20000
     \<and> 2 \<le> length (kp_source p) \<and> length (kp_source p) \<le> 32 \<and> length (text_of (kp_url p)) \<le> 2048"

definition import_url_payload ::
  "string option \<Rightarrow> string \<Rightarrow> string option \<Rightarrow> string option \<Rightarrow> string list \<Rightarrow> string \<Rightarrow> url_import" where
  "import_url_payload kid url title body tags source =
     (if \<not> startswith ''http://'' url \<and> \<not> startswith ''https://'' url then InvalidUrl
      else let p = \<lparr>kp_id = kid, kp_title = Some (or_else (text_of title) url),
             kp_text = strip (or_else (text_of body) (''Imported reference from '' @ url)),
             kp_tags = tags, kp_source = or_else source ''url'', kp_url = Some url\<rparr>
        in if text_payload_limits p then TextPayload p else PayloadRaises)"

datatype file_import = EmptyFile | FileTooLarge | NoReadableText | FilePayloadRaises | FilePayload knowledge_payload

definition file_tags :: "string option \<Rightarrow> string list" where
  "file_tags tags = (if strip (text_of tags) \<noteq> [] then map strip (split_on CHR '','' (text_of tags)) else [''file''])"

text \<open>\<open>extracted\<close>: the text of the file, by the extraction library or as UTF-8.\<close>

definition import_file_payload ::
  "nat \<Rightarrow> 'a list \<Rightarrow> string \<Rightarrow> string option \<Rightarrow> string option \<Rightarrow> string option \<Rightarrow> string \<Rightarrow> file_import" where
  "import_file_payload max_bytes raw extracted filename title tags source =
     (if raw = [] then EmptyFile
      else if length raw > max_bytes then FileTooLarge
      else if strip extracted = [] then NoReadableText
      else let p = \<lparr>kp_id = None, kp_title = Some (or_else (text_of title) (or_else (text_of filename) ''Imported File'')),
             kp_text = take 20000 (strip extracted), kp_tags = file_tags tags,
             kp_source = or_else source ''file'', kp_url = Some []\<rparr>
        in if text_payload_limits p then FilePayload p else FilePayloadRaises)"

definition delete_company_knowledge_entry :: "string \<Rightarrow> knowledge \<Rightarrow> knowledge \<times> bool" where
  "delete_company_knowledge_entry kid entries = (if dget entries kid = None then (entries, False) else (dpop kid entries, True))"

text \<open>\<open>_list_company_collection_docs\<close>: each document with its id, unless it has a field of that name.\<close>

definition list_company_collection_docs :: "knowledge \<Rightarrow> py_record list" where
  "list_company_collection_docs entries =
     map (\<lambda>(k, d). if strip k \<noteq> [] \<and> dget d ''id'' = None then dset ''id'' (PStr (strip k)) d else d) entries"

section \<open>Lemmas\<close>

lemma requested_id_kept:
  assumes "normalize_connector_id (PStr k) = Some k'" and "k \<noteq> []"
  shows "knowledge_id digest title body time_text (Some k) = k'"
  using assms by (simp add: knowledge_id_def)

text \<open>What is imported is stored under its id and read back.\<close>

lemma knowledge_import_stores:
  assumes "import_knowledge_text digest merge begin_idem commit_idem w t c time_text now_iso p st = (st', Imported kid entry)"
  shows "dget (snd st') kid = Some (merge (dget_default (snd st) kid []) entry)" and "py_get entry ''id'' = PStr kid"
    and "validate_knowledge_entry (PDict entry) = []"
proof -
  have id: "py_get (knowledge_entry digest time_text now_iso p) ''id'' = PStr (plain_text (py_get (knowledge_entry digest time_text now_iso p) ''id''))"
    by (simp add: knowledge_entry_def Let_def py_get_def dget_default_def)
  show "dget (snd st') kid = Some (merge (dget_default (snd st) kid []) entry)" and "py_get entry ''id'' = PStr kid"
    and "validate_knowledge_entry (PDict entry) = []"
    using assms id unfolding import_knowledge_text_def Let_def
    by (auto simp del: validate_knowledge_entry.simps split: if_split_asm prod.split_asm begin_result.split_asm verdict.split_asm)
qed

lemma entry_time: "py_get (knowledge_entry digest time_text now_iso p) ''updated_at'' = PStr now_iso"
  by (simp add: knowledge_entry_def Let_def py_get_def dget_default_def)

text \<open>
  The fingerprint covers the entry with its time, so with a hash that separates payloads the
  retry of an import, with the same key and content and at another time, is refused as a
  different request instead of being replayed, as long as the first is remembered.
\<close>

lemma import_retry_is_a_conflict:
  assumes "inj fingerprint" and "idempotency_key_dependency hdr = Some key" and "now_iso \<noteq> now_iso'"
    and "dget (memory st) (admin_store_key scope tenant_id key) =
      Some \<lparr>ad_fingerprint = fingerprint (import_scope_payload c (knowledge_entry digest tt now_iso p)), ad_done = dn, ad_expires = e\<rparr>"
    and "dict_wf (memory st)" and "now < e"
  shows "snd (idempotency_begin False doc_id f fingerprint hdr scope tenant_id
      (import_scope_payload c (knowledge_entry digest tt' now_iso' p)) now st) = Begun KeyReused"
proof -
  have "knowledge_entry digest tt now_iso p \<noteq> knowledge_entry digest tt' now_iso' p"
    using assms(3) entry_time by (metis py.inject(4))
  then have "fingerprint (import_scope_payload c (knowledge_entry digest tt now_iso p))
      \<noteq> fingerprint (import_scope_payload c (knowledge_entry digest tt' now_iso' p))"
    using assms(1) by (simp add: inj_eq import_scope_payload_def)
  then show ?thesis
    using assms(2,4-6)
    by (simp add: idempotency_begin_def fallback_begin_def memory_begin_def idempotency_prune_def Let_def in_dkeys_where_wf)
qed

text \<open>A URL that is longer than a title may be raises when no title is given.\<close>

lemma long_url_raises:
  assumes "startswith ''https://'' url" and "160 < length url"
  shows "import_url_payload kid url None body tags source = PayloadRaises"
  using assms by (cases url) (auto simp: import_url_payload_def text_payload_limits_def text_of_def or_else_def Let_def)

lemma deleted_is_gone:
  assumes "delete_company_knowledge_entry kid entries = (entries', found)"
  shows "dget entries' kid = None" and "found \<longleftrightarrow> dget entries kid \<noteq> None"
  using assms by (auto simp: delete_company_knowledge_entry_def split: if_splits)

end
