(* ===== verification/Company_Data.thy ===== *)
theory Company_Data
  imports Admin_Auth Admin_Companies Admin_Knowledge Inventory_Import
begin

text \<open>
  The rest of \<open>app/api/v1/admin/service_data.py\<close> with \<open>routes/data.py\<close>: purging, retention,
  export and deletion of a company's data, and the scheduled inventory sync.  The store gives
  the documents of each tenant, company and collection and the company documents; a time is
  its number of seconds, \<open>parse_ts\<close> reads an ISO text and \<open>iso_text\<close> writes one.
\<close>

type_synonym documents = "(string, py_record) dict"

record data_store =
  collection :: "string \<times> string \<times> string \<Rightarrow> documents"
  company :: "string \<times> string \<Rightarrow> py_record option"

definition put_collection :: "string \<Rightarrow> string \<Rightarrow> string \<Rightarrow> documents \<Rightarrow> data_store \<Rightarrow> data_store" where
  "put_collection t c name ds st = st\<lparr>collection := (collection st)((t, c, name) := ds)\<rparr>"

text \<open>\<open>_batch_delete_documents\<close> in chunks of 500; the count of the deleted.\<close>

definition delete_in_batches :: "string list \<Rightarrow> documents \<Rightarrow> documents \<times> nat" where
  "delete_in_batches ks ds =
     fold (\<lambda>chunk (ds, n). (dpop_all chunk ds, n + length chunk)) (batches 499 ks) (ds, 0)"

section \<open>Purging demonstration data\<close>

definition RUNTIME_COLLECTIONS :: "string list" where
  "RUNTIME_COLLECTIONS = [''products'', ''booking_slots'', ''knowledge'']"

definition purge_collection :: "(py_record \<Rightarrow> bool) \<Rightarrow> string \<Rightarrow> string \<Rightarrow> string \<Rightarrow> data_store \<Rightarrow> data_store \<times> nat" where
  "purge_collection doomed t c name st =
     (let ds = collection st (t, c, name) in
      case delete_in_batches (dkeys_where (\<lambda>_ d. doomed d) ds) ds of
        (ds', n) \<Rightarrow> (put_collection t c name ds' st, n))"

fun purge_collections :: "(py_record \<Rightarrow> bool) \<Rightarrow> string \<Rightarrow> string \<Rightarrow> string list \<Rightarrow> data_store \<Rightarrow> data_store \<times> (string \<times> nat) list" where
  "purge_collections doomed t c [] st = (st, [])"
| "purge_collections doomed t c (name # names) st =
     (case purge_collection doomed t c name st of
        (st, n) \<Rightarrow> (case purge_collections doomed t c names st of (st, counts) \<Rightarrow> (st, (name, n) # counts)))"

definition is_demo :: "py_record \<Rightarrow> bool" where
  "is_demo d \<longleftrightarrow> dget d ''data_tier'' = Some (PStr ''demo'')"

definition purge_company_demo_runtime_data :: "string \<Rightarrow> string \<Rightarrow> data_store \<Rightarrow> data_store \<times> (string \<times> nat) list" where
  "purge_company_demo_runtime_data t c st = purge_collections is_demo t c RUNTIME_COLLECTIONS st"

section \<open>Retention\<close>

record retention_counts =
  scanned :: nat
  deleted :: nat
  skipped :: nat
  missing_timestamp :: nat

definition parse_timestamp_utc :: "(string \<Rightarrow> rat option) \<Rightarrow> py \<Rightarrow> rat option" where
  "parse_timestamp_utc parse_ts v = (let s = strip (plain_text v) in if s = [] then None else parse_ts s)"

definition timestamp_of :: "(string \<Rightarrow> rat option) \<Rightarrow> py_record \<Rightarrow> rat option" where
  "timestamp_of parse_ts d =
     (case parse_timestamp_utc parse_ts (py_get d ''updated_at'') of
        Some q \<Rightarrow> Some q | None \<Rightarrow> parse_timestamp_utc parse_ts (py_get d ''created_at''))"

definition other_tier :: "(py \<Rightarrow> string) \<Rightarrow> string \<Rightarrow> py_record \<Rightarrow> bool" where
  "other_tier fmt tier d \<longleftrightarrow> tier \<noteq> [] \<and> lower (strip (str_value fmt (dget_default d ''data_tier'' (PStr [])))) \<noteq> tier"

definition expired_document :: "(py \<Rightarrow> string) \<Rightarrow> (string \<Rightarrow> rat option) \<Rightarrow> rat \<Rightarrow> string \<Rightarrow> py_record \<Rightarrow> bool" where
  "expired_document fmt parse_ts cutoff tier d \<longleftrightarrow>
     \<not> other_tier fmt tier d \<and> (case timestamp_of parse_ts d of None \<Rightarrow> False | Some q \<Rightarrow> q < cutoff)"

definition retention_scan :: "(py \<Rightarrow> string) \<Rightarrow> (string \<Rightarrow> rat option) \<Rightarrow> rat \<Rightarrow> string \<Rightarrow> documents \<Rightarrow> retention_counts" where
  "retention_scan fmt parse_ts cutoff tier ds =
     (let items = map snd ds in
      \<lparr>scanned = length items,
       deleted = length (filter (expired_document fmt parse_ts cutoff tier) items),
       skipped = length (filter (\<lambda>d. \<not> expired_document fmt parse_ts cutoff tier d) items),
       missing_timestamp = length (filter (\<lambda>d. \<not> other_tier fmt tier d \<and> timestamp_of parse_ts d = None) items)\<rparr>)"

definition retention_cutoff :: "rat \<Rightarrow> int \<Rightarrow> rat" where
  "retention_cutoff now older_than_days = now - of_int (86400 * max 1 older_than_days)"

fun purge_company_retention_data ::
  "(py \<Rightarrow> string) \<Rightarrow> (string \<Rightarrow> rat option) \<Rightarrow> rat \<Rightarrow> int \<Rightarrow> string \<Rightarrow> string \<Rightarrow> string \<Rightarrow> string list \<Rightarrow> data_store
   \<Rightarrow> data_store \<times> (string \<times> retention_counts) list" where
  "purge_company_retention_data fmt parse_ts now days tier t c [] st = (st, [])"
| "purge_company_retention_data fmt parse_ts now days tier t c (name # names) st =
     (let cutoff = retention_cutoff now days; target = lower (strip tier);
          counts = retention_scan fmt parse_ts cutoff target (collection st (t, c, name))
      in case purge_company_retention_data fmt parse_ts now days tier t c names
           (fst (purge_collection (expired_document fmt parse_ts cutoff target) t c name st)) of
         (st, report) \<Rightarrow> (st, (name, counts) # report))"

datatype retention_error = CollectionsRequired | CollectionInvalid "string set"

definition select_collections :: "string list \<Rightarrow> retention_error + string set" where
  "select_collections requested =
     (let selected = set (normal_capabilities requested);
          invalid = selected - {''knowledge'', ''products'', ''booking_slots''}
      in if selected = {} then Inl CollectionsRequired
         else if invalid \<noteq> {} then Inl (CollectionInvalid invalid) else Inr selected)"

section \<open>Export and deletion\<close>

definition delete_company_bundle :: "string \<Rightarrow> string \<Rightarrow> data_store \<Rightarrow> data_store \<times> (string \<times> nat) list" where
  "delete_company_bundle t c st =
     (case purge_collections (\<lambda>_. True) t c [''knowledge'', ''products'', ''booking_slots''] st of
        (st', counts) \<Rightarrow>
          (st'\<lparr>company := (company st')((t, c) := None)\<rparr>,
           counts @ [(''company'', if company st' (t, c) = None then 0 else 1)]))"

text \<open>The company as answered, with the listed collections; \<open>None\<close> when the answer raises.\<close>

definition export_company_bundle ::
  "(py \<Rightarrow> string) \<Rightarrow> string \<Rightarrow> string \<Rightarrow> py_record \<Rightarrow> bool \<Rightarrow> data_store
   \<Rightarrow> (py_record \<times> py_record list \<times> py_record list \<times> py_record list) option" where
  "export_company_bundle fmt t c doc include_runtime_data st =
     map_option (\<lambda>answer.
       (answer, list_company_collection_docs (collection st (t, c, ''knowledge'')),
        if include_runtime_data then list_company_collection_docs (collection st (t, c, ''products'')) else [],
        if include_runtime_data then list_company_collection_docs (collection st (t, c, ''booking_slots'')) else []))
     (admin_company_response fmt t c doc)"

section \<open>The scheduled inventory sync\<close>

definition sync_interval_minutes :: "py_record \<Rightarrow> int" where
  "sync_interval_minutes metadata =
     max 1 (min (case to_int (dget_default metadata ''interval_minutes'' (PInt 15)) of Some i \<Rightarrow> i | None \<Rightarrow> 15) 1440)"

definition inventory_sync_due :: "(string \<Rightarrow> rat option) \<Rightarrow> py_record \<Rightarrow> rat \<Rightarrow> bool \<Rightarrow> bool" where
  "inventory_sync_due parse_ts metadata now force \<longleftrightarrow>
     force \<or> truthy (dget_default metadata ''auto_enabled'' (PBool False))
       \<and> (case parse_timestamp_utc parse_ts (py_get metadata ''next_run_at'') of None \<Rightarrow> True | Some q \<Rightarrow> q \<le> now)"

definition inventory_sync_next_run_at :: "(rat \<Rightarrow> string) \<Rightarrow> rat \<Rightarrow> int \<Rightarrow> string" where
  "inventory_sync_next_run_at iso_text now interval = iso_text (now + of_int (60 * max 1 (min interval 1440)))"

text \<open>An optional text that is stored only when it is not blank.\<close>

definition text_entry :: "string \<Rightarrow> string option \<Rightarrow> py_record" where
  "text_entry key v = (let s = strip (text_of v) in if s \<noteq> [] then [(key, PStr s)] else [])"

record sync_counts =
  sy_written :: int
  sy_parsed :: int
  sy_normalized :: int
  sy_errors :: "string list"

definition inventory_sync_metadata ::
  "string \<Rightarrow> string \<Rightarrow> bool \<Rightarrow> string \<Rightarrow> string \<Rightarrow> string \<Rightarrow> string \<Rightarrow> string \<Rightarrow> sync_counts \<Rightarrow> bool \<Rightarrow> int
   \<Rightarrow> string option \<Rightarrow> string option \<Rightarrow> string option \<Rightarrow> py_record" where
  "inventory_sync_metadata source_type data_tier dry_run source_url connector_id sheet_name status now_iso counts
      auto_enabled interval next_run_at last_attempt_at last_error =
     [(''source_type'', PStr source_type), (''data_tier'', PStr data_tier), (''dry_run'', PBool dry_run),
      (''status'', PStr status), (''updated_at'', PStr now_iso),
      (''last_result'', PDict [(''written'', PInt (sy_written counts)), (''parsed_rows'', PInt (sy_parsed counts)),
         (''normalized_rows'', PInt (sy_normalized counts)), (''error_count'', PInt (int (length (sy_errors counts))))])]
     @ (if source_url \<noteq> [] then [(''source_url'', PStr source_url)] else [])
     @ (if connector_id \<noteq> [] then [(''connector_id'', PStr connector_id)] else [])
     @ (if sheet_name \<noteq> [] then [(''sheet_name'', PStr sheet_name)] else [])
     @ [(''auto_enabled'', PBool auto_enabled), (''interval_minutes'', PInt (max 1 (min interval 1440)))]
     @ text_entry ''next_run_at'' next_run_at @ text_entry ''last_attempt_at'' last_attempt_at @ text_entry ''last_error'' last_error"

text \<open>What a source gave: the counts, or the text of what it raised.\<close>

datatype sync_outcome = SourceDone sync_counts | SourceRaised string

datatype sync_report = NoSource | NotDue | SyncRan string sync_counts

definition sync_text :: "(py \<Rightarrow> string) \<Rightarrow> py_record \<Rightarrow> string \<Rightarrow> string" where
  "sync_text fmt metadata key = strip (str_value fmt (py_or (py_get metadata key) (PStr [])))"

definition sync_source :: "(py \<Rightarrow> string) \<Rightarrow> py_record \<Rightarrow> string" where
  "sync_source fmt metadata = lower (sync_text fmt metadata ''source_type'')"

definition outcome_status :: "sync_outcome \<Rightarrow> string \<times> sync_counts" where
  "outcome_status out =
     (case out of
        SourceRaised e \<Rightarrow> (''error'', \<lparr>sy_written = 0, sy_parsed = 0, sy_normalized = 0, sy_errors = [e]\<rparr>)
      | SourceDone c \<Rightarrow> (if sy_errors c \<noteq> [] then ''partial'' else ''success'', c))"

text \<open>\<open>run source metadata dry_run\<close>: the sync itself, from the sheet or the connector.\<close>

definition effective_dry_run :: "bool option \<Rightarrow> py_record \<Rightarrow> bool" where
  "effective_dry_run dry_run_override metadata =
     (case dry_run_override of Some b \<Rightarrow> b | None \<Rightarrow> truthy (dget_default metadata ''dry_run'' (PBool False)))"

definition synced_metadata ::
  "(py \<Rightarrow> string) \<Rightarrow> (rat \<Rightarrow> string) \<Rightarrow> bool option \<Rightarrow> rat \<Rightarrow> py_record \<Rightarrow> sync_outcome \<Rightarrow> py_record" where
  "synced_metadata fmt iso_text dry_run_override now metadata out =
     (let (status, counts) = outcome_status out;
          auto = truthy (dget_default metadata ''auto_enabled'' (PBool False));
          interval = sync_interval_minutes metadata
      in inventory_sync_metadata (sync_source fmt metadata)
           (or_else (lower (strip (str_value fmt (py_or (py_get metadata ''data_tier'') (PStr ''admin''))))) ''admin'')
           (effective_dry_run dry_run_override metadata) (sync_text fmt metadata ''source_url'') (lower (sync_text fmt metadata ''connector_id''))
           (sync_text fmt metadata ''sheet_name'') status (iso_text now) counts auto interval
           (if auto then Some (inventory_sync_next_run_at iso_text now interval) else None) (Some (iso_text now))
           (if status = ''error'' then Some (case sy_errors counts of [] \<Rightarrow> [] | e # _ \<Rightarrow> e) else None)
         @ text_entry ''configured_at'' (Some (plain_text (py_get metadata ''configured_at''))))"

definition sync_company ::
  "(py \<Rightarrow> string) \<Rightarrow> (string \<Rightarrow> rat option) \<Rightarrow> (rat \<Rightarrow> string) \<Rightarrow> (py_record \<Rightarrow> py_record \<Rightarrow> py_record)
   \<Rightarrow> (string \<Rightarrow> py_record \<Rightarrow> bool \<Rightarrow> sync_outcome) \<Rightarrow> bool \<Rightarrow> bool option \<Rightarrow> rat \<Rightarrow> py_record \<Rightarrow> py_record \<times> sync_report" where
  "sync_company fmt parse_ts iso_text merge run force dry_run_override now doc =
     (let metadata = as_dict (py_get doc ''inventory_sync'');
          source = sync_source fmt metadata
      in if source \<notin> {''google_sheets'', ''mcp_connector''} then (doc, NoSource)
         else if \<not> inventory_sync_due parse_ts metadata now force then (doc, NotDue)
         else let out = (if source = ''google_sheets'' \<and> sync_text fmt metadata ''source_url'' = []
                  then SourceRaised ''Missing source_url for google_sheets''
                else if source = ''mcp_connector'' \<and> sync_text fmt metadata ''connector_id'' = []
                  then SourceRaised ''Missing connector_id for mcp_connector''
                else run source doc (effective_dry_run dry_run_override metadata))
           in (merge doc [(''inventory_sync'', PDict (synced_metadata fmt iso_text dry_run_override now metadata out)),
                 (''updated_at'', PStr (iso_text now))],
               case outcome_status out of (status, counts) \<Rightarrow> SyncRan status counts))"

text \<open>The companies one after the other; a save that raises is not modelled.\<close>

definition run_inventory_sync_jobs ::
  "(py \<Rightarrow> string) \<Rightarrow> (string \<Rightarrow> rat option) \<Rightarrow> (rat \<Rightarrow> string) \<Rightarrow> (py_record \<Rightarrow> py_record \<Rightarrow> py_record)
   \<Rightarrow> (string \<Rightarrow> py_record \<Rightarrow> bool \<Rightarrow> sync_outcome) \<Rightarrow> bool \<Rightarrow> bool option \<Rightarrow> rat
   \<Rightarrow> (string \<times> py_record) list \<Rightarrow> (string \<times> py_record \<times> sync_report) list" where
  "run_inventory_sync_jobs fmt parse_ts iso_text merge run force dry_run_override now companies =
     map (\<lambda>(c, doc). (c, sync_company fmt parse_ts iso_text merge run force dry_run_override now doc)) companies"

section \<open>Theorems\<close>

lemma fold_batches:
  "fold (\<lambda>chunk (ds, n). (dpop_all chunk ds, n + length chunk)) chunks (ds, n) =
     (dpop_all (concat chunks) ds, n + length (concat chunks))"
proof (induction chunks arbitrary: ds n)
  case (Cons chunk chunks)
  then show ?case by (simp add: dpop_all_def)
qed (simp add: dpop_all_def)

lemma delete_in_batches_eq: "delete_in_batches ks ds = (dpop_all ks ds, length ks)"
  by (simp add: delete_in_batches_def fold_batches concat_batches)

lemma purge_keeps:
  assumes "dict_wf ds"
  shows "dpop_all (dkeys_where (\<lambda>_ d. doomed d) ds) ds = filter (\<lambda>(k, d). \<not> doomed d) ds"
proof -
  have "k \<in> set (dkeys_where (\<lambda>_ d. doomed d) ds) \<longleftrightarrow> doomed d" if "(k, d) \<in> set ds" for k d
    using that assms by (simp add: in_dkeys_where_wf dict_wf_def)
  then show ?thesis unfolding dpop_all_eq_filter by (intro filter_cong) auto
qed

lemma purge_collection_eq:
  assumes "dict_wf (collection st (t, c, name))"
  shows "purge_collection doomed t c name st =
    (put_collection t c name (filter (\<lambda>(k, d). \<not> doomed d) (collection st (t, c, name))) st,
     length (filter (\<lambda>(k, d). doomed d) (collection st (t, c, name))))"
  unfolding purge_collection_def Let_def delete_in_batches_eq purge_keeps [OF assms]
  by (simp add: dkeys_where_def case_prod_unfold)

definition store_ok :: "data_store \<Rightarrow> bool" where
  "store_ok st \<longleftrightarrow> (\<forall>k. dict_wf (collection st k))"

lemma wf_filter: "dict_wf ds \<Longrightarrow> dict_wf (filter P ds)"
  by (simp add: dict_wf_def distinct_map_filter)

lemma purge_collection_store:
  assumes "store_ok st"
  shows "collection (fst (purge_collection doomed t c name st)) k =
      (if k = (t, c, name) then filter (\<lambda>(k, d). \<not> doomed d) (collection st k) else collection st k)"
    and "company (fst (purge_collection doomed t c name st)) = company st"
    and "store_ok (fst (purge_collection doomed t c name st))"
  using assms by (auto simp: store_ok_def purge_collection_eq put_collection_def wf_filter)

lemma purge_collections_store:
  assumes "store_ok st"
  shows "(\<forall>k. collection (fst (purge_collections doomed t c names st)) k =
      (if \<exists>name \<in> set names. k = (t, c, name) then filter (\<lambda>(k, d). \<not> doomed d) (collection st k) else collection st k))
    \<and> company (fst (purge_collections doomed t c names st)) = company st"
  using assms
proof (induction names arbitrary: st)
  case (Cons name names)
  note one = purge_collection_store [OF Cons.prems, of doomed t c name]
  from Cons.IH [OF one(3)] show ?case by (auto simp: one(1,2) case_prod_unfold)
qed simp

lemma retention_store:
  assumes "store_ok st"
  shows "\<forall>k. collection (fst (purge_company_retention_data fmt parse_ts now days tier t c names st)) k =
      (if \<exists>name \<in> set names. k = (t, c, name)
       then filter (\<lambda>(k, d). \<not> expired_document fmt parse_ts (retention_cutoff now days) (lower (strip tier)) d) (collection st k)
       else collection st k)"
    (is "\<forall>k. ?st k = _")
  using assms
proof (induction names arbitrary: st)
  case (Cons name names)
  note one = purge_collection_store [OF Cons.prems]
  from Cons.IH [OF one(3)] show ?case by (auto simp: one(1) case_prod_unfold Let_def)
qed simp

lemma retention_report:
  assumes "store_ok st" and "distinct names"
  shows "snd (purge_company_retention_data fmt parse_ts now days tier t c names st) =
    map (\<lambda>name. (name, retention_scan fmt parse_ts (retention_cutoff now days) (lower (strip tier)) (collection st (t, c, name)))) names"
  using assms
proof (induction names arbitrary: st)
  case (Cons name names)
  let ?p = "purge_collection (expired_document fmt parse_ts (retention_cutoff now days) (lower (strip tier))) t c name st"
  have "collection (fst ?p) (t, c, x) = collection st (t, c, x)" if "x \<in> set names" for x
    using purge_collection_store(1) [OF Cons.prems(1)] that Cons.prems(2) by auto
  with Cons.IH [OF purge_collection_store(3) [OF Cons.prems(1)]] Cons.prems(2) show ?case
    by (simp add: case_prod_unfold Let_def)
qed simp

lemma length_filter_mono: "(\<And>x. P x \<Longrightarrow> Q x) \<Longrightarrow> length (filter P xs) \<le> length (filter Q xs)"
  by (induction xs) auto

lemma expired_iff:
  "expired_document fmt parse_ts (retention_cutoff now days) tier d \<longleftrightarrow>
     \<not> other_tier fmt tier d \<and> (\<exists>q. timestamp_of parse_ts d = Some q \<and> q < now - of_int (86400 * max 1 days))"
  by (auto simp: expired_document_def retention_cutoff_def split: option.splits)

lemma retention_scan_adds:
  "scanned (retention_scan fmt parse_ts cutoff tier ds) = length ds
   \<and> deleted (retention_scan fmt parse_ts cutoff tier ds) =
      length ds - length (filter (\<lambda>(k, d). \<not> expired_document fmt parse_ts cutoff tier d) ds)
   \<and> scanned (retention_scan fmt parse_ts cutoff tier ds) =
      deleted (retention_scan fmt parse_ts cutoff tier ds) + skipped (retention_scan fmt parse_ts cutoff tier ds)
   \<and> missing_timestamp (retention_scan fmt parse_ts cutoff tier ds) \<le> skipped (retention_scan fmt parse_ts cutoff tier ds)"
proof -
  let ?doomed = "expired_document fmt parse_ts cutoff tier"
  have "length (filter ?doomed (map snd ds)) + length (filter (\<lambda>d. \<not> ?doomed d) (map snd ds)) = length ds"
    using sum_length_filter_compl [of ?doomed "map snd ds"] by simp
  moreover have "length (filter (\<lambda>(k, d). \<not> ?doomed d) ds) = length (filter (\<lambda>d. \<not> ?doomed d) (map snd ds))"
    by (simp add: filter_map o_def case_prod_unfold)
  moreover have "length (filter (\<lambda>d. \<not> other_tier fmt tier d \<and> timestamp_of parse_ts d = None) (map snd ds))
      \<le> length (filter (\<lambda>d. \<not> ?doomed d) (map snd ds))"
    by (rule length_filter_mono) (auto simp: expired_document_def)
  ultimately show ?thesis by (simp add: retention_scan_def Let_def)
qed

text \<open>
  C24 A retention purge removes, in the selected collections of that company, exactly the
  documents of the asked tier whose last change (or creation) is readable and older than the
  given number of days, at least one; it touches no other document of any company, and its report
  counts for each collection what it scanned, removed and skipped, which add up.
\<close>

theorem retention_purge_exact:
  assumes "store_ok st" and "distinct names"
    and "purge_company_retention_data fmt parse_ts now days tier t c names st = (st', report)"
  shows "(\<forall>t' c' name. collection st' (t', c', name) =
      (if t' = t \<and> c' = c \<and> name \<in> set names
       then filter (\<lambda>(k, d). \<not> (\<not> other_tier fmt (lower (strip tier)) d
              \<and> (\<exists>q. timestamp_of parse_ts d = Some q \<and> q < now - of_int (86400 * max 1 days)))) (collection st (t, c, name))
       else collection st (t', c', name)))
    \<and> map fst report = names
    \<and> list_all (\<lambda>(name, r). scanned r = length (collection st (t, c, name))
         \<and> deleted r = length (collection st (t, c, name)) - length (collection st' (t, c, name))
         \<and> scanned r = deleted r + skipped r \<and> missing_timestamp r \<le> skipped r) report"
proof -
  let ?doomed = "expired_document fmt parse_ts (retention_cutoff now days) (lower (strip tier))"
  have st': "\<forall>k. collection st' k = (if \<exists>name \<in> set names. k = (t, c, name)
      then filter (\<lambda>(k, d). \<not> ?doomed d) (collection st k) else collection st k)"
    using retention_store [OF assms(1), of fmt parse_ts now days tier t c names] unfolding assms(3) fst_conv .
  have report: "report = map (\<lambda>name. (name, retention_scan fmt parse_ts (retention_cutoff now days) (lower (strip tier))
      (collection st (t, c, name)))) names"
    using retention_report [OF assms(1,2), of fmt parse_ts now days tier t c] unfolding assms(3) snd_conv .
  have kept: "collection st' (t, c, name) = filter (\<lambda>(k, d). \<not> ?doomed d) (collection st (t, c, name))" if "name \<in> set names" for name
    using st' that by simp
  have "map fst report = names" by (simp add: report o_def)
  moreover have "list_all (\<lambda>(name, r). scanned r = length (collection st (t, c, name))
      \<and> deleted r = length (collection st (t, c, name)) - length (collection st' (t, c, name))
      \<and> scanned r = deleted r + skipped r \<and> missing_timestamp r \<le> skipped r) report"
    unfolding report list_all_iff
  proof (intro ballI)
    fix x
    assume "x \<in> set (map (\<lambda>name. (name, retention_scan fmt parse_ts (retention_cutoff now days) (lower (strip tier))
      (collection st (t, c, name)))) names)"
    then obtain name where n: "name \<in> set names" and x: "x = (name, retention_scan fmt parse_ts (retention_cutoff now days)
        (lower (strip tier)) (collection st (t, c, name)))" by auto
    show "case x of (name, r) \<Rightarrow> scanned r = length (collection st (t, c, name))
      \<and> deleted r = length (collection st (t, c, name)) - length (collection st' (t, c, name))
      \<and> scanned r = deleted r + skipped r \<and> missing_timestamp r \<le> skipped r"
      unfolding x prod.case kept [OF n] by (rule retention_scan_adds)
  qed
  ultimately show ?thesis unfolding expired_iff [symmetric] using st' by simp
qed

definition sample_store :: data_store where
  "sample_store = \<lparr>collection = (\<lambda>k. if k = (''t'', ''c'', ''knowledge'')
      then [(''old'', [(''updated_at'', PStr ''1'')]), (''new'', [(''updated_at'', PStr ''9'')]), (''none'', [])] else []),
     company = (\<lambda>_. None)\<rparr>"

definition sample_ts :: "string \<Rightarrow> rat option" where
  "sample_ts s = (if s = ''1'' then Some 100 else Some 900000)"

lemma retention_purge_exact_witness:
  "collection (fst (purge_company_retention_data (\<lambda>_. []) sample_ts 900001 0 [] ''t'' ''c'' [''knowledge''] sample_store)) (''t'', ''c'', ''bookings'') = []
   \<and> map fst (collection (fst (purge_company_retention_data (\<lambda>_. []) sample_ts 900001 0 [] ''t'' ''c'' [''knowledge''] sample_store))
       (''t'', ''c'', ''knowledge'')) = [''new'', ''none'']"
proof -
  let ?r = "purge_company_retention_data (\<lambda>_. []) sample_ts 900001 0 [] ''t'' ''c'' [''knowledge''] sample_store"
  have ok: "store_ok sample_store" by (auto simp: store_ok_def sample_store_def dict_wf_def)
  have "collection (fst ?r) (''t'', ''c'', ''bookings'') = collection sample_store (''t'', ''c'', ''bookings'')"
    using retention_purge_exact [OF ok _ prod.collapse [symmetric], of "[''knowledge'']" "\<lambda>_. []" sample_ts 900001 0 "[]" "''t''" "''c''"] by simp
  moreover have "map fst (collection (fst ?r) (''t'', ''c'', ''knowledge'')) = [''new'', ''none'']" by code_simp
  ultimately show ?thesis by (simp add: sample_store_def)
qed

text \<open>
  Deleting a company removes its document and three of its collections.  The bookings, which
  the booking tools keep beside them, stay, and belong to the next company of that name.
\<close>

lemma bookings_survive_deletion:
  assumes "store_ok st"
  shows "company (fst (delete_company_bundle t c st)) (t, c) = None"
    and "collection (fst (delete_company_bundle t c st)) (t, c, ''products'') = []"
    and "collection (fst (delete_company_bundle t c st)) (t, c, ''bookings'') = collection st (t, c, ''bookings'')"
    and "(t', c') \<noteq> (t, c) \<Longrightarrow> collection (fst (delete_company_bundle t c st)) (t', c', name) = collection st (t', c', name)"
  using purge_collections_store [OF assms, of "\<lambda>_. True" t c "[''knowledge'', ''products'', ''booking_slots'']"]
  by (auto simp: delete_company_bundle_def case_prod_unfold)

text \<open>Every mutation of the data routes asks for the scope write, but this one for read.\<close>

definition purge_demo_route ::
  "admin_settings \<Rightarrow> (string \<Rightarrow> string \<Rightarrow> py_record option) \<Rightarrow> (py \<Rightarrow> string) \<Rightarrow> clock \<Rightarrow> nat \<Rightarrow> string option \<Rightarrow> request_headers
   \<Rightarrow> string \<Rightarrow> clock \<Rightarrow> limiter \<times> data_store \<Rightarrow> (limiter \<times> data_store) \<times> (admin_error + (string \<times> nat) list)" where
  "purge_demo_route cfg verify fmt window max_buckets query_tenant hs company_id now st =
     (case admin_route_guard cfg verify fmt window max_buckets ''read'' query_tenant None hs now (fst st) of
        (l1, Inl e) \<Rightarrow> ((l1, snd st), Inl e)
      | (l1, Inr (tenant_id, ctx)) \<Rightarrow>
          (case purge_company_demo_runtime_data tenant_id company_id (snd st) of
             (st1, counts) \<Rightarrow> ((l1, st1), Inr counts)))"

lemma reader_purges_demo:
  assumes "admin_route_guard cfg verify fmt window max_buckets ''read'' query_tenant None hs now l1 = (l2, Inr (t, ctx))"
    and "store_ok ds"
  shows "collection (snd (fst (purge_demo_route cfg verify fmt window max_buckets query_tenant hs c now (l1, ds)))) (t, c, ''knowledge'')
    = filter (\<lambda>(k, d). \<not> is_demo d) (collection ds (t, c, ''knowledge''))"
  using purge_collections_store [OF assms(2), of is_demo t c RUNTIME_COLLECTIONS]
  by (simp add: purge_demo_route_def assms(1) purge_company_demo_runtime_data_def case_prod_unfold RUNTIME_COLLECTIONS_def)

section \<open>The schedule\<close>

lemma interval_bounds: "1 \<le> sync_interval_minutes md \<and> sync_interval_minutes md \<le> 1440"
  by (simp add: sync_interval_minutes_def)

lemma metadata_schedule:
  fixes out :: sync_outcome
  assumes "strip (iso_text (now + of_int (60 * sync_interval_minutes md))) \<noteq> []"
    and "truthy (dget_default md ''auto_enabled'' (PBool False))"
  shows "py_get (synced_metadata fmt iso_text ov now md out) ''next_run_at'' = PStr (strip (iso_text (now + of_int (60 * sync_interval_minutes md))))"
    and "dget (synced_metadata fmt iso_text ov now md out) ''auto_enabled'' = Some (PBool True)"
  using assms interval_bounds [of md]
  by (simp_all add: synced_metadata_def inventory_sync_metadata_def text_entry_def inventory_sync_next_run_at_def text_of_def
      py_get_def dget_default_def Let_def case_prod_unfold max_absorb2 min_absorb1)

text \<open>
  A company whose sync is scheduled is not synchronised again before its interval is over, whatever
  came of the last run and however often the job runs: the metadata it leaves are not due.
\<close>

theorem sync_waits_its_interval:
  assumes "\<forall>q. strip (iso_text q) \<noteq> [] \<and> parse_ts (strip (iso_text q)) = Some q"
    and "truthy (dget_default md ''auto_enabled'' (PBool False))"
    and "now' < now + of_int (60 * sync_interval_minutes md)"
  shows "\<not> inventory_sync_due parse_ts (synced_metadata fmt iso_text ov now md out) now' False"
  using assms metadata_schedule [of iso_text now md fmt ov out]
  by (simp add: inventory_sync_due_def parse_timestamp_utc_def)

text \<open>
  A run that succeeds leaves out the last error, and the merge that stores its metadata keeps what
  they leave out: the error of an earlier run stays beside the status success.
\<close>

lemma stale_error_stays:
  assumes "\<forall>d p m k. py_get p ''inventory_sync'' = PDict m \<longrightarrow> dget m k = None \<longrightarrow>
      dget (as_dict (py_get (merge d p) ''inventory_sync'')) k = dget (as_dict (py_get d ''inventory_sync'')) k"
    and "sy_errors counts = []"
    and "sync_source fmt (as_dict (py_get doc ''inventory_sync'')) = ''google_sheets''"
    and "sync_text fmt (as_dict (py_get doc ''inventory_sync'')) ''source_url'' \<noteq> []"
    and "run ''google_sheets'' doc (effective_dry_run ov (as_dict (py_get doc ''inventory_sync''))) = SourceDone counts"
  shows "dget (as_dict (py_get (fst (sync_company fmt parse_ts iso_text merge run True ov now doc)) ''inventory_sync'')) ''last_error''
    = dget (as_dict (py_get doc ''inventory_sync'')) ''last_error''"
proof -
  let ?md = "as_dict (py_get doc ''inventory_sync'')"
  let ?new = "synced_metadata fmt iso_text ov now ?md (SourceDone counts)"
  have "dget ?new ''last_error'' = None"
    by (simp add: synced_metadata_def outcome_status_def assms(2) inventory_sync_metadata_def text_entry_def text_of_def Let_def)
  moreover have "fst (sync_company fmt parse_ts iso_text merge run True ov now doc)
      = merge doc [(''inventory_sync'', PDict ?new), (''updated_at'', PStr (iso_text now))]"
    using assms(3-5) by (simp add: sync_company_def Let_def inventory_sync_due_def)
  moreover have "py_get [(''inventory_sync'', PDict ?new), (''updated_at'', PStr (iso_text now))] ''inventory_sync'' = PDict ?new"
    by (simp add: py_get_def dget_default_def)
  ultimately show ?thesis using assms(1) by metis
qed

end
