(* ===== verification/Text_Search.thy ===== *)
theory Text_Search
  imports Py_Strings
begin

text \<open>
  The regular expressions of the search tools: the runs of \<open>[a-z0-9]+\<close> in a lower-case text,
  a token between word boundaries, and substitution of phrases between word boundaries.
\<close>

definition token_char :: "char \<Rightarrow> bool" where
  "token_char c \<longleftrightarrow> (97 \<le> code c \<and> code c \<le> 122) \<or> is_digit c"

fun runs :: "string \<Rightarrow> string \<Rightarrow> string list" where
  "runs acc [] = (if acc = [] then [] else [rev acc])"
| "runs acc (c # cs) =
     (if token_char c then runs (c # acc) cs
      else (if acc = [] then [] else [rev acc]) @ runs [] cs)"

definition tokenize :: "string \<Rightarrow> string list" where
  "tokenize s = runs [] (lower s)"

text \<open>No word character at the place: before the text begins, \<open>None\<close>.\<close>

definition edge :: "char option \<Rightarrow> bool" where
  "edge c \<longleftrightarrow> (case c of None \<Rightarrow> True | Some x \<Rightarrow> \<not> is_word x)"

definition first_char :: "string \<Rightarrow> char option" where
  "first_char s = (case s of [] \<Rightarrow> None | c # _ \<Rightarrow> Some c)"

definition last_char :: "string \<Rightarrow> char option" where
  "last_char s = (if s = [] then None else Some (last s))"

text \<open>\<open>\btoken\b\<close> in a text, for a token of word characters.\<close>

fun word_occurs :: "char option \<Rightarrow> string \<Rightarrow> string \<Rightarrow> bool" where
  "word_occurs prev token [] \<longleftrightarrow> False"
| "word_occurs prev token (c # s) \<longleftrightarrow>
     edge prev \<and> startswith token (c # s) \<and> edge (first_char (drop (length token) (c # s)))
     \<or> word_occurs (Some c) token s"

text \<open>
  A phrase: words, in any case, with at least \<open>gap\<close> spaces between them; the length of the
  match when it stands at the beginning of the text and ends at a word boundary.
\<close>

fun phrase_length :: "nat \<Rightarrow> string list \<Rightarrow> string \<Rightarrow> nat option" where
  "phrase_length gap [] s = None"
| "phrase_length gap [w] s =
     (if w \<noteq> [] \<and> startswith w (lower s) \<and> edge (first_char (drop (length w) s)) then Some (length w) else None)"
| "phrase_length gap (w # v # ws) s =
     (if w \<noteq> [] \<and> startswith w (lower s)
      then let rest = drop (length w) s; spaces = length (takeWhile is_space rest)
        in if gap \<le> spaces
           then map_option (\<lambda>n. length w + spaces + n) (phrase_length gap (v # ws) (drop spaces rest))
           else None
      else None)"

definition first_phrase :: "nat \<Rightarrow> string list list \<Rightarrow> string \<Rightarrow> nat option" where
  "first_phrase gap phrases s = (case List.map_filter (\<lambda>p. phrase_length gap p s) phrases of [] \<Rightarrow> None | n # _ \<Rightarrow> Some n)"

text \<open>\<open>pattern.sub(replacement, s)\<close>; \<open>skip\<close> counts the characters of a match still to be dropped.\<close>

fun substitute :: "(string \<Rightarrow> nat option) \<Rightarrow> string \<Rightarrow> char option \<Rightarrow> nat \<Rightarrow> string \<Rightarrow> string" where
  "substitute m r prev skip [] = []"
| "substitute m r prev (Suc k) (c # s) = substitute m r (Some c) k s"
| "substitute m r prev 0 (c # s) =
     (case (if edge prev then m (c # s) else None) of
        Some n \<Rightarrow> r @ substitute m r (Some c) (n - 1) s
      | None \<Rightarrow> c # substitute m r (Some c) 0 s)"

section \<open>Lemmas\<close>

lemma runs_tokens: "list_all token_char acc \<Longrightarrow> list_all (\<lambda>t. t \<noteq> [] \<and> list_all token_char t) (runs acc s)"
proof (induction s arbitrary: acc)
  case Nil
  then show ?case by simp
next
  case (Cons c s)
  then show ?case by (cases "token_char c") simp_all
qed

lemma tokenize_tokens: "t \<in> set (tokenize s) \<Longrightarrow> t \<noteq> [] \<and> list_all token_char t"
  using runs_tokens [of "[]" "lower s"] by (simp add: tokenize_def list_all_iff)

lemma first_char_append [simp]: "first_char (x @ y) = (if x = [] then first_char y else first_char x)"
  by (cases x) (simp_all add: first_char_def)

text \<open>A token occurs exactly where the text splits around it at word boundaries.\<close>

lemma word_occurs_from:
  assumes "token \<noteq> []"
  shows "word_occurs prev token s \<longleftrightarrow>
    (\<exists>a b. s = a @ token @ b \<and> edge (if a = [] then prev else Some (last a)) \<and> edge (first_char b))"
proof (induction s arbitrary: prev)
  case Nil
  then show ?case using assms by simp
next
  case (Cons c s)
  have here: "startswith token (c # s) \<and> edge (first_char (drop (length token) (c # s)))
      \<longleftrightarrow> (\<exists>b. c # s = token @ b \<and> edge (first_char b))"
    unfolding startswith_def by (metis append_eq_conv_conj append_take_drop_id)
  have split: "(\<exists>a b. c # s = a @ token @ b \<and> edge (if a = [] then prev else Some (last a)) \<and> edge (first_char b))
      \<longleftrightarrow> (\<exists>b. c # s = token @ b \<and> edge prev \<and> edge (first_char b))
        \<or> (\<exists>a b. s = a @ token @ b \<and> edge (Some (last (c # a))) \<and> edge (first_char b))" (is "?l \<longleftrightarrow> ?r")
  proof
    assume ?l
    then obtain a b where ab: "c # s = a @ token @ b" "edge (if a = [] then prev else Some (last a))" "edge (first_char b)"
      by blast
    show ?r
    proof (cases a)
      case Nil
      with ab have "c # s = token @ b \<and> edge prev \<and> edge (first_char b)" by (simp only: append.simps if_True simp_thms)
      then show ?r by (intro disjI1 exI)
    next
      case (Cons x a')
      with ab have "s = a' @ token @ b \<and> edge (Some (last (c # a'))) \<and> edge (first_char b)"
        by (simp only: append.simps list.inject list.distinct if_False simp_thms)
      then show ?r by (intro disjI2 exI)
    qed
  next
    assume ?r
    then show ?l
    proof
      assume "\<exists>a b. s = a @ token @ b \<and> edge (Some (last (c # a))) \<and> edge (first_char b)"
      then obtain a b where "s = a @ token @ b" "edge (Some (last (c # a)))" "edge (first_char b)" by blast
      then show ?l by (intro exI [of _ "c # a"] exI [of _ b]) simp
    next
      assume "\<exists>b. c # s = token @ b \<and> edge prev \<and> edge (first_char b)"
      then obtain b where "c # s = token @ b \<and> edge prev \<and> edge (first_char b)" by blast
      then show ?l by (intro exI [of _ "[]"] exI [of _ b]) (simp only: append.simps if_True simp_thms)
    qed
  qed
  have last: "Some (last (c # a)) = (if a = [] then Some c else Some (last a))" for a by simp
  have pull: "(\<exists>b. c # s = token @ b \<and> edge prev \<and> edge (first_char b))
      \<longleftrightarrow> edge prev \<and> (\<exists>b. c # s = token @ b \<and> edge (first_char b))" by blast
  show ?case unfolding word_occurs.simps Cons.IH split last pull here [symmetric] by (rule refl)
qed

lemma word_occurs_iff:
  assumes "token \<noteq> []"
  shows "word_occurs None token s \<longleftrightarrow>
    (\<exists>a b. s = a @ token @ b \<and> edge (last_char a) \<and> edge (first_char b))"
  unfolding word_occurs_from [OF assms] last_char_def by (auto simp: edge_def)

end
