(* ===== verification/Company_Knowledge.thy ===== *)
theory Company_Knowledge
  imports Text_Search Connector_Config
begin

text \<open>
  \<open>app/tools/knowledge_tools.py\<close>: the facts of a company's profile, the search over its
  knowledge entries and the calls of its configured systems.  The tool context is the session
  state, absent (\<open>None\<close>) when a tool is called without one; \<open>fmt\<close> is \<open>str()\<close>, \<open>json_loads\<close>
  and \<open>to_float\<close> are \<open>None\<close> where Python raises.
\<close>

type_synonym tool_state = "py_record option"

definition profile_from_state :: "tool_state \<Rightarrow> py_record" where
  "profile_from_state ctx = (case ctx of None \<Rightarrow> [] | Some st \<Rightarrow> as_dict (py_get st ''app:company_profile''))"

fun dict_items :: "py list \<Rightarrow> py_record list" where
  "dict_items [] = []"
| "dict_items (PDict d # vs) = d # dict_items vs"
| "dict_items (_ # vs) = dict_items vs"

definition knowledge_from_state :: "tool_state \<Rightarrow> py_record list" where
  "knowledge_from_state ctx = (case ctx of None \<Rightarrow> [] | Some st \<Rightarrow> dict_items (as_list (py_get st ''app:company_knowledge'')))"

definition company_id_from_state :: "tool_state \<Rightarrow> string" where
  "company_id_from_state ctx = (case ctx of None \<Rightarrow> [] | Some st \<Rightarrow> plain_text (py_get st ''app:company_id''))"

text \<open>The manifest and whether there is one.\<close>

definition connector_manifest_from_state :: "tool_state \<Rightarrow> py_record \<times> bool" where
  "connector_manifest_from_state ctx =
     (case ctx of None \<Rightarrow> ([], False)
      | Some st \<Rightarrow> (case dget st ''app:connector_manifest'' of None \<Rightarrow> ([], False) | Some v \<Rightarrow> (as_dict v, True)))"

section \<open>Facts\<close>

fun nested_lookup :: "py \<Rightarrow> string list \<Rightarrow> py option" where
  "nested_lookup v [] = Some v"
| "nested_lookup (PDict d) (part # parts) =
     (case dget d part of None \<Rightarrow> None | Some v \<Rightarrow> nested_lookup v parts)"
| "nested_lookup _ (part # parts) = None"

datatype fact_source = FromFacts | FromProfile | FromNested

datatype fact_answer = ProfileNotLoaded | FactKeyRequired | FactFound py fact_source | FactNotFound

definition get_company_profile_fact :: "string \<Rightarrow> tool_state \<Rightarrow> fact_answer" where
  "get_company_profile_fact fact_key ctx =
     (let profile = profile_from_state ctx; key = strip fact_key in
      if profile = [] then ProfileNotLoaded
      else if key = [] then FactKeyRequired
      else case dget (as_dict (py_get profile ''facts'')) key of
          Some v \<Rightarrow> FactFound v FromFacts
        | None \<Rightarrow> (case dget profile key of
              Some v \<Rightarrow> FactFound v FromProfile
            | None \<Rightarrow> (case nested_lookup (PDict profile) (split_on CHR ''.'' key) of
                  Some v \<Rightarrow> FactFound v FromNested
                | None \<Rightarrow> FactNotFound)))"

section \<open>Search\<close>

definition text_field :: "(py \<Rightarrow> string) \<Rightarrow> py_record \<Rightarrow> string \<Rightarrow> string" where
  "text_field fmt entry key = str_value fmt (dget_default entry key (PStr []))"

definition tags_blob :: "(py \<Rightarrow> string) \<Rightarrow> py_record \<Rightarrow> string" where
  "tags_blob fmt entry = join '' '' (map (\<lambda>t. lower (str_value fmt t)) (as_list (py_get entry ''tags'')))"

definition token_score :: "string \<Rightarrow> string \<Rightarrow> string \<Rightarrow> string \<Rightarrow> string \<Rightarrow> nat" where
  "token_score title body tags url token =
     (if word_occurs None token title then 5 else 0) + (if word_occurs None token body then 3 else 0)
     + (if word_occurs None token tags then 2 else 0) + (if word_occurs None token url then 1 else 0)"

text \<open>\<open>tokens\<close>: those of the query, each once, in the order they first occur.\<close>

fun unique_tokens :: "string list \<Rightarrow> string list \<Rightarrow> string list" where
  "unique_tokens seen [] = []"
| "unique_tokens seen (t # ts) = (if t \<in> set seen then unique_tokens seen ts else t # unique_tokens (t # seen) ts)"

definition knowledge_score :: "(py \<Rightarrow> string) \<Rightarrow> py_record \<Rightarrow> string list \<Rightarrow> nat" where
  "knowledge_score fmt entry tokens =
     (let title = lower (text_field fmt entry ''title''); body = lower (text_field fmt entry ''text'');
          url = lower (text_field fmt entry ''url''); tags = tags_blob fmt entry;
          haystack = join '' '' [title, body, url, tags]
      in if tokens = [] then 0
         else sum_list (map (token_score title body tags url) tokens)
           + (if list_all (\<lambda>t. contains t haystack) tokens then 5 else 0))"

definition safe_max_results :: "int \<Rightarrow> int \<Rightarrow> py \<Rightarrow> nat" where
  "safe_max_results fallback upper_limit v =
     nat (max 1 (min (case to_int v of Some i \<Rightarrow> i | None \<Rightarrow> fallback) upper_limit))"

definition knowledge_hit :: "(py \<Rightarrow> string) \<Rightarrow> nat \<Rightarrow> py_record \<Rightarrow> nat \<Rightarrow> py_record" where
  "knowledge_hit fmt index entry score =
     [(''id'', PStr (str_value fmt (dget_default entry ''id'' (PStr (''kb-'' @ nat_str (index + 1)))))),
      (''title'', PStr (strip (text_field fmt entry ''title''))), (''text'', PStr (strip (text_field fmt entry ''text''))),
      (''url'', PStr (strip (text_field fmt entry ''url''))), (''tags'', PList (as_list (py_get entry ''tags''))),
      (''source'', PStr (str_value fmt (dget_default entry ''source'' (PStr ''unknown'')))), (''score'', PInt (int score))]"

text \<open>The scored entries in the order of the knowledge, then the best of them.\<close>

definition scored_entries :: "(py \<Rightarrow> string) \<Rightarrow> string list \<Rightarrow> py_record list \<Rightarrow> (nat \<times> py_record) list" where
  "scored_entries fmt query_tokens entries =
     (let score = (\<lambda>index. knowledge_score fmt (entries ! index) (unique_tokens [] query_tokens))
      in map (\<lambda>index. (score index, knowledge_hit fmt index (entries ! index) (score index)))
           (filter (\<lambda>index. query_tokens = [] \<or> 0 < score index) [0..<length entries]))"

definition best_first :: "(nat \<times> 'a) list \<Rightarrow> (nat \<times> 'a) list" where
  "best_first = sort_key (\<lambda>x. - int (fst x))"

datatype search_answer = ContextRequired | NoKnowledge | Hits "py_record list"

definition search_company_knowledge :: "(py \<Rightarrow> string) \<Rightarrow> string \<Rightarrow> py \<Rightarrow> tool_state \<Rightarrow> search_answer" where
  "search_company_knowledge fmt query max_results ctx =
     (if ctx = None then ContextRequired
      else if knowledge_from_state ctx = [] then NoKnowledge
      else Hits (map snd (take (safe_max_results 3 10 max_results)
        (best_first (scored_entries fmt (tokenize query) (knowledge_from_state ctx))))))"

section \<open>Calling a system\<close>

datatype system_answer =
    SystemProfileMissing | NoConnectors | ConnectorMissing
  | MockResult py_record py | ActionNotConfigured "string set"
  | SecretRefMissing string | RuntimePolicyMissing string | RuntimePolicyInvalid string
  | EgressHostMissing string "string list" | EgressHostForbidden string string "string list"
  | ProviderNotImplemented string rat int "string list"

definition connector_provider :: "(py \<Rightarrow> string) \<Rightarrow> py_record \<Rightarrow> string" where
  "connector_provider fmt connector =
     or_else (lower (strip (str_value fmt (dget_default connector ''provider'' (PStr ''mock''))))) ''mock''"

definition configured_actions :: "py_record \<Rightarrow> string set" where
  "configured_actions connector = fst ` set (as_dict (py_get connector ''mock_actions''))"

text \<open>Every provider is answered here, so the caller's own error for an unsupported one is not reached.\<close>

definition dispatch_connector ::
  "(py \<Rightarrow> string) \<Rightarrow> (py \<Rightarrow> rat option) \<Rightarrow> (string \<Rightarrow> string option) \<Rightarrow> py_record \<Rightarrow> string \<Rightarrow> py_record \<Rightarrow> system_answer" where
  "dispatch_connector fmt to_float hostname connector action payload =
     (let prov = connector_provider fmt connector;
          policy = py_get connector ''runtime_policy'';
          timeout = (case to_float (py_get (as_dict policy) ''timeoutSeconds'') of Some q \<Rightarrow> q | None \<Rightarrow> 0);
          retries = (case to_int (py_get (as_dict policy) ''maxRetries'') of Some i \<Rightarrow> i | None \<Rightarrow> -1);
          hosts = normal_list fmt (py_get (as_dict policy) ''allowedHosts'')
      in if prov = ''mock''
           then (case dget (as_dict (py_get connector ''mock_actions'')) action of
               Some r \<Rightarrow> MockResult payload r | None \<Rightarrow> ActionNotConfigured (configured_actions connector))
         else if strip (plain_text (py_get connector ''secret_ref'')) = [] then SecretRefMissing prov
         else if dict_value (Some policy) = None then RuntimePolicyMissing prov
         else if timeout \<le> 0 \<or> retries < 0 then RuntimePolicyInvalid prov
         else if hosts \<noteq> [] \<and> extract_connector_endpoint_host hostname connector = None then EgressHostMissing prov hosts
         else case (hosts, extract_connector_endpoint_host hostname connector) of
             (h # hs, Some host) \<Rightarrow>
               if host_matches_allowlist host hosts then ProviderNotImplemented prov timeout retries hosts
               else EgressHostForbidden prov host hosts
           | _ \<Rightarrow> ProviderNotImplemented prov timeout retries hosts)"

fun payload_of :: "(string \<Rightarrow> py option) \<Rightarrow> py \<Rightarrow> py_record" where
  "payload_of json_loads (PDict d) = d"
| "payload_of json_loads (PStr s) = (if strip s = [] then [] else case dict_value (json_loads s) of Some d \<Rightarrow> d | None \<Rightarrow> [])"
| "payload_of json_loads _ = []"

definition available_connectors :: "tool_state \<Rightarrow> py_record" where
  "available_connectors ctx =
     (case connector_manifest_from_state ctx of
        (manifest, True) \<Rightarrow> manifest
      | (_, False) \<Rightarrow> as_dict (py_get (profile_from_state ctx) ''system_connectors''))"

definition query_company_system ::
  "(py \<Rightarrow> string) \<Rightarrow> (py \<Rightarrow> rat option) \<Rightarrow> (string \<Rightarrow> string option) \<Rightarrow> (string \<Rightarrow> py option)
   \<Rightarrow> string \<Rightarrow> string \<Rightarrow> py \<Rightarrow> tool_state \<Rightarrow> system_answer" where
  "query_company_system fmt to_float hostname json_loads system action payload ctx =
     (if profile_from_state ctx = [] then SystemProfileMissing
      else if available_connectors ctx = [] then NoConnectors
      else case py_get (available_connectors ctx) system of
          PDict connector \<Rightarrow> dispatch_connector fmt to_float hostname connector action (payload_of json_loads payload)
        | _ \<Rightarrow> ConnectorMissing)"

section \<open>Theorems\<close>

lemma best_first_sorted: "sorted_wrt (\<lambda>x y. fst y \<le> fst x) (best_first xs)"
proof -
  have "sorted (map (\<lambda>x. - int (fst x)) (best_first xs))" unfolding best_first_def by (rule sorted_sort_key)
  then show ?thesis by (simp add: sorted_map)
qed

lemma best_first_set [simp]: "set (best_first xs) = set xs"
  by (simp add: best_first_def)

lemma best_are_best:
  assumes "x \<in> set (take n (best_first xs))" and "y \<in> set (drop n (best_first xs))"
  shows "fst y \<le> fst x"
  using best_first_sorted [of xs] assms sorted_wrt_append [of "\<lambda>x y. fst y \<le> fst x" "take n (best_first xs)" "drop n (best_first xs)"]
  by simp

lemma safe_max_bounds: "1 \<le> u \<Longrightarrow> 1 \<le> safe_max_results d u v \<and> safe_max_results d u v \<le> nat u"
  by (simp add: safe_max_results_def nat_le_iff le_nat_iff)

definition entry_score :: "(py \<Rightarrow> string) \<Rightarrow> string \<Rightarrow> py_record \<Rightarrow> nat" where
  "entry_score fmt query entry = knowledge_score fmt entry (unique_tokens [] (tokenize query))"

definition hit_at :: "(py \<Rightarrow> string) \<Rightarrow> string \<Rightarrow> py_record list \<Rightarrow> nat \<Rightarrow> py_record" where
  "hit_at fmt query entries i = knowledge_hit fmt i (entries ! i) (entry_score fmt query (entries ! i))"

lemma scored_entries_iff:
  "(score, h) \<in> set (scored_entries fmt (tokenize query) entries) \<longleftrightarrow>
     (\<exists>i < length entries. score = entry_score fmt query (entries ! i) \<and> h = hit_at fmt query entries i
       \<and> (tokenize query = [] \<or> 0 < score))"
  unfolding scored_entries_def Let_def entry_score_def [symmetric] hit_at_def [symmetric] by auto

lemma hit_score: "py_get (hit_at fmt query entries i) ''score'' = PInt (int (entry_score fmt query (entries ! i)))"
  by (simp add: hit_at_def knowledge_hit_def py_get_def dget_default_def)

lemma knowledge_search_parts:
  assumes "search_company_knowledge fmt query m ctx = Hits hits"
  shows "length hits \<le> 10"
    and "h \<in> set hits \<Longrightarrow> \<exists>i < length (knowledge_from_state ctx).
      h = hit_at fmt query (knowledge_from_state ctx) i
      \<and> (tokenize query = [] \<or> 0 < entry_score fmt query (knowledge_from_state ctx ! i))"
    and "i < length (knowledge_from_state ctx) \<Longrightarrow> 0 < entry_score fmt query (knowledge_from_state ctx ! i) \<Longrightarrow>
      hit_at fmt query (knowledge_from_state ctx) i \<notin> set hits \<Longrightarrow> h \<in> set hits \<Longrightarrow>
      \<exists>n. py_get h ''score'' = PInt (int n) \<and> entry_score fmt query (knowledge_from_state ctx ! i) \<le> n"
proof -
  let ?es = "knowledge_from_state ctx" and ?n = "safe_max_results 3 10 m"
  let ?s = "scored_entries fmt (tokenize query) ?es"
  have hits: "hits = map snd (take ?n (best_first ?s))"
    using assms by (auto simp: search_company_knowledge_def split: if_splits)
  show "length hits \<le> 10" using safe_max_bounds [of 10 3 m] by (simp add: hits min.coboundedI2)
  have top: "\<exists>x. (x, h) \<in> set (take ?n (best_first ?s))" if "h \<in> set hits" for h
    using that by (auto simp: hits)
  have sub: "set (take ?n (best_first ?s)) \<subseteq> set ?s" using set_take_subset [of ?n "best_first ?s"] by simp
  show "\<exists>i < length ?es. h = hit_at fmt query ?es i \<and> (tokenize query = [] \<or> 0 < entry_score fmt query (?es ! i))"
    if "h \<in> set hits"
    using top [OF that] sub by (force simp: scored_entries_iff)
  show "\<exists>n. py_get h ''score'' = PInt (int n) \<and> entry_score fmt query (?es ! i) \<le> n"
    if i: "i < length ?es" "0 < entry_score fmt query (?es ! i)" "hit_at fmt query ?es i \<notin> set hits" and h: "h \<in> set hits"
  proof -
    let ?y = "(entry_score fmt query (?es ! i), hit_at fmt query ?es i)"
    obtain x where x: "(x, h) \<in> set (take ?n (best_first ?s))" using top [OF h] by blast
    have "?y \<in> set (best_first ?s)" using i by (auto simp: scored_entries_iff)
    moreover have "?y \<notin> set (take ?n (best_first ?s))" using i(3) by (force simp: hits)
    ultimately have "?y \<in> set (drop ?n (best_first ?s))"
      by (metis Un_iff append_take_drop_id set_append)
    from best_are_best [OF x this] have "entry_score fmt query (?es ! i) \<le> x" by simp
    moreover have "py_get h ''score'' = PInt (int x)"
      using x sub hit_score by (force simp: scored_entries_iff)
    ultimately show ?thesis by blast
  qed
qed

text \<open>
  C23 A search of the company's knowledge gives at most ten entries, each an entry of the session
  with its score and with a positive one when the query has a token at all; and an entry that
  is left out, though it matches, scores no higher than any that is given.
\<close>

theorem knowledge_search_best:
  assumes "search_company_knowledge fmt query m ctx = Hits hits"
  shows "length hits \<le> 10 \<and>
    (\<forall>h \<in> set hits.
       (\<exists>i < length (knowledge_from_state ctx). h = hit_at fmt query (knowledge_from_state ctx) i
          \<and> (tokenize query = [] \<or> 0 < entry_score fmt query (knowledge_from_state ctx ! i))) \<and>
       (\<forall>i < length (knowledge_from_state ctx). 0 < entry_score fmt query (knowledge_from_state ctx ! i) \<longrightarrow>
          hit_at fmt query (knowledge_from_state ctx) i \<notin> set hits \<longrightarrow>
          (\<exists>n. py_get h ''score'' = PInt (int n) \<and> entry_score fmt query (knowledge_from_state ctx ! i) \<le> n)))"
  using knowledge_search_parts [OF assms] by blast

definition sample_knowledge :: py_record where
  "sample_knowledge = [(''app:company_knowledge'', PList
     [PDict [(''id'', PStr ''a''), (''title'', PStr ''Opening hours'')],
      PDict [(''id'', PStr ''b''), (''title'', PStr ''Returns''), (''text'', PStr ''within opening hours'')],
      PDict [(''id'', PStr ''c''), (''title'', PStr ''Parking'')]])]"

lemma knowledge_search_best_witness:
  "\<exists>hits. search_company_knowledge (\<lambda>_. []) ''Opening hours?'' (PInt 1) (Some sample_knowledge) = Hits hits
     \<and> map (\<lambda>h. py_get h ''id'') hits = [PStr ''a''] \<and> length hits \<le> 10"
proof -
  let ?a = "search_company_knowledge (\<lambda>_. []) ''Opening hours?'' (PInt 1) (Some sample_knowledge)"
  let ?hits = "case ?a of Hits hs \<Rightarrow> hs | _ \<Rightarrow> []"
  have "(case ?a of Hits hs \<Rightarrow> True | _ \<Rightarrow> False)" by code_simp
  then have e: "?a = Hits ?hits" by (simp split: search_answer.splits)
  have "map (\<lambda>h. py_get h ''id'') ?hits = [PStr ''a'']" by code_simp
  then show ?thesis using e conjunct1 [OF knowledge_search_best [OF e]] by (intro exI conjI)
qed

text \<open>
  When the session has a manifest, a system's answer comes from a connector of the manifest and
  never from the profile, even when the manifest is empty; and only a mock connector answers.
\<close>

theorem system_call_contained:
  assumes "query_company_system fmt to_float hostname json_loads system action payload ctx = MockResult sent r"
  shows "\<exists>connector. dget (available_connectors ctx) system = Some (PDict connector)
    \<and> connector_provider fmt connector = ''mock'' \<and> dget (as_dict (py_get connector ''mock_actions'')) action = Some r
    \<and> (\<forall>st v. ctx = Some st \<longrightarrow> dget st ''app:connector_manifest'' = Some v \<longrightarrow> available_connectors ctx = as_dict v)"
proof -
  obtain connector where c: "py_get (available_connectors ctx) system = PDict connector"
    and d: "dispatch_connector fmt to_float hostname connector action (payload_of json_loads payload) = MockResult sent r"
    using assms by (auto simp: query_company_system_def split: if_splits py.splits)
  have "connector_provider fmt connector = ''mock''" and "dget (as_dict (py_get connector ''mock_actions'')) action = Some r"
    using d by (auto simp: dispatch_connector_def Let_def split: if_split_asm option.split_asm list.split_asm prod.split_asm)
  moreover have "dget (available_connectors ctx) system = Some (PDict connector)"
    using c by (auto simp: py_get_def dget_default_def split: option.splits)
  ultimately show ?thesis by (auto simp: available_connectors_def connector_manifest_from_state_def)
qed

definition sample_tool_state :: py_record where
  "sample_tool_state = [(''app:company_profile'', PDict [(''name'', PStr ''x'')]),
    (''app:connector_manifest'', PDict [(''crm'', PDict [(''mock_actions'', PDict [(''ping'', PStr ''pong'')])])])]"

lemma system_call_contained_witness:
  "\<exists>connector. dget (available_connectors (Some sample_tool_state)) ''crm'' = Some (PDict connector)
     \<and> connector_provider (\<lambda>_. []) connector = ''mock''"
proof -
  have "query_company_system (\<lambda>_. []) (\<lambda>_. None) (\<lambda>_. None) (\<lambda>_. None) ''crm'' ''ping'' PNone (Some sample_tool_state)
    = MockResult [] (PStr ''pong'')" by code_simp
  from system_call_contained [OF this] show ?thesis by (elim exE conjE) (intro exI conjI)
qed

text \<open>No call passes the checks to a host outside the allowlist of the connector's policy.\<close>

lemma egress_contained:
  assumes "dispatch_connector fmt to_float hostname connector action payload = ProviderNotImplemented prov timeout retries hosts"
    and "hosts \<noteq> []"
  shows "\<exists>host. extract_connector_endpoint_host hostname connector = Some host \<and> host_matches_allowlist host hosts"
  using assms by (auto simp: dispatch_connector_def Let_def split: if_split_asm option.split_asm list.split_asm prod.split_asm)

end
