(* ===== verification/Catalog_Search.thy ===== *)
theory Catalog_Search
  imports Company_Knowledge Scoped_Queries
begin

text \<open>
  \<open>app/tools/catalog_tools.py\<close>: the product search.  The documents of a company's collection,
  in the order Firestore streams them, are an input; so is \<open>commas\<close>, the format \<open>:,\<close> of a
  price, which raises (\<open>None\<close>) for a value that is no number.
\<close>

section \<open>Queries\<close>

definition QUERY_STOPWORDS :: "string list" where
  "QUERY_STOPWORDS =
     [''a'', ''an'', ''and'', ''available'', ''buy'', ''can'', ''do'', ''for'', ''get'', ''have'', ''i'', ''in'', ''is'',
      ''it'', ''me'', ''my'', ''need'', ''of'', ''one'', ''please'', ''show'', ''the'', ''to'', ''want'', ''which'',
      ''with'', ''you'']"

definition CATEGORY_ALIASES :: "(string \<times> string list) list" where
  "CATEGORY_ALIASES =
     [(''security'', [''security'', ''cctv'', ''ctv'', ''camera'', ''cameras'', ''surveillance'', ''securitycamera'',
         ''securitycameras'']),
      (''smartphones'', [''smartphone'', ''smartphones'', ''phone'', ''phones'', ''mobile'', ''mobiles'']),
      (''tablets'', [''tablet'', ''tablets'', ''ipad'', ''tab'', ''tabs'']),
      (''laptops'', [''laptop'', ''laptops'', ''notebook'', ''notebooks'', ''macbook'']),
      (''accessories'', [''accessory'', ''accessories'', ''charger'', ''chargers'', ''powerbank''])]"

text \<open>What speech recognition makes of "CCTV": each pattern as the phrases it matches.\<close>

definition QUERY_ALIAS_PATTERNS :: "(nat \<times> string list list) list" where
  "QUERY_ALIAS_PATTERNS =
     [(0, [[''ct'', ''scan'']]), (0, [[''ctv'']]), (0, [[''cc'', ''tv'']]), (0, [[''c'', ''t'', ''v'']]),
      (1, [[''security'', ''cameras''], [''security'', ''camera''], [''security'', ''cams''], [''security'', ''cam'']])]"

definition normalize_query_text :: "string \<Rightarrow> string" where
  "normalize_query_text query =
     fold (\<lambda>(gap, phrases) s. substitute (first_phrase gap phrases) ''cctv'' None 0 s) QUERY_ALIAS_PATTERNS query"

definition significant_query_tokens :: "string \<Rightarrow> string list" where
  "significant_query_tokens query =
     filter (\<lambda>t. 3 \<le> length t \<and> t \<notin> set QUERY_STOPWORDS) (tokenize (normalize_query_text query))"

section \<open>Matching\<close>

definition product_haystack :: "(py \<Rightarrow> string) \<Rightarrow> py_record \<Rightarrow> string" where
  "product_haystack fmt product =
     lower (join '' '' [text_field fmt product ''name'', text_field fmt product ''brand'', text_field fmt product ''category'',
       text_field fmt product ''description'', join '' '' (map (str_value fmt) (as_list (py_get product ''features'')))])"

definition token_matches :: "string \<Rightarrow> string \<Rightarrow> bool" where
  "token_matches haystack token \<longleftrightarrow> token \<in> set (tokenize haystack) \<or> contains token haystack"

definition matches_needed :: "nat \<Rightarrow> nat" where
  "matches_needed n = (if n = 1 then 1 else if n = 2 then 1 else max 2 ((n + 1) div 2))"

definition product_matches_query :: "(py \<Rightarrow> string) \<Rightarrow> py_record \<Rightarrow> string \<Rightarrow> bool" where
  "product_matches_query fmt product query \<longleftrightarrow>
     (let tokens = significant_query_tokens query;
          matches = length (filter (token_matches (product_haystack fmt product)) tokens)
      in tokens = [] \<or> matches_needed (length tokens) \<le> matches)"

definition canonical_category :: "string \<Rightarrow> string" where
  "canonical_category v =
     (let tokens = tokenize v in
      case tokens of
        [] \<Rightarrow> []
      | t # _ \<Rightarrow>
          (case filter (\<lambda>(canonical, aliases). canonical \<in> set tokens \<or> list_ex (\<lambda>x. x \<in> set aliases) tokens) CATEGORY_ALIASES of
             [] \<Rightarrow> t | (canonical, _) # _ \<Rightarrow> canonical))"

definition product_matches_category :: "(py \<Rightarrow> string) \<Rightarrow> py_record \<Rightarrow> string option \<Rightarrow> bool" where
  "product_matches_category fmt product category \<longleftrightarrow>
     (let requested = lower (strip (text_of category));
          product_category = lower (strip (text_field fmt product ''category''));
          asked = canonical_category requested; have_it = canonical_category product_category
      in requested = []
         \<or> product_category \<noteq> []
           \<and> (asked \<noteq> [] \<and> asked = have_it
              \<or> tokenize requested \<noteq> [] \<and> set (tokenize requested) \<subseteq> set (tokenize product_category)
              \<or> set (tokenize requested) \<inter> set (tokenize product_category) \<noteq> {}))"

section \<open>Products\<close>

definition variant_price :: "(py \<Rightarrow> string) \<Rightarrow> (py \<Rightarrow> string option) \<Rightarrow> py \<Rightarrow> py_record \<Rightarrow> string option" where
  "variant_price fmt commas currency v =
     map_option (\<lambda>p. str_value fmt (py_get v ''storage'') @ '': '' @ str_value fmt (dget_default v ''currency'' currency) @ p)
       (commas (py_get v ''price''))"

definition priced_variants :: "py list \<Rightarrow> py_record list" where
  "priced_variants vs = filter (\<lambda>v. dget v ''storage'' \<noteq> None \<and> dget v ''price'' \<noteq> None) (dict_items vs)"

fun all_some :: "'a option list \<Rightarrow> 'a list option" where
  "all_some [] = Some []"
| "all_some (None # xs) = None"
| "all_some (Some x # xs) = map_option (\<lambda>ys. x # ys) (all_some xs)"

text \<open>A format that raises makes the whole call raise.\<close>

definition format_product :: "(py \<Rightarrow> string) \<Rightarrow> (py \<Rightarrow> string option) \<Rightarrow> py_record \<Rightarrow> py_record option" where
  "format_product fmt commas product =
     (case priced_variants (as_list (py_get product ''storage_variants'')) of
        [] \<Rightarrow> Some product
      | vs \<Rightarrow>
          map_option (\<lambda>prices. dpop ''storage_variants'' (dset ''price'' (PStr (join '' | '' prices)) product))
            (all_some (map (variant_price fmt commas (dget_default product ''currency'' (PStr naira))) vs)))"

definition demo_product :: "string \<Rightarrow> string \<Rightarrow> int \<Rightarrow> string \<Rightarrow> string \<Rightarrow> string list \<Rightarrow> string \<Rightarrow> py_record" where
  "demo_product pid nm price category brand features description =
     [(''id'', PStr pid), (''name'', PStr nm), (''price'', PInt price), (''currency'', PStr ''NGN''),
      (''category'', PStr category), (''brand'', PStr brand), (''in_stock'', PBool True),
      (''features'', PList (map PStr features)), (''description'', PStr description), (''data_tier'', PStr ''demo'')]"

definition DEMO_FALLBACK_PRODUCTS :: "py_record list" where
  "DEMO_FALLBACK_PRODUCTS =
     [demo_product ''prod-cctv-bundle-4ch'' ''CCTV Security Bundle (4-Camera + DVR)'' 980000 ''security'' ''Hikvision''
        [''4 x 2MP HD cameras'', ''8-channel DVR'', ''1TB surveillance HDD'', ''60m cabling kit'', ''12V power supply'']
        ''Complete starter CCTV kit for shops, warehouses, and homes with same-week installation support.'',
      demo_product ''prod-anker-powerbank-26k'' ''Anker PowerCore 26800'' 32000 ''accessories'' ''Anker''
        [''26800mAh'', ''Dual USB-A'', ''PowerIQ fast charging'']
        ''High-capacity portable charger for multiple device charges.'']"

section \<open>The search\<close>

text \<open>The loop that stops at the wanted number; \<open>None\<close>: formatting a product raised.\<close>

fun collect_products :: "(py_record \<Rightarrow> bool) \<Rightarrow> (py_record \<Rightarrow> py_record option) \<Rightarrow> nat \<Rightarrow> py_record list \<Rightarrow> py_record list option" where
  "collect_products wanted fmt_product room [] = Some []"
| "collect_products wanted fmt_product room (p # ps) =
     (if \<not> wanted p then collect_products wanted fmt_product room ps
      else case fmt_product p of
          None \<Rightarrow> None
        | Some q \<Rightarrow> if room \<le> 1 then Some [q]
            else map_option (\<lambda>qs. q # qs) (collect_products wanted fmt_product (room - 1) ps))"

definition wanted_product :: "(py \<Rightarrow> string) \<Rightarrow> string \<Rightarrow> string option \<Rightarrow> py_record \<Rightarrow> bool" where
  "wanted_product fmt query category p \<longleftrightarrow> product_matches_category fmt p category \<and> product_matches_query fmt p query"

definition fallback_products :: "(py \<Rightarrow> string) \<Rightarrow> string \<Rightarrow> string option \<Rightarrow> nat \<Rightarrow> py_record list" where
  "fallback_products fmt query category safe_max =
     take safe_max (filter (wanted_product fmt query category) DEMO_FALLBACK_PRODUCTS)"

datatype catalog_error = CatalogUnavailable | ScopeUnavailable | LookupFailed

record catalog_answer =
  cat_error :: "catalog_error option"
  from_demo :: bool
  products :: "py_record list"

text \<open>
  \<open>stream path limit\<close>: the documents of the collection, at most that many, or \<open>None\<close> when the
  read raises; \<open>db\<close> is absent when no client could be made.
\<close>

definition search_catalog ::
  "(py \<Rightarrow> string) \<Rightarrow> (py \<Rightarrow> string option) \<Rightarrow> (collection_path \<Rightarrow> nat \<Rightarrow> (string \<times> py_record) list option) option
   \<Rightarrow> string \<Rightarrow> string option \<Rightarrow> py \<Rightarrow> session_state option \<Rightarrow> catalog_answer" where
  "search_catalog fmt commas db query category max_results ctx =
     (let safe_max = safe_max_results 10 50 max_results;
          query_text = strip query;
          demo = fallback_products fmt query_text category safe_max;
          failed = (\<lambda>e. \<lparr>cat_error = Some e, from_demo = True, products = demo\<rparr>)
      in case db of
          None \<Rightarrow> failed CatalogUnavailable
        | Some stream \<Rightarrow>
            (case scoped_collection ctx ''products'' of
               None \<Rightarrow> failed ScopeUnavailable
             | Some path \<Rightarrow>
                 (case Option.bind (stream path (min (max (safe_max * 5) safe_max) 100))
                     (\<lambda>docs. collect_products (wanted_product fmt query_text category) (format_product fmt commas)
                       safe_max (map (\<lambda>(i, d). dset ''id'' (PStr i) d) docs)) of
                    None \<Rightarrow> failed LookupFailed
                  | Some ps \<Rightarrow>
                      if ps = [] \<and> demo \<noteq> [] then \<lparr>cat_error = None, from_demo = True, products = demo\<rparr>
                      else \<lparr>cat_error = None, from_demo = False, products = ps\<rparr>)))"

section \<open>Theorems\<close>

lemma collect_sound:
  assumes "collect_products wanted f room ps = Some qs"
  shows "\<forall>q \<in> set qs. \<exists>p \<in> set ps. wanted p \<and> f p = Some q" and "length qs \<le> max 1 room"
  using assms by (induction wanted f room ps arbitrary: qs rule: collect_products.induct)
    (fastforce split: if_split_asm option.split_asm)+

lemma collect_complete:
  assumes "collect_products wanted f room ps = Some qs" and "length qs < room"
  shows "\<forall>p \<in> set ps. wanted p \<longrightarrow> (\<exists>q \<in> set qs. f p = Some q)"
  using assms by (induction wanted f room ps arbitrary: qs rule: collect_products.induct)
    (fastforce split: if_split_asm option.split_asm)+

definition fetched :: "(collection_path \<Rightarrow> nat \<Rightarrow> (string \<times> py_record) list option) \<Rightarrow> session_state option \<Rightarrow> nat \<Rightarrow> py_record list option" where
  "fetched stream ctx limit =
     Option.bind (scoped_collection ctx ''products'') (\<lambda>path.
       map_option (map (\<lambda>(i, d). dset ''id'' (PStr i) d)) (stream path limit))"

lemma own_products:
  assumes "search_catalog fmt commas (Some stream) query category m ctx = ans" and "\<not> from_demo ans"
  shows "\<exists>docs. fetched stream ctx (min (max (safe_max_results 10 50 m * 5) (safe_max_results 10 50 m)) 100) = Some docs
    \<and> collect_products (wanted_product fmt (strip query) category) (format_product fmt commas) (safe_max_results 10 50 m) docs
      = Some (products ans)"
proof -
  let ?n = "safe_max_results 10 50 m"
  let ?limit = "min (max (?n * 5) ?n) 100"
  note run = assms(1) [symmetric, unfolded search_catalog_def Let_def option.case]
  obtain path where path: "scoped_collection ctx ''products'' = Some path"
    using assms(2) run by (cases "scoped_collection ctx ''products''") simp_all
  note run = run [unfolded path option.case]
  let ?docs = "map_option (map (\<lambda>(i, d). dset ''id'' (PStr i) d)) (stream path ?limit)"
  let ?collect = "collect_products (wanted_product fmt (strip query) category) (format_product fmt commas) ?n"
  have eq: "Option.bind (stream path ?limit) (\<lambda>docs. ?collect (map (\<lambda>(i, d). dset ''id'' (PStr i) d) docs)) = Option.bind ?docs ?collect"
    by (cases "stream path ?limit") simp_all
  note run = run [unfolded eq]
  obtain ps where ps: "Option.bind ?docs ?collect = Some ps"
    using assms(2) run by (cases "Option.bind ?docs ?collect") simp_all
  note run = run [unfolded ps option.case]
  have "products ans = ps" using assms(2) run by (simp split: if_split_asm)
  with ps show ?thesis unfolding fetched_def path by (simp add: bind_eq_Some_conv)
qed

text \<open>
  C22 A catalogue search that does not say it is demonstration data gives at most the number of
  products asked for and never more than fifty, each a document of the session's own tenant and
  company that matches category and query; and when it gives fewer than asked for, every
  matching document that was fetched is among them.
\<close>

theorem catalog_answers_from_own_scope:
  assumes "search_catalog fmt commas (Some stream) query category m ctx = ans" and "\<not> from_demo ans"
  shows "\<exists>t c docs. scoped_collection ctx ''products'' = Some (Scoped t c ''products'')
    \<and> fetched stream ctx (min (max (safe_max_results 10 50 m * 5) (safe_max_results 10 50 m)) 100) = Some docs
    \<and> length (products ans) \<le> safe_max_results 10 50 m \<and> safe_max_results 10 50 m \<le> 50
    \<and> (\<forall>q \<in> set (products ans). \<exists>p \<in> set docs. wanted_product fmt (strip query) category p \<and> format_product fmt commas p = Some q)
    \<and> (length (products ans) < safe_max_results 10 50 m \<longrightarrow>
         (\<forall>p \<in> set docs. wanted_product fmt (strip query) category p \<longrightarrow> (\<exists>q \<in> set (products ans). format_product fmt commas p = Some q)))"
proof -
  have b: "1 \<le> safe_max_results 10 50 m" "safe_max_results 10 50 m \<le> 50" using safe_max_bounds [of 50 10 m] by simp_all
  obtain docs where f: "fetched stream ctx (min (max (safe_max_results 10 50 m * 5) (safe_max_results 10 50 m)) 100) = Some docs"
    and c: "collect_products (wanted_product fmt (strip query) category) (format_product fmt commas) (safe_max_results 10 50 m) docs
      = Some (products ans)"
    using own_products [OF assms] by blast
  obtain t c where "scoped_collection ctx ''products'' = Some (Scoped t c ''products'')"
    using f by (auto simp: fetched_def scoped_collection_def bind_eq_Some_conv split: option.splits)
  moreover have "length (products ans) \<le> safe_max_results 10 50 m" using collect_sound(2) [OF c] b by simp
  ultimately show ?thesis using f b collect_sound(1) [OF c] collect_complete [OF c] by blast
qed

definition sample_stream :: "collection_path \<Rightarrow> nat \<Rightarrow> (string \<times> py_record) list option" where
  "sample_stream path n = Some [(''p1'', [(''name'', PStr ''A54'')]), (''p2'', [(''name'', PStr ''Fan'')])]"

definition sample_scope :: session_state where
  "sample_scope = [(''app:tenant_id'', PStr ''t''), (''app:company_id'', PStr ''c'')]"

definition sample_answer :: catalog_answer where
  "sample_answer = search_catalog (\<lambda>_. []) (\<lambda>_. None) (Some sample_stream) [] None (PInt 5) (Some sample_scope)"

lemma empty_query_wants_all: "wanted_product fmt [] None p"
proof -
  have "significant_query_tokens [] = []"
    by (simp add: significant_query_tokens_def normalize_query_text_def QUERY_ALIAS_PATTERNS_def tokenize_def lower_def)
  then show ?thesis
    by (simp add: wanted_product_def product_matches_category_def product_matches_query_def text_of_def lower_def)
qed

lemma sample_answer_products: "\<not> from_demo sample_answer \<and> map (\<lambda>p. py_get p ''id'') (products sample_answer) = [PStr ''p1'', PStr ''p2'']"
proof -
  have n: "safe_max_results 10 50 (PInt 5) = 5" by code_simp
  have c: "scoped_collection (Some sample_scope) ''products'' = Some (Scoped ''t'' ''c'' ''products'')" by code_simp
  have f: "format_product (\<lambda>_. []) (\<lambda>_. None) [(''name'', v), (''id'', i)] = Some [(''name'', v), (''id'', i)]" for v i
    by (simp add: format_product_def priced_variants_def py_get_def dget_default_def)
  show ?thesis
    by (simp add: sample_answer_def search_catalog_def Let_def n c sample_stream_def empty_query_wants_all f py_get_def dget_default_def)
qed

lemma catalog_answers_from_own_scope_witness:
  "length (products sample_answer) \<le> safe_max_results 10 50 (PInt 5)
   \<and> map (\<lambda>p. py_get p ''id'') (products sample_answer) = [PStr ''p1'', PStr ''p2'']"
proof -
  have d: "\<not> from_demo sample_answer" using sample_answer_products by (rule conjunct1)
  from catalog_answers_from_own_scope [OF sample_answer_def [symmetric] d] show ?thesis
    using sample_answer_products by (elim exE conjE) (intro conjI)
qed

text \<open>When nothing of its own matches, a company's customers are offered the demonstration products.\<close>

lemma demo_products_offered:
  assumes "scoped_collection ctx ''products'' = Some path" and "\<forall>n. stream path n = Some []"
    and "fallback_products fmt (strip query) category (safe_max_results 10 50 m) \<noteq> []"
  shows "from_demo (search_catalog fmt commas (Some stream) query category m ctx)"
    and "cat_error (search_catalog fmt commas (Some stream) query category m ctx) = None"
  using assms by (simp_all add: search_catalog_def Let_def)

lemma phone_accessories_are_phones: "canonical_category ''phone accessories'' = ''smartphones''"
  by code_simp

text \<open>One variant without a numeric price makes the whole search fail over to demonstration data.\<close>

lemma bad_variant_fails_search:
  assumes "wanted p" and "dict_items (as_list (py_get p ''storage_variants'')) = [v]"
    and "dget v ''storage'' = Some s" and "dget v ''price'' = Some x" and "commas x = None"
  shows "collect_products wanted (format_product fmt commas) room (p # ps) = None"
  using assms by (simp add: format_product_def priced_variants_def variant_price_def py_get_def [of v] dget_default_def)

lemma heard_ct_scan: "significant_query_tokens ''Do you have CT scan cameras?'' = [''cctv'', ''cameras'']"
  by code_simp

end
