(* ===== verification/Graph_Api.thy ===== *)
theory Graph_Api
  imports Py_Records Bytes
begin

text \<open>
  The WhatsApp half of \<open>app/api/v1/at/providers.py\<close>: the URLs and payloads of requests to the
  Graph API, the request loop with its retries, and the download of media.  What the network
  answers to the n-th attempt of a request is an input, so are the random part of a delay
  (\<open>uniform\<close>), \<open>float()\<close> of a header and the checks of \<open>urlsplit\<close> on bracketed or non-ASCII
  authorities (\<open>netloc_ok\<close>).
\<close>

section \<open>Identifiers\<close>

definition digits :: "string \<Rightarrow> bool" where
  "digits s \<longleftrightarrow> s \<noteq> [] \<and> list_all is_digit s"

definition api_version_ok :: "string \<Rightarrow> bool" where
  "api_version_ok v =
     (case v of
        [] \<Rightarrow> False
      | c # r \<Rightarrow> c = CHR ''v'' \<and> (case split_on CHR ''.'' r of [a, b] \<Rightarrow> digits a \<and> digits b | _ \<Rightarrow> False))"

definition media_id_char :: "char \<Rightarrow> bool" where
  "media_id_char c \<longleftrightarrow> ascii_letter c \<or> is_digit c \<or> c \<in> set ''._:-''"

text \<open>\<open>None\<close> is \<open>ValueError\<close>.\<close>

definition normalize_graph_api_version :: "string \<Rightarrow> string option" where
  "normalize_graph_api_version v = (if api_version_ok (strip v) then Some (strip v) else None)"

definition normalize_phone_number_id :: "string \<Rightarrow> string option" where
  "normalize_phone_number_id v = (if digits (strip v) then Some (strip v) else None)"

definition normalize_media_id :: "string \<Rightarrow> string option" where
  "normalize_media_id v =
     (if strip v \<noteq> [] \<and> list_all media_id_char (strip v) then Some (strip v) else None)"

definition GRAPH_API_BASE_URL :: string where
  "GRAPH_API_BASE_URL = ''https://graph.facebook.com''"

definition strip_slashes :: "string \<Rightarrow> string" where
  "strip_slashes s = rstrip_where (\<lambda>c. c = CHR ''/'') (dropWhile (\<lambda>c. c = CHR ''/'') s)"

definition graph_api_url :: "string list \<Rightarrow> string option" where
  "graph_api_url segments =
     (let safe = map strip_slashes (filter (\<lambda>s. s \<noteq> []) segments) in
      if safe = [] then None else Some (GRAPH_API_BASE_URL @ ''/'' @ join ''/'' safe))"

section \<open>Trusted download hosts\<close>

text \<open>
  \<open>urlsplit\<close> as far as it is used: leading control characters and spaces go, tabs and line ends
  go anywhere, then scheme, authority and host.
\<close>

definition clean_url :: "string \<Rightarrow> string" where
  "clean_url s = filter (\<lambda>c. code c \<notin> {9, 10, 13}) (dropWhile (\<lambda>c. code c \<le> 32) s)"

definition scheme_char :: "char \<Rightarrow> bool" where
  "scheme_char c \<longleftrightarrow> ascii_letter c \<or> is_digit c \<or> c \<in> set ''+-.''"

definition url_scheme :: "string \<Rightarrow> string \<times> string" where
  "url_scheme u =
     (let s = takeWhile (\<lambda>c. c \<noteq> CHR '':'') u in
      if CHR '':'' \<in> set u \<and> s \<noteq> [] \<and> ascii_letter (hd s) \<and> list_all scheme_char s
      then (lower s, drop (Suc (length s)) u) else ([], u))"

definition url_netloc :: "string \<Rightarrow> string" where
  "url_netloc rest =
     (if startswith ''//'' rest then takeWhile (\<lambda>c. c \<notin> set ''/?#'') (drop 2 rest) else [])"

definition url_host :: "string \<Rightarrow> string" where
  "url_host netloc =
     (let info = rev (takeWhile (\<lambda>c. c \<noteq> CHR ''@'') (rev netloc)) in
      lower (if CHR ''['' \<in> set info then takeWhile (\<lambda>c. c \<noteq> CHR '']'') (after CHR ''['' info)
        else takeWhile (\<lambda>c. c \<noteq> CHR '':'') info))"

definition MEDIA_DOWNLOAD_ALLOWED_HOSTS :: "string list" where
  "MEDIA_DOWNLOAD_ALLOWED_HOSTS = [''fbcdn.net'', ''whatsapp.net'', ''fbsbx.com'']"

definition is_allowed_download_url :: "(string \<Rightarrow> bool) \<Rightarrow> string \<Rightarrow> bool option" where
  "is_allowed_download_url netloc_ok url =
     (case url_scheme (clean_url (strip url)) of
        (scheme, rest) \<Rightarrow>
          if \<not> netloc_ok (url_netloc rest) then None
          else if scheme \<noteq> ''https'' then Some False
          else (let host = url_host (url_netloc rest) in
            Some (host \<noteq> [] \<and> list_ex (\<lambda>allowed. host = allowed \<or> endswith (CHR ''.'' # allowed) host)
              MEDIA_DOWNLOAD_ALLOWED_HOSTS)))"

section \<open>Requests with retries\<close>

record graph_settings =
  WHATSAPP_PHONE_NUMBER_ID :: string
  WHATSAPP_API_VERSION :: string
  WA_GRAPH_RETRY_MAX_ATTEMPTS :: nat
  WA_GRAPH_RETRY_MAX_BACKOFF_SECONDS :: nat

record http_request =
  hr_method :: string
  hr_url :: string
  hr_bearer :: string
  hr_json :: "py option"

text \<open>
  What comes of one attempt: an answer (its body absent when it is no JSON), a timeout or a
  refused connection, or another error of the transport.
\<close>

datatype attempt = Answer nat "string option" "py option" | No_Connection | Broken

datatype graph_error = Invalid_Value | Gave_Up | Transport_Error | Metadata_Failed nat | No_Download_Url
  | Untrusted_Url | Download_Failed nat | Media_Too_Large

type_synonym graph_result = "graph_error + nat \<times> py_record"

record graph_env =
  settings :: graph_settings
  uniform :: "nat \<Rightarrow> rat \<Rightarrow> rat"
  to_float :: "string \<Rightarrow> rat option"

definition max_backoff :: "graph_env \<Rightarrow> rat" where
  "max_backoff e = of_nat (WA_GRAPH_RETRY_MAX_BACKOFF_SECONDS (settings e))"

definition jitter_backoff :: "graph_env \<Rightarrow> nat \<Rightarrow> rat" where
  "jitter_backoff e attempt = uniform e attempt (min (2 ^ attempt) (max_backoff e))"

definition graph_retry_delay :: "graph_env \<Rightarrow> nat \<Rightarrow> string option \<Rightarrow> rat" where
  "graph_retry_delay e attempt retry_after =
     (case retry_after of
        None \<Rightarrow> jitter_backoff e attempt
      | Some h \<Rightarrow>
          if h = [] then jitter_backoff e attempt
          else (case to_float e h of None \<Rightarrow> jitter_backoff e attempt | Some d \<Rightarrow> min d (max_backoff e)))"

definition busy :: "nat \<Rightarrow> bool" where
  "busy status \<longleftrightarrow> status = 429 \<or> 500 \<le> status"

definition answer_body :: "py option \<Rightarrow> py_record" where
  "answer_body body = (case body of Some (PDict d) \<Rightarrow> d | _ \<Rightarrow> [])"

text \<open>The loop: \<open>left\<close> attempts from attempt \<open>n\<close> on, and the delays it sleeps.\<close>

fun graph_attempts :: "graph_env \<Rightarrow> (nat \<Rightarrow> attempt) \<Rightarrow> nat \<Rightarrow> nat \<Rightarrow> bool \<Rightarrow> rat list \<times> graph_result" where
  "graph_attempts e send n 0 failed = ([], if failed then Inl Gave_Up else Inr (500, []))"
| "graph_attempts e send n (Suc left) failed =
     (case send n of
        Answer status retry_after body \<Rightarrow>
          if busy status \<and> 0 < left
          then (case graph_attempts e send (Suc n) left failed of (ds, r) \<Rightarrow> (graph_retry_delay e n retry_after # ds, r))
          else ([], Inr (status, answer_body body))
      | No_Connection \<Rightarrow>
          if 0 < left
          then (case graph_attempts e send (Suc n) left True of (ds, r) \<Rightarrow> (jitter_backoff e n # ds, r))
          else ([], Inl Gave_Up)
      | Broken \<Rightarrow> ([], Inl Transport_Error))"

definition wa_graph_request ::
  "graph_env \<Rightarrow> (http_request \<Rightarrow> nat \<Rightarrow> attempt) \<Rightarrow> string \<Rightarrow> string list \<Rightarrow> string \<Rightarrow> py option \<Rightarrow> rat list \<times> graph_result" where
  "wa_graph_request e net method segments access_token json =
     (case graph_api_url segments of
        None \<Rightarrow> ([], Inl Invalid_Value)
      | Some url \<Rightarrow>
          graph_attempts e (net \<lparr>hr_method = method, hr_url = url, hr_bearer = access_token, hr_json = json\<rparr>) 0
            (WA_GRAPH_RETRY_MAX_ATTEMPTS (settings e)) False)"

section \<open>Sending\<close>

text \<open>\<open>(given or "").strip() or default\<close>\<close>

definition given_or :: "string option \<Rightarrow> string \<Rightarrow> string" where
  "given_or given fallback = or_else (strip (text_of given)) fallback"

definition message_address :: "graph_settings \<Rightarrow> string option \<Rightarrow> string option \<Rightarrow> (string \<times> string) option" where
  "message_address cfg phone_number_id api_version =
     (case normalize_phone_number_id (given_or phone_number_id (WHATSAPP_PHONE_NUMBER_ID cfg)) of
        None \<Rightarrow> None
      | Some phone \<Rightarrow>
          map_option (\<lambda>version. (version, phone))
            (normalize_graph_api_version (given_or api_version (WHATSAPP_API_VERSION cfg))))"

definition message_payload :: "string \<Rightarrow> string \<Rightarrow> py \<Rightarrow> py" where
  "message_payload to kind contents =
     PDict [(''messaging_product'', PStr ''whatsapp''), (''recipient_type'', PStr ''individual''),
       (''to'', PStr (dropWhile (\<lambda>c. c = CHR ''+'') to)), (''type'', PStr kind), (kind, contents)]"

definition send_message ::
  "graph_env \<Rightarrow> (http_request \<Rightarrow> nat \<Rightarrow> attempt) \<Rightarrow> string \<Rightarrow> string option \<Rightarrow> string option \<Rightarrow> py \<Rightarrow> rat list \<times> graph_result" where
  "send_message e net access_token phone_number_id api_version payload =
     (case message_address (settings e) phone_number_id api_version of
        None \<Rightarrow> ([], Inl Invalid_Value)
      | Some (version, phone) \<Rightarrow>
          wa_graph_request e net ''POST'' [version, phone, ''messages''] access_token (Some payload))"

definition whatsapp_send_text ::
  "graph_env \<Rightarrow> (http_request \<Rightarrow> nat \<Rightarrow> attempt) \<Rightarrow> string \<Rightarrow> string \<Rightarrow> string \<Rightarrow> string option \<Rightarrow> string option
   \<Rightarrow> rat list \<times> graph_result" where
  "whatsapp_send_text e net access_token to body phone_number_id api_version =
     send_message e net access_token phone_number_id api_version
       (message_payload to ''text'' (PDict [(''preview_url'', PBool False), (''body'', PStr body)]))"

definition whatsapp_send_audio ::
  "graph_env \<Rightarrow> (http_request \<Rightarrow> nat \<Rightarrow> attempt) \<Rightarrow> string \<Rightarrow> string \<Rightarrow> string \<Rightarrow> string option \<Rightarrow> string option
   \<Rightarrow> rat list \<times> graph_result" where
  "whatsapp_send_audio e net access_token to media_id phone_number_id api_version =
     send_message e net access_token phone_number_id api_version
       (message_payload to ''audio'' (PDict [(''id'', PStr media_id)]))"

definition whatsapp_send_interactive ::
  "graph_env \<Rightarrow> (http_request \<Rightarrow> nat \<Rightarrow> attempt) \<Rightarrow> string \<Rightarrow> string \<Rightarrow> py_record \<Rightarrow> string option \<Rightarrow> string option
   \<Rightarrow> rat list \<times> graph_result" where
  "whatsapp_send_interactive e net access_token to interactive phone_number_id api_version =
     send_message e net access_token phone_number_id api_version (message_payload to ''interactive'' (PDict interactive))"

definition whatsapp_send_template ::
  "graph_env \<Rightarrow> (http_request \<Rightarrow> nat \<Rightarrow> attempt) \<Rightarrow> string \<Rightarrow> string \<Rightarrow> string \<Rightarrow> string \<Rightarrow> py list
   \<Rightarrow> string option \<Rightarrow> string option \<Rightarrow> rat list \<times> graph_result" where
  "whatsapp_send_template e net access_token to template_name language components phone_number_id api_version =
     send_message e net access_token phone_number_id api_version
       (message_payload to ''template'' (PDict
         ([(''name'', PStr template_name), (''language'', PDict [(''code'', PStr language)])]
          @ (if components = [] then [] else [(''components'', PList components)]))))"

text \<open>The read mark with the typing indicator: one request at most, whose outcome is ignored.\<close>

definition typing_indicator :: "graph_settings \<Rightarrow> string \<Rightarrow> string \<Rightarrow> string option \<Rightarrow> string option \<Rightarrow> http_request option" where
  "typing_indicator cfg access_token message_id phone_number_id api_version =
     Option.bind (message_address cfg phone_number_id api_version) (\<lambda>(version, phone).
       map_option (\<lambda>url. \<lparr>hr_method = ''POST'', hr_url = url, hr_bearer = access_token,
           hr_json = Some (PDict [(''messaging_product'', PStr ''whatsapp''), (''status'', PStr ''read''),
             (''message_id'', PStr message_id), (''typing_indicator'', PDict [(''type'', PStr ''text'')])])\<rparr>)
         (graph_api_url [version, phone, ''messages'']))"

section \<open>Uploads\<close>

definition MIME_TO_EXT :: "(string, string) dict" where
  "MIME_TO_EXT = [(''audio/ogg'', ''audio.ogg''), (''audio/mpeg'', ''audio.mp3''), (''audio/aac'', ''audio.aac''),
     (''audio/amr'', ''audio.amr''), (''image/jpeg'', ''image.jpg''), (''image/png'', ''image.png''), (''video/mp4'', ''video.mp4'')]"

definition filename_for_mime :: "string \<Rightarrow> string" where
  "filename_for_mime mime_type =
     dget_default MIME_TO_EXT mime_type (''file.'' @ last (split_on CHR ''/'' mime_type))"

text \<open>
  The answer to an upload: its status and its JSON body; the result is the media identifier.  A
  body that is no dictionary has no \<open>get\<close>.
\<close>

definition uploaded_media_id :: "nat \<Rightarrow> py option \<Rightarrow> py option" where
  "uploaded_media_id status body =
     (if status \<noteq> 200 then None
      else case body of
        Some (PDict d) \<Rightarrow> (let media_id = dget_default d ''id'' (PStr []) in if truthy media_id then Some media_id else None)
      | _ \<Rightarrow> None)"

text \<open>\<open>post\<close> uploads a file: the answer, unless the transport fails.\<close>

definition whatsapp_upload_media ::
  "graph_settings \<Rightarrow> (string \<Rightarrow> string \<Rightarrow> string \<Rightarrow> string \<Rightarrow> bytes \<Rightarrow> (nat \<times> py option) option) \<Rightarrow> string
   \<Rightarrow> bytes \<Rightarrow> string \<Rightarrow> string option \<Rightarrow> string option \<Rightarrow> py option" where
  "whatsapp_upload_media cfg post access_token media_bytes mime_type phone_number_id api_version =
     Option.bind (message_address cfg phone_number_id api_version) (\<lambda>(version, phone).
       Option.bind (graph_api_url [version, phone, ''media'']) (\<lambda>url.
         Option.bind (post access_token url mime_type (filename_for_mime mime_type) media_bytes)
           (\<lambda>(status, body). uploaded_media_id status body)))"

section \<open>Downloads\<close>

definition MEDIA_SIZE_LIMITS :: "(string, nat) dict" where
  "MEDIA_SIZE_LIMITS = [(''image'', 5242880), (''audio'', 16777216), (''video'', 16777216),
     (''document'', 104857600), (''sticker'', 512000)]"

definition media_size_limit :: "string \<Rightarrow> nat" where
  "media_size_limit media_type = dget_default MEDIA_SIZE_LIMITS media_type 5242880"

record stream_answer =
  sa_status :: nat
  sa_content_type :: "string option"
  sa_content_length :: "string option"
  sa_chunks :: "bytes list"

fun read_capped :: "nat \<Rightarrow> nat \<Rightarrow> bytes list \<Rightarrow> bytes option" where
  "read_capped limit seen [] = Some []"
| "read_capped limit seen (chunk # chunks) =
     (let seen = seen + length chunk in
      if limit < seen then None else map_option (\<lambda>bs. chunk @ bs) (read_capped limit seen chunks))"

definition declared_too_large :: "nat \<Rightarrow> string option \<Rightarrow> bool" where
  "declared_too_large limit content_length =
     (case py_int (text_of content_length) of None \<Rightarrow> False | Some declared_size \<Rightarrow> int limit < declared_size)"

definition read_stream :: "nat \<Rightarrow> stream_answer \<Rightarrow> graph_error + bytes \<times> string" where
  "read_stream limit a =
     (if sa_status a \<noteq> 200 then Inl (Download_Failed (sa_status a))
      else if declared_too_large limit (sa_content_length a) then Inl Media_Too_Large
      else case read_capped limit 0 (sa_chunks a) of
        None \<Rightarrow> Inl Media_Too_Large
      | Some bs \<Rightarrow> Inr (bs, case sa_content_type a of None \<Rightarrow> ''application/octet-stream'' | Some ct \<Rightarrow> ct))"

text \<open>\<open>stream\<close> opens the download of a URL: its answer, or an error of the transport.\<close>

definition download_from ::
  "(string \<Rightarrow> bool) \<Rightarrow> (string \<Rightarrow> string \<Rightarrow> stream_answer option) \<Rightarrow> string \<Rightarrow> nat \<Rightarrow> py_record
   \<Rightarrow> graph_error + bytes \<times> string" where
  "download_from netloc_ok stream access_token limit meta =
     (let url = dget_default meta ''url'' (PStr []) in
      if \<not> truthy url then Inl No_Download_Url
      else case url of
        PStr u \<Rightarrow>
          (case is_allowed_download_url netloc_ok u of
             None \<Rightarrow> Inl Invalid_Value
           | Some False \<Rightarrow> Inl Untrusted_Url
           | Some True \<Rightarrow>
               (case stream access_token u of None \<Rightarrow> Inl Transport_Error | Some a \<Rightarrow> read_stream limit a))
      | _ \<Rightarrow> Inl Invalid_Value)"

definition whatsapp_download_media ::
  "graph_env \<Rightarrow> (http_request \<Rightarrow> nat \<Rightarrow> attempt) \<Rightarrow> (string \<Rightarrow> bool) \<Rightarrow> (string \<Rightarrow> string \<Rightarrow> stream_answer option)
   \<Rightarrow> string \<Rightarrow> string \<Rightarrow> string \<Rightarrow> string option \<Rightarrow> graph_error + bytes \<times> string" where
  "whatsapp_download_media e net netloc_ok stream access_token media_id media_type api_version =
     (case normalize_graph_api_version (given_or api_version (WHATSAPP_API_VERSION (settings e))) of
        None \<Rightarrow> Inl Invalid_Value
      | Some version \<Rightarrow>
          (case normalize_media_id media_id of
             None \<Rightarrow> Inl Invalid_Value
           | Some media \<Rightarrow>
               (case snd (wa_graph_request e net ''GET'' [version, media] access_token None) of
                  Inl err \<Rightarrow> Inl err
                | Inr (status, meta) \<Rightarrow>
                    if status \<noteq> 200 then Inl (Metadata_Failed status)
                    else download_from netloc_ok stream access_token (media_size_limit media_type) meta)))"

section \<open>Lemmas\<close>

lemma no_slash_strip_slashes: "CHR ''/'' \<notin> set s \<Longrightarrow> strip_slashes s = s"
proof -
  assume "CHR ''/'' \<notin> set s"
  then have d: "dropWhile (\<lambda>c. c = CHR ''/'') s = s" by (cases s) auto
  show ?thesis unfolding strip_slashes_def d
    by (rule rstrip_where_id) (use \<open>CHR ''/'' \<notin> set s\<close> in \<open>cases s rule: rev_cases; auto\<close>)
qed

lemma digit_no_slash: "digits s \<Longrightarrow> CHR ''/'' \<notin> set s"
  by (auto simp: digits_def list_all_iff is_digit_def code_def)

lemma version_no_slash:
  assumes "api_version_ok v"
  shows "v \<noteq> []" and "CHR ''/'' \<notin> set v"
proof -
  obtain r a b where v: "v = CHR ''v'' # r" and r: "split_on CHR ''.'' r = [a, b]" and d: "digits a" "digits b"
    using assms unfolding api_version_ok_def by (auto split: list.split_asm)
  have "r = a @ CHR ''.'' # b" using join_split_on [of "CHR ''.''" r] by (simp add: r)
  then show "v \<noteq> []" and "CHR ''/'' \<notin> set v" using digit_no_slash [OF d(1)] digit_no_slash [OF d(2)] by (simp_all add: v)
qed

lemma media_no_slash: "list_all media_id_char s \<Longrightarrow> CHR ''/'' \<notin> set s"
  by (auto simp: list_all_iff media_id_char_def ascii_letter_def is_alpha_def is_digit_def code_def)

lemma graph_url_plain:
  assumes "segments \<noteq> []" and "\<forall>s \<in> set segments. s \<noteq> [] \<and> CHR ''/'' \<notin> set s"
  shows "graph_api_url segments = Some (GRAPH_API_BASE_URL @ ''/'' @ join ''/'' segments)"
proof -
  have "filter (\<lambda>s. s \<noteq> []) segments = segments" using assms(2) by (simp add: filter_id_conv)
  moreover have "map strip_slashes segments = segments"
    using assms(2) by (intro map_idI no_slash_strip_slashes) blast
  ultimately show ?thesis using assms(1) by (simp add: graph_api_url_def Let_def)
qed

text \<open>
  The request of a message: whatever phone number and version are given or configured, it is
  posted, with the caller's token, to the messages of a number made of digits.
\<close>

lemma message_address_ok:
  assumes "message_address cfg phone_number_id api_version = Some (version, phone)"
  shows "api_version_ok version" and "digits phone"
    and "graph_api_url [version, phone, seg] =
      (if seg = [] \<or> CHR ''/'' \<in> set seg then graph_api_url [version, phone, seg]
       else Some (GRAPH_API_BASE_URL @ ''/'' @ version @ ''/'' @ phone @ ''/'' @ seg))"
proof -
  show v: "api_version_ok version" and p: "digits phone"
    using assms by (auto simp: message_address_def normalize_phone_number_id_def normalize_graph_api_version_def
        split: option.split_asm if_split_asm)
  then show "graph_api_url [version, phone, seg] =
      (if seg = [] \<or> CHR ''/'' \<in> set seg then graph_api_url [version, phone, seg]
       else Some (GRAPH_API_BASE_URL @ ''/'' @ version @ ''/'' @ phone @ ''/'' @ seg))"
    using graph_url_plain [of "[version, phone, seg]"] version_no_slash [OF v] digit_no_slash [OF p]
    by (auto simp: digits_def)
qed

section \<open>The retry loop\<close>

definition transient :: "attempt \<Rightarrow> bool" where
  "transient a = (case a of Answer status _ _ \<Rightarrow> busy status | No_Connection \<Rightarrow> True | Broken \<Rightarrow> False)"

text \<open>What the caller is told of the last attempt made.\<close>

definition outcome_of :: "attempt \<Rightarrow> graph_result" where
  "outcome_of a =
     (case a of Answer status _ body \<Rightarrow> Inr (status, answer_body body) | No_Connection \<Rightarrow> Inl Gave_Up
      | Broken \<Rightarrow> Inl Transport_Error)"

definition env_ok :: "graph_env \<Rightarrow> bool" where
  "env_ok e \<longleftrightarrow> (\<forall>n b. 0 \<le> b \<longrightarrow> 0 \<le> uniform e n b \<and> uniform e n b \<le> b)"

lemma jitter_bounded:
  assumes "env_ok e"
  shows "jitter_backoff e n \<le> max_backoff e"
proof -
  have "0 \<le> min (2 ^ n) (max_backoff e)" by (simp add: max_backoff_def)
  then have "jitter_backoff e n \<le> min (2 ^ n) (max_backoff e)"
    using assms unfolding jitter_backoff_def env_ok_def by blast
  then show ?thesis by simp
qed

lemma graph_retry_delay_bounded: "env_ok e \<Longrightarrow> graph_retry_delay e n h \<le> max_backoff e"
  using jitter_bounded [of e n] by (simp add: graph_retry_delay_def split: option.split)

lemma graph_attempts_exact:
  assumes "env_ok e" and "graph_attempts e send n (Suc left) failed = (ds, r)"
  shows "length ds \<le> left \<and> (\<forall>i < length ds. transient (send (n + i)))
    \<and> (length ds < left \<longrightarrow> \<not> transient (send (n + length ds)))
    \<and> r = outcome_of (send (n + length ds)) \<and> list_all (\<lambda>d. d \<le> max_backoff e) ds"
  using assms(2)
proof (induction left arbitrary: n failed ds)
  case 0
  then show ?case by (auto simp: outcome_of_def transient_def split: attempt.split_asm)
next
  case (Suc left)
  show ?case
  proof (cases "transient (send n)")
    case False
    then have "ds = []" and "r = outcome_of (send n)"
      using Suc.prems by (auto simp: transient_def outcome_of_def split: attempt.split_asm)
    with False show ?thesis by simp
  next
    case True
    obtain failed' ds' d where rest: "graph_attempts e send (Suc n) (Suc left) failed' = (ds', r)"
      and ds: "ds = d # ds'" and d: "d \<le> max_backoff e"
      using Suc.prems True jitter_bounded [OF assms(1), of n] graph_retry_delay_bounded [OF assms(1), of n]
      by (auto simp: transient_def simp del: graph_attempts.simps(2) simp: graph_attempts.simps(2) [of e send n "Suc left"]
          split: attempt.split_asm prod.split_asm)
    have "\<forall>i < length ds. transient (send (n + i))"
      using Suc.IH [OF rest] True by (auto simp: ds less_Suc_eq_0_disj)
    then show ?thesis using Suc.IH [OF rest] d by (simp add: ds)
  qed
qed

section \<open>Properties\<close>

text \<open>
  C27 A WhatsApp message goes out as the code promises: a wrong number or version is refused before any
  request; otherwise one request, to the messages of a number made of digits, is tried again only
  after a busy answer or a failed connection, at most the configured number of times; the caller gets
  the outcome of the last attempt, and no pause is longer than the configured one.
\<close>

theorem send_retries_exactly:
  assumes "env_ok e" and "0 < WA_GRAPH_RETRY_MAX_ATTEMPTS (settings e)"
    and "send_message e net access_token phone_number_id api_version payload = (ds, r)"
  shows "(case message_address (settings e) phone_number_id api_version of
      None \<Rightarrow> ds = [] \<and> r = Inl Invalid_Value
    | Some (version, phone) \<Rightarrow>
        digits phone \<and>
        (\<exists>req. req = \<lparr>hr_method = ''POST'', hr_url = GRAPH_API_BASE_URL @ ''/'' @ version @ ''/'' @ phone @ ''/messages'',
             hr_bearer = access_token, hr_json = Some payload\<rparr> \<and>
           length ds < WA_GRAPH_RETRY_MAX_ATTEMPTS (settings e) \<and>
           (\<forall>i < length ds. transient (net req i)) \<and>
           (Suc (length ds) < WA_GRAPH_RETRY_MAX_ATTEMPTS (settings e) \<longrightarrow> \<not> transient (net req (length ds))) \<and>
           r = outcome_of (net req (length ds)) \<and> (\<forall>d \<in> set ds. d \<le> max_backoff e)))"
proof (cases "message_address (settings e) phone_number_id api_version")
  case None
  then show ?thesis using assms(3) by (simp add: send_message_def)
next
  case (Some vp)
  then obtain version phone where vp: "message_address (settings e) phone_number_id api_version = Some (version, phone)"
    by (cases vp) simp
  obtain left where left: "WA_GRAPH_RETRY_MAX_ATTEMPTS (settings e) = Suc left" using assms(2) gr0_implies_Suc by blast
  have url: "graph_api_url [version, phone, ''messages''] = Some (GRAPH_API_BASE_URL @ ''/'' @ version @ ''/'' @ phone @ ''/messages'')"
    using message_address_ok(3) [OF vp, of "''messages''"] by simp
  have run: "graph_attempts e (net \<lparr>hr_method = ''POST'', hr_url = GRAPH_API_BASE_URL @ ''/'' @ version @ ''/'' @ phone @ ''/messages'',
      hr_bearer = access_token, hr_json = Some payload\<rparr>) 0 (Suc left) False = (ds, r)"
    using assms(3) by (simp only: send_message_def wa_graph_request_def vp url left option.case prod.case)
  show ?thesis using graph_attempts_exact [OF assms(1) run] message_address_ok(2) [OF vp]
    by (simp add: vp left list_all_iff)
qed

definition sample_graph :: graph_env where
  "sample_graph = \<lparr>settings = \<lparr>WHATSAPP_PHONE_NUMBER_ID = ''42'', WHATSAPP_API_VERSION = ''v25.0'',
       WA_GRAPH_RETRY_MAX_ATTEMPTS = 3, WA_GRAPH_RETRY_MAX_BACKOFF_SECONDS = 8\<rparr>,
     uniform = (\<lambda>n b. b / 2), to_float = (\<lambda>s. if s = ''20'' then Some 20 else None)\<rparr>"

definition sample_net :: "http_request \<Rightarrow> nat \<Rightarrow> attempt" where
  "sample_net req n = (if n = 0 then Answer 429 (Some ''20'') None else if n = 1 then No_Connection
     else Answer 200 None (Some (PDict [(''url'', PStr ''https://cdn.fbcdn.net:443/m?x'')])))"

lemma send_retries_exactly_witness:
  "fst (send_message sample_graph sample_net ''tok'' None None PNone) = [8, 1]
   \<and> outcome_of (sample_net \<lparr>hr_method = ''POST'', hr_url = ''https://graph.facebook.com/v25.0/42/messages'',
         hr_bearer = ''tok'', hr_json = Some PNone\<rparr> 2) = snd (send_message sample_graph sample_net ''tok'' None None PNone)"
proof -
  have r: "send_message sample_graph sample_net ''tok'' None None PNone =
      ([8, 1], Inr (200, [(''url'', PStr ''https://cdn.fbcdn.net:443/m?x'')]))" by code_simp
  have e: "env_ok sample_graph" by (simp add: env_ok_def sample_graph_def)
  have n: "0 < WA_GRAPH_RETRY_MAX_ATTEMPTS (settings sample_graph)" by (simp add: sample_graph_def)
  have a: "message_address (settings sample_graph) None None = Some (''v25.0'', ''42'')" by code_simp
  have u: "GRAPH_API_BASE_URL @ ''/'' @ ''v25.0'' @ ''/'' @ ''42'' @ ''/messages'' = ''https://graph.facebook.com/v25.0/42/messages''"
    by (simp add: GRAPH_API_BASE_URL_def)
  from send_retries_exactly [OF e n r, unfolded a option.case prod.case u] show ?thesis
    by (elim conjE exE) (simp add: r numeral_2_eq_2)
qed

lemma read_capped_exact:
  "read_capped limit seen chunks =
     (if chunks \<noteq> [] \<and> limit < seen + length (concat chunks) then None else Some (concat chunks))"
  by (induction limit seen chunks rule: read_capped.induct) (auto simp: Let_def)

lemma read_stream_ok:
  assumes "read_stream limit a = Inr (bs, ct)"
  shows "sa_status a = 200 \<and> bs = concat (sa_chunks a) \<and> length bs \<le> limit"
  using assms unfolding read_stream_def read_capped_exact by (auto split: if_split_asm)

lemma allowed_url_parts:
  assumes "is_allowed_download_url netloc_ok url = Some True"
  obtains rest where "url_scheme (clean_url (strip url)) = (''https'', rest)" "netloc_ok (url_netloc rest)"
    "\<exists>allowed \<in> set MEDIA_DOWNLOAD_ALLOWED_HOSTS. url_host (url_netloc rest) = allowed
       \<or> (\<exists>sub. url_host (url_netloc rest) = sub @ ''.'' @ allowed)"
proof -
  obtain scheme rest where u: "url_scheme (clean_url (strip url)) = (scheme, rest)" by force
  have ok: "netloc_ok (url_netloc rest)" and https: "scheme = ''https''"
    and host: "list_ex (\<lambda>allowed. url_host (url_netloc rest) = allowed \<or> endswith (CHR ''.'' # allowed) (url_host (url_netloc rest)))
      MEDIA_DOWNLOAD_ALLOWED_HOSTS"
    using assms unfolding is_allowed_download_url_def u prod.case Let_def by (auto split: if_split_asm)
  have "endswith p s \<Longrightarrow> \<exists>sub. s = sub @ p" for p s
    unfolding endswith_def by (metis append_take_drop_id)
  with host have "\<exists>allowed \<in> set MEDIA_DOWNLOAD_ALLOWED_HOSTS. url_host (url_netloc rest) = allowed
      \<or> (\<exists>sub. url_host (url_netloc rest) = sub @ ''.'' @ allowed)"
    unfolding list_ex_iff append.simps by blast
  with u [unfolded https] ok show ?thesis by (rule that)
qed

text \<open>
  C26 Media that a customer sent is downloaded only over https from a host of Meta's (the host
  that the URL's authority names, after any user part), only when both requests succeed: the
  request for the metadata of the given identifier, which has no slash, was answered 200 with
  the URL that is downloaded, and the download was answered 200; the result is what the
  download streamed, and never more bytes than the limit of its kind.
\<close>

theorem download_contained:
  assumes "whatsapp_download_media e net netloc_ok stream access_token media_id media_type api_version = Inr (bs, ct)"
  shows "length bs \<le> media_size_limit media_type \<and> CHR ''/'' \<notin> set (strip media_id) \<and>
    (\<exists>url rest a. url_scheme (clean_url (strip url)) = (''https'', rest) \<and> netloc_ok (url_netloc rest) \<and>
       (\<exists>allowed \<in> {''fbcdn.net'', ''whatsapp.net'', ''fbsbx.com''}. url_host (url_netloc rest) = allowed
          \<or> (\<exists>sub. url_host (url_netloc rest) = sub @ ''.'' @ allowed)) \<and>
       stream access_token url = Some a \<and> sa_status a = 200 \<and> bs = concat (sa_chunks a) \<and>
       (\<exists>version meta.
          normalize_graph_api_version (given_or api_version (WHATSAPP_API_VERSION (settings e))) = Some version \<and>
          snd (wa_graph_request e net ''GET'' [version, strip media_id] access_token None) = Inr (200, meta) \<and>
          dget meta ''url'' = Some (PStr url)))"
proof -
  obtain version media meta
    where v: "normalize_graph_api_version (given_or api_version (WHATSAPP_API_VERSION (settings e))) = Some version"
    and m: "normalize_media_id media_id = Some media"
    and meta: "snd (wa_graph_request e net ''GET'' [version, media] access_token None) = Inr (200, meta)"
    and d: "download_from netloc_ok stream access_token (media_size_limit media_type) meta = Inr (bs, ct)"
    using assms by (auto simp: whatsapp_download_media_def split: option.split_asm sum.split_asm prod.split_asm if_split_asm)
  obtain url a where u: "is_allowed_download_url netloc_ok url = Some True" and s: "stream access_token url = Some a"
    and r: "read_stream (media_size_limit media_type) a = Inr (bs, ct)" and k: "dget meta ''url'' = Some (PStr url)"
    using d
    by (auto simp: download_from_def Let_def dget_default_def
        split: if_split_asm py.split_asm option.split_asm bool.split_asm)
  have strip: "media = strip media_id" using m by (auto simp: normalize_media_id_def split: if_split_asm)
  have "CHR ''/'' \<notin> set (strip media_id)" using m media_no_slash by (auto simp: normalize_media_id_def split: if_split_asm)
  moreover note read_stream_ok [OF r] s v meta [unfolded strip] k
  moreover obtain rest where "url_scheme (clean_url (strip url)) = (''https'', rest)" "netloc_ok (url_netloc rest)"
    "\<exists>allowed \<in> set MEDIA_DOWNLOAD_ALLOWED_HOSTS. url_host (url_netloc rest) = allowed
       \<or> (\<exists>sub. url_host (url_netloc rest) = sub @ ''.'' @ allowed)"
    using u by (rule allowed_url_parts)
  ultimately show ?thesis unfolding MEDIA_DOWNLOAD_ALLOWED_HOSTS_def list.set by blast
qed

definition sample_stream :: "string \<Rightarrow> string \<Rightarrow> stream_answer option" where
  "sample_stream tok url =
     Some \<lparr>sa_status = 200, sa_content_type = None, sa_content_length = Some ''3'', sa_chunks = [[1], [2, 3]]\<rparr>"

lemma download_contained_witness:
  "length (fst (projr (whatsapp_download_media sample_graph sample_net (\<lambda>_. True) sample_stream ''tok'' ''m1'' ''image'' None)))
    \<le> media_size_limit ''image''"
proof -
  have v: "normalize_graph_api_version (given_or None (WHATSAPP_API_VERSION (settings sample_graph))) = Some ''v25.0''"
    and m: "normalize_media_id ''m1'' = Some ''m1''"
    and g: "snd (wa_graph_request sample_graph sample_net ''GET'' [''v25.0'', ''m1''] ''tok'' None)
      = Inr (200, [(''url'', PStr ''https://cdn.fbcdn.net:443/m?x'')])"
    and u: "is_allowed_download_url (\<lambda>_. True) ''https://cdn.fbcdn.net:443/m?x'' = Some True"
    and n: "py_int ''3'' = Some 3"
    by code_simp+
  have "read_stream (media_size_limit ''image'') (\<lparr>sa_status = 200, sa_content_type = None, sa_content_length = Some ''3'',
      sa_chunks = [[1], [2, 3]]\<rparr>) = Inr ([1, 2, 3], ''application/octet-stream'')"
    by (simp add: read_stream_def declared_too_large_def text_of_def n media_size_limit_def MEDIA_SIZE_LIMITS_def dget_default_def)
  then have r: "whatsapp_download_media sample_graph sample_net (\<lambda>_. True) sample_stream ''tok'' ''m1'' ''image'' None
      = Inr ([1, 2, 3], ''application/octet-stream'')"
    by (simp add: whatsapp_download_media_def v m g download_from_def dget_default_def u sample_stream_def)
  from conjunct1 [OF download_contained [OF r]] show ?thesis by (simp add: r)
qed

text \<open>A host in the user part, or before the allowed name without a dot, is not trusted.\<close>

lemma disguised_hosts_refused:
  "is_allowed_download_url (\<lambda>_. True) ''https://fbcdn.net@evil.com/'' = Some False"
  "is_allowed_download_url (\<lambda>_. True) ''https://evilfbcdn.net/'' = Some False"
  "is_allowed_download_url (\<lambda>_. True) ''http://a.fbcdn.net/'' = Some False"
  by code_simp+

text \<open>The check of media identifiers admits a path step upwards.\<close>

lemma dots_pass_media_check: "normalize_media_id ''..'' = Some ''..''"
  by code_simp

end
