(* ===== verification/Text_Channel.thy ===== *)
theory Text_Channel
  imports Py_Records Bytes
begin

text \<open>
  \<open>app/channels/adk_text_adapter.py\<close>: a text or a media file of a customer goes through the agent
  graph and comes back as one text.  The framework is an input: what a run of a runner gives
  (\<open>run\<close>, per application and session), the identifier its session service gives a new session
  (\<open>assign\<close>) and the hash of a text.  Sessions are kept by application, user and identifier,
  with the state they were created with.
\<close>

definition CHANNEL_LIMITS :: "(string, nat) dict" where
  "CHANNEL_LIMITS = [(''whatsapp'', 4096), (''sms'', 160), (''default'', 4096)]"

definition channel_limit :: "string \<Rightarrow> nat" where
  "channel_limit channel = dget_default CHANNEL_LIMITS channel 4096"

definition DEFAULT_FALLBACK :: string where
  "DEFAULT_FALLBACK = ''Thanks for your message. How can I help you today?''"

definition DEFAULT_MEDIA_PROMPTS :: "(string, string) dict" where
  "DEFAULT_MEDIA_PROMPTS =
     [(''image'', ''The customer sent this image. Analyze it and respond helpfully.''),
      (''video'', ''The customer sent a video of their device. Analyze the video and respond helpfully.''),
      (''audio'', ''The customer sent a voice note. Listen to what they said and respond helpfully.''),
      (''default'', ''The customer sent media. Analyze it and respond helpfully.'')]"

definition MAX_MEDIA_BYTES :: nat where "MAX_MEDIA_BYTES = 20 * 1024 * 1024"

text \<open>\<open>None\<close> is \<open>ValueError\<close>.\<close>

definition derive_session_id :: "(string \<Rightarrow> string) \<Rightarrow> string \<Rightarrow> string \<Rightarrow> string option" where
  "derive_session_id sha256 channel user_id =
     (if strip channel = [] \<or> strip user_id = [] then None
      else Some (channel @ ''-'' @ take 24 (sha256 (channel @ '':'' @ user_id))))"

section \<open>Sessions\<close>

type_synonym session_key = "string \<times> string \<times> string"

type_synonym sessions = "(session_key, py_record) dict"

record registry_facts =
  rf_industry :: py
  rf_capabilities :: py
  rf_version :: py

text \<open>
  What the registry adds to a new session: nothing when it is off or fails, else the facts of
  the company's configuration, if there is one, and the lessons, if they load.
\<close>

definition registry_state :: "(registry_facts option \<times> py) option \<Rightarrow> py_record" where
  "registry_state boot =
     (case boot of
        None \<Rightarrow> []
      | Some (facts, lessons) \<Rightarrow>
          (case facts of
             None \<Rightarrow> []
           | Some f \<Rightarrow> [(''app:industry'', rf_industry f), (''app:industry_template_id'', rf_industry f)]
               @ (if truthy (rf_capabilities f) then [(''app:capabilities'', rf_capabilities f)] else [])
               @ (if truthy (rf_version f) then [(''app:registry_version'', rf_version f)] else []))
          @ (if truthy lessons then [(''app:global_lessons'', lessons)] else []))"

definition initial_state :: "string \<Rightarrow> string \<Rightarrow> string \<Rightarrow> (registry_facts option \<times> py) option \<Rightarrow> py_record" where
  "initial_state tenant_id company_id channel boot =
     [(''app:tenant_id'', PStr tenant_id), (''app:company_id'', PStr company_id), (''app:channel'', PStr channel)]
     @ registry_state boot"

definition ensure_session ::
  "(string \<Rightarrow> string) \<Rightarrow> string \<Rightarrow> string \<Rightarrow> string \<Rightarrow> py_record \<Rightarrow> sessions \<Rightarrow> sessions \<times> string" where
  "ensure_session assign app_name user_id session_id state ss =
     (case dget ss (app_name, user_id, session_id) of
        Some _ \<Rightarrow> (ss, session_id)
      | None \<Rightarrow>
          (let sid = or_else (assign session_id) session_id in (dset (app_name, user_id, sid) state ss, sid)))"

section \<open>Running the agents\<close>

record run_event =
  is_partial :: bool
  event_parts :: "string option list"

datatype run_end = Run_Finished | Server_Error | Other_Error

definition collected_texts :: "run_event list \<Rightarrow> string list" where
  "collected_texts evs =
     concat (map (\<lambda>ev. if is_partial ev then [] else filter (\<lambda>t. t \<noteq> []) (map text_of (event_parts ev))) evs)"

text \<open>\<open>None\<close> is \<open>ModelOverloadedError\<close>.\<close>

definition run_and_collect_text :: "run_event list \<times> run_end \<Rightarrow> string option" where
  "run_and_collect_text r =
     (case snd r of
        Server_Error \<Rightarrow> None
      | Other_Error \<Rightarrow> Some DEFAULT_FALLBACK
      | Run_Finished \<Rightarrow>
          (let cleaned = filter (\<lambda>t. t \<noteq> []) (map strip (collected_texts (fst r))) in
           Some (if cleaned = [] then DEFAULT_FALLBACK else join [lf, lf] cleaned)))"

datatype run_content = Text_Content string | Media_Content string bytes string

record text_channel =
  tc_sha256 :: "string \<Rightarrow> string"
  tc_assign :: "string \<Rightarrow> string"
  tc_run :: "string \<Rightarrow> string \<Rightarrow> string \<Rightarrow> run_content \<Rightarrow> run_event list \<times> run_end"
  tc_boot :: "(registry_facts option \<times> py) option"

record text_request =
  tr_app :: string
  tr_user :: string
  tr_channel :: string
  tr_tenant :: string
  tr_company :: string
  tr_fallback :: "string option"

text \<open>\<open>tr_fallback\<close>: the application name given for the fallback runner, when there is one.\<close>

datatype channel_error = Blank_Identity | Model_Overloaded

record channel_reply =
  reply_text :: string
  reply_session :: string

definition session_for :: "text_channel \<Rightarrow> text_request \<Rightarrow> string \<Rightarrow> string \<Rightarrow> sessions \<Rightarrow> sessions \<times> string" where
  "session_for c r app sid ss =
     ensure_session (tc_assign c) app (tr_user r) sid
       (initial_state (tr_tenant r) (tr_company r) (tr_channel r) (tc_boot c)) ss"

text \<open>
  The common part of both entry points: run in the customer's session, on overload once more with
  the fallback runner in its own application, and cut the answer to the channel's limit.
\<close>

definition run_with_fallback ::
  "text_channel \<Rightarrow> text_request \<Rightarrow> string \<Rightarrow> run_content \<Rightarrow> sessions \<Rightarrow> sessions \<times> (channel_error + channel_reply)" where
  "run_with_fallback c r derived contents ss =
     (case session_for c r (tr_app r) derived ss of
        (ss, sid) \<Rightarrow>
          (let answer = (\<lambda>t. Inr \<lparr>reply_text = take (channel_limit (tr_channel r)) t, reply_session = sid\<rparr>) in
           case run_and_collect_text (tc_run c (tr_app r) (tr_user r) sid contents) of
             Some t \<Rightarrow> (ss, answer t)
           | None \<Rightarrow>
               (case tr_fallback r of
                  None \<Rightarrow> (ss, answer DEFAULT_FALLBACK)
                | Some given \<Rightarrow>
                    (let app = or_else given (tr_app r @ ''_fallback'') in
                     case session_for c r app derived ss of
                       (ss, fb) \<Rightarrow>
                         (case run_and_collect_text (tc_run c app (tr_user r) fb contents) of
                            None \<Rightarrow> (ss, Inl Model_Overloaded)
                          | Some t \<Rightarrow> (ss, answer t))))))"

definition send_text_message ::
  "text_channel \<Rightarrow> text_request \<Rightarrow> string \<Rightarrow> sessions \<Rightarrow> sessions \<times> (channel_error + channel_reply)" where
  "send_text_message c r message_text ss =
     (case derive_session_id (tc_sha256 c) (tr_channel r) (tr_user r) of
        None \<Rightarrow> (ss, Inl Blank_Identity)
      | Some derived \<Rightarrow> run_with_fallback c r derived (Text_Content message_text) ss)"

definition media_prompt :: "string \<Rightarrow> string \<Rightarrow> string" where
  "media_prompt caption mime_type =
     (if strip caption \<noteq> [] then strip caption
      else dget_default DEFAULT_MEDIA_PROMPTS
        (if CHR ''/'' \<in> set mime_type then before CHR ''/'' mime_type else ''default'')
        (dget_default DEFAULT_MEDIA_PROMPTS ''default'' []))"

definition send_media_message ::
  "text_channel \<Rightarrow> text_request \<Rightarrow> bytes \<Rightarrow> string \<Rightarrow> string \<Rightarrow> sessions \<Rightarrow> sessions \<times> (channel_error + channel_reply)" where
  "send_media_message c r media_bytes mime_type caption ss =
     (case derive_session_id (tc_sha256 c) (tr_channel r) (tr_user r) of
        None \<Rightarrow> (ss, Inl Blank_Identity)
      | Some derived \<Rightarrow>
          if media_bytes = [] then (ss, Inr \<lparr>reply_text =
            ''Sorry, the media file appears to be empty. Please try sending it again.'', reply_session = derived\<rparr>)
          else if MAX_MEDIA_BYTES < length media_bytes then (ss, Inr \<lparr>reply_text =
            ''Sorry, that file is too large to process. Please send a smaller one.'', reply_session = derived\<rparr>)
          else run_with_fallback c r derived (Media_Content mime_type media_bytes (media_prompt caption mime_type)) ss)"

section \<open>Lemmas\<close>








section \<open>Conversations\<close>

datatype customer_message = Customer_Text string | Customer_Media bytes string string

fun send_customer_message ::
  "text_channel \<Rightarrow> text_request \<times> customer_message \<Rightarrow> sessions \<Rightarrow> sessions \<times> (channel_error + channel_reply)" where
  "send_customer_message c (r, Customer_Text t) ss = send_text_message c r t ss"
| "send_customer_message c (r, Customer_Media bs mime caption) ss = send_media_message c r bs mime caption ss"

definition conversation :: "text_channel \<Rightarrow> (text_request \<times> customer_message) list \<Rightarrow> sessions \<Rightarrow> sessions" where
  "conversation c ms ss = fold (\<lambda>m ss. fst (send_customer_message c m ss)) ms ss"





lemma conversation_Cons [simp]:
  "conversation c (m # ms) ss = conversation c ms (fst (send_customer_message c m ss))"
  by (simp add: conversation_def)






text \<open>
  A session service that makes up its own identifiers never finds the session again: every
  message of the customer starts a new one.
\<close>

lemma auto_ids_lose_conversation:
  assumes "dget ss (app, user, sid) = None" and "assign sid \<noteq> sid" and "assign sid \<noteq> []"
    and "ensure_session assign app user sid state ss = (ss', sid')"
  shows "sid' = assign sid \<and> dget ss' (app, user, sid) = None"
  using assms by (auto simp: ensure_session_def or_else_def Let_def)

end
