(* ===== verification/Spec2Isabelle.thy ===== *)
theory Spec2Isabelle
  imports Audio_Codec Rtp Srtp_Context Sip_Auth Sip_Tls Bridge_Config Sdp Sip_Register Wa_Server Codec_Bridge
    Valuation At_Idempotency Admin_Idempotency Ws_Auth Core_Helpers Wa_Security Scoped_Queries Booking Campaign
    Phone_Identity Udp_Server Py_Records Payments Payment_Books Delivery_Quotes Orders Wa_Outbound Wa_Send_Cloud
    Gateway_Client Call_Media Wa_Media Agent_Isolation Agent_Dedup Global_Lessons Stream_Protocol Stream_Silence Runtime_Ids
    Registry_Session Onboarding Company_Context Registry_Schema Inventory_Import
    Company_Data Catalog_Search Graph_Api Text_Channel
begin

text \<open>
  This library models ekaette, a voice assistant for shops and hotels, and proves what makes its
  parts correct.  The program is Python.  Two bridges (\<open>sip_bridge/\<close>) connect a telephone
  trunk (UDP) and WhatsApp calls (TLS) to a language model, directly or through the gateway of
  the main service (\<open>app/\<close>).  The service runs the agents with their tools, sends and receives
  WhatsApp messages, takes payments, and has an administration interface over Firestore.

  \<^bold>\<open>Foundations.\<close>  \<open>Prelude\<close> has dictionaries as association lists in insertion order; \<open>Bytes\<close>,
  \<open>Py_Strings\<close>, \<open>Float64\<close>, \<open>Py_Values\<close>, \<open>Py_Records\<close> and \<open>Base64\<close> are the parts of Python the
  code uses: byte packing, the methods of \<open>str\<close>, double-precision arithmetic as rational
  arithmetic with rounding, dynamically typed values, dictionaries of them.  A text is a list of
  characters below 256; a clock reading is a rational number; integers are unbounded, as
  Python's are, and bytes and wire fields are words.  Every raise and early return of the code
  is a value of a sum or option type.

  \<^bold>\<open>Interfaces.\<close>  \<open>Replay_Guard\<close> and \<open>Idempotency\<close> are the contracts of a duplicate filter and of
  an idempotency store, \<open>Framing\<close> of a message framing, \<open>Timed_Lock\<close> of a lock that expires.
  Each is a locale, interpreted by the code's own implementations in the theories below, and
  the properties rest on the facts of these interpretations.

  \<^bold>\<open>Telephone and WhatsApp signalling.\<close>  \<open>Audio_Codec\<close>, \<open>Codec_Bridge\<close> (\<open>audio_codec.py\<close>,
  \<open>codec_bridge.py\<close>: codecs and resamplers), \<open>Rtp\<close>, \<open>Srtp_Context\<close>, \<open>Sdp\<close> (packets, keys, offers
  and answers), \<open>Sip_Auth\<close> (digest authentication), \<open>Sip_Tls\<close> (framing of a byte stream, for
  every way it is cut into reads), \<open>Sip_Register\<close> (the registration client), \<open>Bridge_Config\<close>,
  \<open>Wa_Client\<close>, \<open>Wa_Server\<close> (\<open>wa_main.py\<close>: a server whose sessions need authentication and stay
  bounded), \<open>Udp_Server\<close> (\<open>server.py\<close>, a refinement of an abstract registrar).

  \<^bold>\<open>Calls.\<close>  \<open>Call_Session\<close> and \<open>Call_Media\<close> (\<open>session.py\<close>), \<open>Wa_Session\<close> and \<open>Wa_Media\<close>
  (\<open>wa_session.py\<close>, \<open>wa_tools.py\<close>) have one record per call and one step per iteration of each
  loop; a run is any interleaving of the steps.  The lemmas bound the queues, describe the packets sent
  exactly, and show when the caller is muted and greeted.  \<open>Gateway_Client\<close> (\<open>gateway_client.py\<close>) has the
  reconnect loop; the outcome of each attempt, a transfer that never ends included, is an input,
  and the retries and their waits are counted.

  \<^bold>\<open>Agents.\<close>  \<open>Agent_Policy\<close>, \<open>Agent_Dedup\<close>, \<open>Agent_Callbacks\<close>, \<open>Agent_Isolation\<close>,
  \<open>Global_Lessons\<close> (\<open>agents/callbacks.py\<close>, \<open>agents/dedup.py\<close>, \<open>configs/agent_policy.py\<close>,
  \<open>tools/global_lessons.py\<close>): which agents and tools a session may use, duplicate starts,
  telemetry and the numbered messages to the browser.  \<open>Stream_Tasks\<close>, \<open>Stream_Protocol\<close> and
  \<open>Stream_Silence\<close> (\<open>realtime/\<close>): the two directions of a browser session and its silence
  watchdog.  \<open>Runtime_Ids\<close> (\<open>main.py\<close>): identifiers and uploads.

  \<^bold>\<open>Tools and services.\<close>  \<open>Valuation\<close>, \<open>Booking\<close>, \<open>Scoped_Queries\<close>, \<open>Delivery_Quotes\<close>, \<open>Orders\<close>,
  \<open>Company_Knowledge\<close>, \<open>Catalog_Search\<close> over \<open>Text_Search\<close> (\<open>app/tools/\<close>); \<open>Payments\<close>, \<open>Payment_Books\<close>, \<open>Campaign\<close>,
  \<open>Wa_Outbound\<close>, \<open>Wa_Send_Cloud\<close>, \<open>Graph_Api\<close> (\<open>api/v1/at/\<close>), \<open>Text_Channel\<close> (\<open>app/channels/\<close>):
  prices, slots, quotes, orders, searches, payments with their books, campaign analytics,
  idempotent sending, the requests to WhatsApp with their retries and capped downloads, and the
  conversations of text channels.  The idempotent sender of WhatsApp messages and the locks of
  connectors are given in steps, one per access to the shared store, and every interleaving of
  them is a run.  The order tools run one after another in the property about reviews; the parts
  of a follow-up between its awaits are definitions of their own, which show what an overlap does.

  \<^bold>\<open>Access.\<close>  \<open>Ws_Auth\<close>, \<open>Core_Helpers\<close>, \<open>Wa_Security\<close>, \<open>At_Idempotency\<close>, \<open>Admin_Idempotency\<close>,
  \<open>Admin_Auth\<close>, \<open>Phone_Identity\<close>: tokens, rate limits, webhook and service authentication,
  idempotency of both interfaces, and who may administer which tenant.

  \<^bold>\<open>Configuration and administration.\<close>  \<open>Registry_Config\<close>, \<open>Registry_Session\<close>,
  \<open>Registry_Schema\<close>, \<open>Local_Configs\<close>, \<open>Onboarding\<close>, \<open>Company_Context\<close> (\<open>app/configs/\<close>): from the
  documents of a tenant to the state of a session.  \<open>Inventory\<close>, \<open>Inventory_Import\<close>
  and \<open>Company_Data\<close> (\<open>service_data.py\<close>, \<open>routes/data.py\<close>): imports into a company's
  collections, purges, retention, deletion and the scheduled sync.  \<open>Connector_Guard\<close>,
  \<open>Connector_Config\<close> (\<open>policy.py\<close>, \<open>service_connectors.py\<close>, \<open>host_allowlist.py\<close>): circuits and
  locks of connectors, with the requests of a lock one by one, and what a connector may be.
  \<open>Admin_Companies\<close>, \<open>Admin_Knowledge\<close> (\<open>service_companies.py\<close>, \<open>service_knowledge.py\<close> and
  their routes): writing companies, connectors under their lock, and knowledge entries.

  \<^bold>\<open>Parameters.\<close>  Hashes, HMAC, JSON and number texts, \<open>str()\<close> and \<open>repr()\<close> of values,
  libsrtp, libopus, libphonenumber, OIDC, the payment gateway, the carrier, the model
  and Firestore's answers are arguments of the definitions that use them.  A hypothesis about
  one states its documented behaviour (decoding undoes encoding, a repeated read gives what was
  written), and each property with hypotheses has a witness that evaluates it on a concrete input.
  Where a property needs more of the input than the code checks, the text before it says so, and
  a lemma beside it shows what happens without.  A function that reads the clock twice, with an
  \<open>await\<close> or other work between, takes two clock readings.

  \<^bold>\<open>Bounds and termination.\<close>  Every loop is structural recursion over its input or over the
  bytes still unread, with its measure.  Only the loop of a SIP connection takes fuel, one more
  than the length of its stream, which every message shortens (\<open>sip_connection_returns\<close>).  The
  limits in the statements (500 queued frames, 10000 remembered ids, 5000 rate-limit buckets) are the code's constants.

  \<^bold>\<open>Not modelled.\<close>  Process start, sockets, threads and the asyncio event loop; the wiring of
  the web framework and of the agent framework, prompt texts; the vendor clients of the live
  models and of AWS; the parsing of CSV and XLSX files; HTTP handlers that only pass a request
  on to a modelled function; operator scripts and seed data.  Infinities and NaN are outside the
  model of floats, except that the inventory import says which rows they abort, and code points above 255 outside that of texts.  The behaviour of these parts
  enters the model only as inputs.
\<close>

end
